(* ===== verification/Uthread_Prelude.thy ===== *)
theory Uthread_Prelude
  imports Main "HOL-Library.Word" "HOL-Library.Finite_Map"
begin

text \<open>
  Shared vocabulary of the development: the ways a piece of C code can end
  (\<open>error\<close>, \<open>outcome\<close>), sequencing of such pieces, the signed 32-bit \<open>int\<close>
  of C with its undefined overflow, and the collections of facts that the component
  theories use for symbolic execution.
\<close>

named_theorems exec_simps \<open>unfolding of sequencing and outcomes\<close>
named_theorems queue_simps \<open>behaviour of the queue operations on well-formed queues\<close>
named_theorems state_simps \<open>accessors and updates of the library state\<close>

section \<open>Outcomes of C code\<close>

text \<open>
  \<open>Assert_fail\<close>: an \<^verbatim>\<open>assert\<close> was false; \<open>Abort\<close>: an explicit call of
  \<^verbatim>\<open>abort()\<close>; \<open>Null_deref\<close>: a null pointer was dereferenced; \<open>Bad_pointer\<close>: a
  pointer to memory that is not allocated (never, or no longer) was used;
  \<open>Out_of_bounds\<close>: an array index outside the array; \<open>Signed_overflow\<close>: overflow of a
  signed \<open>int\<close>; \<open>Undefined\<close>: another undefined behaviour.
\<close>

datatype error =
    Assert_fail
  | Abort
  | Null_deref
  | Bad_pointer
  | Out_of_bounds
  | Signed_overflow
  | Undefined

text \<open>
  \<open>Block\<close> is the outcome of an operation that has to wait (a mutex held by somebody, a
  semaphore at zero): the caller makes no step in this state.
\<close>

datatype 'a outcome = Ok 'a | Block | Err error

primrec bind_o :: "'a outcome \<Rightarrow> ('a \<Rightarrow> 'b outcome) \<Rightarrow> 'b outcome" where
  "bind_o (Ok x) f = f x"
| "bind_o Block f = Block"
| "bind_o (Err e) f = Err e"

definition assert_o :: "bool \<Rightarrow> unit outcome" where
  "assert_o b = (if b then Ok () else Err Assert_fail)"

declare bind_o.simps [exec_simps]

lemma assert_o_simps [simp, exec_simps]:
  "assert_o True = Ok ()"
  "assert_o False = Err Assert_fail"
  by (simp_all add: assert_o_def)

lemma bind_o_Ok_iff:
  "bind_o m f = Ok y \<longleftrightarrow> (\<exists>x. m = Ok x \<and> f x = Ok y)"
  by (cases m) auto

lemma bind_o_Err_iff:
  "bind_o m f = Err e \<longleftrightarrow> m = Err e \<or> (\<exists>x. m = Ok x \<and> f x = Err e)"
  by (cases m) auto

lemma bind_o_Block_iff:
  "bind_o m f = Block \<longleftrightarrow> m = Block \<or> (\<exists>x. m = Ok x \<and> f x = Block)"
  by (cases m) auto

lemma assert_o_Ok_iff [simp]: "assert_o b = Ok u \<longleftrightarrow> b"
  by (simp add: assert_o_def)

lemma assert_o_Err_iff [simp]: "assert_o b = Err e \<longleftrightarrow> \<not> b \<and> e = Assert_fail"
  by (auto simp: assert_o_def)

lemma assert_o_Block [simp]: "assert_o b \<noteq> Block"
  by (simp add: assert_o_def)

lemma bind_o_assoc: "bind_o (bind_o m f) h = bind_o m (\<lambda>x. bind_o (f x) h)"
  by (cases m) auto

lemmas bind_o_iffs = bind_o_Ok_iff bind_o_Err_iff bind_o_Block_iff

section \<open>Addresses and C integers\<close>

text \<open>Addresses are natural numbers; address 0 is \<^verbatim>\<open>NULL\<close>.\<close>

type_synonym addr = nat

abbreviation NULL :: addr where "NULL \<equiv> 0"

definition INT_MAX :: int where "INT_MAX = 2147483647"
definition INT_MIN :: int where "INT_MIN = -2147483648"

text \<open>\<^verbatim>\<open>x++\<close> and \<^verbatim>\<open>x--\<close> on a signed \<open>int\<close>.\<close>

definition int_inc :: "int \<Rightarrow> int outcome" where
  "int_inc x = (if x < INT_MAX then Ok (x + 1) else Err Signed_overflow)"

definition int_dec :: "int \<Rightarrow> int outcome" where
  "int_dec x = (if INT_MIN < x then Ok (x - 1) else Err Signed_overflow)"

lemma int_inc_Ok [simp]: "x < INT_MAX \<Longrightarrow> int_inc x = Ok (x + 1)"
  by (simp add: int_inc_def)

lemma int_dec_Ok [simp]: "0 \<le> x \<Longrightarrow> int_dec x = Ok (x - 1)"
  by (simp add: int_dec_def INT_MIN_def)

lemma int_inc_Ok_iff: "int_inc x = Ok y \<longleftrightarrow> x < INT_MAX \<and> y = x + 1"
  by (auto simp: int_inc_def)

lemma int_dec_Ok_iff: "int_dec x = Ok y \<longleftrightarrow> INT_MIN < x \<and> y = x - 1"
  by (auto simp: int_dec_def)


section \<open>Options and lists\<close>

lemma option_eqI: "(\<And>p. a = Some p \<longleftrightarrow> b = Some p) \<Longrightarrow> a = b"
  by (cases a; cases b) auto

end
