(* ===== verification/Queue.thy ===== *)
theory Queue
  imports Uthread_Prelude
begin

text \<open>
  The linked-list queue of \<^verbatim>\<open>queue.h\<close> and \<^verbatim>\<open>queue.c\<close>. A queue embeds its list head
  as a node (\<^verbatim>\<open>this->head\<close>), so the tail pointer points either to that embedded node or to
  a node on the heap. The nodes that \<^verbatim>\<open>malloc\<close> gave to a queue are kept as a finite map
  beside its struct: nodes of different queues are different allocations and are reached
  from their own queue only. An operation that allocates takes the result of
  \<^verbatim>\<open>malloc\<close> as an argument (\<open>NULL\<close> when it fails), and \<^verbatim>\<open>free\<close> removes the
  node from the map, so that every later access to it is the error \<open>Bad_pointer\<close>.
\<close>

section \<open>Data\<close>

text \<open>Pointers to nodes: the head node inside the queue, or a heap node.\<close>

datatype nodeptr = Head | Node addr

record queuenode =
  item :: addr
  nextp :: addr

record queue_t =
  head :: queuenode
  tail :: nodeptr
  qsize :: int
  nodes :: "(addr, queuenode) fmap"

text \<open>Memory that was not initialised as a queue yet and owns no node.\<close>

definition blank_queue :: queue_t where
  "blank_queue = \<lparr>head = \<lparr>item = NULL, nextp = NULL\<rparr>, tail = Head, qsize = 0, nodes = fmempty\<rparr>"

section \<open>Memory accesses\<close>

definition read_node :: "queue_t \<Rightarrow> addr \<Rightarrow> queuenode outcome" where
  "read_node q n =
     (if n = NULL then Err Null_deref
      else case fmlookup (nodes q) n of None \<Rightarrow> Err Bad_pointer | Some d \<Rightarrow> Ok d)"

definition free_node :: "queue_t \<Rightarrow> addr \<Rightarrow> queue_t outcome" where
  "free_node q n =
     (if n = NULL then Ok q
      else case fmlookup (nodes q) n of
        None \<Rightarrow> Err Bad_pointer
      | Some _ \<Rightarrow> Ok (q\<lparr>nodes := fmdrop n (nodes q)\<rparr>))"

text \<open>The assignment \<^verbatim>\<open>p->next = v\<close>.\<close>

fun set_next :: "queue_t \<Rightarrow> nodeptr \<Rightarrow> addr \<Rightarrow> queue_t outcome" where
  "set_next q Head v = Ok (q\<lparr>head := (head q)\<lparr>nextp := v\<rparr>\<rparr>)"
| "set_next q (Node a) v =
     bind_o (read_node q a) (\<lambda>d. Ok (q\<lparr>nodes := fmupd a (d\<lparr>nextp := v\<rparr>) (nodes q)\<rparr>))"

section \<open>Operations\<close>

definition queue_init :: "queue_t \<Rightarrow> int \<times> queue_t" where
  "queue_init this =
     (0, this\<lparr>head := \<lparr>item = NULL, nextp = NULL\<rparr>, tail := Head, qsize := 0\<rparr>)"

text \<open>
  The loop of \<^verbatim>\<open>queue_destroy\<close> and \<^verbatim>\<open>queue_clear\<close>. Every iteration frees an
  allocated node, so the loop ends: with \<open>n = NULL\<close> or with an access to a node that is
  not allocated.
\<close>

function free_nodes :: "queue_t \<Rightarrow> addr \<Rightarrow> queue_t outcome" where
  "free_nodes q n =
     (if n = NULL then Ok q
      else case fmlookup (nodes q) n of
        None \<Rightarrow> Err Bad_pointer
      | Some d \<Rightarrow> free_nodes (q\<lparr>nodes := fmdrop n (nodes q)\<rparr>) (nextp d))"
  by pat_completeness auto
termination
  by (relation "measure (\<lambda>(q, n). fcard (fmdom (nodes q)))")
    (auto intro!: pfsubset_fcard_mono dest: fmdomI)

declare free_nodes.simps [simp del]

definition queue_destroy :: "queue_t \<Rightarrow> queue_t outcome" where
  "queue_destroy this = free_nodes this (nextp (head this))"

text \<open>\<open>ENOMEM\<close> is what \<^verbatim>\<open>errno\<close> holds after a failed \<^verbatim>\<open>malloc\<close>.\<close>

definition ENOMEM :: int where "ENOMEM = 12"

definition queue_enqueue :: "addr \<Rightarrow> queue_t \<Rightarrow> addr \<Rightarrow> (int \<times> queue_t) outcome" where
  "queue_enqueue malloced this it =
     bind_o (assert_o (it \<noteq> NULL)) (\<lambda>_.
     if malloced = NULL then Ok (ENOMEM, this)
     else
       let q1 = this\<lparr>nodes := fmupd malloced \<lparr>item = it, nextp = NULL\<rparr> (nodes this)\<rparr> in
       bind_o (set_next q1 (tail q1) malloced) (\<lambda>q2.
       let q3 = q2\<lparr>tail := Node malloced\<rparr> in
       bind_o (int_inc (qsize q3)) (\<lambda>n.
       Ok (0, q3\<lparr>qsize := n\<rparr>))))"

definition queue_insert_first :: "addr \<Rightarrow> queue_t \<Rightarrow> addr \<Rightarrow> (int \<times> queue_t) outcome" where
  "queue_insert_first malloced this it =
     bind_o (assert_o (it \<noteq> NULL)) (\<lambda>_.
     if malloced = NULL then Ok (ENOMEM, this)
     else
       let first = nextp (head this);
           q1 = this\<lparr>nodes := fmupd malloced \<lparr>item = it, nextp = first\<rparr> (nodes this)\<rparr>;
           q2 = (if first = NULL then q1\<lparr>tail := Node malloced\<rparr> else q1);
           q3 = q2\<lparr>head := (head q2)\<lparr>nextp := malloced\<rparr>\<rparr> in
       bind_o (int_inc (qsize q3)) (\<lambda>n.
       Ok (0, q3\<lparr>qsize := n\<rparr>)))"

definition queue_clear :: "queue_t \<Rightarrow> queue_t outcome" where
  "queue_clear this =
     bind_o (free_nodes this (nextp (head this))) (\<lambda>q.
     Ok (q\<lparr>tail := Head, qsize := 0\<rparr>))"

definition queue_peek :: "queue_t \<Rightarrow> addr outcome" where
  "queue_peek this =
     (let n = nextp (head this) in
      if n \<noteq> NULL then bind_o (read_node this n) (\<lambda>d. Ok (item d)) else Ok NULL)"

definition queue_dequeue :: "queue_t \<Rightarrow> (addr \<times> queue_t) outcome" where
  "queue_dequeue this =
     (let n = nextp (head this) in
      if n = NULL then Ok (NULL, this)
      else
        bind_o (read_node this n) (\<lambda>d.
        let q1 = this\<lparr>head := (head this)\<lparr>nextp := nextp d\<rparr>\<rparr>;
            q2 = (if nextp d = NULL then q1\<lparr>tail := Head\<rparr> else q1) in
        bind_o (int_dec (qsize q2)) (\<lambda>k.
        bind_o (free_node (q2\<lparr>qsize := k\<rparr>) n) (\<lambda>q3.
        Ok (item d, q3)))))"

text \<open>
  The loop of \<^verbatim>\<open>queue_remove_item\<close>, as written: the body advances \<open>n\<close> once and the
  loop header advances it again. On a cyclic list the loop may run forever, which is the
  value \<open>None\<close>.
\<close>

partial_function (option) remove_loop ::
  "queue_t \<Rightarrow> addr \<Rightarrow> nodeptr \<Rightarrow> addr \<Rightarrow> (int \<times> queue_t) outcome option" where
  "remove_loop q it prev n =
     (if n = NULL then Some (Ok (-1, q))
      else case read_node q n of
        Ok d \<Rightarrow>
          if item d = it then
            Some (let q1 = (if nextp d = NULL then q\<lparr>tail := prev\<rparr> else q) in
                  bind_o (set_next q1 prev (nextp d)) (\<lambda>q2.
                  bind_o (int_dec (qsize q2)) (\<lambda>k.
                  bind_o (free_node (q2\<lparr>qsize := k\<rparr>) n) (\<lambda>q3.
                  Ok (0, q3)))))
          else (case read_node q (nextp d) of
              Ok d' \<Rightarrow> remove_loop q it (Node n) (nextp d')
            | Block \<Rightarrow> Some Block
            | Err e \<Rightarrow> Some (Err e))
      | Block \<Rightarrow> Some Block
      | Err e \<Rightarrow> Some (Err e))"

definition queue_remove_item :: "queue_t \<Rightarrow> addr \<Rightarrow> (int \<times> queue_t) outcome option" where
  "queue_remove_item this it = remove_loop this it Head (nextp (head this))"

definition queue_size :: "queue_t \<Rightarrow> int" where
  "queue_size this = qsize this"

section \<open>Abstraction: the list of items\<close>

text \<open>
  \<open>seg h n as m\<close>: following \<open>next\<close> from address \<open>n\<close> visits the nodes \<open>as\<close> and
  arrives at \<open>m\<close>. A queue represents the list \<open>xs\<close> when the nodes reached from its head
  carry \<open>xs\<close>, no node is leaked or shared, the tail points to the last node (to the
  embedded head when there is none) and the size field is the length.
\<close>

primrec seg :: "(addr, queuenode) fmap \<Rightarrow> addr \<Rightarrow> addr list \<Rightarrow> addr \<Rightarrow> bool" where
  "seg h n [] m \<longleftrightarrow> n = m"
| "seg h n (a # as) m \<longleftrightarrow>
     n = a \<and> a \<noteq> NULL \<and> (\<exists>d. fmlookup h a = Some d \<and> seg h (nextp d) as m)"

definition node_item :: "(addr, queuenode) fmap \<Rightarrow> addr \<Rightarrow> addr" where
  "node_item h a = (case fmlookup h a of None \<Rightarrow> NULL | Some d \<Rightarrow> item d)"

definition queue_shape :: "queue_t \<Rightarrow> addr list \<Rightarrow> bool" where
  "queue_shape q as \<longleftrightarrow>
     seg (nodes q) (nextp (head q)) as NULL \<and> distinct as \<and>
     fset (fmdom (nodes q)) = set as \<and>
     (\<forall>a \<in> set as. node_item (nodes q) a \<noteq> NULL) \<and>
     tail q = (if as = [] then Head else Node (last as)) \<and>
     qsize q = int (length as) \<and> int (length as) \<le> INT_MAX"

definition queue_rep :: "queue_t \<Rightarrow> addr list \<Rightarrow> bool" where
  "queue_rep q xs \<longleftrightarrow> (\<exists>as. queue_shape q as \<and> xs = map (node_item (nodes q)) as)"

text \<open>The represented list, computed: follow the pointers for as many steps as there are nodes.\<close>

primrec items_from :: "nat \<Rightarrow> (addr, queuenode) fmap \<Rightarrow> addr \<Rightarrow> addr list" where
  "items_from 0 h n = []"
| "items_from (Suc k) h n =
     (if n = NULL then [] else case fmlookup h n of
        None \<Rightarrow> []
      | Some d \<Rightarrow> item d # items_from k h (nextp d))"

definition queue_items :: "queue_t \<Rightarrow> addr list" where
  "queue_items q = items_from (fcard (fmdom (nodes q))) (nodes q) (nextp (head q))"

definition queue_ok :: "queue_t \<Rightarrow> bool" where
  "queue_ok q \<longleftrightarrow> queue_rep q (queue_items q)"

section \<open>Lemmas on node segments\<close>

lemma seg_append [simp]:
  "seg h n (as @ bs) m \<longleftrightarrow> (\<exists>k. seg h n as k \<and> seg h k bs m)"
  by (induction as arbitrary: n) auto

lemma seg_upd [simp]:
  "a \<notin> set as \<Longrightarrow> seg (fmupd a d h) n as m = seg h n as m"
  by (induction as arbitrary: n) auto

lemma seg_drop [simp]:
  "a \<notin> set as \<Longrightarrow> seg (fmdrop a h) n as m = seg h n as m"
  by (induction as arbitrary: n) auto

lemma seg_NULL [simp]: "seg h NULL as m \<longleftrightarrow> as = [] \<and> m = NULL"
  by (cases as) auto

lemma node_item_upd [simp]:
  "node_item (fmupd a d h) b = (if a = b then item d else node_item h b)"
  by (simp add: node_item_def)

lemma node_item_drop [simp]:
  "a \<noteq> b \<Longrightarrow> node_item (fmdrop a h) b = node_item h b"
  by (simp add: node_item_def)

lemma items_from_seg:
  "seg h n as NULL \<Longrightarrow> length as \<le> k \<Longrightarrow> items_from k h n = map (node_item h) as"
proof (induction as arbitrary: n k)
  case Nil
  then show ?case by (cases k) auto
next
  case (Cons a as)
  then show ?case by (cases k) (auto simp: node_item_def)
qed

lemma fcard_dom_eq_length:
  "distinct as \<Longrightarrow> fset (fmdom h) = set as \<Longrightarrow> fcard (fmdom h) = length as"
  by (simp add: fcard.rep_eq distinct_card)

lemma queue_rep_items: "queue_rep q xs \<Longrightarrow> queue_items q = xs"
  by (auto simp: queue_rep_def queue_shape_def queue_items_def fcard_dom_eq_length items_from_seg)

lemma queue_rep_iff: "queue_rep q xs \<longleftrightarrow> queue_ok q \<and> xs = queue_items q"
  by (auto simp: queue_ok_def dest: queue_rep_items)

lemma queue_rep_size: "queue_rep q xs \<Longrightarrow> qsize q = int (length xs)"
  by (auto simp: queue_rep_def queue_shape_def)

lemma queue_rep_nonnull: "queue_rep q xs \<Longrightarrow> x \<in> set xs \<Longrightarrow> x \<noteq> NULL"
  by (auto simp: queue_rep_def queue_shape_def)

section \<open>Behaviour of the operations\<close>

lemma queue_init_rep:
  "nodes q = fmempty \<Longrightarrow> queue_rep (snd (queue_init q)) [] \<and> fst (queue_init q) = 0"
  by (auto simp: queue_init_def queue_rep_def queue_shape_def INT_MAX_def)

lemma shape_enqueue:
  assumes sh: "queue_shape q as" and it: "it \<noteq> NULL" and m: "m \<noteq> NULL"
    and fresh: "m |\<notin>| fmdom (nodes q)" and room: "int (length as) < INT_MAX"
  shows "\<exists>q'. queue_enqueue m q it = Ok (0, q') \<and> queue_shape q' (as @ [m]) \<and>
    map (node_item (nodes q')) (as @ [m]) = map (node_item (nodes q)) as @ [it] \<and>
    fmdom (nodes q') = finsert m (fmdom (nodes q))"
proof (cases as rule: rev_cases)
  case Nil
  with assms show ?thesis
    by (auto simp: queue_enqueue_def queue_shape_def Let_def)
next
  case (snoc bs b)
  from fresh sh have new: "m \<notin> set as" by (auto simp: queue_shape_def)
  from sh snoc obtain d where d: "fmlookup (nodes q) b = Some d" "nextp d = NULL" "b \<noteq> NULL"
    "seg (nodes q) (nextp (head q)) bs b"
    by (auto simp: queue_shape_def)
  have dom: "b |\<in>| fmdom (nodes q)" using d by (auto intro: fmdomI)
  have it_b: "item d = node_item (nodes q) b" using d by (simp add: node_item_def)
  from sh snoc d new it m room dom it_b show ?thesis
    by (auto simp: queue_enqueue_def queue_shape_def Let_def read_node_def)
qed

lemma queue_enqueue_rep:
  assumes "queue_rep q xs" "it \<noteq> NULL" "m \<noteq> NULL" "m |\<notin>| fmdom (nodes q)"
    "int (length xs) < INT_MAX"
  shows "\<exists>q'. queue_enqueue m q it = Ok (0, q') \<and> queue_rep q' (xs @ [it]) \<and>
    fmdom (nodes q') = finsert m (fmdom (nodes q))"
proof -
  from assms(1) obtain as where as: "queue_shape q as" "xs = map (node_item (nodes q)) as"
    by (auto simp: queue_rep_def)
  with assms(5) have "int (length as) < INT_MAX" by simp
  from shape_enqueue [OF as(1) assms(2-4) this] as(2) show ?thesis
    unfolding queue_rep_def by metis
qed

lemma queue_enqueue_no_memory:
  "it \<noteq> NULL \<Longrightarrow> queue_enqueue NULL q it = Ok (ENOMEM, q)"
  by (simp add: queue_enqueue_def)

lemma shape_insert_first:
  assumes sh: "queue_shape q as" and it: "it \<noteq> NULL" and m: "m \<noteq> NULL"
    and fresh: "m |\<notin>| fmdom (nodes q)" and room: "int (length as) < INT_MAX"
  shows "\<exists>q'. queue_insert_first m q it = Ok (0, q') \<and> queue_shape q' (m # as) \<and>
    map (node_item (nodes q')) (m # as) = it # map (node_item (nodes q)) as"
proof (cases as)
  case Nil
  with assms show ?thesis
    by (auto simp: queue_insert_first_def queue_shape_def Let_def)
next
  case (Cons b bs)
  from fresh sh have "m \<notin> set as" by (auto simp: queue_shape_def)
  with sh Cons it m room show ?thesis
    by (auto simp: queue_insert_first_def queue_shape_def Let_def)
qed

lemma queue_insert_first_rep:
  assumes "queue_rep q xs" "it \<noteq> NULL" "m \<noteq> NULL" "m |\<notin>| fmdom (nodes q)"
    "int (length xs) < INT_MAX"
  shows "\<exists>q'. queue_insert_first m q it = Ok (0, q') \<and> queue_rep q' (it # xs)"
proof -
  from assms(1) obtain as where as: "queue_shape q as" "xs = map (node_item (nodes q)) as"
    by (auto simp: queue_rep_def)
  with assms(5) have "int (length as) < INT_MAX" by simp
  from shape_insert_first [OF as(1) assms(2-4) this] as(2) show ?thesis
    unfolding queue_rep_def by metis
qed

lemma shape_dequeue:
  assumes sh: "queue_shape q (a # as)"
  shows "\<exists>q'. queue_dequeue q = Ok (node_item (nodes q) a, q') \<and> queue_shape q' as \<and>
    map (node_item (nodes q')) as = map (node_item (nodes q)) as \<and>
    fmdom (nodes q') = fmdom (nodes q) |-| {|a|}"
proof -
  from sh obtain d where d: "fmlookup (nodes q) a = Some d" "seg (nodes q) (nextp d) as NULL"
    "a \<noteq> NULL" "nextp (head q) = a" "a \<notin> set as"
    by (auto simp: queue_shape_def)
  show ?thesis
  proof (cases as)
    case Nil
    with d sh show ?thesis
      by (auto simp: queue_dequeue_def queue_shape_def Let_def read_node_def free_node_def
          node_item_def INT_MAX_def)
  next
    case (Cons b bs)
    then have "nextp d \<noteq> NULL" using d(2) by auto
    moreover from d(5) have "node_item (fmdrop a (nodes q)) x = node_item (nodes q) x"
      if "x \<in> set as" for x using that by (cases "a = x") auto
    moreover have "fset (fmdom (nodes q)) - {a} = set as"
      using sh d(5) by (auto simp: queue_shape_def)
    ultimately show ?thesis
      using d sh Cons
      by (auto simp: queue_dequeue_def queue_shape_def Let_def read_node_def free_node_def
          node_item_def [of "nodes q" a])
  qed
qed

lemma queue_dequeue_rep:
  assumes "queue_rep q (x # xs)"
  shows "\<exists>q'. queue_dequeue q = Ok (x, q') \<and> queue_rep q' xs \<and>
    fmdom (nodes q') |\<subseteq>| fmdom (nodes q)"
proof -
  from assms obtain a as where as: "queue_shape q (a # as)"
    "x = node_item (nodes q) a" "xs = map (node_item (nodes q)) as"
    by (auto simp: queue_rep_def Cons_eq_map_conv)
  from shape_dequeue [OF as(1)] as(2,3) show ?thesis
    unfolding queue_rep_def by (metis fminus_fsubset_conv fsubsetI funionCI)
qed

lemma queue_dequeue_empty: "queue_rep q [] \<Longrightarrow> queue_dequeue q = Ok (NULL, q)"
  by (auto simp: queue_rep_def queue_shape_def queue_dequeue_def)

lemma queue_peek_rep:
  "queue_rep q xs \<Longrightarrow> queue_peek q = Ok (case xs of [] \<Rightarrow> NULL | x # _ \<Rightarrow> x)"
  by (auto simp: queue_rep_def queue_shape_def queue_peek_def Let_def read_node_def node_item_def
      split: list.splits)

lemma queue_size_rep: "queue_rep q xs \<Longrightarrow> queue_size q = int (length xs)"
  by (simp add: queue_size_def queue_rep_size)

subsection \<open>Destroying and clearing\<close>

lemma free_nodes_seg:
  "seg (nodes q) n as NULL \<Longrightarrow> distinct as \<Longrightarrow>
   \<exists>h. free_nodes q n = Ok (q\<lparr>nodes := h\<rparr>) \<and> fset (fmdom h) = fset (fmdom (nodes q)) - set as"
proof (induction as arbitrary: q n)
  case Nil
  then show ?case
    by (auto simp: free_nodes.simps intro!: exI [of _ "nodes q"])
next
  case (Cons a as)
  then obtain d where d: "n = a" "a \<noteq> NULL" "fmlookup (nodes q) a = Some d"
    "seg (nodes q) (nextp d) as NULL" by auto
  let ?q = "q\<lparr>nodes := fmdrop a (nodes q)\<rparr>"
  have "seg (nodes ?q) (nextp d) as NULL" using d Cons.prems by simp
  from Cons.IH [OF this] Cons.prems obtain h where h:
    "free_nodes ?q (nextp d) = Ok (?q\<lparr>nodes := h\<rparr>)"
    "fset (fmdom h) = fset (fmdom (nodes ?q)) - set as" by auto
  moreover have "free_nodes q n = free_nodes ?q (nextp d)"
    using d by (simp add: free_nodes.simps [of q a])
  ultimately show ?case by (auto intro!: exI [of _ h])
qed

lemma fmdom_empty_iff: "fset (fmdom h) = {} \<Longrightarrow> h = fmempty"
  by (intro fmap_ext) (metis bot_fset.rep_eq fempty_iff fmdom_notD fmempty_lookup fset_inject)

lemma free_nodes_rep:
  assumes "queue_rep q xs"
  shows "free_nodes q (nextp (head q)) = Ok (q\<lparr>nodes := fmempty\<rparr>)"
proof -
  from assms obtain as where as: "queue_shape q as" by (auto simp: queue_rep_def)
  then obtain h where "free_nodes q (nextp (head q)) = Ok (q\<lparr>nodes := h\<rparr>)"
    "fset (fmdom h) = fset (fmdom (nodes q)) - set as"
    using free_nodes_seg [of q "nextp (head q)" as] by (auto simp: queue_shape_def)
  with as show ?thesis using fmdom_empty_iff by (auto simp: queue_shape_def)
qed

lemma queue_destroy_frees_all:
  "queue_rep q xs \<Longrightarrow> queue_destroy q = Ok (q\<lparr>nodes := fmempty\<rparr>)"
  by (simp add: queue_destroy_def free_nodes_rep)

lemma queue_rep_head_nonnull: "queue_rep q xs \<Longrightarrow> nextp (head q) = NULL \<longleftrightarrow> xs = []"
  by (auto simp: queue_rep_def queue_shape_def)

lemma queue_clear_dangling:
  assumes "queue_rep q xs" "xs \<noteq> []"
  shows "\<exists>q'. queue_clear q = Ok q' \<and> queue_size q' = 0 \<and>
    queue_peek q' = Err Bad_pointer \<and> queue_dequeue q' = Err Bad_pointer"
  using assms queue_rep_head_nonnull [OF assms(1)]
  by (simp add: queue_clear_def free_nodes_rep queue_size_def queue_peek_def queue_dequeue_def
      read_node_def Let_def)

lemma queue_clear_enqueue:
  assumes "queue_rep q xs" "it \<noteq> NULL" "m \<noteq> NULL"
  shows "\<exists>q' q''. queue_clear q = Ok q' \<and> queue_enqueue m q' it = Ok (0, q'') \<and> queue_rep q'' [it]"
  using assms
  by (auto simp: queue_clear_def free_nodes_rep queue_enqueue_def Let_def INT_MAX_def
      queue_rep_def queue_shape_def node_item_def int_inc_def)

subsection \<open>Removing an item\<close>

text \<open>The items the loop looks at: every other item, starting with the first.\<close>

fun every_other :: "'a list \<Rightarrow> 'a list" where
  "every_other [] = []"
| "every_other [x] = [x]"
| "every_other (x # y # zs) = x # every_other zs"

lemma remove_loop_miss:
  "seg (nodes q) n as NULL \<Longrightarrow> it \<notin> set (every_other (map (node_item (nodes q)) as)) \<Longrightarrow>
   remove_loop q it prev n = Some (if even (length as) then Ok (-1, q) else Err Null_deref)"
proof (induction as arbitrary: n prev rule: every_other.induct)
  case 1
  then show ?case by (simp add: remove_loop.simps)
next
  case (2 a)
  then show ?case by (auto simp: remove_loop.simps read_node_def node_item_def)
next
  case (3 a b as)
  then obtain d d' where d: "n = a" "a \<noteq> NULL" "fmlookup (nodes q) a = Some d" "nextp d = b"
    "b \<noteq> NULL" "fmlookup (nodes q) b = Some d'" "seg (nodes q) (nextp d') as NULL" by auto
  from d 3 have "remove_loop q it (Node a) (nextp d') =
    Some (if even (length as) then Ok (-1, q) else Err Null_deref)" by auto
  moreover have "item d \<noteq> it" using 3(3) d by (auto simp: node_item_def)
  ultimately show ?case
    using d by (simp add: remove_loop.simps [of q it prev a] read_node_def)
qed

lemma remove_loop_skip:
  "seg (nodes q) n (as @ cs) m \<Longrightarrow> even (length as) \<Longrightarrow>
   it \<notin> set (every_other (map (node_item (nodes q)) as)) \<Longrightarrow>
   \<exists>k. seg (nodes q) k cs m \<and>
     remove_loop q it prev n =
       remove_loop q it (if as = [] then prev else Node (as ! (length as - 2))) k"
proof (induction as arbitrary: n prev rule: every_other.induct)
  case 1
  then show ?case by auto
next
  case (2 a)
  then show ?case by simp
next
  case (3 a b as)
  then obtain d d' where d: "n = a" "a \<noteq> NULL" "fmlookup (nodes q) a = Some d" "nextp d = b"
    "b \<noteq> NULL" "fmlookup (nodes q) b = Some d'" "seg (nodes q) (nextp d') (as @ cs) m" by auto
  have "item d \<noteq> it" using 3(4) d by (auto simp: node_item_def)
  then have "remove_loop q it prev n = remove_loop q it (Node a) (nextp d')"
    using d by (simp add: remove_loop.simps [of q it prev a] read_node_def)
  moreover have "(a # b # as) ! (length (a # b # as) - 2) = as ! (length as - 2)" if "as \<noteq> []"
  proof -
    from that 3(3) obtain m where "length as = Suc (Suc m)"
      by (cases as; cases "tl as") auto
    then show ?thesis by simp
  qed
  ultimately show ?case using 3(1) [OF d(7), of "Node a"] 3(3,4) by auto
qed

lemma queue_remove_item_miss:
  assumes "queue_rep q xs" "it \<notin> set (every_other xs)"
  shows "queue_remove_item q it =
    Some (if even (length xs) then Ok (-1, q) else Err Null_deref)"
  using assms remove_loop_miss
  by (auto simp: queue_remove_item_def queue_rep_def queue_shape_def)

lemma queue_remove_item_first:
  assumes "queue_rep q (it # xs)"
  shows "\<exists>q'. queue_remove_item q it = Some (Ok (0, q')) \<and> queue_rep q' xs"
proof -
  from assms obtain a as where as: "queue_shape q (a # as)"
    "it = node_item (nodes q) a" "xs = map (node_item (nodes q)) as"
    by (auto simp: queue_rep_def Cons_eq_map_conv)
  from shape_dequeue [OF as(1)] as(2) obtain q' where q': "queue_dequeue q = Ok (it, q')"
    "queue_shape q' as" "map (node_item (nodes q')) as = xs"
    using as(3) by auto
  from as obtain d where d: "nextp (head q) = a" "a \<noteq> NULL" "fmlookup (nodes q) a = Some d"
    "item d = it" by (auto simp: queue_shape_def node_item_def)
  have "queue_remove_item q it = Some (Ok (0, q'))"
    using q'(1) d
    by (auto simp: queue_remove_item_def queue_dequeue_def remove_loop.simps [of q it Head a]
        read_node_def free_node_def Let_def bind_o_Ok_iff int_dec_Ok_iff split: if_splits)
  with q' show ?thesis by (auto simp: queue_rep_def)
qed

text \<open>
  A hit at a later position of the traversal: the predecessor the loop remembers is two
  nodes back, so the node in between is cut off together with the removed one.
\<close>

lemma shape_remove_later:
  assumes sh: "queue_shape q (as @ [u, v] @ c # cs)" and ev: "even (length as)"
    and miss: "it \<notin> set (every_other (map (node_item (nodes q)) (as @ [u, v])))"
    and hit: "node_item (nodes q) c = it"
  shows "\<exists>q'. queue_remove_item q it = Some (Ok (0, q')) \<and>
    seg (nodes q') (nextp (head q')) (as @ u # cs) NULL \<and>
    map (node_item (nodes q')) (as @ u # cs) = map (node_item (nodes q)) (as @ u # cs) \<and>
    fset (fmdom (nodes q')) = set (as @ [u, v] @ cs) \<and> qsize q' = qsize q - 1"
proof -
  let ?h = "nodes q"
  have sg: "seg ?h (nextp (head q)) ((as @ [u, v]) @ c # cs) NULL" and
    dist: "distinct (as @ [u, v] @ c # cs)" and sz: "0 < qsize q" and
    dom: "fset (fmdom ?h) = set (as @ [u, v] @ c # cs)"
    using sh by (auto simp: queue_shape_def)
  from remove_loop_skip [OF sg _ miss, of Head] ev
  have loop: "queue_remove_item q it = remove_loop q it (Node u) c"
    by (auto simp: queue_remove_item_def nth_append)
  from sg obtain du dc where nodes: "fmlookup ?h u = Some du" "u \<noteq> NULL"
    "fmlookup ?h c = Some dc" "c \<noteq> NULL" "item dc = it" "seg ?h (nextp dc) cs NULL"
    "seg ?h (nextp (head q)) as u"
    using hit by (auto simp: node_item_def)
  define h' where "h' = fmdrop c (fmupd u (du\<lparr>nextp := nextp dc\<rparr>) ?h)"
  define q1 where "q1 = (if nextp dc = NULL then q\<lparr>tail := Node u\<rparr> else q)"
  have "u \<noteq> c" using dist by auto
  then have "remove_loop q it (Node u) c = Some (Ok (0, q1\<lparr>qsize := qsize q - 1, nodes := h'\<rparr>))"
    using nodes sz by (auto simp: remove_loop.simps [of q it "Node u" c] read_node_def q1_def h'_def
        free_node_def Let_def)
  moreover have "seg h' (nextp (head q1)) (as @ u # cs) NULL"
    using nodes dist \<open>u \<noteq> c\<close> by (auto simp: h'_def q1_def)
  moreover have "map (node_item h') (as @ u # cs) = map (node_item ?h) (as @ u # cs)"
    using nodes dist by (auto simp: h'_def node_item_def)
  moreover have "fset (fmdom h') = set (as @ [u, v] @ cs)"
    using dom dist by (auto simp: h'_def)
  ultimately show ?thesis using loop by (auto simp: q1_def)
qed

lemma queue_remove_item_later:
  assumes rep: "queue_rep q (xs @ [u, v] @ it # zs)" and ev: "even (length xs)"
    and miss: "it \<notin> set (every_other (xs @ [u, v]))"
  shows "\<exists>q'. queue_remove_item q it = Some (Ok (0, q')) \<and> queue_items q' = xs @ u # zs \<and>
    queue_size q' = int (length xs) + 2 + int (length zs)"
proof -
  from rep obtain as a b c cs where sh: "queue_shape q (as @ [a, b] @ c # cs)"
    and xs: "xs = map (node_item (nodes q)) as" "u = node_item (nodes q) a"
      "v = node_item (nodes q) b" "it = node_item (nodes q) c" "zs = map (node_item (nodes q)) cs"
    by (auto simp: queue_rep_def append_eq_map_conv Cons_eq_map_conv)
  from sh have dist: "distinct (as @ [a, b] @ c # cs)"
    and sz: "qsize q = int (length as) + 3 + int (length cs)" by (auto simp: queue_shape_def)
  have ev': "even (length as)" using ev xs(1) by simp
  have miss': "it \<notin> set (every_other (map (node_item (nodes q)) (as @ [a, b])))"
    using miss unfolding xs(1-3) by simp
  from shape_remove_later [OF sh ev' miss' xs(4) [symmetric]] obtain q' where q':
    "queue_remove_item q it = Some (Ok (0, q'))"
    "seg (nodes q') (nextp (head q')) (as @ a # cs) NULL"
    "map (node_item (nodes q')) (as @ a # cs) = map (node_item (nodes q)) (as @ a # cs)"
    "fset (fmdom (nodes q')) = set (as @ [a, b] @ cs)" "qsize q' = qsize q - 1" by blast
  have "fcard (fmdom (nodes q')) = length (as @ [a, b] @ cs)"
    using dist q'(4) by (intro fcard_dom_eq_length) auto
  then have "queue_items q' = map (node_item (nodes q')) (as @ a # cs)"
    unfolding queue_items_def by (intro items_from_seg [OF q'(2)]) simp
  also have "\<dots> = xs @ u # zs" unfolding q'(3) xs by simp
  finally have "queue_items q' = xs @ u # zs" .
  moreover have "length as = length xs" "length cs = length zs" using xs by simp_all
  ultimately show ?thesis using q'(1,5) sz by (auto simp: queue_size_def)
qed

section \<open>The queue as an abstract FIFO\<close>

text \<open>
  What the thread library relies on: an operation sequence of enqueues (each with the
  address its \<^verbatim>\<open>malloc\<close> returned) and dequeues. \<open>run_ops\<close> executes it on an
  implementation and collects what the dequeues return, \<open>spec_ops\<close> on a list.
\<close>

datatype queue_op = Enqueue addr addr | Dequeue

primrec run_ops ::
  "(addr \<Rightarrow> 'q \<Rightarrow> addr \<Rightarrow> (int \<times> 'q) outcome) \<Rightarrow> ('q \<Rightarrow> (addr \<times> 'q) outcome) \<Rightarrow>
   queue_op list \<Rightarrow> 'q \<Rightarrow> (addr list \<times> 'q) outcome" where
  "run_ops enq deq [] q = Ok ([], q)"
| "run_ops enq deq (x # xs) q =
     (case x of
        Enqueue m it \<Rightarrow> bind_o (enq m q it) (\<lambda>(_, q'). run_ops enq deq xs q')
      | Dequeue \<Rightarrow> bind_o (deq q) (\<lambda>(r, q').
          bind_o (run_ops enq deq xs q') (\<lambda>(rs, q''). Ok (r # rs, q''))))"

primrec spec_ops :: "queue_op list \<Rightarrow> addr list \<Rightarrow> addr list \<times> addr list" where
  "spec_ops [] ys = ([], ys)"
| "spec_ops (x # xs) ys =
     (case x of
        Enqueue m it \<Rightarrow> spec_ops xs (ys @ [it])
      | Dequeue \<Rightarrow> (case ys of
            [] \<Rightarrow> (let (rs, zs) = spec_ops xs [] in (NULL # rs, zs))
          | y # ys' \<Rightarrow> (let (rs, zs) = spec_ops xs ys' in (y # rs, zs))))"

fun op_alloc :: "queue_op \<Rightarrow> addr list" where
  "op_alloc (Enqueue m it) = [m]"
| "op_alloc Dequeue = []"

fun op_item_ok :: "queue_op \<Rightarrow> bool" where
  "op_item_ok (Enqueue m it) \<longleftrightarrow> m \<noteq> NULL \<and> it \<noteq> NULL"
| "op_item_ok Dequeue \<longleftrightarrow> True"

abbreviation op_allocs :: "queue_op list \<Rightarrow> addr list" where
  "op_allocs xs \<equiv> concat (map op_alloc xs)"

locale fifo_queue =
  fixes rep :: "'q \<Rightarrow> addr list \<Rightarrow> bool"
    and owns :: "'q \<Rightarrow> addr set"
    and enq :: "addr \<Rightarrow> 'q \<Rightarrow> addr \<Rightarrow> (int \<times> 'q) outcome"
    and deq :: "'q \<Rightarrow> (addr \<times> 'q) outcome"
    and cap :: int
  assumes enq_rep: "\<lbrakk>rep q xs; it \<noteq> NULL; m \<noteq> NULL; m \<notin> owns q; int (length xs) < cap\<rbrakk> \<Longrightarrow>
      \<exists>q'. enq m q it = Ok (0, q') \<and> rep q' (xs @ [it]) \<and> owns q' = insert m (owns q)"
    and deq_rep: "rep q (x # xs) \<Longrightarrow> \<exists>q'. deq q = Ok (x, q') \<and> rep q' xs \<and> owns q' \<subseteq> owns q"
    and deq_empty: "rep q [] \<Longrightarrow> deq q = Ok (NULL, q)"
begin

lemma run_refines:
  assumes "rep q ys" "list_all op_item_ok xs" "distinct (op_allocs xs)"
    "owns q \<inter> set (op_allocs xs) = {}" "int (length ys + length xs) \<le> cap"
  shows "\<exists>q'. run_ops enq deq xs q = Ok (fst (spec_ops xs ys), q') \<and> rep q' (snd (spec_ops xs ys))"
  using assms
proof (induction xs arbitrary: q ys)
  case Nil
  then show ?case by simp
next
  case (Cons x xs)
  show ?case
  proof (cases x)
    case (Enqueue m it)
    with Cons.prems enq_rep [of q ys it m] obtain q' where q': "enq m q it = Ok (0, q')"
      "rep q' (ys @ [it])" "owns q' = insert m (owns q)" by auto
    with Enqueue Cons.prems Cons.IH [of q' "ys @ [it]"] show ?thesis by auto
  next
    case Dequeue
    show ?thesis
    proof (cases ys)
      case Nil
      with Dequeue Cons.prems Cons.IH [of q "[]"] deq_empty [of q] show ?thesis
        by (auto simp: split_beta)
    next
      case (Cons y ys')
      with Cons.prems deq_rep [of q y ys'] obtain q' where q': "deq q = Ok (y, q')"
        "rep q' ys'" "owns q' \<subseteq> owns q" by auto
      then have "owns q' \<inter> set (op_allocs xs) = {}" using Cons.prems(4) Dequeue by auto
      with q' Dequeue Cons \<open>rep q ys\<close> Cons.prems Cons.IH [of q' ys'] show ?thesis
        by (auto simp: split_beta)
    qed
  qed
qed

end

interpretation qfifo: fifo_queue queue_rep "\<lambda>q. fset (fmdom (nodes q))"
  queue_enqueue queue_dequeue INT_MAX
proof unfold_locales
  fix q xs it m
  assume "queue_rep q xs" "it \<noteq> NULL" "m \<noteq> NULL" "m \<notin> fset (fmdom (nodes q))"
    "int (length xs) < INT_MAX"
  then show "\<exists>q'. queue_enqueue m q it = Ok (0, q') \<and> queue_rep q' (xs @ [it]) \<and>
      fset (fmdom (nodes q')) = insert m (fset (fmdom (nodes q)))"
    using queue_enqueue_rep [of q xs it m] by auto
next
  fix q x xs
  assume "queue_rep q (x # xs)"
  then show "\<exists>q'. queue_dequeue q = Ok (x, q') \<and> queue_rep q' xs \<and>
      fset (fmdom (nodes q')) \<subseteq> fset (fmdom (nodes q))"
    using queue_dequeue_rep [of q x xs] by (auto simp: less_eq_fset.rep_eq)
qed (rule queue_dequeue_empty)

section \<open>Properties\<close>

text \<open>A queue of three items, as a concrete instance.\<close>

definition sample_queue :: queue_t where
  "sample_queue =
     \<lparr>head = \<lparr>item = NULL, nextp = 10\<rparr>, tail = Node 12, qsize = 3,
      nodes = fmupd 10 \<lparr>item = 7, nextp = 11\<rparr> (fmupd 11 \<lparr>item = 8, nextp = 12\<rparr>
        (fmupd 12 \<lparr>item = 9, nextp = NULL\<rparr> fmempty))\<rparr>"

lemma sample_queue_rep: "queue_rep sample_queue [7, 8, 9]"
  unfolding queue_rep_def
  by (rule exI [of _ "[10, 11, 12]"])
    (auto simp: sample_queue_def queue_shape_def node_item_def INT_MAX_def)

lemma blank_queue_rep: "queue_rep blank_queue []" "nodes blank_queue = fmempty"
  by (simp_all add: blank_queue_def queue_rep_def queue_shape_def INT_MAX_def)

text \<open>
  C15: Any sequence of enqueues and dequeues on the linked list returns exactly what the same
  sequence returns on a FIFO list, without an invalid memory access or overflow, and leaves
  a queue that represents the final list.
\<close>

theorem queue_fifo_refinement:
  assumes "queue_rep q ys" "list_all op_item_ok xs" "distinct (op_allocs xs)"
    "fset (fmdom (nodes q)) \<inter> set (op_allocs xs) = {}" "int (length ys + length xs) \<le> INT_MAX"
  shows "\<exists>q'. run_ops queue_enqueue queue_dequeue xs q = Ok (fst (spec_ops xs ys), q') \<and>
    queue_rep q' (snd (spec_ops xs ys))"
  using assms by (rule qfifo.run_refines)

theorem queue_fifo_refinement_witness:
  "\<exists>q'. run_ops queue_enqueue queue_dequeue
      [Enqueue 20 5, Dequeue, Dequeue, Dequeue, Dequeue, Dequeue] sample_queue =
      Ok ([7, 8, 9, 5, NULL], q') \<and> queue_rep q' []"
  using queue_fifo_refinement [OF sample_queue_rep,
      of "[Enqueue 20 5, Dequeue, Dequeue, Dequeue, Dequeue, Dequeue]"]
  by (simp add: sample_queue_def INT_MAX_def)

text \<open>
  C16: \<^verbatim>\<open>queue_insert_first\<close> puts the item in front: \<^verbatim>\<open>queue_peek\<close> and
  \<^verbatim>\<open>queue_dequeue\<close> return it next, and the dequeue restores the former list.
\<close>

theorem queue_insert_first_roundtrip:
  assumes "queue_rep q xs" "it \<noteq> NULL" "m \<noteq> NULL" "m |\<notin>| fmdom (nodes q)"
    "int (length xs) < INT_MAX"
  shows "\<exists>q' q''. queue_insert_first m q it = Ok (0, q') \<and> queue_size q' = queue_size q + 1 \<and>
    queue_peek q' = Ok it \<and> queue_dequeue q' = Ok (it, q'') \<and> queue_rep q'' xs"
proof -
  from queue_insert_first_rep [OF assms] obtain q' where
    q': "queue_insert_first m q it = Ok (0, q')" "queue_rep q' (it # xs)" by blast
  from queue_dequeue_rep [OF q'(2)] queue_peek_rep [OF q'(2)] queue_size_rep [OF q'(2)]
    queue_size_rep [OF assms(1)] q'(1) show ?thesis by fastforce
qed

theorem queue_insert_first_roundtrip_witness:
  "\<exists>q' q''. queue_insert_first 20 sample_queue 5 = Ok (0, q') \<and> queue_size q' = 4 \<and>
    queue_peek q' = Ok 5 \<and> queue_dequeue q' = Ok (5, q'') \<and> queue_rep q'' [7, 8, 9]"
  using queue_insert_first_roundtrip [OF sample_queue_rep, of 5 20]
  by (simp add: sample_queue_def INT_MAX_def queue_size_def)

text \<open>
  C17: Whatever was enqueued and dequeued since \<^verbatim>\<open>queue_init\<close>, \<^verbatim>\<open>queue_destroy\<close>
  frees every node exactly once: no node is leaked and none is freed twice.
\<close>

theorem queue_destroy_no_leak:
  assumes "list_all op_item_ok xs" "distinct (op_allocs xs)" "int (length xs) \<le> INT_MAX"
  shows "\<exists>rs q. run_ops queue_enqueue queue_dequeue xs (snd (queue_init blank_queue)) = Ok (rs, q) \<and>
    queue_destroy q = Ok (q\<lparr>nodes := fmempty\<rparr>)"
proof -
  have "queue_rep (snd (queue_init blank_queue)) []" "nodes (snd (queue_init blank_queue)) = fmempty"
    using queue_init_rep [OF blank_queue_rep(2)] by (simp_all add: queue_init_def blank_queue_rep)
  with assms qfifo.run_refines [of "snd (queue_init blank_queue)" "[]" xs] queue_destroy_frees_all
  show ?thesis by fastforce
qed

theorem queue_destroy_no_leak_witness:
  "\<exists>rs q. run_ops queue_enqueue queue_dequeue [Enqueue 20 5, Enqueue 21 6, Dequeue, Enqueue 22 5]
      (snd (queue_init blank_queue)) = Ok (rs, q) \<and> queue_destroy q = Ok (q\<lparr>nodes := fmempty\<rparr>)"
  using queue_destroy_no_leak [of "[Enqueue 20 5, Enqueue 21 6, Dequeue, Enqueue 22 5]"]
  by (simp add: INT_MAX_def)

text \<open>
  C18: \<^verbatim>\<open>queue_clear\<close> does not reset \<^verbatim>\<open>head.next\<close>: on a queue that was not empty the
  size becomes 0, yet a following \<^verbatim>\<open>queue_peek\<close> or \<^verbatim>\<open>queue_dequeue\<close> reads a freed node.
\<close>

theorem queue_clear_leaves_dangling_head:
  assumes "queue_rep q xs" "xs \<noteq> []"
  shows "\<exists>q'. queue_clear q = Ok q' \<and> queue_size q' = 0 \<and>
    queue_peek q' = Err Bad_pointer \<and> queue_dequeue q' = Err Bad_pointer"
  using assms by (rule queue_clear_dangling)

theorem queue_clear_leaves_dangling_head_witness:
  "\<exists>q'. queue_clear sample_queue = Ok q' \<and> queue_size q' = 0 \<and>
    queue_peek q' = Err Bad_pointer \<and> queue_dequeue q' = Err Bad_pointer"
  using queue_clear_leaves_dangling_head [OF sample_queue_rep] by simp

text \<open>
  C19: \<^verbatim>\<open>queue_remove_item\<close> looks at every other item only, because its loop advances
  twice. When the item is not among those it is not removed: a queue of even length answers
  -1 although the item may be in it, one of odd length dereferences a null pointer.
\<close>

theorem queue_remove_item_skips:
  assumes "queue_rep q xs" "it \<notin> set (every_other xs)"
  shows "queue_remove_item q it = Some (if even (length xs) then Ok (-1, q) else Err Null_deref)"
  using assms by (rule queue_remove_item_miss)

theorem queue_remove_item_skips_witness:
  "queue_remove_item sample_queue 8 = Some (Err Null_deref)"
  using queue_remove_item_skips [OF sample_queue_rep, of 8] by simp

text \<open>
  When \<^verbatim>\<open>queue_remove_item\<close> finds the item behind the first one it visits, it also
  unlinks the node before it, which is leaked: the list loses two items and the size one.
\<close>

theorem queue_remove_item_unlinks_two:
  assumes "queue_rep q (xs @ [u, v] @ it # zs)" "even (length xs)"
    "it \<notin> set (every_other (xs @ [u, v]))"
  shows "\<exists>q'. queue_remove_item q it = Some (Ok (0, q')) \<and> queue_items q' = xs @ u # zs \<and>
    queue_size q' = int (length xs) + 2 + int (length zs)"
  using assms by (rule queue_remove_item_later)

theorem queue_remove_item_unlinks_two_witness:
  "\<exists>q'. queue_remove_item sample_queue 9 = Some (Ok (0, q')) \<and> queue_items q' = [7] \<and>
    queue_size q' = 2"
  using queue_remove_item_unlinks_two [of sample_queue "[]" 7 8 9 "[]"] sample_queue_rep by simp



end
