(* ===== verification/Bitvec.thy ===== *)
theory Bitvec
  imports Uthread_Prelude
begin

text \<open>
  The bit vector of \<^verbatim>\<open>bitvec.h\<close> and \<^verbatim>\<open>bitvec.c\<close>. The bytes are a list of \<open>8 word\<close>;
  the operations promote a byte to a 32-bit \<open>int\<close>, compute there and truncate the result
  when they store it, as C does. Every access checks that its index lies inside the array.
\<close>

unbundle bit_operations_syntax

section \<open>Data and operations\<close>

type_synonym byte = "8 word"
type_synonym cint = "32 word"

record bitvec_t =
  nbits :: nat
  nbytes :: nat
  vec :: "byte list option"

text \<open>
  \<^verbatim>\<open>calloc\<close> returns zeroed memory or fails; \<open>vec = None\<close> is a null (or freed) array.
  \<^verbatim>\<open>size_t\<close> arithmetic is modulo \<open>2 ^ 64\<close>.
\<close>

definition bitvec_init :: "bool \<Rightarrow> bitvec_t \<Rightarrow> nat \<Rightarrow> (int \<times> bitvec_t) outcome" where
  "bitvec_init calloc_ok bv n =
     bind_o (assert_o (n > 0)) (\<lambda>_.
     let nb = nat (((7 + int n) mod 2 ^ 64) div 8);
         bv1 = bv\<lparr>nbits := n, nbytes := nb\<rparr> in
     if calloc_ok then Ok (0, bv1\<lparr>vec := Some (replicate nb 0)\<rparr>)
     else Ok (-1, bv1\<lparr>vec := None\<rparr>))"

definition bitvec_destroy :: "bitvec_t \<Rightarrow> bitvec_t" where
  "bitvec_destroy bv = bv\<lparr>vec := None\<rparr>"

text \<open>
  The byte \<^verbatim>\<open>bv->vec[i/8]\<close>. A negative \<open>i\<close> gives an index before the array or, for
  \<open>-8 < i < 0\<close>, a shift by a negative amount: both are undefined.
\<close>

definition read_byte :: "bitvec_t \<Rightarrow> int \<Rightarrow> byte outcome" where
  "read_byte bv i =
     (case vec bv of
        None \<Rightarrow> Err Null_deref
      | Some v \<Rightarrow>
          if i < 0 then Err Undefined
          else if nat i div 8 < length v then Ok (v ! (nat i div 8)) else Err Out_of_bounds)"

definition write_byte :: "bitvec_t \<Rightarrow> int \<Rightarrow> byte \<Rightarrow> bitvec_t outcome" where
  "write_byte bv i b =
     (case vec bv of
        None \<Rightarrow> Err Null_deref
      | Some v \<Rightarrow>
          if i < 0 then Err Undefined
          else if nat i div 8 < length v then Ok (bv\<lparr>vec := Some (v[nat i div 8 := b])\<rparr>)
          else Err Out_of_bounds)"

text \<open>\<^verbatim>\<open>1 << (i%8)\<close> for a nonnegative \<open>i\<close>.\<close>

definition bit_mask :: "int \<Rightarrow> cint" where
  "bit_mask i = push_bit (nat i mod 8) 1"

definition bitvec_get :: "bitvec_t \<Rightarrow> int \<Rightarrow> cint outcome" where
  "bitvec_get bv i =
     bind_o (read_byte bv i) (\<lambda>b.
     Ok (drop_bit (nat i mod 8) ((ucast b :: cint) AND bit_mask i)))"

definition bitvec_set :: "bitvec_t \<Rightarrow> int \<Rightarrow> bitvec_t outcome" where
  "bitvec_set bv i =
     bind_o (read_byte bv i) (\<lambda>b.
     write_byte bv i (ucast ((ucast b :: cint) OR bit_mask i)))"

definition bitvec_clear :: "bitvec_t \<Rightarrow> int \<Rightarrow> bitvec_t outcome" where
  "bitvec_clear bv i =
     bind_o (read_byte bv i) (\<lambda>b.
     write_byte bv i (ucast ((ucast b :: cint) AND NOT (bit_mask i))))"

text \<open>
  The loops of \<^verbatim>\<open>bitvec_first_cleared_index\<close>. The inner loop runs over the bits
  \<open>start, \<dots>, start + 7\<close> of a byte and falls through when all are set.
\<close>

function scan_byte :: "bitvec_t \<Rightarrow> int \<Rightarrow> int \<Rightarrow> int option outcome" where
  "scan_byte bv j stop =
     (if j < stop then
        bind_o (bitvec_get bv j) (\<lambda>b.
        if b = 0 then Ok (Some j) else scan_byte bv (j + 1) stop)
      else Ok None)"
  by pat_completeness auto
termination
  by (relation "measure (\<lambda>(bv, j, stop). nat (stop - j))") auto

function scan_bytes :: "bitvec_t \<Rightarrow> nat \<Rightarrow> int outcome" where
  "scan_bytes bv i =
     (if i < nbytes bv then
        bind_o (read_byte bv (int i * 8)) (\<lambda>b.
        if NOT (ucast b :: cint) \<noteq> 0 then
          if INT_MAX < int i * 8 + 8 then Err Signed_overflow
          else bind_o (scan_byte bv (int i * 8) (int i * 8 + 8)) (\<lambda>r.
          case r of Some j \<Rightarrow> Ok j | None \<Rightarrow> scan_bytes bv (Suc i))
        else scan_bytes bv (Suc i))
      else Ok (-1))"
  by pat_completeness auto
termination
  by (relation "measure (\<lambda>(bv, i). nbytes bv - i)") auto

declare scan_byte.simps [simp del] scan_bytes.simps [simp del]

definition bitvec_first_cleared_index :: "bitvec_t \<Rightarrow> int outcome" where
  "bitvec_first_cleared_index bv = scan_bytes bv 0"

section \<open>Abstraction: a set of indices\<close>

definition bitvec_ok :: "bitvec_t \<Rightarrow> bool" where
  "bitvec_ok bv \<longleftrightarrow> (case vec bv of None \<Rightarrow> False | Some v \<Rightarrow> length v = nbytes bv)"

definition bv_test :: "bitvec_t \<Rightarrow> nat \<Rightarrow> bool" where
  "bv_test bv i \<longleftrightarrow> (case vec bv of None \<Rightarrow> False | Some v \<Rightarrow> bit (v ! (i div 8)) (i mod 8))"

section \<open>Lemmas on bytes\<close>

lemma bit_get_eq:
  "k < 8 \<Longrightarrow> drop_bit k ((ucast (b :: byte) :: cint) AND push_bit k 1) = of_bool (bit b k)"
  by (rule bit_eqI)
    (auto simp: bit_simps)


lemma bit_set_eq:
  "k < 8 \<Longrightarrow> j < 8 \<Longrightarrow>
   bit (ucast ((ucast (b :: byte) :: cint) OR push_bit k 1) :: byte) j \<longleftrightarrow> j = k \<or> bit b j"
  by (auto simp: bit_simps)

lemma bit_clear_eq:
  "k < 8 \<Longrightarrow> j < 8 \<Longrightarrow>
   bit (ucast ((ucast (b :: byte) :: cint) AND NOT (push_bit k 1)) :: byte) j \<longleftrightarrow>
   j \<noteq> k \<and> bit b j"
  by (auto simp: bit_simps)

text \<open>
  The test \<^verbatim>\<open>~bv->vec[i]\<close> complements the promoted 32-bit value, whose upper 24 bits are
  zero: it is true for every byte, the full byte \<open>0xFF\<close> included.
\<close>

lemma not_promoted_byte_nonzero: "NOT (ucast (b :: byte) :: cint) \<noteq> 0"
proof
  assume "NOT (ucast b :: cint) = 0"
  then have "bit (NOT (ucast b :: cint)) 8 = bit (0 :: cint) 8" by simp
  then have "bit b 8" by (simp add: bit_simps)
  then show False by (auto dest: bit_imp_le_length)
qed

section \<open>Behaviour of the operations\<close>

lemma bitvec_init_ok:
  assumes "0 < n" "n + 7 < 2 ^ 64"
  shows "\<exists>bv'. bitvec_init True bv n = Ok (0, bv') \<and> bitvec_ok bv' \<and> nbits bv' = n \<and>
    nbytes bv' = (n + 7) div 8 \<and> (\<forall>i < 8 * nbytes bv'. \<not> bv_test bv' i)"
  using assms
  by (auto simp: bitvec_init_def Let_def bitvec_ok_def bv_test_def add.commute [of 7])

lemma bitvec_get_eq:
  assumes "bitvec_ok bv" "i < 8 * nbytes bv"
  shows "bitvec_get bv (int i) = Ok (of_bool (bv_test bv i))"
proof -
  from assms obtain v where v: "vec bv = Some v" "i div 8 < length v"
    by (auto simp: bitvec_ok_def split: option.splits)
  have "drop_bit (i mod 8) ((ucast (v ! (i div 8)) :: cint) AND bit_mask (int i)) =
      of_bool (bit (v ! (i div 8)) (i mod 8))"
    unfolding bit_mask_def by (simp only: nat_int) (rule bit_get_eq, simp)
  with v show ?thesis
    by (simp add: bitvec_get_def read_byte_def bv_test_def)
qed

lemma write_byte_spec:
  assumes "bitvec_ok bv" "i < 8 * nbytes bv"
  shows "\<exists>bv'. write_byte bv (int i) b = Ok bv' \<and> bitvec_ok bv' \<and> nbytes bv' = nbytes bv \<and>
    nbits bv' = nbits bv \<and>
    (\<forall>j < 8 * nbytes bv. bv_test bv' j =
       (if j div 8 = i div 8 then bit b (j mod 8) else bv_test bv j))"
proof -
  from assms obtain v where v: "vec bv = Some v" "length v = nbytes bv" "i div 8 < length v"
    by (auto simp: bitvec_ok_def split: option.splits)
  then show ?thesis
    by (auto simp: write_byte_def bitvec_ok_def bv_test_def nth_list_update)
qed

lemma div_mod_eq_iff: "j = i \<longleftrightarrow> j div 8 = i div 8 \<and> j mod 8 = i mod (8::nat)"
  by (metis mult_div_mod_eq)

lemma read_byte_ok:
  assumes "bitvec_ok bv" "i < 8 * nbytes bv"
  shows "\<exists>b. read_byte bv (int i) = Ok b \<and>
    (\<forall>j. j div 8 = i div 8 \<longrightarrow> bit b (j mod 8) = bv_test bv j)"
proof -
  from assms obtain v where "vec bv = Some v" "i div 8 < length v"
    by (auto simp: bitvec_ok_def split: option.splits)
  then show ?thesis by (auto simp: read_byte_def bv_test_def)
qed

lemma bitvec_set_spec:
  assumes "bitvec_ok bv" "i < 8 * nbytes bv"
  shows "\<exists>bv'. bitvec_set bv (int i) = Ok bv' \<and> bitvec_ok bv' \<and> nbytes bv' = nbytes bv \<and>
    nbits bv' = nbits bv \<and> (\<forall>j < 8 * nbytes bv. bv_test bv' j = (j = i \<or> bv_test bv j))"
proof -
  from read_byte_ok [OF assms] obtain b where b: "read_byte bv (int i) = Ok b"
    "\<forall>j. j div 8 = i div 8 \<longrightarrow> bit b (j mod 8) = bv_test bv j" by auto
  let ?b = "ucast ((ucast b :: cint) OR bit_mask (int i)) :: byte"
  from write_byte_spec [OF assms, of ?b] obtain bv' where bv': "write_byte bv (int i) ?b = Ok bv'"
    "bitvec_ok bv'" "nbytes bv' = nbytes bv" "nbits bv' = nbits bv"
    "\<forall>j < 8 * nbytes bv. bv_test bv' j = (if j div 8 = i div 8 then bit ?b (j mod 8) else bv_test bv j)"
    by auto
  have "bit ?b (j mod 8) = (j mod 8 = i mod 8 \<or> bit b (j mod 8))" for j
    unfolding bit_mask_def by (simp only: nat_int) (rule bit_set_eq, simp_all)
  with b bv' show ?thesis
    by (auto simp: bitvec_set_def div_mod_eq_iff [of _ i] simp del: One_nat_def)
qed

lemma bitvec_clear_spec:
  assumes "bitvec_ok bv" "i < 8 * nbytes bv"
  shows "\<exists>bv'. bitvec_clear bv (int i) = Ok bv' \<and> bitvec_ok bv' \<and> nbytes bv' = nbytes bv \<and>
    nbits bv' = nbits bv \<and> (\<forall>j < 8 * nbytes bv. bv_test bv' j = (j \<noteq> i \<and> bv_test bv j))"
proof -
  from read_byte_ok [OF assms] obtain b where b: "read_byte bv (int i) = Ok b"
    "\<forall>j. j div 8 = i div 8 \<longrightarrow> bit b (j mod 8) = bv_test bv j" by auto
  let ?b = "ucast ((ucast b :: cint) AND NOT (bit_mask (int i))) :: byte"
  from write_byte_spec [OF assms, of ?b] obtain bv' where bv': "write_byte bv (int i) ?b = Ok bv'"
    "bitvec_ok bv'" "nbytes bv' = nbytes bv" "nbits bv' = nbits bv"
    "\<forall>j < 8 * nbytes bv. bv_test bv' j = (if j div 8 = i div 8 then bit ?b (j mod 8) else bv_test bv j)"
    by auto
  have "bit ?b (j mod 8) = (j mod 8 \<noteq> i mod 8 \<and> bit b (j mod 8))" for j
    unfolding bit_mask_def by (simp only: nat_int) (rule bit_clear_eq, simp_all)
  with b bv' show ?thesis
    by (auto simp: bitvec_clear_def div_mod_eq_iff [of _ i] simp del: One_nat_def)
qed

text \<open>\<open>r\<close> is the first cleared index of \<open>{lo..<hi}\<close>, \<open>None\<close> when all are set.\<close>

definition first_clear :: "bitvec_t \<Rightarrow> nat \<Rightarrow> nat \<Rightarrow> int option \<Rightarrow> bool" where
  "first_clear bv lo hi r \<longleftrightarrow>
     (case r of
        None \<Rightarrow> \<forall>k \<in> {lo..<hi}. bv_test bv k
      | Some k \<Rightarrow> \<exists>n. k = int n \<and> lo \<le> n \<and> n < hi \<and> \<not> bv_test bv n \<and>
                    (\<forall>m \<in> {lo..<n}. bv_test bv m))"

lemma first_clear_extend:
  assumes "\<forall>k \<in> {lo..<mid}. bv_test bv k" "lo \<le> mid" "mid \<le> hi" "first_clear bv mid hi r"
  shows "first_clear bv lo hi r"
proof -
  have below: "bv_test bv m" if "lo \<le> m" "m < k" "\<forall>m \<in> {mid..<k}. bv_test bv m" for m k
    using that assms(1) by (cases "m < mid") auto
  show ?thesis
  proof (cases r)
    case None
    with assms(4) below [where k = hi] show ?thesis by (simp add: first_clear_def)
  next
    case (Some k)
    with assms(4) obtain n where "k = int n" "mid \<le> n" "n < hi" "\<not> bv_test bv n"
      "\<forall>m \<in> {mid..<n}. bv_test bv m" by (auto simp: first_clear_def)
    with Some assms(2) below [where k = n] show ?thesis by (simp add: first_clear_def)
  qed
qed

lemma first_clear_mono:
  "first_clear bv lo hi (Some k) \<Longrightarrow> hi \<le> hi' \<Longrightarrow> first_clear bv lo hi' (Some k)"
  by (auto simp: first_clear_def)

lemma scan_byte_spec:
  assumes "bitvec_ok bv" "stop \<le> 8 * nbytes bv" "j \<le> stop"
  shows "\<exists>r. scan_byte bv (int j) (int stop) = Ok r \<and> first_clear bv j stop r"
  using assms(3)
proof (induction j rule: inc_induct)
  case base
  then show ?case by (simp add: scan_byte.simps first_clear_def)
next
  case (step j)
  have get: "bitvec_get bv (int j) = Ok (of_bool (bv_test bv j))"
    using step.hyps assms(1,2) by (intro bitvec_get_eq) auto
  show ?case
  proof (cases "bv_test bv j")
    case False
    then show ?thesis
      using get step.hyps by (auto simp: scan_byte.simps [of bv "int j"] first_clear_def)
  next
    case True
    have "scan_byte bv (int j) (int stop) = scan_byte bv (int (Suc j)) (int stop)"
      using get True step.hyps by (simp add: scan_byte.simps [of bv "int j"] algebra_simps)
    with step.IH True step.hyps show ?thesis
      by (auto intro!: first_clear_extend [of j "Suc j"])
  qed
qed

lemma scan_bytes_spec:
  assumes "bitvec_ok bv" "8 * int (nbytes bv) \<le> INT_MAX" "i \<le> nbytes bv"
  shows "\<exists>r. scan_bytes bv i = Ok (case r of None \<Rightarrow> -1 | Some k \<Rightarrow> k) \<and>
    first_clear bv (8 * i) (8 * nbytes bv) r"
  using assms(3)
proof (induction i rule: inc_induct)
  case base
  then show ?case
    by (auto simp: scan_bytes.simps first_clear_def intro!: exI [of _ None])
next
  case (step i)
  obtain b where b: "read_byte bv (int (8 * i)) = Ok b"
    using read_byte_ok [OF assms(1), of "8 * i"] step.hyps by auto
  obtain r where r: "scan_byte bv (int (8 * i)) (int (8 * i + 8)) = Ok r"
    "first_clear bv (8 * i) (8 * i + 8) r"
    using scan_byte_spec [OF assms(1), of "8 * i + 8" "8 * i"] step.hyps by auto
  have eq: "scan_bytes bv i = (case r of Some j \<Rightarrow> Ok j | None \<Rightarrow> scan_bytes bv (Suc i))"
    using b r(1) step.hyps assms(2) not_promoted_byte_nonzero
    by (simp add: scan_bytes.simps [of bv i] algebra_simps)
  show ?case
  proof (cases r)
    case None
    with r(2) have "\<forall>k \<in> {8 * i..<8 * Suc i}. bv_test bv k" by (auto simp: first_clear_def)
    with None eq step.IH step.hyps show ?thesis
      by (auto intro!: first_clear_extend [of "8 * i" "8 * Suc i"])
  next
    case (Some k)
    with eq r(2) step.hyps show ?thesis
      by (auto intro!: exI [of _ "Some k"] first_clear_mono [of _ _ "8 * i + 8"])
  qed
qed

lemma bitvec_first_cleared_index_spec:
  assumes "bitvec_ok bv" "8 * int (nbytes bv) \<le> INT_MAX"
  shows "\<exists>r. bitvec_first_cleared_index bv = Ok (case r of None \<Rightarrow> -1 | Some k \<Rightarrow> k) \<and>
    first_clear bv 0 (8 * nbytes bv) r"
  using scan_bytes_spec [OF assms, of 0] by (simp add: bitvec_first_cleared_index_def)

section \<open>The bit vector as an allocator of small identifiers\<close>

text \<open>
  What the thread library relies on: the first cleared index is the least identifier that is
  not in use, setting a bit takes an identifier and clearing it gives it back.
\<close>

locale id_allocator =
  fixes rep :: "'b \<Rightarrow> nat set \<Rightarrow> bool"
    and cap :: nat
    and first :: "'b \<Rightarrow> int outcome"
    and mark :: "'b \<Rightarrow> int \<Rightarrow> 'b outcome"
    and release :: "'b \<Rightarrow> int \<Rightarrow> 'b outcome"
  assumes rep_bound: "rep b U \<Longrightarrow> U \<subseteq> {..<cap}"
    and first_full: "rep b U \<Longrightarrow> {..<cap} \<subseteq> U \<Longrightarrow> first b = Ok (-1)"
    and first_free: "rep b U \<Longrightarrow> i < cap \<Longrightarrow> i \<notin> U \<Longrightarrow> {..<i} \<subseteq> U \<Longrightarrow> first b = Ok (int i)"
    and mark_rep: "rep b U \<Longrightarrow> i < cap \<Longrightarrow> \<exists>b'. mark b (int i) = Ok b' \<and> rep b' (insert i U)"
    and release_rep: "rep b U \<Longrightarrow> i < cap \<Longrightarrow> \<exists>b'. release b (int i) = Ok b' \<and> rep b' (U - {i})"
begin

lemma alloc:
  assumes "rep b U" "U \<noteq> {..<cap}"
  shows "\<exists>i b'. first b = Ok (int i) \<and> i < cap \<and> i \<notin> U \<and> {..<i} \<subseteq> U \<and>
    mark b (int i) = Ok b' \<and> rep b' (insert i U)"
proof -
  from assms rep_bound have "\<exists>i. i < cap \<and> i \<notin> U" by blast
  then obtain i where i: "i < cap \<and> i \<notin> U" "\<And>j. j < i \<Longrightarrow> \<not> (j < cap \<and> j \<notin> U)"
    using exists_least_iff [of "\<lambda>i. i < cap \<and> i \<notin> U"] by blast
  then have "{..<i} \<subseteq> U" by auto
  with i first_free [OF assms(1)] mark_rep [OF assms(1)] show ?thesis by blast
qed

lemma full_iff:
  assumes "rep b U"
  shows "first b = Ok (-1) \<longleftrightarrow> U = {..<cap}"
  using alloc [OF assms] first_full [OF assms] rep_bound [OF assms] by fastforce

lemma release_alloc:
  assumes "rep b U" "i < cap" "{..<i} \<subseteq> U"
  shows "\<exists>b'. release b (int i) = Ok b' \<and> first b' = Ok (int i)"
proof -
  from release_rep [OF assms(1,2)] obtain b' where b': "release b (int i) = Ok b'" "rep b' (U - {i})"
    by blast
  have "{..<i} \<subseteq> U - {i}" using assms(3) by auto
  with first_free [OF b'(2) assms(2)] b'(1) show ?thesis by auto
qed

end

definition bv_rep :: "nat \<Rightarrow> bitvec_t \<Rightarrow> nat set \<Rightarrow> bool" where
  "bv_rep cap bv U \<longleftrightarrow>
     bitvec_ok bv \<and> 8 * nbytes bv = cap \<and> int cap \<le> INT_MAX \<and> U = {i. i < cap \<and> bv_test bv i}"

lemma bv_rep_first:
  assumes "bv_rep cap bv U"
  shows "\<exists>r. bitvec_first_cleared_index bv = Ok (case r of None \<Rightarrow> -1 | Some k \<Rightarrow> k) \<and>
    first_clear bv 0 cap r"
  using assms bitvec_first_cleared_index_spec [of bv] by (auto simp: bv_rep_def)

interpretation bvid: id_allocator "bv_rep cap" cap bitvec_first_cleared_index bitvec_set bitvec_clear
  for cap
proof unfold_locales
  fix b U assume rep: "bv_rep cap b U"
  show "U \<subseteq> {..<cap}" using rep by (auto simp: bv_rep_def)
  obtain r where r: "bitvec_first_cleared_index b = Ok (case r of None \<Rightarrow> -1 | Some k \<Rightarrow> k)"
    "first_clear b 0 cap r" using bv_rep_first [OF rep] by blast
  show "bitvec_first_cleared_index b = Ok (-1)" if "{..<cap} \<subseteq> U"
    using r rep that by (auto simp: bv_rep_def first_clear_def split: option.splits)
  fix i assume i: "i < cap"
  show "bitvec_first_cleared_index b = Ok (int i)" if "i \<notin> U" "{..<i} \<subseteq> U"
  proof (cases r)
    case None
    with r(2) i that rep show ?thesis by (auto simp: bv_rep_def first_clear_def)
  next
    case (Some k)
    with r(2) obtain n where n: "k = int n" "n < cap" "\<not> bv_test b n" "\<forall>m < n. bv_test b m"
      by (auto simp: first_clear_def)
    have "n = i" using n that rep i by (cases n i rule: linorder_cases) (auto simp: bv_rep_def)
    with r(1) Some n(1) show ?thesis by simp
  qed
  show "\<exists>b'. bitvec_set b (int i) = Ok b' \<and> bv_rep cap b' (insert i U)"
    using rep i bitvec_set_spec [of b i] by (fastforce simp: bv_rep_def)
  show "\<exists>b'. bitvec_clear b (int i) = Ok b' \<and> bv_rep cap b' (U - {i})"
    using rep i bitvec_clear_spec [of b i] by (fastforce simp: bv_rep_def)
qed

lemma bitvec_init_rep:
  assumes "0 < n" "8 dvd n" "int n \<le> INT_MAX"
  shows "\<exists>bv'. bitvec_init True bv n = Ok (0, bv') \<and> bv_rep n bv' {}"
proof -
  from assms(3) have "n + 7 < 2 ^ 64" by (simp add: INT_MAX_def)
  from bitvec_init_ok [OF assms(1) this, of bv] assms show ?thesis
    by (auto simp: bv_rep_def)
qed

section \<open>Properties\<close>

text \<open>
  C21: As long as an identifier below the capacity is free, \<^verbatim>\<open>bitvec_first_cleared_index\<close>
  returns the least free one and \<^verbatim>\<open>bitvec_set\<close> takes exactly that one.
\<close>

theorem bitvec_allocates_least:
  assumes "bv_rep cap bv U" "U \<noteq> {..<cap}"
  shows "\<exists>i bv'. bitvec_first_cleared_index bv = Ok (int i) \<and> i < cap \<and> i \<notin> U \<and> {..<i} \<subseteq> U \<and>
    bitvec_set bv (int i) = Ok bv' \<and> bv_rep cap bv' (insert i U)"
  using assms by (rule bvid.alloc)

lemma sample_bitvec_rep: "bv_rep 16 \<lparr>nbits = 16, nbytes = 2, vec = Some [0xFF, 2]\<rparr> ({..<8} \<union> {9})"
proof -
  have "bv_test \<lparr>nbits = 16, nbytes = 2, vec = Some [0xFF, 2]\<rparr> i \<longleftrightarrow> i < 8 \<or> i = 9" if "i < 16" for i
  proof -
    from that have "i \<in> {0, 1, 2, 3, 4, 5, 6, 7, 8, 9, 10, 11, 12, 13, 14, 15}"
      unfolding insert_iff empty_iff by presburger
    then show ?thesis by (auto simp: bv_test_def bit_simps)
  qed
  then show ?thesis by (auto simp: bv_rep_def bitvec_ok_def INT_MAX_def)
qed

theorem bitvec_allocates_least_witness:
  "\<exists>i bv'. bitvec_first_cleared_index \<lparr>nbits = 16, nbytes = 2, vec = Some [0xFF, 2]\<rparr> = Ok (int i) \<and>
    i < 16 \<and> i \<notin> {..<8} \<union> {9} \<and> {..<i} \<subseteq> {..<8} \<union> {9} \<and>
    bitvec_set \<lparr>nbits = 16, nbytes = 2, vec = Some [0xFF, 2]\<rparr> (int i) = Ok bv' \<and>
    bv_rep 16 bv' (insert i ({..<8} \<union> {9}))"
proof (rule bitvec_allocates_least [OF sample_bitvec_rep])
  have "10 \<in> {..<16::nat}" "10 \<notin> {..<8} \<union> {9::nat}" by auto
  then show "{..<8} \<union> {9} \<noteq> {..<16::nat}" by blast
qed

text \<open>
  C22: \<^verbatim>\<open>bitvec_set\<close> and \<^verbatim>\<open>bitvec_clear\<close> change the bit they name, as
  \<^verbatim>\<open>bitvec_get\<close> reads it, and no other bit, for every index inside the array.
\<close>

theorem bitvec_get_after_update:
  assumes "bitvec_ok bv" "i < 8 * nbytes bv" "j < 8 * nbytes bv"
  shows "\<exists>b bv1 bv0. bitvec_get bv (int j) = Ok b \<and>
    bitvec_set bv (int i) = Ok bv1 \<and> bitvec_get bv1 (int j) = Ok (if j = i then 1 else b) \<and>
    bitvec_clear bv (int i) = Ok bv0 \<and> bitvec_get bv0 (int j) = Ok (if j = i then 0 else b)"
proof -
  from bitvec_set_spec [OF assms(1,2)] obtain bv1 where bv1: "bitvec_set bv (int i) = Ok bv1"
    "bitvec_ok bv1" "nbytes bv1 = nbytes bv" "bv_test bv1 j = (j = i \<or> bv_test bv j)"
    using assms(3) by blast
  from bitvec_clear_spec [OF assms(1,2)] obtain bv0 where bv0: "bitvec_clear bv (int i) = Ok bv0"
    "bitvec_ok bv0" "nbytes bv0 = nbytes bv" "bv_test bv0 j = (j \<noteq> i \<and> bv_test bv j)"
    using assms(3) by blast
  show ?thesis
    using bitvec_get_eq [OF assms(1,3)] bitvec_get_eq [OF bv1(2), of j] bitvec_get_eq [OF bv0(2), of j]
      bv1 bv0 assms(3) by auto
qed

theorem bitvec_get_after_update_witness:
  "\<exists>b bv1 bv0. bitvec_get \<lparr>nbits = 16, nbytes = 2, vec = Some [0xFF, 2]\<rparr> (int 9) = Ok b \<and>
    bitvec_set \<lparr>nbits = 16, nbytes = 2, vec = Some [0xFF, 2]\<rparr> (int 10) = Ok bv1 \<and>
    bitvec_get bv1 (int 9) = Ok b \<and>
    bitvec_clear \<lparr>nbits = 16, nbytes = 2, vec = Some [0xFF, 2]\<rparr> (int 10) = Ok bv0 \<and>
    bitvec_get bv0 (int 9) = Ok b"
  using bitvec_get_after_update [of "\<lparr>nbits = 16, nbytes = 2, vec = Some [0xFF, 2]\<rparr>" 10 9]
  by (simp add: bitvec_ok_def)

text \<open>
  C23: The test \<^verbatim>\<open>~bv->vec[i]\<close>, meant to skip bytes with all bits set, complements the
  promoted 32-bit value and is never 0: the scan enters the inner loop for every byte.
\<close>

theorem scan_never_skips_a_byte:
  assumes "i < nbytes bv" "read_byte bv (int i * 8) = Ok b"
  shows "scan_bytes bv i =
    (if INT_MAX < int i * 8 + 8 then Err Signed_overflow
     else bind_o (scan_byte bv (int i * 8) (int i * 8 + 8)) (\<lambda>r.
       case r of Some j \<Rightarrow> Ok j | None \<Rightarrow> scan_bytes bv (Suc i)))"
  using assms not_promoted_byte_nonzero [of b] by (subst scan_bytes.simps) simp

theorem scan_never_skips_a_byte_witness:
  "scan_bytes \<lparr>nbits = 8, nbytes = 1, vec = Some [0xFF]\<rparr> 0 =
     bind_o (scan_byte \<lparr>nbits = 8, nbytes = 1, vec = Some [0xFF]\<rparr> 0 8) (\<lambda>r.
       case r of Some j \<Rightarrow> Ok j
       | None \<Rightarrow> scan_bytes \<lparr>nbits = 8, nbytes = 1, vec = Some [0xFF]\<rparr> (Suc 0))"
  using scan_never_skips_a_byte [of 0 "\<lparr>nbits = 8, nbytes = 1, vec = Some [0xFF]\<rparr>" "0xFF"]
  by (simp add: read_byte_def INT_MAX_def del: One_nat_def)

text \<open>
  C24: The scan runs over whole bytes and never looks at \<^verbatim>\<open>nbits\<close>. When all
  \<open>nbits\<close> bits are set and the padding of the last byte is clear, the answer is not -1 but
  the index \<open>nbits\<close>, which is outside the vector.
\<close>

theorem bitvec_first_cleared_past_end:
  assumes "bv_rep cap bv {..<nbits bv}" "nbits bv < cap"
  shows "bitvec_first_cleared_index bv = Ok (int (nbits bv))"
  using assms by (intro bvid.first_free) auto

lemma full_bitvec_rep: "bv_rep 8 \<lparr>nbits = 3, nbytes = 1, vec = Some [7]\<rparr> {..<3}"
proof -
  have "bv_test \<lparr>nbits = 3, nbytes = 1, vec = Some [7]\<rparr> i \<longleftrightarrow> i < 3" if "i < 8" for i
  proof -
    from that have "i \<in> {0, 1, 2, 3, 4, 5, 6, 7}"
      unfolding insert_iff empty_iff by presburger
    then show ?thesis by (auto simp: bv_test_def bit_simps)
  qed
  then show ?thesis by (auto simp: bv_rep_def bitvec_ok_def INT_MAX_def)
qed

theorem bitvec_first_cleared_past_end_witness:
  "bitvec_first_cleared_index \<lparr>nbits = 3, nbytes = 1, vec = Some [7]\<rparr> = Ok 3"
  using bitvec_first_cleared_past_end [of 8 "\<lparr>nbits = 3, nbytes = 1, vec = Some [7]\<rparr>"]
    full_bitvec_rep by simp

end
