(* ===== verification/Kthread.thy ===== *)
theory Kthread
  imports Uthread_Prelude
begin

text \<open>
  The kernel-thread layer of \<^verbatim>\<open>kthread.h\<close> and \<^verbatim>\<open>kthread.c\<close>: the table that maps
  kernel thread identifiers (\<^verbatim>\<open>gettid\<close>) to Pthreads, thread creation and joining, and the
  wrappers around Pthreads mutexes and POSIX semaphores. The Pthreads objects are modelled by
  the part of their documented behaviour that the wrappers expose: a mutex is free, held by
  a thread, or destroyed; a semaphore has a value or is destroyed.
\<close>

section \<open>Mutexes and semaphores\<close>

type_synonym ktid = int

datatype mutex = Mutex_free | Mutex_held ktid | Mutex_destroyed

definition EAGAIN :: int where "EAGAIN = 11"
definition EBUSY :: int where "EBUSY = 16"
definition EINVAL :: int where "EINVAL = 22"
definition ESRCH :: int where "ESRCH = 3"

definition kthread_mutex_init :: "int \<times> mutex" where
  "kthread_mutex_init = (0, Mutex_free)"

fun kthread_mutex_lock :: "ktid \<Rightarrow> mutex \<Rightarrow> (int \<times> mutex) outcome" where
  "kthread_mutex_lock self Mutex_free = Ok (0, Mutex_held self)"
| "kthread_mutex_lock self (Mutex_held k) = Block"
| "kthread_mutex_lock self Mutex_destroyed = Ok (EINVAL, Mutex_destroyed)"

text \<open>Unlocking a mutex that the caller does not hold is undefined.\<close>

fun kthread_mutex_unlock :: "ktid \<Rightarrow> mutex \<Rightarrow> (int \<times> mutex) outcome" where
  "kthread_mutex_unlock self Mutex_free = Err Undefined"
| "kthread_mutex_unlock self (Mutex_held k) = (if k = self then Ok (0, Mutex_free) else Err Undefined)"
| "kthread_mutex_unlock self Mutex_destroyed = Ok (EINVAL, Mutex_destroyed)"

fun kthread_mutex_destroy :: "mutex \<Rightarrow> int \<times> mutex" where
  "kthread_mutex_destroy Mutex_free = (0, Mutex_destroyed)"
| "kthread_mutex_destroy (Mutex_held k) = (EBUSY, Mutex_held k)"
| "kthread_mutex_destroy Mutex_destroyed = (EINVAL, Mutex_destroyed)"

datatype ksem = Sem_value nat | Sem_destroyed

definition SEM_VALUE_MAX :: int where "SEM_VALUE_MAX = 2147483647"

text \<open>\<^verbatim>\<open>sem_init\<close> takes the value as an \<^verbatim>\<open>unsigned int\<close>.\<close>

definition kthread_sem_init :: "ksem \<Rightarrow> int \<Rightarrow> int \<times> ksem" where
  "kthread_sem_init s value =
     (let v = value mod 2 ^ 32 in
      if v \<le> SEM_VALUE_MAX then (0, Sem_value (nat v)) else (-1, s))"

fun kthread_sem_post :: "ksem \<Rightarrow> (int \<times> ksem) outcome" where
  "kthread_sem_post (Sem_value n) =
     (if int n < SEM_VALUE_MAX then Ok (0, Sem_value (Suc n)) else Ok (-1, Sem_value n))"
| "kthread_sem_post Sem_destroyed = Err Undefined"

fun kthread_sem_wait :: "ksem \<Rightarrow> (int \<times> ksem) outcome" where
  "kthread_sem_wait (Sem_value 0) = Block"
| "kthread_sem_wait (Sem_value (Suc n)) = Ok (0, Sem_value n)"
| "kthread_sem_wait Sem_destroyed = Err Undefined"

fun kthread_sem_destroy :: "ksem \<Rightarrow> (int \<times> ksem) outcome" where
  "kthread_sem_destroy (Sem_value n) = Ok (0, Sem_destroyed)"
| "kthread_sem_destroy Sem_destroyed = Err Undefined"

section \<open>Condition variables, signal masks, the end of a thread\<close>

text \<open>
  A condition variable with the threads that wait for it. Which of them \<^verbatim>\<open>pthread_cond_signal\<close> wakes
  is left to the implementation: \<open>pick\<close> is its choice. \<^verbatim>\<open>pthread_cond_wait\<close> has two parts: the caller
  releases the mutex and waits, and after it was woken (or for no reason: \<open>spurious\<close>) it takes the mutex again.
\<close>

datatype kcond = Cond_waiters "ktid list" | Cond_destroyed

definition kthread_cond_init :: "int \<times> kcond" where
  "kthread_cond_init = (0, Cond_waiters [])"

fun kthread_cond_signal :: "(ktid list \<Rightarrow> ktid) \<Rightarrow> kcond \<Rightarrow> (int \<times> kcond) outcome" where
  "kthread_cond_signal pick (Cond_waiters []) = Ok (0, Cond_waiters [])"
| "kthread_cond_signal pick (Cond_waiters (w # ws)) = Ok (0, Cond_waiters (remove1 (pick (w # ws)) (w # ws)))"
| "kthread_cond_signal pick Cond_destroyed = Err Undefined"

fun kthread_cond_wait :: "ktid \<Rightarrow> kcond \<Rightarrow> mutex \<Rightarrow> (kcond \<times> mutex) outcome" where
  "kthread_cond_wait self (Cond_waiters ws) m =
     bind_o (kthread_mutex_unlock self m) (\<lambda>(r, m). if r \<noteq> 0 then Err Undefined else Ok (Cond_waiters (ws @ [self]), m))"
| "kthread_cond_wait self Cond_destroyed m = Err Undefined"

fun kthread_cond_wait_return :: "bool \<Rightarrow> ktid \<Rightarrow> kcond \<Rightarrow> mutex \<Rightarrow> (int \<times> kcond \<times> mutex) outcome" where
  "kthread_cond_wait_return spurious self (Cond_waiters ws) m =
     (if self \<in> set ws \<and> \<not> spurious then Block
      else bind_o (kthread_mutex_lock self m) (\<lambda>(r, m). Ok (r, Cond_waiters (remove1 self ws), m)))"
| "kthread_cond_wait_return spurious self Cond_destroyed m = Err Undefined"

fun kthread_cond_destroy :: "kcond \<Rightarrow> int \<times> kcond" where
  "kthread_cond_destroy (Cond_waiters ws) = (if ws = [] then (0, Cond_destroyed) else (EBUSY, Cond_waiters ws))"
| "kthread_cond_destroy Cond_destroyed = (EINVAL, Cond_destroyed)"

text \<open>
  \<^verbatim>\<open>kthread_sigmask\<close>, for one signal: whether it is in the given set, whether it was blocked before, and
  whether it is blocked afterwards.
\<close>

datatype sig_how = SIG_BLOCK | SIG_UNBLOCK | SIG_SETMASK

fun kthread_sigmask :: "sig_how \<Rightarrow> bool \<Rightarrow> bool \<Rightarrow> bool" where
  "kthread_sigmask SIG_BLOCK in_set blocked = (blocked \<or> in_set)"
| "kthread_sigmask SIG_UNBLOCK in_set blocked = (blocked \<and> \<not> in_set)"
| "kthread_sigmask SIG_SETMASK in_set blocked = in_set"

text \<open>The kernel threads that have ended.\<close>

definition kthread_exit :: "ktid \<Rightarrow> (ktid \<Rightarrow> bool) \<Rightarrow> ktid \<Rightarrow> bool" where
  "kthread_exit self ended = ended(self := True)"

section \<open>The thread table\<close>

definition MAX_KTHREADS :: nat where "MAX_KTHREADS = 64"

record kthread_entry =
  k_tid :: ktid
  k_thread :: nat

record kthread_state =
  kthreads :: "kthread_entry list"
  kthreads_lock :: mutex
  k_inited :: bool

definition kthread_state_init :: kthread_state where
  "kthread_state_init =
     \<lparr>kthreads = replicate MAX_KTHREADS \<lparr>k_tid = 0, k_thread = 0\<rparr>,
      kthreads_lock = Mutex_free, k_inited = False\<rparr>"

text \<open>\<^verbatim>\<open>tidmap_find_tid\<close>: the index of the first entry with that identifier, \<open>None\<close> for NULL.\<close>

fun find_from :: "nat \<Rightarrow> kthread_entry list \<Rightarrow> ktid \<Rightarrow> nat option" where
  "find_from i [] t = None"
| "find_from i (e # es) t = (if k_tid e = t then Some i else find_from (Suc i) es t)"

definition tidmap_find_tid :: "kthread_state \<Rightarrow> ktid \<Rightarrow> nat option" where
  "tidmap_find_tid ks t = find_from 0 (kthreads ks) t"

definition lock_table :: "ktid \<Rightarrow> kthread_state \<Rightarrow> kthread_state outcome" where
  "lock_table self ks =
     bind_o (kthread_mutex_lock self (kthreads_lock ks)) (\<lambda>(_, m). Ok (ks\<lparr>kthreads_lock := m\<rparr>))"

definition unlock_table :: "ktid \<Rightarrow> kthread_state \<Rightarrow> kthread_state outcome" where
  "unlock_table self ks =
     bind_o (kthread_mutex_unlock self (kthreads_lock ks)) (\<lambda>(_, m). Ok (ks\<lparr>kthreads_lock := m\<rparr>))"

definition set_entry :: "kthread_state \<Rightarrow> nat \<Rightarrow> kthread_entry \<Rightarrow> kthread_state" where
  "set_entry ks i e = ks\<lparr>kthreads := (kthreads ks)[i := e]\<rparr>"

text \<open>\<open>self\<close> and \<open>pself\<close> are what \<^verbatim>\<open>kthread_self()\<close> and \<^verbatim>\<open>pthread_self()\<close> return.\<close>

definition tidmap_add_self :: "ktid \<Rightarrow> nat \<Rightarrow> kthread_state \<Rightarrow> (ktid \<times> kthread_state) outcome" where
  "tidmap_add_self self pself ks =
     bind_o (lock_table self ks) (\<lambda>ks.
     case tidmap_find_tid ks 0 of
       None \<Rightarrow> bind_o (unlock_table self ks) (\<lambda>ks. Ok (-1, ks))
     | Some i \<Rightarrow>
         bind_o (unlock_table self (set_entry ks i \<lparr>k_tid = self, k_thread = pself\<rparr>)) (\<lambda>ks.
         Ok (k_tid (kthreads ks ! i), ks)))"

definition tidmap_del :: "nat \<Rightarrow> kthread_state \<Rightarrow> kthread_state" where
  "tidmap_del i ks = set_entry ks i ((kthreads ks ! i)\<lparr>k_tid := 0\<rparr>)"

section \<open>Creating and joining threads\<close>

text \<open>
  \<^verbatim>\<open>kthread_trampoline\<close> up to its \<^verbatim>\<open>sem_post\<close>: the new thread registers itself and either
  reports the identifier through \<^verbatim>\<open>args->ptid\<close> (and goes on to run \<^verbatim>\<open>start\<close>) or reports
  the error and ends.
\<close>

definition kthread_trampoline ::
  "ktid \<Rightarrow> nat \<Rightarrow> kthread_state \<Rightarrow> (ktid option \<times> int \<times> kthread_state) outcome" where
  "kthread_trampoline child pchild ks =
     bind_o (tidmap_add_self child pchild ks) (\<lambda>(t, ks).
     if t < 0 then Ok (None, EAGAIN, ks) else Ok (Some t, 0, ks))"

text \<open>
  \<open>created\<close> is the result of \<^verbatim>\<open>pthread_create\<close>: an error number, or the identifiers of the
  new thread. The caller waits on \<^verbatim>\<open>args.sem\<close> until the trampoline has posted it, so the
  trampoline's part comes between the two parts of the caller. The result: the
  return value, what was stored through \<^verbatim>\<open>ptid\<close> (when a thread runs \<^verbatim>\<open>start\<close>), the state.
\<close>

definition kthread_create ::
  "ktid \<Rightarrow> nat \<Rightarrow> int + (ktid \<times> nat) \<Rightarrow> kthread_state \<Rightarrow> (int \<times> ktid option \<times> kthread_state) outcome" where
  "kthread_create self pself created ks =
     bind_o (if \<not> k_inited ks
             then bind_o (tidmap_add_self self pself ks) (\<lambda>(_, ks). Ok (ks\<lparr>k_inited := True\<rparr>))
             else Ok ks) (\<lambda>ks.
     case created of
       Inl rv \<Rightarrow> Ok (rv, None, ks)
     | Inr (child, pchild) \<Rightarrow>
         bind_o (kthread_trampoline child pchild ks) (\<lambda>(started, err, ks).
         if err \<noteq> 0 then Ok (-1, started, ks) else Ok (0, started, ks)))"

text \<open>
  \<open>pjoin\<close> is what \<^verbatim>\<open>pthread_join\<close> on a thread does: \<open>Block\<close> while it runs, and its return
  value. The entry found before the join is the one deleted after it.
\<close>

definition kthread_join ::
  "ktid \<Rightarrow> (nat \<Rightarrow> int outcome) \<Rightarrow> ktid \<Rightarrow> kthread_state \<Rightarrow> (int \<times> kthread_state) outcome" where
  "kthread_join self pjoin tid ks =
     bind_o (lock_table self ks) (\<lambda>ks.
     case tidmap_find_tid ks tid of
       None \<Rightarrow> bind_o (unlock_table self ks) (\<lambda>ks. Ok (-1, ks))
     | Some i \<Rightarrow>
         let thread = k_thread (kthreads ks ! i) in
         bind_o (unlock_table self ks) (\<lambda>ks.
         bind_o (pjoin thread) (\<lambda>rv.
         if rv \<noteq> 0 then Ok (rv, ks)
         else
           bind_o (lock_table self ks) (\<lambda>ks.
           bind_o (unlock_table self (tidmap_del i ks)) (\<lambda>ks.
           Ok (0, ks))))))"

section \<open>Abstraction: a finite map of live threads\<close>

definition table_ok :: "kthread_state \<Rightarrow> bool" where
  "table_ok ks \<longleftrightarrow>
     length (kthreads ks) = MAX_KTHREADS \<and> kthreads_lock ks = Mutex_free \<and>
     (\<forall>i < MAX_KTHREADS. \<forall>j < MAX_KTHREADS.
        k_tid (kthreads ks ! i) = k_tid (kthreads ks ! j) \<longrightarrow> k_tid (kthreads ks ! i) \<noteq> 0 \<longrightarrow> i = j)"

definition tidmap :: "kthread_state \<Rightarrow> ktid \<Rightarrow> nat option" where
  "tidmap ks t =
     (if t = 0 then None
      else map_option (\<lambda>i. k_thread (kthreads ks ! i)) (tidmap_find_tid ks t))"

lemma find_from_SomeD:
  "find_from k es t = Some i \<Longrightarrow> k \<le> i \<and> i < k + length es \<and> k_tid (es ! (i - k)) = t"
proof (induction es arbitrary: k)
  case (Cons e es)
  then show ?case by (fastforce simp: nth_Cons' Suc_diff_le split: if_splits)
qed simp

lemma find_from_None: "find_from k es t = None \<longleftrightarrow> (\<forall>e \<in> set es. k_tid e \<noteq> t)"
  by (induction es arbitrary: k) auto

lemma tidmap_find_tid_SomeD:
  "tidmap_find_tid ks t = Some i \<Longrightarrow> i < length (kthreads ks) \<and> k_tid (kthreads ks ! i) = t"
  unfolding tidmap_find_tid_def by (drule find_from_SomeD) simp

lemma tidmap_find_tid_None:
  "tidmap_find_tid ks t = None \<longleftrightarrow> (\<forall>i < length (kthreads ks). k_tid (kthreads ks ! i) \<noteq> t)"
  by (simp add: tidmap_find_tid_def find_from_None all_set_conv_all_nth)

lemma tidmap_find_tid_eq:
  assumes "table_ok ks" "t \<noteq> 0"
  shows "tidmap_find_tid ks t = Some i \<longleftrightarrow> i < MAX_KTHREADS \<and> k_tid (kthreads ks ! i) = t"
proof
  assume "tidmap_find_tid ks t = Some i"
  then show "i < MAX_KTHREADS \<and> k_tid (kthreads ks ! i) = t"
    using assms(1) by (auto simp: table_ok_def dest: tidmap_find_tid_SomeD)
next
  assume i: "i < MAX_KTHREADS \<and> k_tid (kthreads ks ! i) = t"
  then have "tidmap_find_tid ks t \<noteq> None"
    using assms(1) by (auto simp: tidmap_find_tid_None table_ok_def)
  then obtain j where j: "tidmap_find_tid ks t = Some j" by auto
  with i assms show "tidmap_find_tid ks t = Some i"
    using tidmap_find_tid_SomeD [OF j] by (auto simp: table_ok_def)
qed

lemma tidmap_eq_Some:
  "table_ok ks \<Longrightarrow> tidmap ks t = Some p \<longleftrightarrow>
   t \<noteq> 0 \<and> (\<exists>i < MAX_KTHREADS. k_tid (kthreads ks ! i) = t \<and> k_thread (kthreads ks ! i) = p)"
  by (auto simp: tidmap_def tidmap_find_tid_eq)

lemma table_ok_init: "table_ok kthread_state_init \<and> tidmap kthread_state_init = Map.empty"
  by (auto simp: table_ok_def kthread_state_init_def tidmap_def tidmap_find_tid_def find_from_None)

section \<open>Behaviour of the table operations\<close>

lemma lock_table_free [simp]:
  "kthreads_lock ks = Mutex_free \<Longrightarrow> lock_table self ks = Ok (ks\<lparr>kthreads_lock := Mutex_held self\<rparr>)"
  by (simp add: lock_table_def)

lemma unlock_table_held [simp]:
  "unlock_table self (ks\<lparr>kthreads_lock := Mutex_held self\<rparr>) = Ok (ks\<lparr>kthreads_lock := Mutex_free\<rparr>)"
  by (simp add: unlock_table_def)

lemma set_entry_lock [simp]:
  "set_entry (ks\<lparr>kthreads_lock := m\<rparr>) i e = (set_entry ks i e)\<lparr>kthreads_lock := m\<rparr>"
  "kthreads_lock (set_entry ks i e) = kthreads_lock ks"
  "tidmap_find_tid (ks\<lparr>kthreads_lock := m\<rparr>) t = tidmap_find_tid ks t"
  "tidmap_del i (ks\<lparr>kthreads_lock := m\<rparr>) = (tidmap_del i ks)\<lparr>kthreads_lock := m\<rparr>"
  by (simp_all add: set_entry_def tidmap_find_tid_def tidmap_del_def)

lemma update_lock_same [simp]: "kthreads_lock ks = m \<Longrightarrow> ks\<lparr>kthreads_lock := m\<rparr> = ks"
  by simp

lemma tidmap_set_entry:
  assumes ok: "table_ok ks" and i: "i < MAX_KTHREADS" and fresh: "k_tid e = 0 \<or> tidmap ks (k_tid e) = None"
  shows "table_ok (set_entry ks i e)"
    and "tidmap (set_entry ks i e) =
      (if k_tid e = 0 then (tidmap ks)(k_tid (kthreads ks ! i) := None)
       else (tidmap ks)(k_tid (kthreads ks ! i) := None, k_tid e \<mapsto> k_thread e))"
proof -
  have len: "length (kthreads ks) = MAX_KTHREADS" using ok by (simp add: table_ok_def)
  have new: "k_tid (kthreads ks ! j) \<noteq> k_tid e" if "k_tid e \<noteq> 0" "j < MAX_KTHREADS" for j
    using fresh that tidmap_eq_Some [OF ok, of "k_tid e"] by auto
  show ok': "table_ok (set_entry ks i e)"
    using ok i len new by (auto simp: table_ok_def set_entry_def nth_list_update) metis+
  have uniq: "j = i" if "j < MAX_KTHREADS" "k_tid (kthreads ks ! j) = k_tid (kthreads ks ! i)"
    "k_tid (kthreads ks ! j) \<noteq> 0" for j
    using ok i that by (auto simp: table_ok_def)
  show "tidmap (set_entry ks i e) =
      (if k_tid e = 0 then (tidmap ks)(k_tid (kthreads ks ! i) := None)
       else (tidmap ks)(k_tid (kthreads ks ! i) := None, k_tid e \<mapsto> k_thread e))"
  proof (intro ext option_eqI)
    fix t p
    show "tidmap (set_entry ks i e) t = Some p \<longleftrightarrow>
      (if k_tid e = 0 then (tidmap ks)(k_tid (kthreads ks ! i) := None)
       else (tidmap ks)(k_tid (kthreads ks ! i) := None, k_tid e \<mapsto> k_thread e)) t = Some p"
      unfolding tidmap_eq_Some [OF ok']
      using i len new uniq
      by (auto simp: set_entry_def nth_list_update tidmap_eq_Some [OF ok]) metis+
  qed
qed

text \<open>Registering the calling thread adds it to the map, unless the table is full.\<close>

lemma tidmap_add_self_spec:
  assumes ok: "table_ok ks" and self: "0 < self" "tidmap ks self = None"
  shows "\<exists>r ks'. tidmap_add_self self pself ks = Ok (r, ks') \<and> table_ok ks' \<and>
    k_inited ks' = k_inited ks \<and>
    (if tidmap_find_tid ks 0 = None then r = -1 \<and> ks' = ks
     else r = self \<and> tidmap ks' = (tidmap ks)(self \<mapsto> pself))"
proof (cases "tidmap_find_tid ks 0")
  case None
  with ok show ?thesis by (simp add: tidmap_add_self_def table_ok_def)
next
  case (Some i)
  let ?e = "\<lparr>k_tid = self, k_thread = pself\<rparr>"
  from Some ok have i: "i < MAX_KTHREADS" "k_tid (kthreads ks ! i) = 0"
    using tidmap_find_tid_SomeD [OF Some] by (auto simp: table_ok_def)
  have z: "(tidmap ks)(0 := None) = tidmap ks" by (auto simp: tidmap_def)
  have lock: "kthreads_lock ks = Mutex_free" "kthreads_lock (set_entry ks i ?e) = Mutex_free"
    using ok by (simp_all add: table_ok_def)
  have "length (kthreads ks) = MAX_KTHREADS" using ok by (simp add: table_ok_def)
  then have "tidmap_add_self self pself ks = Ok (self, set_entry ks i ?e)"
    using lock i Some by (simp add: tidmap_add_self_def) (simp add: set_entry_def)
  moreover have "k_inited (set_entry ks i ?e) = k_inited ks" by (simp add: set_entry_def)
  ultimately show ?thesis
    using tidmap_set_entry [OF ok i(1), of ?e] self Some i(2) z by simp
qed

lemma table_full_iff:
  assumes "table_ok ks"
  shows "tidmap_find_tid ks 0 = None \<longleftrightarrow> card (dom (tidmap ks)) = MAX_KTHREADS"
proof -
  let ?f = "\<lambda>i. k_tid (kthreads ks ! i)" and ?I = "{i. i < MAX_KTHREADS \<and> k_tid (kthreads ks ! i) \<noteq> 0}"
  have dom: "dom (tidmap ks) = ?f ` ?I"
    by (auto simp: dom_def tidmap_eq_Some [OF assms])
  have inj: "inj_on ?f ?I" using assms by (auto simp: inj_on_def table_ok_def)
  have card: "card (dom (tidmap ks)) = card ?I" unfolding dom by (rule card_image [OF inj])
  have "length (kthreads ks) = MAX_KTHREADS" using assms by (simp add: table_ok_def)
  then have "tidmap_find_tid ks 0 = None \<longleftrightarrow> ?I = {..<MAX_KTHREADS}"
    by (auto simp: tidmap_find_tid_None)
  also have "\<dots> \<longleftrightarrow> card ?I = MAX_KTHREADS"
  proof
    assume "card ?I = MAX_KTHREADS"
    then show "?I = {..<MAX_KTHREADS}" by (intro card_subset_eq) auto
  qed simp
  finally show ?thesis using card by simp
qed

lemma kthread_create_spec:
  assumes ok: "table_ok ks" and inited: "k_inited ks"
    and child: "0 < child" "tidmap ks child = None"
  shows "\<exists>r st ks'. kthread_create self pself (Inr (child, pchild)) ks = Ok (r, st, ks') \<and>
    table_ok ks' \<and> k_inited ks' \<and>
    (if card (dom (tidmap ks)) = MAX_KTHREADS
     then r = -1 \<and> st = None \<and> ks' = ks
     else r = 0 \<and> st = Some child \<and> tidmap ks' = (tidmap ks)(child \<mapsto> pchild))"
  using tidmap_add_self_spec [OF ok child, of pchild] child inited table_full_iff [OF ok]
  by (auto simp: kthread_create_def kthread_trampoline_def EAGAIN_def split: if_splits)

text \<open>Joining: an unknown identifier is refused; a thread that ended is taken out of the map.\<close>

lemma kthread_join_spec:
  assumes ok: "table_ok ks" and tid: "tid \<noteq> 0"
  shows "kthread_join self pjoin tid ks =
    (case tidmap ks tid of
       None \<Rightarrow> Ok (-1, ks)
     | Some p \<Rightarrow> bind_o (pjoin p) (\<lambda>rv.
         if rv \<noteq> 0 then Ok (rv, ks) else Ok (0, tidmap_del (the (tidmap_find_tid ks tid)) ks)))"
proof -
  have lock: "kthreads_lock ks = Mutex_free" using ok by (simp add: table_ok_def)
  moreover have "kthreads_lock (tidmap_del i ks) = Mutex_free" for i
    using lock by (simp add: tidmap_del_def)
  ultimately show ?thesis
    using tid
    by (auto simp: kthread_join_def tidmap_def Let_def intro!: arg_cong [of _ _ "bind_o _"]
        split: option.splits)
qed

lemma tidmap_del_spec:
  assumes ok: "table_ok ks" and tid: "tid \<noteq> 0" and found: "tidmap_find_tid ks tid = Some i"
  shows "table_ok (tidmap_del i ks) \<and> tidmap (tidmap_del i ks) = (tidmap ks)(tid := None)"
proof -
  from found have "i < MAX_KTHREADS" "k_tid (kthreads ks ! i) = tid"
    by (auto simp: tidmap_find_tid_eq [OF ok tid])
  with tidmap_set_entry [OF ok, of i "(kthreads ks ! i)\<lparr>k_tid := 0\<rparr>"] show ?thesis
    by (simp add: tidmap_del_def)
qed

section \<open>The table as a registry of threads\<close>

text \<open>
  What \<^verbatim>\<open>uthread_init\<close> and \<^verbatim>\<open>uthread_teardown\<close> rely on: creating a thread adds it to
  the map until the capacity is reached, joining a thread that has ended removes it.
\<close>

primrec create_all :: "(ktid \<Rightarrow> 's \<Rightarrow> (int \<times> 's) outcome) \<Rightarrow> ktid list \<Rightarrow> 's \<Rightarrow> 's outcome" where
  "create_all create [] s = Ok s"
| "create_all create (t # ts) s = bind_o (create t s) (\<lambda>(r, s'). create_all create ts s')"

locale thread_registry =
  fixes ok :: "'s \<Rightarrow> bool"
    and view :: "'s \<Rightarrow> ktid \<Rightarrow> nat option"
    and create :: "ktid \<Rightarrow> 's \<Rightarrow> (int \<times> 's) outcome"
    and join :: "ktid \<Rightarrow> 's \<Rightarrow> (int \<times> 's) outcome"
    and cap :: nat
  assumes finite_view: "ok s \<Longrightarrow> finite (dom (view s))"
    and create_ok: "\<lbrakk>ok s; 0 < t; view s t = None; card (dom (view s)) < cap\<rbrakk> \<Longrightarrow>
      \<exists>s'. create t s = Ok (0, s') \<and> ok s' \<and> view s' = (view s)(t \<mapsto> nat t)"
    and create_full: "\<lbrakk>ok s; 0 < t; view s t = None; card (dom (view s)) = cap\<rbrakk> \<Longrightarrow>
      create t s = Ok (-1, s)"
    and join_ok: "\<lbrakk>ok s; 0 < t; view s t = Some p\<rbrakk> \<Longrightarrow>
      \<exists>s'. join t s = Ok (0, s') \<and> ok s' \<and> view s' = (view s)(t := None)"
begin

lemma create_all_ok:
  assumes "ok s" "distinct ts" "\<forall>t \<in> set ts. 0 < t \<and> view s t = None"
    "card (dom (view s)) + length ts \<le> cap"
  shows "\<exists>s'. create_all create ts s = Ok s' \<and> ok s' \<and>
    view s' = (\<lambda>t. if t \<in> set ts then Some (nat t) else view s t)"
  using assms
proof (induction ts arbitrary: s)
  case (Cons t ts)
  from create_ok [of s t] Cons.prems obtain s1 where s1: "create t s = Ok (0, s1)" "ok s1"
    "view s1 = (view s)(t \<mapsto> nat t)" by auto
  have "card (dom (view s1)) = Suc (card (dom (view s)))"
    using s1(3) Cons.prems(3) finite_view [OF Cons.prems(1)] by (simp add: domIff)
  moreover have "\<forall>u \<in> set ts. 0 < u \<and> view s1 u = None" using Cons.prems s1(3) by auto
  ultimately obtain s' where "create_all create ts s1 = Ok s'" "ok s'"
    "view s' = (\<lambda>u. if u \<in> set ts then Some (nat u) else view s1 u)"
    using Cons.IH [OF s1(2)] Cons.prems by auto
  with s1 show ?case by auto
qed auto

lemma join_all_ok:
  assumes "ok s" "distinct ts" "\<forall>t \<in> set ts. 0 < t \<and> view s t \<noteq> None"
  shows "\<exists>s'. create_all join ts s = Ok s' \<and> ok s' \<and>
    view s' = (\<lambda>t. if t \<in> set ts then None else view s t)"
  using assms
proof (induction ts arbitrary: s)
  case (Cons t ts)
  from Cons.prems(3) obtain p where "view s t = Some p" by auto
  with join_ok [of s t] Cons.prems obtain s1 where s1: "join t s = Ok (0, s1)" "ok s1"
    "view s1 = (view s)(t := None)" by auto
  have "\<forall>u \<in> set ts. 0 < u \<and> view s1 u \<noteq> None" using Cons.prems s1(3) by auto
  then obtain s' where "create_all join ts s1 = Ok s'" "ok s'"
    "view s' = (\<lambda>u. if u \<in> set ts then None else view s1 u)"
    using Cons.IH [OF s1(2)] Cons.prems by auto
  with s1 show ?case by auto
qed auto

lemma create_join_all:
  assumes "ok s" "distinct ts" "\<forall>t \<in> set ts. 0 < t \<and> view s t = None"
    "card (dom (view s)) + length ts \<le> cap"
  shows "\<exists>s1 s2. create_all create ts s = Ok s1 \<and> create_all join ts s1 = Ok s2 \<and> ok s2 \<and>
    view s2 = view s"
proof -
  from create_all_ok [OF assms] obtain s1 where s1: "create_all create ts s = Ok s1" "ok s1"
    "view s1 = (\<lambda>t. if t \<in> set ts then Some (nat t) else view s t)" by blast
  with join_all_ok [OF s1(2) assms(2)] assms(3) obtain s2 where "create_all join ts s1 = Ok s2"
    "ok s2" "view s2 = (\<lambda>t. if t \<in> set ts then None else view s1 t)" by auto
  moreover have "(\<lambda>t. if t \<in> set ts then None else view s1 t) = view s"
    using s1(3) assms(3) by auto
  ultimately show ?thesis using s1 by auto
qed

end

text \<open>Creation and joining by the thread \<open>self\<close>, with all joined threads ended.\<close>

definition create_by :: "ktid \<Rightarrow> ktid \<Rightarrow> kthread_state \<Rightarrow> (int \<times> kthread_state) outcome" where
  "create_by self t ks =
     bind_o (kthread_create self (nat self) (Inr (t, nat t)) ks) (\<lambda>(r, _, ks'). Ok (r, ks'))"

definition join_by :: "ktid \<Rightarrow> ktid \<Rightarrow> kthread_state \<Rightarrow> (int \<times> kthread_state) outcome" where
  "join_by self t ks = kthread_join self (\<lambda>_. Ok 0) t ks"

lemma dom_tidmap_le:
  assumes "table_ok ks"
  shows "finite (dom (tidmap ks)) \<and> card (dom (tidmap ks)) \<le> MAX_KTHREADS"
proof -
  have "dom (tidmap ks) \<subseteq> (\<lambda>i. k_tid (kthreads ks ! i)) ` {..<MAX_KTHREADS}"
    by (auto simp: dom_def tidmap_eq_Some [OF assms])
  then show ?thesis
    using finite_subset card_mono [of _ "dom (tidmap ks)"] card_image_le [of "{..<MAX_KTHREADS}"]
    by (metis (no_types, lifting) card_lessThan finite_imageI finite_lessThan order_trans)
qed

lemma tidmap_k_inited [simp]:
  "table_ok (ks\<lparr>k_inited := b\<rparr>) = table_ok ks" "tidmap (ks\<lparr>k_inited := b\<rparr>) = tidmap ks"
  by (simp_all add: table_ok_def tidmap_def tidmap_find_tid_def fun_eq_iff)

lemma tidmap_del_kinit [simp]: "k_inited (tidmap_del i ks) = k_inited ks"
  by (simp add: tidmap_del_def set_entry_def)

interpretation kreg: thread_registry "\<lambda>ks. table_ok ks \<and> k_inited ks" tidmap
  "create_by self" "join_by self" MAX_KTHREADS
  for self
proof unfold_locales
  fix s and t :: ktid and p
  assume "table_ok s \<and> k_inited s"
  then have ok: "table_ok s" "k_inited s" by auto
  show "finite (dom (tidmap s))" using dom_tidmap_le [OF ok(1)] by simp
  assume t: "0 < t"
  show "\<exists>s'. create_by self t s = Ok (0, s') \<and> (table_ok s' \<and> k_inited s') \<and>
      tidmap s' = (tidmap s)(t \<mapsto> nat t)"
    if "tidmap s t = None" "card (dom (tidmap s)) < MAX_KTHREADS"
    using kthread_create_spec [OF ok t that(1), of self "nat self" "nat t"] that(2)
    by (auto simp: create_by_def)
  show "create_by self t s = Ok (-1, s)"
    if "tidmap s t = None" "card (dom (tidmap s)) = MAX_KTHREADS"
    using kthread_create_spec [OF ok t that(1), of self "nat self" "nat t"] that(2)
    by (auto simp: create_by_def)
  show "\<exists>s'. join_by self t s = Ok (0, s') \<and> (table_ok s' \<and> k_inited s') \<and>
      tidmap s' = (tidmap s)(t := None)" if "tidmap s t = Some p"
  proof -
    from that t obtain i where i: "tidmap_find_tid s t = Some i" by (auto simp: tidmap_def)
    with kthread_join_spec [OF ok(1), of t self "\<lambda>_. Ok 0"] tidmap_del_spec [OF ok(1) _ i] t that ok(2)
    show ?thesis by (auto simp: join_by_def)
  qed
qed

section \<open>Properties\<close>

lemma cond_signal_picks: "ws \<noteq> [] \<Longrightarrow> kthread_cond_signal pick (Cond_waiters ws) = Ok (0, Cond_waiters (remove1 (pick ws) ws))"
  by (cases ws) simp_all

text \<open>
  C25: Threads created one after the other, as many as fit into the table, are all registered,
  and joining them after they ended empties the table again: entries are neither lost nor
  leaked.
\<close>

theorem kthread_create_join_roundtrip:
  assumes "table_ok ks" "k_inited ks" "distinct ts" "\<forall>t \<in> set ts. 0 < t \<and> tidmap ks t = None"
    "card (dom (tidmap ks)) + length ts \<le> MAX_KTHREADS"
  shows "\<exists>ks1 ks2. create_all (create_by self) ts ks = Ok ks1 \<and>
    create_all (join_by self) ts ks1 = Ok ks2 \<and> table_ok ks2 \<and> tidmap ks2 = tidmap ks"
  using kreg.create_join_all [of ks ts] assms by blast

theorem kthread_create_join_roundtrip_witness:
  "\<exists>ks1 ks2. create_all (create_by 7) [8, 9, 10] (kthread_state_init\<lparr>k_inited := True\<rparr>) = Ok ks1 \<and>
    create_all (join_by 7) [8, 9, 10] ks1 = Ok ks2 \<and> table_ok ks2 \<and> tidmap ks2 = Map.empty"
  using kthread_create_join_roundtrip [of "kthread_state_init\<lparr>k_inited := True\<rparr>" "[8, 9, 10]" 7]
    table_ok_init by (simp add: MAX_KTHREADS_def)

text \<open>
  C26: When the table is full, \<^verbatim>\<open>kthread_create\<close> fails with -1, no thread runs the start
  function and the table is unchanged.
\<close>

theorem kthread_create_table_full:
  assumes "table_ok ks" "k_inited ks" "0 < child" "tidmap ks child = None"
    "card (dom (tidmap ks)) = MAX_KTHREADS"
  shows "kthread_create self pself (Inr (child, pchild)) ks = Ok (-1, None, ks)"
  using kthread_create_spec [OF assms(1-4), of self pself pchild] assms(5) by auto

definition full_table :: kthread_state where
  "full_table = kthread_state_init\<lparr>k_inited := True,
     kthreads := map (\<lambda>i. \<lparr>k_tid = int i + 1, k_thread = i\<rparr>) [0..<MAX_KTHREADS]\<rparr>"

theorem kthread_create_table_full_witness:
  "kthread_create 1 1 (Inr (100, 100)) full_table = Ok (-1, None, full_table)"
proof (rule kthread_create_table_full)
  show ok: "table_ok full_table"
    by (auto simp: full_table_def table_ok_def kthread_state_init_def)
  show "card (dom (tidmap full_table)) = MAX_KTHREADS"
    unfolding table_full_iff [OF ok, symmetric]
    by (simp add: tidmap_find_tid_None full_table_def)
  show "tidmap full_table 100 = None"
    by (simp add: tidmap_def tidmap_find_tid_None full_table_def MAX_KTHREADS_def)
qed (simp_all add: full_table_def)

text \<open>
  C28: \<^verbatim>\<open>kthread_join\<close> refuses an unknown identifier with -1, waits for a registered
  thread, leaves the table unchanged when \<^verbatim>\<open>pthread_join\<close> fails and otherwise removes
  exactly that thread.
\<close>

theorem kthread_join_behaviour:
  assumes "table_ok ks" "tid \<noteq> 0"
  shows "case tidmap ks tid of
      None \<Rightarrow> kthread_join self pjoin tid ks = Ok (-1, ks)
    | Some p \<Rightarrow>
        (pjoin p = Block \<longrightarrow> kthread_join self pjoin tid ks = Block) \<and>
        (\<forall>rv. pjoin p = Ok rv \<and> rv \<noteq> 0 \<longrightarrow> kthread_join self pjoin tid ks = Ok (rv, ks)) \<and>
        (pjoin p = Ok 0 \<longrightarrow> (\<exists>ks'. kthread_join self pjoin tid ks = Ok (0, ks') \<and> table_ok ks' \<and>
          tidmap ks' = (tidmap ks)(tid := None)))"
proof (cases "tidmap ks tid")
  case None
  then show ?thesis using kthread_join_spec [OF assms] by simp
next
  case (Some p)
  then obtain i where i: "tidmap_find_tid ks tid = Some i" using assms(2) by (auto simp: tidmap_def)
  show ?thesis
    using Some kthread_join_spec [OF assms, of self pjoin] tidmap_del_spec [OF assms i] i by auto
qed

theorem kthread_join_behaviour_witness:
  "kthread_join 7 (\<lambda>_. Ok 0) 8 kthread_state_init = Ok (-1, kthread_state_init)"
  using kthread_join_behaviour [of kthread_state_init 8 7 "\<lambda>_. Ok 0"] table_ok_init by simp



end
