(* ===== verification/Uthread_State.thy ===== *)
theory Uthread_State
  imports Queue Bitvec Kthread
begin

text \<open>
  The data of \<^verbatim>\<open>uthread.h\<close> and the static variables of \<^verbatim>\<open>uthread.c\<close>, with the
  accesses the library's code makes to them. The memory of the library is explicit:
  thread control blocks live in a heap indexed by address (a freed block is no longer in
  it), other malloc'ed blocks are a set of addresses. Every fallible call of the C library or
  the system (\<^verbatim>\<open>malloc\<close>, \<^verbatim>\<open>getcontext\<close>, \<^verbatim>\<open>timer_create\<close>, \dots) consumes one answer of
  an arbitrary oracle \<open>fails\<close>, so that all failure branches are part of the model.
\<close>

section \<open>Types\<close>

type_synonym tid_t = "32 word"
type_synonym semid = nat

definition UTHREAD_MAX_THREADS :: nat where "UTHREAD_MAX_THREADS = 1024"
definition UTHREAD_DEF_STACK_SIZE :: int where "UTHREAD_DEF_STACK_SIZE = 1048576"
definition UTHREAD_TID_MAIN :: int where "UTHREAD_TID_MAIN = 0"
definition MAIN_KTHREAD_INDEX :: nat where "MAIN_KTHREAD_INDEX = 0"

datatype thread_state = READY | RUNNING | WAITING_JOIN | WAITING_SEM | FINISHED

datatype sched_task = NONE | YIELD | EXIT | JOIN | SEM_WAIT | TEARDOWN

text \<open>Pointers to mutexes and to queues, as the scheduler information stores them.\<close>

datatype mutex_ref = Bitvec_lock | Tcbs_lock | Rqueue_lock | Sem_lock semid
datatype queue_ref = Join_queue addr | Sem_queue semid

record stack_t =
  ss_sp :: addr
  ss_size :: int
  ss_flags :: int

text \<open>
  The saved registers of a \<^verbatim>\<open>ucontext_t\<close> are kept by the machine (theory
  \<open>Machine\<close>); here are its stack and whether its successor context was set.
\<close>

record uthread_tcb_t =
  tcb_tid :: tid_t
  stack_allocated :: bool
  state :: thread_state
  retval :: addr
  join_queue :: queue_t
  uc_stack :: stack_t
  uc_link_abort :: bool

record uthread_sem_t =
  counter :: int
  sem_queue :: queue_t
  sem_lock :: mutex

record uthread_ksched_t =
  task :: sched_task
  sched_lock :: "mutex_ref option"
  sched_queue :: "queue_ref option"
  sched_stack :: stack_t
  sched_mask :: bool

record uthread_kinfo_t =
  kinfo_ktid :: ktid
  current_tid :: int
  sched_info :: uthread_ksched_t
  timer_nsec :: "int option"
  preempted :: bool

record ready_queue =
  rq_queue :: queue_t
  rq_not_empty :: ksem
  rq_lock :: mutex

record shared =
  inited_sem :: ksem
  exitall_sem :: ksem
  rqueue :: ready_queue
  bitvec :: bitvec_t
  bitvec_lock :: mutex
  tcbs :: "nat \<Rightarrow> addr"
  tcbs_lock :: mutex
  abort_stack :: stack_t
  inited :: bool
  quantum :: int
  kthread_info :: "uthread_kinfo_t list"
  num_kthreads :: nat
  tcb_heap :: "addr \<Rightarrow> uthread_tcb_t option"
  blocks :: "addr set"
  sems :: "semid \<Rightarrow> uthread_sem_t option"
  fails :: "nat \<Rightarrow> bool"
  ncalls :: nat
  brk :: addr
  sigblocked :: "ktid \<Rightarrow> bool"
  kstate :: kthread_state
  next_ktid :: ktid
  kexited :: "ktid \<Rightarrow> bool"
  cmem :: "nat \<Rightarrow> int"

text \<open>The address of the static object \<^verbatim>\<open>exitall\<close>, which only serves as a marker.\<close>

definition exitall :: addr where "exitall = 1"

section \<open>The C library\<close>

definition libc_call :: "shared \<Rightarrow> bool \<times> shared" where
  "libc_call s = (fails s (ncalls s), s\<lparr>ncalls := Suc (ncalls s)\<rparr>)"

text \<open>\<open>malloc\<close> returns \<open>NULL\<close> or an address that was never returned before.\<close>

definition malloc :: "shared \<Rightarrow> addr \<times> shared" where
  "malloc s =
     (let (f, s1) = libc_call s in
      if f then (NULL, s1) else (brk s1, s1\<lparr>brk := Suc (brk s1)\<rparr>))"

definition free_block :: "addr \<Rightarrow> shared \<Rightarrow> shared outcome" where
  "free_block p s =
     (if p = NULL then Ok s
      else if p \<in> blocks s then Ok (s\<lparr>blocks := blocks s - {p}\<rparr>) else Err Bad_pointer)"

section \<open>Accesses to thread control blocks\<close>

definition tcb_at :: "shared \<Rightarrow> addr \<Rightarrow> uthread_tcb_t outcome" where
  "tcb_at s p =
     (if p = NULL then Err Null_deref
      else case tcb_heap s p of None \<Rightarrow> Err Bad_pointer | Some t \<Rightarrow> Ok t)"

definition tcb_update :: "addr \<Rightarrow> (uthread_tcb_t \<Rightarrow> uthread_tcb_t) \<Rightarrow> shared \<Rightarrow> shared outcome" where
  "tcb_update p f s =
     bind_o (tcb_at s p) (\<lambda>t. Ok (s\<lparr>tcb_heap := (tcb_heap s)(p \<mapsto> f t)\<rparr>))"

text \<open>\<^verbatim>\<open>tcbs[t]\<close> for an index of type \<^verbatim>\<open>tid_t\<close> and for one of type \<open>int\<close>.\<close>

definition tcbs_at :: "shared \<Rightarrow> tid_t \<Rightarrow> addr outcome" where
  "tcbs_at s t =
     (if unat t < UTHREAD_MAX_THREADS then Ok (tcbs s (unat t)) else Err Out_of_bounds)"

definition tcbs_at_int :: "shared \<Rightarrow> int \<Rightarrow> addr outcome" where
  "tcbs_at_int s t =
     (if 0 \<le> t \<and> nat t < UTHREAD_MAX_THREADS then Ok (tcbs s (nat t)) else Err Out_of_bounds)"

section \<open>Kernel thread information\<close>

text \<open>
  \<^verbatim>\<open>get_kthread_info\<close>: the loop runs over all entries and keeps the last one that
  matches. The result is the index of the entry.
\<close>

fun last_match :: "nat \<Rightarrow> uthread_kinfo_t list \<Rightarrow> ktid \<Rightarrow> nat option \<Rightarrow> nat option" where
  "last_match i [] k found = found"
| "last_match i (x # xs) k found =
     last_match (Suc i) xs k (if kinfo_ktid x = k then Some i else found)"

definition get_kthread_info :: "shared \<Rightarrow> ktid \<Rightarrow> nat outcome" where
  "get_kthread_info s k =
     (case last_match 0 (take (num_kthreads s) (kthread_info s)) k None of
        None \<Rightarrow> Err Assert_fail
      | Some i \<Rightarrow> Ok i)"

definition kinfo_at :: "shared \<Rightarrow> ktid \<Rightarrow> uthread_kinfo_t outcome" where
  "kinfo_at s k = bind_o (get_kthread_info s k) (\<lambda>i. Ok (kthread_info s ! i))"

definition kinfo_update ::
  "(uthread_kinfo_t \<Rightarrow> uthread_kinfo_t) \<Rightarrow> ktid \<Rightarrow> shared \<Rightarrow> shared outcome" where
  "kinfo_update f k s =
     bind_o (get_kthread_info s k) (\<lambda>i.
     Ok (s\<lparr>kthread_info := (kthread_info s)[i := f (kthread_info s ! i)]\<rparr>))"

text \<open>\<^verbatim>\<open>uthread_self\<close>: the field \<open>current_tid\<close> converted to \<^verbatim>\<open>tid_t\<close>.\<close>

definition uthread_self :: "ktid \<Rightarrow> shared \<Rightarrow> tid_t outcome" where
  "uthread_self k s =
     bind_o (assert_o (inited s)) (\<lambda>_.
     bind_o (kinfo_at s k) (\<lambda>ki. Ok (word_of_int (current_tid ki))))"

text \<open>The expression \<^verbatim>\<open>tcbs[uthread_self()]\<close>.\<close>

definition self_tcb :: "ktid \<Rightarrow> shared \<Rightarrow> addr outcome" where
  "self_tcb k s = bind_o (uthread_self k s) (tcbs_at s)"

section \<open>Mutexes, semaphores and queues by reference\<close>

fun get_mutex :: "shared \<Rightarrow> mutex_ref \<Rightarrow> mutex outcome" where
  "get_mutex s Bitvec_lock = Ok (bitvec_lock s)"
| "get_mutex s Tcbs_lock = Ok (tcbs_lock s)"
| "get_mutex s Rqueue_lock = Ok (rq_lock (rqueue s))"
| "get_mutex s (Sem_lock m) =
     (case sems s m of None \<Rightarrow> Err Undefined | Some x \<Rightarrow> Ok (sem_lock x))"

fun set_mutex :: "mutex_ref \<Rightarrow> mutex \<Rightarrow> shared \<Rightarrow> shared" where
  "set_mutex Bitvec_lock v s = s\<lparr>bitvec_lock := v\<rparr>"
| "set_mutex Tcbs_lock v s = s\<lparr>tcbs_lock := v\<rparr>"
| "set_mutex Rqueue_lock v s = s\<lparr>rqueue := (rqueue s)\<lparr>rq_lock := v\<rparr>\<rparr>"
| "set_mutex (Sem_lock m) v s =
     s\<lparr>sems := (sems s)(m := map_option (\<lambda>x. x\<lparr>sem_lock := v\<rparr>) (sems s m))\<rparr>"

definition do_lock :: "mutex_ref \<Rightarrow> ktid \<Rightarrow> shared \<Rightarrow> (int \<times> shared) outcome" where
  "do_lock r k s =
     bind_o (get_mutex s r) (\<lambda>m.
     bind_o (kthread_mutex_lock k m) (\<lambda>(rv, m').
     Ok (rv, set_mutex r m' s)))"

definition do_unlock :: "mutex_ref \<Rightarrow> ktid \<Rightarrow> shared \<Rightarrow> (int \<times> shared) outcome" where
  "do_unlock r k s =
     bind_o (get_mutex s r) (\<lambda>m.
     bind_o (kthread_mutex_unlock k m) (\<lambda>(rv, m').
     Ok (rv, set_mutex r m' s)))"

fun get_queue :: "shared \<Rightarrow> queue_ref \<Rightarrow> queue_t outcome" where
  "get_queue s (Join_queue p) = bind_o (tcb_at s p) (\<lambda>t. Ok (join_queue t))"
| "get_queue s (Sem_queue m) =
     (case sems s m of None \<Rightarrow> Err Undefined | Some x \<Rightarrow> Ok (sem_queue x))"

fun set_queue :: "queue_ref \<Rightarrow> queue_t \<Rightarrow> shared \<Rightarrow> shared" where
  "set_queue (Join_queue p) q s =
     s\<lparr>tcb_heap := (tcb_heap s)(p := map_option (\<lambda>t. t\<lparr>join_queue := q\<rparr>) (tcb_heap s p))\<rparr>"
| "set_queue (Sem_queue m) q s =
     s\<lparr>sems := (sems s)(m := map_option (\<lambda>x. x\<lparr>sem_queue := q\<rparr>) (sems s m))\<rparr>"

definition enqueue_ref :: "queue_ref \<Rightarrow> addr \<Rightarrow> shared \<Rightarrow> (int \<times> shared) outcome" where
  "enqueue_ref r p s =
     bind_o (get_queue s r) (\<lambda>q.
     let (m, s1) = malloc s in
     bind_o (queue_enqueue m q p) (\<lambda>(rv, q'). Ok (rv, set_queue r q' s1)))"

definition dequeue_ref :: "queue_ref \<Rightarrow> shared \<Rightarrow> (addr \<times> shared) outcome" where
  "dequeue_ref r s =
     bind_o (get_queue s r) (\<lambda>q.
     bind_o (queue_dequeue q) (\<lambda>(p, q'). Ok (p, set_queue r q' s)))"

definition rq_enqueue :: "addr \<Rightarrow> shared \<Rightarrow> (int \<times> shared) outcome" where
  "rq_enqueue p s =
     (let (m, s1) = malloc s in
      bind_o (queue_enqueue m (rq_queue (rqueue s1)) p) (\<lambda>(rv, q').
      Ok (rv, s1\<lparr>rqueue := (rqueue s1)\<lparr>rq_queue := q'\<rparr>\<rparr>)))"

definition rq_dequeue :: "shared \<Rightarrow> (addr \<times> shared) outcome" where
  "rq_dequeue s =
     bind_o (queue_dequeue (rq_queue (rqueue s))) (\<lambda>(p, q').
     Ok (p, s\<lparr>rqueue := (rqueue s)\<lparr>rq_queue := q'\<rparr>\<rparr>))"

text \<open>The semaphores \<^verbatim>\<open>rqueue.not_empty\<close>, \<^verbatim>\<open>inited_sem\<close> and \<^verbatim>\<open>exitall_sem\<close>.\<close>

definition post_not_empty :: "shared \<Rightarrow> (int \<times> shared) outcome" where
  "post_not_empty s =
     bind_o (kthread_sem_post (rq_not_empty (rqueue s))) (\<lambda>(rv, v).
     Ok (rv, s\<lparr>rqueue := (rqueue s)\<lparr>rq_not_empty := v\<rparr>\<rparr>))"

definition wait_not_empty :: "shared \<Rightarrow> (int \<times> shared) outcome" where
  "wait_not_empty s =
     bind_o (kthread_sem_wait (rq_not_empty (rqueue s))) (\<lambda>(rv, v).
     Ok (rv, s\<lparr>rqueue := (rqueue s)\<lparr>rq_not_empty := v\<rparr>\<rparr>))"

definition post_inited :: "shared \<Rightarrow> (int \<times> shared) outcome" where
  "post_inited s = bind_o (kthread_sem_post (inited_sem s)) (\<lambda>(rv, v). Ok (rv, s\<lparr>inited_sem := v\<rparr>))"

definition wait_inited :: "shared \<Rightarrow> (int \<times> shared) outcome" where
  "wait_inited s = bind_o (kthread_sem_wait (inited_sem s)) (\<lambda>(rv, v). Ok (rv, s\<lparr>inited_sem := v\<rparr>))"

definition post_exitall :: "shared \<Rightarrow> (int \<times> shared) outcome" where
  "post_exitall s = bind_o (kthread_sem_post (exitall_sem s)) (\<lambda>(rv, v). Ok (rv, s\<lparr>exitall_sem := v\<rparr>))"

definition wait_exitall :: "shared \<Rightarrow> (int \<times> shared) outcome" where
  "wait_exitall s = bind_o (kthread_sem_wait (exitall_sem s)) (\<lambda>(rv, v). Ok (rv, s\<lparr>exitall_sem := v\<rparr>))"

section \<open>Stacks and signals\<close>

text \<open>
  \<^verbatim>\<open>allocate_stack\<close>: the return value, the stack descriptor and the state. The registration
  with Valgrind has no effect on the program.
\<close>

definition allocate_stack :: "stack_t \<Rightarrow> addr \<Rightarrow> int \<Rightarrow> shared \<Rightarrow> int \<times> stack_t \<times> shared" where
  "allocate_stack stack stack_base stack_size s =
     (let size = (if stack_size \<noteq> 0 then stack_size else UTHREAD_DEF_STACK_SIZE);
          (sp, s1) = (if stack_base \<noteq> NULL then (stack_base, s) else malloc s);
          s2 = (if stack_base = NULL \<and> sp \<noteq> NULL then s1\<lparr>blocks := insert sp (blocks s1)\<rparr> else s1);
          stack1 = stack\<lparr>ss_size := size, ss_sp := sp\<rparr> in
      if sp = NULL then (1, stack1, s2)
      else (0, stack1\<lparr>ss_flags := 0\<rparr>, s2))"

text \<open>\<^verbatim>\<open>block_sigrtmin\<close> and \<^verbatim>\<open>unblock_sigrtmin\<close>: the signal mask is touched when preemption is on.\<close>

definition set_sigmask :: "bool \<Rightarrow> ktid \<Rightarrow> shared \<Rightarrow> shared outcome" where
  "set_sigmask b k s =
     (if quantum s \<noteq> 0 then
        let (f, s1) = libc_call s in
        if f then Err Abort else Ok (s1\<lparr>sigblocked := (sigblocked s1)(k :=
          kthread_sigmask (if b then SIG_BLOCK else SIG_UNBLOCK) True (sigblocked s1 k))\<rparr>)
      else Ok s)"

lemma sigmask_simps [simp]: "kthread_sigmask (if b then SIG_BLOCK else SIG_UNBLOCK) True x = b"
  by (cases b) simp_all

definition sigrtmin_handler :: "ktid \<Rightarrow> shared \<Rightarrow> shared outcome" where
  "sigrtmin_handler k s =
     (if inited s \<and> quantum s \<noteq> 0 then kinfo_update (\<lambda>ki. ki\<lparr>preempted := True\<rparr>) k s else Ok s)"

text \<open>
  \<^verbatim>\<open>set_timer_interrupt\<close>: install the handler, create the timer, arm it with an interval
  of \<open>quantum\<close> nanoseconds (\<^verbatim>\<open>timer_settime\<close> refuses a value outside \<open>0 \<dots> 999999999\<close>).
\<close>

definition set_timer_interrupt :: "ktid \<Rightarrow> shared \<Rightarrow> shared outcome" where
  "set_timer_interrupt k s =
     bind_o (get_kthread_info s k) (\<lambda>_.
     let (f1, s1) = libc_call s in
     if f1 then Err Abort else
     let (f2, s2) = libc_call s1 in
     if f2 then Err Abort else
     let (f3, s3) = libc_call s2 in
     if f3 \<or> \<not> (0 \<le> quantum s3 \<and> quantum s3 < 1000000000) then Err Abort
     else kinfo_update (\<lambda>ki. ki\<lparr>timer_nsec := Some (quantum s3)\<rparr>) k s3)"

end
