(* ===== verification/Uthread_Code.thy ===== *)
theory Uthread_Code
  imports Uthread_State
begin

text \<open>
  The functions of \<^verbatim>\<open>uthread.c\<close> as code that kernel threads execute in small steps.
  Code is built from atoms: an atom is one access to the shared state (a lock operation, a
  queue operation, an assignment, \dots) and yields the code that follows. Other kernel threads
  may take steps between any two atoms. A function of the library is a definition that takes
  what the caller does next as its last argument, so that the code saved by
  \<^verbatim>\<open>swapcontext\<close> is exactly the rest of the caller.
\<close>

section \<open>Client programs\<close>

text \<open>
  The program of a user thread: the calls it makes to the public interface, each with the
  rest of the program as a function of the result, and arbitrary steps on the client's own
  memory (\<open>U_mem\<close>). Programs may be infinite. \<open>U_ret\<close> returns from the thread's start
  function, \<open>U_process_exit\<close> ends the process (\<^verbatim>\<open>exit()\<close>, or returning from
  \<^verbatim>\<open>main\<close>).
\<close>

codatatype uprog =
    U_init int int "int \<Rightarrow> uprog"
  | U_teardown uprog
  | U_create "addr \<Rightarrow> uprog" addr addr int "int \<times> tid_t option \<Rightarrow> uprog"
  | U_exit addr
  | U_ret addr
  | U_join tid_t bool "int \<times> addr option \<Rightarrow> uprog"
  | U_self "tid_t \<Rightarrow> uprog"
  | U_yield uprog
  | U_sem_init semid int "int \<Rightarrow> uprog"
  | U_sem_post semid "int \<Rightarrow> uprog"
  | U_sem_wait semid "int \<Rightarrow> uprog"
  | U_sem_destroy semid uprog
  | U_mem "(nat \<Rightarrow> int) \<Rightarrow> (nat \<Rightarrow> int) \<times> uprog"
  | U_process_exit int

section \<open>Code\<close>

text \<open>
  \<open>Swapcontext p c\<close>: save the rest \<open>c\<close> in the context of \<open>p\<close> and continue in the scheduler
  context of this kernel thread; \<open>Setcontext_sched\<close>, \<open>Setcontext p\<close>: continue in the
  scheduler context, in the context of \<open>p\<close>; \<open>Makecontext t c c'\<close>: let the context of
  \<open>tcbs[t]\<close> start with \<open>c\<close>; \<open>Kthread_create i c\<close>: create the kernel thread for entry
  \<open>i\<close> of \<open>kthread_info\<close>; \<open>Schedule\<close>, \<open>Sem_wait_loop\<close> and \<open>User\<close> stand for code
  that is unfolded when it is reached: a (recursive) call of \<^verbatim>\<open>schedule()\<close>, the head
  of the loop in \<^verbatim>\<open>uthread_sem_wait\<close> (with the semaphore, \<open>current_tcb\<close> and what the
  caller does with the result), the program of a client.
\<close>

datatype code =
    Atom "ktid \<Rightarrow> shared \<Rightarrow> (shared \<times> code) outcome"
  | Swapcontext addr code
  | Setcontext_sched
  | Setcontext addr
  | Makecontext tid_t code code
  | Kthread_create nat code
  | Kthread_exit
  | Schedule
  | Sem_wait_loop semid addr "int \<Rightarrow> code"
  | User uprog
  | Process_exit int

definition call :: "(ktid \<Rightarrow> shared \<Rightarrow> ('a \<times> shared) outcome) \<Rightarrow> ('a \<Rightarrow> code) \<Rightarrow> code" where
  "call f k = Atom (\<lambda>i s. bind_o (f i s) (\<lambda>(v, s'). Ok (s', k v)))"

definition stmt :: "(ktid \<Rightarrow> shared \<Rightarrow> shared outcome) \<Rightarrow> code \<Rightarrow> code" where
  "stmt f k = Atom (\<lambda>i s. bind_o (f i s) (\<lambda>s'. Ok (s', k)))"

definition expr :: "(ktid \<Rightarrow> shared \<Rightarrow> 'a outcome) \<Rightarrow> ('a \<Rightarrow> code) \<Rightarrow> code" where
  "expr f k = Atom (\<lambda>i s. bind_o (f i s) (\<lambda>v. Ok (s, k v)))"

text \<open>\<^verbatim>\<open>if (f()) { perror(...); abort(); }\<close>\<close>

definition checked :: "(ktid \<Rightarrow> shared \<Rightarrow> (int \<times> shared) outcome) \<Rightarrow> code \<Rightarrow> code" where
  "checked f k =
     Atom (\<lambda>i s. bind_o (f i s) (\<lambda>(r, s'). if r \<noteq> 0 then Err Abort else Ok (s', k)))"

definition c_assert :: "(ktid \<Rightarrow> shared \<Rightarrow> bool outcome) \<Rightarrow> code \<Rightarrow> code" where
  "c_assert P k = Atom (\<lambda>i s. bind_o (P i s) (\<lambda>b. bind_o (assert_o b) (\<lambda>_. Ok (s, k))))"

text \<open>A fallible system call whose failure aborts and that changes nothing else.\<close>

definition sys_or_abort :: "code \<Rightarrow> code" where
  "sys_or_abort k = checked (\<lambda>i s. let (f, s') = libc_call s in Ok (if f then 1 else 0, s')) k"

definition assert_inited :: "code \<Rightarrow> code" where
  "assert_inited k = c_assert (\<lambda>i s. Ok (inited s)) k"

definition block_sigrtmin :: "code \<Rightarrow> code" where
  "block_sigrtmin k = stmt (set_sigmask True) k"

definition unblock_sigrtmin :: "code \<Rightarrow> code" where
  "unblock_sigrtmin k = stmt (set_sigmask False) k"

definition lock_tcbs :: "code \<Rightarrow> code" where
  "lock_tcbs k = checked (do_lock Tcbs_lock) k"

definition unlock_tcbs :: "code \<Rightarrow> code" where
  "unlock_tcbs k = checked (do_unlock Tcbs_lock) k"

definition set_task :: "sched_task \<Rightarrow> ktid \<Rightarrow> shared \<Rightarrow> shared outcome" where
  "set_task t = kinfo_update (\<lambda>ki. ki\<lparr>sched_info := (sched_info ki)\<lparr>task := t\<rparr>\<rparr>)"

definition set_state :: "addr \<Rightarrow> thread_state \<Rightarrow> ktid \<Rightarrow> shared \<Rightarrow> shared outcome" where
  "set_state p st i s = tcb_update p (\<lambda>t. t\<lparr>state := st\<rparr>) s"

definition has_state :: "addr \<Rightarrow> thread_state \<Rightarrow> ktid \<Rightarrow> shared \<Rightarrow> bool outcome" where
  "has_state p st i s = bind_o (tcb_at s p) (\<lambda>t. Ok (state t = st))"

section \<open>Thread identifiers and the ready queue\<close>

definition get_next_tid :: "(int \<Rightarrow> code) \<Rightarrow> code" where
  "get_next_tid k =
     checked (do_lock Bitvec_lock) (
     call (\<lambda>i s.
       bind_o (bitvec_first_cleared_index (bitvec s)) (\<lambda>tid.
       if tid < 0 then Ok (1, s)
       else bind_o (bitvec_set (bitvec s) tid) (\<lambda>bv. Ok (tid + UTHREAD_TID_MAIN, s\<lparr>bitvec := bv\<rparr>))))
     (\<lambda>ret.
     checked (do_unlock Bitvec_lock) (
     k ret)))"

definition reclaim_tid :: "tid_t \<Rightarrow> code \<Rightarrow> code" where
  "reclaim_tid tid k =
     checked (do_lock Bitvec_lock) (
     stmt (\<lambda>i s.
       bind_o (bitvec_clear (bitvec s) (sint (tid - word_of_int UTHREAD_TID_MAIN))) (\<lambda>bv.
       Ok (s\<lparr>bitvec := bv\<rparr>))) (
     checked (do_unlock Bitvec_lock) (
     k)))"

definition ready_enqueue :: "addr \<Rightarrow> code \<Rightarrow> code" where
  "ready_enqueue tcb k =
     checked (do_lock Rqueue_lock) (
     checked (\<lambda>i. rq_enqueue tcb) (
     checked (do_unlock Rqueue_lock) (
     checked (\<lambda>i. post_not_empty) (
     k))))"

definition ready_dequeue :: "(addr \<Rightarrow> code) \<Rightarrow> code" where
  "ready_dequeue k =
     checked (\<lambda>i. wait_not_empty) (
     checked (do_lock Rqueue_lock) (
     c_assert (\<lambda>i s. Ok (queue_size (rq_queue (rqueue s)) > 0)) (
     call (\<lambda>i. rq_dequeue) (\<lambda>tcb.
     c_assert (\<lambda>i s. Ok (tcb \<noteq> NULL)) (
     checked (do_unlock Rqueue_lock) (
     k tcb))))))"

section \<open>Destroying a thread\<close>

text \<open>
  The statements of \<^verbatim>\<open>destroy_thread\<close>: each of them reads \<^verbatim>\<open>tcbs[tid]\<close> again, and
  no lock is held while they run.
\<close>

definition destroy_join_queue :: "tid_t \<Rightarrow> ktid \<Rightarrow> shared \<Rightarrow> shared outcome" where
  "destroy_join_queue tid i s =
     bind_o (tcbs_at s tid) (\<lambda>p.
     bind_o (tcb_at s p) (\<lambda>t.
     bind_o (queue_destroy (join_queue t)) (\<lambda>q.
     Ok (set_queue (Join_queue p) q s))))"

definition free_tcb_stack :: "tid_t \<Rightarrow> ktid \<Rightarrow> shared \<Rightarrow> shared outcome" where
  "free_tcb_stack tid i s =
     bind_o (tcbs_at s tid) (\<lambda>p.
     bind_o (tcb_at s p) (\<lambda>t.
     if stack_allocated t then free_block (ss_sp (uc_stack t)) s else Ok s))"

definition free_tcb :: "tid_t \<Rightarrow> ktid \<Rightarrow> shared \<Rightarrow> shared outcome" where
  "free_tcb tid i s =
     bind_o (tcbs_at s tid) (\<lambda>p.
     if p = NULL then Ok s
     else bind_o (tcb_at s p) (\<lambda>_. Ok (s\<lparr>tcb_heap := (tcb_heap s)(p := None)\<rparr>)))"

definition clear_tcb :: "tid_t \<Rightarrow> ktid \<Rightarrow> shared \<Rightarrow> shared outcome" where
  "clear_tcb tid i s =
     (if unat tid < UTHREAD_MAX_THREADS then Ok (s\<lparr>tcbs := (tcbs s)(unat tid := NULL)\<rparr>)
      else Err Out_of_bounds)"

definition destroy_thread :: "tid_t \<Rightarrow> code \<Rightarrow> code" where
  "destroy_thread tid k =
     stmt (destroy_join_queue tid) (
     stmt (free_tcb_stack tid) (
     stmt (free_tcb tid) (
     stmt (clear_tcb tid) (
     k))))"

section \<open>The scheduler\<close>

text \<open>The tasks a user thread hands over to the scheduler of its kernel thread.\<close>

fun sched_switch :: "sched_task \<Rightarrow> int \<Rightarrow> addr \<Rightarrow> code \<Rightarrow> code" where
  "sched_switch NONE cur_tid current_tcb k = k"
| "sched_switch YIELD cur_tid current_tcb k =
     ready_enqueue current_tcb (
     unlock_tcbs k)"
| "sched_switch EXIT cur_tid current_tcb k =
     expr (\<lambda>i s. bind_o (tcb_at s current_tcb) (\<lambda>t. Ok (queue_size (join_queue t)))) (\<lambda>n.
     if n > 0 then
       call (\<lambda>i. dequeue_ref (Join_queue current_tcb)) (\<lambda>join_tcb.
       c_assert (\<lambda>i s.
         if join_tcb = NULL then Ok False
         else bind_o (tcb_at s join_tcb) (\<lambda>t.
           Ok (tcb_tid t \<noteq> word_of_int cur_tid \<and> state t = WAITING_JOIN))) (
       stmt (set_state join_tcb READY) (
       ready_enqueue join_tcb (
       unlock_tcbs k))))
     else unlock_tcbs k)"
| "sched_switch JOIN cur_tid current_tcb k =
     checked (\<lambda>i s. bind_o (kinfo_at s i) (\<lambda>ki.
       case sched_queue (sched_info ki) of
         None \<Rightarrow> Err Assert_fail
       | Some r \<Rightarrow> enqueue_ref r current_tcb s)) (
     unlock_tcbs k)"
| "sched_switch SEM_WAIT cur_tid current_tcb k =
     checked (\<lambda>i s. bind_o (kinfo_at s i) (\<lambda>ki.
       case sched_queue (sched_info ki) of
         None \<Rightarrow> Err Assert_fail
       | Some r \<Rightarrow> enqueue_ref r current_tcb s)) (
     checked (\<lambda>i s. bind_o (kinfo_at s i) (\<lambda>ki.
       case sched_lock (sched_info ki) of
         None \<Rightarrow> Err Null_deref
       | Some r \<Rightarrow> do_unlock r i s)) (
     unlock_tcbs k))"
| "sched_switch TEARDOWN cur_tid current_tcb k =
     stmt (set_state current_tcb READY) (
     ready_enqueue current_tcb (
     unlock_tcbs k))"

text \<open>The value of \<^verbatim>\<open>num_kthreads-1\<close>, of type \<^verbatim>\<open>size_t\<close>.\<close>

definition size_pred :: "nat \<Rightarrow> nat" where
  "size_pred n = (if n = 0 then 2 ^ 64 - 1 else n - 1)"

text \<open>The loop in which the main kernel thread waits for the others to exit.\<close>

primrec wait_all_exited :: "nat \<Rightarrow> code \<Rightarrow> code" where
  "wait_all_exited 0 k = k"
| "wait_all_exited (Suc n) k = checked (\<lambda>i. wait_exitall) (wait_all_exited n k)"

definition sched_dispatch :: "addr \<Rightarrow> code" where
  "sched_dispatch next_tcb =
     lock_tcbs (
     stmt (\<lambda>i s. bind_o (tcb_at s next_tcb) (\<lambda>t.
       kinfo_update (\<lambda>ki. ki\<lparr>current_tid := sint (tcb_tid t)\<rparr>) i s)) (
     c_assert (has_state next_tcb READY) (
     stmt (set_state next_tcb RUNNING) (
     unlock_tcbs (
     stmt (kinfo_update (\<lambda>ki. ki\<lparr>preempted := False\<rparr>)) (
     unblock_sigrtmin (
     Setcontext next_tcb)))))))"

definition sched_next :: code where
  "sched_next =
     stmt (kinfo_update (\<lambda>ki. ki\<lparr>sched_info :=
       (sched_info ki)\<lparr>task := NONE, sched_lock := None, sched_queue := None\<rparr>\<rparr>)) (
     ready_dequeue (\<lambda>next_tcb.
     if next_tcb = exitall then
       expr (\<lambda>i s.
         if kthread_info s = [] then Err Bad_pointer
         else Ok (i = kinfo_ktid (kthread_info s ! MAIN_KTHREAD_INDEX), num_kthreads s)) (\<lambda>(main, n).
       if main then wait_all_exited (size_pred n) Schedule
       else checked (\<lambda>i. post_exitall) Kthread_exit)
     else sched_dispatch next_tcb))"

definition schedule :: code where
  "schedule =
     block_sigrtmin (
     expr (\<lambda>i s.
       bind_o (kinfo_at s i) (\<lambda>ki.
       bind_o (uthread_self i s) (\<lambda>self.
       let cur_tid = sint self in
       bind_o (if cur_tid \<ge> 0 then tcbs_at_int s cur_tid else Ok NULL) (\<lambda>current_tcb.
       Ok (task (sched_info ki), cur_tid, current_tcb))))) (\<lambda>(t, cur_tid, current_tcb).
     c_assert (\<lambda>i s. bind_o (kinfo_at s i) (\<lambda>ki. Ok (i = kinfo_ktid ki))) (
     sched_switch t cur_tid current_tcb sched_next)))"

section \<open>Yielding, exiting, preemption\<close>

definition uthread_yield :: "code \<Rightarrow> code" where
  "uthread_yield k =
     assert_inited (
     block_sigrtmin (
     stmt (set_task YIELD) (
     lock_tcbs (
     expr self_tcb (\<lambda>current_tcb.
     c_assert (has_state current_tcb RUNNING) (
     stmt (set_state current_tcb READY) (
     Swapcontext current_tcb k)))))))"

definition check_preempted :: "code \<Rightarrow> code" where
  "check_preempted k =
     expr (\<lambda>i s. bind_o (kinfo_at s i) (\<lambda>ki. Ok (quantum s \<noteq> 0 \<and> preempted ki))) (\<lambda>b.
     if b then
       stmt (kinfo_update (\<lambda>ki. ki\<lparr>preempted := False\<rparr>)) (
       uthread_yield k)
     else k)"

definition uthread_exit :: "addr \<Rightarrow> code" where
  "uthread_exit ret =
     assert_inited (
     block_sigrtmin (
     check_preempted (
     lock_tcbs (
     expr self_tcb (\<lambda>current_tcb.
     stmt (\<lambda>i. tcb_update current_tcb (\<lambda>t. t\<lparr>retval := ret\<rparr>)) (
     c_assert (has_state current_tcb RUNNING) (
     stmt (set_state current_tcb FINISHED) (
     stmt (set_task EXIT) (
     Setcontext_sched)))))))))"

text \<open>\<^verbatim>\<open>trampoline\<close>: the client's program ends with \<open>U_ret\<close>, which calls \<open>uthread_exit\<close>.\<close>

definition trampoline :: "(addr \<Rightarrow> uprog) \<Rightarrow> addr \<Rightarrow> code" where
  "trampoline start_func arg =
     lock_tcbs (
     c_assert (\<lambda>i s. bind_o (self_tcb i s) (\<lambda>p. has_state p RUNNING i s)) (
     unlock_tcbs (
     User (start_func arg))))"

end
