(* ===== verification/Uthread_Api.thy ===== *)
theory Uthread_Api
  imports Uthread_Code
begin

text \<open>
  The rest of the public interface of \<^verbatim>\<open>uthread.c\<close>: creating and joining threads,
  semaphores, initialisation and teardown, and \<open>api\<close>, which connects the calls of a client
  program to them.
\<close>

section \<open>Creating a thread\<close>

text \<open>The contents of a freshly malloc'ed control block.\<close>

definition blank_stack :: stack_t where
  "blank_stack = \<lparr>ss_sp = NULL, ss_size = 0, ss_flags = 0\<rparr>"

definition blank_tcb :: uthread_tcb_t where
  "blank_tcb =
     \<lparr>tcb_tid = 0, stack_allocated = False, state = READY, retval = NULL,
      join_queue = blank_queue, uc_stack = blank_stack, uc_link_abort = False\<rparr>"

text \<open>\<^verbatim>\<open>tcbs[t] = malloc(sizeof(uthread_tcb_t))\<close>, with the pointer as result.\<close>

definition malloc_tcb :: "tid_t \<Rightarrow> shared \<Rightarrow> (addr \<times> shared) outcome" where
  "malloc_tcb t s =
     (if unat t < UTHREAD_MAX_THREADS then
        let (p, s1) = malloc s;
            s2 = s1\<lparr>tcbs := (tcbs s1)(unat t := p)\<rparr> in
        Ok (p, if p = NULL then s2 else s2\<lparr>tcb_heap := (tcb_heap s2)(p \<mapsto> blank_tcb)\<rparr>)
      else Err Out_of_bounds)"

text \<open>An assignment to fields of \<^verbatim>\<open>tcbs[t]\<close>.\<close>

definition on_tcb ::
  "tid_t \<Rightarrow> (uthread_tcb_t \<Rightarrow> uthread_tcb_t) \<Rightarrow> ktid \<Rightarrow> shared \<Rightarrow> shared outcome" where
  "on_tcb t f i s = bind_o (tcbs_at s t) (\<lambda>p. tcb_update p f s)"

definition init_tcb :: "tid_t \<Rightarrow> thread_state \<Rightarrow> uthread_tcb_t \<Rightarrow> uthread_tcb_t" where
  "init_tcb tid st t =
     t\<lparr>tcb_tid := tid, state := st, join_queue := snd (queue_init (join_queue t))\<rparr>"

definition allocate_tcb_stack :: "tid_t \<Rightarrow> addr \<Rightarrow> int \<Rightarrow> shared \<Rightarrow> (int \<times> shared) outcome" where
  "allocate_tcb_stack tid stack_base stack_size s =
     bind_o (tcbs_at s tid) (\<lambda>p.
     bind_o (tcb_at s p) (\<lambda>t.
     let (r, stack, s1) = allocate_stack (uc_stack t) stack_base stack_size s in
     bind_o (tcb_update p (\<lambda>t. t\<lparr>uc_stack := stack\<rparr>) s1) (\<lambda>s2.
     Ok (r, s2))))"

text \<open>
  \<^verbatim>\<open>uthread_create\<close>, in three parts: after the stack was allocated, after the identifier was
  chosen, and the whole function. The continuation gets the return value and what was stored
  through \<^verbatim>\<open>ptid\<close>. The comparison \<^verbatim>\<open>new_tid < 0\<close> is made on the unsigned type
  \<^verbatim>\<open>tid_t\<close>.
\<close>

definition create_publish ::
  "tid_t \<Rightarrow> (addr \<Rightarrow> uprog) \<Rightarrow> addr \<Rightarrow> addr \<Rightarrow> (int \<times> tid_t option \<Rightarrow> code) \<Rightarrow> code" where
  "create_publish new_tid start_func arg stack_base k =
     stmt (on_tcb new_tid (\<lambda>t. t\<lparr>stack_allocated := (stack_base = NULL), uc_link_abort := True\<rparr>)) (
     Makecontext new_tid (trampoline start_func arg) (
     expr (\<lambda>i s. tcbs_at s new_tid) (\<lambda>p.
     ready_enqueue p (
     unlock_tcbs (
     unblock_sigrtmin (k (0, Some new_tid)))))))"

definition create_tcb ::
  "tid_t \<Rightarrow> (addr \<Rightarrow> uprog) \<Rightarrow> addr \<Rightarrow> addr \<Rightarrow> int \<Rightarrow> (int \<times> tid_t option \<Rightarrow> code) \<Rightarrow> code" where
  "create_tcb new_tid start_func arg stack_base stack_size k =
     lock_tcbs (
     call (\<lambda>i. malloc_tcb new_tid) (\<lambda>p.
     if p = NULL then unblock_sigrtmin (k (1, Some new_tid))
     else
     stmt (on_tcb new_tid (init_tcb new_tid READY)) (
     sys_or_abort (
     call (\<lambda>i. allocate_tcb_stack new_tid stack_base stack_size) (\<lambda>r.
     if r \<noteq> 0 then
       stmt (free_tcb new_tid) (
       unblock_sigrtmin (k (1, Some new_tid)))
     else create_publish new_tid start_func arg stack_base k)))))"

definition uthread_create ::
  "(addr \<Rightarrow> uprog) \<Rightarrow> addr \<Rightarrow> addr \<Rightarrow> int \<Rightarrow> (int \<times> tid_t option \<Rightarrow> code) \<Rightarrow> code" where
  "uthread_create start_func arg stack_base stack_size k =
     assert_inited (
     block_sigrtmin (
     check_preempted (
     get_next_tid (\<lambda>r.
     let new_tid = (word_of_int r :: tid_t) in
     if new_tid < 0 then unblock_sigrtmin (k (1, None))
     else create_tcb new_tid start_func arg stack_base stack_size k))))"

section \<open>Joining a thread\<close>

text \<open>The second half of \<^verbatim>\<open>uthread_join\<close>: the target has finished.\<close>

definition uthread_join_finish :: "tid_t \<Rightarrow> bool \<Rightarrow> (int \<times> addr option \<Rightarrow> code) \<Rightarrow> code" where
  "uthread_join_finish tid pret k =
     c_assert (\<lambda>i s. bind_o (tcbs_at s tid) (\<lambda>p. has_state p FINISHED i s)) (
     expr (\<lambda>i s.
       if pret then bind_o (tcbs_at s tid) (\<lambda>p. bind_o (tcb_at s p) (\<lambda>t. Ok (Some (retval t))))
       else Ok None) (\<lambda>v.
     unlock_tcbs (
     reclaim_tid tid (
     destroy_thread tid (
     unblock_sigrtmin (
     k (0, v)))))))"

text \<open>\<open>pret\<close>: whether the pointer for the result is not NULL; the result is passed to \<open>k\<close>.\<close>

definition uthread_join :: "tid_t \<Rightarrow> bool \<Rightarrow> (int \<times> addr option \<Rightarrow> code) \<Rightarrow> code" where
  "uthread_join tid pret k =
     assert_inited (
     block_sigrtmin (
     check_preempted (
     expr self_tcb (\<lambda>current_tcb.
     expr (\<lambda>i s. tcbs_at s tid) (\<lambda>target_tcb.
     lock_tcbs (
     expr (has_state target_tcb FINISHED) (\<lambda>finished.
     if \<not> finished then
       c_assert (\<lambda>i s. bind_o (tcb_at s current_tcb) (\<lambda>t. Ok (queue_size (join_queue t) = 0))) (
       stmt (kinfo_update (\<lambda>ki. ki\<lparr>sched_info := (sched_info ki)\<lparr>task := JOIN,
         sched_queue := Some (Join_queue target_tcb)\<rparr>\<rparr>)) (
       stmt (set_state current_tcb WAITING_JOIN) (
       Swapcontext current_tcb (
       block_sigrtmin (
       lock_tcbs (
       uthread_join_finish tid pret k))))))
     else uthread_join_finish tid pret k)))))))"

section \<open>Semaphores\<close>

definition sem_at :: "shared \<Rightarrow> semid \<Rightarrow> uthread_sem_t outcome" where
  "sem_at s m = (case sems s m of None \<Rightarrow> Err Undefined | Some x \<Rightarrow> Ok x)"

definition sem_update :: "semid \<Rightarrow> (uthread_sem_t \<Rightarrow> uthread_sem_t) \<Rightarrow> shared \<Rightarrow> shared outcome" where
  "sem_update m f s = bind_o (sem_at s m) (\<lambda>x. Ok (s\<lparr>sems := (sems s)(m \<mapsto> f x)\<rparr>))"

definition blank_sem :: uthread_sem_t where
  "blank_sem = \<lparr>counter = 0, sem_queue = blank_queue, sem_lock = Mutex_destroyed\<rparr>"

text \<open>
  \<^verbatim>\<open>uthread_sem_init\<close>: the client's memory becomes a semaphore, whatever it held before.
  \<^verbatim>\<open>kthread_mutex_init\<close> may fail; \<^verbatim>\<open>queue_init\<close> cannot.
\<close>

definition uthread_sem_init :: "semid \<Rightarrow> int \<Rightarrow> (int \<Rightarrow> code) \<Rightarrow> code" where
  "uthread_sem_init sem value k =
     assert_inited (
     block_sigrtmin (
     check_preempted (
     stmt (\<lambda>i s. Ok (s\<lparr>sems := (sems s)(sem \<mapsto> blank_sem\<lparr>counter := value\<rparr>)\<rparr>)) (
     call (\<lambda>i s.
       let (f, s1) = libc_call s in
       if f then Ok (1, s1)
       else bind_o (sem_update sem (\<lambda>x. x\<lparr>sem_lock := snd kthread_mutex_init\<rparr>) s1) (\<lambda>s2. Ok (0::int, s2)))
     (\<lambda>r.
     if r \<noteq> 0 then unblock_sigrtmin (k 1)
     else
     stmt (\<lambda>i. sem_update sem (\<lambda>x. x\<lparr>sem_queue := snd (queue_init (sem_queue x))\<rparr>)) (
     unblock_sigrtmin (k 0)))))))"

definition uthread_sem_post :: "semid \<Rightarrow> (int \<Rightarrow> code) \<Rightarrow> code" where
  "uthread_sem_post sem k =
     assert_inited (
     block_sigrtmin (
     check_preempted (
     call (do_lock (Sem_lock sem)) (\<lambda>r.
     if r \<noteq> 0 then unblock_sigrtmin (k 1)
     else
     stmt (\<lambda>i s.
       bind_o (sem_at s sem) (\<lambda>x.
       bind_o (int_inc (counter x)) (\<lambda>n.
       sem_update sem (\<lambda>x. x\<lparr>counter := n\<rparr>) s))) (
     let unlock =
       call (do_unlock (Sem_lock sem)) (\<lambda>r.
       unblock_sigrtmin (k (if r \<noteq> 0 then 1 else 0))) in
     expr (\<lambda>i s. bind_o (sem_at s sem) (\<lambda>x. Ok (queue_size (sem_queue x)))) (\<lambda>n.
     if n > 0 then
       call (\<lambda>i. dequeue_ref (Sem_queue sem)) (\<lambda>tcb.
       lock_tcbs (
       c_assert (\<lambda>i s. Ok (tcb \<noteq> NULL)) (
       c_assert (has_state tcb WAITING_SEM) (
       stmt (set_state tcb READY) (
       unlock_tcbs (
       ready_enqueue tcb (
       unlock)))))))
     else unlock))))))"

text \<open>The head of the loop of \<^verbatim>\<open>uthread_sem_wait\<close>, entered with the semaphore's lock held.\<close>

definition sem_wait_loop :: "semid \<Rightarrow> addr \<Rightarrow> (int \<Rightarrow> code) \<Rightarrow> code" where
  "sem_wait_loop sem current_tcb k =
     expr (\<lambda>i s. bind_o (sem_at s sem) (\<lambda>x. Ok (counter x))) (\<lambda>c.
     if c = 0 then
       stmt (kinfo_update (\<lambda>ki. ki\<lparr>sched_info := (sched_info ki)\<lparr>task := SEM_WAIT,
         sched_lock := Some (Sem_lock sem), sched_queue := Some (Sem_queue sem)\<rparr>\<rparr>)) (
       lock_tcbs (
       stmt (set_state current_tcb WAITING_SEM) (
       Swapcontext current_tcb (
       block_sigrtmin (
       call (do_lock (Sem_lock sem)) (\<lambda>r.
       if r \<noteq> 0 then unblock_sigrtmin (k 1)
       else Sem_wait_loop sem current_tcb k))))))
     else
       stmt (\<lambda>i s.
         bind_o (sem_at s sem) (\<lambda>x.
         bind_o (assert_o (counter x > 0)) (\<lambda>_.
         bind_o (int_dec (counter x)) (\<lambda>n.
         sem_update sem (\<lambda>x. x\<lparr>counter := n\<rparr>) s)))) (
       call (do_unlock (Sem_lock sem)) (\<lambda>r.
       unblock_sigrtmin (k (if r \<noteq> 0 then 1 else 0)))))"

definition uthread_sem_wait :: "semid \<Rightarrow> (int \<Rightarrow> code) \<Rightarrow> code" where
  "uthread_sem_wait sem k =
     assert_inited (
     block_sigrtmin (
     check_preempted (
     call (do_lock (Sem_lock sem)) (\<lambda>r.
     if r \<noteq> 0 then unblock_sigrtmin (k 1)
     else
     expr self_tcb (\<lambda>current_tcb.
     c_assert (\<lambda>i s. bind_o (sem_at s sem) (\<lambda>x. Ok (counter x \<ge> 0))) (
     Sem_wait_loop sem current_tcb k))))))"

text \<open>A failure of \<^verbatim>\<open>kthread_mutex_destroy\<close> is only reported.\<close>

definition uthread_sem_destroy :: "semid \<Rightarrow> code \<Rightarrow> code" where
  "uthread_sem_destroy sem k =
     assert_inited (
     check_preempted (
     block_sigrtmin (
     stmt (\<lambda>i s.
       bind_o (sem_at s sem) (\<lambda>x.
       bind_o (queue_destroy (sem_queue x)) (\<lambda>q.
       sem_update sem (\<lambda>x. x\<lparr>sem_queue := q\<rparr>) s))) (
     stmt (\<lambda>i. sem_update sem (\<lambda>x. x\<lparr>sem_lock := snd (kthread_mutex_destroy (sem_lock x))\<rparr>)) (
     unblock_sigrtmin k)))))"

section \<open>Initialisation\<close>

text \<open>The start function of the other kernel threads.\<close>

definition kthread_main :: code where
  "kthread_main =
     checked (\<lambda>i. wait_inited) (
     block_sigrtmin (
     assert_inited (
     stmt (\<lambda>i s. if quantum s \<noteq> 0 then set_timer_interrupt i s else Ok s) (
     Setcontext_sched))))"

text \<open>Initialisation of a mutex, which may fail with an error number.\<close>

definition mutex_init_or_abort :: "mutex_ref \<Rightarrow> code \<Rightarrow> code" where
  "mutex_init_or_abort r k =
     checked (\<lambda>i s. let (f, s1) = libc_call s in
       if f then Ok (1, s1) else Ok (fst kthread_mutex_init, set_mutex r (snd kthread_mutex_init) s1)) k"

text \<open>
  One round of the loop that creates an entry of \<open>kthread_info\<close>: the allocation, its
  fields, and the scheduler context with its stack.
\<close>

definition new_kinfo :: "nat \<Rightarrow> ktid \<Rightarrow> shared \<Rightarrow> shared outcome" where
  "new_kinfo j i s =
     (let (f1, s1) = libc_call s in
      if f1 then Err Assert_fail else
      let (f2, s2) = libc_call s1 in
      if f2 then Err Abort else
      let (r, stack, s3) = allocate_stack blank_stack NULL 0 s2 in
      if r \<noteq> 0 then Err Assert_fail else
      let (f4, s4) = libc_call s3 in
      if f4 then Err Abort else
      Ok (s4\<lparr>kthread_info := kthread_info s4 @
        [\<lparr>kinfo_ktid = (if j = 0 then i else -1),
          current_tid = (if j = 0 then UTHREAD_TID_MAIN else -1),
          sched_info = \<lparr>task = NONE, sched_lock = None, sched_queue = None,
                        sched_stack = stack, sched_mask = sigblocked s4 i\<rparr>,
          timer_nsec = None, preempted = False\<rparr>]\<rparr>))"

primrec new_kinfos :: "nat \<Rightarrow> nat \<Rightarrow> code \<Rightarrow> code" where
  "new_kinfos 0 j k = k"
| "new_kinfos (Suc n) j k = stmt (new_kinfo j) (new_kinfos n (Suc j) k)"

primrec create_kthreads :: "nat \<Rightarrow> nat \<Rightarrow> code \<Rightarrow> code" where
  "create_kthreads 0 j k = k"
| "create_kthreads (Suc n) j k = Kthread_create j (create_kthreads n (Suc j) k)"

primrec post_all_inited :: "nat \<Rightarrow> code \<Rightarrow> code" where
  "post_all_inited 0 k = k"
| "post_all_inited (Suc n) k = checked (\<lambda>i. post_inited) (post_all_inited n k)"

text \<open>The contexts of the main thread and of \<^verbatim>\<open>abort_ctx\<close>.\<close>

definition init_abort_ctx :: "ktid \<Rightarrow> shared \<Rightarrow> shared outcome" where
  "init_abort_ctx i s =
     (let (f1, s1) = libc_call s in
      if f1 then Err Abort else
      let (r, stack, s2) = allocate_stack blank_stack NULL 0 s1 in
      if r \<noteq> 0 then Err Assert_fail else
      let (f3, s3) = libc_call s2 in
      if f3 then Err Abort else Ok (s3\<lparr>abort_stack := stack\<rparr>))"

definition init_bitvec :: "shared \<Rightarrow> (int \<times> shared) outcome" where
  "init_bitvec s =
     (let (f, s1) = libc_call s in
      bind_o (bitvec_init (\<not> f) (bitvec s1) UTHREAD_MAX_THREADS) (\<lambda>(r, bv).
      Ok (r, s1\<lparr>bitvec := bv\<rparr>)))"

definition init_sem_of :: "((ksem \<Rightarrow> ksem) \<Rightarrow> shared \<Rightarrow> shared) \<Rightarrow> code \<Rightarrow> code" where
  "init_sem_of upd k =
     checked (\<lambda>i s. let (f, s1) = libc_call s in
       if f then Ok (-1, s1) else Ok (0, upd (\<lambda>v. snd (kthread_sem_init v 0)) s1)) k"

definition uthread_init :: "int \<Rightarrow> int \<Rightarrow> (int \<Rightarrow> code) \<Rightarrow> code" where
  "uthread_init kthrds quantum_us k =
     (let n = nat (kthrds mod 2 ^ 64) in
     c_assert (\<lambda>i s. Ok (\<not> inited s)) (
     stmt (\<lambda>i s. Ok (s\<lparr>num_kthreads := n, quantum := quantum_us\<rparr>)) (
     sys_or_abort (
     sys_or_abort (
     block_sigrtmin (
     init_sem_of inited_sem_update (
     init_sem_of exitall_sem_update (
     mutex_init_or_abort Tcbs_lock (
     checked (\<lambda>i. init_bitvec) (
     mutex_init_or_abort Bitvec_lock (
     stmt (\<lambda>i s. Ok (s\<lparr>rqueue := (rqueue s)\<lparr>rq_queue := snd (queue_init (rq_queue (rqueue s)))\<rparr>\<rparr>)) (
     mutex_init_or_abort Rqueue_lock (
     init_sem_of (\<lambda>g s. s\<lparr>rqueue := (rqueue s)\<lparr>rq_not_empty := g (rq_not_empty (rqueue s))\<rparr>\<rparr>) (
     get_next_tid (\<lambda>tid.
     c_assert (\<lambda>i s. Ok (tid \<ge> 0)) (
     call (\<lambda>i. malloc_tcb (word_of_int tid)) (\<lambda>p.
     c_assert (\<lambda>i s. Ok (p \<noteq> NULL)) (
     stmt (on_tcb (word_of_int tid)
       (\<lambda>t. (init_tcb (word_of_int tid) RUNNING t)\<lparr>stack_allocated := False\<rparr>)) (
     stmt init_abort_ctx (
     stmt (\<lambda>i s. let (f, s1) = libc_call s in
       if f then Err Assert_fail else Ok (s1\<lparr>kthread_info := []\<rparr>)) (
     new_kinfos n 0 (
     create_kthreads (n - 1) (MAIN_KTHREAD_INDEX + 1) (
     stmt (\<lambda>i s. Ok (s\<lparr>inited := True\<rparr>)) (
     post_all_inited (size_pred n) (
     stmt (\<lambda>i s. if quantum s \<noteq> 0 then set_timer_interrupt i s else Ok s) (
     unblock_sigrtmin (
     k 0)))))))))))))))))))))))))))"

section \<open>Teardown\<close>

primrec enqueue_exitalls :: "nat \<Rightarrow> code \<Rightarrow> code" where
  "enqueue_exitalls 0 k = k"
| "enqueue_exitalls (Suc n) k = ready_enqueue exitall (enqueue_exitalls n k)"

text \<open>
  The join of a kernel thread waits until it has exited; its return value is ignored.
  \<^verbatim>\<open>pthread_t\<close> values are represented by the thread identifiers.
\<close>

definition join_kthread :: "nat \<Rightarrow> ktid \<Rightarrow> shared \<Rightarrow> shared outcome" where
  "join_kthread j i s =
     (if j < length (kthread_info s) then
        let t = kinfo_ktid (kthread_info s ! j) in
        bind_o (assert_o (t \<noteq> i)) (\<lambda>_.
        bind_o (kthread_join i (\<lambda>p. if kexited s (int p) then Ok 0 else Block) t (kstate s)) (\<lambda>(_, ks).
        Ok (s\<lparr>kstate := ks\<rparr>)))
      else Err Bad_pointer)"

primrec join_kthreads :: "nat \<Rightarrow> nat \<Rightarrow> code \<Rightarrow> code" where
  "join_kthreads 0 j k = k"
| "join_kthreads (Suc n) j k = stmt (join_kthread j) (join_kthreads n (Suc j) k)"

text \<open>\<^verbatim>\<open>while (kthread_mutex_destroy(&m) == EBUSY);\<close> spins while the mutex is held.\<close>

definition spin_destroy :: "mutex_ref \<Rightarrow> ktid \<Rightarrow> shared \<Rightarrow> shared outcome" where
  "spin_destroy r i s =
     bind_o (get_mutex s r) (\<lambda>m.
     let (rv, m') = kthread_mutex_destroy m in
     if rv = EBUSY then Block else Ok (set_mutex r m' s))"

definition destroy_rqueue :: "ktid \<Rightarrow> shared \<Rightarrow> shared outcome" where
  "destroy_rqueue i s =
     bind_o (kthread_sem_destroy (rq_not_empty (rqueue s))) (\<lambda>(_, v).
     bind_o (queue_destroy (rq_queue (rqueue s))) (\<lambda>q.
     Ok (s\<lparr>rqueue := (rqueue s)\<lparr>rq_not_empty := v, rq_queue := q\<rparr>\<rparr>)))"

text \<open>\<^verbatim>\<open>destroy_thread\<close> run without interruption, as in the loop over the zombie threads.\<close>

definition destroy_thread_now :: "tid_t \<Rightarrow> ktid \<Rightarrow> shared \<Rightarrow> shared outcome" where
  "destroy_thread_now tid i s =
     bind_o (destroy_join_queue tid i s) (\<lambda>s.
     bind_o (free_tcb_stack tid i s) (\<lambda>s.
     bind_o (free_tcb tid i s) (\<lambda>s.
     clear_tcb tid i s)))"

fun destroy_zombies :: "nat list \<Rightarrow> ktid \<Rightarrow> shared \<Rightarrow> shared outcome" where
  "destroy_zombies [] i s = Ok s"
| "destroy_zombies (j # js) i s =
     (if tcbs s j \<noteq> NULL
      then bind_o (destroy_thread_now (of_nat j) i s) (destroy_zombies js i)
      else destroy_zombies js i s)"

fun free_blocks :: "addr list \<Rightarrow> shared \<Rightarrow> shared outcome" where
  "free_blocks [] s = Ok s"
| "free_blocks (p # ps) s = bind_o (free_block p s) (free_blocks ps)"

definition free_kthread_info :: "ktid \<Rightarrow> shared \<Rightarrow> shared outcome" where
  "free_kthread_info i s =
     bind_o (free_blocks (map (\<lambda>ki. ss_sp (sched_stack (sched_info ki)))
       (take (num_kthreads s) (kthread_info s))) s) (\<lambda>s.
     Ok (s\<lparr>kthread_info := []\<rparr>))"

text \<open>The part of \<^verbatim>\<open>uthread_teardown\<close> that the main kernel thread executes at the end.\<close>

definition teardown_finish :: "code \<Rightarrow> code" where
  "teardown_finish k =
     c_assert (\<lambda>i s. if kthread_info s = [] then Err Bad_pointer
       else Ok (i = kinfo_ktid (kthread_info s ! MAIN_KTHREAD_INDEX))) (
     expr (\<lambda>i s. Ok (num_kthreads s)) (\<lambda>n.
     join_kthreads (n - 1) (MAIN_KTHREAD_INDEX + 1) (
     stmt (spin_destroy Rqueue_lock) (
     stmt destroy_rqueue (
     stmt (\<lambda>i s. Ok (s\<lparr>bitvec := bitvec_destroy (bitvec s)\<rparr>)) (
     stmt (spin_destroy Bitvec_lock) (
     stmt (spin_destroy Tcbs_lock) (
     stmt (destroy_zombies [1..<UTHREAD_MAX_THREADS]) (
     stmt (\<lambda>i s. free_block (ss_sp (abort_stack s)) s) (
     stmt free_kthread_info (
     checked (\<lambda>i s. bind_o (kthread_sem_destroy (inited_sem s)) (\<lambda>(r, v). Ok (r, s\<lparr>inited_sem := v\<rparr>))) (
     checked (\<lambda>i s. bind_o (kthread_sem_destroy (exitall_sem s)) (\<lambda>(r, v). Ok (r, s\<lparr>exitall_sem := v\<rparr>))) (
     destroy_thread 0 (
     unblock_sigrtmin (
     stmt (\<lambda>i s. Ok (s\<lparr>inited := False\<rparr>)) (
     k))))))))))))))))"

definition uthread_teardown :: "code \<Rightarrow> code" where
  "uthread_teardown k =
     assert_inited (
     block_sigrtmin (
     stmt (\<lambda>i s. if quantum s \<noteq> 0
       then Ok (s\<lparr>kthread_info := map (\<lambda>ki. ki\<lparr>timer_nsec := None\<rparr>) (kthread_info s)\<rparr>) else Ok s) (
     expr (\<lambda>i s. Ok (num_kthreads s)) (\<lambda>n.
     enqueue_exitalls n (
     stmt (set_task TEARDOWN) (
     lock_tcbs (
     expr self_tcb (\<lambda>p.
     Swapcontext p (
     teardown_finish k)))))))))"

section \<open>Calls of a client program\<close>

definition api :: "uprog \<Rightarrow> code" where
  "api u =
     (case u of
        U_init n q k \<Rightarrow> uthread_init n q (\<lambda>r. User (k r))
      | U_teardown k \<Rightarrow> uthread_teardown (User k)
      | U_create f a b sz k \<Rightarrow> uthread_create f a b sz (\<lambda>r. User (k r))
      | U_exit v \<Rightarrow> uthread_exit v
      | U_ret v \<Rightarrow> uthread_exit v
      | U_join t p k \<Rightarrow> uthread_join t p (\<lambda>r. User (k r))
      | U_self k \<Rightarrow> expr uthread_self (\<lambda>t. User (k t))
      | U_yield k \<Rightarrow> uthread_yield (User k)
      | U_sem_init m v k \<Rightarrow> uthread_sem_init m v (\<lambda>r. User (k r))
      | U_sem_post m k \<Rightarrow> uthread_sem_post m (\<lambda>r. User (k r))
      | U_sem_wait m k \<Rightarrow> uthread_sem_wait m (\<lambda>r. User (k r))
      | U_sem_destroy m k \<Rightarrow> uthread_sem_destroy m (User k)
      | U_mem f \<Rightarrow> Atom (\<lambda>i s. case f (cmem s) of (m, u') \<Rightarrow> Ok (s\<lparr>cmem := m\<rparr>, User u'))
      | U_process_exit n \<Rightarrow> Process_exit n)"

end
