(* ===== verification/Machine.thy ===== *)
theory Machine
  imports Uthread_Api
begin

text \<open>
  The machine that runs the code: the shared state, the saved contexts of the user
  threads, and for every kernel thread the code it is executing. One step executes one
  atom of one kernel thread, or delivers the timer signal to one of them.
\<close>

section \<open>Machine states and steps of a kernel thread\<close>

record machine =
  sh :: shared
  ctxs :: "addr \<Rightarrow> (code \<times> bool) option"
  kcode :: "ktid \<Rightarrow> code option"
  exit_status :: "int option"

definition goto :: "ktid \<Rightarrow> code \<Rightarrow> machine \<Rightarrow> machine" where
  "goto i c m = m\<lparr>kcode := (kcode m)(i \<mapsto> c)\<rparr>"

definition sh_update_o :: "(shared \<Rightarrow> shared outcome) \<Rightarrow> machine \<Rightarrow> machine outcome" where
  "sh_update_o f m = bind_o (f (sh m)) (\<lambda>s. Ok (m\<lparr>sh := s\<rparr>))"

text \<open>A call of \<^verbatim>\<open>setcontext\<close> or \<^verbatim>\<open>swapcontext\<close> may fail, which aborts the program.\<close>

definition ctx_call :: "shared \<Rightarrow> shared outcome" where
  "ctx_call s = (let (f, s') = libc_call s in if f then Err Abort else Ok s')"

text \<open>
  Entering the scheduler context: it starts \<^verbatim>\<open>schedule()\<close> from the beginning, with the
  signal mask that was saved when it was made.
\<close>

definition enter_sched :: "ktid \<Rightarrow> machine \<Rightarrow> machine outcome" where
  "enter_sched i m =
     bind_o (kinfo_at (sh m) i) (\<lambda>ki.
     Ok (goto i Schedule (m\<lparr>sh := (sh m)\<lparr>sigblocked :=
       (sigblocked (sh m))(i := sched_mask (sched_info ki))\<rparr>\<rparr>)))"

fun exec :: "ktid \<Rightarrow> code \<Rightarrow> machine \<Rightarrow> machine outcome" where
  "exec i (Atom f) m =
     bind_o (f i (sh m)) (\<lambda>(s, c). Ok (goto i c (m\<lparr>sh := s\<rparr>)))"
| "exec i (Swapcontext p c) m =
     bind_o (tcb_at (sh m) p) (\<lambda>_.
     bind_o (sh_update_o ctx_call m) (\<lambda>m.
     enter_sched i (m\<lparr>ctxs := (ctxs m)(p \<mapsto> (c, sigblocked (sh m) i))\<rparr>)))"
| "exec i Setcontext_sched m =
     bind_o (sh_update_o ctx_call m) (\<lambda>m.
     enter_sched i m)"
| "exec i (Setcontext p) m =
     bind_o (tcb_at (sh m) p) (\<lambda>_.
     bind_o (sh_update_o ctx_call m) (\<lambda>m.
     case ctxs m p of
       None \<Rightarrow> Err Undefined
     | Some (c, msk) \<Rightarrow>
         Ok (goto i c (m\<lparr>sh := (sh m)\<lparr>sigblocked := (sigblocked (sh m))(i := msk)\<rparr>\<rparr>))))"
| "exec i (Makecontext t c c') m =
     bind_o (tcbs_at (sh m) t) (\<lambda>p.
     bind_o (tcb_at (sh m) p) (\<lambda>_.
     bind_o (sh_update_o ctx_call m) (\<lambda>m.
     Ok (goto i c' (m\<lparr>ctxs := (ctxs m)(p \<mapsto> (c, sigblocked (sh m) i))\<rparr>)))))"
| "exec i (Kthread_create j c) m =
     (let (f, s) = libc_call (sh m);
          child = next_ktid s in
      bind_o (kthread_create i (nat i) (if f then Inl EAGAIN else Inr (child, nat child)) (kstate s))
        (\<lambda>(r, started, ks).
      if r \<noteq> 0 then Err Abort
      else if j < length (kthread_info s) then
        Ok (goto i c (goto child kthread_main
          (m\<lparr>sh := s\<lparr>kstate := ks, next_ktid := child + 1,
               kthread_info := (kthread_info s)[j := (kthread_info s ! j)\<lparr>kinfo_ktid := child\<rparr>],
               sigblocked := (sigblocked s)(child := sigblocked s i)\<rparr>\<rparr>)))
      else Err Bad_pointer))"
| "exec i Kthread_exit m =
     Ok (m\<lparr>kcode := (kcode m)(i := None), sh := (sh m)\<lparr>kexited := kthread_exit i (kexited (sh m))\<rparr>\<rparr>)"
| "exec i Schedule m = Ok (goto i schedule m)"
| "exec i (Sem_wait_loop sem p k) m = Ok (goto i (sem_wait_loop sem p k) m)"
| "exec i (User u) m = Ok (goto i (api u) m)"
| "exec i (Process_exit n) m = Ok (m\<lparr>exit_status := Some n, kcode := (\<lambda>_. None)\<rparr>)"

definition kstep :: "ktid \<Rightarrow> machine \<Rightarrow> machine outcome" where
  "kstep i m = (case kcode m i of None \<Rightarrow> Block | Some c \<Rightarrow> exec i c m)"

section \<open>Runs\<close>

text \<open>
  Steps of the whole process: any kernel thread that can make a step may make the next one;
  the timer signal reaches a kernel thread whose timer is armed and that does not block it.
\<close>

inductive mstep :: "machine \<Rightarrow> machine \<Rightarrow> bool" where
  thread: "kstep i m = Ok m' \<Longrightarrow> mstep m m'"
| signal: "kcode m i \<noteq> None \<Longrightarrow> \<not> sigblocked (sh m) i \<Longrightarrow> kinfo_at (sh m) i = Ok ki \<Longrightarrow> timer_nsec ki \<noteq> None \<Longrightarrow>
    sigrtmin_handler i (sh m) = Ok s \<Longrightarrow> mstep m (m\<lparr>sh := s\<rparr>)"

inductive msteps :: "machine \<Rightarrow> machine \<Rightarrow> bool" where
  msteps_refl: "msteps m m"
| msteps_step: "msteps m m' \<Longrightarrow> mstep m' m'' \<Longrightarrow> msteps m m''"

text \<open>A schedule given as the list of kernel threads that make the steps.\<close>

primrec run :: "ktid list \<Rightarrow> machine \<Rightarrow> machine outcome" where
  "run [] m = Ok m"
| "run (i # is) m = bind_o (kstep i m) (run is)"

text \<open>The state of the process before \<^verbatim>\<open>main\<close>: zeroed static data, one kernel thread.\<close>

definition initial_shared :: "(nat \<Rightarrow> bool) \<Rightarrow> ktid \<Rightarrow> shared" where
  "initial_shared oracle main =
     \<lparr>inited_sem = Sem_destroyed, exitall_sem = Sem_destroyed,
      rqueue = \<lparr>rq_queue = blank_queue, rq_not_empty = Sem_destroyed, rq_lock = Mutex_destroyed\<rparr>,
      bitvec = \<lparr>nbits = 0, nbytes = 0, vec = None\<rparr>, bitvec_lock = Mutex_destroyed,
      tcbs = (\<lambda>_. NULL), tcbs_lock = Mutex_destroyed, abort_stack = blank_stack,
      inited = False, quantum = 0, kthread_info = [], num_kthreads = 0,
      tcb_heap = (\<lambda>_. None), blocks = {}, sems = (\<lambda>_. None),
      fails = oracle, ncalls = 0, brk = 2, sigblocked = (\<lambda>_. False),
      kstate = kthread_state_init, next_ktid = main + 1, kexited = (\<lambda>_. False), cmem = (\<lambda>_. 0)\<rparr>"

definition initial :: "(nat \<Rightarrow> bool) \<Rightarrow> ktid \<Rightarrow> uprog \<Rightarrow> machine" where
  "initial oracle main prog =
     \<lparr>sh = initial_shared oracle main, ctxs = (\<lambda>_. None), kcode = [main \<mapsto> User prog],
      exit_status = None\<rparr>"

definition reachable :: "(nat \<Rightarrow> bool) \<Rightarrow> ktid \<Rightarrow> uprog \<Rightarrow> machine \<Rightarrow> bool" where
  "reachable oracle main prog m \<longleftrightarrow> msteps (initial oracle main prog) m"

end
