(* ===== verification/Test_Programs.thy ===== *)
theory Test_Programs
  imports Machine
begin

text \<open>
  The helpers of \<^verbatim>\<open>test.h\<close> and the test programs \<^verbatim>\<open>test-*.c\<close> as client programs. Their
  variables live in the client's memory, at the addresses below; a variable with an initialiser is
  set at the start of \<^verbatim>\<open>main\<close>. Output and the registration of a stack with Valgrind are left out. The critical
  sections under the tests' own Pthreads mutexes touch only the client's memory and are single steps; an increment
  outside them is a load and a store.
\<close>

section \<open>Helpers\<close>

text \<open>The variables of \<^verbatim>\<open>test.h\<close>.\<close>

definition test_counter :: nat where "test_counter = 0"
definition test_nope :: nat where "test_nope = 1"

definition U_set :: "nat \<Rightarrow> int \<Rightarrow> uprog \<Rightarrow> uprog" where
  "U_set a v k = U_mem (\<lambda>m. (m(a := v), k))"

definition U_get :: "nat \<Rightarrow> (int \<Rightarrow> uprog) \<Rightarrow> uprog" where
  "U_get a k = U_mem (\<lambda>m. (m, k (m a)))"

definition U_inc :: "nat \<Rightarrow> uprog \<Rightarrow> uprog" where
  "U_inc a k = U_get a (\<lambda>v. U_set a (v + 1) k)"

definition INIT :: "int \<Rightarrow> int \<Rightarrow> uprog \<Rightarrow> uprog" where
  "INIT nthreads quantum_us k = U_init nthreads quantum_us (\<lambda>r. if r \<noteq> 0 then U_process_exit 1 else k)"

definition CHECKPOINT :: "int \<Rightarrow> uprog \<Rightarrow> uprog" where
  "CHECKPOINT n k =
     U_mem (\<lambda>m. (m(test_counter := m test_counter + 1),
       if m test_counter \<noteq> n then U_inc test_nope k else k))"

definition CHECKPOINT_UNORDERED :: "int \<Rightarrow> uprog \<Rightarrow> uprog" where
  "CHECKPOINT_UNORDERED n k = U_mem (\<lambda>m. (m(test_counter := m test_counter + 1), k))"

definition ASSERT :: "bool \<Rightarrow> uprog \<Rightarrow> uprog" where
  "ASSERT cond k = (if \<not> cond then U_inc test_nope k else k)"

definition VERIFY :: "int \<Rightarrow> uprog" where
  "VERIFY n =
     U_teardown (
     U_get test_counter (\<lambda>c.
     let result = U_get test_nope (\<lambda>nope. U_process_exit (if nope = 0 then 0 else 1)) in
     if c \<noteq> n then U_inc test_nope result else result))"

definition THREAD_ARG_STACK :: "(addr \<Rightarrow> uprog) \<Rightarrow> addr \<Rightarrow> addr \<Rightarrow> int \<Rightarrow> (tid_t \<Rightarrow> uprog) \<Rightarrow> uprog" where
  "THREAD_ARG_STACK func arg stack stack_sz k =
     U_create func arg stack stack_sz (\<lambda>(r, tid). if r \<noteq> 0 then U_process_exit 1 else k (the tid))"

definition THREAD_ARG :: "(addr \<Rightarrow> uprog) \<Rightarrow> addr \<Rightarrow> (tid_t \<Rightarrow> uprog) \<Rightarrow> uprog" where
  "THREAD_ARG func arg k = THREAD_ARG_STACK func arg NULL 0 k"

definition THREAD :: "(addr \<Rightarrow> uprog) \<Rightarrow> (tid_t \<Rightarrow> uprog) \<Rightarrow> uprog" where
  "THREAD func k = THREAD_ARG func NULL k"

definition parent_first :: nat where "parent_first = 2"

section \<open>\<^verbatim>\<open>test-create.c\<close>\<close>

text \<open>
  \<open>buf\<close> is the address of the array \<^verbatim>\<open>stack\<close>; \<open>in_stack\<close> says whether the local variable
  of the subthread lies in that array, which the program checks by comparing addresses.
\<close>

definition TEST_STACK_SZ :: int where "TEST_STACK_SZ = 16384"

definition create_subthread_main :: "bool \<Rightarrow> addr \<Rightarrow> uprog" where
  "create_subthread_main in_stack x =
     CHECKPOINT 2 (
     ASSERT (x = 73) (
     ASSERT in_stack (
     CHECKPOINT 3 (
     U_ret NULL))))"

definition create_thread_main :: "addr \<Rightarrow> bool \<Rightarrow> addr \<Rightarrow> uprog" where
  "create_thread_main buf in_stack x =
     U_get parent_first (\<lambda>p.
     let rest =
       CHECKPOINT 1 (
       ASSERT (x = 42) (
       THREAD_ARG_STACK (create_subthread_main in_stack) 73 buf TEST_STACK_SZ (\<lambda>_.
       U_get parent_first (\<lambda>p.
       let rest = ASSERT (x = 42) (CHECKPOINT 4 (U_ret NULL)) in
       if p \<noteq> 0 then U_yield rest else rest)))) in
     if p < 0 then U_set parent_first 0 rest else rest)"

definition test_create :: "addr \<Rightarrow> bool \<Rightarrow> uprog" where
  "test_create buf in_stack =
     U_set parent_first (-1) (
     INIT 1 0 (
     CHECKPOINT 0 (
     THREAD_ARG (create_thread_main buf in_stack) 42 (\<lambda>_.
     U_get parent_first (\<lambda>p.
     let rest = U_yield (VERIFY 5) in
     if p < 0 then U_set parent_first 1 (U_yield rest) else rest)))))"

section \<open>\<^verbatim>\<open>test-self.c\<close>\<close>

definition m_self :: nat where "m_self = 3"
definition t_self :: nat where "t_self = 4"
definition st_self :: nat where "st_self = 5"

definition self_subthread_main :: "addr \<Rightarrow> uprog" where
  "self_subthread_main arg =
     CHECKPOINT 2 (
     U_self (\<lambda>t.
     U_set st_self (uint t) (
     CHECKPOINT 3 (
     U_ret NULL))))"

definition self_thread_main :: "addr \<Rightarrow> uprog" where
  "self_thread_main arg =
     U_get parent_first (\<lambda>p.
     let rest =
       U_self (\<lambda>t.
       U_set t_self (uint t) (
       CHECKPOINT 1 (
       THREAD self_subthread_main (\<lambda>stid.
       U_get parent_first (\<lambda>p.
       let rest =
         U_self (\<lambda>self.
         U_get t_self (\<lambda>t.
         ASSERT (uint self = t) (
         U_get st_self (\<lambda>st.
         ASSERT (uint stid = st) (
         ASSERT (st \<noteq> t) (
         U_get m_self (\<lambda>mself.
         ASSERT (st \<noteq> mself) (
         CHECKPOINT 4 (
         U_ret NULL))))))))) in
       if p \<noteq> 0 then U_yield rest else rest))))) in
     if p < 0 then U_set parent_first 0 rest else rest)"

definition test_self :: uprog where
  "test_self =
     U_set parent_first (-1) (
     INIT 1 0 (
     U_self (\<lambda>self.
     U_set m_self (uint self) (
     CHECKPOINT 0 (
     THREAD self_thread_main (\<lambda>tid.
     U_get parent_first (\<lambda>p.
     let rest =
       U_get t_self (\<lambda>t.
       ASSERT (uint tid = t) (
       U_get m_self (\<lambda>mself.
       ASSERT (t \<noteq> mself) (
       U_self (\<lambda>self.
       ASSERT (uint self = mself) (
       U_yield (
       VERIFY 5))))))) in
     if p < 0 then U_set parent_first 1 (U_yield rest) else rest)))))))"

section \<open>\<^verbatim>\<open>test-fcfs.c\<close>\<close>

definition fcfs_subthread_main :: "addr \<Rightarrow> uprog" where
  "fcfs_subthread_main arg = CHECKPOINT 2 (U_ret NULL)"

definition fcfs_thread2_main :: "addr \<Rightarrow> uprog" where
  "fcfs_thread2_main arg = CHECKPOINT 4 (U_ret NULL)"

definition fcfs_thread_main :: "addr \<Rightarrow> uprog" where
  "fcfs_thread_main arg =
     CHECKPOINT 1 (
     THREAD fcfs_subthread_main (\<lambda>_.
     U_get parent_first (\<lambda>p.
     let rest = CHECKPOINT 5 (U_ret NULL) in
     if p \<noteq> 0 then U_yield (U_yield (U_yield rest)) else rest)))"

definition test_fcfs :: uprog where
  "test_fcfs =
     U_set parent_first (-1) (
     INIT 1 0 (
     CHECKPOINT 0 (
     THREAD fcfs_thread_main (\<lambda>_.
     U_get parent_first (\<lambda>p.
     let rest =
       CHECKPOINT 3 (
       THREAD fcfs_thread2_main (\<lambda>_.
       U_get parent_first (\<lambda>p.
       if p \<noteq> 0 then U_yield (U_yield (VERIFY 6)) else VERIFY 6))) in
     if p < 0 then U_set parent_first 1 (U_yield (U_yield rest)) else rest)))))"

section \<open>\<^verbatim>\<open>test-yield.c\<close> and \<^verbatim>\<open>test-yield2.c\<close>\<close>

text \<open>\<^verbatim>\<open>CHECKPOINT(parent_first ? a : b)\<close>\<close>

definition CHECKPOINT_parent :: "int \<Rightarrow> int \<Rightarrow> uprog \<Rightarrow> uprog" where
  "CHECKPOINT_parent a b k = U_get parent_first (\<lambda>p. CHECKPOINT (if p \<noteq> 0 then a else b) k)"

definition yield_thread2_main :: "addr \<Rightarrow> uprog" where
  "yield_thread2_main arg =
     CHECKPOINT_parent 4 2 (
     U_yield (
     CHECKPOINT_parent 7 5 (
     U_ret NULL)))"

definition yield_thread_main :: "addr \<Rightarrow> uprog" where
  "yield_thread_main arg =
     U_get parent_first (\<lambda>p.
     let rest =
       CHECKPOINT 1 (
       THREAD yield_thread2_main (\<lambda>_.
       CHECKPOINT_parent 2 4 (
       U_yield (
       CHECKPOINT_parent 5 7 (
       U_yield (
       CHECKPOINT_parent 8 9 (
       U_yield (
       U_ret NULL)))))))) in
     if p < 0 then U_set parent_first 0 rest else rest)"

definition test_yield :: uprog where
  "test_yield =
     U_set parent_first (-1) (
     INIT 1 0 (
     CHECKPOINT 0 (
     THREAD yield_thread_main (\<lambda>_.
     U_get parent_first (\<lambda>p.
     let rest =
       CHECKPOINT 3 (
       U_yield (
       CHECKPOINT 6 (
       U_yield (
       CHECKPOINT_parent 9 8 (
       U_yield (
       CHECKPOINT 10 (
       U_yield (
       VERIFY 11)))))))) in
     if p < 0 then U_set parent_first 1 (U_yield rest) else rest)))))"

definition yield2_thread2_main :: "addr \<Rightarrow> uprog" where
  "yield2_thread2_main arg = CHECKPOINT 5 (U_yield (CHECKPOINT 8 (U_ret NULL)))"

definition yield2_thread_main :: "addr \<Rightarrow> uprog" where
  "yield2_thread_main arg =
     CHECKPOINT 2 (
     THREAD yield2_thread2_main (\<lambda>_.
     CHECKPOINT 3 (
     U_yield (
     CHECKPOINT 6 (
     U_yield (
     CHECKPOINT 9 (
     U_yield (
     U_ret NULL))))))))"

definition test_yield2 :: uprog where
  "test_yield2 =
     INIT 1 0 (
     CHECKPOINT 0 (
     THREAD yield2_thread_main (\<lambda>_.
     CHECKPOINT 1 (
     U_yield (
     CHECKPOINT 4 (
     U_yield (
     CHECKPOINT 7 (
     U_yield (
     CHECKPOINT 10 (
     U_yield (
     VERIFY 11)))))))))))"

section \<open>\<^verbatim>\<open>test-exit.c\<close>\<close>

text \<open>\<^verbatim>\<open>uthread_exit\<close> does not return, so what follows it in the source is no part of the program.\<close>

definition exit_thread2_main :: "addr \<Rightarrow> uprog" where
  "exit_thread2_main arg = CHECKPOINT 5 (U_exit NULL)"

definition exit_thread_main :: "addr \<Rightarrow> uprog" where
  "exit_thread_main arg =
     CHECKPOINT 2 (
     THREAD exit_thread2_main (\<lambda>_.
     CHECKPOINT 3 (
     U_exit NULL)))"

definition test_exit :: uprog where
  "test_exit =
     INIT 1 0 (
     CHECKPOINT 0 (
     THREAD exit_thread_main (\<lambda>_.
     CHECKPOINT 1 (
     U_yield (
     CHECKPOINT 4 (
     U_yield (
     CHECKPOINT 6 (
     U_yield (
     CHECKPOINT 7 (
     U_yield (
     CHECKPOINT 8 (
     U_yield (
     VERIFY 9)))))))))))))"

section \<open>\<^verbatim>\<open>test-join.c\<close>\<close>

text \<open>\<open>somevar\<close> and \<open>othervar\<close> stand for the addresses of these variables.\<close>

definition somevar :: addr where "somevar = 1000"
definition othervar :: addr where "othervar = 1001"

definition join_thread4_main :: "addr \<Rightarrow> uprog" where
  "join_thread4_main arg = CHECKPOINT 13 (U_ret NULL)"

definition join_thread3_main :: "addr \<Rightarrow> uprog" where
  "join_thread3_main arg = CHECKPOINT 11 (U_exit NULL)"

definition join_thread2_main :: "addr \<Rightarrow> uprog" where
  "join_thread2_main arg = CHECKPOINT 7 (U_yield (CHECKPOINT 9 (U_ret othervar)))"

definition join_thread_main :: "addr \<Rightarrow> uprog" where
  "join_thread_main arg =
     CHECKPOINT 1 (
     U_yield (
     CHECKPOINT 3 (
     U_yield (
     CHECKPOINT 4 (
     U_yield (
     U_exit somevar))))))"

definition test_join :: uprog where
  "test_join =
     INIT 1 0 (
     CHECKPOINT 0 (
     THREAD join_thread_main (\<lambda>tid.
     U_yield (
     CHECKPOINT 2 (
     U_join tid True (\<lambda>(_, ret).
     CHECKPOINT 5 (
     ASSERT (ret = Some somevar) (
     U_yield (
     CHECKPOINT 6 (
     THREAD join_thread2_main (\<lambda>tid.
     U_yield (
     CHECKPOINT 8 (
     U_yield (
     CHECKPOINT 10 (
     U_join tid True (\<lambda>(_, ret).
     ASSERT (ret = Some othervar) (
     THREAD join_thread3_main (\<lambda>tid.
     U_yield (
     U_join tid True (\<lambda>_.
     CHECKPOINT 12 (
     THREAD join_thread4_main (\<lambda>tid.
     U_join tid True (\<lambda>_.
     VERIFY 14)))))))))))))))))))))))"

section \<open>\<^verbatim>\<open>test-sem.c\<close>, \<^verbatim>\<open>test-sem2.c\<close> and \<^verbatim>\<open>test-sem3.c\<close>\<close>

text \<open>The loops of \<^verbatim>\<open>test-sem.c\<close>; semaphore \<open>i\<close> is \<^verbatim>\<open>sems[i]\<close>.\<close>

primrec U_repeat :: "nat \<Rightarrow> (uprog \<Rightarrow> uprog) \<Rightarrow> uprog \<Rightarrow> uprog" where
  "U_repeat 0 body k = k"
| "U_repeat (Suc n) body k = body (U_repeat n body k)"

fun U_for :: "'a list \<Rightarrow> ('a \<Rightarrow> uprog \<Rightarrow> uprog) \<Rightarrow> uprog \<Rightarrow> uprog" where
  "U_for [] body k = k"
| "U_for (i # is) body k = body i (U_for is body k)"

definition sem_first_body :: "nat \<Rightarrow> uprog \<Rightarrow> uprog" where
  "sem_first_body i k =
     U_sem_init 50 0 (\<lambda>_.
     U_sem_post 50 (\<lambda>_.
     U_sem_init i (int i) (\<lambda>_.
     U_sem_post i (\<lambda>_.
     U_sem_wait 50 (\<lambda>_.
     U_sem_destroy 50 k)))))"

definition sem_second_body :: "nat \<Rightarrow> uprog \<Rightarrow> uprog" where
  "sem_second_body i k =
     U_repeat (i + 1) (\<lambda>k. U_sem_wait i (\<lambda>_. k)) (
     U_sem_destroy i k)"

definition test_sem :: uprog where
  "test_sem =
     INIT 1 0 (
     CHECKPOINT 0 (
     U_for [0..<50] sem_first_body (
     U_for [0..<50] sem_second_body (
     VERIFY 1))))"

text \<open>Semaphore 0 is \<^verbatim>\<open>sem\<close>.\<close>

definition sem2_thread :: "addr \<Rightarrow> uprog" where
  "sem2_thread arg =
     CHECKPOINT 2 (
     U_sem_post 0 (\<lambda>_.
     CHECKPOINT 3 (
     U_yield (
     CHECKPOINT 5 (
     U_yield (
     CHECKPOINT 6 (
     U_sem_post 0 (\<lambda>_.
     CHECKPOINT 7 (
     U_yield (
     CHECKPOINT 9 (
     U_ret NULL)))))))))))"

definition test_sem2 :: uprog where
  "test_sem2 =
     INIT 1 0 (
     U_sem_init 0 0 (\<lambda>_.
     CHECKPOINT 0 (
     THREAD sem2_thread (\<lambda>thr.
     CHECKPOINT 1 (
     U_sem_wait 0 (\<lambda>_.
     CHECKPOINT 4 (
     U_sem_wait 0 (\<lambda>_.
     CHECKPOINT 8 (
     U_join thr True (\<lambda>_.
     U_sem_destroy 0 (
     VERIFY 10)))))))))))"

definition sem3_thread :: "addr \<Rightarrow> uprog" where
  "sem3_thread arg =
     CHECKPOINT 2 (
     U_sem_wait 0 (\<lambda>_.
     CHECKPOINT 3 (
     U_sem_post 0 (\<lambda>_.
     CHECKPOINT 4 (
     U_yield (
     CHECKPOINT 6 (
     U_yield (
     CHECKPOINT 7 (
     U_sem_post 0 (\<lambda>_.
     CHECKPOINT 8 (
     U_yield (
     CHECKPOINT 10 (
     U_ret NULL)))))))))))))"

definition test_sem3 :: uprog where
  "test_sem3 =
     INIT 1 0 (
     U_sem_init 0 1 (\<lambda>_.
     CHECKPOINT 0 (
     THREAD sem3_thread (\<lambda>thr.
     CHECKPOINT 1 (
     U_yield (
     U_sem_wait 0 (\<lambda>_.
     CHECKPOINT 5 (
     U_sem_wait 0 (\<lambda>_.
     CHECKPOINT 9 (
     U_join thr True (\<lambda>_.
     U_sem_destroy 0 (
     VERIFY 11))))))))))))"

section \<open>\<^verbatim>\<open>test-m2m.c\<close>\<close>

text \<open>
  The increments of \<^verbatim>\<open>count\<close> are not protected: each is a load and a store. Sleeping has no effect on
  the state; \<open>start\<close> and \<open>stop\<close> are the two readings of the clock, in seconds and nanoseconds.
\<close>

definition m2m_count :: nat where "m2m_count = 6"

definition m2m_thread :: "addr \<Rightarrow> uprog" where
  "m2m_thread arg = U_repeat 1000000 (U_inc m2m_count) (U_ret NULL)"

definition m2m_sleep :: "addr \<Rightarrow> uprog" where
  "m2m_sleep arg = U_ret NULL"

definition elapsed :: "int \<times> int \<Rightarrow> int \<times> int \<Rightarrow> int \<times> int" where
  "elapsed start stop =
     (let (sec, nsec) = (if snd stop < snd start then (fst stop - 1, snd stop + 1000000000) else stop) in
      (sec - fst start, nsec - snd start))"

definition U_two_joined :: "(addr \<Rightarrow> uprog) \<Rightarrow> (addr \<Rightarrow> uprog) \<Rightarrow> uprog \<Rightarrow> uprog" where
  "U_two_joined f g k =
     THREAD f (\<lambda>tid0.
     THREAD g (\<lambda>tid1.
     U_join tid0 True (\<lambda>_.
     U_join tid1 True (\<lambda>_.
     k))))"

definition test_m2m :: "int \<times> int \<Rightarrow> int \<times> int \<Rightarrow> uprog" where
  "test_m2m start stop =
     INIT 4 0 (
     U_two_joined m2m_thread m2m_thread (
     U_get m2m_count (\<lambda>count.
     ASSERT (count < 2000000) (
     U_two_joined m2m_sleep m2m_sleep (
     ASSERT (fst (elapsed start stop) < 1 \<and> snd (elapsed start stop) \<le> 1500 * 3000) (
     VERIFY 0))))))"

section \<open>\<^verbatim>\<open>test-m2m-pc.c\<close>\<close>

definition pc_mutex :: semid where "pc_mutex = 0"
definition pc_full :: semid where "pc_full = 1"
definition pc_empty :: semid where "pc_empty = 2"
definition pc_next :: nat where "pc_next = 7"
definition pc_head :: nat where "pc_head = 8"
definition pc_tail :: nat where "pc_tail = 9"
definition pc_queue :: "int \<Rightarrow> nat" where "pc_queue i = 10 + nat i"

definition produce :: "(nat \<Rightarrow> int) \<Rightarrow> (nat \<Rightarrow> int) \<times> int" where
  "produce m = (if m pc_next < 100000 then (m(pc_next := m pc_next + 1), m pc_next) else (m, -1))"

text \<open>The positions in the endless loops, with the value of \<^verbatim>\<open>item\<close>.\<close>

datatype (discs_sels) producer_pc =
  P_produce | P_wait_empty int | P_wait_mutex int | P_store int | P_wrap int | P_post_mutex int | P_post_full int | P_yield | P_return

definition producer_next :: "int \<Rightarrow> producer_pc" where
  "producer_next x = (if x < 0 then P_return else if x mod 7 = 0 then P_yield else P_produce)"

primcorec producer_at :: "producer_pc \<Rightarrow> uprog" where
  "producer_at pc =
     (case pc of
        P_produce \<Rightarrow> U_mem (\<lambda>m. map_prod id (\<lambda>x. producer_at (P_wait_empty x)) (produce m))
      | P_wait_empty x \<Rightarrow> U_sem_wait pc_empty (\<lambda>_. producer_at (P_wait_mutex x))
      | P_wait_mutex x \<Rightarrow> U_sem_wait pc_mutex (\<lambda>_. producer_at (P_store x))
      | P_store x \<Rightarrow> U_mem (\<lambda>m. map_prod id producer_at
          (m(pc_queue (m pc_tail) := x, pc_tail := m pc_tail + 1), P_wrap x))
      | P_wrap x \<Rightarrow> U_mem (\<lambda>m. map_prod id producer_at (m(pc_tail := m pc_tail mod 10), P_post_mutex x))
      | P_post_mutex x \<Rightarrow> U_sem_post pc_mutex (\<lambda>_. producer_at (P_post_full x))
      | P_post_full x \<Rightarrow> U_sem_post pc_full (\<lambda>_. producer_at (producer_next x))
      | P_yield \<Rightarrow> U_yield (producer_at P_produce)
      | P_return \<Rightarrow> U_ret NULL)"

definition producer :: "addr \<Rightarrow> uprog" where
  "producer arg = producer_at P_produce"

datatype (discs_sels) consumer_pc =
  C_wait_full | C_wait_mutex | C_load | C_wrap int | C_post_mutex int | C_post_empty int | C_yield int | C_consume int | C_yield_again | C_return

primcorec consumer_at :: "consumer_pc \<Rightarrow> uprog" where
  "consumer_at pc =
     (case pc of
        C_wait_full \<Rightarrow> U_sem_wait pc_full (\<lambda>_. consumer_at C_wait_mutex)
      | C_wait_mutex \<Rightarrow> U_sem_wait pc_mutex (\<lambda>_. consumer_at C_load)
      | C_load \<Rightarrow> U_mem (\<lambda>m. map_prod id consumer_at (m(pc_head := m pc_head + 1), C_wrap (m (pc_queue (m pc_head)))))
      | C_wrap x \<Rightarrow> U_mem (\<lambda>m. map_prod id consumer_at (m(pc_head := m pc_head mod 10), C_post_mutex x))
      | C_post_mutex x \<Rightarrow> U_sem_post pc_mutex (\<lambda>_. consumer_at (C_post_empty x))
      | C_post_empty x \<Rightarrow> U_sem_post pc_empty (\<lambda>_. consumer_at (C_yield x))
      | C_yield x \<Rightarrow> U_yield (consumer_at (if x < 0 then C_return else C_consume x))
      | C_consume x \<Rightarrow> U_mem (\<lambda>m. map_prod id consumer_at
          (m(test_counter := m test_counter + 1), if x mod 5 = 0 then C_yield_again else C_wait_full))
      | C_yield_again \<Rightarrow> U_yield (consumer_at C_wait_full)
      | C_return \<Rightarrow> U_ret NULL)"

definition consumer :: "addr \<Rightarrow> uprog" where
  "consumer arg = consumer_at C_wait_full"

primrec U_threads :: "nat \<Rightarrow> (addr \<Rightarrow> uprog) \<Rightarrow> (tid_t list \<Rightarrow> uprog) \<Rightarrow> uprog" where
  "U_threads 0 f k = k []"
| "U_threads (Suc n) f k = THREAD f (\<lambda>t. U_threads n f (\<lambda>ts. k (t # ts)))"

definition U_joins :: "tid_t list \<Rightarrow> uprog \<Rightarrow> uprog" where
  "U_joins ts k = U_for ts (\<lambda>t k. U_join t True (\<lambda>_. k)) k"

definition test_m2m_pc :: uprog where
  "test_m2m_pc =
     INIT 12 0 (
     U_sem_init pc_mutex 1 (\<lambda>_.
     U_sem_init pc_full 0 (\<lambda>_.
     U_sem_init pc_empty 10 (\<lambda>_.
     U_threads 7 consumer (\<lambda>ctid.
     U_threads 8 producer (\<lambda>ptid.
     U_joins ctid (
     U_joins ptid (
     U_sem_destroy pc_empty (
     U_sem_destroy pc_full (
     U_sem_destroy pc_mutex (
     VERIFY 100000)))))))))))"

end
