(* ===== verification/Fcfs_Spec.thy ===== *)
theory Fcfs_Spec
  imports Test_Programs
begin

text \<open>
  What the library promises on one kernel thread without preemption: threads run one at a time until
  they yield, wait or end, and ready threads run first come, first served. This is the abstract
  specification; theory Fcfs_Run shows that the code implements it.
\<close>

section \<open>States\<close>

text \<open>Where a thread continues: in its program, at its start, at a semaphore, behind a thread it joins.\<close>

datatype resume =
    Go uprog
  | Start "addr \<Rightarrow> uprog" addr
  | Rewait semid "int \<Rightarrow> uprog"
  | Rejoin tid_t bool "int \<times> addr option \<Rightarrow> uprog"

record athread =
  a_status :: thread_state
  a_next :: resume
  a_ret :: addr
  a_join :: "nat list"

text \<open>The threads are named by their identifiers. A semaphore has a counter and the threads that wait for it.\<close>

record astate =
  a_cur :: nat
  a_ready :: "nat list"
  a_thr :: "nat \<Rightarrow> athread option"
  a_sems :: "semid \<Rightarrow> (int \<times> nat list) option"
  a_mem :: "nat \<Rightarrow> int"

section \<open>Steps\<close>

definition a_upd :: "nat \<Rightarrow> (athread \<Rightarrow> athread) \<Rightarrow> astate \<Rightarrow> astate" where
  "a_upd n f a = a\<lparr>a_thr := (a_thr a)(n := map_option f (a_thr a n))\<rparr>"

definition a_goto :: "uprog \<Rightarrow> astate \<Rightarrow> astate" where
  "a_goto u a = a_upd (a_cur a) (\<lambda>t. t\<lparr>a_next := Go u\<rparr>) a"

text \<open>The next thread runs.\<close>

definition a_dispatch :: "astate \<Rightarrow> astate option" where
  "a_dispatch a =
     (case a_ready a of
        [] \<Rightarrow> None
      | n # ns \<Rightarrow> Some (a_upd n (\<lambda>t. t\<lparr>a_status := RUNNING\<rparr>) (a\<lparr>a_cur := n, a_ready := ns\<rparr>)))"

text \<open>The current thread stops in the given status, to continue at \<open>r\<close>.\<close>

definition a_leave :: "thread_state \<Rightarrow> resume \<Rightarrow> astate \<Rightarrow> astate" where
  "a_leave st r a = a_upd (a_cur a) (\<lambda>t. t\<lparr>a_status := st, a_next := r\<rparr>) a"

text \<open>Thread \<open>n\<close> becomes ready.\<close>

definition a_wake :: "nat \<Rightarrow> astate \<Rightarrow> astate" where
  "a_wake n a = a_upd n (\<lambda>t. t\<lparr>a_status := READY\<rparr>) (a\<lparr>a_ready := a_ready a @ [n]\<rparr>)"

definition a_yield :: "uprog \<Rightarrow> astate \<Rightarrow> astate option" where
  "a_yield k a = a_dispatch ((a_leave READY (Go k) a)\<lparr>a_ready := a_ready a @ [a_cur a]\<rparr>)"

text \<open>The least free identifier, from \<open>n\<close> on.\<close>

fun a_free :: "(nat \<Rightarrow> 'a option) \<Rightarrow> nat \<Rightarrow> nat \<Rightarrow> nat option" where
  "a_free f n 0 = None"
| "a_free f n (Suc k) = (if f n = None then Some n else a_free f (Suc n) k)"

definition a_create :: "(addr \<Rightarrow> uprog) \<Rightarrow> addr \<Rightarrow> (int \<times> tid_t option \<Rightarrow> uprog) \<Rightarrow> astate \<Rightarrow> astate option" where
  "a_create f x k a =
     (case a_free (a_thr a) 0 UTHREAD_MAX_THREADS of
        None \<Rightarrow> None
      | Some n \<Rightarrow> Some (a_goto (k (0, Some (of_nat n)))
          (a\<lparr>a_thr := (a_thr a)(n \<mapsto> \<lparr>a_status = READY, a_next = Start f x, a_ret = NULL, a_join = []\<rparr>),
             a_ready := a_ready a @ [n]\<rparr>)))"

text \<open>The thread ends; the first thread that joins it becomes ready.\<close>

definition a_exit :: "addr \<Rightarrow> athread \<Rightarrow> astate \<Rightarrow> astate option" where
  "a_exit v t a =
     (let a1 = a_upd (a_cur a) (\<lambda>t. t\<lparr>a_status := FINISHED, a_ret := v, a_join := tl (a_join t)\<rparr>) a in
      a_dispatch (case a_join t of [] \<Rightarrow> a1 | j # _ \<Rightarrow> a_wake j a1))"

definition a_join_finish :: "tid_t \<Rightarrow> bool \<Rightarrow> (int \<times> addr option \<Rightarrow> uprog) \<Rightarrow> astate \<Rightarrow> astate option" where
  "a_join_finish tid pret k a =
     (case a_thr a (unat tid) of
        None \<Rightarrow> None
      | Some t \<Rightarrow>
          if a_status t = FINISHED
          then Some (a_goto (k (0, if pret then Some (a_ret t) else None)) (a\<lparr>a_thr := (a_thr a)(unat tid := None)\<rparr>))
          else None)"

definition a_join_thread :: "tid_t \<Rightarrow> bool \<Rightarrow> (int \<times> addr option \<Rightarrow> uprog) \<Rightarrow> athread \<Rightarrow> astate \<Rightarrow> astate option" where
  "a_join_thread tid pret k c a =
     (case a_thr a (unat tid) of
        None \<Rightarrow> None
      | Some t \<Rightarrow>
          if a_status t = FINISHED then a_join_finish tid pret k a
          else if a_join c \<noteq> [] \<or> unat tid = a_cur a then None
          else a_dispatch (a_upd (unat tid) (\<lambda>t. t\<lparr>a_join := a_join t @ [a_cur a]\<rparr>)
            (a_leave WAITING_JOIN (Rejoin tid pret k) a)))"

definition a_sem_wait :: "semid \<Rightarrow> (int \<Rightarrow> uprog) \<Rightarrow> astate \<Rightarrow> astate option" where
  "a_sem_wait m k a =
     (case a_sems a m of
        None \<Rightarrow> None
      | Some (c, ws) \<Rightarrow>
          if c < 0 then None
          else if c = 0 then
            a_dispatch ((a_leave WAITING_SEM (Rewait m k) a)\<lparr>a_sems := (a_sems a)(m \<mapsto> (0, ws @ [a_cur a]))\<rparr>)
          else Some (a_goto (k 0) (a\<lparr>a_sems := (a_sems a)(m \<mapsto> (c - 1, ws))\<rparr>)))"

definition a_sem_post :: "semid \<Rightarrow> (int \<Rightarrow> uprog) \<Rightarrow> astate \<Rightarrow> astate option" where
  "a_sem_post m k a =
     (case a_sems a m of
        None \<Rightarrow> None
      | Some (c, ws) \<Rightarrow>
          if c < INT_MAX then
            Some (a_goto (k 0) (case ws of
                [] \<Rightarrow> a\<lparr>a_sems := (a_sems a)(m \<mapsto> (c + 1, []))\<rparr>
              | w # ws \<Rightarrow> a_wake w (a\<lparr>a_sems := (a_sems a)(m \<mapsto> (c + 1, ws))\<rparr>)))
          else None)"

definition a_sem_destroy :: "semid \<Rightarrow> uprog \<Rightarrow> astate \<Rightarrow> astate option" where
  "a_sem_destroy m k a =
     (case a_sems a m of
        None \<Rightarrow> None
      | Some _ \<Rightarrow> Some (a_goto k (a\<lparr>a_sems := (a_sems a)(m := None)\<rparr>)))"

text \<open>One call of the current thread. \<open>None\<close>: no thread is left to run, or the specification does not cover the call.\<close>

definition astep :: "astate \<Rightarrow> astate option" where
  "astep a =
     (case a_thr a (a_cur a) of
        None \<Rightarrow> None
      | Some t \<Rightarrow>
          (case a_next t of
             Start f x \<Rightarrow> Some (a_goto (f x) a)
           | Rewait m k \<Rightarrow> a_sem_wait m k a
           | Rejoin tid pret k \<Rightarrow> a_join_finish tid pret k a
           | Go u \<Rightarrow>
               (case u of
                  U_self k \<Rightarrow> Some (a_goto (k (of_nat (a_cur a))) a)
                | U_yield k \<Rightarrow> a_yield k a
                | U_create f x b sz k \<Rightarrow> a_create f x k a
                | U_exit v \<Rightarrow> a_exit v t a
                | U_ret v \<Rightarrow> a_exit v t a
                | U_join tid pret k \<Rightarrow> a_join_thread tid pret k t a
                | U_sem_init m v k \<Rightarrow> Some (a_goto (k 0) (a\<lparr>a_sems := (a_sems a)(m \<mapsto> (v, []))\<rparr>))
                | U_sem_post m k \<Rightarrow> a_sem_post m k a
                | U_sem_wait m k \<Rightarrow> a_sem_wait m k a
                | U_sem_destroy m k \<Rightarrow> a_sem_destroy m k a
                | U_mem f \<Rightarrow> (case f (a_mem a) of (mem, u') \<Rightarrow> Some (a_goto u' (a\<lparr>a_mem := mem\<rparr>)))
                | _ \<Rightarrow> None)))"

primrec arun :: "nat \<Rightarrow> astate \<Rightarrow> astate" where
  "arun 0 a = a"
| "arun (Suc n) a = (case astep a of None \<Rightarrow> a | Some a' \<Rightarrow> arun n a')"

text \<open>The state after the library was initialised, with the main thread about to execute \<open>u\<close>.\<close>

definition a_init :: "(nat \<Rightarrow> int) \<Rightarrow> uprog \<Rightarrow> astate" where
  "a_init mem u =
     \<lparr>a_cur = 0, a_ready = [], a_thr = [0 \<mapsto> \<lparr>a_status = RUNNING, a_next = Go u, a_ret = NULL, a_join = []\<rparr>],
      a_sems = (\<lambda>_. None), a_mem = mem\<rparr>"

section \<open>Whole programs\<close>

text \<open>The steps of a program on the client's memory, up to the first other call.\<close>

primrec a_local :: "nat \<Rightarrow> (nat \<Rightarrow> int) \<Rightarrow> uprog \<Rightarrow> (nat \<Rightarrow> int) \<times> uprog" where
  "a_local 0 mem u = (mem, u)"
| "a_local (Suc n) mem u =
     (case u of
        U_mem f \<Rightarrow> (case f mem of (mem', u') \<Rightarrow> a_local n mem' u')
      | _ \<Rightarrow> (mem, u))"

text \<open>What the main thread is about to execute.\<close>

definition a_main :: "astate \<Rightarrow> uprog option" where
  "a_main a =
     (if a_cur a = 0 \<and> a_ready a = [] then
        (case a_thr a 0 of
           Some t \<Rightarrow> (case a_next t of Go u \<Rightarrow> Some u | _ \<Rightarrow> None)
         | None \<Rightarrow> None)
      else None)"

text \<open>
  The exit status of a program that initialises the library with one kernel thread and no preemption and
  tears it down when no other thread is ready, with \<open>n\<close> as the bound for the number of steps.
\<close>

definition a_status_of :: "nat \<Rightarrow> (nat \<Rightarrow> int) \<Rightarrow> uprog \<Rightarrow> int option" where
  "a_status_of n mem u = (case snd (a_local n mem u) of U_process_exit r \<Rightarrow> Some r | _ \<Rightarrow> None)"

definition a_after_init :: "nat \<Rightarrow> (nat \<Rightarrow> int) \<Rightarrow> uprog \<Rightarrow> int option" where
  "a_after_init n mem u =
     (let a = arun n (a_init mem u) in
      case a_main a of
        Some v \<Rightarrow> (case v of U_teardown k \<Rightarrow> a_status_of n (a_mem a) k | _ \<Rightarrow> None)
      | None \<Rightarrow> None)"

definition a_exec :: "nat \<Rightarrow> uprog \<Rightarrow> int option" where
  "a_exec n u =
     (case a_local n (\<lambda>_. 0) u of (mem, v) \<Rightarrow>
        (case v of
           U_init nk q k \<Rightarrow> if nk = 1 \<and> q = 0 then a_after_init n mem (k 0) else None
         | _ \<Rightarrow> None))"

end
