(* ===== verification/Fcfs_Wf.thy ===== *)
theory Fcfs_Wf
  imports Fcfs_Spec
begin

text \<open>Every step of the abstract scheduler keeps its states well-formed.\<close>

section \<open>Well-formed abstract states\<close>

definition a_wf :: "astate \<Rightarrow> bool" where
  "a_wf a \<longleftrightarrow>
     distinct (a_ready a) \<and> (\<forall>n \<in> set (a_ready a). \<exists>t. a_thr a n = Some t \<and> a_status t = READY) \<and>
     (\<forall>m c ws. a_sems a m = Some (c, ws) \<longrightarrow> distinct ws \<and>
        (\<forall>n \<in> set ws. \<exists>t k. a_thr a n = Some t \<and> a_status t = WAITING_SEM \<and> a_next t = Rewait m k)) \<and>
     (\<forall>n t. a_thr a n = Some t \<longrightarrow> distinct (a_join t) \<and>
        (\<forall>j \<in> set (a_join t). \<exists>tj tid b k. a_thr a j = Some tj \<and> a_status tj = WAITING_JOIN \<and> a_next tj = Rejoin tid b k \<and> unat tid = n))"

lemma a_wfD:
  assumes "a_wf a"
  shows "distinct (a_ready a)" "n \<in> set (a_ready a) \<Longrightarrow> \<exists>t. a_thr a n = Some t \<and> a_status t = READY"
    "a_sems a m = Some (v, ws) \<Longrightarrow> distinct ws"
    "a_sems a m = Some (v, ws) \<Longrightarrow> n \<in> set ws \<Longrightarrow> \<exists>t k. a_thr a n = Some t \<and> a_status t = WAITING_SEM \<and> a_next t = Rewait m k"
    "a_thr a n = Some t \<Longrightarrow> distinct (a_join t)"
    "a_thr a n = Some t \<Longrightarrow> j \<in> set (a_join t) \<Longrightarrow>
       \<exists>tj tid b k. a_thr a j = Some tj \<and> a_status tj = WAITING_JOIN \<and> a_next tj = Rejoin tid b k \<and> unat tid = n"
  using assms unfolding a_wf_def by blast+

section \<open>Updates of well-formed states\<close>

text \<open>The thread is in no list.\<close>

definition listed :: "astate \<Rightarrow> nat \<Rightarrow> bool" where
  "listed a n \<longleftrightarrow> n \<in> set (a_ready a) \<or> (\<exists>m v ws. a_sems a m = Some (v, ws) \<and> n \<in> set ws) \<or>
     (\<exists>k t. a_thr a k = Some t \<and> n \<in> set (a_join t))"

lemma not_listed:
  assumes "a_wf a" "a_thr a n = Some t" "a_status t \<in> {RUNNING, FINISHED}"
  shows "\<not> listed a n"
proof
  assume "listed a n"
  then show False
    unfolding listed_def using a_wfD(2,4,6) [OF assms(1)] assms(2,3) by (elim disjE exE conjE) fastforce+
qed

lemma not_listed_None: "a_wf a \<Longrightarrow> a_thr a n = None \<Longrightarrow> \<not> listed a n"
  unfolding listed_def using a_wfD(2,4,6) by (metis option.distinct(1))

lemma not_listedD:
  assumes "\<not> listed a n"
  shows "n \<notin> set (a_ready a)" "a_sems a m = Some (v, ws) \<Longrightarrow> n \<notin> set ws" "a_thr a k = Some t \<Longrightarrow> n \<notin> set (a_join t)"
  using assms unfolding listed_def by blast+

lemma not_listedI:
  assumes "n \<notin> set (a_ready a)" "\<And>m v ws. a_sems a m = Some (v, ws) \<Longrightarrow> n \<notin> set ws" "\<And>k t. a_thr a k = Some t \<Longrightarrow> n \<notin> set (a_join t)"
  shows "\<not> listed a n"
  using assms unfolding listed_def by blast

lemma wf_upd:
  assumes wf: "a_wf a" and n: "\<not> listed a n" and t: "distinct (a_join t')" "\<And>j. j \<in> set (a_join t') \<Longrightarrow> \<exists>t. a_thr a n = Some t \<and> j \<in> set (a_join t)"
  shows "a_wf (a\<lparr>a_thr := (a_thr a)(n \<mapsto> t')\<rparr>)"
proof -
  note n = not_listedD [OF n]
  have j: "\<exists>tj tid b k. a_thr a j = Some tj \<and> a_status tj = WAITING_JOIN \<and> a_next tj = Rejoin tid b k \<and> unat tid = n" "j \<noteq> n"
    if "j \<in> set (a_join t')" for j
    using t(2) [OF that] a_wfD(6) [OF wf, of n _ j] n(3) [of n] by blast+
  show ?thesis
    unfolding a_wf_def using a_wfD(1-5) [OF wf] a_wfD(6) [OF wf] n j t(1) by (auto; metis)
qed

lemma wf_del:
  assumes wf: "a_wf a" and n: "\<not> listed a n"
  shows "a_wf (a\<lparr>a_thr := (a_thr a)(n := None)\<rparr>)"
  unfolding a_wf_def using a_wfD(1-5) [OF wf] a_wfD(6) [OF wf] not_listedD [OF n] by (auto split: if_splits; metis)

lemma wf_ready:
  assumes "a_wf a" "a_thr a n = Some t" "a_status t = READY" "n \<notin> set (a_ready a)"
  shows "a_wf (a\<lparr>a_ready := a_ready a @ [n]\<rparr>)"
  using assms unfolding a_wf_def by auto

lemma wf_sem:
  assumes "a_wf a" "distinct ws" "\<And>n. n \<in> set ws \<Longrightarrow> \<exists>t k. a_thr a n = Some t \<and> a_status t = WAITING_SEM \<and> a_next t = Rewait m k"
  shows "a_wf (a\<lparr>a_sems := (a_sems a)(m \<mapsto> (v, ws))\<rparr>)"
  using assms unfolding a_wf_def by auto

lemma wf_mem: "a_wf (a\<lparr>a_mem := mem\<rparr>) = a_wf a" "a_wf (a\<lparr>a_cur := n\<rparr>) = a_wf a"
  by (simp_all add: a_wf_def)

lemma wf_joined:
  assumes wf: "a_wf a" and j: "j \<notin> set (a_join t)"
    "\<exists>tj. a_thr a j = Some tj \<and> a_status tj = WAITING_JOIN \<and> a_next tj = Rejoin tid pret k" and t: "a_thr a (unat tid) = Some t"
  shows "a_wf (a_upd (unat tid) (\<lambda>t. t\<lparr>a_join := a_join t @ [j]\<rparr>) a)" (is "a_wf ?a")
proof -
  have look: "\<exists>u. a_thr ?a n = Some u \<and> a_status u = a_status u' \<and> a_next u = a_next u'" if "a_thr a n = Some u'" for n u'
    using that by (auto simp: a_upd_def)
  have joiner: "\<exists>u tid b k. a_thr ?a i = Some u \<and> a_status u = WAITING_JOIN \<and> a_next u = Rejoin tid b k \<and> unat tid = n"
    if "\<exists>u tid b k. a_thr a i = Some u \<and> a_status u = WAITING_JOIN \<and> a_next u = Rejoin tid b k \<and> unat tid = n" for i n
    using that look [of i] by auto
  have "\<exists>u. a_thr ?a n = Some u \<and> a_status u = READY" if "n \<in> set (a_ready ?a)" for n
    using that a_wfD(2) [OF wf, of n] look [of n] by (auto simp: a_upd_def)
  moreover have "\<exists>u k. a_thr ?a n = Some u \<and> a_status u = WAITING_SEM \<and> a_next u = Rewait m k" if "a_sems ?a m = Some (v, ws)" "n \<in> set ws" for m v ws n
    using that a_wfD(4) [OF wf, of m v ws n] look [of n] by (auto simp: a_upd_def)
  moreover have "distinct (a_join u) \<and> (\<forall>i \<in> set (a_join u). \<exists>ti tid b k. a_thr ?a i = Some ti \<and> a_status ti = WAITING_JOIN \<and>
      a_next ti = Rejoin tid b k \<and> unat tid = n)" if u: "a_thr ?a n = Some u" for n u
  proof (cases "n = unat tid")
    case True
    with u t have "u = t\<lparr>a_join := a_join t @ [j]\<rparr>" by (simp add: a_upd_def)
    then have "distinct (a_join u)" "\<forall>i \<in> set (a_join u). \<exists>ti tid b k. a_thr a i = Some ti \<and> a_status ti = WAITING_JOIN \<and>
      a_next ti = Rejoin tid b k \<and> unat tid = n" using a_wfD(5) [OF wf t] a_wfD(6) [OF wf t] j True by auto
    then show ?thesis by (intro conjI ballI joiner) blast+
  next
    case False
    with u have "a_thr a n = Some u" by (simp add: a_upd_def)
    then show ?thesis using a_wfD(5,6) [OF wf] by (intro conjI ballI joiner)
  qed
  ultimately show ?thesis unfolding a_wf_def using a_wfD(1,3) [OF wf] by (auto simp: a_upd_def)
qed

lemma wf_joins: "a_wf a \<Longrightarrow> a_thr a n = Some t \<Longrightarrow> set (a_join t) \<subseteq> dom (a_thr a)"
  using a_wfD(6) by blast

lemma wf_wake:
  assumes wf: "a_wf a" and n: "\<not> listed a n" and t: "a_thr a n = Some t"
  shows "a_wf (a_wake n a)"
proof -
  let ?a = "a\<lparr>a_thr := (a_thr a)(n \<mapsto> t\<lparr>a_status := READY\<rparr>)\<rparr>"
  have "a_wf ?a" by (rule wf_upd [OF wf n]) (use a_wfD(5) [OF wf t] t in auto)
  then have "a_wf (?a\<lparr>a_ready := a_ready ?a @ [n]\<rparr>)" by (rule wf_ready [where t = "t\<lparr>a_status := READY\<rparr>"]) (use not_listedD(1) [OF n] in simp_all)
  then show ?thesis using t by (cases a) (simp add: a_wake_def a_upd_def)
qed

text \<open>The current thread runs, and its state is changed.\<close>

definition a_ok :: "astate \<Rightarrow> bool" where
  "a_ok a \<longleftrightarrow> a_wf a \<and> (\<exists>t. a_thr a (a_cur a) = Some t \<and> a_status t = RUNNING)"

lemma wf_cur:
  assumes wf: "a_wf a" and t: "a_thr a (a_cur a) = Some t" "a_status t = RUNNING" and f: "distinct (a_join (f t))" "set (a_join (f t)) \<subseteq> set (a_join t)"
  shows "a_wf (a_upd (a_cur a) f a)"
proof -
  have "\<not> listed a (a_cur a)" using not_listed [OF wf t(1)] t(2) by simp
  from wf_upd [OF wf this f(1)] f(2) t(1) show ?thesis by (auto simp: a_upd_def)
qed

lemma ok_goto: "a_wf a \<Longrightarrow> a_thr a (a_cur a) = Some t \<Longrightarrow> a_status t = RUNNING \<Longrightarrow> a_ok (a_goto u a)"
  unfolding a_ok_def a_goto_def using wf_cur [of a t] a_wfD(5) by (simp add: a_upd_def)

lemma wf_leave:
  "a_wf a \<Longrightarrow> a_thr a (a_cur a) = Some t \<Longrightarrow> a_status t = RUNNING \<Longrightarrow> a_wf (a_leave st r a)"
  unfolding a_leave_def using wf_cur [of a t] a_wfD(5) by simp

lemma ok_dispatch:
  assumes wf: "a_wf a" and d: "a_dispatch a = Some a'"
  shows "a_ok a'"
proof -
  from d obtain n ns where n: "a_ready a = n # ns" and a': "a' = a_upd n (\<lambda>t. t\<lparr>a_status := RUNNING\<rparr>) (a\<lparr>a_cur := n, a_ready := ns\<rparr>)"
    by (auto simp: a_dispatch_def split: list.splits)
  from a_wfD(2) [OF wf, of n] n obtain t where t: "a_thr a n = Some t" "a_status t = READY" by auto
  let ?a = "a\<lparr>a_cur := n, a_ready := ns\<rparr>"
  have wf': "a_wf ?a" using wf n unfolding a_wf_def by auto
  moreover have "\<not> listed ?a n"
    unfolding listed_def using a_wfD(1,4,6) [OF wf] n t by fastforce
  ultimately have "a_wf (?a\<lparr>a_thr := (a_thr ?a)(n \<mapsto> t\<lparr>a_status := RUNNING\<rparr>)\<rparr>)"
    by (rule wf_upd) (use a_wfD(5) [OF wf t(1)] t(1) in auto)
  then show ?thesis using t(1) by (simp add: a_ok_def a' a_upd_def)
qed

section \<open>Every step keeps the state well-formed\<close>

lemma in_set_tl: "y \<in> set (tl ys) \<Longrightarrow> y \<in> set ys"
  by (cases ys) auto

lemma a_ok_yield:
  assumes wf: "a_wf a" and t: "a_thr a (a_cur a) = Some t" "a_status t = RUNNING" and d: "a_yield k a = Some a'"
  shows "a_ok a'"
proof -
  let ?a = "a_leave READY (Go k) a"
  have "a_wf (?a\<lparr>a_ready := a_ready ?a @ [a_cur a]\<rparr>)"
    by (rule wf_ready [OF wf_leave [OF wf t], where t = "t\<lparr>a_status := READY, a_next := Go k\<rparr>"])
      (use not_listedD(1) [OF not_listed [OF wf t(1)]] t in \<open>simp_all add: a_leave_def a_upd_def\<close>)
  with d show ?thesis by (intro ok_dispatch) (simp_all add: a_yield_def a_leave_def a_upd_def)
qed

lemma a_ok_exit:
  assumes wf: "a_wf a" and t: "a_thr a (a_cur a) = Some t" "a_status t = RUNNING" and d: "a_exit v t a = Some a'"
  shows "a_ok a'"
proof -
  let ?a = "a_upd (a_cur a) (\<lambda>t. t\<lparr>a_status := FINISHED, a_ret := v, a_join := tl (a_join t)\<rparr>) a"
  have wf': "a_wf ?a" by (rule wf_cur [OF wf t]) (use a_wfD(5) [OF wf t(1)] in \<open>auto simp: distinct_tl dest: in_set_tl\<close>)
  show ?thesis
  proof (cases "a_join t")
    case Nil
    with d wf' show ?thesis by (intro ok_dispatch) (simp_all add: a_exit_def Let_def)
  next
    case (Cons j js)
    from a_wfD(6) [OF wf t(1), of j] Cons obtain tj tid b k where
      j: "a_thr a j = Some tj" "a_status tj = WAITING_JOIN" "a_next tj = Rejoin tid b k" "unat tid = a_cur a" by auto
    from j(1,2) t have ne: "j \<noteq> a_cur a" by auto
    have "j \<notin> set js" using a_wfD(5) [OF wf t(1)] Cons by simp
    have "\<not> listed ?a j"
    proof (rule not_listedI)
      show "j \<notin> set (a_ready ?a)" using a_wfD(2) [OF wf, of j] j(1,2) by (auto simp: a_upd_def)
      show "j \<notin> set ws" if "a_sems ?a m = Some (v, ws)" for m v ws
        using that a_wfD(4) [OF wf, of m v ws j] j(1,2) by (auto simp: a_upd_def)
      show "j \<notin> set (a_join u)" if "a_thr ?a n = Some u" for n u
        using that \<open>j \<notin> set js\<close> a_wfD(6) [OF wf, of n u j] j t(1) Cons by (auto simp: a_upd_def split: if_splits)
    qed
    from wf_wake [OF wf' this, of tj] j(1) ne have "a_wf (a_wake j ?a)" by (simp add: a_upd_def)
    with d Cons show ?thesis by (intro ok_dispatch) (simp_all add: a_exit_def Let_def)
  qed
qed

lemma a_free_least:
  "a_free f n k = Some r \<Longrightarrow> n \<le> r \<and> r < n + k \<and> f r = None \<and> (\<forall>j. n \<le> j \<longrightarrow> j < r \<longrightarrow> f j \<noteq> None)"
proof (induction k arbitrary: n)
  case (Suc k)
  show ?case
  proof (cases "f n = None")
    case False
    with Suc.prems have "a_free f (Suc n) k = Some r" by simp
    with Suc.IH have "Suc n \<le> r \<and> r < Suc n + k \<and> f r = None \<and> (\<forall>j. Suc n \<le> j \<longrightarrow> j < r \<longrightarrow> f j \<noteq> None)" by blast
    with False show ?thesis by (metis Suc_leD Suc_leI add_Suc add_Suc_right le_neq_implies_less)
  qed (use Suc.prems in auto)
qed simp

lemma a_ok_create:
  assumes wf: "a_wf a" and t: "a_thr a (a_cur a) = Some t" "a_status t = RUNNING" and d: "a_create f x k a = Some a'"
  shows "a_ok a'"
proof -
  let ?t = "\<lparr>a_status = READY, a_next = Start f x, a_ret = NULL, a_join = []\<rparr>"
  from d obtain n where n: "a_free (a_thr a) 0 UTHREAD_MAX_THREADS = Some n"
    and a': "a' = a_goto (k (0, Some (of_nat n))) (a\<lparr>a_thr := (a_thr a)(n \<mapsto> ?t), a_ready := a_ready a @ [n]\<rparr>)"
    by (auto simp: a_create_def split: option.splits)
  have n': "a_thr a n = None" using a_free_least [OF n] by simp
  note nl = not_listed_None [OF wf n']
  have "a_wf (a\<lparr>a_thr := (a_thr a)(n \<mapsto> ?t)\<rparr>)" by (rule wf_upd [OF wf nl]) simp_all
  from wf_ready [OF this, of n ?t] not_listedD(1) [OF nl] have "a_wf (a\<lparr>a_thr := (a_thr a)(n \<mapsto> ?t), a_ready := a_ready a @ [n]\<rparr>)" by simp
  then show ?thesis unfolding a' by (rule ok_goto [where t = t]) (use t n' in auto)
qed

lemma ok_join_finish:
  assumes wf: "a_wf a" and t: "a_thr a (a_cur a) = Some t" "a_status t = RUNNING" and d: "a_join_finish tid pret k a = Some a'"
  shows "a_ok a'"
proof -
  from d obtain tq where tq: "a_thr a (unat tid) = Some tq" "a_status tq = FINISHED"
    and a': "a' = a_goto (k (0, if pret then Some (a_ret tq) else None)) (a\<lparr>a_thr := (a_thr a)(unat tid := None)\<rparr>)"
    by (auto simp: a_join_finish_def split: option.splits if_splits)
  have "\<not> listed a (unat tid)" using not_listed [OF wf tq(1)] tq(2) by simp
  from wf_del [OF wf this] show ?thesis unfolding a' by (rule ok_goto [where t = t]) (use t tq in auto)
qed

lemma ok_join:
  assumes wf: "a_wf a" and t: "a_thr a (a_cur a) = Some t" "a_status t = RUNNING" and d: "a_join_thread tid pret k t a = Some a'"
  shows "a_ok a'"
proof -
  let ?n = "unat tid"
  from d obtain tq where tq: "a_thr a ?n = Some tq" by (auto simp: a_join_thread_def split: option.splits)
  show ?thesis
  proof (cases "a_status tq = FINISHED")
    case True
    with d tq show ?thesis by (intro ok_join_finish [OF wf t]) (simp add: a_join_thread_def)
  next
    case False
    let ?a = "a_leave WAITING_JOIN (Rejoin tid pret k) a"
    from False d tq have ne: "?n \<noteq> a_cur a" and
      d': "a_dispatch (a_upd ?n (\<lambda>t. t\<lparr>a_join := a_join t @ [a_cur a]\<rparr>) ?a) = Some a'"
      by (auto simp: a_join_thread_def split: if_splits)
    have tq': "a_thr ?a ?n = Some tq" using tq ne by (simp add: a_leave_def a_upd_def)
    have "a_wf ?a" by (rule wf_leave [OF wf t])
    moreover have "a_cur a \<notin> set (a_join tq)" using not_listedD(3) [OF not_listed [OF wf t(1)] tq] t(2) by simp
    moreover have "\<exists>tj. a_thr ?a (a_cur a) = Some tj \<and> a_status tj = WAITING_JOIN \<and> a_next tj = Rejoin tid pret k"
      using t(1) by (simp add: a_leave_def a_upd_def)
    ultimately have "a_wf (a_upd ?n (\<lambda>t. t\<lparr>a_join := a_join t @ [a_cur a]\<rparr>) ?a)" using tq' by (rule wf_joined)
    then show ?thesis using d' by (rule ok_dispatch)
  qed
qed

lemma a_ok_sem_wait:
  assumes wf: "a_wf a" and t: "a_thr a (a_cur a) = Some t" "a_status t = RUNNING" and d: "a_sem_wait m k a = Some a'"
  shows "a_ok a'"
proof -
  from d obtain v ws where m: "a_sems a m = Some (v, ws)" "0 \<le> v" by (auto simp: a_sem_wait_def split: option.splits if_splits)
  show ?thesis
  proof (cases "v = 0")
    case True
    let ?a = "a_leave WAITING_SEM (Rewait m k) a"
    have "a_cur a \<notin> set ws" using not_listedD(2) [OF not_listed [OF wf t(1)] m(1)] t(2) by simp
    then have "a_wf (?a\<lparr>a_sems := (a_sems ?a)(m \<mapsto> (0, ws @ [a_cur a]))\<rparr>)"
      using a_wfD(3,4) [OF wf m(1)] t by (intro wf_sem wf_leave [OF wf t]) (auto simp: a_leave_def a_upd_def)
    with True d m show ?thesis by (intro ok_dispatch) (simp_all add: a_sem_wait_def a_leave_def a_upd_def)
  next
    case False
    have "a_wf (a\<lparr>a_sems := (a_sems a)(m \<mapsto> (v - 1, ws))\<rparr>)" using a_wfD(3,4) [OF wf m(1)] by (intro wf_sem wf) auto
    from ok_goto [OF this, of t "k 0"] t False m d show ?thesis by (simp add: a_sem_wait_def)
  qed
qed

lemma a_ok_sem_post:
  assumes wf: "a_wf a" and t: "a_thr a (a_cur a) = Some t" "a_status t = RUNNING" and d: "a_sem_post m k a = Some a'"
  shows "a_ok a'"
proof -
  from d obtain v ws where m: "a_sems a m = Some (v, ws)" "v < INT_MAX" by (auto simp: a_sem_post_def split: option.splits if_splits)
  let ?a = "a\<lparr>a_sems := (a_sems a)(m \<mapsto> (v + 1, tl ws))\<rparr>"
  have wf': "a_wf ?a" using a_wfD(3,4) [OF wf m(1)] by (intro wf_sem wf) (auto simp: distinct_tl dest: in_set_tl)
  show ?thesis
  proof (cases ws)
    case Nil
    with wf' ok_goto [OF wf', of t "k 0"] t m d show ?thesis by (simp add: a_sem_post_def)
  next
    case (Cons w ws')
    from a_wfD(4) [OF wf m(1), of w] Cons obtain tw kw where w: "a_thr a w = Some tw" "a_status tw = WAITING_SEM" "a_next tw = Rewait m kw" by auto
    from w(1,2) t have ne: "w \<noteq> a_cur a" by auto
    have "w \<notin> set ws'" using a_wfD(3) [OF wf m(1)] Cons by simp
    have "\<not> listed ?a w"
    proof (rule not_listedI)
      show "w \<notin> set (a_ready ?a)" using a_wfD(2) [OF wf, of w] w(1,2) by auto
      show "w \<notin> set us" if "a_sems ?a n = Some (u, us)" for n u us
        using that a_wfD(4) [OF wf, of n u us w] w \<open>w \<notin> set ws'\<close> Cons by (auto split: if_splits)
      show "w \<notin> set (a_join u)" if "a_thr ?a n = Some u" for n u
        using that a_wfD(6) [OF wf, of n u w] w by auto
    qed
    from ok_goto [OF wf_wake [OF wf' this], of tw t "k 0"] w(1) ne t m d Cons show ?thesis by (simp add: a_sem_post_def a_wake_def a_upd_def)
  qed
qed

lemma ok_astep:
  assumes "a_ok a" "astep a = Some a'"
  shows "a_ok a'"
proof -
  from assms(1) obtain t where wf: "a_wf a" and t: "a_thr a (a_cur a) = Some t" "a_status t = RUNNING" unfolding a_ok_def by blast
  note ok = a_ok_yield [OF wf t] a_ok_exit [OF wf t] a_ok_create [OF wf t] ok_join [OF wf t] ok_join_finish [OF wf t] a_ok_sem_wait [OF wf t]
    a_ok_sem_post [OF wf t]
  have goto: "a_ok (a_goto u a)" for u by (rule ok_goto [OF wf t])
  have sem: "a_ok (a_goto u (a\<lparr>a_sems := (a_sems a)(m \<mapsto> (v, []))\<rparr>))" for u m v
    by (rule ok_goto [where t = t]) (use wf_sem [OF wf, of "[]"] t in simp_all)
  have mem: "a_ok (a_goto u (a\<lparr>a_mem := mem\<rparr>))" for u mem
    by (rule ok_goto [where t = t]) (use wf_mem wf t in simp_all)
  have destroy: "a_ok a'" if "a_sem_destroy m k a = Some a'" for m k
  proof -
    have "a_wf (a\<lparr>a_sems := (a_sems a)(m := None)\<rparr>)" using wf unfolding a_wf_def by auto
    from ok_goto [OF this, of t k] t that show ?thesis by (auto simp: a_sem_destroy_def split: option.splits)
  qed
  show ?thesis
  proof (cases "a_next t")
    case (Go u)
    with assms(2) t(1) show ?thesis
      by (cases u) (auto simp: astep_def dest: ok destroy intro: goto sem mem split: prod.splits)
  qed (use assms(2) t(1) in \<open>auto simp: astep_def dest: ok intro: goto\<close>)
qed

lemma ok_arun: "a_ok a \<Longrightarrow> a_ok (arun n a)"
  by (induction n arbitrary: a) (auto intro: ok_astep split: option.splits)

lemma ok_init: "a_ok (a_init mem u)"
  by (simp add: a_ok_def a_wf_def a_init_def)

end
