(* ===== verification/Ghost.thy ===== *)
theory Ghost
  imports Machine
begin

text \<open>
  The invariant of the library under arbitrary interleavings of its kernel threads. It speaks
  about the shared state, the set of threads with a saved context, and auxiliary (ghost)
  information: the place of every thread control block, and for every kernel thread what it
  currently holds: locks, control blocks it owns exclusively, units of the semaphore
  \<^verbatim>\<open>not_empty\<close> it has taken or still has to post, and values it has read under a lock.
\<close>

section \<open>Ghost state\<close>

datatype place = Nowhere | Owned ktid | In_ready | In_sem semid | Zombie

text \<open>
  \<open>g_own\<close> gives the state of an owned control block and whether its context is saved;
  \<open>g_cur\<close> is the thread that \<open>current_tid\<close> designates while it is owned, \<open>g_pend\<close> the
  semaphore it is waiting for; \<open>g_new\<close> the
  identifier that \<^verbatim>\<open>uthread_create\<close> has taken, with the control block (\<open>NULL\<close> before it is
  allocated), until its fields are set; \<open>g_made\<close> the same pair after that;
  \<open>g_cnt\<close> and \<open>g_len\<close> the counter and the queue length of a semaphore, read under its lock;
  \<open>g_posted\<close> a semaphore whose counter was incremented and whose queue was not served yet;
  \<open>g_boot\<close> holds for a kernel thread that waits for the initialisation to finish.
\<close>

record ghost =
  g_locks :: "mutex_ref set"
  g_own :: "addr \<Rightarrow> (thread_state \<times> bool) option"
  g_cur :: "addr option"
  g_pend :: "semid option"
  g_credit :: nat
  g_new :: "(nat \<times> addr) option"
  g_made :: "(nat \<times> addr) option"
  g_sched :: "sched_task \<times> mutex_ref option \<times> queue_ref option"
  g_cnt :: "(semid \<times> int) option"
  g_len :: "(semid \<times> int) option"
  g_posted :: "semid option"
  g_boot :: bool

definition idle :: ghost where
  "idle = \<lparr>g_locks = {}, g_own = (\<lambda>_. None), g_cur = None, g_pend = None, g_credit = 0,
           g_new = None, g_made = None, g_sched = (NONE, None, None), g_cnt = None, g_len = None,
           g_posted = None, g_boot = False\<rparr>"

text \<open>A kernel thread that waits for \<^verbatim>\<open>uthread_init\<close> to finish.\<close>

definition booting :: ghost where
  "booting = idle\<lparr>g_boot := True\<rparr>"

text \<open>A kernel thread that runs client code in thread \<open>p\<close>.\<close>

definition running :: "addr \<Rightarrow> ghost" where
  "running p = idle\<lparr>g_own := [p \<mapsto> (RUNNING, False)], g_cur := Some p\<rparr>"

type_synonym ghosts = "ktid \<Rightarrow> ghost"

section \<open>The parts of the invariant\<close>

definition ktids :: "shared \<Rightarrow> ktid set" where
  "ktids s = kinfo_ktid ` set (kthread_info s)"

definition sched_of :: "uthread_kinfo_t \<Rightarrow> sched_task \<times> mutex_ref option \<times> queue_ref option" where
  "sched_of ki = (task (sched_info ki), sched_lock (sched_info ki), sched_queue (sched_info ki))"

definition ki_wf :: "shared \<Rightarrow> bool" where
  "ki_wf s \<longleftrightarrow> distinct (map kinfo_ktid (kthread_info s)) \<and> num_kthreads s = length (kthread_info s)"

text \<open>The current thread of a kernel thread, as long as the kernel thread owns it.\<close>

definition cur_ok :: "shared \<Rightarrow> uthread_kinfo_t \<Rightarrow> ghost \<Rightarrow> bool" where
  "cur_ok s ki g \<longleftrightarrow>
     (\<forall>p. g_cur g = Some p \<longrightarrow> p \<in> dom (g_own g) \<and>
        (\<exists>t. tcb_heap s p = Some t \<and> current_tid ki = int (unat (tcb_tid t)) \<and>
             unat (tcb_tid t) < UTHREAD_MAX_THREADS \<and> tcbs s (unat (tcb_tid t)) = p))"

definition ki_ok :: "shared \<Rightarrow> ghosts \<Rightarrow> bool" where
  "ki_ok s G \<longleftrightarrow> ki_wf s \<and>
     (\<forall>i ki. kinfo_at s i = Ok ki \<longrightarrow>
        sched_of ki = g_sched (G i) \<and> -1 \<le> current_tid ki \<and>
        current_tid ki < int UTHREAD_MAX_THREADS \<and> cur_ok s ki (G i)) \<and>
     (\<forall>i. i \<notin> ktids s \<longrightarrow> G i = idle)"

fun valid_ref :: "semid set \<Rightarrow> mutex_ref \<Rightarrow> bool" where
  "valid_ref S (Sem_lock m) \<longleftrightarrow> m \<in> S"
| "valid_ref S _ \<longleftrightarrow> True"

definition lock_ok :: "semid set \<Rightarrow> shared \<Rightarrow> ghosts \<Rightarrow> bool" where
  "lock_ok S s G \<longleftrightarrow>
     (\<forall>r. valid_ref S r \<longrightarrow>
        get_mutex s r = Ok Mutex_free \<and> (\<forall>i. r \<notin> g_locks (G i)) \<or>
        (\<exists>j. get_mutex s r = Ok (Mutex_held j) \<and> (\<forall>i. r \<in> g_locks (G i) \<longleftrightarrow> i = j))) \<and>
     (\<forall>i. \<forall>r \<in> g_locks (G i). valid_ref S r)"

definition rq_ok :: "shared \<Rightarrow> (addr \<Rightarrow> place) \<Rightarrow> ghosts \<Rightarrow> bool" where
  "rq_ok s loc G \<longleftrightarrow>
     (let q = rq_queue (rqueue s); xs = queue_items q in
      queue_ok q \<and> distinct xs \<and> (\<forall>p. p \<in> set xs \<longleftrightarrow> loc p = In_ready) \<and>
      (\<exists>v. rq_not_empty (rqueue s) = Sem_value v \<and>
           length xs = v + (\<Sum>i \<in> ktids s. g_credit (G i))))"

definition sem_ok :: "semid set \<Rightarrow> shared \<Rightarrow> (addr \<Rightarrow> place) \<Rightarrow> ghosts \<Rightarrow> bool" where
  "sem_ok S s loc G \<longleftrightarrow>
     (\<forall>m \<in> S. \<exists>x. sems s m = Some x \<and> queue_ok (sem_queue x) \<and> distinct (queue_items (sem_queue x)) \<and>
        (\<forall>p. p \<in> set (queue_items (sem_queue x)) \<longleftrightarrow> loc p = In_sem m) \<and> 0 \<le> counter x \<and>
        (\<forall>i c. g_cnt (G i) = Some (m, c) \<longrightarrow> Sem_lock m \<in> g_locks (G i) \<and> counter x = c) \<and>
        (\<forall>i n. g_len (G i) = Some (m, n) \<longrightarrow> Sem_lock m \<in> g_locks (G i) \<and> queue_size (sem_queue x) = n)) \<and>
     (\<forall>p m. loc p = In_sem m \<longrightarrow> m \<in> S)"

text \<open>A control block agrees with its place. Nobody waits to join a thread.\<close>

definition place_ok :: "addr set \<Rightarrow> ghosts \<Rightarrow> addr \<Rightarrow> thread_state \<Rightarrow> place \<Rightarrow> bool" where
  "place_ok D G p st pl \<longleftrightarrow>
     (case pl of
        Nowhere \<Rightarrow> False
      | Owned i \<Rightarrow> \<exists>b. g_own (G i) p = Some (st, b) \<and> (b \<longleftrightarrow> p \<in> D)
      | In_ready \<Rightarrow> st = READY \<and> p \<in> D
      | In_sem m \<Rightarrow> st = WAITING_SEM \<and> p \<in> D
      | Zombie \<Rightarrow> st = FINISHED)"

definition tcb_ok :: "shared \<Rightarrow> addr set \<Rightarrow> (addr \<Rightarrow> place) \<Rightarrow> ghosts \<Rightarrow> bool" where
  "tcb_ok s D loc G \<longleftrightarrow>
     (\<forall>p. tcb_heap s p = None \<longrightarrow> loc p = Nowhere \<and> p \<notin> D) \<and>
     (\<forall>p t. tcb_heap s p = Some t \<longrightarrow>
        p \<noteq> NULL \<and> p \<noteq> exitall \<and> place_ok D G p (state t) (loc p) \<and>
        queue_rep (join_queue t) []) \<and>
     (\<forall>i p. p \<in> dom (g_own (G i)) \<longrightarrow> loc p = Owned i)"

text \<open>The thread identifiers in use, as the bit vector records them.\<close>

definition used_tids :: "shared \<Rightarrow> nat set" where
  "used_tids s = {t. t < UTHREAD_MAX_THREADS \<and> bv_test (bitvec s) t}"

definition tid_ok :: "shared \<Rightarrow> ghosts \<Rightarrow> bool" where
  "tid_ok s G \<longleftrightarrow>
     bv_rep UTHREAD_MAX_THREADS (bitvec s) (used_tids s) \<and>
     (\<forall>t < UTHREAD_MAX_THREADS. tcbs s t \<noteq> NULL \<longrightarrow> t \<in> used_tids s) \<and>
     (\<forall>i t p. g_new (G i) = Some (t, p) \<longrightarrow> t \<in> used_tids s \<and> tcbs s t = p \<and> (p = NULL \<or> p \<in> dom (g_own (G i)))) \<and>
     (\<forall>i j t p q. g_new (G i) = Some (t, p) \<longrightarrow> g_new (G j) = Some (t, q) \<longrightarrow> j = i) \<and>
     (\<forall>i t p. g_made (G i) = Some (t, p) \<longrightarrow> t < UTHREAD_MAX_THREADS \<and> tcbs s t = p \<and> p \<in> dom (g_own (G i))) \<and>
     (\<forall>p tc. tcb_heap s p = Some tc \<longrightarrow>
        (\<exists>i t. g_new (G i) = Some (t, p)) \<or>
        unat (tcb_tid tc) < UTHREAD_MAX_THREADS \<and> tcbs s (unat (tcb_tid tc)) = p)"

text \<open>
  Threads in the course of a \<^verbatim>\<open>uthread_sem_wait\<close> that found the counter at zero: \<open>W p\<close> is the
  semaphore. As long as threads are queued at a semaphore, its counter does not exceed the
  number of threads that were woken for it and have not resumed their wait.
\<close>

definition woken :: "(addr \<Rightarrow> place) \<Rightarrow> (addr \<Rightarrow> semid option) \<Rightarrow> semid \<Rightarrow> addr set" where
  "woken loc W m = {p. W p = Some m \<and> loc p \<noteq> In_sem m}"

definition sem_wake_ok :: "semid \<Rightarrow> uthread_sem_t \<Rightarrow> (addr \<Rightarrow> place) \<Rightarrow> (addr \<Rightarrow> semid option) \<Rightarrow> ghosts \<Rightarrow> bool" where
  "sem_wake_ok m x loc W G \<longleftrightarrow>
     (queue_items (sem_queue x) \<noteq> [] \<longrightarrow>
      counter x \<le> int (card (woken loc W m)) + (if \<exists>i. g_posted (G i) = Some m then 1 else 0))"

definition wake_ok :: "semid set \<Rightarrow> shared \<Rightarrow> (addr \<Rightarrow> place) \<Rightarrow> (addr \<Rightarrow> semid option) \<Rightarrow> ghosts \<Rightarrow> bool" where
  "wake_ok S s loc W G \<longleftrightarrow>
     finite (dom W) \<and>
     (\<forall>p m. W p = Some m \<longrightarrow> loc p = In_sem m \<or> loc p = In_ready \<or> (\<exists>i. loc p = Owned i)) \<and>
     (\<forall>p m. loc p = In_sem m \<longrightarrow> W p = Some m) \<and>
     (\<forall>i p. g_cur (G i) = Some p \<longrightarrow> g_pend (G i) = W p) \<and>
     (\<forall>i t p. g_new (G i) = Some (t, p) \<or> g_made (G i) = Some (t, p) \<longrightarrow> W p = None) \<and>
     (\<forall>i m. g_posted (G i) = Some m \<longrightarrow> Sem_lock m \<in> g_locks (G i)) \<and>
     (\<forall>m \<in> S. \<forall>x. sems s m = Some x \<longrightarrow> sem_wake_ok m x loc W G)"

definition mem_ok :: "shared \<Rightarrow> bool" where
  "mem_ok s \<longleftrightarrow>
     fails s = (\<lambda>_. False) \<and> inited s \<and> exitall < brk s \<and>
     0 \<le> quantum s \<and> quantum s < 1000000000 \<and> (\<exists>v. inited_sem s = Sem_value v) \<and>
     (\<forall>p t. tcb_heap s p = Some t \<longrightarrow> p < brk s \<and> fset (fmdom (nodes (join_queue t))) \<subseteq> {..<brk s}) \<and>
     fset (fmdom (nodes (rq_queue (rqueue s)))) \<subseteq> {..<brk s} \<and>
     (\<forall>m x. sems s m = Some x \<longrightarrow> fset (fmdom (nodes (sem_queue x))) \<subseteq> {..<brk s})"

definition inv ::
  "semid set \<Rightarrow> shared \<Rightarrow> addr set \<Rightarrow> (addr \<Rightarrow> place) \<Rightarrow> (addr \<Rightarrow> semid option) \<Rightarrow> ghosts \<Rightarrow> bool" where
  "inv S s D loc W G \<longleftrightarrow>
     ki_ok s G \<and> lock_ok S s G \<and> rq_ok s loc G \<and> sem_ok S s loc G \<and> tcb_ok s D loc G \<and>
     tid_ok s G \<and> wake_ok S s loc W G \<and> mem_ok s"

lemmas inv_defs = inv_def ki_ok_def cur_ok_def lock_ok_def rq_ok_def sem_ok_def tcb_ok_def
  tid_ok_def wake_ok_def mem_ok_def

section \<open>Kernel thread information\<close>

lemma last_match_absent:
  "k \<notin> kinfo_ktid ` set xs \<Longrightarrow> last_match n xs k found = found"
  by (induction xs arbitrary: n found) auto

lemma last_match_eq:
  "distinct (map kinfo_ktid xs) \<Longrightarrow> j < length xs \<Longrightarrow> kinfo_ktid (xs ! j) = k \<Longrightarrow>
   last_match n xs k found = Some (n + j)"
proof (induction xs arbitrary: n j found)
  case (Cons x xs)
  show ?case
  proof (cases j)
    case 0
    with Cons.prems show ?thesis by (auto simp: last_match_absent image_iff)
  next
    case (Suc j')
    with Cons.prems Cons.IH [of j' "Suc n"] show ?thesis by auto
  qed
qed simp

lemma get_kthread_info_eq:
  assumes "ki_wf s"
  shows "get_kthread_info s k = Ok j \<longleftrightarrow> j < length (kthread_info s) \<and> kinfo_ktid (kthread_info s ! j) = k"
proof (cases "k \<in> ktids s")
  case True
  then obtain n where n: "n < length (kthread_info s)" "kinfo_ktid (kthread_info s ! n) = k"
    by (auto simp: ktids_def in_set_conv_nth)
  with assms have "get_kthread_info s k = Ok n"
    by (simp add: get_kthread_info_def ki_wf_def last_match_eq [OF _ n])
  moreover have "j = n" if "j < length (kthread_info s)" "kinfo_ktid (kthread_info s ! j) = k"
    using that n assms by (auto simp: ki_wf_def distinct_conv_nth)
  ultimately show ?thesis using n by auto
next
  case False
  then have "get_kthread_info s k = Err Assert_fail"
    using assms by (simp add: get_kthread_info_def ki_wf_def ktids_def last_match_absent)
  with False show ?thesis by (auto simp: ktids_def)
qed

lemma kinfo_at_in: "ki_wf s \<Longrightarrow> i \<in> ktids s \<longleftrightarrow> (\<exists>ki. kinfo_at s i = Ok ki)"
  by (auto simp: kinfo_at_def bind_o_Ok_iff get_kthread_info_eq ktids_def)
    (auto simp: in_set_conv_nth)

lemma get_kthread_info_cases:
  "get_kthread_info s k = Err Assert_fail \<or> (\<exists>j. get_kthread_info s k = Ok j)"
  by (auto simp: get_kthread_info_def split: option.splits)

lemma kinfo_at_ktid: "ki_wf s \<Longrightarrow> kinfo_at s i = Ok ki \<Longrightarrow> kinfo_ktid ki = i"
  by (auto simp: kinfo_at_def bind_o_Ok_iff get_kthread_info_eq)

lemma kinfo_update_Ok:
  assumes wf: "ki_wf s" and i: "kinfo_at s i = Ok ki" and f: "\<And>x. kinfo_ktid (f x) = kinfo_ktid x"
  shows "\<exists>s'. kinfo_update f i s = Ok s' \<and> s' = s\<lparr>kthread_info := kthread_info s'\<rparr> \<and>
    ki_wf s' \<and> ktids s' = ktids s \<and> (\<forall>j. kinfo_at s' j = (if j = i then Ok (f ki) else kinfo_at s j))"
proof -
  from i obtain n where n: "get_kthread_info s i = Ok n" "ki = kthread_info s ! n"
    by (auto simp: kinfo_at_def bind_o_Ok_iff)
  from n(1) wf have n': "n < length (kthread_info s)" "kinfo_ktid (kthread_info s ! n) = i"
    by (simp_all add: get_kthread_info_eq)
  let ?s' = "s\<lparr>kthread_info := (kthread_info s)[n := f (kthread_info s ! n)]\<rparr>"
  have map: "map kinfo_ktid (kthread_info ?s') = map kinfo_ktid (kthread_info s)"
    using n'(1) f by (simp add: map_update list_update_same_conv)
  then have wf': "ki_wf ?s'" using wf by (simp add: ki_wf_def)
  have kt: "ktids ?s' = ktids s" unfolding ktids_def using map by (metis list.set_map)
  have get: "get_kthread_info ?s' j = Ok k \<longleftrightarrow> get_kthread_info s j = Ok k" for j k
    unfolding get_kthread_info_eq [OF wf] get_kthread_info_eq [OF wf']
    using map by (metis length_map nth_map)
  have other: "get_kthread_info ?s' j = get_kthread_info s j" for j
    using get [of j] get_kthread_info_cases [of s j] get_kthread_info_cases [of ?s' j] by force
  have "kinfo_at ?s' j = (if j = i then Ok (f ki) else kinfo_at s j)" for j
  proof (cases "j = i")
    case True
    then show ?thesis using n n' by (simp add: kinfo_at_def other)
  next
    case False
    have "k \<noteq> n" if "get_kthread_info s j = Ok k" for k
      using that False n'(2) wf by (auto simp: get_kthread_info_eq)
    with False show ?thesis
      by (cases "get_kthread_info s j") (auto simp: kinfo_at_def other)
  qed
  with n(1) wf' kt show ?thesis by (simp add: kinfo_update_def)
qed

end
