(* ===== verification/Frame.thy ===== *)
theory Frame
  imports Ghost
begin

text \<open>
  Which parts of the invariant depend on which parts of the shared state: rewrite rules that
  remove an update of the state from a part of the invariant that does not read it.
\<close>

section \<open>Parts of the state that parts of the invariant do not depend on\<close>

lemma kinfo_at_frame [simp]:
  "kinfo_at (s\<lparr>ncalls := x1\<rparr>) i = kinfo_at s i"
  "kinfo_at (s\<lparr>sigblocked := x2\<rparr>) i = kinfo_at s i"
  "kinfo_at (s\<lparr>inited_sem := x3\<rparr>) i = kinfo_at s i"
  "kinfo_at (s\<lparr>cmem := x4\<rparr>) i = kinfo_at s i"
  "kinfo_at (s\<lparr>blocks := x5\<rparr>) i = kinfo_at s i"
  "kinfo_at (s\<lparr>brk := x6\<rparr>) i = kinfo_at s i"
  "kinfo_at (s\<lparr>tcb_heap := x7\<rparr>) i = kinfo_at s i"
  "kinfo_at (s\<lparr>tcbs := x8\<rparr>) i = kinfo_at s i"
  "kinfo_at (s\<lparr>bitvec := x9\<rparr>) i = kinfo_at s i"
  "kinfo_at (s\<lparr>sems := x11\<rparr>) i = kinfo_at s i"
  "kinfo_at (s\<lparr>tcbs_lock := x12\<rparr>) i = kinfo_at s i"
  "kinfo_at (s\<lparr>bitvec_lock := x13\<rparr>) i = kinfo_at s i"
  "kinfo_at (s\<lparr>rqueue := x14\<rparr>) i = kinfo_at s i"
  by (simp_all add: kinfo_at_def get_kthread_info_def)

lemma ktids_frame [simp]:
  "ktids (s\<lparr>ncalls := x1\<rparr>) = ktids s"
  "ktids (s\<lparr>sigblocked := x2\<rparr>) = ktids s"
  "ktids (s\<lparr>inited_sem := x3\<rparr>) = ktids s"
  "ktids (s\<lparr>cmem := x4\<rparr>) = ktids s"
  "ktids (s\<lparr>blocks := x5\<rparr>) = ktids s"
  "ktids (s\<lparr>brk := x6\<rparr>) = ktids s"
  "ktids (s\<lparr>tcb_heap := x7\<rparr>) = ktids s"
  "ktids (s\<lparr>tcbs := x8\<rparr>) = ktids s"
  "ktids (s\<lparr>bitvec := x9\<rparr>) = ktids s"
  "ktids (s\<lparr>sems := x11\<rparr>) = ktids s"
  "ktids (s\<lparr>tcbs_lock := x12\<rparr>) = ktids s"
  "ktids (s\<lparr>bitvec_lock := x13\<rparr>) = ktids s"
  "ktids (s\<lparr>rqueue := x14\<rparr>) = ktids s"
  by (simp_all add: ktids_def)

lemma ki_wf_frame [simp]:
  "ki_wf (s\<lparr>ncalls := x1\<rparr>) = ki_wf s"
  "ki_wf (s\<lparr>sigblocked := x2\<rparr>) = ki_wf s"
  "ki_wf (s\<lparr>inited_sem := x3\<rparr>) = ki_wf s"
  "ki_wf (s\<lparr>cmem := x4\<rparr>) = ki_wf s"
  "ki_wf (s\<lparr>blocks := x5\<rparr>) = ki_wf s"
  "ki_wf (s\<lparr>brk := x6\<rparr>) = ki_wf s"
  "ki_wf (s\<lparr>tcb_heap := x7\<rparr>) = ki_wf s"
  "ki_wf (s\<lparr>tcbs := x8\<rparr>) = ki_wf s"
  "ki_wf (s\<lparr>bitvec := x9\<rparr>) = ki_wf s"
  "ki_wf (s\<lparr>sems := x11\<rparr>) = ki_wf s"
  "ki_wf (s\<lparr>tcbs_lock := x12\<rparr>) = ki_wf s"
  "ki_wf (s\<lparr>bitvec_lock := x13\<rparr>) = ki_wf s"
  "ki_wf (s\<lparr>rqueue := x14\<rparr>) = ki_wf s"
  by (simp_all add: ki_wf_def)

lemma get_mutex_frame [simp]:
  "get_mutex (s\<lparr>ncalls := x1\<rparr>) r = get_mutex s r"
  "get_mutex (s\<lparr>sigblocked := x2\<rparr>) r = get_mutex s r"
  "get_mutex (s\<lparr>inited_sem := x3\<rparr>) r = get_mutex s r"
  "get_mutex (s\<lparr>cmem := x4\<rparr>) r = get_mutex s r"
  "get_mutex (s\<lparr>blocks := x5\<rparr>) r = get_mutex s r"
  "get_mutex (s\<lparr>brk := x6\<rparr>) r = get_mutex s r"
  "get_mutex (s\<lparr>tcb_heap := x7\<rparr>) r = get_mutex s r"
  "get_mutex (s\<lparr>tcbs := x8\<rparr>) r = get_mutex s r"
  "get_mutex (s\<lparr>bitvec := x9\<rparr>) r = get_mutex s r"
  "get_mutex (s\<lparr>kthread_info := x10\<rparr>) r = get_mutex s r"
  "rq_lock x14 = rq_lock (rqueue s) \<Longrightarrow> get_mutex (s\<lparr>rqueue := x14\<rparr>) r = get_mutex s r"
  by (cases r; simp)+

lemma ki_ok_frame [simp]:
  "ki_ok (s\<lparr>ncalls := x1\<rparr>) G = ki_ok s G"
  "ki_ok (s\<lparr>sigblocked := x2\<rparr>) G = ki_ok s G"
  "ki_ok (s\<lparr>inited_sem := x3\<rparr>) G = ki_ok s G"
  "ki_ok (s\<lparr>cmem := x4\<rparr>) G = ki_ok s G"
  "ki_ok (s\<lparr>blocks := x5\<rparr>) G = ki_ok s G"
  "ki_ok (s\<lparr>brk := x6\<rparr>) G = ki_ok s G"
  "ki_ok (s\<lparr>bitvec := x9\<rparr>) G = ki_ok s G"
  "ki_ok (s\<lparr>sems := x11\<rparr>) G = ki_ok s G"
  "ki_ok (s\<lparr>tcbs_lock := x12\<rparr>) G = ki_ok s G"
  "ki_ok (s\<lparr>bitvec_lock := x13\<rparr>) G = ki_ok s G"
  "ki_ok (s\<lparr>rqueue := x14\<rparr>) G = ki_ok s G"
  by (simp_all add: ki_ok_def cur_ok_def)

lemma lock_ok_frame [simp]:
  "lock_ok S (s\<lparr>ncalls := x1\<rparr>) G = lock_ok S s G"
  "lock_ok S (s\<lparr>sigblocked := x2\<rparr>) G = lock_ok S s G"
  "lock_ok S (s\<lparr>inited_sem := x3\<rparr>) G = lock_ok S s G"
  "lock_ok S (s\<lparr>cmem := x4\<rparr>) G = lock_ok S s G"
  "lock_ok S (s\<lparr>blocks := x5\<rparr>) G = lock_ok S s G"
  "lock_ok S (s\<lparr>brk := x6\<rparr>) G = lock_ok S s G"
  "lock_ok S (s\<lparr>tcb_heap := x7\<rparr>) G = lock_ok S s G"
  "lock_ok S (s\<lparr>tcbs := x8\<rparr>) G = lock_ok S s G"
  "lock_ok S (s\<lparr>bitvec := x9\<rparr>) G = lock_ok S s G"
  "lock_ok S (s\<lparr>kthread_info := x10\<rparr>) G = lock_ok S s G"
  "rq_lock x14 = rq_lock (rqueue s) \<Longrightarrow> lock_ok S (s\<lparr>rqueue := x14\<rparr>) G = lock_ok S s G"
  by (simp_all add: lock_ok_def)

lemma rq_ok_frame [simp]:
  "rq_ok (s\<lparr>ncalls := x1\<rparr>) loc G = rq_ok s loc G"
  "rq_ok (s\<lparr>sigblocked := x2\<rparr>) loc G = rq_ok s loc G"
  "rq_ok (s\<lparr>inited_sem := x3\<rparr>) loc G = rq_ok s loc G"
  "rq_ok (s\<lparr>cmem := x4\<rparr>) loc G = rq_ok s loc G"
  "rq_ok (s\<lparr>blocks := x5\<rparr>) loc G = rq_ok s loc G"
  "rq_ok (s\<lparr>brk := x6\<rparr>) loc G = rq_ok s loc G"
  "rq_ok (s\<lparr>tcb_heap := x7\<rparr>) loc G = rq_ok s loc G"
  "rq_ok (s\<lparr>tcbs := x8\<rparr>) loc G = rq_ok s loc G"
  "rq_ok (s\<lparr>bitvec := x9\<rparr>) loc G = rq_ok s loc G"
  "rq_ok (s\<lparr>sems := x11\<rparr>) loc G = rq_ok s loc G"
  "rq_ok (s\<lparr>tcbs_lock := x12\<rparr>) loc G = rq_ok s loc G"
  "rq_ok (s\<lparr>bitvec_lock := x13\<rparr>) loc G = rq_ok s loc G"
  "rq_queue x14 = rq_queue (rqueue s) \<Longrightarrow> rq_not_empty x14 = rq_not_empty (rqueue s) \<Longrightarrow> rq_ok (s\<lparr>rqueue := x14\<rparr>) loc G = rq_ok s loc G"
  by (simp_all add: rq_ok_def)

lemma sem_ok_frame [simp]:
  "sem_ok S (s\<lparr>ncalls := x1\<rparr>) loc G = sem_ok S s loc G"
  "sem_ok S (s\<lparr>sigblocked := x2\<rparr>) loc G = sem_ok S s loc G"
  "sem_ok S (s\<lparr>inited_sem := x3\<rparr>) loc G = sem_ok S s loc G"
  "sem_ok S (s\<lparr>cmem := x4\<rparr>) loc G = sem_ok S s loc G"
  "sem_ok S (s\<lparr>blocks := x5\<rparr>) loc G = sem_ok S s loc G"
  "sem_ok S (s\<lparr>brk := x6\<rparr>) loc G = sem_ok S s loc G"
  "sem_ok S (s\<lparr>tcb_heap := x7\<rparr>) loc G = sem_ok S s loc G"
  "sem_ok S (s\<lparr>tcbs := x8\<rparr>) loc G = sem_ok S s loc G"
  "sem_ok S (s\<lparr>bitvec := x9\<rparr>) loc G = sem_ok S s loc G"
  "sem_ok S (s\<lparr>kthread_info := x10\<rparr>) loc G = sem_ok S s loc G"
  "sem_ok S (s\<lparr>tcbs_lock := x12\<rparr>) loc G = sem_ok S s loc G"
  "sem_ok S (s\<lparr>bitvec_lock := x13\<rparr>) loc G = sem_ok S s loc G"
  "sem_ok S (s\<lparr>rqueue := x14\<rparr>) loc G = sem_ok S s loc G"
  by (simp_all add: sem_ok_def)

lemma tcb_ok_frame [simp]:
  "tcb_ok (s\<lparr>ncalls := x1\<rparr>) D loc G = tcb_ok s D loc G"
  "tcb_ok (s\<lparr>sigblocked := x2\<rparr>) D loc G = tcb_ok s D loc G"
  "tcb_ok (s\<lparr>inited_sem := x3\<rparr>) D loc G = tcb_ok s D loc G"
  "tcb_ok (s\<lparr>cmem := x4\<rparr>) D loc G = tcb_ok s D loc G"
  "tcb_ok (s\<lparr>blocks := x5\<rparr>) D loc G = tcb_ok s D loc G"
  "tcb_ok (s\<lparr>brk := x6\<rparr>) D loc G = tcb_ok s D loc G"
  "tcb_ok (s\<lparr>tcbs := x8\<rparr>) D loc G = tcb_ok s D loc G"
  "tcb_ok (s\<lparr>bitvec := x9\<rparr>) D loc G = tcb_ok s D loc G"
  "tcb_ok (s\<lparr>kthread_info := x10\<rparr>) D loc G = tcb_ok s D loc G"
  "tcb_ok (s\<lparr>sems := x11\<rparr>) D loc G = tcb_ok s D loc G"
  "tcb_ok (s\<lparr>tcbs_lock := x12\<rparr>) D loc G = tcb_ok s D loc G"
  "tcb_ok (s\<lparr>bitvec_lock := x13\<rparr>) D loc G = tcb_ok s D loc G"
  "tcb_ok (s\<lparr>rqueue := x14\<rparr>) D loc G = tcb_ok s D loc G"
  by (simp_all add: tcb_ok_def)

lemma used_tids_frame [simp]:
  "used_tids (s\<lparr>ncalls := x1\<rparr>) = used_tids s"
  "used_tids (s\<lparr>sigblocked := x2\<rparr>) = used_tids s"
  "used_tids (s\<lparr>inited_sem := x3\<rparr>) = used_tids s"
  "used_tids (s\<lparr>cmem := x4\<rparr>) = used_tids s"
  "used_tids (s\<lparr>blocks := x5\<rparr>) = used_tids s"
  "used_tids (s\<lparr>brk := x6\<rparr>) = used_tids s"
  "used_tids (s\<lparr>tcb_heap := x7\<rparr>) = used_tids s"
  "used_tids (s\<lparr>tcbs := x8\<rparr>) = used_tids s"
  "used_tids (s\<lparr>kthread_info := x10\<rparr>) = used_tids s"
  "used_tids (s\<lparr>sems := x11\<rparr>) = used_tids s"
  "used_tids (s\<lparr>tcbs_lock := x12\<rparr>) = used_tids s"
  "used_tids (s\<lparr>bitvec_lock := x13\<rparr>) = used_tids s"
  "used_tids (s\<lparr>rqueue := x14\<rparr>) = used_tids s"
  by (simp_all add: used_tids_def)

lemma tid_ok_frame [simp]:
  "tid_ok (s\<lparr>ncalls := x1\<rparr>) G = tid_ok s G"
  "tid_ok (s\<lparr>sigblocked := x2\<rparr>) G = tid_ok s G"
  "tid_ok (s\<lparr>inited_sem := x3\<rparr>) G = tid_ok s G"
  "tid_ok (s\<lparr>cmem := x4\<rparr>) G = tid_ok s G"
  "tid_ok (s\<lparr>blocks := x5\<rparr>) G = tid_ok s G"
  "tid_ok (s\<lparr>brk := x6\<rparr>) G = tid_ok s G"
  "tid_ok (s\<lparr>kthread_info := x10\<rparr>) G = tid_ok s G"
  "tid_ok (s\<lparr>sems := x11\<rparr>) G = tid_ok s G"
  "tid_ok (s\<lparr>tcbs_lock := x12\<rparr>) G = tid_ok s G"
  "tid_ok (s\<lparr>bitvec_lock := x13\<rparr>) G = tid_ok s G"
  "tid_ok (s\<lparr>rqueue := x14\<rparr>) G = tid_ok s G"
  by (simp_all add: tid_ok_def)

lemma wake_ok_frame [simp]:
  "wake_ok S (s\<lparr>ncalls := x1\<rparr>) loc W G = wake_ok S s loc W G"
  "wake_ok S (s\<lparr>sigblocked := x2\<rparr>) loc W G = wake_ok S s loc W G"
  "wake_ok S (s\<lparr>inited_sem := x3\<rparr>) loc W G = wake_ok S s loc W G"
  "wake_ok S (s\<lparr>cmem := x4\<rparr>) loc W G = wake_ok S s loc W G"
  "wake_ok S (s\<lparr>blocks := x5\<rparr>) loc W G = wake_ok S s loc W G"
  "wake_ok S (s\<lparr>brk := x6\<rparr>) loc W G = wake_ok S s loc W G"
  "wake_ok S (s\<lparr>tcb_heap := x7\<rparr>) loc W G = wake_ok S s loc W G"
  "wake_ok S (s\<lparr>tcbs := x8\<rparr>) loc W G = wake_ok S s loc W G"
  "wake_ok S (s\<lparr>bitvec := x9\<rparr>) loc W G = wake_ok S s loc W G"
  "wake_ok S (s\<lparr>kthread_info := x10\<rparr>) loc W G = wake_ok S s loc W G"
  "wake_ok S (s\<lparr>tcbs_lock := x12\<rparr>) loc W G = wake_ok S s loc W G"
  "wake_ok S (s\<lparr>bitvec_lock := x13\<rparr>) loc W G = wake_ok S s loc W G"
  "wake_ok S (s\<lparr>rqueue := x14\<rparr>) loc W G = wake_ok S s loc W G"
  by (simp_all add: wake_ok_def)

lemma mem_ok_frame [simp]:
  "mem_ok (s\<lparr>ncalls := x1\<rparr>) = mem_ok s"
  "mem_ok (s\<lparr>sigblocked := x2\<rparr>) = mem_ok s"
  "mem_ok (s\<lparr>cmem := x4\<rparr>) = mem_ok s"
  "mem_ok (s\<lparr>blocks := x5\<rparr>) = mem_ok s"
  "mem_ok (s\<lparr>tcbs := x8\<rparr>) = mem_ok s"
  "mem_ok (s\<lparr>bitvec := x9\<rparr>) = mem_ok s"
  "mem_ok (s\<lparr>kthread_info := x10\<rparr>) = mem_ok s"
  "mem_ok (s\<lparr>tcbs_lock := x12\<rparr>) = mem_ok s"
  "mem_ok (s\<lparr>bitvec_lock := x13\<rparr>) = mem_ok s"
  "rq_queue x14 = rq_queue (rqueue s) \<Longrightarrow> mem_ok (s\<lparr>rqueue := x14\<rparr>) = mem_ok s"
  by (simp_all add: mem_ok_def)

end
