(* ===== verification/Rules.thy ===== *)
theory Rules
  imports Frame
begin

text \<open>
  How the parts of the invariant react to a change of the ghost state of one kernel thread, and
  what the invariant says about the kernel thread entries, the owned control blocks, the ready
  queue and the semaphores. In particular every queue holds at most \<open>UTHREAD_MAX_THREADS\<close> threads.
\<close>

section \<open>Changing the ghost state of one kernel thread\<close>

lemma sum_credit_upd:
  assumes "i \<in> ktids s"
  shows "(\<Sum>j \<in> ktids s. g_credit ((G(i := g)) j)) + g_credit (G i) =
    (\<Sum>j \<in> ktids s. g_credit (G j)) + g_credit g"
proof -
  have fin: "finite (ktids s)" by (simp add: ktids_def)
  have "(\<Sum>j \<in> ktids s - {i}. g_credit ((G(i := g)) j)) = (\<Sum>j \<in> ktids s - {i}. g_credit (G j))"
    by (rule sum.cong) auto
  then show ?thesis
    using sum.remove [OF fin assms, of "\<lambda>j. g_credit ((G(i := g)) j)"]
      sum.remove [OF fin assms, of "\<lambda>j. g_credit (G j)"] by simp
qed

lemma sum_credit_ge:
  assumes "i \<in> ktids s"
  shows "g_credit (G i) \<le> (\<Sum>j \<in> ktids s. g_credit (G j))"
  using assms by (intro member_le_sum) (auto simp: ktids_def)

lemma cur_ok_ghost:
  "cur_ok s ki g \<Longrightarrow> g_cur g' = None \<or> g_cur g' = g_cur g \<and> (\<forall>p. g_cur g = Some p \<longrightarrow> p \<in> dom (g_own g')) \<Longrightarrow>
   cur_ok s ki g'"
  unfolding cur_ok_def by (metis option.distinct(1))

lemma ki_ok_ghost:
  assumes "ki_ok s G" "i \<in> ktids s" "g_sched g = g_sched (G i)"
    "g_cur g = None \<or> g_cur g = g_cur (G i) \<and> (\<forall>p. g_cur (G i) = Some p \<longrightarrow> p \<in> dom (g_own (G i)) \<longrightarrow> p \<in> dom (g_own g))"
  shows "ki_ok s (G(i := g))"
proof -
  have "cur_ok s ki g" if "cur_ok s ki (G i)" for ki
    using that cur_ok_ghost [OF that, of g] assms(4) unfolding cur_ok_def by metis
  with assms(1-3) show ?thesis by (auto simp: ki_ok_def)
qed

lemma rq_ok_ghost:
  "g_credit g = g_credit (G i) \<Longrightarrow> rq_ok s loc (G(i := g)) = rq_ok s loc G"
proof -
  assume "g_credit g = g_credit (G i)"
  then have eq: "\<And>j. g_credit ((G(i := g)) j) = g_credit (G j)" by auto
  show ?thesis unfolding rq_ok_def eq ..
qed

lemma sem_ok_ghost:
  "sem_ok S s loc G \<Longrightarrow>
   g_cnt g = None \<or> g_cnt g = g_cnt (G i) \<and> g_locks (G i) \<subseteq> g_locks g \<Longrightarrow>
   g_len g = None \<or> g_len g = g_len (G i) \<and> g_locks (G i) \<subseteq> g_locks g \<Longrightarrow>
   sem_ok S s loc (G(i := g))"
  unfolding sem_ok_def by (intro conjI ballI; (elim conjE)?; fastforce)

lemma tcb_ok_ghost:
  "g_own g = g_own (G i) \<Longrightarrow> tcb_ok s D loc (G(i := g)) = tcb_ok s D loc G"
proof -
  assume "g_own g = g_own (G i)"
  then have eq: "\<And>j. g_own ((G(i := g)) j) = g_own (G j)" by auto
  show ?thesis unfolding tcb_ok_def place_ok_def eq ..
qed

lemma tid_okD:
  assumes "tid_ok s G"
  shows tid_ok_rep: "bv_rep UTHREAD_MAX_THREADS (bitvec s) (used_tids s)"
    and tid_ok_used: "t < UTHREAD_MAX_THREADS \<Longrightarrow> tcbs s t \<noteq> NULL \<Longrightarrow> t \<in> used_tids s"
    and tid_ok_new: "g_new (G i) = Some (t, p) \<Longrightarrow>
      t \<in> used_tids s \<and> tcbs s t = p \<and> (p = NULL \<or> p \<in> dom (g_own (G i)))"
    and tid_ok_unique: "g_new (G i) = Some (t, p) \<Longrightarrow> g_new (G j) = Some (t, q) \<Longrightarrow> j = i"
    and tid_ok_made: "g_made (G i) = Some (t, p) \<Longrightarrow>
      t < UTHREAD_MAX_THREADS \<and> tcbs s t = p \<and> p \<in> dom (g_own (G i))"
    and tid_ok_heap: "tcb_heap s p = Some tc \<Longrightarrow>
      (\<exists>i t. g_new (G i) = Some (t, p)) \<or> unat (tcb_tid tc) < UTHREAD_MAX_THREADS \<and> tcbs s (unat (tcb_tid tc)) = p"
  using assms unfolding tid_ok_def by (elim conjE; blast)+

lemma tid_ok_own:
  assumes tid: "tid_ok s G" and new: "g_new g = g_new (G i)"
    and made: "g_made g = None \<or> g_made g = g_made (G i)"
    and own: "\<And>t p. g_new g = Some (t, p) \<Longrightarrow> p = NULL \<or> p \<in> dom (g_own g)"
      "\<And>t p. g_made g = Some (t, p) \<Longrightarrow> p \<in> dom (g_own g)"
  shows "tid_ok s (G(i := g))"
proof -
  note t = tid_okD [OF tid]
  have eq: "g_new ((G(i := g)) j) = g_new (G j)" for j using new by simp
  have 1: "n \<in> used_tids s \<and> tcbs s n = p \<and> (p = NULL \<or> p \<in> dom (g_own ((G(i := g)) j)))"
    if "g_new (G j) = Some (n, p)" for j n p
    using t(3) [OF that] own(1) [of n p] that new by (cases "j = i") auto
  have 2: "n < UTHREAD_MAX_THREADS \<and> tcbs s n = p \<and> p \<in> dom (g_own ((G(i := g)) j))"
    if "g_made ((G(i := g)) j) = Some (n, p)" for j n p
    using that made own(2) [of n p] t(5) [of j n p] by (cases "j = i") auto
  show ?thesis unfolding tid_ok_def eq
    using t(1,2,4,6) 1 2 by (intro conjI; blast)
qed

lemma tid_ok_ghost:
  "tid_ok s G \<Longrightarrow> g_new g = g_new (G i) \<Longrightarrow> g_made g = g_made (G i) \<Longrightarrow> dom (g_own g) = dom (g_own (G i)) \<Longrightarrow>
   tid_ok s (G(i := g))"
  by (rule tid_ok_own) (auto dest: tid_ok_new [of s G i, OF _ sym] tid_ok_made [of s G i, OF _ sym])

lemma lock_ok_ghost:
  "g_locks g = g_locks (G i) \<Longrightarrow> lock_ok S s (G(i := g)) = lock_ok S s G"
proof -
  assume "g_locks g = g_locks (G i)"
  then have eq: "\<And>j. g_locks ((G(i := g)) j) = g_locks (G j)" by auto
  show ?thesis unfolding lock_ok_def eq ..
qed

lemma sem_wake_ok_ghost:
  "g_posted g = g_posted (G i) \<Longrightarrow> sem_wake_ok m x loc W (G(i := g)) = sem_wake_ok m x loc W G"
proof -
  assume "g_posted g = g_posted (G i)"
  then have eq: "\<And>j. g_posted ((G(i := g)) j) = g_posted (G j)" by auto
  show ?thesis unfolding sem_wake_ok_def eq ..
qed

lemma wake_okD:
  assumes "wake_ok S s loc W G"
  shows wake_ok_finite: "finite (dom W)"
    and wake_ok_place: "W p = Some m \<Longrightarrow> loc p = In_sem m \<or> loc p = In_ready \<or> (\<exists>i. loc p = Owned i)"
    and wake_ok_queued: "loc p = In_sem m \<Longrightarrow> W p = Some m"
    and wake_ok_cur: "g_cur (G i) = Some p \<Longrightarrow> g_pend (G i) = W p"
    and wake_ok_new: "g_new (G i) = Some (t, p) \<or> g_made (G i) = Some (t, p) \<Longrightarrow> W p = None"
    and wake_ok_posted: "g_posted (G i) = Some m \<Longrightarrow> Sem_lock m \<in> g_locks (G i)"
    and wake_ok_sem: "m \<in> S \<Longrightarrow> sems s m = Some x \<Longrightarrow> sem_wake_ok m x loc W G"
  using assms unfolding wake_ok_def by (elim conjE; blast)+

lemma wake_ok_ghost:
  assumes "wake_ok S s loc W G" and posted: "g_posted g = g_posted (G i)"
    and cur: "g_cur g = None \<or> g_cur g = g_cur (G i) \<and> g_pend g = g_pend (G i)"
    and new: "g_new g = None \<or> g_new g = g_new (G i)" "g_made g = None \<or> g_made g = g_made (G i)"
    and locks: "g_posted g = None \<or> g_locks (G i) \<subseteq> g_locks g"
  shows "wake_ok S s loc W (G(i := g))"
proof -
  note w = wake_okD [OF assms(1)]
  have "g_pend ((G(i := g)) j) = W p" if "g_cur ((G(i := g)) j) = Some p" for j p
    using that cur w(4) [of j p] by (cases "j = i") auto
  moreover have "W p = None" if "g_new ((G(i := g)) j) = Some (t, p) \<or> g_made ((G(i := g)) j) = Some (t, p)" for j t p
    using that new w(5) [of j t p] by (cases "j = i") auto
  moreover have "Sem_lock m \<in> g_locks ((G(i := g)) j)" if "g_posted ((G(i := g)) j) = Some m" for j m
    using that locks posted w(6) [of j m] by (cases "j = i") auto
  ultimately show ?thesis
    unfolding wake_ok_def sem_wake_ok_ghost [where G = G and i = i and g = g, OF posted]
    using w(1-3,7) by blast
qed

lemmas ghost_frame = rq_ok_ghost tcb_ok_ghost lock_ok_ghost tid_ok_ghost

section \<open>Consequences of the invariant\<close>

lemma inv_kinfo:
  assumes "inv S s D loc W G" "i \<in> ktids s"
  obtains ki where "kinfo_at s i = Ok ki" "sched_of ki = g_sched (G i)" "-1 \<le> current_tid ki"
    "current_tid ki < int UTHREAD_MAX_THREADS" "cur_ok s ki (G i)" "kinfo_ktid ki = i"
  using assms kinfo_at_in [of s i] kinfo_at_ktid [of s i] by (auto simp: inv_def ki_ok_def)

lemma tcb_okD:
  assumes "tcb_ok s D loc G"
  shows tcb_ok_None: "tcb_heap s p = None \<Longrightarrow> loc p = Nowhere"
    and tcb_ok_None_ctx: "tcb_heap s p = None \<Longrightarrow> p \<notin> D"
    and tcb_ok_Some: "tcb_heap s p = Some t \<Longrightarrow>
      p \<noteq> NULL \<and> p \<noteq> exitall \<and> place_ok D G p (state t) (loc p) \<and> queue_rep (join_queue t) []"
    and tcb_ok_own: "g_own (G i) p = Some x \<Longrightarrow> loc p = Owned i"
  using assms unfolding tcb_ok_def by blast+

lemma inv_owned:
  assumes "inv S s D loc W G" "g_own (G i) p = Some (st, b)"
  obtains t where "tcb_heap s p = Some t" "state t = st" "loc p = Owned i" "p \<noteq> NULL" "p \<noteq> exitall"
    "b \<longleftrightarrow> p \<in> D" "queue_rep (join_queue t) []"
proof -
  from assms(1) have ok: "tcb_ok s D loc G" by (simp add: inv_def)
  from tcb_ok_own [OF ok assms(2)] have loc: "loc p = Owned i" .
  with tcb_ok_None [OF ok, of p] obtain t where t: "tcb_heap s p = Some t"
    by (cases "tcb_heap s p") auto
  from tcb_ok_Some [OF ok t] loc assms(2) t show thesis
    by (intro that [of t]) (auto simp: place_ok_def)
qed

lemma tcb_at_owned:
  assumes "inv S s D loc W G" "g_own (G i) p = Some (st, b)"
  shows "\<exists>t. tcb_at s p = Ok t \<and> tcb_heap s p = Some t \<and> state t = st"
  using assms by (auto simp: tcb_at_def elim!: inv_owned)

text \<open>Every thread in a queue has its own identifier, so queues stay far below their limits.\<close>

lemma placed_in_table:
  assumes "inv S s D loc W G" "loc p \<noteq> Nowhere" "\<And>i. loc p \<noteq> Owned i"
  shows "p \<in> tcbs s ` {..<UTHREAD_MAX_THREADS}"
proof -
  from assms(1) have ok: "tcb_ok s D loc G" and tid: "tid_ok s G" by (simp_all add: inv_def)
  from tcb_ok_None [OF ok, of p] assms(2) obtain t where t: "tcb_heap s p = Some t"
    by (cases "tcb_heap s p") auto
  then have "p \<noteq> NULL" using tcb_ok_Some [OF ok] by blast
  have "g_new (G i) \<noteq> Some (n, p)" for i n
  proof
    assume "g_new (G i) = Some (n, p)"
    with tid_ok_new [OF tid this] \<open>p \<noteq> NULL\<close> have "p \<in> dom (g_own (G i))" by blast
    with tcb_ok_own [OF ok] assms(3) show False by blast
  qed
  with tid_ok_heap [OF tid t] show ?thesis by blast
qed

lemma card_placed_le:
  assumes "inv S s D loc W G" "distinct xs" "\<And>p. p \<in> set xs \<Longrightarrow> loc p \<noteq> Nowhere \<and> (\<forall>i. loc p \<noteq> Owned i)"
  shows "length xs \<le> UTHREAD_MAX_THREADS"
proof -
  have "set xs \<subseteq> tcbs s ` {..<UTHREAD_MAX_THREADS}"
    using assms(3) placed_in_table [OF assms(1)] by blast
  then have "card (set xs) \<le> card {..<UTHREAD_MAX_THREADS}"
    using surj_card_le [of "{..<UTHREAD_MAX_THREADS}" "set xs"] by blast
  with assms(2) show ?thesis by (simp add: distinct_card)
qed

lemma inv_rq:
  assumes "inv S s D loc W G"
  obtains v where "queue_rep (rq_queue (rqueue s)) (queue_items (rq_queue (rqueue s)))"
    "distinct (queue_items (rq_queue (rqueue s)))"
    "\<And>p. p \<in> set (queue_items (rq_queue (rqueue s))) \<longleftrightarrow> loc p = In_ready"
    "rq_not_empty (rqueue s) = Sem_value v"
    "length (queue_items (rq_queue (rqueue s))) = v + (\<Sum>i \<in> ktids s. g_credit (G i))"
    "length (queue_items (rq_queue (rqueue s))) \<le> UTHREAD_MAX_THREADS"
  using assms card_placed_le [OF assms, of "queue_items (rq_queue (rqueue s))"]
  by (auto simp: inv_def rq_ok_def Let_def queue_ok_def)

lemma inv_sem:
  assumes "inv S s D loc W G" "m \<in> S"
  obtains x where "sems s m = Some x" "queue_rep (sem_queue x) (queue_items (sem_queue x))"
    "distinct (queue_items (sem_queue x))"
    "\<And>p. p \<in> set (queue_items (sem_queue x)) \<longleftrightarrow> loc p = In_sem m" "0 \<le> counter x"
    "\<And>i c. g_cnt (G i) = Some (m, c) \<Longrightarrow> Sem_lock m \<in> g_locks (G i) \<and> counter x = c"
    "\<And>i n. g_len (G i) = Some (m, n) \<Longrightarrow> Sem_lock m \<in> g_locks (G i) \<and> queue_size (sem_queue x) = n"
    "sem_wake_ok m x loc W G"
    "length (queue_items (sem_queue x)) \<le> UTHREAD_MAX_THREADS"
proof -
  from assms(1) have "sem_ok S s loc G" "wake_ok S s loc W G" by (auto simp: inv_def)
  then obtain x where x: "sems s m = Some x" "queue_ok (sem_queue x)" "distinct (queue_items (sem_queue x))"
    "\<And>p. p \<in> set (queue_items (sem_queue x)) \<longleftrightarrow> loc p = In_sem m" "0 \<le> counter x"
    "\<And>i c. g_cnt (G i) = Some (m, c) \<Longrightarrow> Sem_lock m \<in> g_locks (G i) \<and> counter x = c"
    "\<And>i n. g_len (G i) = Some (m, n) \<Longrightarrow> Sem_lock m \<in> g_locks (G i) \<and> queue_size (sem_queue x) = n"
    "sem_wake_ok m x loc W G"
    using assms(2) unfolding sem_ok_def wake_ok_def by (elim conjE ballE [of _ _ m] exE) blast+
  moreover have "length (queue_items (sem_queue x)) \<le> UTHREAD_MAX_THREADS"
    using card_placed_le [OF assms(1) x(3)] x(4) by auto
  ultimately show thesis using that [of x] by (simp add: queue_ok_def)
qed

end
