(* ===== verification/Safe.thy ===== *)
theory Safe
  imports Rules
begin

text \<open>
  A proof system for code: \<open>ok S g c\<close> says that a kernel thread with ghost state \<open>g\<close> can
  execute \<open>c\<close>, whatever the other kernel threads do in between, without any error but an
  overflow of a semaphore counter, and that it waits for mutexes only in a fixed order.
\<close>

section \<open>Proof obligations of an atom\<close>

definition tid_free :: "shared \<Rightarrow> bool" where
  "tid_free s \<longleftrightarrow> used_tids s \<noteq> {..<UTHREAD_MAX_THREADS}"

text \<open>The order in which locks are taken.\<close>

fun lock_rank :: "mutex_ref \<Rightarrow> nat" where
  "lock_rank (Sem_lock m) = 0"
| "lock_rank Bitvec_lock = 0"
| "lock_rank Tcbs_lock = 1"
| "lock_rank Rqueue_lock = 2"

text \<open>
  A kernel thread waits only for a mutex that comes after all the mutexes it holds, or,
  holding nothing, for the ready queue to become non-empty or for the library to be initialised.
\<close>

definition blocked_ok :: "semid set \<Rightarrow> shared \<Rightarrow> ghost \<Rightarrow> bool" where
  "blocked_ok S s g \<longleftrightarrow>
     (\<exists>r j. valid_ref S r \<and> get_mutex s r = Ok (Mutex_held j) \<and>
        (\<forall>r' \<in> g_locks g. lock_rank r' < lock_rank r)) \<or>
     g = idle \<and> rq_not_empty (rqueue s) = Sem_value 0 \<or>
     g = booting \<and> inited_sem s = Sem_value 0"

text \<open>
  What the outcome of an atom of kernel thread \<open>i\<close> must satisfy: the only error is an
  overflowing semaphore counter, and after a step the invariant holds for a new ghost
  state of \<open>i\<close> that satisfies \<open>Q\<close>, with what threads with a saved context wait for unchanged.
\<close>

definition outcome_ok :: "semid set \<Rightarrow> shared \<Rightarrow> addr set \<Rightarrow> (addr \<Rightarrow> semid option) \<Rightarrow> ghosts \<Rightarrow> ktid \<Rightarrow>
    ('a \<Rightarrow> ghost \<Rightarrow> bool) \<Rightarrow> ('a \<times> shared) outcome \<Rightarrow> bool" where
  "outcome_ok S s D W G i Q x \<longleftrightarrow>
     (case x of
        Err e \<Rightarrow> e = Signed_overflow
      | Block \<Rightarrow> blocked_ok S s (G i)
      | Ok (v, s') \<Rightarrow> ktids s' = ktids s \<and>
          (\<exists>loc' W' g'. inv S s' D loc' W' (G(i := g')) \<and>
             (\<forall>p \<in> D. W' p = W p) \<and> (g_boot g' \<longrightarrow> g_boot (G i)) \<and> Q v g'))"

definition atom_ok ::
  "semid set \<Rightarrow> ghost \<Rightarrow> (ktid \<Rightarrow> shared \<Rightarrow> ('a \<times> shared) outcome) \<Rightarrow> ('a \<Rightarrow> ghost \<Rightarrow> bool) \<Rightarrow> bool" where
  "atom_ok S g f Q \<longleftrightarrow>
     (\<forall>i s D loc W G. inv S s D loc W G \<longrightarrow> i \<in> ktids s \<longrightarrow> G i = g \<longrightarrow> tid_free s \<longrightarrow>
        outcome_ok S s D W G i Q (f i s))"

lemma atom_okI:
  "(\<And>i s D loc W G. inv S s D loc W G \<Longrightarrow> i \<in> ktids s \<Longrightarrow> G i = g \<Longrightarrow> tid_free s \<Longrightarrow>
      outcome_ok S s D W G i Q (f i s)) \<Longrightarrow> atom_ok S g f Q"
  by (simp add: atom_ok_def)

lemma outcome_ok_simps [simp]:
  "outcome_ok S s D W G i Q (Err e) \<longleftrightarrow> e = Signed_overflow"
  "outcome_ok S s D W G i Q Block \<longleftrightarrow> blocked_ok S s (G i)"
  by (simp_all add: outcome_ok_def)

lemma outcome_ok_Ok_iff:
  "outcome_ok S s D W G i Q (Ok (v, s')) \<longleftrightarrow> ktids s' = ktids s \<and>
     (\<exists>loc' W' g'. inv S s' D loc' W' (G(i := g')) \<and>
        (\<forall>p \<in> D. W' p = W p) \<and> (g_boot g' \<longrightarrow> g_boot (G i)) \<and> Q v g')"
  by (simp add: outcome_ok_def)

lemma outcome_ok_mono:
  "(\<And>v g'. Q v g' \<longrightarrow> R v g') \<Longrightarrow> outcome_ok S s D W G i Q x \<longrightarrow> outcome_ok S s D W G i R x"
  unfolding outcome_ok_def by (cases x) (auto; blast)+

lemma atom_ok_mono [mono]:
  "(\<And>v g'. Q v g' \<longrightarrow> R v g') \<Longrightarrow> atom_ok S g f Q \<longrightarrow> atom_ok S g f R"
  unfolding atom_ok_def using outcome_ok_mono [of Q R] by metis

lemma outcome_ok_map:
  "outcome_ok S s D W G i Q (map_outcome (apfst h) x) \<longleftrightarrow> outcome_ok S s D W G i (\<lambda>v. Q (h v)) x"
  by (cases x) (auto simp: outcome_ok_Ok_iff)

section \<open>Client programs\<close>

text \<open>
  Programs that create threads, yield, exit and use the semaphores \<open>S\<close>, which were
  initialised before.
\<close>

coinductive client_ok :: "semid set \<Rightarrow> uprog \<Rightarrow> bool" for S where
  "(\<And>a. client_ok S (f a)) \<Longrightarrow> (\<And>r. client_ok S (k r)) \<Longrightarrow> client_ok S (U_create f a b sz k)"
| "client_ok S (U_exit v)"
| "client_ok S (U_ret v)"
| "(\<And>t. client_ok S (k t)) \<Longrightarrow> client_ok S (U_self k)"
| "client_ok S k \<Longrightarrow> client_ok S (U_yield k)"
| "m \<in> S \<Longrightarrow> (\<And>r. client_ok S (k r)) \<Longrightarrow> client_ok S (U_sem_post m k)"
| "m \<in> S \<Longrightarrow> (\<And>r. client_ok S (k r)) \<Longrightarrow> client_ok S (U_sem_wait m k)"
| "(\<And>c. client_ok S (snd (f c))) \<Longrightarrow> client_ok S (U_mem f)"
| "client_ok S (U_process_exit n)"

section \<open>Safe code\<close>

text \<open>What a kernel thread holds on its way to the scheduler, by task.\<close>

definition in_transit :: "addr \<Rightarrow> thread_state \<Rightarrow> bool \<Rightarrow> ghost" where
  "in_transit p st b = idle\<lparr>g_own := [p \<mapsto> (st, b)], g_cur := Some p, g_locks := {Tcbs_lock}\<rparr>"

definition yielding :: "addr \<Rightarrow> bool \<Rightarrow> ghost" where
  "yielding p b = (in_transit p READY b)\<lparr>g_sched := (YIELD, None, None)\<rparr>"

definition exiting :: "addr \<Rightarrow> ghost" where
  "exiting p = (in_transit p FINISHED False)\<lparr>g_sched := (EXIT, None, None)\<rparr>"

definition waiting :: "addr \<Rightarrow> bool \<Rightarrow> semid \<Rightarrow> ghost" where
  "waiting p b m =
     (in_transit p WAITING_SEM b)\<lparr>g_locks := {Sem_lock m, Tcbs_lock}, g_pend := Some m, g_cnt := Some (m, 0),
        g_sched := (SEM_WAIT, Some (Sem_lock m), Some (Sem_queue m))\<rparr>"

text \<open>A kernel thread that has dispatched \<open>p\<close>, which may be waiting for a semaphore.\<close>

definition dispatched :: "addr \<Rightarrow> semid option \<Rightarrow> ghost" where
  "dispatched p w = idle\<lparr>g_own := [p \<mapsto> (RUNNING, True)], g_cur := Some p, g_pend := w\<rparr>"

text \<open>
  Code that a kernel thread with ghost state \<open>g\<close> can safely execute. The code saved by
  \<^verbatim>\<open>swapcontext\<close> must be safe for the kernel thread that resumes it.
\<close>

inductive ok :: "semid set \<Rightarrow> ghost \<Rightarrow> code \<Rightarrow> bool" for S where
  ok_Atom: "atom_ok S g (\<lambda>i s. map_outcome prod.swap (f i s)) (\<lambda>c g'. ok S g' c) \<Longrightarrow> ok S g (Atom f)"
| ok_Swap_yield: "ok S (running p) c \<Longrightarrow> ok S (yielding p False) (Swapcontext p c)"
| ok_Swap_wait: "m \<in> S \<Longrightarrow> ok S ((running p)\<lparr>g_pend := Some m\<rparr>) c \<Longrightarrow>
     ok S (waiting p False m) (Swapcontext p c)"
| ok_Setcontext_sched: "ok S (exiting p) Setcontext_sched"
| ok_Setcontext_start: "ok S idle Setcontext_sched"
| ok_Sched_idle: "ok S idle Schedule"
| ok_Sched_yield: "ok S (yielding p True) Schedule"
| ok_Sched_exit: "ok S (exiting p) Schedule"
| ok_Sched_wait: "m \<in> S \<Longrightarrow> ok S (waiting p True m) Schedule"
| ok_Setcontext: "ok S (dispatched p w) (Setcontext p)"
| ok_Makecontext: "g_made g = Some (unat t, p) \<Longrightarrow> g_own g p = Some (st, b) \<Longrightarrow>
     ok S (running p) c \<Longrightarrow> ok S (g\<lparr>g_own := (g_own g)(p \<mapsto> (st, True))\<rparr>) c' \<Longrightarrow>
     ok S g (Makecontext t c c')"
| ok_User: "client_ok S u \<Longrightarrow> ok S (running p) (User u)"
| ok_Sem_wait_loop: "m \<in> S \<Longrightarrow> w \<in> {None, Some m} \<Longrightarrow> (\<And>r. ok S (running p) (k r)) \<Longrightarrow>
     ok S ((running p)\<lparr>g_pend := w, g_locks := {Sem_lock m}\<rparr>) (Sem_wait_loop m p k)"
| ok_Process_exit: "ok S g (Process_exit n)"

lemma ok_call:
  assumes "atom_ok S g f (\<lambda>v g'. ok S g' (k v))"
  shows "ok S g (call f k)"
proof -
  have "map_outcome prod.swap (bind_o (f i s) (\<lambda>(v, s'). Ok (s', k v))) = map_outcome (apfst k) (f i s)"
    for i s by (cases "f i s") auto
  with assms show ?thesis
    unfolding call_def by (intro ok_Atom) (simp add: atom_ok_def outcome_ok_map)
qed

lemma ok_stmt:
  "atom_ok S g (\<lambda>i s. bind_o (f i s) (\<lambda>s'. Ok ((), s'))) (\<lambda>_ g'. ok S g' k) \<Longrightarrow> ok S g (stmt f k)"
proof -
  have "stmt f k = call (\<lambda>i s. bind_o (f i s) (\<lambda>s'. Ok ((), s'))) (\<lambda>_. k)"
    unfolding stmt_def call_def by (intro arg_cong [of _ _ Atom] ext) (simp add: bind_o_assoc)
  then show "atom_ok S g (\<lambda>i s. bind_o (f i s) (\<lambda>s'. Ok ((), s'))) (\<lambda>_ g'. ok S g' k) \<Longrightarrow> ok S g (stmt f k)"
    by (simp add: ok_call)
qed

lemma ok_expr:
  "atom_ok S g (\<lambda>i s. bind_o (f i s) (\<lambda>v. Ok (v, s))) (\<lambda>v g'. ok S g' (k v)) \<Longrightarrow> ok S g (expr f k)"
proof -
  have "expr f k = call (\<lambda>i s. bind_o (f i s) (\<lambda>v. Ok (v, s))) k"
    unfolding expr_def call_def by (intro arg_cong [of _ _ Atom] ext) (simp add: bind_o_assoc)
  then show "atom_ok S g (\<lambda>i s. bind_o (f i s) (\<lambda>v. Ok (v, s))) (\<lambda>v g'. ok S g' (k v)) \<Longrightarrow> ok S g (expr f k)"
    by (simp add: ok_call)
qed

lemma ok_checked:
  "atom_ok S g (\<lambda>i s. bind_o (f i s) (\<lambda>(r, s'). if r \<noteq> 0 then Err Abort else Ok ((), s'))) (\<lambda>_ g'. ok S g' k) \<Longrightarrow>
   ok S g (checked f k)"
proof -
  have "checked f k = call (\<lambda>i s. bind_o (f i s) (\<lambda>(r, s'). if r \<noteq> 0 then Err Abort else Ok ((), s'))) (\<lambda>_. k)"
    unfolding checked_def call_def
    by (intro arg_cong [of _ _ Atom] ext) (auto simp: bind_o_assoc intro!: arg_cong [of _ _ "bind_o _"])
  then show "atom_ok S g (\<lambda>i s. bind_o (f i s) (\<lambda>(r, s'). if r \<noteq> 0 then Err Abort else Ok ((), s'))) (\<lambda>_ g'. ok S g' k) \<Longrightarrow>
   ok S g (checked f k)"
    by (simp add: ok_call)
qed

lemma ok_c_assert:
  "atom_ok S g (\<lambda>i s. bind_o (P i s) (\<lambda>b. if b then Ok ((), s) else Err Assert_fail)) (\<lambda>_ g'. ok S g' k) \<Longrightarrow>
   ok S g (c_assert P k)"
proof -
  have "c_assert P k = call (\<lambda>i s. bind_o (P i s) (\<lambda>b. if b then Ok ((), s) else Err Assert_fail)) (\<lambda>_. k)"
    unfolding c_assert_def call_def
    by (intro arg_cong [of _ _ Atom] ext) (auto simp: bind_o_assoc intro!: arg_cong [of _ _ "bind_o _"])
  then show "atom_ok S g (\<lambda>i s. bind_o (P i s) (\<lambda>b. if b then Ok ((), s) else Err Assert_fail)) (\<lambda>_ g'. ok S g' k) \<Longrightarrow>
   ok S g (c_assert P k)"
    by (simp add: ok_call)
qed

subsection \<open>Rules for the combinators\<close>

text \<open>
  \<open>moves S g g' s D loc W G i s'\<close>: a step of kernel thread \<open>i\<close> from \<open>s\<close> to \<open>s'\<close> keeps the
  invariant and changes its ghost state from \<open>g\<close> to \<open>g'\<close>.
\<close>

definition moves :: "semid set \<Rightarrow> ghost \<Rightarrow> shared \<Rightarrow> addr set \<Rightarrow> (addr \<Rightarrow> semid option) \<Rightarrow> ghosts \<Rightarrow> ktid \<Rightarrow>
    shared \<Rightarrow> bool" where
  "moves S g' s D W G i s' \<longleftrightarrow> ktids s' = ktids s \<and>
     (g_boot g' \<longrightarrow> g_boot (G i)) \<and>
     (\<exists>loc' W'. inv S s' D loc' W' (G(i := g')) \<and> (\<forall>p \<in> D. W' p = W p))"

lemma movesI:
  "ktids s' = ktids s \<Longrightarrow> inv S s' D loc' W' (G(i := g')) \<Longrightarrow>
   (\<And>p. p \<in> D \<Longrightarrow> W' p = W p) \<Longrightarrow> (g_boot g' \<Longrightarrow> g_boot (G i)) \<Longrightarrow> moves S g' s D W G i s'"
  by (auto simp: moves_def)

lemma moves_refl: "inv S s D loc W G \<Longrightarrow> moves S (G i) s D W G i s"
  by (rule movesI [of _ _ _ _ loc W]) auto

lemma outcome_ok_moves:
  "moves S g' s D W G i s' \<Longrightarrow> Q v g' \<Longrightarrow> outcome_ok S s D W G i Q (Ok (v, s'))"
  unfolding moves_def outcome_ok_def by auto

lemma ok_callI:
  assumes "\<And>i s D loc W G. inv S s D loc W G \<Longrightarrow> i \<in> ktids s \<Longrightarrow> G i = g \<Longrightarrow> tid_free s \<Longrightarrow>
    (\<exists>v s' g'. f i s = Ok (v, s') \<and> moves S g' s D W G i s' \<and> ok S g' (k v)) \<or>
    f i s = Block \<and> blocked_ok S s g"
  shows "ok S g (call f k)"
proof (intro ok_call atom_okI)
  fix i s D loc W G
  assume "inv S s D loc W G" "i \<in> ktids s" "G i = g" "tid_free s"
  from assms [OF this] \<open>G i = g\<close>
  show "outcome_ok S s D W G i (\<lambda>v g'. ok S g' (k v)) (f i s)"
    by (auto intro: outcome_ok_moves)
qed

lemma ok_checkedI:
  assumes "\<And>i s D loc W G. inv S s D loc W G \<Longrightarrow> i \<in> ktids s \<Longrightarrow> G i = g \<Longrightarrow> tid_free s \<Longrightarrow>
    (\<exists>s'. f i s = Ok (0, s') \<and> moves S g' s D W G i s') \<or> f i s = Block \<and> blocked_ok S s g"
    and "ok S g' k"
  shows "ok S g (checked f k)"
proof (intro ok_checked atom_okI)
  fix i s D loc W G
  assume "inv S s D loc W G" "i \<in> ktids s" "G i = g" "tid_free s"
  from assms(1) [OF this] \<open>G i = g\<close> assms(2)
  show "outcome_ok S s D W G i (\<lambda>_ g'. ok S g' k)
      (bind_o (f i s) (\<lambda>(r, s'). if r \<noteq> 0 then Err Abort else Ok ((), s')))"
    by (auto intro: outcome_ok_moves)
qed

lemma ok_stmt_anyI:
  assumes "\<And>i s D loc W G. inv S s D loc W G \<Longrightarrow> i \<in> ktids s \<Longrightarrow> G i = g \<Longrightarrow> tid_free s \<Longrightarrow>
    \<exists>s' g'. f i s = Ok s' \<and> moves S g' s D W G i s' \<and> ok S g' k"
  shows "ok S g (stmt f k)"
proof (intro ok_stmt atom_okI)
  fix i s D loc W G
  assume "inv S s D loc W G" "i \<in> ktids s" "G i = g" "tid_free s"
  from assms(1) [OF this]
  show "outcome_ok S s D W G i (\<lambda>_ g'. ok S g' k) (bind_o (f i s) (\<lambda>s'. Ok ((), s')))"
    by (auto intro: outcome_ok_moves)
qed

lemma ok_stmtI:
  assumes "\<And>i s D loc W G. inv S s D loc W G \<Longrightarrow> i \<in> ktids s \<Longrightarrow> G i = g \<Longrightarrow> tid_free s \<Longrightarrow>
    (\<exists>s'. f i s = Ok s' \<and> moves S g' s D W G i s') \<or> f i s = Err Signed_overflow"
    and "ok S g' k"
  shows "ok S g (stmt f k)"
proof (intro ok_stmt atom_okI)
  fix i s D loc W G
  assume "inv S s D loc W G" "i \<in> ktids s" "G i = g" "tid_free s"
  from assms(1) [OF this] assms(2)
  show "outcome_ok S s D W G i (\<lambda>_ g'. ok S g' k) (bind_o (f i s) (\<lambda>s'. Ok ((), s')))"
    by (auto intro: outcome_ok_moves)
qed

lemma ok_exprI:
  assumes "\<And>i s D loc W G. inv S s D loc W G \<Longrightarrow> i \<in> ktids s \<Longrightarrow> G i = g \<Longrightarrow> tid_free s \<Longrightarrow>
    \<exists>v g'. f i s = Ok v \<and> moves S g' s D W G i s \<and> ok S g' (k v)"
  shows "ok S g (expr f k)"
proof (intro ok_expr atom_okI)
  fix i s D loc W G
  assume "inv S s D loc W G" "i \<in> ktids s" "G i = g" "tid_free s"
  from assms [OF this]
  show "outcome_ok S s D W G i (\<lambda>v g'. ok S g' (k v)) (bind_o (f i s) (\<lambda>v. Ok (v, s)))"
    by (auto intro: outcome_ok_moves)
qed

lemma ok_readI:
  assumes "\<And>i s D loc W G. inv S s D loc W G \<Longrightarrow> i \<in> ktids s \<Longrightarrow> G i = g \<Longrightarrow>
    \<exists>v. f i s = Ok v \<and> ok S g (k v)"
  shows "ok S g (expr f k)"
proof (rule ok_exprI)
  fix i s D loc W G
  assume inv: "inv S s D loc W G" "i \<in> ktids s" "G i = g"
  from assms [OF this] moves_refl [OF inv(1), of i] inv(3)
  show "\<exists>v g'. f i s = Ok v \<and> moves S g' s D W G i s \<and> ok S g' (k v)" by auto
qed

lemma ok_assertI:
  assumes "\<And>i s D loc W G. inv S s D loc W G \<Longrightarrow> i \<in> ktids s \<Longrightarrow> G i = g \<Longrightarrow> P i s = Ok True"
    and "ok S g k"
  shows "ok S g (c_assert P k)"
proof (intro ok_c_assert atom_okI)
  fix i s D loc W G
  assume inv: "inv S s D loc W G" "i \<in> ktids s" "G i = g"
  from assms(1) [OF this] assms(2) inv(3) moves_refl [OF inv(1), of i]
  show "outcome_ok S s D W G i (\<lambda>_ g'. ok S g' k)
      (bind_o (P i s) (\<lambda>b. if b then Ok ((), s) else Err Assert_fail))"
    by (auto intro: outcome_ok_moves)
qed

end
