(* ===== verification/Prim_Sched.thy ===== *)
theory Prim_Sched
  imports Safe
begin

text \<open>
  Proof rules for the atoms of the scheduler: signals, the entry of the kernel thread, mutexes, the
  ready queue, the fields of control blocks.
\<close>

section \<open>System calls and signals\<close>

lemma inv_libc:
  assumes "inv S s D loc W G"
  shows "\<not> fails s n" "inited s" "0 \<le> quantum s" "quantum s < 1000000000" "\<exists>v. inited_sem s = Sem_value v"
  using assms by (auto simp: inv_def mem_ok_def)

lemma inv_frame [simp]:
  "inv S (s\<lparr>ncalls := x1\<rparr>) D loc W G = inv S s D loc W G"
  "inv S (s\<lparr>sigblocked := x2\<rparr>) D loc W G = inv S s D loc W G"
  "inv S (s\<lparr>cmem := x3\<rparr>) D loc W G = inv S s D loc W G"
  "inv S (s\<lparr>blocks := x4\<rparr>) D loc W G = inv S s D loc W G"
  by (simp_all add: inv_def)

lemma inv_same:
  "inv S s D loc W G \<Longrightarrow> G i = g \<Longrightarrow> inv S s D loc W (G(i := g))"
  by auto

lemma ok_assert_inited [intro]: "ok S g k \<Longrightarrow> ok S g (assert_inited k)"
  unfolding assert_inited_def by (rule ok_assertI) (auto simp: inv_libc)

lemma set_sigmask_moves:
  assumes "inv S s D loc W G"
  shows "\<exists>s'. set_sigmask b i s = Ok s' \<and> moves S (G i) s D W G i s'"
  using assms inv_libc [OF assms]
  by (auto simp: set_sigmask_def libc_call_def intro!: movesI [of _ _ _ _ loc W] inv_same)

lemma ok_block_sigrtmin [intro]: "ok S g k \<Longrightarrow> ok S g (block_sigrtmin k)"
  unfolding block_sigrtmin_def by (rule ok_stmtI [where g' = g]) (use set_sigmask_moves in fast)+

lemma ok_unblock_sigrtmin [intro]: "ok S g k \<Longrightarrow> ok S g (unblock_sigrtmin k)"
  unfolding unblock_sigrtmin_def by (rule ok_stmtI [where g' = g]) (use set_sigmask_moves in fast)+

lemma ok_sys_or_abort [intro]: "ok S g k \<Longrightarrow> ok S g (sys_or_abort k)"
  unfolding sys_or_abort_def
  by (rule ok_checkedI) (auto simp: libc_call_def inv_libc intro!: movesI inv_same)

section \<open>Kernel thread information\<close>

lemma inv_kinfo_update:
  assumes inv: "inv S s D loc W G" and i: "kinfo_at s i = Ok ki" and f: "\<And>x. kinfo_ktid (f x) = kinfo_ktid x"
    and ok: "sched_of (f ki) = g_sched g'" "-1 \<le> current_tid (f ki)" "current_tid (f ki) < int UTHREAD_MAX_THREADS"
      "cur_ok s (f ki) g'"
    and same: "g_locks g' = g_locks (G i)" "g_own g' = g_own (G i)" "g_credit g' = g_credit (G i)"
      "g_new g' = g_new (G i)" "g_made g' = g_made (G i)" "g_cnt g' = g_cnt (G i)" "g_len g' = g_len (G i)"
      "g_posted g' = g_posted (G i)"
    and pend: "\<And>p. g_cur g' = Some p \<Longrightarrow> g_pend g' = W p"
  shows "\<exists>s'. kinfo_update f i s = Ok s' \<and> ktids s' = ktids s \<and> inv S s' D loc W (G(i := g'))"
proof -
  from inv have wf: "ki_wf s" by (simp add: inv_def ki_ok_def)
  from kinfo_update_Ok [of s i ki f, OF wf i f] obtain X where
    X: "kinfo_update f i s = Ok (s\<lparr>kthread_info := X\<rparr>)" "ki_wf (s\<lparr>kthread_info := X\<rparr>)"
    "ktids (s\<lparr>kthread_info := X\<rparr>) = ktids s"
    "\<And>j. kinfo_at (s\<lparr>kthread_info := X\<rparr>) j = (if j = i then Ok (f ki) else kinfo_at s j)" by metis
  let ?s' = "s\<lparr>kthread_info := X\<rparr>"
  have cur: "cur_ok ?s' k g = cur_ok s k g" for k g by (simp add: cur_ok_def)
  have it: "i \<in> ktids s" using wf i kinfo_at_in by blast
  from inv have parts: "ki_ok s G" "lock_ok S s G" "rq_ok s loc G" "sem_ok S s loc G" "tcb_ok s D loc G"
    "tid_ok s G" "wake_ok S s loc W G" "mem_ok s" by (simp_all add: inv_def)
  have "ki_ok ?s' (G(i := g'))"
    using parts(1) ok it X(2) unfolding ki_ok_def X(3,4) cur by auto
  moreover have "lock_ok S ?s' (G(i := g'))" "tcb_ok ?s' D loc (G(i := g'))" "tid_ok ?s' (G(i := g'))" "mem_ok ?s'"
    using parts same by (simp_all add: ghost_frame)
  moreover have "sem_ok S ?s' loc (G(i := g'))" using parts(4) same by (simp add: sem_ok_ghost)
  moreover have "rq_ok ?s' loc (G(i := g'))" 
    using parts(3) unfolding rq_ok_ghost [where G = G and i = i and g = g', OF same(3)] by (simp add: rq_ok_def X(3))
  moreover have "wake_ok S ?s' loc W (G(i := g'))"
  proof -
    note w = wake_okD [OF parts(7)]
    have "g_pend ((G(i := g')) j) = W p" if "g_cur ((G(i := g')) j) = Some p" for j p
      using that pend w(4) [of j p] by (cases "j = i") auto
    moreover have "W p = None" if "g_new ((G(i := g')) j) = Some (t, p) \<or> g_made ((G(i := g')) j) = Some (t, p)" for j t p
      using that same w(5) [of j t p] by (cases "j = i") auto
    moreover have "Sem_lock m \<in> g_locks ((G(i := g')) j)" if "g_posted ((G(i := g')) j) = Some m" for j m
      using that same w(6) [of j m] by (cases "j = i") auto
    ultimately have "wake_ok S s loc W (G(i := g'))"
      unfolding wake_ok_def sem_wake_ok_ghost [where G = G and i = i and g = g', OF same(8)]
      using w(1-3,7) by blast
    then show ?thesis by simp
  qed
  ultimately have "inv S ?s' D loc W (G(i := g'))" by (simp add: inv_def)
  with X(1,3) show ?thesis by blast
qed

text \<open>An update of the entry that only changes the scheduler task and the flag \<open>preempted\<close>.\<close>

lemma ok_kinfo_update:
  assumes f: "\<And>x. kinfo_ktid (f x) = kinfo_ktid x" "\<And>x. current_tid (f x) = current_tid x"
    and g: "\<And>x. sched_of x = g_sched g \<Longrightarrow> sched_of (f x) = sch"
    and "ok S (g\<lparr>g_sched := sch\<rparr>) k"
  shows "ok S g (stmt (kinfo_update f) k)"
proof (rule ok_stmtI [OF _ assms(4)])
  fix i s D loc W G
  assume inv: "inv S s D loc W G" and i: "i \<in> ktids s" "G i = g"
  obtain ki where ki: "kinfo_at s i = Ok ki" "sched_of ki = g_sched (G i)" "-1 \<le> current_tid ki"
    "current_tid ki < int UTHREAD_MAX_THREADS" "cur_ok s ki (G i)" by (rule inv_kinfo [OF inv i(1)])
  have "cur_ok s (f ki) (g\<lparr>g_sched := sch\<rparr>)" using ki(5) i(2) by (auto simp: cur_ok_def f)
  moreover have "g_pend (g\<lparr>g_sched := sch\<rparr>) = W p" if "g_cur (g\<lparr>g_sched := sch\<rparr>) = Some p" for p
    using that inv i(2) wake_ok_cur by (fastforce simp: inv_def)
  ultimately obtain s' where "kinfo_update f i s = Ok s'" "ktids s' = ktids s"
    "inv S s' D loc W (G(i := g\<lparr>g_sched := sch\<rparr>))"
    using inv_kinfo_update [of S s D loc W G i ki f "g\<lparr>g_sched := sch\<rparr>", OF inv ki(1) f(1)] ki i(2) g [of ki]
    by (auto simp: f)
  then show "(\<exists>s'. kinfo_update f i s = Ok s' \<and> moves S (g\<lparr>g_sched := sch\<rparr>) s D W G i s') \<or>
      kinfo_update f i s = Err Signed_overflow"
    using i(2) by (auto intro!: movesI)
qed

lemma ok_set_preempted [intro]:
  "ok S g k \<Longrightarrow> ok S g (stmt (kinfo_update (\<lambda>ki. ki\<lparr>preempted := b\<rparr>)) k)"
  by (rule ok_kinfo_update [where sch = "g_sched g"]) (auto simp: sched_of_def)

lemma ok_set_task:
  "g_sched g = (t', l, q) \<Longrightarrow> ok S (g\<lparr>g_sched := (t, l, q)\<rparr>) k \<Longrightarrow> ok S g (stmt (set_task t) k)"
  unfolding set_task_def by (rule ok_kinfo_update) (auto simp: sched_of_def)

section \<open>Mutexes\<close>

lemma inv_parts:
  assumes "inv S s D loc W G"
  shows "ki_ok s G" "lock_ok S s G" "rq_ok s loc G" "sem_ok S s loc G" "tcb_ok s D loc G"
    "tid_ok s G" "wake_ok S s loc W G" "mem_ok s"
  using assms by (simp_all add: inv_def)

lemma set_mutex_valid:
  "get_mutex s r = Ok m \<Longrightarrow> get_mutex (set_mutex r v s) r' = (if r' = r then Ok v else get_mutex s r')"
  by (cases r; cases r') (auto split: option.splits)

lemma set_mutex_frame:
  assumes "get_mutex s r = Ok m"
  shows "ktids (set_mutex r v s) = ktids s" "ki_ok (set_mutex r v s) G = ki_ok s G"
    "rq_ok (set_mutex r v s) loc G = rq_ok s loc G"
    "tcb_ok (set_mutex r v s) D loc G = tcb_ok s D loc G"
    "tid_ok (set_mutex r v s) G = tid_ok s G"
  by (cases r; simp)+

lemma set_mutex_sem:
  obtains h where "\<And>n. sems (set_mutex r v s) n = map_option (h n) (sems s n)"
    "\<And>n x. sem_queue (h n x) = sem_queue x" "\<And>n x. counter (h n x) = counter x"
proof
  show "sems (set_mutex r v s) n =
    map_option (if r = Sem_lock n then \<lambda>x. x\<lparr>sem_lock := v\<rparr> else id) (sems s n)" for n
    by (cases r) (auto simp: option.map_id)
qed auto

lemma sem_ok_set_mutex:
  assumes "get_mutex s r = Ok m" "sem_ok S s loc G"
  shows "sem_ok S (set_mutex r v s) loc G"
proof -
  obtain h where h: "\<And>n. sems (set_mutex r v s) n = map_option (h n) (sems s n)"
    "\<And>n x. sem_queue (h n x) = sem_queue x" "\<And>n x. counter (h n x) = counter x"
    by (rule set_mutex_sem [of r v s]) (rule that)
  show ?thesis unfolding sem_ok_def
  proof (intro conjI ballI)
    fix m assume "m \<in> S"
    with assms(2) obtain x where x: "sems s m = Some x \<and> queue_ok (sem_queue x) \<and> distinct (queue_items (sem_queue x)) \<and>
        (\<forall>p. p \<in> set (queue_items (sem_queue x)) \<longleftrightarrow> loc p = In_sem m) \<and> 0 \<le> counter x \<and>
        (\<forall>i c. g_cnt (G i) = Some (m, c) \<longrightarrow> Sem_lock m \<in> g_locks (G i) \<and> counter x = c) \<and>
        (\<forall>i n. g_len (G i) = Some (m, n) \<longrightarrow> Sem_lock m \<in> g_locks (G i) \<and> queue_size (sem_queue x) = n)"
      unfolding sem_ok_def by blast
    with h(1) [of m] have "sems (set_mutex r v s) m = Some (h m x)" by auto
    with x show "\<exists>x. sems (set_mutex r v s) m = Some x \<and> queue_ok (sem_queue x) \<and> distinct (queue_items (sem_queue x)) \<and>
        (\<forall>p. p \<in> set (queue_items (sem_queue x)) \<longleftrightarrow> loc p = In_sem m) \<and> 0 \<le> counter x \<and>
        (\<forall>i c. g_cnt (G i) = Some (m, c) \<longrightarrow> Sem_lock m \<in> g_locks (G i) \<and> counter x = c) \<and>
        (\<forall>i n. g_len (G i) = Some (m, n) \<longrightarrow> Sem_lock m \<in> g_locks (G i) \<and> queue_size (sem_queue x) = n)"
      by (intro exI [of _ "h m x"]) (simp add: h(2,3))
  qed (use assms(2) in \<open>auto simp: sem_ok_def\<close>)
qed

lemma wake_ok_set_mutex:
  assumes "get_mutex s r = Ok m" "wake_ok S s loc W G"
  shows "wake_ok S (set_mutex r v s) loc W G"
proof -
  obtain h where h: "\<And>n. sems (set_mutex r v s) n = map_option (h n) (sems s n)"
    "\<And>n x. sem_queue (h n x) = sem_queue x" "\<And>n x. counter (h n x) = counter x"
    by (rule set_mutex_sem [of r v s]) (rule that)
  have "sem_wake_ok m x loc W G" if "m \<in> S" "sems (set_mutex r v s) m = Some x" for m x
  proof -
    from that(2) h(1) [of m] obtain y where "sems s m = Some y" "x = h m y" by auto
    with wake_ok_sem [OF assms(2) that(1)] show ?thesis by (auto simp: sem_wake_ok_def h(2,3))
  qed
  with assms(2) show ?thesis unfolding wake_ok_def by blast
qed

lemma mem_ok_set_mutex:
  assumes "get_mutex s r = Ok m" "mem_ok s"
  shows "mem_ok (set_mutex r v s)"
proof -
  obtain h where h: "\<And>n. sems (set_mutex r v s) n = map_option (h n) (sems s n)"
    "\<And>n x. sem_queue (h n x) = sem_queue x" "\<And>n x. counter (h n x) = counter x"
    by (rule set_mutex_sem [of r v s]) (rule that)
  have "fset (fmdom (nodes (sem_queue x))) \<subseteq> {..<brk s}" if "sems (set_mutex r v s) m = Some x" for m x
  proof -
    from that h(1) [of m] obtain y where y: "sems s m = Some y" "x = h m y" by auto
    from assms(2) y(1) have "fset (fmdom (nodes (sem_queue y))) \<subseteq> {..<brk s}" unfolding mem_ok_def by blast
    then show ?thesis by (simp add: y(2) h(2))
  qed
  moreover have "fails (set_mutex r v s) = fails s" "inited (set_mutex r v s) = inited s" "brk (set_mutex r v s) = brk s"
    "quantum (set_mutex r v s) = quantum s" "inited_sem (set_mutex r v s) = inited_sem s"
    "tcb_heap (set_mutex r v s) = tcb_heap s" "rq_queue (rqueue (set_mutex r v s)) = rq_queue (rqueue s)"
    by (cases r; simp)+
  ultimately show ?thesis using assms(2) unfolding mem_ok_def by presburger
qed

text \<open>The invariant after a lock operation of kernel thread \<open>i\<close>.\<close>

lemma inv_set_mutex:
  assumes inv: "inv S s D loc W G" and i: "i \<in> ktids s" and get: "get_mutex s r = Ok m"
    and lock: "lock_ok S (set_mutex r v s) (G(i := g'))"
    and same: "g_sched g' = g_sched (G i)" "g_cur g' = g_cur (G i)" "g_pend g' = g_pend (G i)" "g_own g' = g_own (G i)"
      "g_credit g' = g_credit (G i)" "g_new g' = g_new (G i)" "g_made g' = g_made (G i)" "g_posted g' = g_posted (G i)"
      "g_boot g' = g_boot (G i)"
    and sem: "g_cnt g' = None \<or> g_cnt g' = g_cnt (G i) \<and> g_locks (G i) \<subseteq> g_locks g'"
      "g_len g' = None \<or> g_len g' = g_len (G i) \<and> g_locks (G i) \<subseteq> g_locks g'"
      "g_posted g' = None \<or> g_locks (G i) \<subseteq> g_locks g'"
  shows "moves S g' s D W G i (set_mutex r v s)"
proof (rule movesI)
  note p = inv_parts [OF inv]
  show "inv S (set_mutex r v s) D loc W (G(i := g'))"
    unfolding inv_def
  proof (intro conjI)
    show "ki_ok (set_mutex r v s) (G(i := g'))"
      using p(1) same i by (intro ki_ok_ghost) (auto simp: set_mutex_frame [OF get])
    show "sem_ok S (set_mutex r v s) loc (G(i := g'))"
      using sem_ok_set_mutex [OF get p(4)] sem(1,2) by (rule sem_ok_ghost)
    show "wake_ok S (set_mutex r v s) loc W (G(i := g'))"
      using wake_ok_set_mutex [OF get p(7)] same(8) _ _ _ sem(3) by (rule wake_ok_ghost) (use same in auto)
  qed (use p same lock in \<open>simp_all add: set_mutex_frame [OF get] ghost_frame mem_ok_set_mutex [OF get]\<close>)
qed (use get same set_mutex_frame in auto)

lemma lock_ok_set_mutex:
  assumes lock: "lock_ok S s G" and get: "get_mutex s r = Ok m" and r: "valid_ref S r"
    and other: "\<And>r'. r' \<noteq> r \<Longrightarrow> r' \<in> g_locks g \<longleftrightarrow> r' \<in> g_locks (G i)"
    and here: "v = Mutex_free \<and> (\<forall>j. r \<notin> g_locks ((G(i := g)) j)) \<or>
      v = Mutex_held i \<and> (\<forall>j. r \<in> g_locks ((G(i := g)) j) \<longleftrightarrow> j = i)"
  shows "lock_ok S (set_mutex r v s) (G(i := g))"
proof -
  have same: "r' \<in> g_locks ((G(i := g)) j) \<longleftrightarrow> r' \<in> g_locks (G j)" if "r' \<noteq> r" for r' j
    using other [OF that] by simp
  have "get_mutex (set_mutex r v s) r' = Ok Mutex_free \<and> (\<forall>i'. r' \<notin> g_locks ((G(i := g)) i')) \<or>
      (\<exists>j. get_mutex (set_mutex r v s) r' = Ok (Mutex_held j) \<and> (\<forall>i'. r' \<in> g_locks ((G(i := g)) i') \<longleftrightarrow> i' = j))"
    if "valid_ref S r'" for r'
  proof (cases "r' = r")
    case True
    then show ?thesis using here unfolding set_mutex_valid [OF get] by (simp del: fun_upd_apply) blast
  next
    case False
    with lock that show ?thesis unfolding lock_ok_def same [OF False] by (simp add: set_mutex_valid [OF get])
  qed
  moreover have "valid_ref S r'" if "r' \<in> g_locks ((G(i := g)) j)" for r' j
    using that r same [of r' j] lock unfolding lock_ok_def by blast
  ultimately show ?thesis unfolding lock_ok_def by blast
qed

lemma do_lock_moves:
  assumes inv: "inv S s D loc W G" and i: "i \<in> ktids s" and r: "valid_ref S r"
    and rank: "\<And>r'. r' \<in> g_locks (G i) \<Longrightarrow> lock_rank r' < lock_rank r"
  shows "(\<exists>s'. do_lock r i s = Ok (0, s') \<and>
      moves S ((G i)\<lparr>g_locks := insert r (g_locks (G i))\<rparr>) s D W G i s') \<or>
    do_lock r i s = Block \<and> blocked_ok S s (G i)"
proof -
  note p = inv_parts [OF inv]
  from p(2) r consider
    "get_mutex s r = Ok Mutex_free" "\<And>j. r \<notin> g_locks (G j)" | j where "get_mutex s r = Ok (Mutex_held j)"
    unfolding lock_ok_def by blast
  then show ?thesis
  proof cases
    case 1
    have "lock_ok S (set_mutex r (Mutex_held i) s) (G(i := (G i)\<lparr>g_locks := insert r (g_locks (G i))\<rparr>))"
      using p(2) 1(1) r by (rule lock_ok_set_mutex) (use 1(2) in auto)
    from inv_set_mutex [OF inv i 1(1) this] 1(1) show ?thesis
      by (auto simp: do_lock_def)
  next
    case (2 j)
    with r rank show ?thesis by (auto simp: do_lock_def blocked_ok_def)
  qed
qed

lemma do_unlock_moves:
  assumes inv: "inv S s D loc W G" and i: "i \<in> ktids s" and r: "r \<in> g_locks (G i)"
    and posted: "g_posted (G i) = None"
  shows "\<exists>s'. do_unlock r i s = Ok (0, s') \<and>
      moves S ((G i)\<lparr>g_locks := g_locks (G i) - {r}, g_cnt := None, g_len := None\<rparr>) s D W G i s'"
proof -
  note p = inv_parts [OF inv]
  from p(2) r have v: "valid_ref S r" unfolding lock_ok_def by blast
  from p(2) v r obtain j where "get_mutex s r = Ok (Mutex_held j)" "\<forall>i. r \<in> g_locks (G i) \<longleftrightarrow> i = j"
    unfolding lock_ok_def by blast
  with r have held: "get_mutex s r = Ok (Mutex_held i)" "\<And>j. r \<in> g_locks (G j) \<longleftrightarrow> j = i" by simp_all
  have "lock_ok S (set_mutex r Mutex_free s) (G(i := (G i)\<lparr>g_locks := g_locks (G i) - {r}, g_cnt := None, g_len := None\<rparr>))"
    using p(2) held(1) v by (rule lock_ok_set_mutex) (simp_all add: held(2))
  from inv_set_mutex [OF inv i held(1) this] posted
  have "moves S ((G i)\<lparr>g_locks := g_locks (G i) - {r}, g_cnt := None, g_len := None\<rparr>) s D W G i
    (set_mutex r Mutex_free s)" by simp
  with held(1) show ?thesis by (simp add: do_unlock_def)
qed

lemma ok_lock:
  assumes "valid_ref S r" "\<And>r'. r' \<in> g_locks g \<Longrightarrow> lock_rank r' < lock_rank r"
    "ok S (g\<lparr>g_locks := insert r (g_locks g)\<rparr>) k"
  shows "ok S g (checked (do_lock r) k)"
  by (rule ok_checkedI [OF _ assms(3)]) (use do_lock_moves assms(1,2) in blast)

lemma ok_call_lock:
  assumes "valid_ref S r" "\<And>r'. r' \<in> g_locks g \<Longrightarrow> lock_rank r' < lock_rank r"
    "ok S (g\<lparr>g_locks := insert r (g_locks g)\<rparr>) (k 0)"
  shows "ok S g (call (do_lock r) k)"
  by (rule ok_callI) (use do_lock_moves assms in blast)

lemma ok_unlock:
  assumes "r \<in> g_locks g" "g_posted g = None"
    "ok S (g\<lparr>g_locks := g_locks g - {r}, g_cnt := None, g_len := None\<rparr>) k"
  shows "ok S g (checked (do_unlock r) k)"
  by (rule ok_checkedI [OF _ assms(3)]) (use do_unlock_moves assms(1,2) in blast)

lemma ok_call_unlock:
  assumes "r \<in> g_locks g" "g_posted g = None"
    "ok S (g\<lparr>g_locks := g_locks g - {r}, g_cnt := None, g_len := None\<rparr>) (k 0)"
  shows "ok S g (call (do_unlock r) k)"
  by (rule ok_callI) (use do_unlock_moves assms in blast)

section \<open>Moving a thread from one place to another\<close>

lemma rq_ok_loc:
  "loc p \<noteq> In_ready \<Longrightarrow> pl \<noteq> In_ready \<Longrightarrow> rq_ok s (loc(p := pl)) G = rq_ok s loc G"
proof -
  assume "loc p \<noteq> In_ready" "pl \<noteq> In_ready"
  then have eq: "(loc(p := pl)) q = In_ready \<longleftrightarrow> loc q = In_ready" for q by auto
  show ?thesis unfolding rq_ok_def eq ..
qed

lemma sem_ok_loc:
  assumes "\<And>m. loc p \<noteq> In_sem m" "\<And>m. pl \<noteq> In_sem m"
  shows "sem_ok S s (loc(p := pl)) G = sem_ok S s loc G"
proof -
  from assms have eq: "(loc(p := pl)) q = In_sem m \<longleftrightarrow> loc q = In_sem m" for q m by auto
  show ?thesis unfolding sem_ok_def eq ..
qed

lemma wake_ok_loc:
  assumes w: "wake_ok S s loc W G" and p: "\<And>m. loc p \<noteq> In_sem m" "\<And>m. pl \<noteq> In_sem m"
    and pl: "W p \<noteq> None \<Longrightarrow> pl = In_ready \<or> (\<exists>i. pl = Owned i)"
  shows "wake_ok S s (loc(p := pl)) W G"
proof -
  from p have eq: "(loc(p := pl)) q = In_sem m \<longleftrightarrow> loc q = In_sem m" for q m by auto
  have "woken (loc(p := pl)) W m = woken loc W m" for m unfolding woken_def eq ..
  then have "sem_wake_ok m x (loc(p := pl)) W G = sem_wake_ok m x loc W G" for m x by (simp add: sem_wake_ok_def)
  moreover have "loc q = In_sem m \<or> (loc(p := pl)) q = In_ready \<or> (\<exists>i. (loc(p := pl)) q = Owned i)" if "W q = Some m" for q m
    using that pl wake_ok_place [OF w that] p by (cases "q = p") auto
  ultimately show ?thesis using w unfolding wake_ok_def eq by blast
qed

lemma tcb_ok_move:
  assumes tcb: "tcb_ok s D loc G" and here: "\<And>t. tcb_heap s p = Some t \<Longrightarrow> place_ok D (G(i := g)) p (state t) pl"
    and p: "tcb_heap s p \<noteq> None" "\<And>j. loc p = Owned j \<Longrightarrow> j = i"
    and other: "\<And>q. q \<noteq> p \<Longrightarrow> g_own g q = g_own (G i) q"
    and owned: "p \<in> dom (g_own g) \<Longrightarrow> pl = Owned i"
  shows "tcb_ok s D (loc(p := pl)) (G(i := g))"
  unfolding tcb_ok_def
proof (intro conjI allI impI)
  fix q t assume q: "tcb_heap s q = Some t"
  note old = tcb_ok_Some [OF tcb q]
  show "q \<noteq> NULL" "q \<noteq> exitall" "queue_rep (join_queue t) []" using old by auto
  have own: "g_own ((G(i := g)) j) q = g_own (G j) q" if "q \<noteq> p" for j using other [OF that] by simp
  show "place_ok D (G(i := g)) q (state t) ((loc(p := pl)) q)"
  proof (cases "q = p")
    case False
    with old show ?thesis unfolding place_ok_def own [OF False] by simp
  qed (use here q in simp)
next
  fix j q assume "q \<in> dom (g_own ((G(i := g)) j))"
  then obtain x where x: "g_own ((G(i := g)) j) q = Some x" by blast
  show "(loc(p := pl)) q = Owned j"
  proof (cases "q = p \<and> j = i")
    case True
    with x owned show ?thesis by auto
  next
    case False
    with x other [of q] have "g_own (G j) q = Some x" by (cases "j = i") auto
    with tcb_ok_own [OF tcb this] p(2) [of j] False show ?thesis by auto
  qed
next
  fix q assume q: "tcb_heap s q = None"
  with p(1) have "q \<noteq> p" by auto
  with tcb_ok_None [OF tcb q] tcb_ok_None_ctx [OF tcb q] show "(loc(p := pl)) q = Nowhere" "q \<notin> D" by simp_all
qed

section \<open>The ready queue\<close>

text \<open>What a kernel thread holds after it has handed over control block \<open>p\<close>.\<close>

definition release :: "addr \<Rightarrow> ghost \<Rightarrow> ghost" where
  "release p g = g\<lparr>g_own := (g_own g)(p := None), g_cur := (if g_cur g = Some p then None else g_cur g),
     g_pend := (if g_cur g = Some p then None else g_pend g), g_made := None\<rparr>"

lemma release_simps [simp]:
  "g_locks (release p g) = g_locks g" "g_credit (release p g) = g_credit g" "g_new (release p g) = g_new g"
  "g_made (release p g) = None" "g_sched (release p g) = g_sched g" "g_cnt (release p g) = g_cnt g"
  "g_len (release p g) = g_len g" "g_posted (release p g) = g_posted g" "g_own (release p g) = (g_own g)(p := None)"
  "g_cur (release p g) = (if g_cur g = Some p then None else g_cur g)"
  "g_pend (release p g) = (if g_cur g = Some p then None else g_pend g)" "g_boot (release p g) = g_boot g"
  by (simp_all add: release_def)

lemma malloc_inv:
  "inv S s D loc W G \<Longrightarrow> malloc s = (brk s, s\<lparr>ncalls := Suc (ncalls s), brk := Suc (brk s)\<rparr>) \<and> brk s \<noteq> NULL"
proof -
  assume inv: "inv S s D loc W G"
  then have "mem_ok s" by (simp add: inv_def)
  then have "exitall < brk s" unfolding mem_ok_def by blast
  with inv_libc(1) [OF inv] show ?thesis by (simp add: malloc_def libc_call_def)
qed

lemma mem_okD:
  assumes "mem_ok s"
  shows "tcb_heap s p = Some t \<Longrightarrow> p < brk s \<and> fset (fmdom (nodes (join_queue t))) \<subseteq> {..<brk s}"
    "fset (fmdom (nodes (rq_queue (rqueue s)))) \<subseteq> {..<brk s}"
    "sems s m = Some x \<Longrightarrow> fset (fmdom (nodes (sem_queue x))) \<subseteq> {..<brk s}"
    "exitall < brk s"
  using assms unfolding mem_ok_def by (elim conjE; blast)+

lemma mem_ok_brk:
  assumes ok: "mem_ok s" and b: "brk s \<le> b"
  shows "mem_ok (s\<lparr>brk := b\<rparr>)"
proof -
  have sub: "x \<subseteq> {..<b}" if "x \<subseteq> {..<brk s}" for x using that b by auto
  show ?thesis
    unfolding mem_ok_def
  proof (intro conjI allI impI)
    fix p t assume "tcb_heap (s\<lparr>brk := b\<rparr>) p = Some t"
    then have "tcb_heap s p = Some t" by simp
    from mem_okD(1) [OF ok this] b sub show "p < brk (s\<lparr>brk := b\<rparr>)"
      "fset (fmdom (nodes (join_queue t))) \<subseteq> {..<brk (s\<lparr>brk := b\<rparr>)}" by auto
  next
    fix m x assume "sems (s\<lparr>brk := b\<rparr>) m = Some x"
    then have "sems s m = Some x" by simp
    from mem_okD(3) [OF ok this] sub show "fset (fmdom (nodes (sem_queue x))) \<subseteq> {..<brk (s\<lparr>brk := b\<rparr>)}" by simp
  qed (use ok b sub in \<open>simp_all add: mem_ok_def\<close>)
qed

lemma mem_ok_rq_queue:
  "mem_ok s \<Longrightarrow> fset (fmdom (nodes (rq_queue r))) \<subseteq> {..<brk s} \<Longrightarrow> mem_ok (s\<lparr>rqueue := r\<rparr>)"
  unfolding mem_ok_def by simp

lemma rq_okI:
  assumes "queue_rep (rq_queue (rqueue s)) xs" "distinct xs" "\<And>p. p \<in> set xs \<longleftrightarrow> loc p = In_ready"
    "rq_not_empty (rqueue s) = Sem_value v" "length xs = v + (\<Sum>i \<in> ktids s. g_credit (G i))"
  shows "rq_ok s loc G"
  using assms queue_rep_items [OF assms(1)] unfolding rq_ok_def Let_def queue_ok_def by simp

lemma rq_enqueue_moves:
  assumes inv: "inv S s D loc W G" and i: "i \<in> ktids s" and own: "g_own (G i) p = Some (READY, True)"
    and new: "g_new (G i) = None"
  shows "\<exists>s'. rq_enqueue p s = Ok (0, s') \<and>
    moves S ((release p (G i))\<lparr>g_credit := Suc (g_credit (G i))\<rparr>) s D W G i s'"
proof -
  note parts = inv_parts [OF inv]
  obtain v where rep: "queue_rep (rq_queue (rqueue s)) (queue_items (rq_queue (rqueue s)))"
    and dist: "distinct (queue_items (rq_queue (rqueue s)))"
    and mem: "\<And>p. p \<in> set (queue_items (rq_queue (rqueue s))) \<longleftrightarrow> loc p = In_ready"
    and v: "rq_not_empty (rqueue s) = Sem_value v"
      "length (queue_items (rq_queue (rqueue s))) = v + (\<Sum>i \<in> ktids s. g_credit (G i))"
      "length (queue_items (rq_queue (rqueue s))) \<le> UTHREAD_MAX_THREADS" by (rule inv_rq [OF inv]) (rule that)
  obtain t where t: "tcb_heap s p = Some t" "state t = READY" "loc p = Owned i" "p \<noteq> NULL" "p \<in> D"
    by (rule inv_owned [OF inv own]) (rule that, simp_all)
  let ?xs = "queue_items (rq_queue (rqueue s))"
  let ?g = "(release p (G i))\<lparr>g_credit := Suc (g_credit (G i))\<rparr>"
  let ?loc = "loc(p := In_ready)"
  have fresh: "brk s |\<notin>| fmdom (nodes (rq_queue (rqueue s)))"
    using mem_okD(2) [OF parts(8)] by auto
  have "int (length ?xs) < INT_MAX" using v(3) by (simp add: UTHREAD_MAX_THREADS_def INT_MAX_def)
  with queue_enqueue_rep [OF rep t(4) _ fresh] malloc_inv [OF inv] obtain q' where
    q': "queue_enqueue (brk s) (rq_queue (rqueue s)) p = Ok (0, q')" "queue_rep q' (?xs @ [p])"
      "fmdom (nodes q') = finsert (brk s) (fmdom (nodes (rq_queue (rqueue s))))" by auto
  define s' where "s' = s\<lparr>ncalls := Suc (ncalls s), brk := Suc (brk s), rqueue := (rqueue s)\<lparr>rq_queue := q'\<rparr>\<rparr>"
  have run: "rq_enqueue p s = Ok (0, s')"
    using malloc_inv [OF inv] q'(1) by (simp add: rq_enqueue_def s'_def)
  have cur: "p' \<in> dom (g_own ?g)" if "g_cur ?g = Some p'" "p' \<in> dom (g_own (G i))" for p'
    using that by (auto split: if_splits)
  have "inv S s' D ?loc W (G(i := ?g))"
    unfolding inv_def
  proof (intro conjI)
    show "ki_ok s' (G(i := ?g))"
      unfolding s'_def using parts(1) i by (simp, intro ki_ok_ghost) (auto split: if_splits)
    show "lock_ok S s' (G(i := ?g))" unfolding s'_def using parts(2) by (simp add: lock_ok_ghost)
    have "(\<Sum>j\<in>ktids s. g_credit ((G(i := ?g)) j)) = Suc (\<Sum>j\<in>ktids s. g_credit (G j))"
      using sum_credit_upd [OF i, of G ?g] by simp
    then have len: "length (?xs @ [p]) = v + (\<Sum>j\<in>ktids s'. g_credit ((G(i := ?g)) j))"
      unfolding s'_def using v(2) by (simp del: fun_upd_apply)
    show "rq_ok s' ?loc (G(i := ?g))"
    proof (rule rq_okI [OF _ _ _ _ len])
      show "p' \<in> set (?xs @ [p]) \<longleftrightarrow> ?loc p' = In_ready" for p' using mem [of p'] by auto
    qed (use q'(2) dist mem [of p] v(1) t(3) in \<open>simp_all add: s'_def\<close>)
    show "sem_ok S s' ?loc (G(i := ?g))"
      unfolding s'_def using parts(4) t(3) by (simp add: sem_ok_loc, intro sem_ok_ghost) auto
    show "tcb_ok s' D ?loc (G(i := ?g))"
      unfolding s'_def using parts(5) t by (simp, intro tcb_ok_move) (auto simp: place_ok_def)
    show "tid_ok s' (G(i := ?g))"
      unfolding s'_def using parts(6) new by (simp, intro tid_ok_own) auto
    show "wake_ok S s' ?loc W (G(i := ?g))"
      unfolding s'_def using parts(7) t(3) by (simp, intro wake_ok_ghost wake_ok_loc) auto
    show "mem_ok s'"
      unfolding s'_def using q'(3) mem_okD(2) [OF parts(8)]
      by (intro mem_ok_rq_queue) (auto simp: mem_ok_brk parts(8))
  qed
  with run show ?thesis by (auto simp: s'_def intro!: movesI)
qed

lemma post_not_empty_moves:
  assumes inv: "inv S s D loc W G" and i: "i \<in> ktids s" and credit: "g_credit (G i) = Suc n"
  shows "\<exists>s'. post_not_empty s = Ok (0, s') \<and> moves S ((G i)\<lparr>g_credit := n\<rparr>) s D W G i s'"
proof -
  note parts = inv_parts [OF inv]
  obtain v where rep: "queue_rep (rq_queue (rqueue s)) (queue_items (rq_queue (rqueue s)))"
    and dist: "distinct (queue_items (rq_queue (rqueue s)))"
    and mem: "\<And>p. p \<in> set (queue_items (rq_queue (rqueue s))) \<longleftrightarrow> loc p = In_ready"
    and v: "rq_not_empty (rqueue s) = Sem_value v"
      "length (queue_items (rq_queue (rqueue s))) = v + (\<Sum>i \<in> ktids s. g_credit (G i))"
      "length (queue_items (rq_queue (rqueue s))) \<le> UTHREAD_MAX_THREADS" by (rule inv_rq [OF inv]) (rule that)
  let ?g = "(G i)\<lparr>g_credit := n\<rparr>"
  define s' where "s' = s\<lparr>rqueue := (rqueue s)\<lparr>rq_not_empty := Sem_value (Suc v)\<rparr>\<rparr>"
  have "int v < SEM_VALUE_MAX" using v by (simp add: UTHREAD_MAX_THREADS_def SEM_VALUE_MAX_def)
  then have run: "post_not_empty s = Ok (0, s')" by (simp add: post_not_empty_def v(1) s'_def)
  have "Suc (\<Sum>j\<in>ktids s. g_credit ((G(i := ?g)) j)) = (\<Sum>j\<in>ktids s. g_credit (G j))"
    using sum_credit_upd [OF i, of G ?g] credit by simp
  then have len: "length (queue_items (rq_queue (rqueue s))) = Suc v + (\<Sum>j\<in>ktids s'. g_credit ((G(i := ?g)) j))"
    unfolding s'_def using v(2) by (simp del: fun_upd_apply)
  have "inv S s' D loc W (G(i := ?g))"
    unfolding inv_def
  proof (intro conjI)
    show "rq_ok s' loc (G(i := ?g))"
      by (rule rq_okI [OF _ dist mem _ len]) (use rep in \<open>simp_all add: s'_def\<close>)
  qed (use parts i in \<open>auto simp: s'_def ghost_frame intro!: ki_ok_ghost sem_ok_ghost wake_ok_ghost\<close>)
  with run show ?thesis by (auto simp: s'_def intro!: movesI)
qed

lemma wait_not_empty_moves:
  assumes inv: "inv S s D loc W G" and i: "i \<in> ktids s" "G i = idle"
  shows "(\<exists>s'. wait_not_empty s = Ok (0, s') \<and> moves S (idle\<lparr>g_credit := 1\<rparr>) s D W G i s') \<or>
    wait_not_empty s = Block \<and> blocked_ok S s idle"
proof -
  note parts = inv_parts [OF inv]
  obtain v where rep: "queue_rep (rq_queue (rqueue s)) (queue_items (rq_queue (rqueue s)))"
    and dist: "distinct (queue_items (rq_queue (rqueue s)))"
    and mem: "\<And>p. p \<in> set (queue_items (rq_queue (rqueue s))) \<longleftrightarrow> loc p = In_ready"
    and v: "rq_not_empty (rqueue s) = Sem_value v"
      "length (queue_items (rq_queue (rqueue s))) = v + (\<Sum>i \<in> ktids s. g_credit (G i))"
      "length (queue_items (rq_queue (rqueue s))) \<le> UTHREAD_MAX_THREADS" by (rule inv_rq [OF inv]) (rule that)
  show ?thesis
  proof (cases v)
    case 0
    with v(1) show ?thesis by (simp add: wait_not_empty_def blocked_ok_def)
  next
    case (Suc v')
    let ?g = "(G i)\<lparr>g_credit := 1\<rparr>"
    define s' where "s' = s\<lparr>rqueue := (rqueue s)\<lparr>rq_not_empty := Sem_value v'\<rparr>\<rparr>"
    have run: "wait_not_empty s = Ok (0, s')" by (simp add: wait_not_empty_def v(1) Suc s'_def)
    have "(\<Sum>j\<in>ktids s. g_credit ((G(i := ?g)) j)) = Suc (\<Sum>j\<in>ktids s. g_credit (G j))"
      using sum_credit_upd [OF i(1), of G ?g] i(2) by (simp add: idle_def)
    then have len: "length (queue_items (rq_queue (rqueue s))) = v' + (\<Sum>j\<in>ktids s'. g_credit ((G(i := ?g)) j))"
      unfolding s'_def using v(2) Suc by (simp del: fun_upd_apply)
    have "inv S s' D loc W (G(i := ?g))"
      unfolding inv_def
    proof (intro conjI)
      show "rq_ok s' loc (G(i := ?g))"
        by (rule rq_okI [OF _ dist mem _ len]) (use rep in \<open>simp_all add: s'_def\<close>)
    qed (use parts i in \<open>auto simp: s'_def ghost_frame intro!: ki_ok_ghost sem_ok_ghost wake_ok_ghost\<close>)
    with run i(2) show ?thesis by (auto simp: s'_def intro!: movesI)
  qed
qed

lemma ready_not_empty:
  assumes inv: "inv S s D loc W G" and i: "i \<in> ktids s" and credit: "0 < g_credit (G i)"
  shows "queue_items (rq_queue (rqueue s)) \<noteq> []" "0 < queue_size (rq_queue (rqueue s))"
proof -
  obtain v where rep: "queue_rep (rq_queue (rqueue s)) (queue_items (rq_queue (rqueue s)))"
    and len: "length (queue_items (rq_queue (rqueue s))) = v + (\<Sum>i \<in> ktids s. g_credit (G i))"
    by (rule inv_rq [OF inv]) (rule that)
  with sum_credit_ge [OF i, of G] credit show "queue_items (rq_queue (rqueue s)) \<noteq> []" by auto
  with queue_size_rep [OF rep] show "0 < queue_size (rq_queue (rqueue s))" by simp
qed

lemma rq_dequeue_moves:
  assumes inv: "inv S s D loc W G" and i: "i \<in> ktids s" and credit: "g_credit (G i) = Suc n"
  shows "\<exists>p s'. rq_dequeue s = Ok (p, s') \<and> p \<noteq> NULL \<and> p \<noteq> exitall \<and> g_own (G i) p = None \<and>
    moves S ((G i)\<lparr>g_credit := n, g_own := (g_own (G i))(p \<mapsto> (READY, True))\<rparr>) s D W G i s'"
proof -
  note parts = inv_parts [OF inv]
  obtain v where rep: "queue_rep (rq_queue (rqueue s)) (queue_items (rq_queue (rqueue s)))"
    and dist: "distinct (queue_items (rq_queue (rqueue s)))"
    and mem: "\<And>p. p \<in> set (queue_items (rq_queue (rqueue s))) \<longleftrightarrow> loc p = In_ready"
    and v: "rq_not_empty (rqueue s) = Sem_value v"
      "length (queue_items (rq_queue (rqueue s))) = v + (\<Sum>i \<in> ktids s. g_credit (G i))"
    by (rule inv_rq [OF inv]) (rule that)
  from ready_not_empty(1) [OF inv i] credit obtain p ys where xs: "queue_items (rq_queue (rqueue s)) = p # ys"
    by (cases "queue_items (rq_queue (rqueue s))") auto
  from queue_dequeue_rep [of "rq_queue (rqueue s)" p ys] rep xs obtain q' where
    q': "queue_dequeue (rq_queue (rqueue s)) = Ok (p, q')" "queue_rep q' ys"
      "fmdom (nodes q') |\<subseteq>| fmdom (nodes (rq_queue (rqueue s)))" by auto
  have p: "loc p = In_ready" using mem [of p] xs by simp
  obtain t where t: "tcb_heap s p = Some t" using tcb_ok_None [OF parts(5), of p] p by (cases "tcb_heap s p") auto
  have t': "p \<noteq> NULL" "p \<noteq> exitall" "state t = READY" "p \<in> D"
    using tcb_ok_Some [OF parts(5) t] p by (auto simp: place_ok_def)
  have none: "g_own (G i) p = None" using tcb_ok_own [OF parts(5), of i p] p by (cases "g_own (G i) p") auto
  let ?g = "(G i)\<lparr>g_credit := n, g_own := (g_own (G i))(p \<mapsto> (READY, True))\<rparr>"
  let ?loc = "loc(p := Owned i)"
  define s' where "s' = s\<lparr>rqueue := (rqueue s)\<lparr>rq_queue := q'\<rparr>\<rparr>"
  have run: "rq_dequeue s = Ok (p, s')" by (simp add: rq_dequeue_def q'(1) s'_def)
  have "Suc (\<Sum>j\<in>ktids s. g_credit ((G(i := ?g)) j)) = (\<Sum>j\<in>ktids s. g_credit (G j))"
    using sum_credit_upd [OF i, of G ?g] credit by simp
  then have len: "length ys = v + (\<Sum>j\<in>ktids s'. g_credit ((G(i := ?g)) j))"
    unfolding s'_def using v(2) xs by (simp del: fun_upd_apply)
  have "inv S s' D ?loc W (G(i := ?g))"
    unfolding inv_def
  proof (intro conjI)
    show "rq_ok s' ?loc (G(i := ?g))"
    proof (rule rq_okI [OF _ _ _ _ len])
      show "p' \<in> set ys \<longleftrightarrow> ?loc p' = In_ready" for p' using mem [of p'] dist xs by auto
    qed (use q'(2) dist v(1) xs in \<open>simp_all add: s'_def\<close>)
    show "tcb_ok s' D ?loc (G(i := ?g))"
      unfolding s'_def using parts(5) t t' p by (simp, intro tcb_ok_move) (auto simp: place_ok_def)
    show "tid_ok s' (G(i := ?g))"
      unfolding s'_def using parts(6) by (simp, intro tid_ok_own) (auto dest: tid_ok_new tid_ok_made)
    show "mem_ok s'"
      unfolding s'_def using q'(3) mem_okD(2) [OF parts(8)] by (intro mem_ok_rq_queue parts(8)) auto
    show "sem_ok S s' ?loc (G(i := ?g))"
      unfolding s'_def using parts(4) p by (simp add: sem_ok_loc, intro sem_ok_ghost) auto
    show "wake_ok S s' ?loc W (G(i := ?g))"
      unfolding s'_def using parts(7) p by (simp, intro wake_ok_ghost wake_ok_loc) auto
    show "ki_ok s' (G(i := ?g))"
      unfolding s'_def using parts(1) i by (simp, intro ki_ok_ghost) auto
    show "lock_ok S s' (G(i := ?g))" unfolding s'_def using parts(2) by (simp add: lock_ok_ghost)
  qed
  with run t'(1,2) none show ?thesis by (auto simp: s'_def intro!: movesI)
qed

section \<open>Control blocks\<close>

lemma inv_tcb_update:
  assumes inv: "inv S s D loc W G" and i: "i \<in> ktids s" and own: "g_own (G i) p = Some (st, b)"
    and t: "tcb_heap s p = Some t" and f: "tcb_tid (f t) = tcb_tid t" "join_queue (f t) = join_queue t" "state (f t) = st'"
  shows "inv S (s\<lparr>tcb_heap := (tcb_heap s)(p \<mapsto> f t)\<rparr>) D loc W
    (G(i := (G i)\<lparr>g_own := (g_own (G i))(p \<mapsto> (st', b))\<rparr>))"
proof -
  note parts = inv_parts [OF inv]
  let ?s = "s\<lparr>tcb_heap := (tcb_heap s)(p \<mapsto> f t)\<rparr>"
  let ?g = "(G i)\<lparr>g_own := (g_own (G i))(p \<mapsto> (st', b))\<rparr>"
  obtain t' where t': "tcb_heap s p = Some t'" "loc p = Owned i" "b \<longleftrightarrow> p \<in> D"
    by (rule inv_owned [OF inv own]) (rule that)
  have dom: "dom (g_own ?g) = dom (g_own (G i))" using own by auto
  show ?thesis
    unfolding inv_def
  proof (intro conjI)
    have "cur_ok ?s ki ?g" if "cur_ok s ki (G i)" for ki
      using that dom t f(1) unfolding cur_ok_def by auto
    moreover have "cur_ok ?s ki (G j)" if "cur_ok s ki (G j)" for ki j
      using that t f(1) unfolding cur_ok_def by auto
    ultimately show "ki_ok ?s (G(i := ?g))" using parts(1) i unfolding ki_ok_def by auto
    show "lock_ok S ?s (G(i := ?g))" "rq_ok ?s loc (G(i := ?g))" using parts(2,3) by (simp_all add: ghost_frame)
    show "sem_ok S ?s loc (G(i := ?g))" using parts(4) by (simp add: sem_ok_ghost)
    show "wake_ok S ?s loc W (G(i := ?g))" using parts(7) by (simp add: wake_ok_ghost)
    show "tcb_ok ?s D loc (G(i := ?g))"
      unfolding tcb_ok_def
    proof (intro conjI allI impI)
      fix q u assume q: "tcb_heap ?s q = Some u"
      then obtain u0 where u0: "tcb_heap s q = Some u0" "join_queue u = join_queue u0" "q \<noteq> p \<Longrightarrow> u = u0"
        using t f(2) by (cases "q = p") auto
      note old = tcb_ok_Some [OF parts(5) u0(1)]
      show "q \<noteq> NULL" "q \<noteq> exitall" "queue_rep (join_queue u) []"
        using old u0(2) by auto
      show "place_ok D (G(i := ?g)) q (state u) (loc q)"
      proof (cases "q = p")
        case True
        with q f(3) t' show ?thesis by (auto simp: place_ok_def)
      next
        case False
        have eq: "g_own ((G(i := ?g)) j) q = g_own (G j) q" for j using False by simp
        show ?thesis unfolding u0(3) [OF False] place_ok_def eq using old unfolding place_ok_def by blast
      qed
    next
      fix j q assume "q \<in> dom (g_own ((G(i := ?g)) j))"
      then have "q \<in> dom (g_own (G j))" using dom by (cases "j = i") auto
      then show "loc q = Owned j" using tcb_ok_own [OF parts(5)] by blast
    next
      fix q assume "tcb_heap ?s q = None"
      then have "tcb_heap s q = None" by (auto split: if_splits)
      then show "loc q = Nowhere" "q \<notin> D" by (rule tcb_ok_None [OF parts(5)], rule tcb_ok_None_ctx [OF parts(5)])
    qed
    have "tid_ok ?s G"
      using parts(6) t f(1) unfolding tid_ok_def by (auto split: if_splits)
    then show "tid_ok ?s (G(i := ?g))" using dom by (simp add: tid_ok_ghost)
    show "mem_ok ?s" using parts(8) t f(2) unfolding mem_ok_def by (auto split: if_splits)
  qed
qed

lemma ok_tcb_update:
  assumes own: "g_own g p = Some (st, b)"
    and f: "\<And>t. tcb_tid (f t) = tcb_tid t" "\<And>t. join_queue (f t) = join_queue t" "\<And>t. state t = st \<Longrightarrow> state (f t) = st'"
    and k: "ok S (g\<lparr>g_own := (g_own g)(p \<mapsto> (st', b))\<rparr>) k"
  shows "ok S g (stmt (\<lambda>i. tcb_update p f) k)"
proof (rule ok_stmtI [OF _ k])
  fix i s D loc W G
  assume inv: "inv S s D loc W G" and i: "i \<in> ktids s" "G i = g"
  obtain t where t: "tcb_heap s p = Some t" "state t = st" "p \<noteq> NULL"
    using own i(2) by (auto intro: inv_owned [OF inv, of i p st b])
  from inv_tcb_update [OF inv i(1), of p st b t f st'] own i(2) t f
  have "inv S (s\<lparr>tcb_heap := (tcb_heap s)(p \<mapsto> f t)\<rparr>) D loc W (G(i := g\<lparr>g_own := (g_own g)(p \<mapsto> (st', b))\<rparr>))"
    by simp
  moreover have "tcb_update p f s = Ok (s\<lparr>tcb_heap := (tcb_heap s)(p \<mapsto> f t)\<rparr>)"
    using t by (simp add: tcb_update_def tcb_at_def)
  ultimately show "(\<exists>s'. tcb_update p f s = Ok s' \<and>
      moves S (g\<lparr>g_own := (g_own g)(p \<mapsto> (st', b))\<rparr>) s D W G i s') \<or> tcb_update p f s = Err Signed_overflow"
    using i(2) by (auto intro!: movesI)
qed

lemma ok_set_state:
  "g_own g p = Some (st, b) \<Longrightarrow> ok S (g\<lparr>g_own := (g_own g)(p \<mapsto> (st', b))\<rparr>) k \<Longrightarrow>
   ok S g (stmt (set_state p st') k)"
  unfolding set_state_def by (rule ok_tcb_update) auto

lemma ok_set_retval:
  assumes "g_own g p = Some (st, b)" "ok S g k"
  shows "ok S g (stmt (\<lambda>i. tcb_update p (\<lambda>t. t\<lparr>retval := v\<rparr>)) k)"
  by (rule ok_tcb_update [OF assms(1)]) (use assms in \<open>auto simp: fun_upd_idem\<close>)

lemma ok_has_state:
  assumes "g_own g p = Some (st, b)" "ok S g k"
  shows "ok S g (c_assert (has_state p st) k)"
proof (rule ok_assertI [OF _ assms(2)])
  fix i s D loc W G
  assume "inv S s D loc W G" "G i = g"
  with assms(1) tcb_at_owned [of S s D loc W G i p st b] show "has_state p st i s = Ok True"
    by (auto simp: has_state_def)
qed

lemma self_tcb_cur:
  assumes inv: "inv S s D loc W G" and i: "i \<in> ktids s" and cur: "g_cur (G i) = Some p"
  shows "self_tcb i s = Ok p"
proof -
  obtain ki where ki: "kinfo_at s i = Ok ki" "cur_ok s ki (G i)" by (rule inv_kinfo [OF inv i]) (rule that)
  with cur obtain t :: uthread_tcb_t where t: "current_tid ki = int (unat (tcb_tid t))" "unat (tcb_tid t) < UTHREAD_MAX_THREADS"
    "tcbs s (unat (tcb_tid t)) = p" unfolding cur_ok_def by blast
  with ki inv_libc(2) [OF inv] show ?thesis
    by (simp add: self_tcb_def uthread_self_def tcbs_at_def)
qed

lemma ok_self_tcb:
  assumes "g_cur g = Some p" "ok S g (k p)"
  shows "ok S g (expr self_tcb k)"
  by (rule ok_readI) (use assms self_tcb_cur in fastforce)

lemma sint_tid:
  assumes "unat (t :: tid_t) < UTHREAD_MAX_THREADS"
  shows "sint t = int (unat t)" "sint t < int UTHREAD_MAX_THREADS" "- 1 \<le> sint t"
proof -
  from assms have "int (unat t) < int UTHREAD_MAX_THREADS" by (simp only: of_nat_less_iff)
  then have u: "uint t < int UTHREAD_MAX_THREADS" by simp
  have "signed_take_bit 31 (uint t) = uint t"
  proof (rule signed_take_bit_int_eq_self)
    show "- (2 ^ 31) \<le> uint t" by (rule order_trans [OF _ uint_ge_0]) simp
    show "uint t < 2 ^ 31" using u by (rule less_trans) (simp add: UTHREAD_MAX_THREADS_def)
  qed
  then have "sint t = uint t" by (simp add: sint_uint)
  then show eq: "sint t = int (unat t)" by simp
  show "sint t < int UTHREAD_MAX_THREADS" "- 1 \<le> sint t" unfolding eq using assms by linarith+
qed

text \<open>The scheduler makes an owned thread the current one.\<close>

lemma ok_make_current:
  assumes own: "g_own g p = Some (st, b)" and new: "g_new g = None"
    and k: "\<And>w. ok S (g\<lparr>g_cur := Some p, g_pend := w\<rparr>) k"
  shows "ok S g (stmt (\<lambda>i s. bind_o (tcb_at s p) (\<lambda>t.
    kinfo_update (\<lambda>ki. ki\<lparr>current_tid := sint (tcb_tid t)\<rparr>) i s)) k)"
proof (rule ok_stmt_anyI)
  fix i s D loc W G
  assume inv: "inv S s D loc W G" and i: "i \<in> ktids s" "G i = g"
  note parts = inv_parts [OF inv]
  obtain ki where ki: "kinfo_at s i = Ok ki" "sched_of ki = g_sched (G i)" by (rule inv_kinfo [OF inv i(1)]) (rule that)
  obtain t where t: "tcb_heap s p = Some t" "loc p = Owned i" "p \<noteq> NULL"
    using own i(2) by (auto intro: inv_owned [OF inv, of i p st b])
  have "g_new (G j) \<noteq> Some (n, p)" for j n
  proof
    assume a: "g_new (G j) = Some (n, p)"
    with tid_ok_new [OF parts(6) a] t(3) have "p \<in> dom (g_own (G j))" by blast
    then have "loc p = Owned j" using tcb_ok_own [OF parts(5)] by blast
    with t(2) a new i(2) show False by simp
  qed
  with tid_ok_heap [OF parts(6) t(1)] have tid: "unat (tcb_tid t) < UTHREAD_MAX_THREADS" "tcbs s (unat (tcb_tid t)) = p" by auto
  let ?g = "g\<lparr>g_cur := Some p, g_pend := W p\<rparr>" and ?f = "\<lambda>ki. ki\<lparr>current_tid := sint (tcb_tid t)\<rparr>"
  have "cur_ok s (?f ki) ?g" using own t(1) tid sint_tid(1) [OF tid(1)] by (auto simp: cur_ok_def)
  then obtain s' where "kinfo_update ?f i s = Ok s'" "ktids s' = ktids s" "inv S s' D loc W (G(i := ?g))"
    using inv_kinfo_update [OF inv ki(1), of ?f ?g] ki(2) i(2) sint_tid(2,3) [OF tid(1)] by (auto simp: sched_of_def)
  with t k [of "W p"] i(2) show "\<exists>s' g'. bind_o (tcb_at s p) (\<lambda>t. kinfo_update (\<lambda>ki. ki\<lparr>current_tid := sint (tcb_tid t)\<rparr>) i s) = Ok s' \<and>
      moves S g' s D W G i s' \<and> ok S g' k"
    by (auto simp: tcb_at_def intro!: movesI exI [of _ ?g])
qed

end
