(* ===== verification/Prim_Sem.thy ===== *)
theory Prim_Sem
  imports Prim_Sched
begin

text \<open>
  Proof rules for the atoms of the semaphore operations. The interesting part is the relation
  between the counter, the waiting threads and the threads that were woken (\<open>sem_wake_ok\<close>).
\<close>

section \<open>Semaphores\<close>

lemma lock_unique:
  assumes "lock_ok S s G" "r \<in> g_locks (G i)" "r \<in> g_locks (G j)"
  shows "j = i"
  using assms unfolding lock_ok_def by metis

lemma cur_owned:
  assumes inv: "inv S s D loc W G" and cur: "g_cur (G j) = Some p"
  shows "loc p = Owned j"
proof -
  have "j \<in> ktids s" using inv cur unfolding inv_def ki_ok_def by (force simp: idle_def)
  then obtain ki where "cur_ok s ki (G j)" by (rule inv_kinfo [OF inv]) (rule that)
  with cur have "p \<in> dom (g_own (G j))" unfolding cur_ok_def by blast
  with inv show ?thesis unfolding inv_def tcb_ok_def by blast
qed

lemma sem_ok_upd:
  assumes ok: "sem_ok S s loc G" and lock: "lock_ok S s G" "Sem_lock m \<in> g_locks (G i)" "g_locks g = g_locks (G i)"
    and m: "m \<in> S" and x': "queue_rep (sem_queue x') xs" "distinct xs" "\<And>p. p \<in> set xs \<longleftrightarrow> loc' p = In_sem m" "0 \<le> counter x'"
    and other: "\<And>n p. n \<noteq> m \<Longrightarrow> loc' p = In_sem n \<longleftrightarrow> loc p = In_sem n"
    and g: "g_cnt g = None \<or> g_cnt g = Some (m, counter x')" "g_len g = None \<or> g_len g = Some (m, int (length xs))"
  shows "sem_ok S (s\<lparr>sems := (sems s)(m \<mapsto> x')\<rparr>) loc' (G(i := g))"
  unfolding sem_ok_def
proof (intro conjI ballI allI impI)
  fix n assume n: "n \<in> S"
  show "\<exists>x. sems (s\<lparr>sems := (sems s)(m \<mapsto> x')\<rparr>) n = Some x \<and> queue_ok (sem_queue x) \<and> distinct (queue_items (sem_queue x)) \<and>
        (\<forall>p. p \<in> set (queue_items (sem_queue x)) \<longleftrightarrow> loc' p = In_sem n) \<and> 0 \<le> counter x \<and>
        (\<forall>j c. g_cnt ((G(i := g)) j) = Some (n, c) \<longrightarrow> Sem_lock n \<in> g_locks ((G(i := g)) j) \<and> counter x = c) \<and>
        (\<forall>j k. g_len ((G(i := g)) j) = Some (n, k) \<longrightarrow> Sem_lock n \<in> g_locks ((G(i := g)) j) \<and> queue_size (sem_queue x) = k)"
  proof (cases "n = m")
    case True
    from ok n have old: "\<And>j c. g_cnt (G j) = Some (n, c) \<Longrightarrow> Sem_lock n \<in> g_locks (G j)"
      "\<And>j k. g_len (G j) = Some (n, k) \<Longrightarrow> Sem_lock n \<in> g_locks (G j)" unfolding sem_ok_def by blast+
    have cnt: "Sem_lock n \<in> g_locks ((G(i := g)) j) \<and> counter x' = c" if "g_cnt ((G(i := g)) j) = Some (n, c)" for j c
    proof (cases "j = i")
      case False
      with that old(1) [of j c] have "Sem_lock m \<in> g_locks (G j)" using True by simp
      with lock_unique [OF lock(1,2)] False show ?thesis by blast
    qed (use that g(1) lock(2,3) True in auto)
    have len: "Sem_lock n \<in> g_locks ((G(i := g)) j) \<and> int (length xs) = k" if "g_len ((G(i := g)) j) = Some (n, k)" for j k
    proof (cases "j = i")
      case False
      with that old(2) [of j k] have "Sem_lock m \<in> g_locks (G j)" using True by simp
      with lock_unique [OF lock(1,2)] False show ?thesis by blast
    qed (use that g(2) lock(2,3) True in auto)
    have "sems (s\<lparr>sems := (sems s)(m \<mapsto> x')\<rparr>) n = Some x'" using True by simp
    moreover have "queue_ok (sem_queue x')" using x'(1) queue_rep_iff by blast
    ultimately show ?thesis
      unfolding queue_rep_items [OF x'(1)] queue_size_rep [OF x'(1)] using x'(2-4) cnt len True
      by (intro exI [of _ x']) (unfold queue_rep_items [OF x'(1)] queue_size_rep [OF x'(1)], blast)
  next
    case False
    from ok n obtain x where x: "sems s n = Some x" "queue_ok (sem_queue x)" "distinct (queue_items (sem_queue x))"
        "\<forall>p. p \<in> set (queue_items (sem_queue x)) \<longleftrightarrow> loc p = In_sem n" "0 \<le> counter x"
        "\<forall>j c. g_cnt (G j) = Some (n, c) \<longrightarrow> Sem_lock n \<in> g_locks (G j) \<and> counter x = c"
        "\<forall>j k. g_len (G j) = Some (n, k) \<longrightarrow> Sem_lock n \<in> g_locks (G j) \<and> queue_size (sem_queue x) = k"
      unfolding sem_ok_def by blast
    have "g_cnt g \<noteq> Some (n, c)" "g_len g \<noteq> Some (n, c)" for c using g False by auto
    with x other [OF False] False show ?thesis by (intro exI [of _ x]) auto
  qed
next
  fix p n assume "loc' p = In_sem n"
  with other [of n p] ok m show "n \<in> S" unfolding sem_ok_def by (cases "n = m") auto
qed

lemma wake_ok_upd:
  assumes inv: "inv S s D loc W G" and lock: "Sem_lock m \<in> g_locks (G i)" "g_locks g = g_locks (G i)"
    and p: "loc p = Owned i \<or> loc p = In_sem m" "W p = None \<or> W p = Some m" "w = None \<or> w = Some m"
      "pl = Owned i \<or> pl = In_sem m \<and> w = Some m"
    and g: "\<And>q. g_cur g = Some q \<Longrightarrow> g_pend g = (W(p := w)) q" "g_new g = None" "g_made g = None"
      "g_posted g = None \<or> g_posted g = Some m"
    and x': "sem_wake_ok m x' (loc(p := pl)) (W(p := w)) (G(i := g))"
    and new: "\<And>j t. j \<noteq> i \<Longrightarrow> g_new (G j) \<noteq> Some (t, p) \<and> g_made (G j) \<noteq> Some (t, p)"
    and posted: "g_posted (G i) = None \<or> g_posted (G i) = Some m"
  shows "wake_ok S (s\<lparr>sems := (sems s)(m \<mapsto> x')\<rparr>) (loc(p := pl)) (W(p := w)) (G(i := g))"
proof -
  have wk: "wake_ok S s loc W G" using inv by (simp add: inv_def)
  note old = wake_okD [OF wk]
  have "finite (dom (W(p := w)))" using old(1) by simp
  moreover have "(loc(p := pl)) q = In_sem n \<or> (loc(p := pl)) q = In_ready \<or> (\<exists>j. (loc(p := pl)) q = Owned j)"
    if "(W(p := w)) q = Some n" for q n
    using that old(2) [of q n] p by (cases "q = p") auto
  moreover have "(W(p := w)) q = Some n" if "(loc(p := pl)) q = In_sem n" for q n
    using that old(3) [of q n] p by (cases "q = p") auto
  moreover have "g_pend ((G(i := g)) j) = (W(p := w)) q" if c: "g_cur ((G(i := g)) j) = Some q" for j q
  proof (cases "j = i")
    case False
    with c have "g_cur (G j) = Some q" by simp
    from cur_owned [OF inv this] old(4) [OF this] False p(1) show ?thesis by auto
  qed (use c g(1) in auto)
  moreover have "(W(p := w)) q = None"
    if "g_new ((G(i := g)) j) = Some (t, q) \<or> g_made ((G(i := g)) j) = Some (t, q)" for j t q
    using that g(2,3) old(5) [of j t q] new [of j t] by (cases "j = i"; cases "q = p") auto
  moreover have "Sem_lock n \<in> g_locks ((G(i := g)) j)" if "g_posted ((G(i := g)) j) = Some n" for j n
    using that old(6) [of j n] lock g(4) by (cases "j = i") auto
  moreover have "sem_wake_ok n x (loc(p := pl)) (W(p := w)) (G(i := g))"
    if n: "n \<in> S" "sems (s\<lparr>sems := (sems s)(m \<mapsto> x')\<rparr>) n = Some x" for n x
  proof (cases "n = m")
    case False
    then have "woken (loc(p := pl)) (W(p := w)) n = woken loc W n" using p by (auto simp: woken_def)
    moreover have "(\<exists>j. g_posted ((G(i := g)) j) = Some n) \<longleftrightarrow> (\<exists>j. g_posted (G j) = Some n)"
      using g(4) posted False by (metis fun_upd_apply option.distinct(1) option.inject)
    ultimately show ?thesis using old(7) [OF n(1), of x] n(2) False unfolding sem_wake_ok_def by (simp del: fun_upd_apply add: fun_upd_other)
  qed (use n x' in auto)
  ultimately show ?thesis unfolding wake_ok_def by blast
qed

lemma mem_ok_sem:
  assumes "mem_ok s" "fset (fmdom (nodes (sem_queue x))) \<subseteq> {..<brk s}"
  shows "mem_ok (s\<lparr>sems := (sems s)(m \<mapsto> x)\<rparr>)"
proof -
  have "fset (fmdom (nodes (sem_queue y))) \<subseteq> {..<brk s}" if "((sems s)(m \<mapsto> x)) n = Some y" for n y
    using that assms(2) mem_okD(3) [OF assms(1), of n y] by (cases "n = m") auto
  with assms(1) show ?thesis unfolding mem_ok_def by simp
qed

lemma lock_ok_sem:
  assumes "lock_ok S s G" "sems s m = Some x" "sem_lock x' = sem_lock x"
  shows "lock_ok S (s\<lparr>sems := (sems s)(m \<mapsto> x')\<rparr>) G"
proof -
  have "get_mutex (s\<lparr>sems := (sems s)(m \<mapsto> x')\<rparr>) r = get_mutex s r" for r
    using assms(2,3) by (cases r) auto
  with assms(1) show ?thesis by (simp add: lock_ok_def)
qed

text \<open>
  A change of semaphore \<open>m\<close> by a kernel thread that holds its lock, together with the move of
  control block \<open>p\<close> between the kernel thread and the queue of the semaphore.
\<close>

lemma inv_sem_update:
  assumes inv: "inv S s D loc W G" and i: "i \<in> ktids s" and m: "m \<in> S" "Sem_lock m \<in> g_locks (G i)"
    and x: "sems s m = Some x" "sem_lock x' = sem_lock x" "queue_rep (sem_queue x') xs" "distinct xs" "0 \<le> counter x'"
      "\<And>q. q \<in> set xs \<longleftrightarrow> (loc(p := pl)) q = In_sem m"
    and mem: "brk s \<le> b" "fset (fmdom (nodes (sem_queue x'))) \<subseteq> {..<b}"
    and t: "tcb_heap s p = Some t" "place_ok D (G(i := g)) p (state t) pl"
    and p: "loc p = Owned i \<or> loc p = In_sem m" "W p = None \<or> W p = Some m" "w = None \<or> w = Some m"
      "pl = Owned i \<or> pl = In_sem m \<and> w = Some m" "p \<in> D \<Longrightarrow> w = W p"
    and own: "\<And>q. q \<noteq> p \<Longrightarrow> g_own g q = g_own (G i) q" "p \<in> dom (g_own g) \<longleftrightarrow> pl = Owned i"
    and same: "g_locks g = g_locks (G i)" "g_sched g = g_sched (G i)" "g_credit g = g_credit (G i)"
      "g_new (G i) = None" "g_made (G i) = None" "g_new g = None" "g_made g = None" "g_boot g = g_boot (G i)"
    and cur: "g_cur g = None \<or> g_cur g = g_cur (G i) \<and> (g_cur g = Some p \<longrightarrow> pl = Owned i)"
      "\<And>q. g_cur g = Some q \<Longrightarrow> g_pend g = (W(p := w)) q"
    and posted: "g_posted (G i) = None \<or> g_posted (G i) = Some m" "g_posted g = None \<or> g_posted g = Some m"
    and reads: "g_cnt g = None \<or> g_cnt g = Some (m, counter x')" "g_len g = None \<or> g_len g = Some (m, int (length xs))"
    and wake: "sem_wake_ok m x' (loc(p := pl)) (W(p := w)) (G(i := g))"
  shows "moves S g s D W G i (s\<lparr>ncalls := nc, brk := b, sems := (sems s)(m \<mapsto> x')\<rparr>)"
proof -
  note parts = inv_parts [OF inv]
  let ?s = "s\<lparr>sems := (sems s)(m \<mapsto> x')\<rparr>"
  have eq: "s\<lparr>ncalls := nc, brk := b, sems := (sems s)(m \<mapsto> x')\<rparr> = ?s\<lparr>brk := b, ncalls := nc\<rparr>" by simp
  have pj: "loc p \<noteq> In_ready" "pl \<noteq> In_ready" using p by auto
  have oth: "(loc(p := pl)) q = In_sem n \<longleftrightarrow> loc q = In_sem n" if "n \<noteq> m" for n q
    using that p by (cases "q = p") auto
  have cur': "q \<in> dom (g_own g)" if "g_cur g = Some q" "q \<in> dom (g_own (G i))" for q
    using that cur(1) own by (cases "q = p") (auto simp: domIff)
  have "inv S (?s\<lparr>brk := b, ncalls := nc\<rparr>) D (loc(p := pl)) (W(p := w)) (G(i := g))"
    unfolding inv_def
  proof (intro conjI)
    show "ki_ok (?s\<lparr>brk := b, ncalls := nc\<rparr>) (G(i := g))"
      using ki_ok_ghost [OF parts(1) i same(2)] cur(1) cur' by simp metis
    show "lock_ok S (?s\<lparr>brk := b, ncalls := nc\<rparr>) (G(i := g))"
      using lock_ok_sem [OF parts(2) x(1,2)] same(1) by (simp add: lock_ok_ghost)
    show "rq_ok (?s\<lparr>brk := b, ncalls := nc\<rparr>) (loc(p := pl)) (G(i := g))"
      using parts(3) pj same(3) by (simp add: rq_ok_ghost rq_ok_loc)
    show "sem_ok S (?s\<lparr>brk := b, ncalls := nc\<rparr>) (loc(p := pl)) (G(i := g))"
      using sem_ok_upd [where loc' = "loc(p := pl)", OF parts(4) parts(2) m(2) same(1) m(1) x(3,4,6,5) oth reads] by simp
    show "tcb_ok (?s\<lparr>brk := b, ncalls := nc\<rparr>) D (loc(p := pl)) (G(i := g))"
      using parts(5) t pj p(1) own by (simp, intro tcb_ok_move) auto
    show "tid_ok (?s\<lparr>brk := b, ncalls := nc\<rparr>) (G(i := g))"
      using parts(6) same by (simp, intro tid_ok_own) auto
    have "g_new (G j) \<noteq> Some (n, p) \<and> g_made (G j) \<noteq> Some (n, p)" if "j \<noteq> i" for j n
    proof -
      have "p \<noteq> NULL" using tcb_ok_Some [OF parts(5) t(1)] by blast
      moreover have "p \<notin> dom (g_own (G j))" using tcb_ok_own [OF parts(5), of j p] p(1) that by auto
      ultimately show ?thesis using tid_ok_new [OF parts(6), of j n p] tid_ok_made [OF parts(6), of j n p] by metis
    qed
    then show "wake_ok S (?s\<lparr>brk := b, ncalls := nc\<rparr>) (loc(p := pl)) (W(p := w)) (G(i := g))"
      using wake_ok_upd [OF inv m(2) same(1) p(1-4) cur(2) same(6,7) posted(2) wake _ posted(1)] by simp
    have "mem_ok (s\<lparr>brk := b\<rparr>)" by (rule mem_ok_brk [OF parts(8) mem(1)])
    moreover have "?s\<lparr>brk := b\<rparr> = s\<lparr>brk := b, sems := (sems (s\<lparr>brk := b\<rparr>))(m \<mapsto> x')\<rparr>" by simp
    ultimately show "mem_ok (?s\<lparr>brk := b, ncalls := nc\<rparr>)" using mem(2) mem_ok_sem [of "s\<lparr>brk := b\<rparr>" x' m]
      by (simp only: mem_ok_frame) simp
  qed
  then show ?thesis
    unfolding eq using p(5) same(8) by (intro movesI [where loc' = "loc(p := pl)" and W' = "W(p := w)"]) auto
qed

lemma woken_finite: "wake_ok S s loc W G \<Longrightarrow> finite (woken loc W m)"
  by (rule finite_subset [OF _ wake_ok_finite]) (auto simp: woken_def)

text \<open>Steps on a semaphore that leave all control blocks where they are.\<close>

lemma inv_sem_counter:
  assumes inv: "inv S s D loc W G" and i: "i \<in> ktids s" and m: "m \<in> S" "Sem_lock m \<in> g_locks (G i)"
    and x: "sems s m = Some x" "0 \<le> n"
    and cur: "g_cur (G i) = Some p" "g_pend (G i) = None \<or> g_pend (G i) = Some m" "w = None \<or> w = Some m"
      "p \<in> D \<Longrightarrow> w = g_pend (G i)"
    and same: "g_new (G i) = None" "g_made (G i) = None"
    and posted: "g_posted (G i) = None \<or> g_posted (G i) = Some m" "pst = None \<or> pst = Some m"
    and reads: "cnt = None \<or> cnt = Some (m, n)" "len = None \<or> len = Some (m, queue_size (sem_queue x))"
    and wake: "queue_items (sem_queue x) \<noteq> [] \<Longrightarrow>
      n \<le> int (card (woken loc (W(p := w)) m)) + (if pst = Some m then 1 else 0)"
  shows "moves S ((G i)\<lparr>g_pend := w, g_cnt := cnt, g_len := len, g_posted := pst\<rparr>) s D W G i
    (s\<lparr>sems := (sems s)(m \<mapsto> x\<lparr>counter := n\<rparr>)\<rparr>)"
proof -
  note parts = inv_parts [OF inv]
  let ?g = "(G i)\<lparr>g_pend := w, g_cnt := cnt, g_len := len, g_posted := pst\<rparr>"
  have p: "loc p = Owned i" by (rule cur_owned [OF inv cur(1)])
  obtain ki where "cur_ok s ki (G i)" by (rule inv_kinfo [OF inv i]) (rule that)
  with cur(1) have "p \<in> dom (g_own (G i))" unfolding cur_ok_def by blast
  then obtain st b where own: "g_own (G i) p = Some (st, b)" by auto
  obtain t where t: "tcb_heap s p = Some t" "state t = st" "b \<longleftrightarrow> p \<in> D" by (rule inv_owned [OF inv own]) (rule that)
  obtain y where y: "sems s m = Some y" "queue_rep (sem_queue y) (queue_items (sem_queue y))"
    "distinct (queue_items (sem_queue y))" "\<And>q. q \<in> set (queue_items (sem_queue y)) \<longleftrightarrow> loc q = In_sem m"
    by (rule inv_sem [OF inv m(1)]) (rule that)
  have [simp]: "y = x" using y(1) x(1) by simp
  have W: "W p = g_pend (G i)" using wake_ok_cur [OF parts(7) cur(1)] by simp
  have loc: "loc(p := Owned i) = loc" using p by auto
  have "sem_wake_ok m (x\<lparr>counter := n\<rparr>) loc (W(p := w)) (G(i := ?g))"
    using wake unfolding sem_wake_ok_def by (auto split: if_splits)
  moreover have "place_ok D (G(i := ?g)) p (state t) (Owned i)"
    using own t by (auto simp: place_ok_def)
  ultimately have "moves S ?g s D W G i (s\<lparr>ncalls := ncalls s, brk := brk s, sems := (sems s)(m \<mapsto> x\<lparr>counter := n\<rparr>)\<rparr>)"
    using y t(1) p W cur same posted reads own x(2) mem_okD(3) [OF parts(8) x(1)] queue_size_rep [OF y(2)]
    by (intro inv_sem_update [OF inv i m x(1), where p = p and pl = "Owned i" and w = w and t = t and
          xs = "queue_items (sem_queue x)"])
      (auto simp: loc)
  then show ?thesis by simp
qed

lemma sem_wakeD:
  assumes "inv S s D loc W G" "m \<in> S" "sems s m = Some x" "queue_items (sem_queue x) \<noteq> []"
    "Sem_lock m \<in> g_locks (G i)"
  shows "counter x \<le> int (card (woken loc W m)) + (if g_posted (G i) = Some m then 1 else 0)"
proof -
  note parts = inv_parts [OF assms(1)]
  have "g_posted (G i) = Some m" if "g_posted (G j) = Some m" for j
    using that wake_ok_posted [OF parts(7) that] lock_unique [OF parts(2) assms(5)] by auto
  then have "(\<exists>j. g_posted (G j) = Some m) \<longleftrightarrow> g_posted (G i) = Some m" by blast
  with wake_ok_sem [OF parts(7) assms(2,3)] assms(4) show ?thesis unfolding sem_wake_ok_def by simp
qed

lemma ok_sem_inc:
  assumes m: "m \<in> S" "Sem_lock m \<in> g_locks g" and cur: "g_cur g = Some p" "g_pend g = None"
    and g: "g_new g = None" "g_made g = None" "g_posted g = None"
    and k: "ok S (g\<lparr>g_cnt := None, g_len := None, g_posted := Some m\<rparr>) k"
  shows "ok S g (stmt (\<lambda>i s. bind_o (sem_at s m) (\<lambda>x. bind_o (int_inc (counter x)) (\<lambda>n.
    sem_update m (\<lambda>x. x\<lparr>counter := n\<rparr>) s))) k)"
proof (rule ok_stmtI [OF _ k])
  fix i s D loc W G
  assume inv: "inv S s D loc W G" and i: "i \<in> ktids s" "G i = g"
  obtain x where x: "sems s m = Some x" "0 \<le> counter x" by (rule inv_sem [OF inv m(1)]) (rule that)
  have wake: "counter x + 1 \<le> int (card (woken loc (W(p := None)) m)) + 1" if "queue_items (sem_queue x) \<noteq> []"
  proof -
    have "W p = None" using wake_ok_cur [OF inv_parts(7) [OF inv], of i p] i cur by simp
    then have "W(p := None) = W" by auto
    with sem_wakeD [OF inv m(1) x(1) that, of i] i m g show ?thesis by simp
  qed
  show "(\<exists>s'. bind_o (sem_at s m) (\<lambda>x. bind_o (int_inc (counter x)) (\<lambda>n. sem_update m (\<lambda>x. x\<lparr>counter := n\<rparr>) s)) = Ok s' \<and>
        moves S (g\<lparr>g_cnt := None, g_len := None, g_posted := Some m\<rparr>) s D W G i s') \<or>
      bind_o (sem_at s m) (\<lambda>x. bind_o (int_inc (counter x)) (\<lambda>n. sem_update m (\<lambda>x. x\<lparr>counter := n\<rparr>) s)) = Err Signed_overflow"
  proof (cases "counter x < INT_MAX")
    case True
    have "moves S ((G i)\<lparr>g_pend := None, g_cnt := None, g_len := None, g_posted := Some m\<rparr>) s D W G i
        (s\<lparr>sems := (sems s)(m \<mapsto> x\<lparr>counter := counter x + 1\<rparr>)\<rparr>)"
      by (rule inv_sem_counter [OF inv i(1) m(1), of x "counter x + 1" p None]) (use m cur g i x wake in auto)
    moreover have "g\<lparr>g_pend := None\<rparr> = g" using cur(2) by simp
    ultimately have "moves S (g\<lparr>g_cnt := None, g_len := None, g_posted := Some m\<rparr>) s D W G i
        (s\<lparr>sems := (sems s)(m \<mapsto> x\<lparr>counter := counter x + 1\<rparr>)\<rparr>)" using i(2) by (metis (no_types))
    with True x show ?thesis by (simp add: sem_at_def sem_update_def)
  next
    case False
    with x show ?thesis by (simp add: sem_at_def int_inc_def)
  qed
qed

lemma inv_sem_read:
  assumes inv: "inv S s D loc W G" and i: "i \<in> ktids s" and m: "m \<in> S" "Sem_lock m \<in> g_locks (G i)"
    and x: "sems s m = Some x"
    and cur: "g_cur (G i) = Some p" "g_pend (G i) = None \<or> g_pend (G i) = Some m" "w = None \<or> w = Some m"
      "p \<in> D \<Longrightarrow> w = g_pend (G i)"
    and same: "g_new (G i) = None" "g_made (G i) = None"
    and posted: "g_posted (G i) = None \<or> g_posted (G i) = Some m" "pst = None \<or> pst = Some m"
    and reads: "cnt = None \<or> cnt = Some (m, counter x)" "len = None \<or> len = Some (m, queue_size (sem_queue x))"
    and wake: "queue_items (sem_queue x) \<noteq> [] \<Longrightarrow>
      counter x \<le> int (card (woken loc (W(p := w)) m)) + (if pst = Some m then 1 else 0)"
  shows "moves S ((G i)\<lparr>g_pend := w, g_cnt := cnt, g_len := len, g_posted := pst\<rparr>) s D W G i s"
proof -
  obtain y where "sems s m = Some y" "0 \<le> counter y" by (rule inv_sem [OF inv m(1)]) (rule that)
  with x have "0 \<le> counter x" by simp
  from inv_sem_counter [OF inv i m x this cur same posted reads wake]
  have "moves S ((G i)\<lparr>g_pend := w, g_cnt := cnt, g_len := len, g_posted := pst\<rparr>) s D W G i
    (s\<lparr>sems := (sems s)(m \<mapsto> x\<lparr>counter := counter x\<rparr>)\<rparr>)" .
  moreover have "s\<lparr>sems := (sems s)(m \<mapsto> x\<lparr>counter := counter x\<rparr>)\<rparr> = s"
    using x by (simp add: fun_upd_idem)
  ultimately show ?thesis by simp
qed

lemma ok_sem_len:
  assumes m: "m \<in> S" "Sem_lock m \<in> g_locks g" and cur: "g_cur g = Some p" "g_pend g = None"
    and g: "g_new g = None" "g_made g = None" "g_posted g = Some m"
    and pos: "\<And>n. 0 < n \<Longrightarrow> ok S (g\<lparr>g_cnt := None, g_len := Some (m, n)\<rparr>) (k n)"
    and zero: "ok S (g\<lparr>g_cnt := None, g_len := None, g_posted := None\<rparr>) (k 0)"
  shows "ok S g (expr (\<lambda>i s. bind_o (sem_at s m) (\<lambda>x. Ok (queue_size (sem_queue x)))) k)"
proof (rule ok_exprI)
  fix i s D loc W G
  assume inv: "inv S s D loc W G" and i: "i \<in> ktids s" "G i = g"
  obtain x where x: "sems s m = Some x" "queue_rep (sem_queue x) (queue_items (sem_queue x))"
    by (rule inv_sem [OF inv m(1)]) (rule that)
  have "W p = None" using wake_ok_cur [OF inv_parts(7) [OF inv], of i p] i cur by simp
  then have W: "W(p := None) = W" by auto
  note wake = sem_wakeD [OF inv m(1) x(1), of i] and size = queue_size_rep [OF x(2)]
  note read = inv_sem_read [OF inv i(1) m(1) _ x(1), of p None]
  show "\<exists>v g'. bind_o (sem_at s m) (\<lambda>x. Ok (queue_size (sem_queue x))) = Ok v \<and> moves S g' s D W G i s \<and> ok S g' (k v)"
  proof (cases "queue_items (sem_queue x)")
    case Nil
    have "moves S ((G i)\<lparr>g_pend := None, g_cnt := None, g_len := None, g_posted := None\<rparr>) s D W G i s"
      by (rule read) (use m cur g i Nil in auto)
    moreover have "(G i)\<lparr>g_pend := None, g_cnt := None, g_len := None, g_posted := None\<rparr> =
      g\<lparr>g_cnt := None, g_len := None, g_posted := None\<rparr>" using i cur by simp
    ultimately show ?thesis using zero x(1) size Nil by (auto simp: sem_at_def)
  next
    case (Cons a as)
    have "moves S ((G i)\<lparr>g_pend := None, g_cnt := None, g_len := Some (m, queue_size (sem_queue x)), g_posted := Some m\<rparr>) s D W G i s"
      by (rule read) (use m cur g i Cons wake W in auto)
    moreover have "(G i)\<lparr>g_pend := None, g_cnt := None, g_len := Some (m, queue_size (sem_queue x)), g_posted := Some m\<rparr> =
      g\<lparr>g_cnt := None, g_len := Some (m, queue_size (sem_queue x))\<rparr>" using i cur g by simp
    ultimately show ?thesis using pos [of "queue_size (sem_queue x)"] x(1) size Cons by (auto simp: sem_at_def)
  qed
qed

lemma ok_sem_counter:
  assumes m: "m \<in> S" "Sem_lock m \<in> g_locks g" and cur: "g_cur g = Some p" "g_pend g = None \<or> g_pend g = Some m" "g_own g p = Some (st, False)"
    and g: "g_new g = None" "g_made g = None" "g_posted g = None"
    and zero: "ok S (g\<lparr>g_pend := Some m, g_cnt := Some (m, 0), g_len := None\<rparr>) (k 0)"
    and pos: "\<And>c. 0 < c \<Longrightarrow> ok S (g\<lparr>g_cnt := Some (m, c), g_len := None\<rparr>) (k c)"
  shows "ok S g (expr (\<lambda>i s. bind_o (sem_at s m) (\<lambda>x. Ok (counter x))) k)"
proof (rule ok_exprI)
  fix i s D loc W G
  assume inv: "inv S s D loc W G" and i: "i \<in> ktids s" "G i = g"
  have D: "p \<notin> D" using cur(3) i(2) by (auto intro: inv_owned [OF inv, of i p st False])
  obtain x where x: "sems s m = Some x" "0 \<le> counter x" by (rule inv_sem [OF inv m(1)]) (rule that)
  have "W p = g_pend g" using wake_ok_cur [OF inv_parts(7) [OF inv], of i p] i cur by simp
  then have W: "W(p := g_pend g) = W" by auto
  note wake = sem_wakeD [OF inv m(1) x(1), of i]
  note read = inv_sem_read [OF inv i(1) m(1) _ x(1), of p]
  show "\<exists>v g'. bind_o (sem_at s m) (\<lambda>x. Ok (counter x)) = Ok v \<and> moves S g' s D W G i s \<and> ok S g' (k v)"
  proof (cases "counter x = 0")
    case True
    have "moves S ((G i)\<lparr>g_pend := Some m, g_cnt := Some (m, 0), g_len := None, g_posted := None\<rparr>) s D W G i s"
      by (rule read) (use m cur g i D True in auto)
    moreover have "(G i)\<lparr>g_pend := Some m, g_cnt := Some (m, 0), g_len := None, g_posted := None\<rparr> =
      g\<lparr>g_pend := Some m, g_cnt := Some (m, 0), g_len := None\<rparr>" using i g by simp
    ultimately show ?thesis using zero x(1) True by (auto simp: sem_at_def)
  next
    case False
    have "moves S ((G i)\<lparr>g_pend := g_pend g, g_cnt := Some (m, counter x), g_len := None, g_posted := None\<rparr>) s D W G i s"
      by (rule read) (use m cur g i D wake W in auto)
    moreover have "(G i)\<lparr>g_pend := g_pend g, g_cnt := Some (m, counter x), g_len := None, g_posted := None\<rparr> =
      g\<lparr>g_cnt := Some (m, counter x), g_len := None\<rparr>" using i g by simp
    ultimately show ?thesis using pos [of "counter x"] x False by (auto simp: sem_at_def)
  qed
qed

lemma ok_sem_dec:
  assumes m: "m \<in> S" "Sem_lock m \<in> g_locks g" and cur: "g_cur g = Some p" "g_pend g = None \<or> g_pend g = Some m" "g_own g p = Some (st, False)"
    and g: "g_new g = None" "g_made g = None" "g_posted g = None" "g_cnt g = Some (m, c)" "0 < c"
    and k: "ok S (g\<lparr>g_pend := None, g_cnt := None, g_len := None\<rparr>) k"
  shows "ok S g (stmt (\<lambda>i s. bind_o (sem_at s m) (\<lambda>x. bind_o (assert_o (counter x > 0)) (\<lambda>_.
    bind_o (int_dec (counter x)) (\<lambda>n. sem_update m (\<lambda>x. x\<lparr>counter := n\<rparr>) s)))) k)"
proof (rule ok_stmtI [OF _ k])
  fix i s D loc W G
  assume inv: "inv S s D loc W G" and i: "i \<in> ktids s" "G i = g"
  have D: "p \<notin> D" using cur(3) i(2) by (auto intro: inv_owned [OF inv, of i p st False])
  obtain x where x: "sems s m = Some x" "\<And>i c. g_cnt (G i) = Some (m, c) \<Longrightarrow> Sem_lock m \<in> g_locks (G i) \<and> counter x = c"
    by (rule inv_sem [OF inv m(1)]) (rule that)
  from x(2) [of i c] i(2) g(4) have c: "counter x = c" by simp
  have Wp: "W p = g_pend g" using wake_ok_cur [OF inv_parts(7) [OF inv], of i p] i cur by simp
  have p: "loc p = Owned i" using cur_owned [OF inv, of i p] i cur by simp
  have fin: "finite (woken loc W m)" by (rule woken_finite [OF inv_parts(7) [OF inv]])
  have wk: "c - 1 \<le> int (card (woken loc (W(p := None)) m))" if "queue_items (sem_queue x) \<noteq> []"
  proof -
    from sem_wakeD [OF inv m(1) x(1) that, of i] i m g c have "c \<le> int (card (woken loc W m))" by simp
    moreover have "woken loc (W(p := None)) m = woken loc W m - {p}" by (auto simp: woken_def)
    moreover have "card (woken loc W m) \<le> Suc (card (woken loc W m - {p}))" using fin by (simp add: card_Diff_singleton_if) linarith
    ultimately show ?thesis by simp
  qed
  have "moves S ((G i)\<lparr>g_pend := None, g_cnt := None, g_len := None, g_posted := None\<rparr>) s D W G i
      (s\<lparr>sems := (sems s)(m \<mapsto> x\<lparr>counter := c - 1\<rparr>)\<rparr>)"
    by (rule inv_sem_counter [OF inv i(1) m(1) _ x(1), of "c - 1" p]) (use m cur g i D wk in auto)
  moreover have "(G i)\<lparr>g_pend := None, g_cnt := None, g_len := None, g_posted := None\<rparr> =
      g\<lparr>g_pend := None, g_cnt := None, g_len := None\<rparr>" using i g by simp
  moreover have "bind_o (sem_at s m) (\<lambda>x. bind_o (assert_o (counter x > 0)) (\<lambda>_.
      bind_o (int_dec (counter x)) (\<lambda>n. sem_update m (\<lambda>x. x\<lparr>counter := n\<rparr>) s))) =
    Ok (s\<lparr>sems := (sems s)(m \<mapsto> x\<lparr>counter := c - 1\<rparr>)\<rparr>)"
    using x(1) c g(5) by (simp add: sem_at_def sem_update_def)
  ultimately show "(\<exists>s'. bind_o (sem_at s m) (\<lambda>x. bind_o (assert_o (counter x > 0)) (\<lambda>_.
      bind_o (int_dec (counter x)) (\<lambda>n. sem_update m (\<lambda>x. x\<lparr>counter := n\<rparr>) s))) = Ok s' \<and>
      moves S (g\<lparr>g_pend := None, g_cnt := None, g_len := None\<rparr>) s D W G i s') \<or>
    bind_o (sem_at s m) (\<lambda>x. bind_o (assert_o (counter x > 0)) (\<lambda>_.
      bind_o (int_dec (counter x)) (\<lambda>n. sem_update m (\<lambda>x. x\<lparr>counter := n\<rparr>) s))) = Err Signed_overflow"
    by simp
qed

lemma ok_sem_nonneg:
  assumes "m \<in> S" "ok S g k"
  shows "ok S g (c_assert (\<lambda>i s. bind_o (sem_at s m) (\<lambda>x. Ok (counter x \<ge> 0))) k)"
proof (rule ok_assertI [OF _ assms(2)])
  fix i s D loc W G
  assume inv: "inv S s D loc W G"
  obtain x where "sems s m = Some x" "0 \<le> counter x" by (rule inv_sem [OF inv assms(1)]) (rule that)
  then show "bind_o (sem_at s m) (\<lambda>x. Ok (counter x \<ge> 0)) = Ok True" by (simp add: sem_at_def)
qed

lemma ok_sem_dequeue:
  assumes m: "m \<in> S" "Sem_lock m \<in> g_locks g"
    and g: "g_new g = None" "g_made g = None" "g_posted g = Some m" "g_len g = Some (m, n)" "0 < n"
    and k: "\<And>p. p \<noteq> NULL \<Longrightarrow> g_own g p = None \<Longrightarrow>
      ok S (g\<lparr>g_own := (g_own g)(p \<mapsto> (WAITING_SEM, True)), g_cnt := None, g_len := None, g_posted := None\<rparr>) (k p)"
  shows "ok S g (call (\<lambda>i. dequeue_ref (Sem_queue m)) k)"
proof (rule ok_callI)
  fix i s D loc W G
  assume inv: "inv S s D loc W G" and i: "i \<in> ktids s" "G i = g"
  note parts = inv_parts [OF inv]
  obtain x where x: "sems s m = Some x" "queue_rep (sem_queue x) (queue_items (sem_queue x))"
    "distinct (queue_items (sem_queue x))" "\<And>p. p \<in> set (queue_items (sem_queue x)) \<longleftrightarrow> loc p = In_sem m"
    "0 \<le> counter x" "\<And>i n. g_len (G i) = Some (m, n) \<Longrightarrow> Sem_lock m \<in> g_locks (G i) \<and> queue_size (sem_queue x) = n"
    by (rule inv_sem [OF inv m(1)]) (rule that)
  from x(6) [of i n] i g have "queue_items (sem_queue x) \<noteq> []" using queue_size_rep [OF x(2)] by auto
  then obtain p ys where xs: "queue_items (sem_queue x) = p # ys" by (cases "queue_items (sem_queue x)") auto
  from queue_dequeue_rep [of "sem_queue x" p ys] x(2) xs obtain q' where
    q': "queue_dequeue (sem_queue x) = Ok (p, q')" "queue_rep q' ys" "fmdom (nodes q') |\<subseteq>| fmdom (nodes (sem_queue x))" by auto
  have p: "loc p = In_sem m" using x(4) [of p] xs by simp
  obtain t where t: "tcb_heap s p = Some t" using tcb_ok_None [OF parts(5), of p] p by (cases "tcb_heap s p") auto
  have t': "p \<noteq> NULL" "state t = WAITING_SEM" "p \<in> D"
    using tcb_ok_Some [OF parts(5) t] p by (auto simp: place_ok_def)
  have none: "g_own g p = None" using tcb_ok_own [OF parts(5), of i p] p i by (cases "g_own g p") auto
  have Wp: "W p = Some m" by (rule wake_ok_queued [OF parts(7) p])
  let ?g = "g\<lparr>g_own := (g_own g)(p \<mapsto> (WAITING_SEM, True)), g_cnt := None, g_len := None, g_posted := None\<rparr>"
  have "counter x \<le> int (card (woken loc W m)) + 1"
    using sem_wakeD [OF inv m(1) x(1), of i] xs i m g by simp
  moreover have "woken (loc(p := Owned i)) W m = insert p (woken loc W m)" "p \<notin> woken loc W m"
    using Wp p by (auto simp: woken_def)
  ultimately have "sem_wake_ok m (x\<lparr>sem_queue := q'\<rparr>) (loc(p := Owned i)) W (G(i := ?g))"
    using woken_finite [OF parts(7), of m] unfolding sem_wake_ok_def by (auto simp: card_insert_if)
  moreover have W: "W(p := Some m) = W" using Wp by auto
  moreover have "place_ok D (G(i := ?g)) p (state t) (Owned i)" using t' by (auto simp: place_ok_def intro: exI [of _ True])
  moreover have cur: "g_cur g \<noteq> Some p" using cur_owned [OF inv, of i p] i p by auto
  moreover have "\<And>q. g_cur g = Some q \<Longrightarrow> g_pend g = W q" using wake_ok_cur [OF parts(7), of i] i by simp
  ultimately have "moves S ?g s D W G i (s\<lparr>ncalls := ncalls s, brk := brk s, sems := (sems s)(m \<mapsto> x\<lparr>sem_queue := q'\<rparr>)\<rparr>)"
    using q'(2,3) x t p Wp i m g none xs mem_okD(3) [OF parts(8) x(1)]
    by (intro inv_sem_update [OF inv i(1) m(1) _ x(1), where p = p and pl = "Owned i" and w = "Some m" and t = t and xs = ys])
      auto
  moreover have "dequeue_ref (Sem_queue m) s = Ok (p, s\<lparr>sems := (sems s)(m \<mapsto> x\<lparr>sem_queue := q'\<rparr>)\<rparr>)"
    using x(1) q'(1) by (simp add: dequeue_ref_def)
  ultimately show "(\<exists>v s' g'. dequeue_ref (Sem_queue m) s = Ok (v, s') \<and> moves S g' s D W G i s' \<and> ok S g' (k v)) \<or>
      dequeue_ref (Sem_queue m) s = Block \<and> blocked_ok S s g"
    using k [OF t'(1) none] by auto
qed

text \<open>The scheduler puts the current thread into the queue of the semaphore it waits for.\<close>

lemma sem_enqueue_moves:
  assumes inv: "inv S s D loc W G" and i: "i \<in> ktids s" and m: "m \<in> S" "Sem_lock m \<in> g_locks (G i)"
    and cur: "g_cur (G i) = Some p" "g_pend (G i) = Some m" "g_own (G i) p = Some (WAITING_SEM, True)"
    and g: "g_new (G i) = None" "g_made (G i) = None" "g_posted (G i) = None" "g_cnt (G i) = Some (m, 0)" "g_len (G i) = None"
  shows "\<exists>s'. enqueue_ref (Sem_queue m) p s = Ok (0, s') \<and> moves S (release p (G i)) s D W G i s'"
proof -
  note parts = inv_parts [OF inv]
  obtain x where x: "sems s m = Some x" "queue_rep (sem_queue x) (queue_items (sem_queue x))"
    "distinct (queue_items (sem_queue x))" "\<And>p. p \<in> set (queue_items (sem_queue x)) \<longleftrightarrow> loc p = In_sem m"
    "\<And>i c. g_cnt (G i) = Some (m, c) \<Longrightarrow> Sem_lock m \<in> g_locks (G i) \<and> counter x = c"
    "length (queue_items (sem_queue x)) \<le> UTHREAD_MAX_THREADS"
    by (rule inv_sem [OF inv m(1)]) (rule that)
  let ?xs = "queue_items (sem_queue x)"
  from x(5) [OF g(4)] have c: "counter x = 0" by simp
  obtain t where t: "tcb_heap s p = Some t" "state t = WAITING_SEM" "loc p = Owned i" "p \<noteq> NULL" "p \<in> D"
    by (rule inv_owned [OF inv cur(3)]) (rule that, simp_all)
  have Wp: "W p = Some m" using wake_ok_cur [OF parts(7) cur(1)] cur(2) by simp
  have fresh: "brk s |\<notin>| fmdom (nodes (sem_queue x))" using mem_okD(3) [OF parts(8) x(1)] by auto
  have "int (length ?xs) < INT_MAX" using x(6) by (simp add: UTHREAD_MAX_THREADS_def INT_MAX_def)
  with queue_enqueue_rep [OF x(2) t(4) _ fresh] malloc_inv [OF inv] obtain q' where
    q': "queue_enqueue (brk s) (sem_queue x) p = Ok (0, q')" "queue_rep q' (?xs @ [p])"
      "fmdom (nodes q') = finsert (brk s) (fmdom (nodes (sem_queue x)))" by auto
  have dist: "distinct (?xs @ [p])" using x(3,4) t(3) by auto
  have mem: "q \<in> set (?xs @ [p]) \<longleftrightarrow> (loc(p := In_sem m)) q = In_sem m" for q using x(4) [of q] by auto
  have wake: "sem_wake_ok m (x\<lparr>sem_queue := q'\<rparr>) (loc(p := In_sem m)) W (G(i := release p (G i)))"
    using c by (simp add: sem_wake_ok_def)
  have W: "W(p := Some m) = W" using Wp by auto
  have nodes: "fset (fmdom (nodes q')) \<subseteq> {..<Suc (brk s)}"
    using q'(3) mem_okD(3) [OF parts(8) x(1)] by auto
  have "moves S (release p (G i)) s D W G i
    (s\<lparr>ncalls := Suc (ncalls s), brk := Suc (brk s), sems := (sems s)(m \<mapsto> x\<lparr>sem_queue := q'\<rparr>)\<rparr>)"
    using wake q'(2) t Wp cur g c nodes
    by (intro inv_sem_update [OF inv i m x(1) _ _ dist _ mem, where w = "Some m" and t = t])
      (auto simp: W place_ok_def)
  moreover have "enqueue_ref (Sem_queue m) p s =
      Ok (0, s\<lparr>ncalls := Suc (ncalls s), brk := Suc (brk s), sems := (sems s)(m \<mapsto> x\<lparr>sem_queue := q'\<rparr>)\<rparr>)"
    using malloc_inv [OF inv] x(1) q'(1) by (simp add: enqueue_ref_def)
  ultimately show ?thesis by blast
qed

lemma ok_null_check: "p \<noteq> NULL \<Longrightarrow> ok S g k \<Longrightarrow> ok S g (c_assert (\<lambda>i s. Ok (p \<noteq> NULL)) k)"
  by (rule ok_assertI) auto

end
