(* ===== verification/Prim_Create.thy ===== *)
theory Prim_Create
  imports Prim_Sem
begin

text \<open>
  Proof rules for the atoms that end a thread and that create one: taking an identifier,
  allocating the control block, filling it in, allocating the stack.
\<close>

section \<open>Exiting\<close>

lemma ok_exit_read:
  assumes own: "g_own g p = Some (FINISHED, b)" and cur: "g_cur g = Some p" "g_pend g = None"
    and g: "g_new g = None" and k: "ok S (release p g) (k 0)"
  shows "ok S g (expr (\<lambda>i s. bind_o (tcb_at s p) (\<lambda>t. Ok (queue_size (join_queue t)))) k)"
proof (rule ok_exprI)
  fix i s D loc W G
  assume inv: "inv S s D loc W G" and i: "i \<in> ktids s" "G i = g"
  note parts = inv_parts [OF inv]
  obtain t where t: "tcb_heap s p = Some t" "state t = FINISHED" "loc p = Owned i" "p \<noteq> NULL" "queue_rep (join_queue t) []"
    using own i(2) by (auto intro: inv_owned [OF inv, of i p FINISHED b])
  have Wp: "W p = None" using wake_ok_cur [OF parts(7), of i p] i cur by simp
  let ?loc = "loc(p := Zombie)"
  have "inv S s D ?loc W (G(i := release p g))"
    unfolding inv_def
  proof (intro conjI)
    show "ki_ok s (G(i := release p g))" using parts(1) i cur by (intro ki_ok_ghost) auto
    show "lock_ok S s (G(i := release p g))" using parts(2) i by (simp add: lock_ok_ghost)
    show "rq_ok s ?loc (G(i := release p g))" using parts(3) i t(3) by (simp add: rq_ok_ghost rq_ok_loc)
    show "sem_ok S s ?loc (G(i := release p g))"
      using parts(4) t(3) i by (intro sem_ok_ghost) (auto simp: sem_ok_loc)
    show "tcb_ok s D ?loc (G(i := release p g))"
      using parts(5) t i by (intro tcb_ok_move) (auto simp: place_ok_def)
    show "tid_ok s (G(i := release p g))" using parts(6) g i by (intro tid_ok_own) auto
    show "wake_ok S s ?loc W (G(i := release p g))"
      using parts(7) t(3) Wp cur i by (intro wake_ok_ghost wake_ok_loc) auto
  qed (rule parts(8))
  then have "moves S (release p g) s D W G i s" by (intro movesI) (auto simp: i)
  with t k show "\<exists>v g'. bind_o (tcb_at s p) (\<lambda>t. Ok (queue_size (join_queue t))) = Ok v \<and> moves S g' s D W G i s \<and> ok S g' (k v)"
    using queue_size_rep [OF t(5)] by (auto simp: tcb_at_def)
qed

section \<open>Creating a thread\<close>

lemma ok_take_tid:
  assumes g: "g_new g = None" and k: "\<And>t. t < UTHREAD_MAX_THREADS \<Longrightarrow> ok S (g\<lparr>g_new := Some (t, NULL)\<rparr>) (k (int t))"
  shows "ok S g (call (\<lambda>i s. bind_o (bitvec_first_cleared_index (bitvec s)) (\<lambda>tid.
       if tid < 0 then Ok (1, s)
       else bind_o (bitvec_set (bitvec s) tid) (\<lambda>bv. Ok (tid + UTHREAD_TID_MAIN, s\<lparr>bitvec := bv\<rparr>)))) k)"
proof (rule ok_callI)
  fix i s D loc W G
  assume inv: "inv S s D loc W G" and i: "i \<in> ktids s" "G i = g" and free: "tid_free s"
  note parts = inv_parts [OF inv]
  note tid = tid_okD [OF parts(6)]
  from bvid.alloc [OF tid(1)] free obtain t bv where t: "bitvec_first_cleared_index (bitvec s) = Ok (int t)"
    "t < UTHREAD_MAX_THREADS" "t \<notin> used_tids s" "bitvec_set (bitvec s) (int t) = Ok bv"
    "bv_rep UTHREAD_MAX_THREADS bv (insert t (used_tids s))" unfolding tid_free_def by blast
  let ?s = "s\<lparr>bitvec := bv\<rparr>" and ?g = "g\<lparr>g_new := Some (t, NULL)\<rparr>"
  have used: "used_tids ?s = insert t (used_tids s)" using t(5) by (auto simp: used_tids_def bv_rep_def)
  have null: "tcbs s t = NULL" using tid(2) [OF t(2)] t(3) by blast
  have eq: "g_made ((G(i := ?g)) j) = g_made (G j)" "g_own ((G(i := ?g)) j) = g_own (G j)" for j using i(2) by auto
  have new: "g_new (G j) = Some (n, p) \<and> n \<noteq> t \<or> j = i \<and> n = t \<and> p = NULL" if "g_new ((G(i := ?g)) j) = Some (n, p)" for j n p
    using that tid(3) [of j n p] t(3) by (cases "j = i") auto
  have "tid_ok ?s (G(i := ?g))"
    unfolding tid_ok_def used eq
  proof (intro conjI allI impI)
    show "bv_rep UTHREAD_MAX_THREADS (bitvec ?s) (insert t (used_tids s))" using t(5) by simp
    show "n \<in> insert t (used_tids s)" if "n < UTHREAD_MAX_THREADS" "tcbs ?s n \<noteq> NULL" for n using tid(2) that by simp
    show "n \<in> insert t (used_tids s)" "tcbs ?s n = p" "p = NULL \<or> p \<in> dom (g_own (G j))"
      if "g_new ((G(i := ?g)) j) = Some (n, p)" for j n p
      using new [OF that] tid(3) [of j n p] null by auto
    show "j' = j" if "g_new ((G(i := ?g)) j) = Some (n, p)" "g_new ((G(i := ?g)) j') = Some (n, q)" for j j' n p q
      using new [OF that(1)] new [OF that(2)] tid(4) [of j n p j' q] by auto
    show "n < UTHREAD_MAX_THREADS" "tcbs ?s n = p" "p \<in> dom (g_own (G j))" if "g_made (G j) = Some (n, p)" for j n p
      using tid(5) [OF that] by auto
    show "(\<exists>j n. g_new ((G(i := ?g)) j) = Some (n, p)) \<or> unat (tcb_tid tc) < UTHREAD_MAX_THREADS \<and> tcbs ?s (unat (tcb_tid tc)) = p"
      if "tcb_heap ?s p = Some tc" for p tc
    proof -
      have "(\<exists>j n. g_new (G j) = Some (n, p)) \<or> unat (tcb_tid tc) < UTHREAD_MAX_THREADS \<and> tcbs s (unat (tcb_tid tc)) = p"
        using tid(6) [of p tc] that by simp
      moreover have "\<exists>j n. g_new ((G(i := ?g)) j) = Some (n, p)" if "g_new (G j) = Some (n, p)" for j n
        using that g i(2) by (intro exI [of _ j] exI [of _ n]) auto
      ultimately show ?thesis by (simp del: fun_upd_apply) blast
    qed
  qed
  moreover have "wake_ok S ?s loc W (G(i := ?g))"
  proof -
    note w = wake_okD [OF parts(7)]
    have "W NULL = None"
    proof (cases "W NULL")
      case (Some m)
      then have "loc NULL \<noteq> Nowhere" using w(2) by force
      then obtain tc where "tcb_heap s NULL = Some tc" using tcb_ok_None [OF parts(5)] by (cases "tcb_heap s NULL") auto
      then show ?thesis using tcb_ok_Some [OF parts(5)] by blast
    qed
    then have "W p = None" if "g_new ((G(i := ?g)) j) = Some (n, p) \<or> g_made ((G(i := ?g)) j) = Some (n, p)" for j n p
      using that new [of j n p] w(5) [of j n p] eq(1) [of j] by metis
    moreover have "g_cur ((G(i := ?g)) j) = g_cur (G j)" "g_pend ((G(i := ?g)) j) = g_pend (G j)"
      "g_posted ((G(i := ?g)) j) = g_posted (G j)" "g_locks ((G(i := ?g)) j) = g_locks (G j)" for j using i(2) by auto
    ultimately show ?thesis using parts(7) unfolding wake_ok_def sem_wake_ok_def by simp
  qed
  ultimately have "inv S ?s D loc W (G(i := ?g))"
    unfolding inv_def using parts i by (auto simp: ghost_frame intro!: ki_ok_ghost sem_ok_ghost)
  then have "moves S ?g s D W G i ?s" by (intro movesI) (auto simp: i)
  with t k [OF t(2)] show "(\<exists>v s' g'. bind_o (bitvec_first_cleared_index (bitvec s)) (\<lambda>tid.
       if tid < 0 then Ok (1, s)
       else bind_o (bitvec_set (bitvec s) tid) (\<lambda>bv. Ok (tid + UTHREAD_TID_MAIN, s\<lparr>bitvec := bv\<rparr>))) = Ok (v, s') \<and>
      moves S g' s D W G i s' \<and> ok S g' (k v)) \<or>
    bind_o (bitvec_first_cleared_index (bitvec s)) (\<lambda>tid.
       if tid < 0 then Ok (1, s)
       else bind_o (bitvec_set (bitvec s) tid) (\<lambda>bv. Ok (tid + UTHREAD_TID_MAIN, s\<lparr>bitvec := bv\<rparr>))) = Block \<and> blocked_ok S s g"
    by (auto simp: UTHREAD_TID_MAIN_def)
qed

lemma mem_ok_tcb:
  assumes "mem_ok s" "p < brk s" "fset (fmdom (nodes (join_queue t))) \<subseteq> {..<brk s}"
  shows "mem_ok (s\<lparr>tcb_heap := (tcb_heap s)(p \<mapsto> t)\<rparr>)"
proof -
  have "q < brk s \<and> fset (fmdom (nodes (join_queue u))) \<subseteq> {..<brk s}" if "((tcb_heap s)(p \<mapsto> t)) q = Some u" for q u
    using that assms(2,3) mem_okD(1) [OF assms(1), of q u] by (cases "q = p") auto
  with assms(1) show ?thesis unfolding mem_ok_def by simp
qed

lemma queue_rep_Nil_nodes: "queue_rep q [] \<Longrightarrow> nodes q = fmempty"
  by (auto simp: queue_rep_def queue_shape_def intro: fmdom_empty_iff)

lemma malloc_tcb_moves:
  assumes inv: "inv S s D loc W G" and i: "i \<in> ktids s" and new: "g_new (G i) = Some (unat t, NULL)"
  shows "\<exists>p s'. malloc_tcb t s = Ok (p, s') \<and> p \<noteq> NULL \<and> g_own (G i) p = None \<and>
    moves S ((G i)\<lparr>g_new := Some (unat t, p), g_own := (g_own (G i))(p \<mapsto> (READY, False))\<rparr>) s D W G i s'"
proof -
  note parts = inv_parts [OF inv]
  note tid = tid_okD [OF parts(6)] and wk = wake_okD [OF parts(7)]
  define p where "p = brk s"
  let ?t = "unat t"
  have t: "?t \<in> used_tids s" "tcbs s ?t = NULL" using tid(3) [OF new] by auto
  then have tm: "?t < UTHREAD_MAX_THREADS" by (simp add: used_tids_def)
  have p: "p \<noteq> NULL" "p \<noteq> exitall" "tcb_heap s p = None"
    using mem_okD(4,1) [OF parts(8)] unfolding p_def exitall_def by (auto intro: ccontr)
  have loc: "loc p = Nowhere" by (rule tcb_ok_None [OF parts(5) p(3)])
  have none: "g_own (G j) p = None" for j using tcb_ok_own [OF parts(5), of j p] loc by (cases "g_own (G j) p") auto
  have Wp: "W p = None" using wk(2) [of p] loc by (cases "W p") auto
  let ?g = "(G i)\<lparr>g_new := Some (?t, p), g_own := (g_own (G i))(p \<mapsto> (READY, False))\<rparr>"
  let ?loc = "loc(p := Owned i)"
  let ?h = "(tcb_heap s)(p \<mapsto> blank_tcb)" and ?tc = "(tcbs s)(?t := p)"
  define s' where "s' = s\<lparr>tcbs := ?tc, brk := Suc (brk s), tcb_heap := ?h, ncalls := Suc (ncalls s)\<rparr>"
  have run: "malloc_tcb t s = Ok (p, s')"
    using malloc_inv [OF inv] tm by (simp add: malloc_tcb_def p_def s'_def)
  have idx: "n \<noteq> ?t" if "tcbs s n = q" "q \<noteq> NULL" for n q using that t(2) by auto
  have heap_null: "q \<noteq> NULL" if "tcb_heap s q = Some u" for q u using tcb_ok_Some [OF parts(5) that] by blast
  have own_heap: "\<exists>u. tcb_heap s q = Some u" if "q \<in> dom (g_own (G j))" for q j
    using that by (auto elim: inv_owned [OF inv])
  have new': "g_new (G j) = Some (n, q) \<and> n \<noteq> ?t \<and> j \<noteq> i \<or> j = i \<and> n = ?t \<and> q = p" if "g_new ((G(i := ?g)) j) = Some (n, q)" for j n q
    using that tid(4) [OF new, of j q] by (cases "j = i") auto
  have own: "dom (g_own (G j)) \<subseteq> dom (g_own ((G(i := ?g)) j))" for j by (cases "j = i") auto
  have "inv S s' D ?loc W (G(i := ?g))"
    unfolding inv_def
  proof (intro conjI)
    have "cur_ok s' ki ((G(i := ?g)) j)" if "cur_ok s ki (G j)" for ki j
      unfolding cur_ok_def
    proof (intro allI impI)
      fix q assume "g_cur ((G(i := ?g)) j) = Some q"
      then have "g_cur (G j) = Some q" by (auto split: if_splits)
      with that obtain u where u: "q \<in> dom (g_own (G j))" "tcb_heap s q = Some u" "current_tid ki = int (unat (tcb_tid u))"
        "unat (tcb_tid u) < UTHREAD_MAX_THREADS" "tcbs s (unat (tcb_tid u)) = q" unfolding cur_ok_def by blast
      then have "q \<noteq> p" "unat (tcb_tid u) \<noteq> ?t" using p(3) idx [OF u(5) heap_null [OF u(2)]] by auto
      with u own [of j] show "q \<in> dom (g_own ((G(i := ?g)) j)) \<and> (\<exists>t. tcb_heap s' q = Some t \<and>
          current_tid ki = int (unat (tcb_tid t)) \<and> unat (tcb_tid t) < UTHREAD_MAX_THREADS \<and>
          tcbs s' (unat (tcb_tid t)) = q)" by (auto simp: s'_def simp del: fun_upd_apply) auto
    qed
    moreover have "g_sched ((G(i := ?g)) j) = g_sched (G j)" for j by simp
    ultimately show "ki_ok s' (G(i := ?g))"
      using parts(1) i unfolding ki_ok_def s'_def by (simp del: fun_upd_apply) auto
    show "lock_ok S s' (G(i := ?g))" using parts(2) unfolding s'_def by (simp add: lock_ok_ghost)
    show "rq_ok s' ?loc (G(i := ?g))" using parts(3) loc unfolding s'_def by (simp add: rq_ok_ghost rq_ok_loc)
    show "sem_ok S s' ?loc (G(i := ?g))" using parts(4) loc unfolding s'_def by (simp add: sem_ok_loc sem_ok_ghost)
    show "tcb_ok s' D ?loc (G(i := ?g))"
      unfolding tcb_ok_def
    proof (intro conjI allI impI)
      fix q u assume q: "tcb_heap s' q = Some u"
      show "q \<noteq> NULL" "q \<noteq> exitall" "queue_rep (join_queue u) []"
        using q p(1,2) tcb_ok_Some [OF parts(5), of q u] blank_queue_rep unfolding s'_def
        by (auto simp: blank_tcb_def split: if_splits)
      show "place_ok D (G(i := ?g)) q (state u) (?loc q)"
      proof (cases "q = p")
        case True
        with q tcb_ok_None_ctx [OF parts(5) p(3)] show ?thesis by (auto simp: s'_def place_ok_def blank_tcb_def)
      next
        case False
        have eq: "g_own ((G(i := ?g)) j) q = g_own (G j) q" for j using False by simp
        from q False have "tcb_heap s q = Some u" by (simp add: s'_def)
        from tcb_ok_Some [OF parts(5) this] False show ?thesis unfolding place_ok_def eq by simp
      qed
    next
      fix j q assume "q \<in> dom (g_own ((G(i := ?g)) j))"
      then show "?loc q = Owned j"
        using tcb_ok_own [OF parts(5), of j q] none [of j] by (cases "j = i"; cases "q = p") auto
    next
      fix q assume "tcb_heap s' q = None"
      then have "tcb_heap s q = None" "q \<noteq> p" unfolding s'_def by (auto split: if_splits)
      then show "?loc q = Nowhere" "q \<notin> D" using tcb_ok_None [OF parts(5)] tcb_ok_None_ctx [OF parts(5)] by simp_all
    qed
    show "tid_ok s' (G(i := ?g))"
      unfolding tid_ok_def
    proof (intro conjI allI impI)
      show "bv_rep UTHREAD_MAX_THREADS (bitvec s') (used_tids s')" using tid(1) by (simp add: s'_def)
      show "n \<in> used_tids s'" if "n < UTHREAD_MAX_THREADS" "tcbs s' n \<noteq> NULL" for n
        using that tid(2) [of n] t(1) by (cases "n = ?t") (auto simp: s'_def)
      show "n \<in> used_tids s'" "tcbs s' n = q" "q = NULL \<or> q \<in> dom (g_own ((G(i := ?g)) j))"
        if "g_new ((G(i := ?g)) j) = Some (n, q)" for j n q
        using new' [OF that] tid(3) [of j n q] t(1) own [of j] by (auto simp: s'_def)
      show "j' = j" if "g_new ((G(i := ?g)) j) = Some (n, q)" "g_new ((G(i := ?g)) j') = Some (n, q')" for j j' n q q'
        using new' [OF that(1)] new' [OF that(2)] tid(4) [of j n q j' q'] by auto
      show "n < UTHREAD_MAX_THREADS" "tcbs s' n = q" "q \<in> dom (g_own ((G(i := ?g)) j))"
        if "g_made ((G(i := ?g)) j) = Some (n, q)" for j n q
      proof -
        from that have "g_made (G j) = Some (n, q)" by (auto split: if_splits)
        from tid(5) [OF this] own_heap [of q j] heap_null [of q] idx [of n q] own [of j]
        show "n < UTHREAD_MAX_THREADS" "tcbs s' n = q" "q \<in> dom (g_own ((G(i := ?g)) j))" by (auto simp: s'_def)
      qed
      show "(\<exists>j n. g_new ((G(i := ?g)) j) = Some (n, q)) \<or> unat (tcb_tid tc) < UTHREAD_MAX_THREADS \<and> tcbs s' (unat (tcb_tid tc)) = q"
        if "tcb_heap s' q = Some tc" for q tc
      proof (cases "q = p")
        case False
        with that have q: "tcb_heap s q = Some tc" by (simp add: s'_def)
        have "\<exists>j n. g_new ((G(i := ?g)) j) = Some (n, q)" if "g_new (G j) = Some (n, q)" for j n
          using that new heap_null [OF q] by (intro exI [of _ j] exI [of _ n]) auto
        moreover have "tcbs s' (unat (tcb_tid tc)) = q" if "tcbs s (unat (tcb_tid tc)) = q"
          using that idx [OF that heap_null [OF q]] by (simp add: s'_def)
        ultimately show ?thesis using tid(6) [OF q] by blast
      qed auto
    qed
    show "wake_ok S s' ?loc W (G(i := ?g))"
    proof -
      have "wake_ok S s' ?loc W G"
        using wake_ok_loc [OF parts(7), of p "Owned i"] loc by (simp add: s'_def)
      note w = wake_okD [OF this]
      have "W q = None" if "g_new ((G(i := ?g)) j) = Some (n, q) \<or> g_made ((G(i := ?g)) j) = Some (n, q)" for j n q
        using that w(5) [of j n q] Wp by (cases "j = i") auto
      moreover have "g_cur ((G(i := ?g)) j) = g_cur (G j)" "g_pend ((G(i := ?g)) j) = g_pend (G j)"
        "g_posted ((G(i := ?g)) j) = g_posted (G j)" "g_locks ((G(i := ?g)) j) = g_locks (G j)" for j by auto
      ultimately show ?thesis using w unfolding wake_ok_def sem_wake_ok_def by simp
    qed
    have "mem_ok (s\<lparr>brk := Suc (brk s)\<rparr>)" by (rule mem_ok_brk [OF parts(8)]) simp
    then have "mem_ok (s\<lparr>brk := Suc (brk s), tcb_heap := (tcb_heap (s\<lparr>brk := Suc (brk s)\<rparr>))(p \<mapsto> blank_tcb)\<rparr>)"
      by (rule mem_ok_tcb) (auto simp: p_def blank_tcb_def blank_queue_rep)
    moreover have "s' = s\<lparr>brk := Suc (brk s), tcb_heap := ?h, tcbs := ?tc, ncalls := Suc (ncalls s)\<rparr>" by (simp add: s'_def)
    ultimately show "mem_ok s'" by simp
  qed
  then have "moves S ?g s D W G i s'" by (intro movesI) (auto simp: s'_def)
  with run p(1) none show ?thesis by blast
qed


lemma ok_malloc_tcb:
  assumes new: "g_new g = Some (unat t, NULL)"
    and k: "\<And>p. p \<noteq> NULL \<Longrightarrow> g_own g p = None \<Longrightarrow>
      ok S (g\<lparr>g_new := Some (unat t, p), g_own := (g_own g)(p \<mapsto> (READY, False))\<rparr>) (k p)"
  shows "ok S g (call (\<lambda>i. malloc_tcb t) k)"
proof (rule ok_callI)
  fix i s D loc W G
  assume inv: "inv S s D loc W G" and i: "i \<in> ktids s" "G i = g"
  from malloc_tcb_moves [OF inv i(1), of t] new obtain p s' where p: "malloc_tcb t s = Ok (p, s')" "p \<noteq> NULL" "g_own g p = None"
    "moves S (g\<lparr>g_new := Some (unat t, p), g_own := (g_own g)(p \<mapsto> (READY, False))\<rparr>) s D W G i s'"
    unfolding i(2) by blast
  from p(1,4) k [OF p(2,3)] show "(\<exists>v s' g'. malloc_tcb t s = Ok (v, s') \<and> moves S g' s D W G i s' \<and> ok S g' (k v)) \<or>
      malloc_tcb t s = Block \<and> blocked_ok S s g" by blast
qed

lemma init_tcb_moves:
  assumes inv: "inv S s D loc W G" and i: "i \<in> ktids s" and new: "g_new (G i) = Some (unat t, p)" "p \<noteq> NULL"
    and own: "g_own (G i) p = Some (st, b)" and cur: "g_cur (G i) \<noteq> Some p"
  shows "\<exists>s'. on_tcb t (init_tcb t READY) i s = Ok s' \<and>
    moves S ((G i)\<lparr>g_new := None, g_made := Some (unat t, p), g_own := (g_own (G i))(p \<mapsto> (READY, b))\<rparr>) s D W G i s'"
proof -
  note parts = inv_parts [OF inv]
  note tid = tid_okD [OF parts(6)] and wk = wake_okD [OF parts(7)]
  obtain tc where tc: "tcb_heap s p = Some tc" "loc p = Owned i" "p \<noteq> exitall" "b \<longleftrightarrow> p \<in> D" "queue_rep (join_queue tc) []"
    by (rule inv_owned [OF inv own]) (rule that)
  have t: "unat t \<in> used_tids s" "tcbs s (unat t) = p" using tid(3) [OF new(1)] by auto
  then have tm: "unat t < UTHREAD_MAX_THREADS" by (simp add: used_tids_def)
  let ?f = "init_tcb t READY"
  let ?g = "(G i)\<lparr>g_new := None, g_made := Some (unat t, p), g_own := (g_own (G i))(p \<mapsto> (READY, b))\<rparr>"
  define s' where "s' = s\<lparr>tcb_heap := (tcb_heap s)(p \<mapsto> ?f tc)\<rparr>"
  have run: "on_tcb t ?f i s = Ok s'"
    using t tm tc new(2) by (simp add: on_tcb_def tcbs_at_def tcb_update_def tcb_at_def s'_def)
  have jq: "queue_rep (join_queue (?f tc)) []" "nodes (join_queue (?f tc)) = fmempty"
    using queue_init_rep [of "join_queue tc"] queue_rep_Nil_nodes [OF tc(5)]
    by (simp_all add: init_tcb_def) (simp add: queue_init_def)
  have dom: "dom (g_own ((G(i := ?g)) j)) = dom (g_own (G j))" for j using own by (cases "j = i") auto
  have new': "g_new (G j) = Some (n, q) \<and> j \<noteq> i" if "g_new ((G(i := ?g)) j) = Some (n, q)" for j n q
    using that by (cases "j = i") auto
  have made': "g_made (G j) = Some (n, q) \<or> j = i \<and> n = unat t \<and> q = p" if "g_made ((G(i := ?g)) j) = Some (n, q)" for j n q
    using that by (cases "j = i") auto
  have "inv S s' D loc W (G(i := ?g))"
    unfolding inv_def
  proof (intro conjI)
    have "cur_ok s' ki ((G(i := ?g)) j)" if "cur_ok s ki (G j)" for ki j
      unfolding cur_ok_def dom
    proof (intro allI impI)
      fix q assume "g_cur ((G(i := ?g)) j) = Some q"
      then have q: "g_cur (G j) = Some q" by (auto split: if_splits)
      then have "q \<noteq> p" using cur_owned [OF inv q] tc(2) cur by auto
      with that q show "q \<in> dom (g_own (G j)) \<and> (\<exists>t. tcb_heap s' q = Some t \<and>
          current_tid ki = int (unat (tcb_tid t)) \<and> unat (tcb_tid t) < UTHREAD_MAX_THREADS \<and>
          tcbs s' (unat (tcb_tid t)) = q)" unfolding cur_ok_def by (simp add: s'_def)
    qed
    moreover have "g_sched ((G(i := ?g)) j) = g_sched (G j)" for j by simp
    ultimately show "ki_ok s' (G(i := ?g))"
      using parts(1) i unfolding ki_ok_def s'_def by (simp del: fun_upd_apply) auto
    show "lock_ok S s' (G(i := ?g))" using parts(2) unfolding s'_def by (simp add: lock_ok_ghost)
    show "rq_ok s' loc (G(i := ?g))" using parts(3) unfolding s'_def by (simp add: rq_ok_ghost)
    show "sem_ok S s' loc (G(i := ?g))" using parts(4) unfolding s'_def by (simp add: sem_ok_ghost)
    show "tcb_ok s' D loc (G(i := ?g))"
      unfolding tcb_ok_def dom
    proof (intro conjI allI impI)
      fix q u assume q: "tcb_heap s' q = Some u"
      show "q \<noteq> NULL" "q \<noteq> exitall" "queue_rep (join_queue u) []"
        using q new(2) tc(3) tcb_ok_Some [OF parts(5), of q u] jq unfolding s'_def by (auto split: if_splits)
      show "place_ok D (G(i := ?g)) q (state u) (loc q)"
      proof (cases "q = p")
        case True
        with q tc(2,4) show ?thesis by (auto simp: s'_def place_ok_def init_tcb_def)
      next
        case False
        have eq: "g_own ((G(i := ?g)) j) q = g_own (G j) q" for j using False by simp
        from q False have "tcb_heap s q = Some u" by (simp add: s'_def)
        from tcb_ok_Some [OF parts(5) this] show ?thesis unfolding place_ok_def eq by simp
      qed
    next
      fix j q assume "q \<in> dom (g_own (G j))"
      then show "loc q = Owned j" using tcb_ok_own [OF parts(5)] by blast
    next
      fix q assume "tcb_heap s' q = None"
      then have "tcb_heap s q = None" unfolding s'_def by (auto split: if_splits)
      then show "loc q = Nowhere" "q \<notin> D" using tcb_ok_None [OF parts(5)] tcb_ok_None_ctx [OF parts(5)] by blast+
    qed
    show "tid_ok s' (G(i := ?g))"
      unfolding tid_ok_def dom
    proof (intro conjI allI impI)
      show "bv_rep UTHREAD_MAX_THREADS (bitvec s') (used_tids s')" using tid(1) by (simp add: s'_def)
      show "n \<in> used_tids s'" if "n < UTHREAD_MAX_THREADS" "tcbs s' n \<noteq> NULL" for n
        using that tid(2) [of n] by (simp add: s'_def)
      show "n \<in> used_tids s'" "tcbs s' n = q" "q = NULL \<or> q \<in> dom (g_own (G j))"
        if "g_new ((G(i := ?g)) j) = Some (n, q)" for j n q
        using new' [OF that] tid(3) [of j n q] by (auto simp: s'_def)
      show "j' = j" if "g_new ((G(i := ?g)) j) = Some (n, q)" "g_new ((G(i := ?g)) j') = Some (n, q')" for j j' n q q'
        using new' [OF that(1)] new' [OF that(2)] tid(4) [of j n q j' q'] by auto
      show "n < UTHREAD_MAX_THREADS" "tcbs s' n = q" "q \<in> dom (g_own (G j))"
        if "g_made ((G(i := ?g)) j) = Some (n, q)" for j n q
        using made' [OF that] tid(5) [of j n q] tm t(2) own by (auto simp: s'_def)
      show "(\<exists>j n. g_new ((G(i := ?g)) j) = Some (n, q)) \<or> unat (tcb_tid u) < UTHREAD_MAX_THREADS \<and> tcbs s' (unat (tcb_tid u)) = q"
        if "tcb_heap s' q = Some u" for q u
      proof (cases "q = p")
        case True
        with that tm t(2) show ?thesis by (auto simp: s'_def init_tcb_def)
      next
        case False
        with that have q: "tcb_heap s q = Some u" by (simp add: s'_def)
        have "\<exists>j n. g_new ((G(i := ?g)) j) = Some (n, q)" if "g_new (G j) = Some (n, q)" for j n
          using that new False by (intro exI [of _ j] exI [of _ n]) auto
        moreover have "tcbs s' = tcbs s" by (simp add: s'_def)
        ultimately show ?thesis using tid(6) [OF q] by metis
      qed
    qed
    have "W p = None" using wk(5) new(1) by blast
    then have "W q = None" if "g_new ((G(i := ?g)) j) = Some (n, q) \<or> g_made ((G(i := ?g)) j) = Some (n, q)" for j n q
      using that wk(5) [of j n q] by (cases "j = i") auto
    moreover have "g_cur ((G(i := ?g)) j) = g_cur (G j)" "g_pend ((G(i := ?g)) j) = g_pend (G j)"
      "g_posted ((G(i := ?g)) j) = g_posted (G j)" "g_locks ((G(i := ?g)) j) = g_locks (G j)" for j by auto
    ultimately show "wake_ok S s' loc W (G(i := ?g))" using parts(7) unfolding wake_ok_def sem_wake_ok_def by (simp add: s'_def)
    show "mem_ok s'" unfolding s'_def using mem_okD(1) [OF parts(8) tc(1)] jq(2) by (intro mem_ok_tcb parts(8)) auto
  qed
  then have "moves S ?g s D W G i s'" by (intro movesI) (auto simp: s'_def)
  with run show ?thesis by blast
qed

lemma ok_init_tcb:
  assumes "g_new g = Some (unat t, p)" "p \<noteq> NULL" "g_own g p = Some (st, b)" "g_cur g \<noteq> Some p"
    and k: "ok S (g\<lparr>g_new := None, g_made := Some (unat t, p), g_own := (g_own g)(p \<mapsto> (READY, b))\<rparr>) k"
  shows "ok S g (stmt (on_tcb t (init_tcb t READY)) k)"
  by (rule ok_stmtI [OF _ k]) (use init_tcb_moves assms(1-4) in blast)

lemma made_tcb:
  assumes inv: "inv S s D loc W G" and made: "g_made (G i) = Some (unat t, p)"
  shows "tcbs_at s t = Ok p"
  using tid_ok_made [OF inv_parts(6) [OF inv] made] by (simp add: tcbs_at_def)

lemma ok_on_tcb:
  assumes made: "g_made g = Some (unat t, p)" and own: "g_own g p = Some (st, b)"
    and f: "\<And>x. tcb_tid (f x) = tcb_tid x" "\<And>x. join_queue (f x) = join_queue x" "\<And>x. state (f x) = state x"
    and k: "ok S g k"
  shows "ok S g (stmt (on_tcb t f) k)"
proof (rule ok_stmtI [OF _ k])
  fix i s D loc W G
  assume inv: "inv S s D loc W G" and i: "i \<in> ktids s" "G i = g"
  obtain x where x: "tcb_heap s p = Some x" "state x = st" "p \<noteq> NULL"
    using own i(2) by (auto intro: inv_owned [OF inv, of i p st b])
  from inv_tcb_update [OF inv i(1), of p st b x f st] own i(2) x f
  have "inv S (s\<lparr>tcb_heap := (tcb_heap s)(p \<mapsto> f x)\<rparr>) D loc W (G(i := g))" by (simp add: fun_upd_idem)
  moreover have "on_tcb t f i s = Ok (s\<lparr>tcb_heap := (tcb_heap s)(p \<mapsto> f x)\<rparr>)"
    using x made_tcb [OF inv, of i t p] made i(2) by (simp add: on_tcb_def tcb_update_def tcb_at_def)
  ultimately show "(\<exists>s'. on_tcb t f i s = Ok s' \<and> moves S g s D W G i s') \<or> on_tcb t f i s = Err Signed_overflow"
    using i(2) by (auto intro!: movesI)
qed

lemma inv_brk: "inv S s D loc W G \<Longrightarrow> brk s \<le> b \<Longrightarrow> inv S (s\<lparr>brk := b\<rparr>) D loc W G"
  by (simp add: inv_def mem_ok_brk)

lemma allocate_stack_inv:
  assumes inv: "inv S s D loc W G"
  shows "\<exists>stack s1. allocate_stack st base sz s = (0, stack, s1) \<and> inv S s1 D loc W G \<and>
    ktids s1 = ktids s \<and> tcb_heap s1 = tcb_heap s"
  using malloc_inv [OF inv] inv_brk [of S "s\<lparr>ncalls := Suc (ncalls s)\<rparr>" D loc W G "Suc (brk s)"] inv
  by (auto simp: allocate_stack_def Let_def)

lemma ok_allocate_stack:
  assumes made: "g_made g = Some (unat t, p)" and own: "g_own g p = Some (st, b)"
    and k: "ok S g (k 0)"
  shows "ok S g (call (\<lambda>i. allocate_tcb_stack t base sz) k)"
proof (rule ok_callI)
  fix i s D loc W G
  assume inv: "inv S s D loc W G" and i: "i \<in> ktids s" "G i = g"
  obtain x where x: "tcb_heap s p = Some x" "state x = st" "p \<noteq> NULL"
    using own i(2) by (auto intro: inv_owned [OF inv, of i p st b])
  obtain stack s1 where s1: "allocate_stack (uc_stack x) base sz s = (0, stack, s1)" "inv S s1 D loc W G"
    "ktids s1 = ktids s" "tcb_heap s1 = tcb_heap s" using allocate_stack_inv [OF inv] by blast
  let ?f = "\<lambda>t. t\<lparr>uc_stack := stack\<rparr>"
  have own': "g_own (G i) p = Some (st, b)" and i': "i \<in> ktids s1" and x': "tcb_heap s1 p = Some x"
    using own i x(1) s1(3,4) by simp_all
  have "inv S (s1\<lparr>tcb_heap := (tcb_heap s1)(p \<mapsto> ?f x)\<rparr>) D loc W
      (G(i := (G i)\<lparr>g_own := (g_own (G i))(p \<mapsto> (st, b))\<rparr>))"
    by (rule inv_tcb_update [OF s1(2) i' own' x']) (simp_all add: x(2))
  moreover have "(G i)\<lparr>g_own := (g_own (G i))(p \<mapsto> (st, b))\<rparr> = g"
    unfolding i(2) using own by (simp add: fun_upd_idem)
  ultimately have "inv S (s1\<lparr>tcb_heap := (tcb_heap s1)(p \<mapsto> ?f x)\<rparr>) D loc W (G(i := g))" by simp
  then have "moves S g s D W G i (s1\<lparr>tcb_heap := (tcb_heap s1)(p \<mapsto> ?f x)\<rparr>)"
    using s1(3) i(2) by (intro movesI) auto
  moreover have "allocate_tcb_stack t base sz s = Ok (0, s1\<lparr>tcb_heap := (tcb_heap s1)(p \<mapsto> ?f x)\<rparr>)"
    using x s1 made_tcb [OF inv, of i t p] made i(2)
    by (simp add: allocate_tcb_stack_def tcb_update_def tcb_at_def)
  ultimately show "(\<exists>v s' g'. allocate_tcb_stack t base sz s = Ok (v, s') \<and> moves S g' s D W G i s' \<and> ok S g' (k v)) \<or>
      allocate_tcb_stack t base sz s = Block \<and> blocked_ok S s g"
    using k by auto
qed

lemma ok_read_tcbs:
  assumes "g_made g = Some (unat t, p)" "ok S g (k p)"
  shows "ok S g (expr (\<lambda>i s. tcbs_at s t) k)"
  by (rule ok_readI) (use assms made_tcb in blast)

end
