(* ===== verification/Safe_Code.thy ===== *)
theory Safe_Code
  imports Prim_Create
begin

text \<open>
  Every function of the library that a client program without joins can reach is safe code: the
  scheduler for each of its tasks, yielding, exiting, creating a thread, both semaphore
  operations, and the start function of the kernel threads.
\<close>

section \<open>The ready queue\<close>

lemmas ghost_simps = idle_def running_def in_transit_def yielding_def exiting_def waiting_def dispatched_def release_def

lemma ok_ready_enqueue:
  assumes own: "g_own g p = Some (READY, True)" and g: "g_new g = None" "g_posted g = None" "g_cnt g = None" "g_len g = None"
    and rank: "\<And>r. r \<in> g_locks g \<Longrightarrow> lock_rank r < 2" and k: "ok S (release p g) k"
  shows "ok S g (ready_enqueue p k)"
proof -
  let ?g1 = "g\<lparr>g_locks := insert Rqueue_lock (g_locks g)\<rparr>"
  let ?g2 = "(release p ?g1)\<lparr>g_credit := Suc (g_credit g)\<rparr>"
  let ?g3 = "?g2\<lparr>g_locks := g_locks ?g2 - {Rqueue_lock}, g_cnt := None, g_len := None\<rparr>"
  have "Rqueue_lock \<notin> g_locks g" using rank [of Rqueue_lock] by auto
  then have eq: "?g3\<lparr>g_credit := g_credit g\<rparr> = release p g"
    using g by (cases g) (simp add: release_def)
  have post: "ok S ?g3 (checked (\<lambda>i. post_not_empty) k)"
  proof (rule ok_checkedI [of _ _ _ "?g3\<lparr>g_credit := g_credit g\<rparr>"])
    fix i s D loc W G
    assume "inv S s D loc W G" "i \<in> ktids s" and i: "G i = ?g3"
    moreover have "g_credit (G i) = Suc (g_credit g)" unfolding i by simp
    ultimately have "\<exists>s'. post_not_empty s = Ok (0, s') \<and> moves S ((G i)\<lparr>g_credit := g_credit g\<rparr>) s D W G i s'"
      by (intro post_not_empty_moves)
    then show "(\<exists>s'. post_not_empty s = Ok (0, s') \<and> moves S (?g3\<lparr>g_credit := g_credit g\<rparr>) s D W G i s') \<or>
        post_not_empty s = Block \<and> blocked_ok S s ?g3" unfolding i by blast
  qed (unfold eq, rule k)
  have unl: "ok S ?g2 (checked (do_unlock Rqueue_lock) (checked (\<lambda>i. post_not_empty) k))"
    by (rule ok_unlock [OF _ _ post]) (use g in simp_all)
  have enq: "ok S ?g1 (checked (\<lambda>i. rq_enqueue p) (checked (do_unlock Rqueue_lock) (checked (\<lambda>i. post_not_empty) k)))"
  proof (rule ok_checkedI [OF _ unl])
    fix i s D loc W G
    assume "inv S s D loc W G" "i \<in> ktids s" and i: "G i = ?g1"
    moreover have "g_own (G i) p = Some (READY, True)" "g_new (G i) = None" unfolding i using own g by simp_all
    ultimately have "\<exists>s'. rq_enqueue p s = Ok (0, s') \<and>
        moves S ((release p (G i))\<lparr>g_credit := Suc (g_credit (G i))\<rparr>) s D W G i s'"
      by (intro rq_enqueue_moves)
    then show "(\<exists>s'. rq_enqueue p s = Ok (0, s') \<and> moves S ?g2 s D W G i s') \<or> rq_enqueue p s = Block \<and> blocked_ok S s ?g1"
      unfolding i by simp
  qed
  show ?thesis
    unfolding ready_enqueue_def by (rule ok_lock [OF _ _ enq]) (use rank in auto)
qed

lemma ok_ready_dequeue:
  assumes k: "\<And>p. p \<noteq> NULL \<Longrightarrow> p \<noteq> exitall \<Longrightarrow> ok S (idle\<lparr>g_own := [p \<mapsto> (READY, True)]\<rparr>) (k p)"
  shows "ok S idle (ready_dequeue k)"
proof -
  let ?g1 = "idle\<lparr>g_credit := 1\<rparr>"
  let ?g2 = "?g1\<lparr>g_locks := {Rqueue_lock}\<rparr>"
  let ?g3 = "\<lambda>p. idle\<lparr>g_locks := {Rqueue_lock}, g_own := [p \<mapsto> (READY, True)]\<rparr>"
  have fin: "ok S (?g3 p) (c_assert (\<lambda>i s. Ok (p \<noteq> NULL)) (checked (do_unlock Rqueue_lock) (k p)))"
    if "p \<noteq> NULL" "p \<noteq> exitall" for p
    using k [OF that] by (intro ok_null_check [OF that(1)] ok_unlock) (simp_all add: idle_def)
  have deq: "ok S ?g2 (call (\<lambda>i. rq_dequeue) (\<lambda>p. c_assert (\<lambda>i s. Ok (p \<noteq> NULL)) (checked (do_unlock Rqueue_lock) (k p))))"
  proof (rule ok_callI)
    fix i s D loc W G
    assume inv: "inv S s D loc W G" "i \<in> ktids s" and i: "G i = ?g2"
    have "g_credit (G i) = Suc 0" unfolding i by simp
    from rq_dequeue_moves [OF inv this] obtain p s' where p: "rq_dequeue s = Ok (p, s')" "p \<noteq> NULL" "p \<noteq> exitall"
      "moves S ((G i)\<lparr>g_credit := 0, g_own := (g_own (G i))(p \<mapsto> (READY, True))\<rparr>) s D W G i s'" by blast
    moreover have "(G i)\<lparr>g_credit := 0, g_own := (g_own (G i))(p \<mapsto> (READY, True))\<rparr> = ?g3 p"
      unfolding i by (simp add: idle_def)
    ultimately show "(\<exists>v s' g'. rq_dequeue s = Ok (v, s') \<and> moves S g' s D W G i s' \<and>
        ok S g' (c_assert (\<lambda>i s. Ok (v \<noteq> NULL)) (checked (do_unlock Rqueue_lock) (k v)))) \<or>
      rq_dequeue s = Block \<and> blocked_ok S s ?g2" using fin [OF p(2,3)] by auto
  qed
  have size: "ok S ?g2 (c_assert (\<lambda>i s. Ok (queue_size (rq_queue (rqueue s)) > 0))
    (call (\<lambda>i. rq_dequeue) (\<lambda>p. c_assert (\<lambda>i s. Ok (p \<noteq> NULL)) (checked (do_unlock Rqueue_lock) (k p)))))"
  proof (rule ok_assertI [OF _ deq])
    fix i s D loc W G
    assume inv: "inv S s D loc W G" "i \<in> ktids s" and i: "G i = ?g2"
    have "0 < g_credit (G i)" unfolding i by simp
    from ready_not_empty(2) [OF inv this] show "Ok (queue_size (rq_queue (rqueue s)) > 0) = Ok True" by simp
  qed
  have lock: "ok S ?g1 (checked (do_lock Rqueue_lock) (c_assert (\<lambda>i s. Ok (queue_size (rq_queue (rqueue s)) > 0))
    (call (\<lambda>i. rq_dequeue) (\<lambda>p. c_assert (\<lambda>i s. Ok (p \<noteq> NULL)) (checked (do_unlock Rqueue_lock) (k p))))))"
    by (rule ok_lock) (use size in \<open>simp_all add: idle_def\<close>)
  show ?thesis
    unfolding ready_dequeue_def by (rule ok_checkedI [OF _ lock]) (use wait_not_empty_moves in blast)
qed

section \<open>The scheduler\<close>

lemma ok_lock_tcbs:
  "(\<And>r. r \<in> g_locks g \<Longrightarrow> lock_rank r = 0) \<Longrightarrow> ok S (g\<lparr>g_locks := insert Tcbs_lock (g_locks g)\<rparr>) k \<Longrightarrow> ok S g (lock_tcbs k)"
  unfolding lock_tcbs_def by (rule ok_lock) auto

lemma ok_unlock_tcbs:
  "Tcbs_lock \<in> g_locks g \<Longrightarrow> g_posted g = None \<Longrightarrow>
   ok S (g\<lparr>g_locks := g_locks g - {Tcbs_lock}, g_cnt := None, g_len := None\<rparr>) k \<Longrightarrow> ok S g (unlock_tcbs k)"
  unfolding unlock_tcbs_def by (rule ok_unlock)

lemma ok_sched_dispatch: "ok S (idle\<lparr>g_own := [p \<mapsto> (READY, True)]\<rparr>) (sched_dispatch p)"
proof -
  have fin: "ok S (dispatched p w) (stmt (kinfo_update (\<lambda>ki. ki\<lparr>preempted := False\<rparr>)) (unblock_sigrtmin (Setcontext p)))" for w
    by (intro ok_set_preempted ok_unblock_sigrtmin ok_Setcontext)
  show ?thesis
    unfolding sched_dispatch_def
    apply (rule ok_lock_tcbs)
     apply (simp add: idle_def)
    apply (rule ok_make_current [of _ _ READY True])
      apply (simp_all add: idle_def)
    subgoal for w
      apply (rule ok_has_state [of _ _ _ True])
       apply simp
      apply (rule ok_set_state [of _ _ READY True])
       apply simp
      apply (rule ok_unlock_tcbs)
        apply simp_all
      using fin [of w] by (simp add: dispatched_def idle_def)
    done
qed

lemma ok_sched_pick:
  "ok S idle (ready_dequeue (\<lambda>next_tcb. if next_tcb = exitall then
       expr (\<lambda>i s.
         if kthread_info s = [] then Err Bad_pointer
         else Ok (i = kinfo_ktid (kthread_info s ! MAIN_KTHREAD_INDEX), num_kthreads s)) (\<lambda>(main, n).
       if main then wait_all_exited (size_pred n) Schedule
       else checked (\<lambda>i. post_exitall) Kthread_exit)
     else sched_dispatch next_tcb))"
  by (rule ok_ready_dequeue) (simp add: ok_sched_dispatch)

lemma ok_sched_next: "ok S (idle\<lparr>g_sched := sch\<rparr>) sched_next"
  unfolding sched_next_def using ok_sched_pick
  by (intro ok_kinfo_update [where sch = "(NONE, None, None)"]) (auto simp: sched_of_def idle_def)

lemma ok_switch_yield: "ok S (yielding p True) (sched_switch YIELD c p sched_next)"
proof -
  have "ok S (release p (yielding p True)) (unlock_tcbs sched_next)"
    by (rule ok_unlock_tcbs) (use ok_sched_next [of S "(YIELD, None, None)"] in \<open>simp_all add: ghost_simps\<close>)
  then show ?thesis by (simp, intro ok_ready_enqueue) (simp_all add: ghost_simps)
qed

lemma ok_switch_exit: "ok S (exiting p) (sched_switch EXIT c p sched_next)"
proof -
  have "ok S (release p (exiting p)) (unlock_tcbs sched_next)"
    by (rule ok_unlock_tcbs) (use ok_sched_next [of S "(EXIT, None, None)"] in \<open>simp_all add: ghost_simps\<close>)
  then show ?thesis by (simp, intro ok_exit_read [where b = False]) (simp_all add: ghost_simps)
qed

lemma ok_switch_wait:
  assumes m: "m \<in> S"
  shows "ok S (waiting p True m) (sched_switch SEM_WAIT c p sched_next)"
proof -
  let ?sch = "(SEM_WAIT, Some (Sem_lock m), Some (Sem_queue m))"
  have unl: "ok S (idle\<lparr>g_locks := {Tcbs_lock}, g_sched := ?sch\<rparr>) (unlock_tcbs sched_next)"
    by (rule ok_unlock_tcbs) (use ok_sched_next [of S ?sch] in \<open>simp_all add: idle_def\<close>)
  have sem: "ok S (release p (waiting p True m)) (checked (\<lambda>i s. bind_o (kinfo_at s i) (\<lambda>ki.
       case sched_lock (sched_info ki) of None \<Rightarrow> Err Null_deref | Some r \<Rightarrow> do_unlock r i s)) (unlock_tcbs sched_next))"
  proof (rule ok_checkedI [OF _ unl])
    fix i s D loc W G
    assume inv: "inv S s D loc W G" "i \<in> ktids s" and i: "G i = release p (waiting p True m)"
    obtain ki where ki: "kinfo_at s i = Ok ki" "sched_of ki = g_sched (G i)" by (rule inv_kinfo [OF inv]) (rule that)
    have "sched_lock (sched_info ki) = Some (Sem_lock m)" using ki(2) unfolding i by (simp add: sched_of_def ghost_simps)
    moreover have "(G i)\<lparr>g_locks := g_locks (G i) - {Sem_lock m}, g_cnt := None, g_len := None\<rparr> =
        idle\<lparr>g_locks := {Tcbs_lock}, g_sched := ?sch\<rparr>" unfolding i by (simp add: ghost_simps)
    moreover have "Sem_lock m \<in> g_locks (G i)" "g_posted (G i) = None" unfolding i by (simp_all add: ghost_simps)
    ultimately show "(\<exists>s'. bind_o (kinfo_at s i) (\<lambda>ki. case sched_lock (sched_info ki) of None \<Rightarrow> Err Null_deref | Some r \<Rightarrow> do_unlock r i s) =
          Ok (0, s') \<and> moves S (idle\<lparr>g_locks := {Tcbs_lock}, g_sched := ?sch\<rparr>) s D W G i s') \<or>
        bind_o (kinfo_at s i) (\<lambda>ki. case sched_lock (sched_info ki) of None \<Rightarrow> Err Null_deref | Some r \<Rightarrow> do_unlock r i s) = Block \<and>
          blocked_ok S s (release p (waiting p True m))"
      using do_unlock_moves [OF inv, of "Sem_lock m"] ki(1) by auto
  qed
  show ?thesis
    unfolding sched_switch.simps
  proof (rule ok_checkedI [OF _ sem])
    fix i s D loc W G
    assume inv: "inv S s D loc W G" "i \<in> ktids s" and i: "G i = waiting p True m"
    obtain ki where ki: "kinfo_at s i = Ok ki" "sched_of ki = g_sched (G i)" by (rule inv_kinfo [OF inv]) (rule that)
    have "sched_queue (sched_info ki) = Some (Sem_queue m)" using ki(2) unfolding i by (simp add: sched_of_def ghost_simps)
    moreover have "\<exists>s'. enqueue_ref (Sem_queue m) p s = Ok (0, s') \<and> moves S (release p (G i)) s D W G i s'"
      by (rule sem_enqueue_moves [OF inv m]) (simp_all add: i ghost_simps)
    ultimately show "(\<exists>s'. bind_o (kinfo_at s i) (\<lambda>ki. case sched_queue (sched_info ki) of None \<Rightarrow> Err Assert_fail | Some r \<Rightarrow> enqueue_ref r p s) =
          Ok (0, s') \<and> moves S (release p (waiting p True m)) s D W G i s') \<or>
        bind_o (kinfo_at s i) (\<lambda>ki. case sched_queue (sched_info ki) of None \<Rightarrow> Err Assert_fail | Some r \<Rightarrow> enqueue_ref r p s) = Block \<and>
          blocked_ok S s (waiting p True m)"
      using ki(1) i by auto
  qed
qed

text \<open>What \<^verbatim>\<open>schedule()\<close> reads at its beginning.\<close>

definition sched_read :: "ktid \<Rightarrow> shared \<Rightarrow> (sched_task \<times> int \<times> addr) outcome" where
  "sched_read i s =
     bind_o (kinfo_at s i) (\<lambda>ki.
     bind_o (uthread_self i s) (\<lambda>self.
     let cur_tid = sint self in
     bind_o (if cur_tid \<ge> 0 then tcbs_at_int s cur_tid else Ok NULL) (\<lambda>current_tcb.
     Ok (task (sched_info ki), cur_tid, current_tcb))))"

lemma sint_word_of_int:
  assumes "-1 \<le> c" "c < int UTHREAD_MAX_THREADS"
  shows "sint (word_of_int c :: tid_t) = c"
proof -
  have "- (2 ^ 31) \<le> c" "c < 2 ^ 31" using assms unfolding UTHREAD_MAX_THREADS_def by auto
  then show ?thesis by (simp add: sint_sbintrunc' signed_take_bit_int_eq_self)
qed

lemma sched_read_ok:
  assumes inv: "inv S s D loc W G" and i: "i \<in> ktids s"
  shows "\<exists>c q. sched_read i s = Ok (fst (g_sched (G i)), c, q) \<and> (\<forall>p. g_cur (G i) = Some p \<longrightarrow> q = p)"
proof -
  obtain ki where ki: "kinfo_at s i = Ok ki" "sched_of ki = g_sched (G i)" "-1 \<le> current_tid ki"
    "current_tid ki < int UTHREAD_MAX_THREADS" "cur_ok s ki (G i)" by (rule inv_kinfo [OF inv i]) (rule that)
  let ?c = "current_tid ki"
  have self: "uthread_self i s = Ok (word_of_int ?c)" using ki(1) inv_libc(2) [OF inv] by (simp add: uthread_self_def)
  have "\<exists>q. (if ?c \<ge> 0 then tcbs_at_int s ?c else Ok NULL) = Ok q \<and> (\<forall>p. g_cur (G i) = Some p \<longrightarrow> q = p)"
  proof (cases "0 \<le> ?c")
    case True
    then have "nat ?c < UTHREAD_MAX_THREADS" using ki(4) by simp
    moreover have "tcbs s (nat ?c) = p" if "g_cur (G i) = Some p" for p
    proof -
      from that ki(5) obtain t :: uthread_tcb_t where "?c = int (unat (tcb_tid t))" "tcbs s (unat (tcb_tid t)) = p"
        unfolding cur_ok_def by blast
      then show ?thesis by simp
    qed
    ultimately show ?thesis using True by (auto simp: tcbs_at_int_def)
  next
    case False
    have "g_cur (G i) = None"
    proof (cases "g_cur (G i)")
      case (Some p)
      with ki(5) obtain t :: uthread_tcb_t where "?c = int (unat (tcb_tid t))" unfolding cur_ok_def by blast
      with False show ?thesis by simp
    qed
    with False show ?thesis by auto
  qed
  with ki(1) self sint_word_of_int [OF ki(3,4)] show ?thesis
    by (auto simp: sched_read_def sched_of_def Let_def simp flip: ki(2))
qed

lemma ok_sched_check:
  assumes "ok S g k"
  shows "ok S g (c_assert (\<lambda>i s. bind_o (kinfo_at s i) (\<lambda>ki. Ok (i = kinfo_ktid ki))) k)"
proof (rule ok_assertI [OF _ assms])
  fix i s D loc W G
  assume inv: "inv S s D loc W G" "i \<in> ktids s"
  obtain ki where "kinfo_at s i = Ok ki" "kinfo_ktid ki = i" by (rule inv_kinfo [OF inv]) (rule that)
  then show "bind_o (kinfo_at s i) (\<lambda>ki. Ok (i = kinfo_ktid ki)) = Ok True" by simp
qed

lemma ok_sched_body:
  assumes "\<And>c q. (\<forall>p. g_cur g = Some p \<longrightarrow> q = p) \<Longrightarrow> ok S g (sched_switch (fst (g_sched g)) c q sched_next)"
  shows "ok S g (expr sched_read (\<lambda>(t, cur_tid, current_tcb).
     c_assert (\<lambda>i s. bind_o (kinfo_at s i) (\<lambda>ki. Ok (i = kinfo_ktid ki))) (
     sched_switch t cur_tid current_tcb sched_next)))"
proof (rule ok_readI)
  fix i s D loc W G
  assume inv: "inv S s D loc W G" "i \<in> ktids s" "G i = g"
  from sched_read_ok [OF inv(1,2)] inv(3) ok_sched_check [OF assms]
  show "\<exists>v. sched_read i s = Ok v \<and> ok S g (case v of (t, cur_tid, current_tcb) \<Rightarrow>
     c_assert (\<lambda>i s. bind_o (kinfo_at s i) (\<lambda>ki. Ok (i = kinfo_ktid ki))) (
     sched_switch t cur_tid current_tcb sched_next))" by auto
qed

lemma ok_schedule:
  assumes "\<And>c q. (\<forall>p. g_cur g = Some p \<longrightarrow> q = p) \<Longrightarrow> ok S g (sched_switch (fst (g_sched g)) c q sched_next)"
  shows "ok S g schedule"
  using ok_sched_body [OF assms] unfolding schedule_def sched_read_def by (rule ok_block_sigrtmin)

lemma schedule_ok:
  "ok S idle schedule" "ok S (yielding p True) schedule" "ok S (exiting p) schedule"
  "m \<in> S \<Longrightarrow> ok S (waiting p True m) schedule"
proof -
  have "idle\<lparr>g_sched := (NONE, None, None)\<rparr> = idle" by (simp add: idle_def)
  then show "ok S idle schedule"
    using ok_sched_next [of S "(NONE, None, None)"] by (intro ok_schedule) (simp add: idle_def)
  show "ok S (yielding p True) schedule"
    by (rule ok_schedule) (use ok_switch_yield in \<open>simp add: ghost_simps\<close>)
  show "ok S (exiting p) schedule"
    by (rule ok_schedule) (use ok_switch_exit in \<open>simp add: ghost_simps\<close>)
  show "ok S (waiting p True m) schedule" if "m \<in> S"
    by (rule ok_schedule) (use ok_switch_wait [OF that] in \<open>simp add: ghost_simps\<close>)
qed

section \<open>The public interface\<close>

lemma ok_yield:
  assumes "ok S (running p) k"
  shows "ok S (running p) (uthread_yield k)"
proof -
  have "ok S (yielding p False) (Swapcontext p k)" using assms by (rule ok_Swap_yield)
  then show ?thesis
    unfolding uthread_yield_def
    by (intro ok_assert_inited ok_block_sigrtmin ok_set_task [of _ NONE None None] ok_lock_tcbs
        ok_self_tcb [of _ p] ok_has_state [of _ _ _ False] ok_set_state [of _ _ RUNNING False])
      (simp_all add: ghost_simps)
qed

lemma ok_check_preempted:
  assumes "ok S (running p) k"
  shows "ok S (running p) (check_preempted k)"
  unfolding check_preempted_def
proof (rule ok_readI)
  fix i s D loc W G
  assume inv: "inv S s D loc W G" "i \<in> ktids s"
  obtain ki where "kinfo_at s i = Ok ki" by (rule inv_kinfo [OF inv]) (rule that)
  then show "\<exists>v. bind_o (kinfo_at s i) (\<lambda>ki. Ok (quantum s \<noteq> 0 \<and> preempted ki)) = Ok v \<and>
      ok S (running p) (if v then stmt (kinfo_update (\<lambda>ki. ki\<lparr>preempted := False\<rparr>)) (uthread_yield k) else k)"
    using assms ok_set_preempted [OF ok_yield [OF assms]] by auto
qed

lemma ok_exit: "ok S (running p) (uthread_exit v)"
proof -
  have "ok S (exiting p) Setcontext_sched" by (rule ok_Setcontext_sched)
  then show ?thesis
    unfolding uthread_exit_def
    by (intro ok_assert_inited ok_block_sigrtmin ok_check_preempted ok_lock_tcbs
        ok_self_tcb [of _ p] ok_set_retval [of _ _ RUNNING False] ok_has_state [of _ _ _ False]
        ok_set_state [of _ _ RUNNING False] ok_set_task [of _ NONE None None])
      (simp_all add: ghost_simps)
qed

lemma ok_trampoline:
  assumes "client_ok S (f a)"
  shows "ok S (running p) (trampoline f a)"
proof -
  have run: "ok S ((running p)\<lparr>g_locks := {Tcbs_lock}\<rparr>) (unlock_tcbs (User (f a)))"
    using ok_User [OF assms, of p] by (intro ok_unlock_tcbs) (simp_all add: ghost_simps)
  have "ok S ((running p)\<lparr>g_locks := {Tcbs_lock}\<rparr>) (c_assert (\<lambda>i s. bind_o (self_tcb i s) (\<lambda>p. has_state p RUNNING i s)) (
     unlock_tcbs (User (f a))))"
  proof (rule ok_assertI [OF _ run])
    fix i s D loc W G
    assume inv: "inv S s D loc W G" "i \<in> ktids s" and i: "G i = (running p)\<lparr>g_locks := {Tcbs_lock}\<rparr>"
    have "g_cur (G i) = Some p" "g_own (G i) p = Some (RUNNING, False)" unfolding i by (simp_all add: ghost_simps)
    with self_tcb_cur [OF inv] tcb_at_owned [OF inv(1), of i p RUNNING False]
    show "bind_o (self_tcb i s) (\<lambda>p. has_state p RUNNING i s) = Ok True" by (auto simp: has_state_def)
  qed
  then show ?thesis
    unfolding trampoline_def by (intro ok_lock_tcbs) (simp_all add: ghost_simps)
qed

lemma ok_get_next_tid:
  assumes "\<And>t. t < UTHREAD_MAX_THREADS \<Longrightarrow> ok S ((running p)\<lparr>g_new := Some (t, NULL)\<rparr>) (k (int t))"
  shows "ok S (running p) (get_next_tid k)"
  unfolding get_next_tid_def
  by (intro ok_lock ok_take_tid ok_unlock) (use assms in \<open>simp_all add: ghost_simps\<close>)

lemma ok_create_publish:
  assumes f: "client_ok S (f a)" and k: "\<And>r. ok S (running p) (k r)" and pq: "p \<noteq> q"
  shows "ok S ((running p)\<lparr>g_locks := {Tcbs_lock}, g_own := [p \<mapsto> (RUNNING, False), q \<mapsto> (READY, False)],
      g_made := Some (unat t, q)\<rparr>) (create_publish t f a base k)"
proof -
  let ?g = "\<lambda>b. (running p)\<lparr>g_locks := {Tcbs_lock}, g_own := [p \<mapsto> (RUNNING, False), q \<mapsto> (READY, b)], g_made := Some (unat t, q)\<rparr>"
  have "ok S (release q (?g True)) (unlock_tcbs (unblock_sigrtmin (k (0, Some t))))"
    using k pq by (intro ok_unlock_tcbs ok_unblock_sigrtmin) (simp_all add: ghost_simps fun_upd_twist)
  then have "ok S (?g True) (expr (\<lambda>i s. tcbs_at s t) (\<lambda>p. ready_enqueue p (unlock_tcbs (unblock_sigrtmin (k (0, Some t))))))"
    by (intro ok_read_tcbs [of _ _ q] ok_ready_enqueue) (simp_all add: ghost_simps)
  then show ?thesis
    unfolding create_publish_def using ok_trampoline [of S f a, OF f]
    by (intro ok_on_tcb [of _ _ q READY False] ok_Makecontext [of _ _ q READY False]) (simp_all add: ghost_simps)
qed

lemma ok_create_tcb:
  assumes f: "client_ok S (f a)" and k: "\<And>r. ok S (running p) (k r)"
  shows "ok S ((running p)\<lparr>g_new := Some (unat t, NULL)\<rparr>) (create_tcb t f a base sz k)"
  unfolding create_tcb_def
proof (rule ok_lock_tcbs, goal_cases)
  case 2
  show ?case
  proof (rule ok_malloc_tcb, goal_cases)
    case (2 q)
    then have pq: "p \<noteq> q" by (auto simp: ghost_simps)
    from 2 pq show ?case
      using ok_create_publish [of S f a p k q t base, OF f k pq]
      by (simp, intro ok_init_tcb [of _ _ q READY False] ok_sys_or_abort ok_allocate_stack [of _ _ q READY False])
        (simp_all add: ghost_simps)
  qed (simp add: ghost_simps)
qed (simp add: ghost_simps)

lemma ok_create:
  assumes f: "client_ok S (f a)" and k: "\<And>r. ok S (running p) (k r)"
  shows "ok S (running p) (uthread_create f a base sz k)"
  unfolding uthread_create_def
proof (intro ok_assert_inited ok_block_sigrtmin ok_check_preempted ok_get_next_tid)
  fix t assume "t < UTHREAD_MAX_THREADS"
  then have t: "unat (word_of_int (int t) :: tid_t) = t"
    by (simp add: UTHREAD_MAX_THREADS_def unsigned_of_nat take_bit_nat_eq_self_iff)
  show "ok S ((running p)\<lparr>g_new := Some (t, NULL)\<rparr>) (let new_tid = (word_of_int (int t) :: tid_t) in
     if new_tid < 0 then unblock_sigrtmin (k (1, None)) else create_tcb new_tid f a base sz k)"
    using ok_create_tcb [of S f a p k "word_of_int (int t)" base sz, OF f k] unfolding t by (simp add: Let_def)
qed

section \<open>Semaphores\<close>

lemma ok_sem_post:
  assumes m: "m \<in> S" and k: "\<And>r. ok S (running p) (k r)"
  shows "ok S (running p) (uthread_sem_post m k)"
proof -
  let ?U = "call (do_unlock (Sem_lock m)) (\<lambda>r. unblock_sigrtmin (k (if r \<noteq> 0 then 1 else 0)))"
  have unl: "ok S ((running p)\<lparr>g_locks := {Sem_lock m}\<rparr>) ?U"
    using k by (intro ok_call_unlock ok_unblock_sigrtmin) (simp_all add: ghost_simps)
  have wake: "ok S ((running p)\<lparr>g_locks := {Sem_lock m}, g_own := [p \<mapsto> (RUNNING, False), q \<mapsto> (WAITING_SEM, True)]\<rparr>)
     (lock_tcbs (c_assert (\<lambda>i s. Ok (q \<noteq> NULL)) (c_assert (has_state q WAITING_SEM) (stmt (set_state q READY) (
       unlock_tcbs (ready_enqueue q ?U))))))" if "q \<noteq> NULL" "p \<noteq> q" for q
    using that unl
    by (intro ok_lock_tcbs ok_null_check ok_has_state [of _ _ _ True] ok_set_state [of _ _ WAITING_SEM True]
        ok_unlock_tcbs ok_ready_enqueue) (auto simp: ghost_simps fun_upd_twist)
  have "ok S ((running p)\<lparr>g_locks := {Sem_lock m}, g_posted := Some m, g_len := Some (m, n)\<rparr>)
     (call (\<lambda>i. dequeue_ref (Sem_queue m)) (\<lambda>q. lock_tcbs (c_assert (\<lambda>i s. Ok (q \<noteq> NULL)) (c_assert (has_state q WAITING_SEM) (
       stmt (set_state q READY) (unlock_tcbs (ready_enqueue q ?U)))))))" if "0 < n" for n
  proof (rule ok_sem_dequeue [OF m _ _ _ _ _ that], goal_cases)
    case (6 q)
    then have "p \<noteq> q" by (auto simp: ghost_simps)
    from wake [OF 6(1) this] show ?case by (simp add: ghost_simps)
  qed (simp_all add: ghost_simps)
  note deq = this
  show ?thesis
    unfolding uthread_sem_post_def Let_def
  proof (intro ok_assert_inited ok_block_sigrtmin ok_check_preempted ok_call_lock, goal_cases)
    case 3
    show ?case
      by (simp, intro ok_sem_inc [OF m, of _ p] ok_sem_len [OF m, of _ p])
        (use deq unl in \<open>simp_all add: ghost_simps\<close>)
  qed (use m in \<open>simp_all add: ghost_simps\<close>)
qed

lemma ok_sem_wait_loop:
  assumes m: "m \<in> S" and w: "w = None \<or> w = Some m" and k: "\<And>r. ok S (running p) (k r)"
  shows "ok S ((running p)\<lparr>g_pend := w, g_locks := {Sem_lock m}\<rparr>) (sem_wait_loop m p k)"
proof -
  have again: "ok S ((running p)\<lparr>g_pend := Some m\<rparr>) (block_sigrtmin (call (do_lock (Sem_lock m)) (\<lambda>r.
      if r \<noteq> 0 then unblock_sigrtmin (k 1) else Sem_wait_loop m p k)))"
    using ok_Sem_wait_loop [of m S "Some m" p k] m k
    by (intro ok_block_sigrtmin ok_call_lock) (simp_all add: ghost_simps)
  have "ok S (waiting p False m) (Swapcontext p (block_sigrtmin (call (do_lock (Sem_lock m)) (\<lambda>r.
      if r \<noteq> 0 then unblock_sigrtmin (k 1) else Sem_wait_loop m p k))))"
    by (rule ok_Swap_wait [OF m again])
  then have block: "ok S ((running p)\<lparr>g_pend := Some m, g_locks := {Sem_lock m}, g_cnt := Some (m, 0)\<rparr>)
     (stmt (kinfo_update (\<lambda>ki. ki\<lparr>sched_info := (sched_info ki)\<lparr>task := SEM_WAIT,
         sched_lock := Some (Sem_lock m), sched_queue := Some (Sem_queue m)\<rparr>\<rparr>)) (
       lock_tcbs (
       stmt (set_state p WAITING_SEM) (
       Swapcontext p (block_sigrtmin (call (do_lock (Sem_lock m)) (\<lambda>r.
      if r \<noteq> 0 then unblock_sigrtmin (k 1) else Sem_wait_loop m p k)))))))"
    by (intro ok_kinfo_update [where sch = "(SEM_WAIT, Some (Sem_lock m), Some (Sem_queue m))"] ok_lock_tcbs
        ok_set_state [of _ _ RUNNING False]) (auto simp: ghost_simps sched_of_def insert_commute)
  have unl: "ok S ((running p)\<lparr>g_locks := {Sem_lock m}\<rparr>) (call (do_unlock (Sem_lock m)) (\<lambda>r.
       unblock_sigrtmin (k (if r \<noteq> 0 then 1 else 0))))"
    using k by (intro ok_call_unlock ok_unblock_sigrtmin) (simp_all add: ghost_simps)
  show ?thesis
    unfolding sem_wait_loop_def
  proof (rule ok_sem_counter [OF m, of _ p RUNNING], goal_cases)
    case 8
    then show ?case using block by (simp add: ghost_simps)
  next
    case (9 c)
    then show ?case
      using unl w by (simp, intro ok_sem_dec [OF m, of _ p RUNNING c]) (simp_all add: ghost_simps)
  qed (use w in \<open>simp_all add: ghost_simps\<close>)
qed

lemma ok_sem_wait:
  assumes m: "m \<in> S" and k: "\<And>r. ok S (running p) (k r)"
  shows "ok S (running p) (uthread_sem_wait m k)"
  unfolding uthread_sem_wait_def
proof (intro ok_assert_inited ok_block_sigrtmin ok_check_preempted ok_call_lock, goal_cases)
  case 3
  show ?case
    using ok_Sem_wait_loop [of m S None p k] m k
    by (simp, intro ok_self_tcb [of _ p] ok_sem_nonneg) (simp_all add: ghost_simps)
qed (use m in \<open>simp_all add: ghost_simps\<close>)

lemma ok_arm_timer:
  assumes "ok S g k"
  shows "ok S g (stmt (\<lambda>i s. if quantum s \<noteq> 0 then set_timer_interrupt i s else Ok s) k)"
proof (rule ok_stmtI [OF _ assms])
  fix i s D loc W G
  assume inv: "inv S s D loc W G" and i: "i \<in> ktids s" "G i = g"
  note libc = inv_libc [OF inv]
  show "(\<exists>s'. (if quantum s \<noteq> 0 then set_timer_interrupt i s else Ok s) = Ok s' \<and> moves S g s D W G i s') \<or>
    (if quantum s \<noteq> 0 then set_timer_interrupt i s else Ok s) = Err Signed_overflow"
  proof (cases "quantum s = 0")
    case True
    then show ?thesis using moves_refl [OF inv, of i] i by auto
  next
    case False
    let ?s = "s\<lparr>ncalls := Suc (Suc (Suc (ncalls s)))\<rparr>" and ?f = "\<lambda>ki. ki\<lparr>timer_nsec := Some (quantum s)\<rparr>"
    have inv': "inv S ?s D loc W G" using inv by simp
    obtain ki where ki: "kinfo_at ?s i = Ok ki" "sched_of ki = g_sched (G i)" "-1 \<le> current_tid ki"
      "current_tid ki < int UTHREAD_MAX_THREADS" "cur_ok ?s ki (G i)"
      by (rule inv_kinfo [OF inv', of i]) (use i in auto)
    have "\<exists>s'. kinfo_update ?f i ?s = Ok s' \<and> ktids s' = ktids ?s \<and> inv S s' D loc W (G(i := G i))"
      by (rule inv_kinfo_update [OF inv' ki(1)])
        (use ki wake_ok_cur [OF inv_parts(7) [OF inv]] in \<open>auto simp: sched_of_def cur_ok_def\<close>)
    then obtain s' where "kinfo_update ?f i ?s = Ok s'" "ktids s' = ktids s" "inv S s' D loc W (G(i := g))"
      using i(2) by auto
    moreover have "\<exists>j. get_kthread_info s i = Ok j"
      using ki(1) by (auto simp: kinfo_at_def bind_o_Ok_iff get_kthread_info_def)
    ultimately show ?thesis
      using False libc i(2) by (auto simp: set_timer_interrupt_def libc_call_def intro!: movesI)
  qed
qed

lemma ok_kthread_main: "ok S booting kthread_main"
proof -
  have start: "ok S idle (block_sigrtmin (assert_inited (
     stmt (\<lambda>i s. if quantum s \<noteq> 0 then set_timer_interrupt i s else Ok s) Setcontext_sched)))"
    by (intro ok_block_sigrtmin ok_assert_inited ok_arm_timer ok_Setcontext_start)
  show ?thesis
    unfolding kthread_main_def
  proof (rule ok_checkedI [OF _ start])
    fix i s D loc W G
    assume inv: "inv S s D loc W G" and i: "i \<in> ktids s" "G i = booting"
    note parts = inv_parts [OF inv]
    from inv_libc(5) [OF inv] obtain v where v: "inited_sem s = Sem_value v" by blast
    have "inv S (s\<lparr>inited_sem := Sem_value v'\<rparr>) D loc W (G(i := idle))" for v'
    proof -
      have "mem_ok (s\<lparr>inited_sem := Sem_value v'\<rparr>)" using parts(8) unfolding mem_ok_def by simp
      moreover have "inv S s D loc W (G(i := idle))"
        unfolding inv_def using parts i
        by (auto simp: ghost_frame booting_def idle_def intro!: ki_ok_ghost sem_ok_ghost wake_ok_ghost tid_ok_ghost)
      ultimately show ?thesis by (simp add: inv_def)
    qed
    then show "(\<exists>s'. wait_inited s = Ok (0, s') \<and> moves S idle s D W G i s') \<or> wait_inited s = Block \<and> blocked_ok S s booting"
      using v by (cases v) (auto simp: wait_inited_def blocked_ok_def idle_def intro!: movesI)
  qed
qed

lemma ok_api:
  assumes "client_ok S u"
  shows "ok S (running p) (api u)"
  using assms
proof (cases rule: client_ok.cases)
  case (1 f a k b sz)
  then show ?thesis by (auto simp: api_def intro!: ok_create ok_User)
next
  case (4 k)
  have "ok S (running p) (expr uthread_self (\<lambda>t. User (k t)))"
  proof (rule ok_readI)
    fix i s D loc W G
    assume inv: "inv S s D loc W G" "i \<in> ktids s"
    obtain ki where "kinfo_at s i = Ok ki" by (rule inv_kinfo [OF inv]) (rule that)
    then show "\<exists>v. uthread_self i s = Ok v \<and> ok S (running p) (User (k v))"
      using inv_libc(2) [OF inv(1)] ok_User 4(2) by (auto simp: uthread_self_def)
  qed
  with 4 show ?thesis by (simp add: api_def)
next
  case (8 f)
  have "ok S (running p) (Atom (\<lambda>i s. case f (cmem s) of (m, u') \<Rightarrow> Ok (s\<lparr>cmem := m\<rparr>, User u')))"
  proof (intro ok_Atom atom_okI)
    fix i s D loc W G
    assume inv: "inv S s D loc W G" "i \<in> ktids s" "G i = running p"
    have "moves S (G i) s D W G i (s\<lparr>cmem := fst (f (cmem s))\<rparr>)" by (intro movesI [of _ _ _ _ loc W] inv_same) (use inv in auto)
    with 8(2) [of "cmem s"] show "outcome_ok S s D W G i (\<lambda>c g'. ok S g' c)
       (map_outcome prod.swap (case f (cmem s) of (m, u') \<Rightarrow> Ok (s\<lparr>cmem := m\<rparr>, User u')))"
      using inv(3) by (auto simp: split_beta intro!: outcome_ok_moves ok_User)
  qed
  with 8 show ?thesis by (simp add: api_def)
qed (auto simp: api_def intro!: ok_exit ok_yield ok_sem_post ok_sem_wait ok_User ok_Process_exit)

end
