(* ===== verification/Safety.thy ===== *)
theory Safety
  imports Safe_Code
begin

text \<open>
  The invariant of the whole machine, its preservation by every step of every kernel thread and by
  the timer signal, and its consequences: no error but the overflow of a semaphore counter, the
  shape of the queues, and what holds when all kernel threads wait.
\<close>

section \<open>The invariant of the machine\<close>

text \<open>
  Every kernel thread of the library executes code that is safe for its ghost state, the saved
  contexts are safe for the kernel thread that will resume them, and nothing else runs.
\<close>

definition minv :: "semid set \<Rightarrow> machine \<Rightarrow> addr set \<Rightarrow> (addr \<Rightarrow> place) \<Rightarrow> (addr \<Rightarrow> semid option) \<Rightarrow> ghosts \<Rightarrow> bool" where
  "minv S m D loc W G \<longleftrightarrow>
     inv S (sh m) D loc W G \<and>
     (\<forall>i c. kcode m i = Some c \<longrightarrow> i \<in> ktids (sh m) \<and> ok S (G i) c) \<and>
     (\<forall>p \<in> D. \<exists>c b. ctxs m p = Some (c, b) \<and> ok S ((running p)\<lparr>g_pend := W p\<rparr>) c) \<and>
     (exit_status m = None \<longrightarrow> (\<forall>i \<in> ktids (sh m). kcode m i \<noteq> None)) \<and>
     (\<exists>i \<in> ktids (sh m). \<not> g_boot (G i))"

text \<open>What a step of kernel thread \<open>i\<close> must give: no error and the invariant, or waiting in order.\<close>

definition step_ok :: "semid set \<Rightarrow> shared \<Rightarrow> ghost \<Rightarrow> machine outcome \<Rightarrow> bool" where
  "step_ok S s g x \<longleftrightarrow>
     (case x of
        Ok m' \<Rightarrow> \<exists>D loc W G. minv S m' D loc W G
      | Block \<Rightarrow> blocked_ok S s g
      | Err e \<Rightarrow> e = Signed_overflow)"

lemma minvD:
  assumes "minv S m D loc W G"
  shows minv_inv: "inv S (sh m) D loc W G"
    and minv_code: "kcode m i = Some c \<Longrightarrow> i \<in> ktids (sh m) \<and> ok S (G i) c"
    and minv_ctx: "p \<in> D \<Longrightarrow> \<exists>c b. ctxs m p = Some (c, b) \<and> ok S ((running p)\<lparr>g_pend := W p\<rparr>) c"
    and minv_alive: "exit_status m = None \<Longrightarrow> i \<in> ktids (sh m) \<Longrightarrow> kcode m i \<noteq> None"
    and minv_boot: "\<exists>i \<in> ktids (sh m). \<not> g_boot (G i)"
  using assms unfolding minv_def by blast+

text \<open>A step that changes the shared state, the code of \<open>i\<close>, its ghost state and the saved contexts.\<close>

lemma minv_goto:
  assumes m: "minv S m D loc W G" and i: "i \<in> ktids (sh m)"
    and s: "inv S (sh m') D' loc' W' (G(i := g))" "ktids (sh m') = ktids (sh m)"
    and m': "kcode m' = kcode m" "exit_status m' = exit_status m"
    and ctx: "\<And>p. p \<in> D' \<Longrightarrow> p \<in> D \<and> W' p = W p \<and> ctxs m' p = ctxs m p \<or>
      (\<exists>c b. ctxs m' p = Some (c, b) \<and> ok S ((running p)\<lparr>g_pend := W' p\<rparr>) c)"
    and c: "ok S g c" and boot: "g_boot g \<Longrightarrow> g_boot (G i)"
  shows "minv S (goto i c m') D' loc' W' (G(i := g))"
  unfolding minv_def
proof (intro conjI allI ballI impI)
  fix p assume "p \<in> D'"
  from ctx [OF this] minv_ctx [OF m]
  show "\<exists>c' b. ctxs (goto i c m') p = Some (c', b) \<and> ok S ((running p)\<lparr>g_pend := W' p\<rparr>) c'"
    by (auto simp: goto_def)
next
  fix j c' assume "kcode (goto i c m') j = Some c'"
  then show "j \<in> ktids (sh (goto i c m'))" "ok S ((G(i := g)) j) c'"
    using i s(2) c m'(1) minv_code [OF m, of j c'] by (auto simp: goto_def split: if_splits)
next
  fix j assume "exit_status (goto i c m') = None" "j \<in> ktids (sh (goto i c m'))"
  then show "kcode (goto i c m') j \<noteq> None"
    using m' s(2) minv_alive [OF m, of j] by (auto simp: goto_def)
next
  obtain j where "j \<in> ktids (sh m)" "\<not> g_boot (G j)" using minv_boot [OF m] by blast
  then show "\<exists>j \<in> ktids (sh (goto i c m')). \<not> g_boot ((G(i := g)) j)"
    using s(2) boot by (intro bexI [of _ j]) (auto simp: goto_def)
qed (use s(1) in \<open>simp add: goto_def\<close>)

section \<open>Saving and consuming contexts\<close>

lemma tcb_ok_ctx:
  assumes tcb: "tcb_ok s D loc G" and own: "g_own (G i) p = Some (st, b)"
    and D: "\<And>q. q \<noteq> p \<Longrightarrow> q \<in> D' \<longleftrightarrow> q \<in> D" "p \<in> D' \<longleftrightarrow> b'"
  shows "tcb_ok s D' loc (G(i := (G i)\<lparr>g_own := (g_own (G i))(p \<mapsto> (st, b'))\<rparr>))"
  unfolding tcb_ok_def
proof (intro conjI allI impI)
  let ?g = "(G i)\<lparr>g_own := (g_own (G i))(p \<mapsto> (st, b'))\<rparr>"
  have loc: "loc p = Owned i" by (rule tcb_ok_own [OF tcb own])
  fix q assume q: "tcb_heap s q = None"
  then have "loc q = Nowhere" by (rule tcb_ok_None [OF tcb])
  moreover from this loc have "q \<noteq> p" by auto
  ultimately show "loc q = Nowhere" "q \<notin> D'" using tcb_ok_None_ctx [OF tcb q] D(1) by auto
next
  let ?g = "(G i)\<lparr>g_own := (g_own (G i))(p \<mapsto> (st, b'))\<rparr>"
  have loc: "loc p = Owned i" by (rule tcb_ok_own [OF tcb own])
  fix q t assume q: "tcb_heap s q = Some t"
  note old = tcb_ok_Some [OF tcb q]
  then show "q \<noteq> NULL" "q \<noteq> exitall" "queue_rep (join_queue t) []" by auto
  show "place_ok D' (G(i := ?g)) q (state t) (loc q)"
  proof (cases "q = p")
    case True
    with old own loc D(2) show ?thesis by (auto simp: place_ok_def)
  next
    case False
    have eq: "g_own ((G(i := ?g)) j) q = g_own (G j) q" for j using False by simp
    show ?thesis using old unfolding place_ok_def eq D(1) [OF False] by blast
  qed
next
  fix j q assume "q \<in> dom (g_own ((G(i := (G i)\<lparr>g_own := (g_own (G i))(p \<mapsto> (st, b'))\<rparr>)) j))"
  then have "q \<in> dom (g_own (G j))" using own by (cases "j = i") (auto split: if_splits)
  then show "loc q = Owned j" using tcb_ok_own [OF tcb] by blast
qed

lemma inv_ctx:
  assumes inv: "inv S s D loc W G" and i: "i \<in> ktids s" and own: "g_own (G i) p = Some (st, b)"
    and D: "\<And>q. q \<noteq> p \<Longrightarrow> q \<in> D' \<longleftrightarrow> q \<in> D" "p \<in> D' \<longleftrightarrow> b'"
  shows "inv S s D' loc W (G(i := (G i)\<lparr>g_own := (g_own (G i))(p \<mapsto> (st, b'))\<rparr>))"
proof -
  note parts = inv_parts [OF inv]
  let ?g = "(G i)\<lparr>g_own := (g_own (G i))(p \<mapsto> (st, b'))\<rparr>"
  have "dom (g_own ?g) = dom (g_own (G i))" using own by auto
  with parts i tcb_ok_ctx [OF parts(5) own D] show ?thesis
    unfolding inv_def by (auto simp: ghost_frame intro!: ki_ok_ghost sem_ok_ghost wake_ok_ghost tid_ok_ghost)
qed

text \<open>Entering the scheduler changes only the signal mask.\<close>

lemma ctx_call_inv:
  "inv S s D loc W G \<Longrightarrow> ctx_call s = Ok (s\<lparr>ncalls := Suc (ncalls s)\<rparr>)"
  by (simp add: ctx_call_def libc_call_def inv_libc)

lemma enter_sched_Ok:
  assumes "inv S (sh m) D loc W G" "i \<in> ktids (sh m)"
  shows "\<exists>b. enter_sched i m = Ok (goto i Schedule (m\<lparr>sh := (sh m)\<lparr>sigblocked := b\<rparr>\<rparr>))"
proof -
  obtain ki where "kinfo_at (sh m) i = Ok ki" by (rule inv_kinfo [OF assms]) (rule that)
  then show ?thesis by (auto simp: enter_sched_def)
qed

section \<open>Every step keeps the invariant\<close>

inductive_cases ok_Atom_E: "ok S g (Atom f)"
inductive_cases ok_Swapcontext_E: "ok S g (Swapcontext p c)"
inductive_cases ok_Setcontext_sched_E: "ok S g Setcontext_sched"
inductive_cases ok_Schedule_E: "ok S g Schedule"
inductive_cases ok_Setcontext_E: "ok S g (Setcontext p)"
inductive_cases ok_Makecontext_E: "ok S g (Makecontext t c c')"
inductive_cases ok_User_E: "ok S g (User u)"
inductive_cases ok_Sem_wait_loop_E: "ok S g (Sem_wait_loop m p k)"
inductive_cases ok_Kthread_create_E: "ok S g (Kthread_create n c)"
inductive_cases ok_Kthread_exit_E: "ok S g Kthread_exit"

lemma step_goto:
  assumes m: "minv S m D loc W G" and i: "i \<in> ktids (sh m)" and c: "ok S (G i) c"
  shows "minv S (goto i c m) D loc W G"
proof -
  have "minv S (goto i c m) D loc W (G(i := G i))"
    by (rule minv_goto [OF m i]) (use c minv_inv [OF m] in simp_all)
  then show ?thesis by simp
qed

lemma step_Atom:
  assumes m: "minv S m D loc W G" and i: "i \<in> ktids (sh m)" and free: "tid_free (sh m)" and c: "ok S (G i) (Atom f)"
  shows "step_ok S (sh m) (G i) (exec i (Atom f) m)"
proof -
  from c have "atom_ok S (G i) (\<lambda>i s. map_outcome prod.swap (f i s)) (\<lambda>c g'. ok S g' c)" by (rule ok_Atom_E)
  then have "outcome_ok S (sh m) D W G i (\<lambda>c g'. ok S g' c) (map_outcome prod.swap (f i (sh m)))"
    unfolding atom_ok_def using minv_inv [OF m] i free by blast
  then show ?thesis
  proof (cases "f i (sh m)")
    case (Ok x)
    obtain s' c' where x: "x = (s', c')" by (cases x)
    assume "outcome_ok S (sh m) D W G i (\<lambda>c g'. ok S g' c) (map_outcome prod.swap (f i (sh m)))"
    with Ok x obtain loc' W' g' where g': "ktids s' = ktids (sh m)" "inv S s' D loc' W' (G(i := g'))"
      "\<forall>p \<in> D. W' p = W p" "ok S g' c'" "g_boot g' \<longrightarrow> g_boot (G i)" by (auto simp: outcome_ok_Ok_iff)
    have "minv S (goto i c' (m\<lparr>sh := s'\<rparr>)) D loc' W' (G(i := g'))"
      by (rule minv_goto [OF m i]) (use g' in auto)
    with Ok x show ?thesis by (auto simp: step_ok_def)
  qed (auto simp: step_ok_def)
qed

lemma step_Swapcontext:
  assumes m: "minv S m D loc W G" and i: "i \<in> ktids (sh m)"
    and own: "g_own (G i) p = Some (st, b)" and c: "ok S ((running p)\<lparr>g_pend := W p\<rparr>) c"
    and sched: "ok S ((G i)\<lparr>g_own := (g_own (G i))(p \<mapsto> (st, True))\<rparr>) Schedule"
  shows "step_ok S (sh m) (G i) (exec i (Swapcontext p c) m)"
proof -
  note inv = minv_inv [OF m]
  let ?s = "(sh m)\<lparr>ncalls := Suc (ncalls (sh m))\<rparr>"
  let ?m = "m\<lparr>sh := ?s, ctxs := (ctxs m)(p \<mapsto> (c, sigblocked (sh m) i))\<rparr>"
  let ?G = "G(i := (G i)\<lparr>g_own := (g_own (G i))(p \<mapsto> (st, True))\<rparr>)"
  have inv': "inv S (sh ?m) (insert p D) loc W ?G"
    using inv_ctx [OF inv i own, of "insert p D" True] by simp
  then obtain bl where bl: "enter_sched i ?m = Ok (goto i Schedule (?m\<lparr>sh := (sh ?m)\<lparr>sigblocked := bl\<rparr>\<rparr>))"
    using enter_sched_Ok [OF inv'] i by auto
  have "exec i (Swapcontext p c) m = enter_sched i ?m"
    using tcb_at_owned [OF inv own] ctx_call_inv [OF inv] by (auto simp: sh_update_o_def)
  moreover have "minv S (goto i Schedule (?m\<lparr>sh := (sh ?m)\<lparr>sigblocked := bl\<rparr>\<rparr>)) (insert p D) loc W ?G"
    by (rule minv_goto [OF m i]) (use inv' c sched in auto)
  ultimately show ?thesis using bl by (auto simp: step_ok_def)
qed

lemma step_Setcontext_sched:
  assumes m: "minv S m D loc W G" and i: "i \<in> ktids (sh m)" and sched: "ok S (G i) Schedule"
  shows "step_ok S (sh m) (G i) (exec i Setcontext_sched m)"
proof -
  note inv = minv_inv [OF m]
  let ?m = "m\<lparr>sh := (sh m)\<lparr>ncalls := Suc (ncalls (sh m))\<rparr>\<rparr>"
  have inv': "inv S (sh ?m) D loc W G" using inv by simp
  then obtain bl where bl: "enter_sched i ?m = Ok (goto i Schedule (?m\<lparr>sh := (sh ?m)\<lparr>sigblocked := bl\<rparr>\<rparr>))"
    using enter_sched_Ok [OF inv'] i by auto
  moreover have "minv S (goto i Schedule (?m\<lparr>sh := (sh ?m)\<lparr>sigblocked := bl\<rparr>\<rparr>)) D loc W (G(i := G i))"
    by (rule minv_goto [OF m i]) (use inv' sched in auto)
  ultimately show ?thesis using ctx_call_inv [OF inv] by (auto simp: step_ok_def sh_update_o_def)
qed

lemma step_Setcontext:
  assumes m: "minv S m D loc W G" and i: "i \<in> ktids (sh m)" and g: "G i = dispatched p w"
  shows "step_ok S (sh m) (G i) (exec i (Setcontext p) m)"
proof -
  note inv = minv_inv [OF m]
  have own: "g_own (G i) p = Some (RUNNING, True)" and cur: "g_cur (G i) = Some p" "g_pend (G i) = w"
    unfolding g by (simp_all add: ghost_simps)
  have "p \<in> D" by (rule inv_owned [OF inv own]) simp
  then obtain c b where c: "ctxs m p = Some (c, b)" "ok S ((running p)\<lparr>g_pend := W p\<rparr>) c" using minv_ctx [OF m] by blast
  have W: "W p = w" using wake_ok_cur [OF inv_parts(7) [OF inv] cur(1)] cur(2) by simp
  let ?g = "(G i)\<lparr>g_own := (g_own (G i))(p \<mapsto> (RUNNING, False))\<rparr>"
  have g': "?g = (running p)\<lparr>g_pend := W p\<rparr>" unfolding g W by (simp add: ghost_simps)
  let ?s = "(sh m)\<lparr>ncalls := Suc (ncalls (sh m)), sigblocked := (sigblocked (sh m))(i := b)\<rparr>"
  have "inv S ?s (D - {p}) loc W (G(i := ?g))" using inv_ctx [OF inv i own, of "D - {p}" False] by simp
  then have "minv S (goto i c (m\<lparr>sh := ?s\<rparr>)) (D - {p}) loc W (G(i := ?g))"
    by (intro minv_goto [OF m i]) (use c(2) g' in \<open>auto simp: running_def idle_def\<close>)
  moreover have "exec i (Setcontext p) m = Ok (goto i c (m\<lparr>sh := ?s\<rparr>))"
    using tcb_at_owned [OF inv own] ctx_call_inv [OF inv] c(1) by (auto simp: sh_update_o_def)
  ultimately show ?thesis by (auto simp: step_ok_def)
qed

lemma step_Makecontext:
  assumes m: "minv S m D loc W G" and i: "i \<in> ktids (sh m)"
    and made: "g_made (G i) = Some (unat t, p)" and own: "g_own (G i) p = Some (st, b)"
    and c: "ok S (running p) c" "ok S ((G i)\<lparr>g_own := (g_own (G i))(p \<mapsto> (st, True))\<rparr>) c'"
  shows "step_ok S (sh m) (G i) (exec i (Makecontext t c c') m)"
proof -
  note inv = minv_inv [OF m]
  let ?m = "m\<lparr>sh := (sh m)\<lparr>ncalls := Suc (ncalls (sh m))\<rparr>, ctxs := (ctxs m)(p \<mapsto> (c, sigblocked (sh m) i))\<rparr>"
  let ?G = "G(i := (G i)\<lparr>g_own := (g_own (G i))(p \<mapsto> (st, True))\<rparr>)"
  have "inv S (sh ?m) (insert p D) loc W ?G" using inv_ctx [OF inv i own, of "insert p D" True] by simp
  moreover have "W p = None" using wake_ok_new [OF inv_parts(7) [OF inv]] made by blast
  then have "ok S ((running p)\<lparr>g_pend := W p\<rparr>) c" using c(1) by (simp add: ghost_simps)
  ultimately have "minv S (goto i c' ?m) (insert p D) loc W ?G"
    by (intro minv_goto [OF m i]) (use c(2) in auto)
  moreover have "exec i (Makecontext t c c') m = Ok (goto i c' ?m)"
    using tcb_at_owned [OF inv own] made_tcb [OF inv made] ctx_call_inv [OF inv] by (auto simp: sh_update_o_def)
  ultimately show ?thesis by (auto simp: step_ok_def)
qed


theorem step_preserves:
  assumes m: "minv S m D loc W G" and free: "tid_free (sh m)" and c: "kcode m i = Some c"
  shows "step_ok S (sh m) (G i) (exec i c m)"
proof -
  note inv = minv_inv [OF m]
  from minv_code [OF m c] have i: "i \<in> ktids (sh m)" and ok: "ok S (G i) c" by auto
  note cur = wake_ok_cur [OF inv_parts(7) [OF inv], of i]
  show ?thesis
  proof (cases c)
    case (Atom f)
    with step_Atom [OF m i free] ok show ?thesis by simp
  next
    case (Swapcontext p k)
    from ok [unfolded this] show ?thesis
    proof (rule ok_Swapcontext_E)
      assume g: "G i = yielding p False" and k: "ok S (running p) k"
      have "W p = None" "(G i)\<lparr>g_own := (g_own (G i))(p \<mapsto> (READY, True))\<rparr> = yielding p True"
        using cur [of p] unfolding g by (simp_all add: ghost_simps)
      then show ?thesis
        unfolding Swapcontext using ok_Sched_yield [of S p] k
        by (intro step_Swapcontext [OF m i, of p READY False]) (simp_all add: g ghost_simps)
    next
      fix n assume g: "G i = waiting p False n" and n: "n \<in> S" and k: "ok S ((running p)\<lparr>g_pend := Some n\<rparr>) k"
      have "W p = Some n" "(G i)\<lparr>g_own := (g_own (G i))(p \<mapsto> (WAITING_SEM, True))\<rparr> = waiting p True n"
        using cur [of p] unfolding g by (simp_all add: ghost_simps)
      then show ?thesis
        unfolding Swapcontext using ok_Sched_wait [OF n, of p] k
        by (intro step_Swapcontext [OF m i, of p WAITING_SEM False]) (simp_all add: g ghost_simps)
    qed
  next
    case Setcontext_sched
    from ok [unfolded this] have "ok S (G i) Schedule"
      by (rule ok_Setcontext_sched_E) (simp_all add: ok_Sched_exit ok_Sched_idle)
    with step_Setcontext_sched [OF m i] Setcontext_sched show ?thesis by simp
  next
    case (Setcontext p)
    from ok [unfolded this] show ?thesis
      by (rule ok_Setcontext_E) (use step_Setcontext [OF m i] Setcontext in simp)
  next
    case (Makecontext t k k')
    from ok [unfolded this] show ?thesis
      by (rule ok_Makecontext_E) (use step_Makecontext [OF m i] Makecontext in auto)
  next
    case (Kthread_create n k)
    from ok [unfolded this] show ?thesis by (rule ok_Kthread_create_E)
  next
    case Kthread_exit
    from ok [unfolded this] show ?thesis by (rule ok_Kthread_exit_E)
  next
    case Schedule
    from ok [unfolded this] have "ok S (G i) schedule"
      by (rule ok_Schedule_E) (simp_all add: schedule_ok)
    from step_goto [OF m i this] Schedule show ?thesis by (auto simp: step_ok_def)
  next
    case (Sem_wait_loop n p k)
    from ok [unfolded this] have "ok S (G i) (sem_wait_loop n p k)"
      by (rule ok_Sem_wait_loop_E) (use ok_sem_wait_loop in auto)
    from step_goto [OF m i this] Sem_wait_loop show ?thesis by (auto simp: step_ok_def)
  next
    case (User u)
    from ok [unfolded this] have "ok S (G i) (api u)"
      by (rule ok_User_E) (simp add: ok_api)
    from step_goto [OF m i this] User show ?thesis by (auto simp: step_ok_def)
  next
    case (Process_exit n)
    have "minv S (m\<lparr>exit_status := Some n, kcode := (\<lambda>_. None)\<rparr>) D loc W G"
      using minvD(1,3,5) [OF m] unfolding minv_def by simp
    with Process_exit show ?thesis by (auto simp: step_ok_def)
  qed
qed

section \<open>Runs\<close>

text \<open>
  Runs in which every step starts in a state with a free thread identifier. (Beyond that,
  \<^verbatim>\<open>get_next_tid\<close> hands out an identifier that is in use.)
\<close>

inductive tid_steps :: "machine \<Rightarrow> machine \<Rightarrow> bool" where
  tid_refl: "tid_steps m m"
| tid_step: "tid_steps m m' \<Longrightarrow> tid_free (sh m') \<Longrightarrow> mstep m' m'' \<Longrightarrow> tid_steps m m''"

definition running_ok :: "semid set \<Rightarrow> machine \<Rightarrow> bool" where
  "running_ok S m \<longleftrightarrow> (\<exists>D loc W G. minv S m D loc W G)"

lemma signal_preserves:
  assumes m: "minv S m D loc W G" and ki: "kinfo_at (sh m) i = Ok ki" and s: "sigrtmin_handler i (sh m) = Ok s"
  shows "minv S (m\<lparr>sh := s\<rparr>) D loc W G"
proof (cases "quantum (sh m) = 0")
  case True
  with s have "s = sh m" by (simp add: sigrtmin_handler_def)
  with m show ?thesis by simp
next
  case False
  note inv = minv_inv [OF m]
  let ?f = "\<lambda>ki. ki\<lparr>preempted := True\<rparr>"
  from False s inv_libc(2) [OF inv] have upd: "kinfo_update ?f i (sh m) = Ok s" by (simp add: sigrtmin_handler_def)
  have "i \<in> ktids (sh m)" using ki kinfo_at_in inv_parts(1) [OF inv] by (auto simp: ki_ok_def)
  then obtain ki' where k: "kinfo_at (sh m) i = Ok ki'" "sched_of ki' = g_sched (G i)" "-1 \<le> current_tid ki'"
    "current_tid ki' < int UTHREAD_MAX_THREADS" "cur_ok (sh m) ki' (G i)" by (rule inv_kinfo [OF inv]) (rule that)
  have "\<exists>s'. kinfo_update ?f i (sh m) = Ok s' \<and> ktids s' = ktids (sh m) \<and> inv S s' D loc W (G(i := G i))"
    by (rule inv_kinfo_update [OF inv k(1)])
      (use k wake_ok_cur [OF inv_parts(7) [OF inv]] in \<open>auto simp: sched_of_def cur_ok_def\<close>)
  with upd have "ktids s = ktids (sh m)" "inv S s D loc W G" by auto
  with m show ?thesis unfolding minv_def by simp
qed

lemma running_ok_step:
  assumes "running_ok S m" "tid_free (sh m)" "mstep m m'"
  shows "running_ok S m'"
  using assms(3)
proof cases
  case (thread i)
  then obtain c where c: "kcode m i = Some c" "exec i c m = Ok m'" by (auto simp: kstep_def split: option.splits)
  from assms(1) obtain D loc W G where "minv S m D loc W G" unfolding running_ok_def by blast
  from step_preserves [OF this assms(2) c(1)] c(2) show ?thesis by (auto simp: step_ok_def running_ok_def)
next
  case (signal i ki s)
  with assms(1) signal_preserves show ?thesis unfolding running_ok_def by blast
qed

lemma running_ok_steps: "tid_steps m m' \<Longrightarrow> running_ok S m \<Longrightarrow> running_ok S m'"
  by (induction rule: tid_steps.induct) (auto intro: running_ok_step)

lemma running_ok_kstep:
  assumes "running_ok S m" "tid_free (sh m)"
  shows "kstep i m \<noteq> Err e \<or> e = Signed_overflow"
proof (cases "kcode m i")
  case (Some c)
  from assms(1) obtain D loc W G where "minv S m D loc W G" unfolding running_ok_def by blast
  from step_preserves [OF this assms(2) Some] Some show ?thesis by (auto simp: step_ok_def kstep_def)
qed (simp add: kstep_def)

section \<open>What the invariant says about a state\<close>

text \<open>The ready queue, the queues of the semaphores and the threads, without ghost state.\<close>

definition threads_ok :: "semid set \<Rightarrow> shared \<Rightarrow> bool" where
  "threads_ok S s \<longleftrightarrow>
     distinct (queue_items (rq_queue (rqueue s))) \<and>
     (\<forall>p \<in> set (queue_items (rq_queue (rqueue s))). \<exists>t. tcb_heap s p = Some t \<and> state t = READY \<and>
        tcbs s (unat (tcb_tid t)) = p) \<and>
     (\<forall>m \<in> S. \<exists>x. sems s m = Some x \<and> 0 \<le> counter x \<and> distinct (queue_items (sem_queue x)) \<and>
        (\<forall>p \<in> set (queue_items (sem_queue x)). \<exists>t. tcb_heap s p = Some t \<and> state t = WAITING_SEM \<and>
           tcbs s (unat (tcb_tid t)) = p) \<and>
        (\<forall>n \<in> S. \<forall>y. n \<noteq> m \<longrightarrow> sems s n = Some y \<longrightarrow>
           set (queue_items (sem_queue x)) \<inter> set (queue_items (sem_queue y)) = {}))"

lemma placed_tcb:
  assumes inv: "inv S s D loc W G" and p: "loc p \<noteq> Nowhere" "\<And>i. loc p \<noteq> Owned i"
  shows "\<exists>t. tcb_heap s p = Some t \<and> place_ok D G p (state t) (loc p) \<and> tcbs s (unat (tcb_tid t)) = p"
proof -
  note parts = inv_parts [OF inv]
  from tcb_ok_None [OF parts(5), of p] p(1) obtain t where t: "tcb_heap s p = Some t" by (cases "tcb_heap s p") auto
  note tcb = tcb_ok_Some [OF parts(5) t]
  have "g_new (G i) \<noteq> Some (n, p)" for i n
  proof
    assume a: "g_new (G i) = Some (n, p)"
    with tid_ok_new [OF parts(6) a] tcb have "p \<in> dom (g_own (G i))" by blast
    with tcb_ok_own [OF parts(5)] p(2) show False by blast
  qed
  with tid_ok_heap [OF parts(6) t] t tcb show ?thesis by blast
qed

lemma inv_threads_ok:
  assumes inv: "inv S s D loc W G"
  shows "threads_ok S s"
  unfolding threads_ok_def
proof (intro conjI ballI)
  obtain v where rq: "distinct (queue_items (rq_queue (rqueue s)))"
    "\<And>p. p \<in> set (queue_items (rq_queue (rqueue s))) \<longleftrightarrow> loc p = In_ready" by (rule inv_rq [OF inv]) (rule that)
  show "distinct (queue_items (rq_queue (rqueue s)))" by (rule rq(1))
  fix p assume "p \<in> set (queue_items (rq_queue (rqueue s)))"
  with rq(2) placed_tcb [OF inv, of p] show "\<exists>t. tcb_heap s p = Some t \<and> state t = READY \<and> tcbs s (unat (tcb_tid t)) = p"
    by (auto simp: place_ok_def)
next
  fix m assume m: "m \<in> S"
  obtain x where x: "sems s m = Some x" "distinct (queue_items (sem_queue x))"
    "\<And>p. p \<in> set (queue_items (sem_queue x)) \<longleftrightarrow> loc p = In_sem m" "0 \<le> counter x" by (rule inv_sem [OF inv m]) (rule that)
  have wait: "\<exists>t. tcb_heap s p = Some t \<and> state t = WAITING_SEM \<and> tcbs s (unat (tcb_tid t)) = p"
    if "p \<in> set (queue_items (sem_queue x))" for p
    using that x(3) placed_tcb [OF inv, of p] by (auto simp: place_ok_def)
  have disj: "set (queue_items (sem_queue x)) \<inter> set (queue_items (sem_queue y)) = {}"
    if n: "n \<in> S" "n \<noteq> m" "sems s n = Some y" for n y
  proof -
    obtain z where "sems s n = Some z" "\<And>p. p \<in> set (queue_items (sem_queue z)) \<longleftrightarrow> loc p = In_sem n"
      by (rule inv_sem [OF inv n(1)]) (rule that)
    with n x(3) show ?thesis by auto
  qed
  show "\<exists>x. sems s m = Some x \<and> 0 \<le> counter x \<and> distinct (queue_items (sem_queue x)) \<and>
        (\<forall>p \<in> set (queue_items (sem_queue x)). \<exists>t. tcb_heap s p = Some t \<and> state t = WAITING_SEM \<and>
           tcbs s (unat (tcb_tid t)) = p) \<and>
        (\<forall>n \<in> S. \<forall>y. n \<noteq> m \<longrightarrow> sems s n = Some y \<longrightarrow>
           set (queue_items (sem_queue x)) \<inter> set (queue_items (sem_queue y)) = {})"
    using x wait disj by blast
qed

section \<open>When everything waits\<close>

definition all_blocked :: "machine \<Rightarrow> bool" where
  "all_blocked m \<longleftrightarrow> exit_status m = None \<and> (\<forall>i \<in> ktids (sh m). kstep i m = Block)"

text \<open>
  No circular wait: a kernel thread that waits for a mutex waits for one that comes after all
  it holds, so following the holders ends at a kernel thread that can make a step.
\<close>

lemma all_blocked_idle:
  assumes m: "minv S m D loc W G" and free: "tid_free (sh m)" and blocked: "all_blocked m"
  shows "G i = idle \<or> G i = booting"
proof -
  note inv = minv_inv [OF m]
  have bl: "blocked_ok S (sh m) (G i)" if "i \<in> ktids (sh m)" for i
  proof -
    from blocked that have "exit_status m = None" "kstep i m = Block" unfolding all_blocked_def by auto
    with minv_alive [OF m _ that] obtain c where "kcode m i = Some c" "exec i c m = Block" by (auto simp: kstep_def)
    with step_preserves [OF m free] show ?thesis by (force simp: step_ok_def)
  qed
  have no_lock: "r \<notin> g_locks (G j)" for r j
  proof (induction "2 - lock_rank r" arbitrary: r j rule: less_induct)
    case less
    show ?case
    proof
      assume r: "r \<in> g_locks (G j)"
      then have "G j \<noteq> idle" "G j \<noteq> booting" by (auto simp: idle_def booting_def)
      moreover from this(1) have "j \<in> ktids (sh m)" using inv_parts(1) [OF inv] unfolding ki_ok_def by blast
      ultimately obtain r' j' where r': "valid_ref S r'" "get_mutex (sh m) r' = Ok (Mutex_held j')"
        "\<forall>q \<in> g_locks (G j). lock_rank q < lock_rank r'" using bl [of j] unfolding blocked_ok_def by blast
      from r'(1,2) have "r' \<in> g_locks (G j')" using inv_parts(2) [OF inv] unfolding lock_ok_def by force
      moreover have "lock_rank r < lock_rank r'" "lock_rank r' \<le> 2" using r'(3) r by (auto, cases r') auto
      ultimately show False using less [of r' j'] by linarith
    qed
  qed
  show ?thesis
  proof (cases "i \<in> ktids (sh m)")
    case True
    have "get_mutex (sh m) r \<noteq> Ok (Mutex_held j)" if "valid_ref S r" for r j
      using that no_lock inv_parts(2) [OF inv] unfolding lock_ok_def by force
    with bl [OF True] show ?thesis unfolding blocked_ok_def by blast
  next
    case False
    then show ?thesis using inv_parts(1) [OF inv] unfolding ki_ok_def by blast
  qed
qed

text \<open>
  If nothing can move, no mutex is held, no thread is ready, every thread has finished or waits
  for a semaphore, and the semaphores that threads wait for are at zero.
\<close>

definition quiescent :: "semid set \<Rightarrow> shared \<Rightarrow> bool" where
  "quiescent S s \<longleftrightarrow>
     (\<forall>r. valid_ref S r \<longrightarrow> get_mutex s r = Ok Mutex_free) \<and>
     queue_items (rq_queue (rqueue s)) = [] \<and>
     (\<forall>p t. tcb_heap s p = Some t \<longrightarrow> state t = FINISHED \<or>
        (\<exists>m \<in> S. \<exists>x. sems s m = Some x \<and> p \<in> set (queue_items (sem_queue x)) \<and> state t = WAITING_SEM)) \<and>
     (\<forall>m \<in> S. \<forall>x. sems s m = Some x \<longrightarrow> queue_items (sem_queue x) \<noteq> [] \<longrightarrow> counter x = 0)"

lemma all_blocked_quiescent:
  assumes m: "minv S m D loc W G" and free: "tid_free (sh m)" and blocked: "all_blocked m"
  shows "quiescent S (sh m)"
proof -
  note inv = minv_inv [OF m] and idle = all_blocked_idle [OF m free blocked]
  note parts = inv_parts [OF inv]
  have g: "g_locks (G i) = {}" "g_own (G i) = Map.empty" "g_credit (G i) = 0" "g_posted (G i) = None" for i
    using idle [of i] by (auto simp: idle_def booting_def)
  have notown: "loc p \<noteq> Owned i" for p i
  proof
    assume o: "loc p = Owned i"
    then obtain t where "tcb_heap (sh m) p = Some t" using tcb_ok_None [OF parts(5), of p] by (cases "tcb_heap (sh m) p") auto
    from tcb_ok_Some [OF parts(5) this] o g(2) [of i] show False by (auto simp: place_ok_def)
  qed
  obtain j where j: "j \<in> ktids (sh m)" "\<not> g_boot (G j)" using minv_boot [OF m] by blast
  with idle [of j] have "G j = idle" by (auto simp: booting_def)
  moreover have "blocked_ok S (sh m) (G j)"
  proof -
    from blocked j(1) have "exit_status m = None" "kstep j m = Block" unfolding all_blocked_def by auto
    with minv_alive [OF m _ j(1)] obtain c where "kcode m j = Some c" "exec j c m = Block" by (auto simp: kstep_def)
    with step_preserves [OF m free] show ?thesis by (force simp: step_ok_def)
  qed
  moreover have mutex: "get_mutex (sh m) r = Ok Mutex_free" if "valid_ref S r" for r
    using that g(1) parts(2) unfolding lock_ok_def by fastforce
  ultimately have zero: "rq_not_empty (rqueue (sh m)) = Sem_value 0"
    unfolding blocked_ok_def by (auto simp: booting_def idle_def)
  obtain v where v: "rq_not_empty (rqueue (sh m)) = Sem_value v"
    "length (queue_items (rq_queue (rqueue (sh m)))) = v + (\<Sum>i \<in> ktids (sh m). g_credit (G i))"
    "\<And>p. p \<in> set (queue_items (rq_queue (rqueue (sh m)))) \<longleftrightarrow> loc p = In_ready"
    by (rule inv_rq [OF inv]) (rule that)
  then have rq: "queue_items (rq_queue (rqueue (sh m))) = []" using zero g(3) by simp
  have ready: "loc p \<noteq> In_ready" for p using v(3) [of p] rq by simp
  have "state t = FINISHED \<or> (\<exists>n \<in> S. \<exists>x. sems (sh m) n = Some x \<and> p \<in> set (queue_items (sem_queue x)) \<and> state t = WAITING_SEM)"
    if t: "tcb_heap (sh m) p = Some t" for p t
  proof (cases "loc p")
    case (In_sem n)
    then have n: "n \<in> S" using parts(4) unfolding sem_ok_def by blast
    obtain x where "sems (sh m) n = Some x" "\<And>p. p \<in> set (queue_items (sem_queue x)) \<longleftrightarrow> loc p = In_sem n"
      by (rule inv_sem [OF inv n]) (rule that)
    with n In_sem tcb_ok_Some [OF parts(5) t] show ?thesis by (auto simp: place_ok_def)
  qed (use tcb_ok_Some [OF parts(5) t] notown ready in \<open>auto simp: place_ok_def\<close>)
  moreover have "counter x = 0" if n: "n \<in> S" "sems (sh m) n = Some x" "queue_items (sem_queue x) \<noteq> []" for n x
  proof -
    have "woken loc W n = {}"
      using wake_ok_place [OF parts(7)] notown ready unfolding woken_def by blast
    with wake_ok_sem [OF parts(7) n(1,2)] n(3) g(4) have "counter x \<le> 0" by (simp add: sem_wake_ok_def)
    moreover obtain y where "sems (sh m) n = Some y" "0 \<le> counter y" by (rule inv_sem [OF inv n(1)]) (rule that)
    ultimately show ?thesis using n(2) by simp
  qed
  ultimately show ?thesis unfolding quiescent_def using mutex rq by blast
qed

end
