(* ===== verification/Boot_State.thy ===== *)
theory Boot_State
  imports Safety
begin

text \<open>
  From the start of the process to the first step of the client: the state that
  \<^verbatim>\<open>uthread_init\<close> (and \<^verbatim>\<open>uthread_sem_init\<close>) leave behind satisfies the invariant
  of the running machine.
\<close>

section \<open>The state after initialisation\<close>

text \<open>
  The library is initialised, kernel thread \<open>i\<close> executes the main thread, whose control block
  is at \<open>p\<close>, no other thread exists, and the semaphores \<open>S\<close> are initialised and unused.
\<close>

definition booted :: "semid set \<Rightarrow> shared \<Rightarrow> ktid \<Rightarrow> addr \<Rightarrow> bool" where
  "booted S s i p \<longleftrightarrow>
     ki_wf s \<and> i \<in> ktids s \<and>
     (\<forall>ki \<in> set (kthread_info s). task (sched_info ki) = NONE \<and> sched_lock (sched_info ki) = None \<and>
        sched_queue (sched_info ki) = None \<and> current_tid ki = (if kinfo_ktid ki = i then 0 else -1)) \<and>
     bitvec_lock s = Mutex_free \<and> tcbs_lock s = Mutex_free \<and> rq_lock (rqueue s) = Mutex_free \<and>
     queue_rep (rq_queue (rqueue s)) [] \<and> rq_not_empty (rqueue s) = Sem_value 0 \<and>
     (\<forall>m \<in> S. \<exists>x. sems s m = Some x \<and> sem_lock x = Mutex_free \<and> queue_rep (sem_queue x) [] \<and> 0 \<le> counter x) \<and>
     (\<exists>t. tcb_heap s = [p \<mapsto> t] \<and> tcb_tid t = 0 \<and> state t = RUNNING \<and> queue_rep (join_queue t) []) \<and>
     exitall < p \<and> tcbs s = (\<lambda>_. NULL)(0 := p) \<and>
     bv_rep UTHREAD_MAX_THREADS (bitvec s) {0} \<and> mem_ok s"

text \<open>The ghost states, with \<open>B\<close> the kernel threads that still wait for \<^verbatim>\<open>inited_sem\<close>.\<close>

definition boot_ghosts :: "ktid set \<Rightarrow> ktid \<Rightarrow> addr \<Rightarrow> ghosts" where
  "boot_ghosts B i p = (\<lambda>j. if j = i then running p else if j \<in> B then booting else idle)"

lemma boot_ghosts_simps:
  "g_locks (boot_ghosts B i p j) = {}" "g_own (boot_ghosts B i p j) = (if j = i then [p \<mapsto> (RUNNING, False)] else Map.empty)"
  "g_cur (boot_ghosts B i p j) = (if j = i then Some p else None)" "g_pend (boot_ghosts B i p j) = None"
  "g_credit (boot_ghosts B i p j) = 0" "g_new (boot_ghosts B i p j) = None" "g_made (boot_ghosts B i p j) = None"
  "g_sched (boot_ghosts B i p j) = (NONE, None, None)" "g_cnt (boot_ghosts B i p j) = None"
  "g_len (boot_ghosts B i p j) = None" "g_posted (boot_ghosts B i p j) = None"
  by (simp_all add: boot_ghosts_def running_def booting_def idle_def)

lemma booted_kinfo:
  assumes "booted S s i p" "kinfo_at s j = Ok ki"
  shows "ki \<in> set (kthread_info s)" "kinfo_ktid ki = j"
  using assms by (auto simp: booted_def kinfo_at_def bind_o_Ok_iff get_kthread_info_eq)

lemma booted_inv:
  assumes b: "booted S s i p" and sub: "B \<subseteq> ktids s"
  shows "inv S s {} ((\<lambda>_. Nowhere)(p := Owned i)) (\<lambda>_. None) (boot_ghosts B i p)"
proof -
  let ?G = "boot_ghosts B i p" and ?loc = "(\<lambda>_. Nowhere)(p := Owned i)"
  note B = b [unfolded booted_def] 
  from B obtain t where t: "tcb_heap s = [p \<mapsto> t]" "tcb_tid t = 0" "state t = RUNNING" "queue_rep (join_queue t) []" by blast
  have rq: "queue_items (rq_queue (rqueue s)) = []" "queue_ok (rq_queue (rqueue s))"
    using B by (auto simp: queue_rep_iff)
  have S: "\<exists>x. sems s m = Some x \<and> queue_ok (sem_queue x) \<and> queue_items (sem_queue x) = [] \<and> 0 \<le> counter x"
    if "m \<in> S" for m
    using B that by (auto simp: queue_rep_iff)
  have "ki_ok s ?G"
    unfolding ki_ok_def
  proof (intro conjI allI impI)
    fix j ki assume ki: "kinfo_at s j = Ok ki"
    note k = booted_kinfo [OF b ki]
    with B have f: "sched_of ki = (NONE, None, None)" "current_tid ki = (if j = i then 0 else -1)"
      by (auto simp: sched_of_def)
    show "sched_of ki = g_sched (?G j)" using f by (simp add: boot_ghosts_simps)
    show "- 1 \<le> current_tid ki" "current_tid ki < int UTHREAD_MAX_THREADS" using f by (auto simp: UTHREAD_MAX_THREADS_def)
    show "cur_ok s ki (?G j)" using f B t by (auto simp: cur_ok_def boot_ghosts_simps UTHREAD_MAX_THREADS_def split: if_splits)
  qed (use B sub in \<open>auto simp: boot_ghosts_def\<close>)
  moreover have "lock_ok S s ?G"
    unfolding lock_ok_def
  proof (intro conjI allI impI ballI)
    fix r assume "valid_ref S r"
    then show "get_mutex s r = Ok Mutex_free \<and> (\<forall>i'. r \<notin> g_locks (?G i')) \<or>
        (\<exists>j. get_mutex s r = Ok (Mutex_held j) \<and> (\<forall>i'. (r \<in> g_locks (?G i')) = (i' = j)))"
      using B by (cases r) (auto simp: boot_ghosts_simps split: option.splits)
  qed (simp add: boot_ghosts_simps)
  moreover have "rq_ok s ?loc ?G"
    using B rq by (simp add: rq_ok_def boot_ghosts_simps)
  moreover have "sem_ok S s ?loc ?G"
    using S by (fastforce simp: sem_ok_def boot_ghosts_simps)
  moreover have "tcb_ok s {} ?loc ?G"
    using B t by (auto simp: tcb_ok_def boot_ghosts_simps place_ok_def split: if_splits)
  moreover have "tid_ok s ?G"
  proof -
    have "used_tids s = {0}" using B by (auto simp: used_tids_def bv_rep_def)
    with B t show ?thesis by (auto simp: tid_ok_def boot_ghosts_simps UTHREAD_MAX_THREADS_def split: if_splits)
  qed
  moreover have "wake_ok S s ?loc (\<lambda>_. None) ?G"
    using S by (force simp: wake_ok_def boot_ghosts_simps sem_wake_ok_def split: if_splits)
  ultimately show ?thesis using B by (simp add: inv_def)
qed

lemma booted_running:
  assumes b: "booted S (sh m) i p" and c: "kcode m i = Some c" "ok S (running p) c" and e: "exit_status m = None"
    and k: "\<And>j. j \<noteq> i \<Longrightarrow> if j \<in> ktids (sh m) then \<exists>c. kcode m j = Some c \<and> (ok S booting c \<or> ok S idle c) else kcode m j = None"
  shows "running_ok S m"
proof -
  let ?B = "{j \<in> ktids (sh m). \<exists>c. kcode m j = Some c \<and> ok S booting c}"
  have i: "i \<in> ktids (sh m)" using b by (simp add: booted_def)
  have "minv S m {} ((\<lambda>_. Nowhere)(p := Owned i)) (\<lambda>_. None) (boot_ghosts ?B i p)"
    unfolding minv_def
  proof (intro conjI allI impI ballI)
    fix j c' assume "kcode m j = Some c'"
    then show "j \<in> ktids (sh m)" "ok S (boot_ghosts ?B i p j) c'"
      using i c k [of j] by (cases "j = i"; auto simp: boot_ghosts_def split: if_splits)+
  next
    fix j assume "j \<in> ktids (sh m)"
    then show "kcode m j \<noteq> None" using c(1) k [of j] by (cases "j = i") auto
  next
    show "\<exists>j \<in> ktids (sh m). \<not> g_boot (boot_ghosts ?B i p j)"
      using i by (intro bexI [of _ i]) (simp_all add: boot_ghosts_def running_def idle_def)
  qed (use booted_inv [OF b] in auto)
  then show ?thesis unfolding running_ok_def by blast
qed

end
