(* ===== verification/Boot_Init.thy ===== *)
theory Boot_Init
  imports Boot_State
begin

text \<open>
  \<^verbatim>\<open>uthread_init\<close> as executed by the main kernel thread: until \<^verbatim>\<open>inited\<close> is set, every state has exactly one
  successor, because the other kernel threads wait for \<^verbatim>\<open>inited_sem\<close> and no timer is armed.
\<close>

section \<open>Forced steps\<close>

text \<open>A state with exactly one successor and no error.\<close>

definition forced :: "machine \<Rightarrow> machine \<Rightarrow> bool" where
  "forced m m' \<longleftrightarrow> (\<forall>m''. mstep m m'' \<longleftrightarrow> m'' = m') \<and> (\<forall>i e. kstep i m \<noteq> Err e)"

text \<open>The main kernel thread at \<open>c\<close>, the others \<open>J\<close> at their beginning.\<close>

definition at_code :: "ktid \<Rightarrow> shared \<Rightarrow> code \<Rightarrow> ktid set \<Rightarrow> machine" where
  "at_code i s c J =
     \<lparr>sh = s, ctxs = (\<lambda>_. None),
      kcode = (\<lambda>j. if j = i then Some c else if j \<in> J then Some kthread_main else None), exit_status = None\<rparr>"

text \<open>No timer is armed and the other kernel threads wait for \<^verbatim>\<open>inited_sem\<close>.\<close>

definition quiet :: "shared \<Rightarrow> ktid set \<Rightarrow> bool" where
  "quiet s J \<longleftrightarrow> (\<forall>ki \<in> set (kthread_info s). timer_nsec ki = None) \<and> (J = {} \<or> inited_sem s = Sem_value 0)"

lemma last_match_bound:
  "last_match n xs k found = Some j \<Longrightarrow> found = Some j \<or> n \<le> j \<and> j < n + length xs"
  by (induction xs arbitrary: n found) (fastforce split: if_splits)+

lemma kinfo_at_set: "kinfo_at s i = Ok ki \<Longrightarrow> ki \<in> set (kthread_info s)"
  using last_match_bound [of 0 "take (num_kthreads s) (kthread_info s)" i None]
  by (auto simp: kinfo_at_def get_kthread_info_def bind_o_Ok_iff split: option.splits)

lemma forcedI:
  assumes "quiet s J" "i \<notin> J" and step: "exec i c (at_code i s c J) = Ok m'"
  shows "forced (at_code i s c J) m'"
proof -
  let ?m = "at_code i s c J"
  have main: "kstep i ?m = Ok m'" using step by (simp add: kstep_def at_code_def)
  have other: "kstep j ?m = Block" if "j \<noteq> i" for j
    using that assms(1,2)
    by (auto simp: kstep_def at_code_def quiet_def kthread_main_def checked_def wait_inited_def)
  have "mstep ?m m'' \<longleftrightarrow> m'' = m'" for m''
  proof
    assume "mstep ?m m''"
    then show "m'' = m'"
    proof cases
      case (thread j)
      then show ?thesis using main other [of j] by (cases "j = i") auto
    next
      case (signal j ki s')
      then show ?thesis using kinfo_at_set [of s j ki] assms(1) by (auto simp: at_code_def quiet_def)
    qed
  qed (use main mstep.thread in blast)
  moreover have "kstep j ?m \<noteq> Err e" for j e using main other [of j] by (cases "j = i") auto
  ultimately show ?thesis by (simp add: forced_def)
qed

text \<open>A forced run that ends in a state with the property \<open>Q\<close>.\<close>

inductive forces :: "(machine \<Rightarrow> bool) \<Rightarrow> machine \<Rightarrow> bool" for Q where
  forces_now: "Q m \<Longrightarrow> forces Q m"
| forces_step: "forced m m' \<Longrightarrow> forces Q m' \<Longrightarrow> forces Q m"

lemma forced_reach: "tid_steps m x \<Longrightarrow> forced m m' \<Longrightarrow> x = m \<or> tid_steps m' x"
  by (induction rule: tid_steps.induct) (auto simp: forced_def intro: tid_steps.intros)

lemma forces_reach:
  assumes "forces Q m" "tid_steps m x"
  shows "(\<forall>i e. kstep i x \<noteq> Err e) \<or> (\<exists>m'. Q m' \<and> tid_steps m' x)"
  using assms
proof (induction rule: forces.induct)
  case (forces_step m m')
  from forced_reach [OF forces_step.prems forces_step.hyps(1)] forces_step show ?case by (auto simp: forced_def)
qed blast

text \<open>Symbolic execution of the code of the main kernel thread.\<close>

lemma at_code_update:
  "(at_code i s c J)\<lparr>sh := s'\<rparr> = at_code i s' c J" "goto i c' (at_code i s c J) = at_code i s c' J"
  "sh (at_code i s c J) = s"
  by (auto simp: at_code_def goto_def)

lemma forces_Atom:
  "f i s = Ok (s', c') \<Longrightarrow> quiet s J \<Longrightarrow> i \<notin> J \<Longrightarrow> forces Q (at_code i s' c' J) \<Longrightarrow> forces Q (at_code i s (Atom f) J)"
  by (rule forces_step [OF forcedI]) (simp_all add: at_code_update)

lemma forces_stmt:
  "f i s = Ok s' \<Longrightarrow> quiet s J \<Longrightarrow> i \<notin> J \<Longrightarrow> forces Q (at_code i s' k J) \<Longrightarrow> forces Q (at_code i s (stmt f k) J)"
  unfolding stmt_def by (rule forces_Atom [rotated]) simp_all

lemma forces_checked:
  "f i s = Ok (0, s') \<Longrightarrow> quiet s J \<Longrightarrow> i \<notin> J \<Longrightarrow> forces Q (at_code i s' k J) \<Longrightarrow> forces Q (at_code i s (checked f k) J)"
  unfolding checked_def by (rule forces_Atom [rotated]) simp_all

lemma forces_call:
  "f i s = Ok (v, s') \<Longrightarrow> quiet s J \<Longrightarrow> i \<notin> J \<Longrightarrow> forces Q (at_code i s' (k v) J) \<Longrightarrow> forces Q (at_code i s (call f k) J)"
  unfolding call_def by (rule forces_Atom [rotated]) simp_all

lemma forces_assert:
  "P i s = Ok True \<Longrightarrow> quiet s J \<Longrightarrow> i \<notin> J \<Longrightarrow> forces Q (at_code i s k J) \<Longrightarrow> forces Q (at_code i s (c_assert P k) J)"
  unfolding c_assert_def by (rule forces_Atom [rotated]) simp_all

lemma forces_User: "quiet s J \<Longrightarrow> i \<notin> J \<Longrightarrow> forces Q (at_code i s (api u) J) \<Longrightarrow> forces Q (at_code i s (User u) J)"
  by (rule forces_step [OF forcedI]) (simp_all add: at_code_update)

section \<open>The loops of the initialisation\<close>

text \<open>The entries of \<open>kthread_info\<close>, from entry \<open>j\<close> on.\<close>

fun kinfos_from :: "ktid \<Rightarrow> nat \<Rightarrow> uthread_kinfo_t list \<Rightarrow> bool" where
  "kinfos_from i j [] \<longleftrightarrow> True"
| "kinfos_from i j (ki # kis) \<longleftrightarrow>
     kinfo_ktid ki = (if j = 0 then i else -1) \<and> current_tid ki = (if j = 0 then 0 else -1) \<and>
     task (sched_info ki) = NONE \<and> sched_lock (sched_info ki) = None \<and> sched_queue (sched_info ki) = None \<and>
     timer_nsec ki = None \<and> kinfos_from i (Suc j) kis"

lemma forces_new_kinfos:
  assumes "fails s = (\<lambda>_. False)" "quiet s {}" "exitall < brk s"
    and "\<And>kis b B c. length kis = n \<Longrightarrow> kinfos_from i j kis \<Longrightarrow> brk s \<le> b \<Longrightarrow>
      forces Q (at_code i (s\<lparr>kthread_info := kthread_info s @ kis, brk := b, blocks := B, ncalls := c\<rparr>) k {})"
  shows "forces Q (at_code i s (new_kinfos n j k) {})"
  using assms
proof (induction n arbitrary: s j)
  case 0
  from 0(4) [where kis = "[]" and b = "brk s" and B = "blocks s" and c = "ncalls s"] show ?case by simp
next
  case (Suc n)
  let ?s' = "\<lambda>ki. s\<lparr>kthread_info := kthread_info s @ [ki], brk := Suc (brk s), blocks := insert (brk s) (blocks s),
    ncalls := ncalls s + 4\<rparr>"
  have "\<exists>ki. new_kinfo j i s = Ok (?s' ki) \<and> kinfos_from i j [ki]"
    using Suc.prems(1,3)
    by (intro exI [of _ "\<lparr>kinfo_ktid = (if j = 0 then i else -1), current_tid = (if j = 0 then 0 else -1),
          sched_info = \<lparr>task = NONE, sched_lock = None, sched_queue = None,
            sched_stack = blank_stack\<lparr>ss_size := UTHREAD_DEF_STACK_SIZE, ss_sp := brk s, ss_flags := 0\<rparr>,
            sched_mask = sigblocked s i\<rparr>, timer_nsec = None, preempted = False\<rparr>"])
      (simp add: new_kinfo_def libc_call_def allocate_stack_def malloc_def Let_def UTHREAD_TID_MAIN_def)
  then obtain ki s' where s': "new_kinfo j i s = Ok s'" "kinfos_from i j [ki]" "s' = ?s' ki" by blast
  have "forces Q (at_code i s' (new_kinfos n (Suc j) k) {})"
  proof (rule Suc.IH)
    fix kis b B c assume "length kis = n" "kinfos_from i (Suc j) kis" "brk s' \<le> b"
    with Suc.prems(4) [where kis = "ki # kis" and b = b and B = B and c = c] s' show
      "forces Q (at_code i (s'\<lparr>kthread_info := kthread_info s' @ kis, brk := b, blocks := B, ncalls := c\<rparr>) k {})" by simp
  qed (use Suc.prems s' in \<open>auto simp: quiet_def\<close>)
  with s' Suc.prems(2) show ?case by (simp add: forces_stmt)
qed


text \<open>The table of kernel threads has \<open>d\<close> entries, or none before the first creation.\<close>

definition ktable :: "ktid \<Rightarrow> nat \<Rightarrow> shared \<Rightarrow> bool" where
  "ktable i d s \<longleftrightarrow>
     table_ok (kstate s) \<and> 0 < i \<and> i < next_ktid s \<and>
     (\<forall>t \<in> dom (tidmap (kstate s)). t < next_ktid s) \<and> finite (dom (tidmap (kstate s))) \<and>
     (if k_inited (kstate s) then card (dom (tidmap (kstate s))) = d
      else tidmap (kstate s) = Map.empty \<and> d = 1)"

lemma kthread_create_inited:
  "\<not> k_inited ks \<Longrightarrow> tidmap_add_self self pself ks = Ok (r, ks') \<Longrightarrow>
   kthread_create self pself x ks = kthread_create self pself x (ks'\<lparr>k_inited := True\<rparr>)"
  by (simp add: kthread_create_def)

lemma ktable_create:
  assumes "ktable i d s" "d < MAX_KTHREADS"
  shows "\<exists>st ks. kthread_create i (nat i) (Inr (next_ktid s, nat (next_ktid s))) (kstate s) = Ok (0, st, ks) \<and>
    ktable i (Suc d) (s\<lparr>ncalls := c, kstate := ks, next_ktid := next_ktid s + 1, kthread_info := K, sigblocked := b\<rparr>)"
proof -
  let ?c = "next_ktid s"
  have create: ?thesis if ks: "table_ok ks" "k_inited ks" "card (dom (tidmap ks)) = d" "finite (dom (tidmap ks))"
    "\<forall>t \<in> dom (tidmap ks). t < ?c" "0 < i" "i < ?c"
    "kthread_create i (nat i) (Inr (?c, nat ?c)) (kstate s) = kthread_create i (nat i) (Inr (?c, nat ?c)) ks" for ks
  proof -
    have "tidmap ks ?c = None" using ks(5) by (metis domIff less_irrefl)
    with kthread_create_spec [OF ks(1,2), of ?c i "nat i" "nat ?c"] ks assms(2) obtain st ks' where
      c: "kthread_create i (nat i) (Inr (?c, nat ?c)) ks = Ok (0, st, ks')" "table_ok ks'" "k_inited ks'"
      "tidmap ks' = (tidmap ks)(?c \<mapsto> nat ?c)" by auto
    have "card (insert ?c (dom (tidmap ks))) = Suc d" using ks(3-5) by (subst card_insert_disjoint) auto
    moreover have "\<forall>t \<in> dom (tidmap ks'). t < ?c + 1" unfolding c(4) using ks(5) by (simp add: ball_Un less_imp_le)
    ultimately show ?thesis using c ks by (auto simp: ktable_def)
  qed
  show ?thesis
  proof (cases "k_inited (kstate s)")
    case True
    with assms create [of "kstate s"] show ?thesis by (auto simp: ktable_def)
  next
    case False
    with assms have t: "table_ok (kstate s)" "0 < i" "i < ?c" "tidmap (kstate s) = Map.empty" "d = 1"
      by (auto simp: ktable_def)
    have "tidmap_find_tid (kstate s) 0 \<noteq> None"
      using table_full_iff [OF t(1)] t(4) by (simp add: MAX_KTHREADS_def)
    with tidmap_add_self_spec [OF t(1,2), of "nat i"] t(4) obtain r ks where
      ks: "tidmap_add_self i (nat i) (kstate s) = Ok (r, ks)" "table_ok ks" "tidmap ks = [i \<mapsto> nat i]" by auto
    have tm: "tidmap (ks\<lparr>k_inited := True\<rparr>) = tidmap ks" "table_ok (ks\<lparr>k_inited := True\<rparr>) = table_ok ks"
      by (simp_all add: tidmap_def fun_eq_iff tidmap_find_tid_def table_ok_def)
    show ?thesis
      by (rule create [of "ks\<lparr>k_inited := True\<rparr>"])
        (use ks t tm kthread_create_inited [OF False ks(1), of "Inr (?c, nat ?c)"] in auto)
  qed
qed


definition renumber :: "nat \<Rightarrow> nat \<Rightarrow> ktid \<Rightarrow> uthread_kinfo_t list \<Rightarrow> uthread_kinfo_t list" where
  "renumber j n t K = map (\<lambda>a. if j \<le> a \<and> a < j + n then (K ! a)\<lparr>kinfo_ktid := t + int (a - j)\<rparr> else K ! a) [0..<length K]"

lemma renumber_0: "renumber j 0 t K = K"
  by (auto simp: renumber_def intro: nth_equalityI)

lemma renumber_Suc:
  "j < length K \<Longrightarrow> renumber (Suc j) n (t + 1) (K[j := (K ! j)\<lparr>kinfo_ktid := t\<rparr>]) = renumber j (Suc n) t K"
  by (rule nth_equalityI) (auto simp: renumber_def nth_list_update)

lemma forces_create_kthreads:
  assumes "fails s = (\<lambda>_. False)" "quiet s J" "inited_sem s = Sem_value 0" "ktable i d s" "d + n \<le> MAX_KTHREADS"
    "j + n \<le> length (kthread_info s)" "i \<notin> J"
    and "\<And>c ks b. forces Q (at_code i (s\<lparr>ncalls := c, kstate := ks, next_ktid := next_ktid s + int n,
        kthread_info := renumber j n (next_ktid s) (kthread_info s), sigblocked := b\<rparr>) k
        (J \<union> {next_ktid s..<next_ktid s + int n}))"
  shows "forces Q (at_code i s (create_kthreads n j k) J)"
  using assms
proof (induction n arbitrary: s j J d)
  case 0
  from 0(8) [where c = "ncalls s" and ks = "kstate s" and b = "sigblocked s"] show ?case by (simp add: renumber_0)
next
  case (Suc n)
  let ?c = "next_ktid s" and ?K = "kthread_info s"
  let ?s = "\<lambda>ks. s\<lparr>ncalls := Suc (ncalls s), kstate := ks, next_ktid := ?c + 1,
    kthread_info := ?K[j := (?K ! j)\<lparr>kinfo_ktid := ?c\<rparr>], sigblocked := (sigblocked s)(?c := sigblocked s i)\<rparr>"
  from ktable_create [OF Suc.prems(4), where c = "Suc (ncalls s)" and K = "?K[j := (?K ! j)\<lparr>kinfo_ktid := ?c\<rparr>]" and b = "(sigblocked s)(?c := sigblocked s i)"]
    Suc.prems(5)
  obtain st ks where ks: "kthread_create i (nat i) (Inr (?c, nat ?c)) (kstate s) = Ok (0, st, ks)" "ktable i (Suc d) (?s ks)"
    by auto
  have i: "i \<noteq> ?c" using Suc.prems(4) by (simp add: ktable_def)
  have "exec i (Kthread_create j (create_kthreads n (Suc j) k)) (at_code i s (Kthread_create j (create_kthreads n (Suc j) k)) J) =
    Ok (at_code i (?s ks) (create_kthreads n (Suc j) k) (insert ?c J))"
    using ks(1) Suc.prems(1,6) i
    by (auto simp: libc_call_def at_code_def goto_def fun_eq_iff Let_def)
  moreover have "forces Q (at_code i (?s ks) (create_kthreads n (Suc j) k) (insert ?c J))"
  proof (rule Suc.IH [OF _ _ _ ks(2)])
    fix c ks' b
    have "insert ?c J \<union> {?c + 1..<?c + 1 + int n} = J \<union> {?c..<?c + int (Suc n)}" by auto
    moreover have "renumber (Suc j) n (?c + 1) (?K[j := (?K ! j)\<lparr>kinfo_ktid := ?c\<rparr>]) = renumber j (Suc n) ?c ?K"
      using Suc.prems(6) by (intro renumber_Suc) simp
    ultimately show "forces Q (at_code i ((?s ks)\<lparr>ncalls := c, kstate := ks', next_ktid := next_ktid (?s ks) + int n,
        kthread_info := renumber (Suc j) n (next_ktid (?s ks)) (kthread_info (?s ks)), sigblocked := b\<rparr>) k
        (insert ?c J \<union> {next_ktid (?s ks)..<next_ktid (?s ks) + int n}))"
      using Suc.prems(8) [where c = c and ks = ks' and b = b] by (simp add: add.commute add.left_commute)
  qed (use Suc.prems i in \<open>auto simp: quiet_def dest: set_update_subset_insert [THEN subsetD]\<close>)
  ultimately show ?case using forces_step [OF forcedI] Suc.prems(2,7) by fastforce
qed

section \<open>The initialisation\<close>

lemma forces_sigmask:
  assumes "fails s = (\<lambda>_. False)" "quiet s J" "i \<notin> J"
    and k: "\<And>c b. forces Q (at_code i (s\<lparr>ncalls := c, sigblocked := b\<rparr>) k J)"
  shows "forces Q (at_code i s (stmt (set_sigmask x) k) J)"
proof -
  have "\<exists>c b. set_sigmask x i s = Ok (s\<lparr>ncalls := c, sigblocked := b\<rparr>)"
  proof (cases "quantum s = 0")
    case True
    have "set_sigmask x i s = Ok (s\<lparr>ncalls := ncalls s, sigblocked := sigblocked s\<rparr>)"
      using True by (simp add: set_sigmask_def)
    then show ?thesis by blast
  next
    case False
    then show ?thesis using assms(1) by (auto simp: set_sigmask_def libc_call_def)
  qed
  then show ?thesis using forces_stmt [OF _ assms(2,3) k] by blast
qed

lemma forces_sys:
  assumes "fails s = (\<lambda>_. False)" "quiet s J" "i \<notin> J"
    and k: "\<And>c. forces Q (at_code i (s\<lparr>ncalls := c\<rparr>) k J)"
  shows "forces Q (at_code i s (sys_or_abort k) J)"
  unfolding sys_or_abort_def using assms(1)
  by (intro forces_checked [OF _ assms(2,3) k]) (simp add: libc_call_def)

lemma forces_mutex_init:
  assumes "fails s = (\<lambda>_. False)" "quiet s J" "i \<notin> J"
    and k: "\<And>c. forces Q (at_code i (set_mutex r Mutex_free (s\<lparr>ncalls := c\<rparr>)) k J)"
  shows "forces Q (at_code i s (mutex_init_or_abort r k) J)"
  unfolding mutex_init_or_abort_def using assms(1)
  by (intro forces_checked [OF _ assms(2,3) k]) (simp add: libc_call_def kthread_mutex_init_def)

lemma forces_sem_init:
  assumes "fails s = (\<lambda>_. False)" "quiet s J" "i \<notin> J"
    and k: "\<And>c. forces Q (at_code i (upd (\<lambda>_. Sem_value 0) (s\<lparr>ncalls := c\<rparr>)) k J)"
  shows "forces Q (at_code i s (init_sem_of upd k) J)"
  unfolding init_sem_of_def using assms(1)
  by (intro forces_checked [OF _ assms(2,3) k]) (simp add: libc_call_def kthread_sem_init_def SEM_VALUE_MAX_def)

lemmas forces_lib =
  forces_sigmask [of _ "{}", simplified] forces_sys [of _ "{}", simplified] forces_mutex_init [of _ "{}", simplified]
  forces_sem_init [of _ "{}", simplified]

lemmas forces_init = forces_lib forces_checked forces_call forces_stmt forces_assert

lemmas init_simps =
  init_bitvec_def libc_call_def do_lock_def do_unlock_def UTHREAD_TID_MAIN_def malloc_tcb_def malloc_def
  UTHREAD_MAX_THREADS_def on_tcb_def tcbs_at_def tcb_update_def tcb_at_def init_abort_ctx_def allocate_stack_def
  init_tcb_def blank_tcb_def exitall_def

text \<open>The state before the entries of \<open>kthread_info\<close> are made.\<close>

definition main_made :: "ktid \<Rightarrow> int \<Rightarrow> nat \<Rightarrow> shared \<Rightarrow> bool" where
  "main_made i q n s \<longleftrightarrow>
     fails s = (\<lambda>_. False) \<and> num_kthreads s = n \<and> quantum s = q \<and> kthread_info s = [] \<and>
     inited_sem s = Sem_value 0 \<and> bitvec_lock s = Mutex_free \<and> tcbs_lock s = Mutex_free \<and>
     rq_lock (rqueue s) = Mutex_free \<and> queue_rep (rq_queue (rqueue s)) [] \<and> nodes (rq_queue (rqueue s)) = fmempty \<and>
     rq_not_empty (rqueue s) = Sem_value 0 \<and> sems s = (\<lambda>_. None) \<and>
     (\<exists>t p. tcb_heap s = [p \<mapsto> t] \<and> tcb_tid t = 0 \<and> state t = RUNNING \<and> queue_rep (join_queue t) [] \<and>
        nodes (join_queue t) = fmempty \<and> exitall < p \<and> p < brk s \<and> tcbs s = (\<lambda>_. NULL)(0 := p)) \<and>
     bv_rep UTHREAD_MAX_THREADS (bitvec s) {0} \<and> kstate s = kthread_state_init \<and> next_ktid s = i + 1"

lemma blank_init: "queue_rep (snd (queue_init blank_queue)) []" "nodes (snd (queue_init blank_queue)) = fmempty"
  using queue_init_rep [of blank_queue] by (simp_all add: blank_queue_def queue_init_def)

lemma bitvec_main:
  obtains bv bv' where "bitvec_init True b UTHREAD_MAX_THREADS = Ok (0, bv)" "bitvec_first_cleared_index bv = Ok 0"
    "bitvec_set bv 0 = Ok bv'" "bv_rep UTHREAD_MAX_THREADS bv' {0}"
proof -
  have "\<exists>bv. bitvec_init True b UTHREAD_MAX_THREADS = Ok (0, bv) \<and> bv_rep UTHREAD_MAX_THREADS bv {}"
    by (rule bitvec_init_rep) (simp_all add: UTHREAD_MAX_THREADS_def INT_MAX_def)
  then obtain bv where bv: "bitvec_init True b UTHREAD_MAX_THREADS = Ok (0, bv)" "bv_rep UTHREAD_MAX_THREADS bv {}"
    by blast
  moreover have "bitvec_first_cleared_index bv = Ok 0"
    using bvid.first_free [OF bv(2), of 0] by (simp add: UTHREAD_MAX_THREADS_def)
  moreover obtain bv' where "bitvec_set bv 0 = Ok bv'" "bv_rep UTHREAD_MAX_THREADS bv' {0}"
    using bvid.mark_rep [OF bv(2), of 0] by (auto simp: UTHREAD_MAX_THREADS_def)
  ultimately show thesis using that by blast
qed


text \<open>The part of \<^verbatim>\<open>uthread_init\<close> after the control block of the main thread was made.\<close>

definition init_rest :: "nat \<Rightarrow> code \<Rightarrow> code" where
  "init_rest n k =
     post_all_inited (size_pred n) (
     stmt (\<lambda>i s. if quantum s \<noteq> 0 then set_timer_interrupt i s else Ok s) (
     unblock_sigrtmin k))"

lemma forces_main_made:
  assumes "\<And>s. main_made i q n s \<Longrightarrow> forces Q (at_code i s
      (new_kinfos n 0 (create_kthreads (n - 1) (MAIN_KTHREAD_INDEX + 1)
        (stmt (\<lambda>i s. Ok (s\<lparr>inited := True\<rparr>)) (init_rest n (k 0))))) {})"
    and n: "n = nat (nn mod 2 ^ 64)"
  shows "forces Q (at_code i (initial_shared (\<lambda>_. False) i) (uthread_init nn q k) {})"
proof -
  obtain bv bv' where bv: "bitvec_init True \<lparr>nbits = 0, nbytes = 0, vec = None\<rparr> UTHREAD_MAX_THREADS = Ok (0, bv)"
    "bitvec_first_cleared_index bv = Ok 0" "bitvec_set bv 0 = Ok bv'" "bv_rep UTHREAD_MAX_THREADS bv' {0}" by (rule bitvec_main)
  note bv = this [unfolded UTHREAD_MAX_THREADS_def]
  show ?thesis
    unfolding uthread_init_def Let_def block_sigrtmin_def get_next_tid_def n [symmetric] initial_shared_def
    by ((rule forces_init, (simp add: init_simps bv quiet_def; fail)+)+, rule assms(1) [unfolded init_rest_def])
      (simp add: main_made_def init_simps bv blank_init, rule exI [of _ "init_tcb 0 RUNNING blank_tcb"],
        rule exI [of _ 2], simp add: init_simps blank_init)
qed


text \<open>The entries of \<open>kthread_info\<close> once the kernel threads are created.\<close>

lemma kinfos_from_nth:
  "kinfos_from i j kis \<Longrightarrow> a < length kis \<Longrightarrow>
   kinfo_ktid (kis ! a) = (if j + a = 0 then i else -1) \<and> current_tid (kis ! a) = (if j + a = 0 then 0 else -1) \<and>
   task (sched_info (kis ! a)) = NONE \<and> sched_lock (sched_info (kis ! a)) = None \<and>
   sched_queue (sched_info (kis ! a)) = None \<and> timer_nsec (kis ! a) = None"
  by (induction kis arbitrary: j a) (auto simp: nth_Cons split: nat.splits)

lemma renumber_kinfos:
  assumes "kinfos_from i 0 kis" "0 < length kis" "i < t"
  defines "K \<equiv> renumber 1 (length kis - 1) t kis"
  shows "length K = length kis" "distinct (map kinfo_ktid K)"
    "kinfo_ktid ` set K = insert i {t..<t + int (length kis - 1)}"
    "\<forall>ki \<in> set K. task (sched_info ki) = NONE \<and> sched_lock (sched_info ki) = None \<and>
        sched_queue (sched_info ki) = None \<and> current_tid ki = (if kinfo_ktid ki = i then 0 else -1) \<and> timer_nsec ki = None"
proof -
  show len: "length K = length kis" by (simp add: K_def renumber_def)
  have nth: "K ! a = (if 0 < a then (kis ! a)\<lparr>kinfo_ktid := t + int (a - 1)\<rparr> else kis ! a)" if "a < length kis" for a
    using that by (auto simp: K_def renumber_def)
  have id: "kinfo_ktid (K ! a) = (if 0 < a then t + int (a - 1) else i)" if "a < length kis" for a
    using that kinfos_from_nth [OF assms(1) that] by (auto simp: nth)
  show "distinct (map kinfo_ktid K)"
    using assms(3) by (auto simp: distinct_conv_nth len id)
  show "kinfo_ktid ` set K = insert i {t..<t + int (length kis - 1)}"
  proof (intro set_eqI iffI)
    fix x assume "x \<in> kinfo_ktid ` set K"
    then show "x \<in> insert i {t..<t + int (length kis - 1)}" by (auto simp: in_set_conv_nth len id)
  next
    fix x assume "x \<in> insert i {t..<t + int (length kis - 1)}"
    then obtain a where "a < length kis" "x = (if 0 < a then t + int (a - 1) else i)"
      using assms(2) by (cases "x = i") (force, auto intro!: that [of "nat (x - t) + 1"])
    then show "x \<in> kinfo_ktid ` set K" using id [of a] len by (metis image_eqI nth_mem)
  qed
  show "\<forall>ki \<in> set K. task (sched_info ki) = NONE \<and> sched_lock (sched_info ki) = None \<and>
        sched_queue (sched_info ki) = None \<and> current_tid ki = (if kinfo_ktid ki = i then 0 else -1) \<and> timer_nsec ki = None"
  proof
    fix ki assume "ki \<in> set K"
    then obtain a where a: "a < length kis" "ki = K ! a" by (auto simp: in_set_conv_nth len)
    with kinfos_from_nth [OF assms(1) a(1)] id [OF a(1)] nth [OF a(1)] assms(3)
    show "task (sched_info ki) = NONE \<and> sched_lock (sched_info ki) = None \<and>
        sched_queue (sched_info ki) = None \<and> current_tid ki = (if kinfo_ktid ki = i then 0 else -1) \<and> timer_nsec ki = None"
      by auto
  qed
qed


text \<open>
  The initialisation with \<open>n\<close> kernel threads is forced up to the point where \<^verbatim>\<open>inited\<close> is set, and
  leaves a state in which the library is ready.
\<close>

definition init_done :: "ktid \<Rightarrow> int \<Rightarrow> nat \<Rightarrow> code \<Rightarrow> machine \<Rightarrow> bool" where
  "init_done i q n k m \<longleftrightarrow>
     (\<exists>s p. booted {} s i p \<and> quantum s = q \<and> inited_sem s = Sem_value 0 \<and> sems s = (\<lambda>_. None) \<and>
        m = at_code i s (init_rest n k) (ktids s - {i}))"

lemma ktable_init: "0 < i \<Longrightarrow> kstate s = kthread_state_init \<Longrightarrow> next_ktid s = i + 1 \<Longrightarrow> ktable i 1 s"
  using table_ok_init by (simp add: ktable_def) (simp add: kthread_state_init_def)

lemma init_booted:
  assumes s: "main_made i q n s" and q: "0 \<le> q" "q < 1000000000" and kis: "length kis = n" "kinfos_from i 0 kis" "0 < n"
    and b: "brk s \<le> b"
  shows "\<exists>p. booted {} (s\<lparr>brk := b, blocks := B, ncalls := c, kstate := ks, next_ktid := t,
    kthread_info := renumber 1 (n - 1) (i + 1) kis, sigblocked := sb, inited := True\<rparr>) i p"
proof -
  let ?K = "renumber 1 (n - 1) (i + 1) kis"
  from s obtain t p where t: "tcb_heap s = [p \<mapsto> t]" "tcb_tid t = 0" "state t = RUNNING" "queue_rep (join_queue t) []"
    "nodes (join_queue t) = fmempty" "exitall < p" "p < brk s" "tcbs s = (\<lambda>_. NULL)(0 := p)" unfolding main_made_def by blast
  note K = renumber_kinfos [OF kis(2), of "i + 1"]
  have "booted {} (s\<lparr>brk := b, blocks := B, ncalls := c, kstate := ks, next_ktid := t',
    kthread_info := ?K, sigblocked := sb, inited := True\<rparr>) i p" for t'
    unfolding booted_def
  proof (intro conjI)
    show "mem_ok (s\<lparr>brk := b, blocks := B, ncalls := c, kstate := ks, next_ktid := t',
        kthread_info := ?K, sigblocked := sb, inited := True\<rparr>)"
      using s q t b by (auto simp: mem_ok_def main_made_def)
  qed (use s t K kis in \<open>auto simp: main_made_def ki_wf_def ktids_def\<close>)
  then show ?thesis by blast
qed

lemma forces_uthread_init:
  assumes n: "0 < n" "n \<le> MAX_KTHREADS" and i: "0 < i" and q: "0 \<le> q" "q < 1000000000"
  shows "forces (init_done i q n (k 0)) (at_code i (initial_shared (\<lambda>_. False) i) (uthread_init (int n) q k) {})"
proof (rule forces_main_made)
  show "n = nat (int n mod 2 ^ 64)" using n(2) by (simp add: MAX_KTHREADS_def nat_mod_distrib)
next
  fix s assume s: "main_made i q n s"
  let ?Q = "init_done i q n (k 0)" and ?r = "init_rest n (k 0)"
  show "forces ?Q (at_code i s (new_kinfos n 0 (create_kthreads (n - 1) (MAIN_KTHREAD_INDEX + 1)
        (stmt (\<lambda>i s. Ok (s\<lparr>inited := True\<rparr>)) ?r))) {})"
  proof (rule forces_new_kinfos)
    fix kis b B c
    assume kis: "length kis = n" "kinfos_from i 0 kis" and b: "brk s \<le> b"
    let ?s = "s\<lparr>kthread_info := kthread_info s @ kis, brk := b, blocks := B, ncalls := c\<rparr>"
    note K = renumber_kinfos [OF kis(2), of "i + 1"]
    show "forces ?Q (at_code i ?s (create_kthreads (n - 1) (MAIN_KTHREAD_INDEX + 1)
        (stmt (\<lambda>i s. Ok (s\<lparr>inited := True\<rparr>)) ?r)) {})"
    proof (rule forces_create_kthreads)
      fix c' ks sb
      let ?s' = "?s\<lparr>ncalls := c', kstate := ks, next_ktid := next_ktid ?s + int (n - 1),
        kthread_info := renumber (MAIN_KTHREAD_INDEX + 1) (n - 1) (next_ktid ?s) (kthread_info ?s), sigblocked := sb\<rparr>"
      let ?J = "{} \<union> {next_ktid ?s..<next_ktid ?s + int (n - 1)}"
      have next_id: "next_ktid s = i + 1" "kthread_info s = []" using s by (auto simp: main_made_def)
      obtain p where "booted {} (?s'\<lparr>inited := True\<rparr>) i p"
        using init_booted [OF s q kis(1,2) n(1) b, where B = B and c = c' and ks = ks and sb = sb and t = "i + 1 + int (n - 1)"]
          next_id by (auto simp: MAIN_KTHREAD_INDEX_def)
      moreover have "ktids (?s'\<lparr>inited := True\<rparr>) - {i} = ?J"
        using K(3) kis n next_id by (auto simp: ktids_def MAIN_KTHREAD_INDEX_def)
      ultimately have "?Q (at_code i (?s'\<lparr>inited := True\<rparr>) ?r ?J)"
        using s unfolding init_done_def by (intro exI [of _ "?s'\<lparr>inited := True\<rparr>"]) (auto simp: main_made_def)
      then show "forces ?Q (at_code i ?s' (stmt (\<lambda>i s. Ok (s\<lparr>inited := True\<rparr>)) ?r) ?J)"
        using s K(4) kis n next_id
        by (intro forces_stmt [OF HOL.refl] forces_now) (auto simp: quiet_def main_made_def MAIN_KTHREAD_INDEX_def)
    qed (use s kis n i ktable_init [OF i, of ?s] kinfos_from_nth [OF kis(2)] in
        \<open>auto simp: main_made_def quiet_def in_set_conv_nth MAIN_KTHREAD_INDEX_def\<close>)
  qed (use s in \<open>auto simp: main_made_def quiet_def\<close>)
qed

end
