(* ===== verification/Boot_Setup.thy ===== *)
theory Boot_Setup
  imports Boot_Init
begin

text \<open>
  After \<^verbatim>\<open>inited\<close> is set: the other kernel threads start, the main thread may initialise semaphores, and
  then the invariant of the running machine holds.
\<close>

section \<open>The other kernel threads\<close>

text \<open>
  What the other kernel threads execute until a thread is ready: they wait for \<^verbatim>\<open>inited_sem\<close>, set
  their timer, enter the scheduler and wait for the ready queue.
\<close>

abbreviation arm_timer :: "code \<Rightarrow> code" where
  "arm_timer k \<equiv> stmt (\<lambda>i s. if quantum s \<noteq> 0 then set_timer_interrupt i s else Ok s) k"

abbreviation sched_check :: "code \<Rightarrow> code" where
  "sched_check k \<equiv> c_assert (\<lambda>i s. bind_o (kinfo_at s i) (\<lambda>ki. Ok (i = kinfo_ktid ki))) k"

abbreviation sched_body :: code where
  "sched_body \<equiv> expr sched_read (\<lambda>(t, cur_tid, current_tcb). sched_check (sched_switch t cur_tid current_tcb sched_next))"

abbreviation sched_pick :: code where
  "sched_pick \<equiv> ready_dequeue (\<lambda>next_tcb. if next_tcb = exitall then
       expr (\<lambda>i s.
         if kthread_info s = [] then Err Bad_pointer
         else Ok (i = kinfo_ktid (kthread_info s ! MAIN_KTHREAD_INDEX), num_kthreads s)) (\<lambda>(main, n).
       if main then wait_all_exited (size_pred n) Schedule
       else checked (\<lambda>i. post_exitall) Kthread_exit)
     else sched_dispatch next_tcb)"

abbreviation reset_task :: "code \<Rightarrow> code" where
  "reset_task k \<equiv> stmt (kinfo_update (\<lambda>ki. ki\<lparr>sched_info :=
       (sched_info ki)\<lparr>task := NONE, sched_lock := None, sched_queue := None\<rparr>\<rparr>)) k"

lemma boot_unfold:
  "kthread_main = checked (\<lambda>i. wait_inited) (block_sigrtmin (assert_inited (arm_timer Setcontext_sched)))"
  "schedule = block_sigrtmin sched_body" "sched_next = reset_task sched_pick"
  by (simp_all add: kthread_main_def schedule_def sched_next_def sched_read_def [abs_def])

inductive boot_code :: "code \<Rightarrow> bool" where
  "boot_code kthread_main"
| "boot_code (block_sigrtmin (assert_inited (arm_timer Setcontext_sched)))"
| "boot_code (assert_inited (arm_timer Setcontext_sched))"
| "boot_code (arm_timer Setcontext_sched)"
| "boot_code Setcontext_sched"
| "boot_code Schedule"
| "boot_code (block_sigrtmin sched_body)"
| "boot_code sched_body"
| "boot_code (sched_check sched_next)"
| "boot_code (reset_task sched_pick)"
| "boot_code sched_pick"

lemma boot_code_ok: "boot_code c \<Longrightarrow> ok S booting c \<or> ok S idle c"
proof -
  have next_ok: "ok S idle sched_next"
    using ok_sched_next [of S "(NONE, None, None)"] by (simp add: idle_def)
  then have body: "ok S idle sched_body" by (intro ok_sched_body) (simp add: idle_def)
  show "boot_code c \<Longrightarrow> ok S booting c \<or> ok S idle c"
    by (induction rule: boot_code.induct)
      (use next_ok body ok_sched_pick [of S] boot_unfold(3) in \<open>auto simp: ok_kthread_main intro!: disjI2 ok_Setcontext_start ok_Sched_idle
        ok_block_sigrtmin ok_assert_inited ok_arm_timer ok_sched_check\<close>)
qed

text \<open>What they change: the semaphore they wait for, signal masks, timers.\<close>

definition kview :: "uthread_kinfo_t \<Rightarrow> ktid \<times> int \<times> sched_task \<times> mutex_ref option \<times> queue_ref option" where
  "kview ki = (kinfo_ktid ki, current_tid ki, sched_of ki)"

definition boot_frame :: "shared \<Rightarrow> shared \<Rightarrow> bool" where
  "boot_frame s s' \<longleftrightarrow>
     (\<exists>v v' b n K. inited_sem s = Sem_value v \<and> v' \<le> v \<and> map kview K = map kview (kthread_info s) \<and>
        s' = s\<lparr>inited_sem := Sem_value v', sigblocked := b, ncalls := n, kthread_info := K\<rparr>)"

lemma kview_eq:
  assumes "map kview K = map kview L"
  shows "length K = length L" "map kinfo_ktid K = map kinfo_ktid L" "kinfo_ktid ` set K = kinfo_ktid ` set L"
    "ki \<in> set K \<Longrightarrow> \<exists>ki' \<in> set L. kview ki = kview ki'"
proof -
  show "length K = length L" by (rule map_eq_imp_length_eq [OF assms])
  from arg_cong [OF assms, of "map fst"] show "map kinfo_ktid K = map kinfo_ktid L" by (simp add: kview_def comp_def)
  from arg_cong [OF this, of set] show "kinfo_ktid ` set K = kinfo_ktid ` set L" by simp
  from arg_cong [OF assms, of set] have "kview ` set K = kview ` set L" by simp
  then show "ki \<in> set K \<Longrightarrow> \<exists>ki' \<in> set L. kview ki = kview ki'" using imageI [of ki "set K" kview] by auto
qed

lemma booted_frame:
  assumes b: "booted S s i p" and f: "boot_frame s s'"
  shows "booted S s' i p" "ktids s' = ktids s" "quantum s' = quantum s"
proof -
  from f obtain v b' n K where K: "map kview K = map kview (kthread_info s)"
    and s': "s' = s\<lparr>inited_sem := Sem_value v, sigblocked := b', ncalls := n, kthread_info := K\<rparr>"
    unfolding boot_frame_def by blast
  note eq = kview_eq [OF K]
  show kt: "ktids s' = ktids s" "quantum s' = quantum s" using eq by (simp_all add: ktids_def s')
  have "\<forall>ki \<in> set K. task (sched_info ki) = NONE \<and> sched_lock (sched_info ki) = None \<and>
        sched_queue (sched_info ki) = None \<and> current_tid ki = (if kinfo_ktid ki = i then 0 else -1)"
    using b eq(4) by (fastforce simp: booted_def kview_def sched_of_def)
  moreover have "ki_wf s' = ki_wf s" "mem_ok s" using b eq by (simp_all add: ki_wf_def s' booted_def)
  then have "mem_ok s'" by (simp add: mem_ok_def s')
  ultimately show "booted S s' i p"
    using b kt \<open>ki_wf s' = ki_wf s\<close> by (simp add: booted_def s')
qed

lemma boot_frameI:
  assumes "inited_sem s = Sem_value v" "inited_sem s' = Sem_value v'" "v' \<le> v"
    "map kview (kthread_info s') = map kview (kthread_info s)"
    "s' = s\<lparr>inited_sem := inited_sem s', sigblocked := sigblocked s', ncalls := ncalls s', kthread_info := kthread_info s'\<rparr>"
  shows "boot_frame s s'"
  using assms unfolding boot_frame_def by metis

lemma kinfo_update_view:
  assumes b: "booted S s i p" and j: "j \<in> ktids s" and f: "\<And>ki. ki \<in> set (kthread_info s) \<Longrightarrow> kview (f ki) = kview ki"
  shows "\<exists>K. kinfo_update f j s = Ok (s\<lparr>kthread_info := K\<rparr>) \<and> map kview K = map kview (kthread_info s)"
proof -
  have wf: "ki_wf s" using b by (simp add: booted_def)
  then obtain ki where "kinfo_at s j = Ok ki" using j kinfo_at_in by blast
  then obtain a where a: "get_kthread_info s j = Ok a" by (auto simp: kinfo_at_def bind_o_Ok_iff)
  with wf have "a < length (kthread_info s)" by (simp add: get_kthread_info_eq)
  with f have "map kview ((kthread_info s)[a := f (kthread_info s ! a)]) = map kview (kthread_info s)"
    by (simp add: map_update list_update_same_conv)
  with a show ?thesis
    by (intro exI [of _ "(kthread_info s)[a := f (kthread_info s ! a)]"]) (simp add: kinfo_update_def)
qed

lemma booted_kinfo_at:
  assumes "booted S s i p" "j \<in> ktids s"
  obtains ki where "kinfo_at s j = Ok ki" "ki \<in> set (kthread_info s)" "kinfo_ktid ki = j"
    "task (sched_info ki) = NONE" "current_tid ki = (if j = i then 0 else -1)"
proof -
  have "ki_wf s" using assms by (simp add: booted_def)
  then obtain ki where ki: "kinfo_at s j = Ok ki" using assms(2) kinfo_at_in by blast
  from booted_kinfo [OF assms(1) ki] assms(1) ki show thesis by (intro that [of ki]) (auto simp: booted_def)
qed

text \<open>A step of one of them waits or stays within these codes.\<close>

definition boots :: "ktid \<Rightarrow> machine \<Rightarrow> machine outcome \<Rightarrow> bool" where
  "boots j m x \<longleftrightarrow> x = Block \<or> (\<exists>s' c'. x = Ok (goto j c' (m\<lparr>sh := s'\<rparr>)) \<and> boot_code c' \<and> boot_frame (sh m) s')"

lemma boots_Atom:
  assumes "f j (sh m) = Block \<or> (\<exists>s' c'. f j (sh m) = Ok (s', c') \<and> boot_code c' \<and> boot_frame (sh m) s')"
  shows "boots j m (exec j (Atom f) m)"
  using assms by (auto simp: boots_def)

lemma boots_stmt:
  "(\<exists>s'. f j (sh m) = Ok s' \<and> boot_frame (sh m) s') \<Longrightarrow> boot_code c' \<Longrightarrow> boots j m (exec j (stmt f c') m)"
  unfolding stmt_def by (rule boots_Atom) auto

lemma boots_assert:
  "P j (sh m) = Ok True \<Longrightarrow> boot_frame (sh m) (sh m) \<Longrightarrow> boot_code c' \<Longrightarrow> boots j m (exec j (c_assert P c') m)"
  unfolding c_assert_def by (rule boots_Atom) auto

lemma booted_mem:
  assumes "booted S s i p"
  shows "inited s" "fails s = (\<lambda>_. False)" "0 \<le> quantum s" "quantum s < 1000000000" "\<exists>v. inited_sem s = Sem_value v"
    "rq_not_empty (rqueue s) = Sem_value 0"
  using assms by (auto simp: booted_def mem_ok_def)

lemma boot_frame_mask:
  assumes "booted S s i p"
  shows "boot_frame s (s\<lparr>ncalls := n, sigblocked := sb\<rparr>)"
proof -
  obtain v where v: "inited_sem s = Sem_value v" using booted_mem(5) [OF assms] by blast
  show ?thesis by (rule boot_frameI [OF v]) (use v in \<open>cases s; simp\<close>)+
qed

lemma boot_frame_refl: "booted S s i p \<Longrightarrow> boot_frame s s"
  using boot_frame_mask [where n = "ncalls s" and sb = "sigblocked s"] by fastforce

lemma boot_frame_info:
  assumes "booted S s i p" and K: "map kview K = map kview (kthread_info s)"
  shows "boot_frame s (s\<lparr>ncalls := n, kthread_info := K\<rparr>)"
proof -
  obtain v where v: "inited_sem s = Sem_value v" using booted_mem(5) [OF assms(1)] by blast
  show ?thesis by (rule boot_frameI [OF v, where v' = v]) (use v K in \<open>cases s; simp\<close>)+
qed

text \<open>Setting the signal mask and arming the timer.\<close>

lemma booted_mask:
  assumes "booted S s i p"
  shows "\<exists>s'. set_sigmask x j s = Ok s' \<and> boot_frame s s' \<and> inited_sem s' = inited_sem s"
  using booted_mem(2) [OF assms] boot_frame_refl [OF assms] boot_frame_mask [OF assms]
  by (auto simp: set_sigmask_def libc_call_def)

lemma booted_arm:
  assumes b: "booted S s i p" and j: "j \<in> ktids s"
  shows "\<exists>s'. (if quantum s \<noteq> 0 then set_timer_interrupt j s else Ok s) = Ok s' \<and> boot_frame s s' \<and> inited_sem s' = inited_sem s"
proof (cases "quantum s = 0")
  case True
  then show ?thesis using boot_frame_refl [OF b] by auto
next
  case False
  let ?s = "s\<lparr>ncalls := Suc (Suc (Suc (ncalls s)))\<rparr>" and ?f = "\<lambda>ki. ki\<lparr>timer_nsec := Some (quantum s)\<rparr>"
  have "booted S ?s i p"
    using booted_frame(1) [OF b boot_frame_mask [OF b, where n = "Suc (Suc (Suc (ncalls s)))" and sb = "sigblocked s"]] by simp
  from kinfo_update_view [OF this, of j ?f] j obtain K where
    "kinfo_update ?f j ?s = Ok (?s\<lparr>kthread_info := K\<rparr>)" "map kview K = map kview (kthread_info s)"
    by (auto simp: kview_def sched_of_def ktids_def)
  moreover obtain ki where "kinfo_at s j = Ok ki" using j by (auto intro: booted_kinfo_at [OF b j])
  then have "\<exists>a. get_kthread_info s j = Ok a" by (auto simp: kinfo_at_def bind_o_Ok_iff)
  ultimately show ?thesis
    using False booted_mem [OF b] boot_frame_info [OF b] by (auto simp: set_timer_interrupt_def libc_call_def)
qed

lemma boot_exec:
  assumes b: "booted S (sh m) i p" and j: "j \<in> ktids (sh m)" "j \<noteq> i" and c: "boot_code c"
  shows "boots j m (exec j c m)"
proof -
  note mem = booted_mem [OF b]
  obtain v where v: "inited_sem (sh m) = Sem_value v" using mem(5) by blast
  obtain ki where ki: "kinfo_at (sh m) j = Ok ki" "ki \<in> set (kthread_info (sh m))" "kinfo_ktid ki = j"
    "task (sched_info ki) = NONE" "current_tid ki = -1" using j by (auto intro: booted_kinfo_at [OF b j(1)])
  note refl = boot_frame_refl [OF b] and mask = booted_mask [OF b] and arm = booted_arm [OF b j(1)]
  show ?thesis
    using c
  proof cases
    case 1
    show ?thesis unfolding 1 boot_unfold checked_def
    proof (rule boots_Atom)
      show "bind_o (wait_inited (sh m)) (\<lambda>(r, s'). if r \<noteq> 0 then Err Abort
          else Ok (s', block_sigrtmin (assert_inited (arm_timer Setcontext_sched)))) = Block \<or>
        (\<exists>s' c'. bind_o (wait_inited (sh m)) (\<lambda>(r, s'). if r \<noteq> 0 then Err Abort
          else Ok (s', block_sigrtmin (assert_inited (arm_timer Setcontext_sched)))) = Ok (s', c') \<and> boot_code c' \<and> boot_frame (sh m) s')"
        using v by (cases v) (auto simp: wait_inited_def intro!: boot_code.intros boot_frameI)
    qed
  next
    case 2
    show ?thesis unfolding 2 block_sigrtmin_def by (rule boots_stmt) (use mask in blast, rule boot_code.intros)
  next
    case 3
    show ?thesis unfolding 3 assert_inited_def by (rule boots_assert) (use mem refl in \<open>auto intro: boot_code.intros\<close>)
  next
    case 4
    show ?thesis unfolding 4
    proof (rule boots_stmt)
      show "\<exists>s'. (if quantum (sh m) \<noteq> 0 then set_timer_interrupt j (sh m) else Ok (sh m)) = Ok s' \<and> boot_frame (sh m) s'"
        using arm by blast
    qed (rule boot_code.intros)
  next
    case 5
    have "exec j Setcontext_sched m = Ok (goto j Schedule (m\<lparr>sh := sh m\<lparr>ncalls := Suc (ncalls (sh m)),
        sigblocked := (sigblocked (sh m))(j := sched_mask (sched_info ki))\<rparr>\<rparr>))"
      using mem(2) ki(1)
      by (auto simp: sh_update_o_def ctx_call_def libc_call_def enter_sched_def kinfo_at_def get_kthread_info_def)
    then show ?thesis unfolding 5 boots_def using boot_frame_mask [OF b] boot_code.intros(6) by blast
  next
    case 6
    show ?thesis unfolding 6 boots_def using refl by (auto simp: boot_unfold(2) intro!: exI [of _ "sh m"] boot_code.intros)
  next
    case 7
    show ?thesis unfolding 7 block_sigrtmin_def by (rule boots_stmt) (use mask in blast, rule boot_code.intros)
  next
    case 8
    have "uthread_self j (sh m) = Ok (-1)" using ki mem(1) by (simp add: uthread_self_def)
    then have "sched_read j (sh m) = Ok (NONE, -1, NULL)" using ki by (simp add: sched_read_def)
    then show ?thesis unfolding 8 expr_def by (intro boots_Atom) (use refl in \<open>auto intro: boot_code.intros\<close>)
  next
    case 10
    show ?thesis unfolding 10
    proof (rule boots_stmt)
      let ?f = "\<lambda>ki. ki\<lparr>sched_info := (sched_info ki)\<lparr>task := NONE, sched_lock := None, sched_queue := None\<rparr>\<rparr>"
      have "kview (?f ki) = kview ki" if "ki \<in> set (kthread_info (sh m))" for ki
        using b that by (auto simp: booted_def kview_def sched_of_def)
      from kinfo_update_view [OF b j(1), of ?f, OF this] boot_frame_info [OF b, where n = "ncalls (sh m)"]
      show "\<exists>s'. kinfo_update ?f j (sh m) = Ok s' \<and> boot_frame (sh m) s'" by fastforce
    qed (rule boot_code.intros)
  next
    case 9
    show ?thesis unfolding 9 by (rule boots_assert) (use ki refl in \<open>auto simp: boot_unfold(3) intro: boot_code.intros\<close>)
  next
    case 11
    show ?thesis unfolding 11 ready_dequeue_def checked_def
      by (rule boots_Atom) (simp add: wait_not_empty_def mem)
  qed
qed


section \<open>The main thread until the client runs\<close>

text \<open>
  The main kernel thread at \<open>c\<close> with at most \<open>r\<close> posts of \<^verbatim>\<open>inited_sem\<close> to come, the others on
  their way to the ready queue; \<open>X\<close> says which semaphores were initialised.
\<close>

type_synonym sem_pred = "(semid \<Rightarrow> uthread_sem_t option) \<Rightarrow> bool"

definition sems_ready :: "semid set \<Rightarrow> sem_pred" where
  "sems_ready S x \<longleftrightarrow>
     (\<forall>m \<in> S. \<exists>y. x m = Some y \<and> sem_lock y = Mutex_free \<and> queue_rep (sem_queue y) [] \<and> 0 \<le> counter y)"

definition warm :: "sem_pred \<Rightarrow> nat \<Rightarrow> code \<Rightarrow> ktid \<Rightarrow> addr \<Rightarrow> machine \<Rightarrow> bool" where
  "warm X r c i p m \<longleftrightarrow>
     booted {} (sh m) i p \<and> X (sems (sh m)) \<and> exit_status m = None \<and> kcode m i = Some c \<and>
     (\<forall>j. j \<noteq> i \<longrightarrow> (if j \<in> ktids (sh m) then \<exists>c'. kcode m j = Some c' \<and> boot_code c' else kcode m j = None)) \<and>
     (\<exists>v. inited_sem (sh m) = Sem_value v \<and> v + r \<le> MAX_KTHREADS)"

text \<open>
  Code of the main thread that initialises the semaphores \<open>F\<close> before safe code follows; \<open>q\<close> is the
  quantum.
\<close>

inductive sets_up :: "int \<Rightarrow> semid set \<Rightarrow> sem_pred \<Rightarrow> nat \<Rightarrow> code \<Rightarrow> bool" for q F where
  sets_up_done: "(\<And>p. ok F (running p) c) \<Longrightarrow> (\<And>x. X x \<Longrightarrow> sems_ready F x) \<Longrightarrow> sets_up q F X r c"
| sets_up_post: "sets_up q F X r k \<Longrightarrow> sets_up q F X (Suc r) (checked (\<lambda>i. post_inited) k)"
| sets_up_atom: "(\<And>i s p. booted {} s i p \<Longrightarrow> X (sems s) \<Longrightarrow> quantum s = q \<Longrightarrow>
     \<exists>s' c'. f i s = Ok (s', c') \<and> booted {} s' i p \<and> X' (sems s') \<and> ktids s' = ktids s \<and> inited_sem s' = inited_sem s \<and>
       quantum s' = q \<and> sets_up q F X' r c') \<Longrightarrow> sets_up q F X r (Atom f)"
| sets_up_user: "sets_up q F X r (api u) \<Longrightarrow> sets_up q F X r (User u)"

definition setting_up :: "int \<Rightarrow> semid set \<Rightarrow> machine \<Rightarrow> bool" where
  "setting_up q F m \<longleftrightarrow> quantum (sh m) = q \<and> (\<exists>X r c i p. warm X r c i p m \<and> sets_up q F X r c)"

lemma setting_upI: "warm X r c i p m \<Longrightarrow> sets_up q F X r c \<Longrightarrow> quantum (sh m) = q \<Longrightarrow> setting_up q F m"
  unfolding setting_up_def by blast

lemma booted_sems: "booted S s i p \<longleftrightarrow> booted {} s i p \<and> sems_ready S (sems s)"
  by (auto simp: booted_def sems_ready_def)

lemma warm_running:
  assumes "warm X r c i p m" "ok S (running p) c" "sems_ready S (sems (sh m))"
  shows "running_ok S m"
proof -
  have "booted S (sh m) i p" using assms by (simp add: booted_sems [of S] warm_def)
  then show ?thesis
    using assms unfolding warm_def
    by (intro booted_running) (auto dest: boot_code_ok [of _ S] split: if_splits)
qed

lemma warm_frame: "warm X r c i p m \<Longrightarrow> boot_frame (sh m) s' \<Longrightarrow> warm X r c i p (m\<lparr>sh := s'\<rparr>)"
  using booted_frame [of "{}" "sh m" i p s'] unfolding warm_def by (auto simp: boot_frame_def)

lemma warm_other:
  "warm X r c i p m \<Longrightarrow> j \<noteq> i \<Longrightarrow> j \<in> ktids (sh m) \<Longrightarrow> boot_code c' \<Longrightarrow> warm X r c i p (goto j c' m)"
  unfolding warm_def by (auto simp: goto_def split: if_splits)

lemma warm_main:
  "warm X r c i p m \<Longrightarrow> booted {} s' i p \<Longrightarrow> X' (sems s') \<Longrightarrow> ktids s' = ktids (sh m) \<Longrightarrow>
   \<exists>v. inited_sem s' = Sem_value v \<and> v + r' \<le> MAX_KTHREADS \<Longrightarrow> warm X' r' c' i p (goto i c' (m\<lparr>sh := s'\<rparr>))"
  unfolding warm_def by (auto simp: goto_def)

text \<open>A step of the main kernel thread.\<close>

lemma sets_up_step:
  assumes "sets_up q F X r c" "warm X r c i p m" "quantum (sh m) = q"
  shows "running_ok F m \<or> (\<exists>m'. exec i c m = Ok m' \<and> setting_up q F m')"
  using assms(1)
proof cases
  case sets_up_done
  with warm_running [OF assms(2)] assms(2) show ?thesis by (simp add: warm_def)
next
  case (sets_up_post r' k)
  from assms(2) obtain v where v: "inited_sem (sh m) = Sem_value v" "v + r \<le> MAX_KTHREADS" "booted {} (sh m) i p"
    unfolding warm_def by blast
  let ?s = "(sh m)\<lparr>inited_sem := Sem_value (Suc v)\<rparr>"
  have "int v < SEM_VALUE_MAX" using v(2) by (simp add: MAX_KTHREADS_def SEM_VALUE_MAX_def)
  then have "exec i c m = Ok (goto i k (m\<lparr>sh := ?s\<rparr>))"
    unfolding sets_up_post(2) checked_def using v by (simp add: post_inited_def)
  moreover have "booted {} ?s i p" using v(3) by (simp add: booted_def mem_ok_def ki_wf_def ktids_def)
  then have "warm X r' k i p (goto i k (m\<lparr>sh := ?s\<rparr>))"
    by (rule warm_main [OF assms(2), of _ X]) (use v sets_up_post(1) assms(2) in \<open>simp_all add: ktids_def warm_def\<close>)
  then have "setting_up q F (goto i k (m\<lparr>sh := ?s\<rparr>))"
    by (rule setting_upI [OF _ sets_up_post(3)]) (use assms(3) in \<open>simp add: goto_def\<close>)
  ultimately show ?thesis by blast
next
  case (sets_up_atom f X')
  from assms(2) have b: "booted {} (sh m) i p" "X (sems (sh m))" by (simp_all add: warm_def)
  from sets_up_atom(2) [OF b assms(3)] obtain s' c' where s': "f i (sh m) = Ok (s', c')" "booted {} s' i p" "X' (sems s')"
    "ktids s' = ktids (sh m)" "inited_sem s' = inited_sem (sh m)" "quantum s' = q" "sets_up q F X' r c'" by blast
  then have "exec i c m = Ok (goto i c' (m\<lparr>sh := s'\<rparr>))" unfolding sets_up_atom(1) by simp
  moreover have "warm X' r c' i p (goto i c' (m\<lparr>sh := s'\<rparr>))"
    by (rule warm_main [OF assms(2) s'(2), of X']) (use assms(2) s'(3-5) in \<open>simp_all add: warm_def\<close>)
  then have "setting_up q F (goto i c' (m\<lparr>sh := s'\<rparr>))"
    by (rule setting_upI [OF _ s'(7)]) (use s'(6) in \<open>simp add: goto_def\<close>)
  ultimately show ?thesis by blast
next
  case (sets_up_user u)
  have "warm X r (api u) i p (goto i (api u) (m\<lparr>sh := sh m\<rparr>))"
    by (rule warm_main [OF assms(2), of "sh m" X]) (use assms(2) in \<open>simp_all add: warm_def\<close>)
  then have "setting_up q F (goto i (api u) m)"
    using setting_upI [OF _ sets_up_user(2)] assms(3) by (simp add: goto_def)
  then show ?thesis unfolding sets_up_user(1) by simp
qed

text \<open>Every step of the machine.\<close>

lemma warm_other_step:
  assumes w: "warm X r c i p m" and j: "j \<noteq> i"
  shows "kstep j m = Block \<or> (\<exists>m'. kstep j m = Ok m' \<and> warm X r c i p m' \<and> quantum (sh m') = quantum (sh m))"
proof (cases "j \<in> ktids (sh m)")
  case True
  from w have b: "booted {} (sh m) i p" unfolding warm_def by blast
  from w have "\<forall>j. j \<noteq> i \<longrightarrow> (if j \<in> ktids (sh m) then \<exists>c'. kcode m j = Some c' \<and> boot_code c' else kcode m j = None)"
    unfolding warm_def by blast
  from this [rule_format, OF j] True obtain c' where c': "kcode m j = Some c'" "boot_code c'" by auto
  from boot_exec [OF b True j c'(2)] show ?thesis
    unfolding boots_def
  proof
    assume "\<exists>s' c''. exec j c' m = Ok (goto j c'' (m\<lparr>sh := s'\<rparr>)) \<and> boot_code c'' \<and> boot_frame (sh m) s'"
    then obtain s' c'' where s': "exec j c' m = Ok (goto j c'' (m\<lparr>sh := s'\<rparr>))" "boot_code c''" "boot_frame (sh m) s'" by blast
    have "warm X r c i p (goto j c'' (m\<lparr>sh := s'\<rparr>))"
      by (rule warm_other [OF warm_frame [OF w s'(3)] j _ s'(2)]) (use True booted_frame(2) [OF b s'(3)] in simp)
    with s'(1) c'(1) booted_frame(3) [OF b s'(3)] show ?thesis by (simp add: kstep_def goto_def)
  qed (use c' in \<open>simp add: kstep_def\<close>)
next
  case False
  with w j have "kcode m j = None" unfolding warm_def by auto
  then show ?thesis by (simp add: kstep_def)
qed

lemma warm_signal:
  assumes w: "warm X r c i p m" and s: "sigrtmin_handler j (sh m) = Ok s'" and j: "kinfo_at (sh m) j = Ok ki"
  shows "warm X r c i p (m\<lparr>sh := s'\<rparr>) \<and> quantum s' = quantum (sh m)"
proof -
  from w have b: "booted {} (sh m) i p" unfolding warm_def by blast
  obtain v where v: "inited_sem (sh m) = Sem_value v" using booted_mem(5) [OF b] by blast
  have "ki_wf (sh m)" using b by (simp add: booted_def)
  then have "j \<in> ktids (sh m)" using j kinfo_at_in by blast
  from kinfo_update_view [OF b this, of "\<lambda>ki. ki\<lparr>preempted := True\<rparr>"] s
  have "s' = sh m \<or> (\<exists>K. s' = (sh m)\<lparr>kthread_info := K\<rparr> \<and> map kview K = map kview (kthread_info (sh m)))"
    by (auto simp: sigrtmin_handler_def kview_def sched_of_def split: if_splits)
  then have "boot_frame (sh m) s'"
    using v by (auto intro!: boot_frameI)
  with warm_frame [OF w this] booted_frame(3) [OF b this] show ?thesis by simp
qed

lemma setting_up_step:
  assumes "setting_up q F m"
  shows "mstep m m' \<Longrightarrow> running_ok F m \<or> setting_up q F m'" "running_ok F m \<or> kstep j m \<noteq> Err e"
proof -
  from assms obtain X r c i p where w: "warm X r c i p m" "sets_up q F X r c" "quantum (sh m) = q"
    unfolding setting_up_def by blast
  have c: "kstep i m = exec i c m" using w(1) by (simp add: warm_def kstep_def)
  show "running_ok F m \<or> kstep j m \<noteq> Err e"
    using sets_up_step [OF w(2,1,3)] warm_other_step [OF w(1), of j] c by (cases "j = i") auto
  assume "mstep m m'"
  then show "running_ok F m \<or> setting_up q F m'"
  proof cases
    case (thread j)
    show ?thesis
    proof (cases "j = i")
      case True
      with thread c sets_up_step [OF w(2,1,3)] show ?thesis by auto
    next
      case False
      from warm_other_step [OF w(1) this] thread setting_upI [OF _ w(2)] w(3) show ?thesis by auto
    qed
  next
    case (signal j ki s)
    from warm_signal [OF w(1) signal(6,4)] setting_upI [OF _ w(2)] w(3) show ?thesis unfolding signal(1) by auto
  qed
qed

text \<open>Runs from the initialisation on.\<close>

lemma setting_up_reach:
  "tid_steps m x \<Longrightarrow> setting_up q F m \<Longrightarrow> running_ok F x \<or> setting_up q F x"
  by (induction rule: tid_steps.induct) (use running_ok_step setting_up_step(1) in blast)+


section \<open>Initialised programs\<close>

text \<open>Code of the main thread that stays within the frame.\<close>

lemma sets_up_frame:
  assumes "\<And>i s p. booted {} s i p \<Longrightarrow> \<exists>s'. f i s = Ok s' \<and> boot_frame s s' \<and> inited_sem s' = inited_sem s"
    and "sets_up q F X r k"
  shows "sets_up q F X r (stmt f k)"
  unfolding stmt_def
proof (rule sets_up_atom)
  fix i s p assume b: "booted {} s i p" and X: "X (sems s)" "quantum s = q"
  from assms(1) [OF b] obtain s' where s': "f i s = Ok s'" "boot_frame s s'" "inited_sem s' = inited_sem s" by blast
  moreover have "sems s' = sems s" using s'(2) by (auto simp: boot_frame_def)
  ultimately show "\<exists>s' c'. bind_o (f i s) (\<lambda>s'. Ok (s', k)) = Ok (s', c') \<and> booted {} s' i p \<and> X (sems s') \<and>
      ktids s' = ktids s \<and> inited_sem s' = inited_sem s \<and> quantum s' = q \<and> sets_up q F X r c'"
    using booted_frame [OF b s'(2)] X assms(2) by auto
qed

lemma sets_up_post_all: "sets_up q F X 0 k \<Longrightarrow> sets_up q F X n (post_all_inited n k)"
  by (induction n) (simp_all add: sets_up_post)

lemma sets_up_init_rest:
  assumes "sets_up q F X 0 k" "0 < n"
  shows "sets_up q F X (n - 1) (init_rest n k)"
proof -
  have "sets_up q F X 0 (arm_timer (unblock_sigrtmin k))"
    unfolding unblock_sigrtmin_def
    by (intro sets_up_frame booted_arm booted_mask assms(1)) (auto simp: booted_def)
  then show ?thesis using assms(2) by (simp add: init_rest_def size_pred_def sets_up_post_all)
qed


text \<open>Without preemption, the main thread can initialise semaphores first.\<close>

lemma booted_update:
  assumes "booted {} s i p" "\<And>m x. y m = Some x \<Longrightarrow> nodes (sem_queue x) = fmempty"
  shows "booted {} (s\<lparr>ncalls := n, sems := y\<rparr>) i p"
  using assms by (simp add: booted_def ki_wf_def ktids_def mem_ok_def)

lemma sets_up_sems:
  assumes k: "sets_up 0 F X' r c'" and nodes: "\<And>x m y. X' x \<Longrightarrow> x m = Some y \<Longrightarrow> nodes (sem_queue y) = fmempty"
    and f: "\<And>i s p. booted {} s i p \<Longrightarrow> X (sems s) \<Longrightarrow> quantum s = 0 \<Longrightarrow>
      \<exists>n y. f i s = Ok (s\<lparr>ncalls := n, sems := y\<rparr>, c') \<and> X' y"
  shows "sets_up 0 F X r (Atom f)"
proof (rule sets_up_atom [where X' = X'])
  fix i s p assume b: "booted {} s i p" and X: "X (sems s)" "quantum s = 0"
  from f [OF b X] obtain n y where y: "f i s = Ok (s\<lparr>ncalls := n, sems := y\<rparr>, c')" "X' y" by blast
  then show "\<exists>s' c'. f i s = Ok (s', c') \<and> booted {} s' i p \<and> X' (sems s') \<and> ktids s' = ktids s \<and>
      inited_sem s' = inited_sem s \<and> quantum s' = 0 \<and> sets_up 0 F X' r c'"
    using booted_update [OF b nodes [OF y(2)]] k X(2) by (simp add: ktids_def)
qed

definition sems_pre :: "semid set \<Rightarrow> sem_pred" where
  "sems_pre S x \<longleftrightarrow> sems_ready S x \<and> (\<forall>m y. x m = Some y \<longrightarrow> nodes (sem_queue y) = fmempty)"

lemma sets_up_read:
  assumes "\<And>i s p. booted {} s i p \<Longrightarrow> quantum s = 0 \<Longrightarrow> f i s = Ok (s, c')" "sets_up 0 F (sems_pre S) r c'"
  shows "sets_up 0 F (sems_pre S) r (Atom f)"
proof (rule sets_up_sems [OF assms(2)])
  fix i s p assume "booted {} s i p" "sems_pre S (sems s)" "quantum s = 0"
  then show "\<exists>n y. f i s = Ok (s\<lparr>ncalls := n, sems := y\<rparr>, c') \<and> sems_pre S y"
    using assms(1) by (intro exI [of _ "ncalls s"] exI [of _ "sems s"]) simp
qed (simp add: sems_pre_def)

lemma sets_up_sem_init:
  assumes k: "sets_up 0 F (sems_pre (insert m S)) r (k 0)" and v: "0 \<le> v"
  shows "sets_up 0 F (sems_pre S) r (uthread_sem_init m v k)"
proof -
  let ?X = "\<lambda>l x. sems_pre (S - {m}) x \<and> (\<exists>y. x m = Some y \<and> sem_lock y = l \<and> sem_queue y = blank_queue \<and> counter y = v)"
  let ?c6 = "stmt (\<lambda>i. sem_update m (\<lambda>x. x\<lparr>sem_queue := snd (queue_init (sem_queue x))\<rparr>)) (unblock_sigrtmin (k 0))"
  let ?f5 = "\<lambda>i s. let (f, s1) = libc_call s in if f then Ok (1, s1)
    else bind_o (sem_update m (\<lambda>x. x\<lparr>sem_lock := snd kthread_mutex_init\<rparr>) s1) (\<lambda>s2. Ok (0::int, s2))"
  let ?c5 = "call ?f5 (\<lambda>r. if r \<noteq> 0 then unblock_sigrtmin (k 1) else ?c6)"
  let ?c4 = "stmt (\<lambda>i s. Ok (s\<lparr>sems := (sems s)(m \<mapsto> blank_sem\<lparr>counter := v\<rparr>)\<rparr>)) ?c5"
  have mask: "sets_up 0 F X r (stmt (set_sigmask b) c)" if "sets_up 0 F X r c" for X b c
    using that by (rule sets_up_frame [rotated]) (rule booted_mask)
  have c6: "sets_up 0 F (?X Mutex_free) r ?c6"
    unfolding stmt_def
  proof (rule sets_up_sems)
    show "sets_up 0 F (sems_pre (insert m S)) r (unblock_sigrtmin (k 0))" unfolding unblock_sigrtmin_def by (rule mask [OF k])
    fix i p and s :: shared assume "?X Mutex_free (sems s)"
    then obtain y where y: "sems s m = Some y" "sem_lock y = Mutex_free" "sem_queue y = blank_queue" "counter y = v"
      "sems_pre (S - {m}) (sems s)" by blast
    let ?y = "y\<lparr>sem_queue := snd (queue_init blank_queue)\<rparr>"
    have "sems_pre (insert m S) ((sems s)(m \<mapsto> ?y))"
      using y v blank_init by (auto simp: sems_pre_def sems_ready_def)
    then show "\<exists>n x. bind_o (sem_update m (\<lambda>x. x\<lparr>sem_queue := snd (queue_init (sem_queue x))\<rparr>) s)
        (\<lambda>s'. Ok (s', unblock_sigrtmin (k 0))) = Ok (s\<lparr>ncalls := n, sems := x\<rparr>, unblock_sigrtmin (k 0)) \<and> sems_pre (insert m S) x"
      using y by (intro exI [of _ "ncalls s"] exI [of _ "(sems s)(m \<mapsto> ?y)"]) (simp add: sem_update_def sem_at_def)
  qed (simp add: sems_pre_def)
  have c5: "sets_up 0 F (?X Mutex_destroyed) r ?c5"
    unfolding call_def
  proof (rule sets_up_sems [OF c6])
    fix i s p assume b: "booted {} s i p" and "?X Mutex_destroyed (sems s)"
    then obtain y where y: "sems s m = Some y" "sem_queue y = blank_queue" "counter y = v" "sems_pre (S - {m}) (sems s)" by blast
    let ?y = "y\<lparr>sem_lock := Mutex_free\<rparr>"
    have "?X Mutex_free ((sems s)(m \<mapsto> ?y))"
      using y by (auto simp: sems_pre_def sems_ready_def blank_queue_def)
    then show "\<exists>n x. bind_o (?f5 i s) (\<lambda>(v, s'). Ok (s', if v \<noteq> 0 then unblock_sigrtmin (k 1) else ?c6)) =
        Ok (s\<lparr>ncalls := n, sems := x\<rparr>, ?c6) \<and> ?X Mutex_free x"
      using y booted_mem(2) [OF b]
      by (intro exI [of _ "Suc (ncalls s)"] exI [of _ "(sems s)(m \<mapsto> ?y)"])
        (simp add: sem_update_def sem_at_def libc_call_def kthread_mutex_init_def)
  qed (auto simp: sems_pre_def blank_queue_def)
  have c4: "sets_up 0 F (sems_pre S) r ?c4"
    unfolding stmt_def [of _ ?c5]
  proof (rule sets_up_sems [OF c5])
    fix i p and s :: shared assume "sems_pre S (sems s)"
    then have "?X Mutex_destroyed ((sems s)(m \<mapsto> blank_sem\<lparr>counter := v\<rparr>))"
      by (auto simp: sems_pre_def sems_ready_def blank_sem_def blank_queue_def)
    then show "\<exists>n x. bind_o (Ok (s\<lparr>sems := (sems s)(m \<mapsto> blank_sem\<lparr>counter := v\<rparr>)\<rparr>)) (\<lambda>s'. Ok (s', ?c5)) =
        Ok (s\<lparr>ncalls := n, sems := x\<rparr>, ?c5) \<and> ?X Mutex_destroyed x"
      by (intro exI [of _ "ncalls s"] exI [of _ "(sems s)(m \<mapsto> blank_sem\<lparr>counter := v\<rparr>)"]) simp
  qed (auto simp: sems_pre_def blank_queue_def)
  have c3: "sets_up 0 F (sems_pre S) r (check_preempted ?c4)"
    unfolding check_preempted_def expr_def
  proof (rule sets_up_read [OF _ c4])
    fix i s p assume b: "booted {} s i p" "quantum s = 0"
    from b(1) have "i \<in> ktids s" by (simp add: booted_def)
    then obtain ki where "kinfo_at s i = Ok ki" by (rule booted_kinfo_at [OF b(1)])
    with b(2) show "bind_o (bind_o (kinfo_at s i) (\<lambda>ki. Ok (quantum s \<noteq> 0 \<and> preempted ki)))
       (\<lambda>v. Ok (s, if v then stmt (kinfo_update (preempted_update (\<lambda>_. False))) (uthread_yield ?c4) else ?c4)) = Ok (s, ?c4)"
      by simp
  qed
  show ?thesis
    unfolding uthread_sem_init_def assert_inited_def block_sigrtmin_def c_assert_def
    by (rule sets_up_read [OF _ mask [OF c3]]) (simp add: booted_mem(1))
qed


text \<open>
  A program whose main thread initialises the library with \<open>n\<close> kernel threads and quantum \<open>q\<close>,
  then the semaphores \<open>ms\<close>, and continues with \<open>u\<close>.
\<close>

primrec init_sems :: "(semid \<times> int) list \<Rightarrow> uprog \<Rightarrow> uprog" where
  "init_sems [] u = u"
| "init_sems (m # ms) u = U_sem_init (fst m) (snd m) (\<lambda>_. init_sems ms u)"

definition init_program :: "nat \<Rightarrow> int \<Rightarrow> (semid \<times> int) list \<Rightarrow> uprog \<Rightarrow> uprog" where
  "init_program n q ms u = U_init (int n) q (\<lambda>_. init_sems ms u)"

lemma sets_up_init_sems:
  assumes "client_ok F u" "\<forall>m \<in> set ms. 0 \<le> snd m" "F = S \<union> fst ` set ms"
  shows "sets_up 0 F (sems_pre S) r (User (init_sems ms u))"
  using assms(2,3)
proof (induction ms arbitrary: S)
  case Nil
  with assms(1) show ?case by (auto simp: sems_pre_def intro!: sets_up_done ok_User)
next
  case (Cons m ms)
  then have "sets_up 0 F (sems_pre (insert (fst m) S)) r (User (init_sems ms u))" by (intro Cons.IH) auto
  from sets_up_sem_init [OF this, of "snd m"] Cons.prems show ?case by (auto simp: api_def intro!: sets_up_user)
qed

definition program_ok :: "nat \<Rightarrow> int \<Rightarrow> (semid \<times> int) list \<Rightarrow> uprog \<Rightarrow> bool" where
  "program_ok n q ms u \<longleftrightarrow>
     0 < n \<and> n \<le> MAX_KTHREADS \<and> 0 \<le> q \<and> q < 1000000000 \<and> (q = 0 \<or> ms = []) \<and>
     (\<forall>m \<in> set ms. 0 \<le> snd m) \<and> client_ok (fst ` set ms) u"

lemma program_sets_up:
  assumes "program_ok n q ms u"
  shows "sets_up q (fst ` set ms) (sems_pre {}) r (User (init_sems ms u))"
proof (cases "q = 0")
  case True
  with assms show ?thesis by (auto simp: program_ok_def intro!: sets_up_init_sems)
next
  case False
  with assms have "ms = []" "client_ok {} u" by (auto simp: program_ok_def)
  then show ?thesis by (auto simp: sems_ready_def intro!: sets_up_done ok_User)
qed

lemma init_done_setting_up:
  assumes p: "program_ok n q ms u" and d: "init_done i q n (User (init_sems ms u)) m"
  shows "setting_up q (fst ` set ms) m"
proof -
  from d obtain s p where s: "booted {} s i p" "quantum s = q" "inited_sem s = Sem_value 0" "sems s = (\<lambda>_. None)"
    "m = at_code i s (init_rest n (User (init_sems ms u))) (ktids s - {i})" unfolding init_done_def by blast
  have "warm (sems_pre {}) (n - 1) (init_rest n (User (init_sems ms u))) i p m"
    using s p by (auto simp: warm_def at_code_def sems_pre_def sems_ready_def program_ok_def boot_code.intros)
  moreover have "sets_up q (fst ` set ms) (sems_pre {}) (n - 1) (init_rest n (User (init_sems ms u)))"
    using sets_up_init_rest [OF program_sets_up [OF p]] p by (simp add: program_ok_def)
  ultimately show ?thesis by (rule setting_upI) (use s in \<open>simp add: at_code_def\<close>)
qed

theorem program_states:
  assumes p: "program_ok n q ms u" and i: "0 < i"
    and x: "tid_steps (initial (\<lambda>_. False) i (init_program n q ms u)) x"
  shows "(\<forall>j e. kstep j x \<noteq> Err e) \<or> running_ok (fst ` set ms) x"
proof -
  let ?k = "\<lambda>r::int. User (init_sems ms u)" and ?s = "initial_shared (\<lambda>_. False) i"
  have "initial (\<lambda>_. False) i (init_program n q ms u) = at_code i ?s (User (init_program n q ms u)) {}"
    by (auto simp: initial_def at_code_def)
  moreover have "forces (init_done i q n (?k 0)) (at_code i ?s (User (init_program n q ms u)) {})"
    using forces_uthread_init [of n i q ?k] p i
    by (intro forces_User) (auto simp: init_program_def api_def program_ok_def quiet_def initial_shared_def)
  ultimately have "(\<forall>j e. kstep j x \<noteq> Err e) \<or> (\<exists>m. setting_up q (fst ` set ms) m \<and> tid_steps m x)"
    using forces_reach x init_done_setting_up [OF p] by (metis (no_types, lifting))
  then show ?thesis using setting_up_reach setting_up_step(2) by blast
qed

end
