(* ===== verification/Uthread_Solo.thy ===== *)
theory Uthread_Solo
  imports Boot_Setup
begin
text \<open>
  Symbolic execution of one kernel thread while the others make no step, for the functional
  behaviour of the operations and for concrete runs.
\<close>

section \<open>Runs of one kernel thread\<close>

text \<open>Kernel thread \<open>i\<close> at code \<open>c\<close>, with shared state \<open>s\<close> and saved contexts \<open>x\<close>; the rest as in \<open>m\<close>.\<close>

definition here :: "ktid \<Rightarrow> shared \<Rightarrow> (addr \<Rightarrow> (code \<times> bool) option) \<Rightarrow> code \<Rightarrow> machine \<Rightarrow> machine" where
  "here i s x c m = m\<lparr>sh := s, ctxs := x, kcode := (kcode m)(i \<mapsto> c)\<rparr>"

text \<open>Kernel thread \<open>i\<close> alone reaches a state with \<open>Q\<close> through states whose shared part satisfies \<open>P\<close>.\<close>

inductive solo :: "ktid \<Rightarrow> (shared \<Rightarrow> bool) \<Rightarrow> (machine \<Rightarrow> bool) \<Rightarrow> machine \<Rightarrow> bool" for i P Q where
  solo_now: "Q m \<Longrightarrow> solo i P Q m"
| solo_step: "P (sh m) \<Longrightarrow> kstep i m = Ok m' \<Longrightarrow> solo i P Q m' \<Longrightarrow> solo i P Q m"

lemma solo_run: "solo i P Q m \<Longrightarrow> \<exists>n m'. run (replicate n i) m = Ok m' \<and> Q m'"
proof (induction rule: solo.induct)
  case (solo_now m)
  then show ?case by (intro exI [of _ 0]) simp
next
  case (solo_step m m')
  then obtain n m'' where "run (replicate n i) m' = Ok m''" "Q m''" by blast
  with solo_step show ?case by (intro exI [of _ "Suc n"]) simp
qed

lemma solo_trans:
  "solo i P Q m \<Longrightarrow> (\<And>m'. Q m' \<Longrightarrow> solo i P R m') \<Longrightarrow> solo i P R m"
  by (induction rule: solo.induct) (auto intro: solo.intros)

lemma solo_mono: "solo i P Q m \<Longrightarrow> (\<And>m'. Q m' \<Longrightarrow> R m') \<Longrightarrow> solo i P R m"
  by (induction rule: solo.induct) (auto intro: solo.intros)

lemma here_simps [simp]:
  "sh (here i s x c m) = s" "ctxs (here i s x c m) = x" "kcode (here i s x c m) i = Some c"
  "exit_status (here i s x c m) = exit_status m"
  "goto i c' (here i s x c m) = here i s x c' m" "(here i s x c m)\<lparr>sh := s'\<rparr> = here i s' x c m"
  "(here i s x c m)\<lparr>ctxs := x'\<rparr> = here i s x' c m"
  by (simp_all add: here_def goto_def)

lemma solo_exec:
  "P s \<Longrightarrow> exec i c (here i s x c m) = Ok (here i s' x' c' m) \<Longrightarrow> solo i P Q (here i s' x' c' m) \<Longrightarrow>
   solo i P Q (here i s x c m)"
  by (rule solo_step) (simp_all add: kstep_def)

lemma solo_Atom:
  "P s \<Longrightarrow> f i s = Ok (s', c') \<Longrightarrow> solo i P Q (here i s' x c' m) \<Longrightarrow> solo i P Q (here i s x (Atom f) m)"
  by (rule solo_exec) simp_all

lemma solo_stmt:
  "P s \<Longrightarrow> f i s = Ok s' \<Longrightarrow> solo i P Q (here i s' x k m) \<Longrightarrow> solo i P Q (here i s x (stmt f k) m)"
  unfolding stmt_def by (rule solo_Atom) simp_all

lemma solo_checked:
  "P s \<Longrightarrow> f i s = Ok (0, s') \<Longrightarrow> solo i P Q (here i s' x k m) \<Longrightarrow> solo i P Q (here i s x (checked f k) m)"
  unfolding checked_def by (rule solo_Atom) simp_all

lemma solo_call:
  "P s \<Longrightarrow> f i s = Ok (v, s') \<Longrightarrow> solo i P Q (here i s' x (k v) m) \<Longrightarrow> solo i P Q (here i s x (call f k) m)"
  unfolding call_def by (rule solo_Atom) simp_all

lemma solo_expr:
  "P s \<Longrightarrow> f i s = Ok v \<Longrightarrow> solo i P Q (here i s x (k v) m) \<Longrightarrow> solo i P Q (here i s x (expr f k) m)"
  unfolding expr_def by (rule solo_Atom) simp_all

lemma solo_assert:
  "P s \<Longrightarrow> f i s = Ok True \<Longrightarrow> solo i P Q (here i s x k m) \<Longrightarrow> solo i P Q (here i s x (c_assert f k) m)"
  unfolding c_assert_def by (rule solo_Atom) simp_all

lemma solo_User: "P s \<Longrightarrow> solo i P Q (here i s x (api u) m) \<Longrightarrow> solo i P Q (here i s x (User u) m)"
  by (rule solo_exec) simp_all

lemma solo_Schedule: "P s \<Longrightarrow> solo i P Q (here i s x schedule m) \<Longrightarrow> solo i P Q (here i s x Schedule m)"
  by (rule solo_exec) simp_all

lemma solo_wait_loop:
  "P s \<Longrightarrow> solo i P Q (here i s x (sem_wait_loop n p k) m) \<Longrightarrow> solo i P Q (here i s x (Sem_wait_loop n p k) m)"
  by (rule solo_exec) simp_all

lemma solo_Swapcontext:
  assumes "P s" "fails s = (\<lambda>_. False)" "tcb_at s p = Ok t" "kinfo_at s i = Ok ki"
    and "solo i P Q (here i (s\<lparr>ncalls := Suc (ncalls s), sigblocked := (sigblocked s)(i := sched_mask (sched_info ki))\<rparr>)
      (x(p \<mapsto> (c, sigblocked s i))) Schedule m)"
  shows "solo i P Q (here i s x (Swapcontext p c) m)"
proof (rule solo_exec [OF assms(1) _ assms(5)])
  have "kinfo_at (s\<lparr>ncalls := n\<rparr>) i = kinfo_at s i" for n by (simp add: kinfo_at_def get_kthread_info_def)
  then show "exec i (Swapcontext p c) (here i s x (Swapcontext p c) m) =
    Ok (here i (s\<lparr>ncalls := Suc (ncalls s), sigblocked := (sigblocked s)(i := sched_mask (sched_info ki))\<rparr>)
      (x(p \<mapsto> (c, sigblocked s i))) Schedule m)"
    using assms(2-4) by (simp add: sh_update_o_def ctx_call_def libc_call_def enter_sched_def)
qed

lemma solo_Setcontext:
  assumes "P s" "fails s = (\<lambda>_. False)" "tcb_at s p = Ok t" "x p = Some (c, b)"
    and "solo i P Q (here i (s\<lparr>ncalls := Suc (ncalls s), sigblocked := (sigblocked s)(i := b)\<rparr>) x c m)"
  shows "solo i P Q (here i s x (Setcontext p) m)"
proof (rule solo_exec [OF assms(1) _ assms(5)])
  show "exec i (Setcontext p) (here i s x (Setcontext p) m) =
    Ok (here i (s\<lparr>ncalls := Suc (ncalls s), sigblocked := (sigblocked s)(i := b)\<rparr>) x c m)"
    using assms(2-4) by (simp add: sh_update_o_def ctx_call_def libc_call_def)
qed

lemma solo_mask:
  assumes "P s" "quantum s = 0" "solo i P Q (here i s x k m)"
  shows "solo i P Q (here i s x (block_sigrtmin k) m)" "solo i P Q (here i s x (unblock_sigrtmin k) m)"
  unfolding block_sigrtmin_def unblock_sigrtmin_def using assms by (auto intro!: solo_stmt simp: set_sigmask_def)

lemma solo_Setcontext_sched:
  assumes "P s" "fails s = (\<lambda>_. False)" "kinfo_at s i = Ok ki"
    and "solo i P Q (here i (s\<lparr>ncalls := Suc (ncalls s), sigblocked := (sigblocked s)(i := sched_mask (sched_info ki))\<rparr>)
      x Schedule m)"
  shows "solo i P Q (here i s x Setcontext_sched m)"
proof (rule solo_exec [OF assms(1) _ assms(4)])
  have "kinfo_at (s\<lparr>ncalls := n\<rparr>) i = kinfo_at s i" for n by (simp add: kinfo_at_def get_kthread_info_def)
  then show "exec i Setcontext_sched (here i s x Setcontext_sched m) =
    Ok (here i (s\<lparr>ncalls := Suc (ncalls s), sigblocked := (sigblocked s)(i := sched_mask (sched_info ki))\<rparr>)
      x Schedule m)"
    using assms(2,3) by (simp add: sh_update_o_def ctx_call_def libc_call_def enter_sched_def)
qed

lemma solo_Makecontext:
  assumes "P s" "fails s = (\<lambda>_. False)" "tcbs_at s t = Ok p" "tcb_at s p = Ok v"
    and "solo i P Q (here i (s\<lparr>ncalls := Suc (ncalls s)\<rparr>) (x(p \<mapsto> (c, sigblocked s i))) c' m)"
  shows "solo i P Q (here i s x (Makecontext t c c') m)"
proof (rule solo_exec [OF assms(1) _ assms(5)])
  show "exec i (Makecontext t c c') (here i s x (Makecontext t c c') m) =
    Ok (here i (s\<lparr>ncalls := Suc (ncalls s)\<rparr>) (x(p \<mapsto> (c, sigblocked s i))) c' m)"
    using assms(2-4) by (simp add: sh_update_o_def ctx_call_def libc_call_def)
qed

lemma solo_preempted:
  assumes "P s" "quantum s = 0" "kinfo_at s i = Ok ki" "solo i P Q (here i s x k m)"
  shows "solo i P Q (here i s x (check_preempted k) m)"
  unfolding check_preempted_def by (rule solo_expr) (use assms in auto)

lemmas solo_rules =
  solo_checked solo_call solo_stmt solo_expr solo_assert solo_User solo_Schedule solo_wait_loop solo_mask solo_preempted
  solo_Swapcontext solo_Setcontext solo_Setcontext_sched solo_Makecontext

section \<open>The entry of a kernel thread\<close>

lemma last_match_split:
  "i \<notin> kinfo_ktid ` set L \<Longrightarrow> kinfo_ktid ki = i \<Longrightarrow> last_match n (K @ ki # L) i f = Some (n + length K)"
proof (induction K arbitrary: n f)
  case Nil
  have "last_match n' L i f' = f'" if "i \<notin> kinfo_ktid ` set L" for n' f'
    using that by (induction L arbitrary: n') auto
  with Nil show ?case by simp
qed simp

text \<open>The position of kernel thread \<open>i\<close> in \<open>kthread_info\<close>.\<close>

definition entry_at :: "ktid \<Rightarrow> uthread_kinfo_t list \<Rightarrow> uthread_kinfo_t list \<Rightarrow> nat \<Rightarrow> bool" where
  "entry_at i K L n \<longleftrightarrow> n = Suc (length K + length L) \<and> i \<notin> kinfo_ktid ` set L"

lemma kinfo_split:
  assumes "entry_at i K L (num_kthreads s)" "kthread_info s = K @ ki # L" "kinfo_ktid ki = i"
  shows "kinfo_at s i = Ok ki" "kinfo_update f i s = Ok (s\<lparr>kthread_info := K @ f ki # L\<rparr>)"
  using assms last_match_split [of i L ki 0 K None]
  by (simp_all add: kinfo_at_def kinfo_update_def get_kthread_info_def entry_at_def)

section \<open>A thread running on a kernel thread\<close>

text \<open>
  The library is initialised, works without preemption, its locks are free and the system calls succeed;
  \<open>i\<close> is one of its kernel threads.
\<close>

definition lib_ready :: "ktid \<Rightarrow> shared \<Rightarrow> bool" where
  "lib_ready i s \<longleftrightarrow>
     inited s \<and> quantum s = 0 \<and> fails s = (\<lambda>_. False) \<and>
     tcbs_lock s = Mutex_free \<and> rq_lock (rqueue s) = Mutex_free \<and> bitvec_lock s = Mutex_free \<and>
     distinct (map kinfo_ktid (kthread_info s)) \<and> num_kthreads s = length (kthread_info s) \<and>
     i \<in> kinfo_ktid ` set (kthread_info s)"

text \<open>Thread \<open>p\<close> with control block \<open>t\<close> is in the table of threads.\<close>

definition tcb_in :: "shared \<Rightarrow> addr \<Rightarrow> uthread_tcb_t \<Rightarrow> bool" where
  "tcb_in s p t \<longleftrightarrow> p \<noteq> NULL \<and> p \<noteq> exitall \<and> tcb_heap s p = Some t \<and>
     unat (tcb_tid t) < UTHREAD_MAX_THREADS \<and> tcbs s (unat (tcb_tid t)) = p"

text \<open>Kernel thread \<open>i\<close> executes thread \<open>p\<close>.\<close>

definition running_on :: "ktid \<Rightarrow> addr \<Rightarrow> shared \<Rightarrow> bool" where
  "running_on i p s \<longleftrightarrow> lib_ready i s \<and>
     (\<exists>t. tcb_in s p t \<and> state t = RUNNING \<and>
       (\<forall>ki \<in> set (kthread_info s). kinfo_ktid ki = i \<longrightarrow>
          task (sched_info ki) = NONE \<and> current_tid ki = int (unat (tcb_tid t))))"

text \<open>
  The ready queue holds \<open>ps\<close>, and its semaphore counts them.
\<close>

definition ready_is :: "shared \<Rightarrow> addr list \<Rightarrow> bool" where
  "ready_is s ps \<longleftrightarrow> queue_rep (rq_queue (rqueue s)) ps \<and> rq_not_empty (rqueue s) = Sem_value (length ps)"

text \<open>Thread \<open>q\<close> waits in the ready queue with saved context \<open>c\<close>.\<close>

definition ready_thread :: "shared \<Rightarrow> (addr \<Rightarrow> (code \<times> bool) option) \<Rightarrow> addr \<Rightarrow> code \<Rightarrow> bool" where
  "ready_thread s x q c \<longleftrightarrow> (\<exists>t b. tcb_in s q t \<and> state t = READY \<and> x q = Some (c, b))"

text \<open>The entry of \<open>i\<close> in \<open>kthread_info\<close> split off.\<close>

definition entry_split ::
  "ktid \<Rightarrow> shared \<Rightarrow> uthread_kinfo_t list \<Rightarrow> uthread_kinfo_t \<Rightarrow> uthread_kinfo_t list \<Rightarrow> bool" where
  "entry_split i s K ki L \<longleftrightarrow>
     kthread_info s = K @ ki # L \<and> entry_at i K L (num_kthreads s) \<and> kinfo_ktid ki = i \<and>
     i \<notin> kinfo_ktid ` set K \<and> distinct (map kinfo_ktid (K @ L))"

lemma entry_splitD:
  assumes "entry_split i s K ki L"
  shows "kthread_info s = K @ ki # L" "entry_at i K L (num_kthreads s)" "kinfo_ktid ki = i"
    "i \<notin> kinfo_ktid ` set K" "distinct (map kinfo_ktid (K @ L))"
  using assms by (simp_all add: entry_split_def)

lemma lib_readyD:
  assumes "lib_ready i s"
  shows "inited s" "quantum s = 0" "fails s = (\<lambda>_. False)" "tcbs_lock s = Mutex_free" "rq_lock (rqueue s) = Mutex_free"
    "bitvec_lock s = Mutex_free"
  using assms by (simp_all add: lib_ready_def)

lemma lib_ready_split:
  assumes "lib_ready i s"
  obtains K ki L where "entry_split i s K ki L"
proof -
  from assms obtain ki where ki: "ki \<in> set (kthread_info s)" "kinfo_ktid ki = i" unfolding lib_ready_def by blast
  from ki(1) obtain K L where K: "kthread_info s = K @ ki # L" by (auto simp: in_set_conv_decomp)
  with assms ki show thesis by (intro that [of K ki L]) (auto simp: lib_ready_def entry_at_def entry_split_def)
qed

lemma running_on_split:
  assumes "running_on i p s"
  obtains K ki L t where "lib_ready i s" "entry_split i s K ki L" "tcb_in s p t" "state t = RUNNING"
    "task (sched_info ki) = NONE" "current_tid ki = int (unat (tcb_tid t))"
proof -
  from assms have "lib_ready i s" by (simp add: running_on_def)
  then obtain K ki L where "entry_split i s K ki L" by (rule lib_ready_split)
  moreover from this have "ki \<in> set (kthread_info s)" "kinfo_ktid ki = i" by (simp_all add: entry_split_def)
  with assms obtain t where "tcb_in s p t" "state t = RUNNING" "task (sched_info ki) = NONE"
    "current_tid ki = int (unat (tcb_tid t))" unfolding running_on_def by blast
  ultimately show thesis using \<open>lib_ready i s\<close> that by blast
qed

lemma lib_readyI:
  assumes "entry_split i s K ki L" "inited s" "quantum s = 0" "fails s = (\<lambda>_. False)" "tcbs_lock s = Mutex_free"
    "rq_lock (rqueue s) = Mutex_free" "bitvec_lock s = Mutex_free"
  shows "lib_ready i s"
  using assms by (auto simp: lib_ready_def entry_split_def entry_at_def)

lemma running_onI:
  assumes "lib_ready i s" "entry_split i s K ki L" "tcb_in s p t" "state t = RUNNING" "task (sched_info ki) = NONE"
    "current_tid ki = int (unat (tcb_tid t))"
  shows "running_on i p s"
proof -
  have "ki' = ki" if "ki' \<in> set (kthread_info s)" "kinfo_ktid ki' = i" for ki'
    using that assms(2) by (auto simp: entry_split_def entry_at_def)
  with assms show ?thesis unfolding running_on_def by blast
qed

lemma tcb_inD:
  assumes "tcb_in s p t"
  shows "p \<noteq> NULL" "p \<noteq> exitall" "tcb_heap s p = Some t" "unat (tcb_tid t) < UTHREAD_MAX_THREADS" "tcbs s (unat (tcb_tid t)) = p"
  using assms by (simp_all add: tcb_in_def)

section \<open>Dispatching the next thread\<close>

lemmas run_defs =
  assert_inited_def lock_tcbs_def unlock_tcbs_def schedule_def ready_enqueue_def ready_dequeue_def set_task_def

lemmas run_simps =
  do_lock_def do_unlock_def self_tcb_def uthread_self_def tcbs_at_def tcbs_at_int_def has_state_def set_state_def
  tcb_at_def tcb_update_def rq_enqueue_def rq_dequeue_def malloc_def libc_call_def post_not_empty_def wait_not_empty_def

text \<open>What the scheduler does not touch.\<close>

definition kinfo_frame :: "uthread_kinfo_t \<Rightarrow> ktid \<times> stack_t" where
  "kinfo_frame ki = (kinfo_ktid ki, sched_stack (sched_info ki))"

definition unchanged :: "shared \<Rightarrow> shared \<Rightarrow> bool" where
  "unchanged s s' \<longleftrightarrow>
     bitvec s' = bitvec s \<and> blocks s' = blocks s \<and> brk s' = brk s \<and> cmem s' = cmem s \<and> abort_stack s' = abort_stack s \<and>
     inited_sem s' = inited_sem s \<and> exitall_sem s' = exitall_sem s \<and> num_kthreads s' = num_kthreads s \<and>
     map kinfo_frame (kthread_info s') = map kinfo_frame (kthread_info s)"

text \<open>\<open>m'\<close> is the state in which kernel thread \<open>i\<close> has taken \<open>q\<close> from the ready queue and continues it at \<open>c\<close>.\<close>

definition handed_over ::
  "ktid \<Rightarrow> shared \<Rightarrow> (addr \<Rightarrow> (code \<times> bool) option) \<Rightarrow> addr \<Rightarrow> addr list \<Rightarrow> code \<Rightarrow> machine \<Rightarrow> machine \<Rightarrow> bool" where
  "handed_over i s x q qs c m m' \<longleftrightarrow>
     kcode m' i = Some c \<and> ctxs m' = x \<and> running_on i q (sh m') \<and> ready_is (sh m') qs \<and>
     tcb_heap (sh m') = (tcb_heap s)(q := map_option (\<lambda>t. t\<lparr>state := RUNNING\<rparr>) (tcb_heap s q)) \<and>
     tcbs (sh m') = tcbs s \<and> sems (sh m') = sems s \<and> unchanged s (sh m') \<and> exit_status m' = exit_status m \<and>
     fmdom (nodes (rq_queue (rqueue (sh m')))) |\<subseteq>| fmdom (nodes (rq_queue (rqueue s)))"

lemma sched_next_hands_over:
  assumes lib: "lib_ready i s" and rq: "ready_is s (q # qs)" and q: "ready_thread s x q c"
  shows "solo i (\<lambda>_. True) (handed_over i s x q qs c m) (here i s x sched_next m)"
proof -
  from lib obtain K ki L where "entry_split i s K ki L" by (rule lib_ready_split)
  note r = lib_readyD [OF lib] entry_splitD [OF this]
  from q obtain t b where t: "tcb_in s q t" "state t = READY" "x q = Some (c, b)" unfolding ready_thread_def by blast
  note q = tcb_inD [OF t(1)] t(2,3)
  have rq': "queue_rep (rq_queue (rqueue s)) (q # qs)" "rq_not_empty (rqueue s) = Sem_value (Suc (length qs))"
    using rq by (simp_all add: ready_is_def)
  from queue_dequeue_rep [OF rq'(1)] obtain q2 where q2: "queue_dequeue (rq_queue (rqueue s)) = Ok (q, q2)" "queue_rep q2 qs"
    "fmdom (nodes q2) |\<subseteq>| fmdom (nodes (rq_queue (rqueue s)))"
    by blast
  show ?thesis
    unfolding run_defs sched_next_def sched_dispatch_def
    by ((rule solo_rules, (simp add: r kinfo_split [where K = K and L = L] run_simps q q2 rq'(2) queue_size_rep [OF rq'(1)]; fail)+,
        (simp only: prod.case q if_True if_False)?)+, rule solo_now)
     (use r q q2 rq' in \<open>auto intro!: running_onI [where K = K and L = L] lib_readyI [where K = K and L = L]
       simp: sint_tid entry_split_def handed_over_def ready_is_def tcb_in_def unchanged_def kinfo_frame_def\<close>)
qed

end
