(* ===== verification/Uthread_Samples.thy ===== *)
theory Uthread_Samples
  imports Uthread_Solo
begin

text \<open>
  Concrete states of the library, on which the theorems about its operations are applied: kernel
  thread 1 executes the main thread, whose control block is at address 2; a second thread with
  identifier 1 has its control block at address 3.
\<close>

definition empty_queue :: queue_t where
  "empty_queue = snd (queue_init blank_queue)"

text \<open>A queue with the single item \<open>p\<close>, in a node at address 20.\<close>

definition queue_with :: "addr \<Rightarrow> queue_t" where
  "queue_with p = (case queue_enqueue 20 empty_queue p of Ok (_, q) \<Rightarrow> q | _ \<Rightarrow> empty_queue)"

definition used_bits :: "8 word \<Rightarrow> 8 word \<Rightarrow> bitvec_t" where
  "used_bits x y = \<lparr>nbits = 1024, nbytes = 128, vec = Some (x # replicate 127 y)\<rparr>"

definition sample_entry :: uthread_kinfo_t where
  "sample_entry = \<lparr>kinfo_ktid = 1, current_tid = 0,
     sched_info = \<lparr>task = NONE, sched_lock = None, sched_queue = None, sched_stack = blank_stack, sched_mask = False\<rparr>,
     timer_nsec = None, preempted = False\<rparr>"

definition sample_main :: "queue_t \<Rightarrow> uthread_tcb_t" where
  "sample_main jq = blank_tcb\<lparr>state := RUNNING, join_queue := jq\<rparr>"

definition sample_second :: "thread_state \<Rightarrow> uthread_tcb_t" where
  "sample_second st = blank_tcb\<lparr>tcb_tid := 1, state := st, retval := 77, join_queue := empty_queue\<rparr>"

definition sample_sem :: "int \<Rightarrow> queue_t \<Rightarrow> uthread_sem_t" where
  "sample_sem c q = \<lparr>counter = c, sem_queue = q, sem_lock = Mutex_free\<rparr>"

text \<open>
  The ready queue \<open>rq\<close> with \<open>n\<close> items, the state \<open>st\<close> of the second thread, the queue \<open>jq\<close> of the threads
  that join the main thread, the semaphore 0, and the identifiers in use.
\<close>

definition sample_state :: "queue_t \<Rightarrow> nat \<Rightarrow> thread_state \<Rightarrow> queue_t \<Rightarrow> uthread_sem_t \<Rightarrow> bitvec_t \<Rightarrow> shared" where
  "sample_state rq n st jq y bv =
     \<lparr>inited_sem = Sem_value 0, exitall_sem = Sem_value 0,
      rqueue = \<lparr>rq_queue = rq, rq_not_empty = Sem_value n, rq_lock = Mutex_free\<rparr>,
      bitvec = bv, bitvec_lock = Mutex_free,
      tcbs = (\<lambda>_. NULL)(0 := 2, 1 := 3), tcbs_lock = Mutex_free, abort_stack = blank_stack,
      inited = True, quantum = 0, kthread_info = [sample_entry], num_kthreads = 1,
      tcb_heap = [2 \<mapsto> sample_main jq, 3 \<mapsto> sample_second st], blocks = {}, sems = [0 \<mapsto> y],
      fails = (\<lambda>_. False), ncalls = 0, brk = 30, sigblocked = (\<lambda>_. False),
      kstate = kthread_state_init, next_ktid = 2, kexited = (\<lambda>_. False), cmem = (\<lambda>_. 0)\<rparr>"

definition idle_machine :: machine where
  "idle_machine = \<lparr>sh = sample_state empty_queue 0 READY empty_queue (sample_sem 0 empty_queue) (used_bits 3 0),
     ctxs = (\<lambda>_. None), kcode = (\<lambda>_. None), exit_status = None\<rparr>"

lemma empty_queue_rep [simp]: "queue_rep empty_queue []" "nodes empty_queue = fmempty"
  using blank_init by (simp_all add: empty_queue_def)

lemma queue_with_rep [simp]:
  assumes "p \<noteq> NULL"
  shows "queue_rep (queue_with p) [p]" "fmdom (nodes (queue_with p)) = {|20|}"
proof -
  obtain q where "queue_enqueue 20 empty_queue p = Ok (0, q)" "queue_rep q ([] @ [p])"
    "fmdom (nodes q) = finsert 20 (fmdom (nodes empty_queue))"
    using queue_enqueue_rep [OF empty_queue_rep(1) assms, of 20] by (auto simp del: append.simps simp: INT_MAX_def)
  then show "queue_rep (queue_with p) [p]" "fmdom (nodes (queue_with p)) = {|20|}"
    by (simp_all add: queue_with_def)
qed

lemma sample_running [simp]: "running_on 1 2 (sample_state rq n st jq y bv)"
  by (simp add: running_on_def lib_ready_def tcb_in_def sample_state_def sample_entry_def sample_main_def blank_tcb_def
      exitall_def UTHREAD_MAX_THREADS_def)

lemma sample_second_in [simp]: "tcb_in (sample_state rq n st jq y bv) 3 (sample_second st)"
  by (simp add: tcb_in_def sample_state_def sample_second_def blank_tcb_def exitall_def UTHREAD_MAX_THREADS_def)

lemma sample_ready_is [simp]: "ready_is (sample_state rq n st jq y bv) ps \<longleftrightarrow> queue_rep rq ps \<and> n = length ps"
  by (auto simp: ready_is_def sample_state_def)

lemma sample_ready_thread [simp]: "ready_thread (sample_state rq n READY jq y bv) [3 \<mapsto> (c, b)] 3 c"
  using sample_second_in [of rq n READY] by (force simp: ready_thread_def sample_second_def)

lemma sample_fields [simp]:
  "brk (sample_state rq n st jq y bv) = 30" "rq_queue (rqueue (sample_state rq n st jq y bv)) = rq"
  "sems (sample_state rq n st jq y bv) = [0 \<mapsto> y]" "bitvec (sample_state rq n st jq y bv) = bv"
  "tcb_heap (sample_state rq n st jq y bv) = [2 \<mapsto> sample_main jq, 3 \<mapsto> sample_second st]"
  "state (sample_second st) = st" "tcb_tid (sample_second st) = 1" "retval (sample_second st) = 77"
  "stack_allocated (sample_second st) = False" "join_queue (sample_second st) = empty_queue"
  "join_queue (sample_main jq) = jq" "counter (sample_sem c q) = c" "sem_queue (sample_sem c q) = q"
  "sem_lock (sample_sem c q) = Mutex_free"
  by (simp_all add: sample_state_def sample_second_def sample_main_def sample_sem_def blank_tcb_def)

lemma used_bits_rep:
  assumes "\<And>i. i < 8 \<Longrightarrow> bit x i \<longleftrightarrow> i \<in> U" "\<And>i. i < 8 \<Longrightarrow> bit y i \<longleftrightarrow> b" "U \<subseteq> {..<UTHREAD_MAX_THREADS}"
    "\<And>i. 8 \<le> i \<Longrightarrow> i < UTHREAD_MAX_THREADS \<Longrightarrow> i \<in> U \<longleftrightarrow> b"
  shows "bv_rep UTHREAD_MAX_THREADS (used_bits x y) U"
  unfolding bv_rep_def
proof (intro conjI)
  have "bv_test (used_bits x y) i \<longleftrightarrow> i \<in> U" if "i < UTHREAD_MAX_THREADS" for i
    using that assms by (cases "i < 8") (auto simp: bv_test_def used_bits_def UTHREAD_MAX_THREADS_def nth_Cons' div_less_iff_less_mult)
  with assms(3) show "U = {i. i < UTHREAD_MAX_THREADS \<and> bv_test (used_bits x y) i}" by auto
qed (simp_all add: used_bits_def bitvec_ok_def UTHREAD_MAX_THREADS_def INT_MAX_def)

end
