(* ===== verification/Uthread_Runs.thy ===== *)
theory Uthread_Runs
  imports Uthread_Samples
begin

text \<open>
  What the operations of the library do when the calling kernel thread makes steps alone: yielding,
  the semaphores and the end of a thread. The states before and after are described by the
  predicates of theory Uthread_Solo.
\<close>

section \<open>Yielding\<close>

lemma sem_post_value: "int n < INT_MAX \<Longrightarrow> kthread_sem_post (Sem_value n) = Ok (0, Sem_value (Suc n))"
  by (simp add: SEM_VALUE_MAX_def INT_MAX_def)

text \<open>
  C8: \<^verbatim>\<open>uthread_yield\<close>: the first ready thread \<open>q\<close> runs on the kernel thread, where its saved context
  says; the caller is ready, last in the ready queue, and its context is what remains of it.
\<close>

theorem yield_hands_over:
  assumes run: "running_on i p s" and rq: "ready_is s (q # qs)" "int (length (q # qs)) < INT_MAX" and q: "ready_thread s x q c" "q \<noteq> p"
    and brk: "brk s |\<notin>| fmdom (nodes (rq_queue (rqueue s)))" "brk s \<noteq> NULL"
  shows "\<exists>n m'. run (replicate n i) (here i s x (uthread_yield k) m) = Ok m' \<and>
    kcode m' i = Some c \<and> running_on i q (sh m') \<and> ready_is (sh m') (qs @ [p]) \<and> ready_thread (sh m') (ctxs m') p k"
proof (rule solo_run [where P = "\<lambda>_. True"])
  from run obtain K ki L t where t: "lib_ready i s" "entry_split i s K ki L" "tcb_in s p t" "state t = RUNNING"
    "task (sched_info ki) = NONE" "current_tid ki = int (unat (tcb_tid t))" by (rule running_on_split)
  note r = lib_readyD [OF t(1)] entry_splitD [OF t(2)] tcb_inD [OF t(3)] t(4-6)
  have rq': "queue_rep (rq_queue (rqueue s)) (q # qs)" "rq_not_empty (rqueue s) = Sem_value (Suc (length qs))"
    using rq(1) by (simp_all add: ready_is_def)
  obtain q1 where q1: "queue_enqueue (brk s) (rq_queue (rqueue s)) p = Ok (0, q1)" "queue_rep q1 ((q # qs) @ [p])"
    using queue_enqueue_rep [OF rq'(1) r(12) brk(2,1)] rq(2) by auto
  have post: "kthread_sem_post (Sem_value (Suc (length qs))) = Ok (0, Sem_value (Suc (Suc (length qs))))"
    by (rule sem_post_value) (use rq(2) in simp)
  show "solo i (\<lambda>_. True) (\<lambda>m'. kcode m' i = Some c \<and> running_on i q (sh m') \<and> ready_is (sh m') (qs @ [p]) \<and>
    ready_thread (sh m') (ctxs m') p k) (here i s x (uthread_yield k) m)"
    unfolding uthread_yield_def run_defs
    apply ((rule solo_rules, (simp add: r kinfo_split [where K = K and L = L] run_simps q1 rq'(2) post sint_tid
          del: kthread_sem_post.simps; fail)+,
        (simp only: prod.case sched_switch.simps run_defs if_True if_False)?)+, rule solo_mono [OF sched_next_hands_over [of _ _ q "qs @ [p]" _ c]])
    subgoal using t(2) r by (auto intro!: lib_readyI [where K = K and L = L] simp: entry_split_def)
    subgoal using q1 rq' by (simp add: ready_is_def)
    subgoal using q r by (auto simp: ready_thread_def tcb_in_def)
    subgoal using q r by (auto simp: handed_over_def ready_thread_def tcb_in_def)
    done
qed

theorem yield_hands_over_witness:
  "\<exists>n m'. run (replicate n 1) (here 1 (sample_state (queue_with 3) 1 READY empty_queue (sample_sem 0 empty_queue) (used_bits 3 0))
      [3 \<mapsto> (Kthread_exit, False)] (uthread_yield Schedule) idle_machine) = Ok m' \<and>
    kcode m' 1 = Some Kthread_exit \<and> running_on 1 3 (sh m') \<and> ready_is (sh m') [2] \<and> ready_thread (sh m') (ctxs m') 2 Schedule"
  using yield_hands_over [of 1 2 "sample_state (queue_with 3) 1 READY empty_queue (sample_sem 0 empty_queue) (used_bits 3 0)" 3 "[]"
      "[3 \<mapsto> (Kthread_exit, False)]" Kthread_exit Schedule idle_machine]
  by (simp add: INT_MAX_def)


section \<open>Semaphores\<close>

lemmas sem_simps = sem_at_def sem_update_def dequeue_ref_def enqueue_ref_def

lemma sem_lock_same: "sem_lock y = l \<Longrightarrow> y\<lparr>counter := c, sem_lock := l\<rparr> = y\<lparr>counter := c\<rparr>"
  by (cases y) simp

text \<open>
  C10: \<^verbatim>\<open>uthread_sem_post\<close> with waiting threads increments the counter and moves the thread that has waited
  longest to the end of the ready queue; the caller goes on.
\<close>

theorem sem_post_wakes:
  assumes run: "running_on i p s" and m: "sems s n = Some y" "sem_lock y = Mutex_free" "queue_rep (sem_queue y) (w # ws)"
    "counter y < INT_MAX"
    and w: "tcb_in s w tw" "state tw = WAITING_SEM" and rq: "ready_is s qs" "int (length qs) < INT_MAX"
    and brk: "brk s |\<notin>| fmdom (nodes (rq_queue (rqueue s)))" "brk s \<noteq> NULL"
  shows "\<exists>n' m'. run (replicate n' i) (here i s x (uthread_sem_post n k) m) = Ok m' \<and>
    kcode m' i = Some (k 0) \<and> running_on i p (sh m') \<and> ready_is (sh m') (qs @ [w]) \<and>
    tcb_in (sh m') w (tw\<lparr>state := READY\<rparr>) \<and>
    (\<exists>y'. sems (sh m') = (sems s)(n \<mapsto> y') \<and> counter y' = counter y + 1 \<and> queue_rep (sem_queue y') ws \<and> sem_lock y' = Mutex_free)"
proof (rule solo_run [where P = "\<lambda>_. True"])
  from run obtain K ki L t where t: "lib_ready i s" "entry_split i s K ki L" "tcb_in s p t" "state t = RUNNING"
    "task (sched_info ki) = NONE" "current_tid ki = int (unat (tcb_tid t))" by (rule running_on_split)
  note r = lib_readyD [OF t(1)] entry_splitD [OF t(2)] tcb_inD [OF t(3)] t(4-6)
  note w' = tcb_inD [OF w(1)] w(2)
  have "w \<noteq> p" using w'(3,6) t(4) tcb_inD(3) [OF t(3)] by auto
  have rq': "queue_rep (rq_queue (rqueue s)) qs" "rq_not_empty (rqueue s) = Sem_value (length qs)"
    using rq(1) by (simp_all add: ready_is_def)
  obtain q1 where q1: "queue_enqueue (brk s) (rq_queue (rqueue s)) w = Ok (0, q1)" "queue_rep q1 (qs @ [w])"
    using queue_enqueue_rep [OF rq'(1) w'(1) brk(2,1)] rq(2) by auto
  from queue_dequeue_rep [OF m(3)] obtain q2 where q2: "queue_dequeue (sem_queue y) = Ok (w, q2)" "queue_rep q2 ws" by blast
  note post = sem_post_value [OF rq(2)]
  have pos: "0 < 1 + int (length ws)" by simp
  show "solo i (\<lambda>_. True) (\<lambda>m'. kcode m' i = Some (k 0) \<and> running_on i p (sh m') \<and> ready_is (sh m') (qs @ [w]) \<and>
    tcb_in (sh m') w (tw\<lparr>state := READY\<rparr>) \<and>
    (\<exists>y'. sems (sh m') = (sems s)(n \<mapsto> y') \<and> counter y' = counter y + 1 \<and> queue_rep (sem_queue y') ws \<and> sem_lock y' = Mutex_free))
    (here i s x (uthread_sem_post n k) m)"
    unfolding uthread_sem_post_def run_defs Let_def
    apply ((rule solo_rules, (simp add: r w' q1 q2 post rq' kinfo_split [where K = K and L = L] run_simps sem_simps m queue_size_rep [OF m(3)] del: kthread_sem_post.simps; fail)+,
        (simp only: if_True if_False simp_thms pos)?)+, rule solo_now, intro conjI)
    subgoal by simp
    subgoal using t r \<open>w \<noteq> p\<close> by (auto intro!: running_onI [where K = K and L = L] lib_readyI [where K = K and L = L]
       simp: entry_split_def tcb_in_def)
    subgoal using q1 rq by (simp add: ready_is_def)
    subgoal using w by (simp add: tcb_in_def)
    subgoal using q2 m by auto
    done
qed

theorem sem_post_wakes_witness:
  "\<exists>n' m'. run (replicate n' 1) (here 1 (sample_state empty_queue 0 WAITING_SEM empty_queue (sample_sem 0 (queue_with 3)) (used_bits 3 0))
      Map.empty (uthread_sem_post 0 (\<lambda>r. Process_exit r)) idle_machine) = Ok m' \<and>
    kcode m' 1 = Some (Process_exit 0) \<and> ready_is (sh m') [3] \<and> map_option counter (sems (sh m') 0) = Some 1"
  using sem_post_wakes [of 1 2 "sample_state empty_queue 0 WAITING_SEM empty_queue (sample_sem 0 (queue_with 3)) (used_bits 3 0)" 0
      "sample_sem 0 (queue_with 3)" 3 "[]" "sample_second WAITING_SEM" "[]" Map.empty Process_exit idle_machine]
  by (fastforce simp: INT_MAX_def)

text \<open>
  C9: \<^verbatim>\<open>uthread_sem_wait\<close> at counter 0: the caller waits at the end of the queue of the semaphore, whose lock
  is released by the scheduler, and the first ready thread runs.
\<close>

theorem sem_wait_blocks:
  assumes run: "running_on i p s" and m: "sems s n = Some y" "sem_lock y = Mutex_free" "queue_rep (sem_queue y) ws"
    "counter y = 0" "int (length ws) < INT_MAX"
    and rq: "ready_is s (q # qs)" and q: "ready_thread s x q c" "q \<noteq> p"
    and brk: "brk s |\<notin>| fmdom (nodes (sem_queue y))" "brk s \<noteq> NULL"
  shows "\<exists>n' m'. run (replicate n' i) (here i s x (uthread_sem_wait n k) m) = Ok m' \<and>
    kcode m' i = Some c \<and> running_on i q (sh m') \<and> ready_is (sh m') qs \<and>
    (\<exists>t. tcb_in (sh m') p t \<and> state t = WAITING_SEM) \<and>
    (\<exists>y'. sems (sh m') = (sems s)(n \<mapsto> y') \<and> counter y' = 0 \<and> queue_rep (sem_queue y') (ws @ [p]) \<and> sem_lock y' = Mutex_free)"
proof (rule solo_run [where P = "\<lambda>_. True"])
  from run obtain K ki L t where t: "lib_ready i s" "entry_split i s K ki L" "tcb_in s p t" "state t = RUNNING"
    "task (sched_info ki) = NONE" "current_tid ki = int (unat (tcb_tid t))" by (rule running_on_split)
  note r = lib_readyD [OF t(1)] entry_splitD [OF t(2)] tcb_inD [OF t(3)] t(4-6)
  obtain q1 where q1: "queue_enqueue (brk s) (sem_queue y) p = Ok (0, q1)" "queue_rep q1 (ws @ [p])"
    using queue_enqueue_rep [OF m(3) r(12) brk(2,1)] m(5) by auto
  show "solo i (\<lambda>_. True) (\<lambda>m'. kcode m' i = Some c \<and> running_on i q (sh m') \<and> ready_is (sh m') qs \<and>
    (\<exists>t. tcb_in (sh m') p t \<and> state t = WAITING_SEM) \<and>
    (\<exists>y'. sems (sh m') = (sems s)(n \<mapsto> y') \<and> counter y' = 0 \<and> queue_rep (sem_queue y') (ws @ [p]) \<and> sem_lock y' = Mutex_free))
    (here i s x (uthread_sem_wait n k) m)"
    unfolding uthread_sem_wait_def run_defs
    apply ((rule solo_rules, (simp add: r kinfo_split [where K = K and L = L] run_simps sem_simps m q1 sint_tid; fail)+,
        (simp only: prod.case if_True if_False simp_thms sem_wait_loop_def run_defs sched_switch.simps)?)+,
        rule solo_mono [OF sched_next_hands_over [of _ _ q qs _ c]])
    subgoal using t(2) r by (auto intro!: lib_readyI [where K = K and L = L] simp: entry_split_def)
    subgoal using rq by (simp add: ready_is_def)
    subgoal using q r by (auto simp: ready_thread_def tcb_in_def)
    subgoal using q r q1 m by (auto simp: handed_over_def ready_thread_def tcb_in_def)
    done
qed

theorem sem_wait_blocks_witness:
  "\<exists>n' m'. run (replicate n' 1) (here 1 (sample_state (queue_with 3) 1 READY empty_queue (sample_sem 0 empty_queue) (used_bits 3 0))
      [3 \<mapsto> (Kthread_exit, False)] (uthread_sem_wait 0 (\<lambda>r. Process_exit r)) idle_machine) = Ok m' \<and>
    kcode m' 1 = Some Kthread_exit \<and> running_on 1 3 (sh m') \<and> ready_is (sh m') [] \<and>
    (\<exists>y'. sems (sh m') 0 = Some y' \<and> queue_rep (sem_queue y') [2])"
  using sem_wait_blocks [of 1 2 "sample_state (queue_with 3) 1 READY empty_queue (sample_sem 0 empty_queue) (used_bits 3 0)" 0
      "sample_sem 0 empty_queue" "[]" 3 "[]" "[3 \<mapsto> (Kthread_exit, False)]" Kthread_exit Process_exit idle_machine]
  by (fastforce simp: INT_MAX_def)

section \<open>Exiting\<close>

text \<open>
  C14: \<^verbatim>\<open>uthread_exit\<close> of a thread that is joined: the first of the threads that join it becomes ready, the
  others, if any, stay in its queue; the first ready thread runs.
\<close>

theorem exit_wakes_joiner:
  assumes run: "running_on i p s" and p: "tcb_heap s p = Some tp" "queue_rep (join_queue tp) (j # js)"
    and j: "tcb_in s j tj" "state tj = WAITING_JOIN"
    and rq: "ready_is s (q # qs)" "int (length (q # qs)) < INT_MAX" and q: "ready_thread s x q c" "q \<noteq> p"
    and brk: "brk s |\<notin>| fmdom (nodes (rq_queue (rqueue s)))" "brk s \<noteq> NULL"
  shows "\<exists>n m'. run (replicate n i) (here i s x (uthread_exit v) m) = Ok m' \<and>
    kcode m' i = Some c \<and> running_on i q (sh m') \<and> ready_is (sh m') (qs @ [j]) \<and> tcb_in (sh m') j (tj\<lparr>state := READY\<rparr>) \<and>
    (\<exists>t'. tcb_in (sh m') p t' \<and> state t' = FINISHED \<and> retval t' = v \<and> queue_rep (join_queue t') js)"
proof (rule solo_run [where P = "\<lambda>_. True"])
  from run obtain K ki L t where t: "lib_ready i s" "entry_split i s K ki L" "tcb_in s p t" "state t = RUNNING"
    "task (sched_info ki) = NONE" "current_tid ki = int (unat (tcb_tid t))" by (rule running_on_split)
  note r = lib_readyD [OF t(1)] entry_splitD [OF t(2)] tcb_inD [OF t(3)] t(4-6)
  from p r(14) have jq: "queue_rep (join_queue t) (j # js)" by auto
  note j' = tcb_inD [OF j(1)] j(2)
  have "j \<noteq> p" using j'(3,6) t(4) tcb_inD(3) [OF t(3)] by auto
  then have tid: "tcb_tid tj \<noteq> tcb_tid t" using j'(5) r(16) by metis
  from q(1) obtain tq b where q': "tcb_in s q tq" "state tq = READY" "x q = Some (c, b)" unfolding ready_thread_def by blast
  note q'' = tcb_inD [OF q'(1)] q'(2,3)
  have "q \<noteq> j" using q''(3,6) j'(3,6) by auto
  have rq': "queue_rep (rq_queue (rqueue s)) (q # qs)" "rq_not_empty (rqueue s) = Sem_value (Suc (length qs))"
    using rq(1) by (simp_all add: ready_is_def)
  obtain q1 where q1: "queue_enqueue (brk s) (rq_queue (rqueue s)) j = Ok (0, q1)" "queue_rep q1 ((q # qs) @ [j])"
    using queue_enqueue_rep [OF rq'(1) j'(1) brk(2,1)] rq(2) by auto
  from queue_dequeue_rep [OF jq] obtain q2 where q2: "queue_dequeue (join_queue t) = Ok (j, q2)" "queue_rep q2 js" by blast
  have post: "kthread_sem_post (Sem_value (Suc (length qs))) = Ok (0, Sem_value (Suc (Suc (length qs))))"
    by (rule sem_post_value) (use rq(2) in simp)
  have pos: "0 < 1 + int (length js)" by simp
  show "solo i (\<lambda>_. True) (\<lambda>m'. kcode m' i = Some c \<and> running_on i q (sh m') \<and> ready_is (sh m') (qs @ [j]) \<and>
    tcb_in (sh m') j (tj\<lparr>state := READY\<rparr>) \<and>
    (\<exists>t'. tcb_in (sh m') p t' \<and> state t' = FINISHED \<and> retval t' = v \<and> queue_rep (join_queue t') js)) (here i s x (uthread_exit v) m)"
    unfolding uthread_exit_def run_defs
    apply ((rule solo_rules, (simp add: r j' q1 q2 rq' tid \<open>j \<noteq> p\<close> post kinfo_split [where K = K and L = L] run_simps sem_simps sint_tid
          queue_size_rep [OF jq] del: kthread_sem_post.simps; fail)+,
        (simp only: prod.case sched_switch.simps run_defs pos if_True if_False)?)+,
        rule solo_mono [OF sched_next_hands_over [of _ _ q "qs @ [j]" _ c]])
    subgoal using t(2) r by (auto intro!: lib_readyI [where K = K and L = L] simp: entry_split_def)
    subgoal using q1 rq' by (simp add: ready_is_def)
    subgoal using q q'' \<open>q \<noteq> j\<close> by (simp add: ready_thread_def tcb_in_def)
    subgoal using q(2) q''(3) r(12-16) j'(1-5) q2 \<open>j \<noteq> p\<close> \<open>q \<noteq> j\<close> by (simp add: handed_over_def tcb_in_def)
    done
qed

theorem exit_wakes_joiner_witness:
  "\<exists>n m'. run (replicate n 1) (here 1 ((sample_state (queue_with 3) 1 READY (queue_with 4) (sample_sem 0 empty_queue) (used_bits 3 0))
        \<lparr>tcbs := (\<lambda>_. NULL)(0 := 2, 1 := 3, 2 := 4),
         tcb_heap := [2 \<mapsto> sample_main (queue_with 4), 3 \<mapsto> sample_second READY, 4 \<mapsto> (sample_second WAITING_JOIN)\<lparr>tcb_tid := 2\<rparr>]\<rparr>)
      [3 \<mapsto> (Kthread_exit, False)] (uthread_exit 5) idle_machine) = Ok m' \<and>
    kcode m' 1 = Some Kthread_exit \<and> running_on 1 3 (sh m') \<and> ready_is (sh m') [4]"
proof -
  let ?s = "(sample_state (queue_with 3) 1 READY (queue_with 4) (sample_sem 0 empty_queue) (used_bits 3 0))
    \<lparr>tcbs := (\<lambda>_. NULL)(0 := 2, 1 := 3, 2 := 4),
     tcb_heap := [2 \<mapsto> sample_main (queue_with 4), 3 \<mapsto> sample_second READY, 4 \<mapsto> (sample_second WAITING_JOIN)\<lparr>tcb_tid := 2\<rparr>]\<rparr>"
  have "running_on 1 2 ?s" "tcb_in ?s 4 ((sample_second WAITING_JOIN)\<lparr>tcb_tid := 2\<rparr>)" "ready_is ?s [3]"
    "ready_thread ?s [3 \<mapsto> (Kthread_exit, False)] 3 Kthread_exit"
    by (simp_all add: running_on_def lib_ready_def tcb_in_def sample_entry_def sample_main_def blank_tcb_def sample_state_def ready_is_def
        ready_thread_def exitall_def UTHREAD_MAX_THREADS_def sample_second_def) blast
  with exit_wakes_joiner [of 1 2 ?s "sample_main (queue_with 4)" 4 "[]" "(sample_second WAITING_JOIN)\<lparr>tcb_tid := 2\<rparr>" 3 "[]"
      "[3 \<mapsto> (Kthread_exit, False)]" Kthread_exit 5 idle_machine]
  show ?thesis by (fastforce simp: INT_MAX_def)
qed

section \<open>Preemption\<close>

text \<open>
  C11: With preemption on, the timer signal marks its kernel thread; the next call of the library that looks at the mark
  removes it and yields before it does anything else. Without a signal the call goes on at once.
\<close>

theorem timer_signal_preempts:
  assumes lib: "inited s" "quantum s \<noteq> 0" and e: "entry_split i s K ki L"
  shows "\<exists>s1. sigrtmin_handler i s = Ok s1 \<and>
    run [i, i] (here i s1 x (check_preempted k) m) = Ok (here i (s\<lparr>kthread_info := K @ ki\<lparr>preempted := False\<rparr> # L\<rparr>) x (uthread_yield k) m) \<and>
    run [i] (here i (s\<lparr>kthread_info := K @ ki\<lparr>preempted := False\<rparr> # L\<rparr>) x (check_preempted k) m) =
      Ok (here i (s\<lparr>kthread_info := K @ ki\<lparr>preempted := False\<rparr> # L\<rparr>) x k m)"
proof -
  note r = entry_splitD [OF e]
  have "sigrtmin_handler i s = Ok (s\<lparr>kthread_info := K @ ki\<lparr>preempted := True\<rparr> # L\<rparr>)"
    using lib r kinfo_split(2) [of i K L s ki] by (simp add: sigrtmin_handler_def)
  then show ?thesis
    using lib r by (simp add: check_preempted_def expr_def stmt_def kstep_def kinfo_split [where K = K and L = L])
qed

theorem timer_signal_preempts_witness:
  "\<exists>s1 m'. sigrtmin_handler 1 ((sample_state empty_queue 0 READY empty_queue (sample_sem 0 empty_queue) (used_bits 3 0))\<lparr>quantum := 1000\<rparr>) = Ok s1 \<and>
    run [1, 1] (here 1 s1 Map.empty (check_preempted (Process_exit 3)) idle_machine) = Ok m' \<and> kcode m' 1 = Some (uthread_yield (Process_exit 3))"
proof -
  let ?s = "(sample_state empty_queue 0 READY empty_queue (sample_sem 0 empty_queue) (used_bits 3 0))\<lparr>quantum := 1000\<rparr>"
  have "inited ?s" "quantum ?s \<noteq> 0" "entry_split 1 ?s [] sample_entry []"
    by (simp_all add: entry_split_def entry_at_def sample_state_def sample_entry_def)
  from timer_signal_preempts [OF this, of Map.empty "Process_exit 3" idle_machine] show ?thesis by fastforce
qed

end
