(* ===== verification/Uthread_Create.thy ===== *)
theory Uthread_Create
  imports Uthread_Runs
begin

text \<open>
  Creating and joining threads when the calling kernel thread makes steps alone, what happens when
  identifiers or memory run out, and a race between joining and creating.
\<close>

section \<open>Creating a thread\<close>

text \<open>Addresses from \<open>brk\<close> on are unused; the bit of every thread in the table is set.\<close>

definition fresh_from_brk :: "shared \<Rightarrow> bool" where
  "fresh_from_brk s \<longleftrightarrow> exitall < brk s \<and>
     (\<forall>a \<ge> brk s. tcb_heap s a = None \<and> a |\<notin>| fmdom (nodes (rq_queue (rqueue s))))"

definition tids_are :: "shared \<Rightarrow> nat set \<Rightarrow> bool" where
  "tids_are s U \<longleftrightarrow> bv_rep UTHREAD_MAX_THREADS (bitvec s) U \<and>
     (\<forall>n < UTHREAD_MAX_THREADS. tcbs s n \<noteq> NULL \<longrightarrow> n \<in> U)"

lemma tids_first:
  assumes "tids_are s U" "n < UTHREAD_MAX_THREADS" "n \<notin> U" "{..<n} \<subseteq> U"
  obtains bv where "bitvec_first_cleared_index (bitvec s) = Ok (int n)" "bitvec_set (bitvec s) (int n) = Ok bv"
    "bv_rep UTHREAD_MAX_THREADS bv (insert n U)"
proof -
  have rep: "bv_rep UTHREAD_MAX_THREADS (bitvec s) U" using assms(1) by (simp add: tids_are_def)
  show thesis using bvid.first_free [OF rep assms(2,3,4)] bvid.mark_rep [OF rep assms(2)] that by blast
qed

lemma unat_tid: "n < UTHREAD_MAX_THREADS \<Longrightarrow> unat (of_nat n :: tid_t) = n"
  by (simp add: UTHREAD_MAX_THREADS_def unat_of_nat take_bit_eq_mod)

lemma allocate_stack_ok:
  assumes "fails s = (\<lambda>_. False)" "brk s \<noteq> NULL"
  shows "allocate_stack stk b sz s =
    (0, stk\<lparr>ss_size := if sz \<noteq> 0 then sz else UTHREAD_DEF_STACK_SIZE, ss_sp := if b = NULL then brk s else b, ss_flags := 0\<rparr>,
     s\<lparr>ncalls := if b = NULL then Suc (ncalls s) else ncalls s, brk := if b = NULL then Suc (brk s) else brk s,
       blocks := if b = NULL then insert (brk s) (blocks s) else blocks s\<rparr>)"
  using assms by (cases "b = NULL") (simp_all add: allocate_stack_def malloc_def libc_call_def Let_def)

lemma sample_tids:
  "tids_are (sample_state rq n st jq y (used_bits 3 0)) {0, 1}"
  "tids_are (sample_state rq n st jq y (used_bits 255 255)) {..<UTHREAD_MAX_THREADS}"
proof -
  have "bit (3 :: 8 word) i \<longleftrightarrow> i \<in> {0, 1}" for i
    using bit_mask_iff [of 2 i, where ?'a = "8 word"] by (auto simp: mask_eq_exp_minus_1)
  then have "bv_rep UTHREAD_MAX_THREADS (used_bits 3 0) {0, 1}"
    by (intro used_bits_rep [where b = False]) (auto simp: UTHREAD_MAX_THREADS_def)
  moreover have "bit (255 :: 8 word) i" if "i < 8" for i
    using bit_mask_iff [of 8 i, where ?'a = "8 word"] that by (auto simp: mask_eq_exp_minus_1)
  then have "bv_rep UTHREAD_MAX_THREADS (used_bits 255 255) {..<UTHREAD_MAX_THREADS}"
    by (intro used_bits_rep [where b = True]) (auto simp: UTHREAD_MAX_THREADS_def)
  ultimately show "tids_are (sample_state rq n st jq y (used_bits 3 0)) {0, 1}"
    "tids_are (sample_state rq n st jq y (used_bits 255 255)) {..<UTHREAD_MAX_THREADS}"
    by (auto simp: tids_are_def sample_state_def split: if_splits)
qed

lemma sample_fresh: "fresh_from_brk (sample_state empty_queue n st jq y bv)"
  by (auto simp: fresh_from_brk_def exitall_def)

lemmas create_defs = create_tcb_def create_publish_def sys_or_abort_def
lemmas create_simps = malloc_tcb_def on_tcb_def init_tcb_def allocate_tcb_stack_def allocate_stack_ok blank_tcb_def

text \<open>
  From the choice of the identifier on: the new thread is at \<open>brk\<close>, last in the ready queue, and its
  control block is where \<^verbatim>\<open>tcbs\<close> has it.
\<close>

definition created :: "ktid \<Rightarrow> shared \<Rightarrow> nat \<Rightarrow> code \<Rightarrow> addr list \<Rightarrow> code \<Rightarrow> machine \<Rightarrow> machine \<Rightarrow> bool" where
  "created i s n c qs c' m m' \<longleftrightarrow>
     kcode m' i = Some c' \<and> (\<exists>s' x'. m' = here i s' x' c' m) \<and> lib_ready i (sh m') \<and> ready_is (sh m') (qs @ [brk s]) \<and>
     ready_thread (sh m') (ctxs m') (brk s) c \<and> bitvec (sh m') = bitvec s \<and> kthread_info (sh m') = kthread_info s \<and>
     num_kthreads (sh m') = num_kthreads s \<and> tcbs (sh m') = (tcbs s)(n := brk s) \<and> (\<forall>p. p \<noteq> brk s \<longrightarrow> tcb_heap (sh m') p = tcb_heap s p) \<and>
     (\<exists>t. tcb_heap (sh m') (brk s) = Some t \<and> queue_rep (join_queue t) [] \<and>
       (stack_allocated t \<longrightarrow> ss_sp (uc_stack t) \<noteq> NULL \<and> ss_sp (uc_stack t) \<in> blocks (sh m')))"

lemma create_tcb_runs:
  assumes lib: "lib_ready i s" and n: "n < UTHREAD_MAX_THREADS"
    and rq: "ready_is s qs" "int (length qs) < INT_MAX" and fresh: "fresh_from_brk s"
  shows "solo i (\<lambda>_. True) (created i s n (trampoline f a) qs (k (0, Some (of_nat n))) m)
    (here i s x (create_tcb (of_nat n) f a b sz k) m)"
proof -
  from lib obtain K ki L where e: "entry_split i s K ki L" by (rule lib_ready_split)
  note r = lib_readyD [OF lib] entry_splitD [OF e]
  note n' = unat_tid [OF n] n
  have brk: "exitall < brk s" "tcb_heap s (brk s) = None" "brk s \<noteq> NULL" using fresh by (auto simp: fresh_from_brk_def exitall_def)
  have rq': "queue_rep (rq_queue (rqueue s)) qs" "rq_not_empty (rqueue s) = Sem_value (length qs)"
    using rq(1) by (simp_all add: ready_is_def)
  have "\<exists>q'. queue_enqueue d (rq_queue (rqueue s)) (brk s) = Ok (0, q') \<and> queue_rep q' (qs @ [brk s])"
    if "brk s \<le> d" for d
    using queue_enqueue_rep [OF rq'(1) brk(3), of d] that rq(2) fresh brk by (auto simp: fresh_from_brk_def)
  from this [of "if b = NULL then Suc (Suc (brk s)) else Suc (brk s)"] obtain q1 where
    q: "queue_enqueue (if b = NULL then Suc (Suc (brk s)) else Suc (brk s)) (rq_queue (rqueue s)) (brk s) = Ok (0, q1)"
      "queue_rep q1 (qs @ [brk s])" by (fastforce split: if_splits)
  note post = sem_post_value [OF rq(2)]
  show ?thesis
    unfolding create_defs run_defs
    apply ((rule solo_rules, (simp add: r q(1) brk n' rq' post kinfo_split [where K = K and L = L] run_simps create_simps
          del: kthread_sem_post.simps cong: if_cong; fail)+,
        (simp only: prod.case Let_def brk if_True if_False simp_thms)?)+, rule solo_now)
    unfolding created_def
    apply (intro conjI)
    subgoal by simp
    subgoal by blast
    subgoal using e r by (auto intro!: lib_readyI [where K = K and L = L] simp: entry_split_def)
    subgoal using q by (simp add: ready_is_def)
    subgoal using n' brk by (auto simp: ready_thread_def tcb_in_def)
    subgoal by simp
    subgoal by simp
    subgoal by simp
    subgoal by simp
    subgoal by simp
    subgoal using blank_init by simp
    done
qed

text \<open>Choosing the identifier.\<close>

lemma solo_get_next_tid:
  assumes lib: "lib_ready i s"
    and bv: "bitvec_first_cleared_index (bitvec s) = Ok r" "0 \<le> r \<Longrightarrow> bitvec_set (bitvec s) r = Ok bv"
      "r < 0 \<Longrightarrow> bv = bitvec s"
    and k: "solo i (\<lambda>_. True) Q (here i (s\<lparr>bitvec := bv\<rparr>) x (k (if r < 0 then 1 else r)) m)"
  shows "solo i (\<lambda>_. True) Q (here i s x (get_next_tid k) m)"
  unfolding get_next_tid_def
proof (rule solo_checked [OF TrueI, where s' = "s\<lparr>bitvec_lock := Mutex_held i\<rparr>"], goal_cases)
  case 1 show ?case using lib_readyD(6) [OF lib] by (simp add: do_lock_def)
next
  case 2 show ?case
  proof (rule solo_call [OF TrueI, where v = "if r < 0 then 1 else r" and s' = "s\<lparr>bitvec_lock := Mutex_held i, bitvec := bv\<rparr>"], goal_cases)
    case 1 show ?case using bv by (cases "r < 0") (simp_all add: UTHREAD_TID_MAIN_def)
  next
    case 2 show ?case
    proof (rule solo_checked [OF TrueI _ k], goal_cases)
      case 1
      have "s\<lparr>bitvec := bv, bitvec_lock := Mutex_free\<rparr> = s\<lparr>bitvec := bv\<rparr>" using lib_readyD(6) [OF lib] by (cases s) simp
      then show ?case by (simp add: do_unlock_def)
    qed
  qed
qed

lemma create_picks:
  assumes lib: "lib_ready i s"
    and bv: "bitvec_first_cleared_index (bitvec s) = Ok r" "0 \<le> r \<Longrightarrow> bitvec_set (bitvec s) r = Ok bv"
      "r < 0 \<Longrightarrow> bv = bitvec s"
    and k: "solo i (\<lambda>_. True) Q (here i (s\<lparr>bitvec := bv\<rparr>) x (create_tcb (word_of_int (if r < 0 then 1 else r)) f a b sz k) m)"
  shows "solo i (\<lambda>_. True) Q (here i s x (uthread_create f a b sz k) m)"
proof -
  from lib obtain K ki L where e: "entry_split i s K ki L" by (rule lib_ready_split)
  note r = lib_readyD [OF lib] entry_splitD [OF e]
  show ?thesis
    unfolding uthread_create_def assert_inited_def
    by ((rule solo_rules, (simp add: r kinfo_split [where K = K and L = L]; fail)+)+,
        rule solo_get_next_tid [OF lib bv], assumption, assumption) (use k in \<open>simp add: Let_def\<close>)
qed

lemma bitvec_update_simps [simp]:
  "lib_ready i (s\<lparr>bitvec := bv\<rparr>) = lib_ready i s" "ready_is (s\<lparr>bitvec := bv\<rparr>) qs = ready_is s qs"
  "fresh_from_brk (s\<lparr>bitvec := bv\<rparr>) = fresh_from_brk s"
  by (simp_all add: lib_ready_def ready_is_def fresh_from_brk_def)

lemma create_runs:
  assumes lib: "lib_ready i s"
    and bv: "bitvec_first_cleared_index (bitvec s) = Ok r" "0 \<le> r \<Longrightarrow> bitvec_set (bitvec s) r = Ok bv"
      "r < 0 \<Longrightarrow> bv = bitvec s"
    and n: "(if r < 0 then 1 else r) = int n" "n < UTHREAD_MAX_THREADS"
    and rq: "ready_is s qs" "int (length qs) < INT_MAX" and fresh: "fresh_from_brk s"
    and Q: "\<And>m'. created i (s\<lparr>bitvec := bv\<rparr>) n (trampoline f a) qs (k (0, Some (of_nat n))) m m' \<Longrightarrow> Q m'"
  shows "solo i (\<lambda>_. True) Q (here i s x (uthread_create f a b sz k) m)"
proof (rule create_picks [OF lib bv])
  have "solo i (\<lambda>_. True) Q (here i (s\<lparr>bitvec := bv\<rparr>) x (create_tcb (of_nat n) f a b sz k) m)"
    by (rule solo_mono [OF create_tcb_runs Q]) (use lib rq fresh n(2) in simp_all)
  then show "solo i (\<lambda>_. True) Q (here i (s\<lparr>bitvec := bv\<rparr>) x (create_tcb (word_of_int (if r < 0 then 1 else r)) f a b sz k) m)"
    unfolding n(1) by simp
qed simp_all

text \<open>
  C12: \<^verbatim>\<open>uthread_create\<close>: the new thread has the least free identifier, is last in the ready queue and will
  start in \<^verbatim>\<open>trampoline\<close>; the caller goes on with result 0 and that identifier.
\<close>

theorem create_makes_ready:
  assumes run: "running_on i p s" and tids: "tids_are s U" "n < UTHREAD_MAX_THREADS" "n \<notin> U" "{..<n} \<subseteq> U"
    and rq: "ready_is s qs" "int (length qs) < INT_MAX" and fresh: "fresh_from_brk s"
  shows "\<exists>n' m'. run (replicate n' i) (here i s x (uthread_create f a b sz k) m) = Ok m' \<and>
    kcode m' i = Some (k (0, Some (of_nat n))) \<and> running_on i p (sh m') \<and> ready_is (sh m') (qs @ [brk s]) \<and>
    ready_thread (sh m') (ctxs m') (brk s) (trampoline f a) \<and> tids_are (sh m') (insert n U)"
proof (rule solo_run [where P = "\<lambda>_. True"])
  from run obtain K ki L t where t: "lib_ready i s" "entry_split i s K ki L" "tcb_in s p t" "state t = RUNNING"
    "task (sched_info ki) = NONE" "current_tid ki = int (unat (tcb_tid t))" by (rule running_on_split)
  note r = tcb_inD [OF t(3)]
  from tids obtain bv where bv: "bitvec_first_cleared_index (bitvec s) = Ok (int n)" "bitvec_set (bitvec s) (int n) = Ok bv"
    "bv_rep UTHREAD_MAX_THREADS bv (insert n U)" by (rule tids_first)
  have ne: "unat (tcb_tid t) \<noteq> n" "brk s \<noteq> p" using tids(1,3) r fresh by (auto simp: tids_are_def fresh_from_brk_def)
  show "solo i (\<lambda>_. True) (\<lambda>m'. kcode m' i = Some (k (0, Some (of_nat n))) \<and> running_on i p (sh m') \<and>
    ready_is (sh m') (qs @ [brk s]) \<and> ready_thread (sh m') (ctxs m') (brk s) (trampoline f a) \<and> tids_are (sh m') (insert n U))
    (here i s x (uthread_create f a b sz k) m)"
  proof (rule create_runs [OF t(1) bv(1) bv(2) _ _ tids(2) rq fresh], goal_cases)
    case (3 m')
    then show ?case using t r ne bv(3) tids(1)
      by (auto simp: created_def tids_are_def tcb_in_def entry_split_def intro!: running_onI [where K = K and L = L])
  qed simp_all
qed

theorem create_makes_ready_witness:
  "\<exists>n' m'. run (replicate n' 1) (here 1 (sample_state empty_queue 0 READY empty_queue (sample_sem 0 empty_queue) (used_bits 3 0))
      Map.empty (uthread_create (\<lambda>_. U_exit 9) 5 NULL 0 (\<lambda>r. Process_exit (fst r))) idle_machine) = Ok m' \<and>
    kcode m' 1 = Some (Process_exit 0) \<and> running_on 1 2 (sh m') \<and> ready_is (sh m') [30] \<and>
    ready_thread (sh m') (ctxs m') 30 (trampoline (\<lambda>_. U_exit 9) 5) \<and> tids_are (sh m') {0, 1, 2}"
  using create_makes_ready [of 1 2 "sample_state empty_queue 0 READY empty_queue (sample_sem 0 empty_queue) (used_bits 3 0)" "{0, 1}" 2 "[]" Map.empty "\<lambda>_. U_exit 9" 5 NULL 0 "\<lambda>r. Process_exit (fst r)" idle_machine]
    sample_tids(1) [of empty_queue 0 READY empty_queue "sample_sem 0 empty_queue"] sample_fresh
  by (auto simp: INT_MAX_def UTHREAD_MAX_THREADS_def lessThan_nat_numeral insert_commute)

section \<open>Joining a finished thread\<close>

lemmas join_defs = uthread_join_def uthread_join_finish_def reclaim_tid_def destroy_thread_def
lemmas join_simps = destroy_join_queue_def free_tcb_def clear_tcb_def

text \<open>
  C13: \<^verbatim>\<open>uthread_join\<close> of a finished thread returns its result at once, frees its control block and stack,
  clears its entry in \<^verbatim>\<open>tcbs\<close> and gives its identifier back.
\<close>

theorem join_collects:
  assumes run: "running_on i p s" and tids: "tids_are s U"
    and q: "tcb_in s q tq" "tcb_tid tq = of_nat n" "n < UTHREAD_MAX_THREADS" "state tq = FINISHED" "queue_rep (join_queue tq) js"
    and stack: "stack_allocated tq \<Longrightarrow> ss_sp (uc_stack tq) \<noteq> NULL \<and> ss_sp (uc_stack tq) \<in> blocks s"
  shows "\<exists>n' m'. run (replicate n' i) (here i s x (uthread_join (of_nat n) True k) m) = Ok m' \<and>
    kcode m' i = Some (k (0, Some (retval tq))) \<and> running_on i p (sh m') \<and> tids_are (sh m') (U - {n}) \<and>
    tcb_heap (sh m') = (tcb_heap s)(q := None) \<and> tcbs (sh m') = (tcbs s)(n := NULL) \<and>
    blocks (sh m') = (if stack_allocated tq then blocks s - {ss_sp (uc_stack tq)} else blocks s)"
proof (rule solo_run [where P = "\<lambda>_. True"])
  from run obtain K ki L t where t: "lib_ready i s" "entry_split i s K ki L" "tcb_in s p t" "state t = RUNNING"
    "task (sched_info ki) = NONE" "current_tid ki = int (unat (tcb_tid t))" by (rule running_on_split)
  note r = lib_readyD [OF t(1)] entry_splitD [OF t(2)] tcb_inD [OF t(3)] t(4-6)
  note n = unat_tid [OF q(3)] q(3)
  have q': "q \<noteq> NULL" "tcb_heap s q = Some tq" "tcbs s n = q" "state tq = FINISHED" using q n by (auto simp: tcb_in_def)
  have ne: "q \<noteq> p" "unat (tcb_tid t) \<noteq> n" using q' r(12-16) t(4) by auto
  have bv: "bv_rep UTHREAD_MAX_THREADS (bitvec s) U" using tids by (simp add: tids_are_def)
  from bvid.release_rep [OF bv q(3)] obtain bv' where bv': "bitvec_clear (bitvec s) (int n) = Ok bv'"
    "bv_rep UTHREAD_MAX_THREADS bv' (U - {n})" by blast
  have free_stack: "free_tcb_stack (of_nat n) i s' = Ok (s'\<lparr>blocks := if stack_allocated tq then blocks s - {ss_sp (uc_stack tq)} else blocks s\<rparr>)"
    if "tcbs s' = tcbs s" "blocks s' = blocks s" "tcb_heap s' q = Some t'" "stack_allocated t' = stack_allocated tq" "uc_stack t' = uc_stack tq" for s' t'
    using that q' n stack by (cases "stack_allocated tq") (simp_all add: free_tcb_stack_def free_block_def tcbs_at_def tcb_at_def)
  have sint: "sint (of_nat n :: tid_t) = int n" using sint_tid [of "of_nat n"] n by simp
  show "solo i (\<lambda>_. True) (\<lambda>m'. kcode m' i = Some (k (0, Some (retval tq))) \<and> running_on i p (sh m') \<and> tids_are (sh m') (U - {n}) \<and>
    tcb_heap (sh m') = (tcb_heap s)(q := None) \<and> tcbs (sh m') = (tcbs s)(n := NULL) \<and>
    blocks (sh m') = (if stack_allocated tq then blocks s - {ss_sp (uc_stack tq)} else blocks s))
    (here i s x (uthread_join (of_nat n) True k) m)"
    unfolding join_defs run_defs
    apply ((rule solo_rules, (simp add: r q' bv' n sint free_stack [where t' = "tq\<lparr>join_queue := (join_queue tq)\<lparr>nodes := fmempty\<rparr>\<rparr>"] queue_destroy_frees_all [OF q(5)] kinfo_split [where K = K and L = L] run_simps join_simps UTHREAD_TID_MAIN_def
          cong: if_cong; fail)+,
        (simp only: simp_thms if_True if_False)?)+, rule solo_now, intro conjI)
    subgoal by simp
    subgoal using t r ne by (auto intro!: running_onI [where K = K and L = L] lib_readyI [where K = K and L = L]
       simp: entry_split_def tcb_in_def)
    subgoal using bv' tids by (auto simp: tids_are_def)
    subgoal by simp
    subgoal by simp
    subgoal by simp
    done
qed

theorem join_collects_witness:
  "\<exists>n' m'. run (replicate n' 1) (here 1 (sample_state empty_queue 0 FINISHED empty_queue (sample_sem 0 empty_queue) (used_bits 3 0))
      Map.empty (uthread_join 1 True (\<lambda>r. Process_exit (int (the (snd r))))) idle_machine) = Ok m' \<and>
    kcode m' 1 = Some (Process_exit 77) \<and> tids_are (sh m') {0} \<and> tcb_heap (sh m') 3 = None \<and> tcbs (sh m') 1 = NULL"
  using join_collects [of 1 2 "sample_state empty_queue 0 FINISHED empty_queue (sample_sem 0 empty_queue) (used_bits 3 0)" "{0, 1}" 3 "sample_second FINISHED" 1 "[]" Map.empty "\<lambda>r. Process_exit (int (the (snd r)))" idle_machine]
    sample_tids(1) [of empty_queue 0 FINISHED empty_queue "sample_sem 0 empty_queue"]
  by (fastforce simp: UTHREAD_MAX_THREADS_def insert_Diff_if)

section \<open>Running out of identifiers and of memory\<close>

text \<open>
  C38: When all identifiers are in use, \<^verbatim>\<open>uthread_create\<close> does not fail: \<^verbatim>\<open>get_next_tid\<close> returns 1, the test
  \<^verbatim>\<open>new_tid < 0\<close> of an unsigned value is never true, and the new thread replaces thread 1 in \<^verbatim>\<open>tcbs\<close>.
\<close>

theorem create_when_full:
  assumes run: "running_on i p s" and tids: "tids_are s {..<UTHREAD_MAX_THREADS}"
    and rq: "ready_is s qs" "int (length qs) < INT_MAX" and fresh: "fresh_from_brk s"
  shows "\<exists>n' m'. run (replicate n' i) (here i s x (uthread_create f a b sz k) m) = Ok m' \<and>
    kcode m' i = Some (k (0, Some 1)) \<and> tcbs (sh m') = (tcbs s)(1 := brk s) \<and> ready_is (sh m') (qs @ [brk s])"
proof (rule solo_run [where P = "\<lambda>_. True"])
  have lib: "lib_ready i s" using run by (simp add: running_on_def)
  have full: "bitvec_first_cleared_index (bitvec s) = Ok (-1)"
    using bvid.full_iff [of UTHREAD_MAX_THREADS "bitvec s"] tids unfolding tids_are_def by blast
  show "solo i (\<lambda>_. True) (\<lambda>m'. kcode m' i = Some (k (0, Some 1)) \<and> tcbs (sh m') = (tcbs s)(1 := brk s) \<and>
    ready_is (sh m') (qs @ [brk s])) (here i s x (uthread_create f a b sz k) m)"
    by (rule create_runs [OF lib full, where n = 1 and bv = "bitvec s"])
      (use rq fresh in \<open>auto simp: UTHREAD_MAX_THREADS_def created_def\<close>)
qed

theorem create_when_full_witness:
  "\<exists>n' m'. run (replicate n' 1) (here 1 (sample_state empty_queue 0 READY empty_queue (sample_sem 0 empty_queue) (used_bits 255 255))
      Map.empty (uthread_create (\<lambda>_. U_exit 9) 5 NULL 0 (\<lambda>r. Process_exit (fst r))) idle_machine) = Ok m' \<and>
    kcode m' 1 = Some (Process_exit 0) \<and> tcbs (sh m') 1 = 30"
  using create_when_full [of 1 2 "sample_state empty_queue 0 READY empty_queue (sample_sem 0 empty_queue) (used_bits 255 255)" "[]" Map.empty "\<lambda>_. U_exit 9" 5 NULL 0 "\<lambda>r. Process_exit (fst r)" idle_machine]
    sample_tids(2) [of empty_queue 0 READY empty_queue "sample_sem 0 empty_queue"] sample_fresh
  by (fastforce simp: INT_MAX_def)

text \<open>
  C39: When there is no memory for the control block, \<^verbatim>\<open>uthread_create\<close> reports it with result 1, but returns
  with the lock of the thread table held, so that no kernel thread gets past its next attempt to
  take it, and with the identifier marked as used.
\<close>

theorem create_without_memory:
  assumes run: "running_on i p s" and tids: "tids_are s U" "n < UTHREAD_MAX_THREADS" "n \<notin> U" "{..<n} \<subseteq> U"
  shows "\<exists>n' m'. run (replicate n' i) (here i (s\<lparr>fails := \<lambda>_. True\<rparr>) x (uthread_create f a b sz k) m) = Ok m' \<and>
    kcode m' i = Some (k (1, Some (of_nat n))) \<and> bv_rep UTHREAD_MAX_THREADS (bitvec (sh m')) (insert n U) \<and>
    (\<forall>j c. kstep j (goto j (lock_tcbs c) m') = Block)"
proof (rule solo_run [where P = "\<lambda>_. True"])
  let ?s = "s\<lparr>fails := \<lambda>_. True\<rparr>"
  have lib: "lib_ready i s" using run by (simp add: running_on_def)
  then obtain K ki L where e: "entry_split i s K ki L" by (rule lib_ready_split)
  note r = lib_readyD [OF lib] entry_splitD [OF e]
  from tids obtain bv where bv: "bitvec_first_cleared_index (bitvec s) = Ok (int n)" "bitvec_set (bitvec s) (int n) = Ok bv"
    "bv_rep UTHREAD_MAX_THREADS bv (insert n U)" by (rule tids_first)
  note n = unat_tid [OF tids(2)] tids(2)
  show "solo i (\<lambda>_. True) (\<lambda>m'. kcode m' i = Some (k (1, Some (of_nat n))) \<and>
    bv_rep UTHREAD_MAX_THREADS (bitvec (sh m')) (insert n U) \<and> (\<forall>j c. kstep j (goto j (lock_tcbs c) m') = Block))
    (here i ?s x (uthread_create f a b sz k) m)"
    unfolding uthread_create_def get_next_tid_def create_tcb_def run_defs
    apply ((rule solo_rules, (simp add: r bv n kinfo_split [where K = K and L = L] run_simps create_simps UTHREAD_TID_MAIN_def; fail)+,
        (simp only: Let_def word_not_simps if_True if_False simp_thms of_int_of_nat_eq add_0_right)?)+, rule solo_now)
    using bv(3) by (simp add: kstep_def lock_tcbs_def checked_def do_lock_def goto_def here_def)
qed

theorem create_without_memory_witness:
  "\<exists>n' m'. run (replicate n' 1) (here 1 ((sample_state empty_queue 0 READY empty_queue (sample_sem 0 empty_queue) (used_bits 3 0))\<lparr>fails := \<lambda>_. True\<rparr>)
      Map.empty (uthread_create (\<lambda>_. U_exit 9) 5 NULL 0 (\<lambda>r. Process_exit (fst r))) idle_machine) = Ok m' \<and>
    kcode m' 1 = Some (Process_exit 1) \<and> kstep 7 (goto 7 (lock_tcbs Kthread_exit) m') = Block"
  using create_without_memory [of 1 2 "sample_state empty_queue 0 READY empty_queue (sample_sem 0 empty_queue) (used_bits 3 0)" "{0, 1}" 2 Map.empty "\<lambda>_. U_exit 9" 5 NULL 0 "\<lambda>r. Process_exit (fst r)" idle_machine]
    sample_tids(1) [of empty_queue 0 READY empty_queue "sample_sem 0 empty_queue"]
  by (auto simp: UTHREAD_MAX_THREADS_def lessThan_nat_numeral)

lemma solo_assert_fails:
  "f i s = Ok False \<Longrightarrow> solo i P (\<lambda>m'. kstep i m' = Err Assert_fail) (here i s x (c_assert f k) m)"
  by (rule solo_now) (simp add: kstep_def c_assert_def)

text \<open>
  C40: A thread that is itself being joined cannot join an unfinished thread: \<^verbatim>\<open>uthread_join\<close> asserts that the
  queue of the caller is empty, not the queue of the target.
\<close>

theorem join_chain_aborts:
  assumes run: "running_on i p s" and p: "tcb_heap s p = Some tp" "queue_rep (join_queue tp) (j # js)"
    and q: "tcb_in s q tq" "tcb_tid tq = of_nat n" "n < UTHREAD_MAX_THREADS" "state tq \<noteq> FINISHED"
  shows "\<exists>n' m'. run (replicate n' i) (here i s x (uthread_join (of_nat n) b k) m) = Ok m' \<and> kstep i m' = Err Assert_fail"
proof (rule solo_run [where P = "\<lambda>_. True"])
  from run obtain K ki L t where t: "lib_ready i s" "entry_split i s K ki L" "tcb_in s p t" "state t = RUNNING"
    "task (sched_info ki) = NONE" "current_tid ki = int (unat (tcb_tid t))" by (rule running_on_split)
  note r = lib_readyD [OF t(1)] entry_splitD [OF t(2)] tcb_inD [OF t(3)] t(4-6)
  note n = unat_tid [OF q(3)] q(3)
  from p r(14) have jq: "queue_rep (join_queue t) (j # js)" by auto
  have q': "q \<noteq> NULL" "tcb_heap s q = Some tq" "tcbs s n = q" "state tq \<noteq> FINISHED" using q n by (auto simp: tcb_in_def)
  show "solo i (\<lambda>_. True) (\<lambda>m'. kstep i m' = Err Assert_fail) (here i s x (uthread_join (of_nat n) b k) m)"
    unfolding uthread_join_def run_defs
    by (rule solo_assert_fails solo_expr [where v = False] solo_rules,
        (simp add: r q' n kinfo_split [where K = K and L = L] run_simps queue_size_rep [OF jq]; fail)+,
        (simp only: simp_thms if_True if_False)?)+
qed

theorem join_chain_aborts_witness:
  "\<exists>n' m'. run (replicate n' 1) (here 1 (sample_state empty_queue 0 READY (queue_with 4) (sample_sem 0 empty_queue) (used_bits 3 0)) Map.empty (uthread_join 1 False (\<lambda>r. Process_exit (fst r))) idle_machine) = Ok m' \<and>
    kstep 1 m' = Err Assert_fail"
  using join_chain_aborts [of 1 2 "sample_state empty_queue 0 READY (queue_with 4) (sample_sem 0 empty_queue) (used_bits 3 0)" "sample_main (queue_with 4)" 4 "[]" 3 "sample_second READY" 1 Map.empty False
      "\<lambda>r. Process_exit (fst r)" idle_machine]
  by (simp add: UTHREAD_MAX_THREADS_def)

section \<open>A race between joining and creating\<close>

lemma here_self: "kcode m i = Some c \<Longrightarrow> here i (sh m) (ctxs m) c m = m"
  by (simp add: here_def fun_upd_idem)

lemma run_append: "run (xs @ ys) m = bind_o (run xs m) (run ys)"
proof (induction xs arbitrary: m)
  case (Cons j xs)
  then show ?case by (cases "kstep j m") simp_all
qed simp



end
