(* ===== verification/Fcfs_Rel.thy ===== *)
theory Fcfs_Rel
  imports Fcfs_Wf Uthread_Create
begin

text \<open>
  When a state of the machine with one kernel thread represents a state of the abstract scheduler, and how
  the parts of this relation follow the updates that the code makes.
\<close>

section \<open>The relation\<close>

fun resume_code :: "addr \<Rightarrow> resume \<Rightarrow> code" where
  "resume_code p (Go u) = User u"
| "resume_code p (Start f x) = trampoline f x"
| "resume_code p (Rewait m k) =
     block_sigrtmin (call (do_lock (Sem_lock m)) (\<lambda>r.
       if r \<noteq> 0 then unblock_sigrtmin (User (k 1)) else Sem_wait_loop m p (\<lambda>r. User (k r))))"
| "resume_code p (Rejoin tid pret k) =
     block_sigrtmin (lock_tcbs (uthread_join_finish tid pret (\<lambda>r. User (k r))))"

text \<open>The control block \<open>c\<close> represents thread \<open>n\<close> with abstract state \<open>t\<close>; \<open>T\<close> is the table \<^verbatim>\<open>tcbs\<close>.\<close>

definition thr :: "(nat \<Rightarrow> addr) \<Rightarrow> (addr \<Rightarrow> (code \<times> bool) option) \<Rightarrow> nat \<Rightarrow> athread \<Rightarrow> uthread_tcb_t \<Rightarrow> bool" where
  "thr T x n t c \<longleftrightarrow>
     tcb_tid c = of_nat n \<and> state c = a_status t \<and> (a_status t = FINISHED \<longrightarrow> retval c = a_ret t) \<and>
     queue_rep (join_queue c) (map T (a_join t)) \<and>
     (a_status t \<notin> {RUNNING, FINISHED} \<longrightarrow> (\<exists>b. x (T n) = Some (resume_code (T n) (a_next t), b)))"

definition tab ::
  "(nat \<Rightarrow> athread option) \<Rightarrow> (nat \<Rightarrow> addr) \<Rightarrow> (addr \<Rightarrow> uthread_tcb_t option) \<Rightarrow> (addr \<Rightarrow> (code \<times> bool) option) \<Rightarrow> bool" where
  "tab A T H x \<longleftrightarrow>
     (\<forall>n t. A n = Some t \<longrightarrow> n < UTHREAD_MAX_THREADS \<and> T n \<noteq> NULL \<and> T n \<noteq> exitall \<and> (\<exists>c. H (T n) = Some c \<and> thr T x n t c)) \<and>
     (\<forall>n. A n = None \<longrightarrow> T n = NULL) \<and> (\<forall>p. H p \<noteq> None \<longrightarrow> (\<exists>n. A n \<noteq> None \<and> T n = p))"

definition semr :: "(semid \<Rightarrow> (int \<times> nat list) option) \<Rightarrow> (nat \<Rightarrow> addr) \<Rightarrow> (semid \<Rightarrow> uthread_sem_t option) \<Rightarrow> bool" where
  "semr A T S \<longleftrightarrow>
     (\<forall>m c ws. A m = Some (c, ws) \<longrightarrow>
        (\<exists>y. S m = Some y \<and> counter y = c \<and> queue_rep (sem_queue y) (map T ws) \<and> sem_lock y = Mutex_free))"

text \<open>The stacks of the library, and the stacks of the threads.\<close>

definition sys_stacks :: "shared \<Rightarrow> addr list" where
  "sys_stacks s = ss_sp (abort_stack s) # map (\<lambda>ki. ss_sp (sched_stack (sched_info ki))) (kthread_info s)"

definition stk :: "(addr \<Rightarrow> uthread_tcb_t option) \<Rightarrow> addr set \<Rightarrow> addr list \<Rightarrow> bool" where
  "stk H B sys \<longleftrightarrow>
     distinct sys \<and> NULL \<notin> set sys \<and> set sys \<subseteq> B \<and>
     (\<forall>p c. H p = Some c \<longrightarrow> stack_allocated c \<longrightarrow> ss_sp (uc_stack c) \<noteq> NULL \<and> ss_sp (uc_stack c) \<in> B - set sys) \<and>
     (\<forall>p c p' c'. H p = Some c \<longrightarrow> H p' = Some c' \<longrightarrow> stack_allocated c \<longrightarrow> stack_allocated c' \<longrightarrow>
        ss_sp (uc_stack c) = ss_sp (uc_stack c') \<longrightarrow> p = p')"

text \<open>Every node, control block and stack has an address below \<open>brk\<close>, so that \<^verbatim>\<open>malloc\<close> returns a new one.\<close>

definition below :: "addr \<Rightarrow> queue_t \<Rightarrow> bool" where
  "below b q \<longleftrightarrow> (\<forall>p. p |\<in>| fmdom (nodes q) \<longrightarrow> p < b)"

definition low :: "shared \<Rightarrow> bool" where
  "low s \<longleftrightarrow>
     exitall < brk s \<and> (\<forall>p t. tcb_heap s p = Some t \<longrightarrow> p < brk s \<and> below (brk s) (join_queue t)) \<and>
     below (brk s) (rq_queue (rqueue s)) \<and> (\<forall>m y. sems s m = Some y \<longrightarrow> below (brk s) (sem_queue y)) \<and> (\<forall>p \<in> blocks s. p < brk s)"

definition single :: "ktid \<Rightarrow> shared \<Rightarrow> bool" where
  "single i s \<longleftrightarrow> lib_ready i s \<and> length (kthread_info s) = 1 \<and> inited_sem s = Sem_value 0 \<and> exitall_sem s = Sem_value 0 \<and>
     low s"

definition rel0 :: "ktid \<Rightarrow> astate \<Rightarrow> shared \<Rightarrow> (addr \<Rightarrow> (code \<times> bool) option) \<Rightarrow> bool" where
  "rel0 i a s x \<longleftrightarrow>
     single i s \<and> tab (a_thr a) (tcbs s) (tcb_heap s) x \<and> stk (tcb_heap s) (blocks s) (sys_stacks s) \<and>
     bv_rep UTHREAD_MAX_THREADS (bitvec s) (dom (a_thr a)) \<and> ready_is s (map (tcbs s) (a_ready a)) \<and>
     semr (a_sems a) (tcbs s) (sems s) \<and> cmem s = a_mem a"

definition rel :: "ktid \<Rightarrow> astate \<Rightarrow> machine \<Rightarrow> bool" where
  "rel i a m \<longleftrightarrow>
     rel0 i a (sh m) (ctxs m) \<and> exit_status m = None \<and>
     (\<exists>t. a_thr a (a_cur a) = Some t \<and> a_status t = RUNNING \<and>
        running_on i (tcbs (sh m) (a_cur a)) (sh m) \<and>
        kcode m i = Some (resume_code (tcbs (sh m) (a_cur a)) (a_next t)))"

section \<open>Updates of the table\<close>

lemma tabD:
  assumes "tab A T H x" "A n = Some t"
  obtains c where "n < UTHREAD_MAX_THREADS" "T n \<noteq> NULL" "T n \<noteq> exitall" "H (T n) = Some c" "thr T x n t c"
  using assms unfolding tab_def by blast

lemma tab_owner:
  assumes "tab A T H x" "H p \<noteq> None"
  obtains n where "A n \<noteq> None" "T n = p"
  using assms unfolding tab_def by blast

lemma tab_inj:
  assumes "tab A T H x" "A n = Some t" "A n' = Some t'" "T n = T n'"
  shows "n = n'"
proof -
  from assms(1,2) obtain c where c: "n < UTHREAD_MAX_THREADS" "H (T n) = Some c" "thr T x n t c" by (rule tabD)
  from assms(1,3) obtain c' where c': "n' < UTHREAD_MAX_THREADS" "H (T n') = Some c'" "thr T x n' t' c'" by (rule tabD)
  from c c' assms(4) have "(of_nat n :: tid_t) = of_nat n'" by (simp add: thr_def)
  then show ?thesis using c(1) c'(1) unat_tid by metis
qed

lemma thr_cong:
  "map T' (a_join t) = map T (a_join t) \<Longrightarrow> T' n = T n \<Longrightarrow> x' (T n) = x (T n) \<Longrightarrow> thr T' x' n t c = thr T x n t c"
  by (simp only: thr_def)

lemma tab_upd:
  assumes tab: "tab A T H x" and n: "A n = Some t" and c: "thr T x' n t' c'" and x: "\<And>q. q \<noteq> T n \<Longrightarrow> x' q = x q"
  shows "tab (A(n \<mapsto> t')) T (H(T n \<mapsto> c')) x'"
proof -
  have other: "\<exists>c. (H(T n \<mapsto> c')) (T k) = Some c \<and> thr T x' k tk c" if k: "A k = Some tk" "k \<noteq> n" for k tk
  proof -
    from tab k(1) obtain ck where ck: "H (T k) = Some ck" "thr T x k tk ck" by (rule tabD)
    have ne: "T k \<noteq> T n" using tab_inj [OF tab k(1) n] k(2) by blast
    then have "thr T x' k tk ck" using ck(2) x thr_cong [of T tk T k x' x ck] by simp
    then show ?thesis using ck(1) ne by simp
  qed
  show ?thesis
    unfolding tab_def
  proof (intro conjI allI impI)
    fix k tk assume k: "(A(n \<mapsto> t')) k = Some tk"
    then have "A k \<noteq> None" using n by (auto split: if_splits)
    with tab show "k < UTHREAD_MAX_THREADS" "T k \<noteq> NULL" "T k \<noteq> exitall" by (auto simp: tab_def)
    show "\<exists>c. (H(T n \<mapsto> c')) (T k) = Some c \<and> thr T x' k tk c"
      using k other c by (cases "k = n") auto
  next
    fix k assume "(A(n \<mapsto> t')) k = None"
    then show "T k = NULL" using tab by (auto simp: tab_def split: if_splits)
  next
    fix p assume "(H(T n \<mapsto> c')) p \<noteq> None"
    moreover obtain cn where "H (T n) = Some cn" using tab n by (rule tabD)
    ultimately have "H p \<noteq> None" by (auto split: if_splits)
    with tab obtain k where "A k \<noteq> None" "T k = p" by (rule tab_owner)
    then show "\<exists>k. (A(n \<mapsto> t')) k \<noteq> None \<and> T k = p" by (intro exI [of _ k]) auto
  qed
qed

lemma tab_new:
  assumes tab: "tab A T H x" and n: "A n = None" "n < UTHREAD_MAX_THREADS" and p: "H p = None" "p \<noteq> NULL" "p \<noteq> exitall"
    and c: "thr (T(n := p)) x' n t c" and x: "\<And>q. q \<noteq> p \<Longrightarrow> x' q = x q"
    and joins: "\<And>k tk. A k = Some tk \<Longrightarrow> set (a_join tk) \<subseteq> dom A"
  shows "tab (A(n \<mapsto> t)) (T(n := p)) (H(p \<mapsto> c)) x'"
proof -
  have other: "\<exists>c'. (H(p \<mapsto> c)) ((T(n := p)) k) = Some c' \<and> thr (T(n := p)) x' k tk c'" if k: "A k = Some tk" "k \<noteq> n" for k tk
  proof -
    from tab k(1) obtain ck where ck: "H (T k) = Some ck" "thr T x k tk ck" by (rule tabD)
    moreover have "T k \<noteq> p" using ck(1) p(1) by auto
    moreover have "map (T(n := p)) (a_join tk) = map T (a_join tk)" using joins [OF k(1)] n(1) by (auto simp: domIff)
    ultimately have "thr (T(n := p)) x' k tk ck" using thr_cong [of "T(n := p)" tk T k x' x ck] x k(2) by simp
    then show ?thesis using ck(1) \<open>T k \<noteq> p\<close> k(2) by simp
  qed
  show ?thesis
    unfolding tab_def
  proof (intro conjI allI impI)
    fix k tk assume k: "(A(n \<mapsto> t)) k = Some tk"
    then show "k < UTHREAD_MAX_THREADS" "(T(n := p)) k \<noteq> NULL" "(T(n := p)) k \<noteq> exitall"
      using tab n p by (auto simp: tab_def split: if_splits)
    show "\<exists>c'. (H(p \<mapsto> c)) ((T(n := p)) k) = Some c' \<and> thr (T(n := p)) x' k tk c'"
      using k other c by (cases "k = n") auto
  next
    fix k assume "(A(n \<mapsto> t)) k = None"
    then show "(T(n := p)) k = NULL" using tab by (auto simp: tab_def split: if_splits)
  next
    fix q assume q: "(H(p \<mapsto> c)) q \<noteq> None"
    show "\<exists>k. (A(n \<mapsto> t)) k \<noteq> None \<and> (T(n := p)) k = q"
    proof (cases "q = p")
      case False
      with q have "H q \<noteq> None" by simp
      with tab obtain k where "A k \<noteq> None" "T k = q" by (rule tab_owner)
      with n(1) show ?thesis by (intro exI [of _ k]) auto
    qed auto
  qed
qed

lemma tab_del:
  assumes tab: "tab A T H x" and n: "A n = Some t" and joins: "\<And>k tk. A k = Some tk \<Longrightarrow> n \<notin> set (a_join tk)"
  shows "tab (A(n := None)) (T(n := NULL)) (H(T n := None)) x"
proof -
  have other: "\<exists>c'. (H(T n := None)) ((T(n := NULL)) k) = Some c' \<and> thr (T(n := NULL)) x k tk c'" if k: "A k = Some tk" "k \<noteq> n" for k tk
  proof -
    from tab k(1) obtain ck where ck: "H (T k) = Some ck" "thr T x k tk ck" by (rule tabD)
    moreover have "T k \<noteq> T n" using tab_inj [OF tab k(1) n] k(2) by blast
    moreover have "map (T(n := NULL)) (a_join tk) = map T (a_join tk)" using joins [OF k(1)] by auto
    ultimately have "thr (T(n := NULL)) x k tk ck" using thr_cong [of "T(n := NULL)" tk T k x x ck] k(2) by simp
    then show ?thesis using ck(1) \<open>T k \<noteq> T n\<close> k(2) by simp
  qed
  show ?thesis
    unfolding tab_def
  proof (intro conjI allI impI)
    fix k tk assume k: "(A(n := None)) k = Some tk"
    then show "k < UTHREAD_MAX_THREADS" "(T(n := NULL)) k \<noteq> NULL" "(T(n := NULL)) k \<noteq> exitall"
      using tab by (auto simp: tab_def split: if_splits)
    show "\<exists>c'. (H(T n := None)) ((T(n := NULL)) k) = Some c' \<and> thr (T(n := NULL)) x k tk c'"
      using k other by (cases "k = n") auto
  next
    fix k assume "(A(n := None)) k = None"
    then show "(T(n := NULL)) k = NULL" using tab by (auto simp: tab_def split: if_splits)
  next
    fix q assume q: "(H(T n := None)) q \<noteq> None"
    then have "H q \<noteq> None" "q \<noteq> T n" by (auto split: if_splits)
    moreover from tab this(1) obtain k where "A k \<noteq> None" "T k = q" by (rule tab_owner)
    ultimately show "\<exists>k. (A(n := None)) k \<noteq> None \<and> (T(n := NULL)) k = q" by (intro exI [of _ k]) auto
  qed
qed

section \<open>Updates of the stacks\<close>

lemma stk_upd:
  assumes "stk H B sys" "H p = Some c" "stack_allocated c' = stack_allocated c" "uc_stack c' = uc_stack c"
  shows "stk (H(p \<mapsto> c')) B sys"
  using assms unfolding stk_def by (auto split: if_splits)

lemma stk_new:
  assumes "stk H B sys" "H p = None" "stack_allocated c \<Longrightarrow> ss_sp (uc_stack c) = q \<and> q \<noteq> NULL \<and> q \<notin> B \<and> B' = insert q B"
    "\<not> stack_allocated c \<Longrightarrow> B' = B"
  shows "stk (H(p \<mapsto> c)) B' sys"
  using assms unfolding stk_def by (cases "stack_allocated c") (auto split: if_splits, metis)

lemma stk_del:
  assumes "stk H B sys" "H p = Some c"
  shows "stk (H(p := None)) (if stack_allocated c then B - {ss_sp (uc_stack c)} else B) sys"
  using assms unfolding stk_def by (auto split: if_splits)

section \<open>Dispatching\<close>

lemma rel0D:
  assumes "rel0 i a s x"
  shows "single i s" "tab (a_thr a) (tcbs s) (tcb_heap s) x" "stk (tcb_heap s) (blocks s) (sys_stacks s)"
    "bv_rep UTHREAD_MAX_THREADS (bitvec s) (dom (a_thr a))" "ready_is s (map (tcbs s) (a_ready a))"
    "semr (a_sems a) (tcbs s) (sems s)" "cmem s = a_mem a"
  using assms by (simp_all add: rel0_def)

lemma singleD:
  assumes "single i s"
  shows "lib_ready i s" "length (kthread_info s) = 1" "inited_sem s = Sem_value 0" "exitall_sem s = Sem_value 0" "low s"
  using assms by (simp_all add: single_def)

lemma below_mono: "below b q \<Longrightarrow> b \<le> b' \<Longrightarrow> below b' q"
  by (auto simp: below_def)

lemma below_Suc: "below b q \<Longrightarrow> below (Suc b) q"
  by (auto simp: below_def)

lemma below_subset: "below b q \<Longrightarrow> fmdom (nodes q') |\<subseteq>| fmdom (nodes q) \<Longrightarrow> below b q'"
  by (auto simp: below_def)

lemma below_enqueue: "below b q \<Longrightarrow> fmdom (nodes q') = finsert p (fmdom (nodes q)) \<Longrightarrow> b \<le> b' \<Longrightarrow> p < b' \<Longrightarrow> below b' q'"
  by (auto simp: below_def)

lemma below_fresh: "below b q \<Longrightarrow> b |\<notin>| fmdom (nodes q)"
  by (auto simp: below_def)

lemma below_empty: "nodes q = fmempty \<Longrightarrow> below b q"
  by (simp add: below_def)

lemma lowD:
  assumes "low s"
  shows "exitall < brk s" "brk s \<noteq> NULL" "tcb_heap s p = Some t \<Longrightarrow> p < brk s" "tcb_heap s p = Some t \<Longrightarrow> below (brk s) (join_queue t)"
    "below (brk s) (rq_queue (rqueue s))" "sems s m = Some y \<Longrightarrow> below (brk s) (sem_queue y)" "q \<in> blocks s \<Longrightarrow> q < brk s"
  using assms by (auto simp: low_def)

lemma running_tcb: "running_on i p s \<Longrightarrow> \<exists>t. tcb_heap s p = Some t \<and> state t = RUNNING"
  by (auto simp: running_on_def tcb_in_def)

lemma sys_stacks_frame: "unchanged s s' \<Longrightarrow> sys_stacks s' = sys_stacks s"
proof -
  assume u: "unchanged s s'"
  then have "map (ss_sp \<circ> snd) (map kinfo_frame (kthread_info s')) = map (ss_sp \<circ> snd) (map kinfo_frame (kthread_info s))"
    by (simp add: unchanged_def del: map_map)
  then have "map (\<lambda>ki. ss_sp (sched_stack (sched_info ki))) (kthread_info s') = map (\<lambda>ki. ss_sp (sched_stack (sched_info ki))) (kthread_info s)"
    by (simp add: kinfo_frame_def comp_def)
  with u show ?thesis by (simp add: sys_stacks_def unchanged_def)
qed

lemma tab_thread_in:
  assumes "tab A (tcbs s) (tcb_heap s) x" "A n = Some t"
  obtains c where "tcb_in s (tcbs s n) c" "thr (tcbs s) x n t c" "n < UTHREAD_MAX_THREADS"
proof -
  from assms obtain c where c: "n < UTHREAD_MAX_THREADS" "tcbs s n \<noteq> NULL" "tcbs s n \<noteq> exitall" "tcb_heap s (tcbs s n) = Some c"
    "thr (tcbs s) x n t c" by (rule tabD)
  then have "tcb_in s (tcbs s n) c" using unat_tid [OF c(1)] by (simp add: tcb_in_def thr_def)
  with c show thesis by (intro that)
qed

lemma dispatch_rel:
  assumes rel: "rel0 i a s x" and ready: "\<And>n. n \<in> set (a_ready a) \<Longrightarrow> \<exists>t. a_thr a n = Some t \<and> a_status t = READY"
    and d: "a_dispatch a = Some a'" and m: "exit_status m = None"
  shows "solo i (\<lambda>_. True) (rel i a') (here i s x sched_next m)"
proof -
  note R = rel0D [OF rel]
  note S = singleD [OF R(1)]
  from d obtain n ns where n: "a_ready a = n # ns" and a': "a' = a_upd n (\<lambda>t. t\<lparr>a_status := RUNNING\<rparr>) (a\<lparr>a_cur := n, a_ready := ns\<rparr>)"
    by (auto simp: a_dispatch_def split: list.splits)
  from ready [of n] n obtain t where t: "a_thr a n = Some t" "a_status t = READY" by auto
  from R(2) t(1) obtain c where c: "tcb_in s (tcbs s n) c" "thr (tcbs s) x n t c" "n < UTHREAD_MAX_THREADS" by (rule tab_thread_in)
  note c' = tcb_inD [OF c(1)]
  let ?q = "tcbs s n" and ?c = "resume_code (tcbs s n) (a_next t)"
  have ready': "ready_thread s x ?q ?c" using c t(2) by (auto simp: ready_thread_def thr_def)
  have "ready_is s (?q # map (tcbs s) ns)" using R(5) n by simp
  note run = sched_next_hands_over [OF S(1) this ready', of m]
  show ?thesis
  proof (rule solo_mono [OF run])
    fix m' assume h: "handed_over i s x ?q (map (tcbs s) ns) ?c m m'"
    let ?s = "sh m'"
    from h have f: "kcode m' i = Some ?c" "ctxs m' = x" "running_on i ?q ?s" "ready_is ?s (map (tcbs s) ns)"
      "tcb_heap ?s = (tcb_heap s)(?q \<mapsto> c\<lparr>state := RUNNING\<rparr>)" "tcbs ?s = tcbs s" "sems ?s = sems s" "unchanged s ?s"
      "exit_status m' = None" "fmdom (nodes (rq_queue (rqueue ?s))) |\<subseteq>| fmdom (nodes (rq_queue (rqueue s)))"
      using c' m by (simp_all add: handed_over_def)
    have u: "bitvec ?s = bitvec s" "blocks ?s = blocks s" "brk ?s = brk s" "cmem ?s = cmem s" "inited_sem ?s = inited_sem s"
      "exitall_sem ?s = exitall_sem s" "length (kthread_info ?s) = length (kthread_info s)"
      using f(8) map_eq_imp_length_eq unfolding unchanged_def by blast+
    have lib: "lib_ready i ?s" using f(3) by (simp add: running_on_def)
    have "low ?s"
      unfolding low_def using lowD [OF S(5)] c'(3) below_subset [OF lowD(5) [OF S(5)] f(10)] by (auto simp: f u split: if_splits)
    then have single: "single i ?s" using S lib u by (simp add: single_def)
    have "thr (tcbs s) x n (t\<lparr>a_status := RUNNING\<rparr>) (c\<lparr>state := RUNNING\<rparr>)" using c(2) by (simp add: thr_def)
    from tab_upd [OF R(2) t(1) this] have tab: "tab (a_thr a') (tcbs ?s) (tcb_heap ?s) x"
      by (simp add: a' a_upd_def f t(1))
    have dom: "dom (a_thr a') = dom (a_thr a)" using t(1) by (auto simp: a' a_upd_def)
    have stk: "stk (tcb_heap ?s) (blocks ?s) (sys_stacks ?s)"
      using stk_upd [OF R(3) c'(3), of "c\<lparr>state := RUNNING\<rparr>"] by (simp add: f u sys_stacks_frame [OF f(8)])
    have "rel0 i a' ?s (ctxs m')"
      unfolding rel0_def using single tab stk R(4,6,7) f u dom by (simp add: a' a_upd_def)
    then show "rel i a' m'" using f(1,3,6,9) t(1) by (simp add: rel_def a' a_upd_def)
  qed
qed

end
