(* ===== verification/Fcfs_Ops.thy ===== *)
theory Fcfs_Ops
  imports Fcfs_Rel
begin

text \<open>
  Each call of a client, executed by the code, does what the abstract scheduler does.
\<close>

section \<open>The running thread\<close>

text \<open>Thread \<open>t\<close> of the abstract state runs, with control block \<open>c\<close> at \<open>p\<close> and the entry \<open>ki\<close> of the kernel thread.\<close>

definition current ::
  "ktid \<Rightarrow> astate \<Rightarrow> shared \<Rightarrow> (addr \<Rightarrow> (code \<times> bool) option) \<Rightarrow> addr \<Rightarrow> athread \<Rightarrow> uthread_tcb_t \<Rightarrow> uthread_kinfo_t \<Rightarrow> bool" where
  "current i a s x p t c ki \<longleftrightarrow>
     rel0 i a s x \<and> a_thr a (a_cur a) = Some t \<and> a_status t = RUNNING \<and> tcbs s (a_cur a) = p \<and> thr (tcbs s) x (a_cur a) t c \<and>
     tcb_in s p c \<and> a_cur a < UTHREAD_MAX_THREADS \<and> kthread_info s = [ki] \<and> kinfo_ktid ki = i \<and> task (sched_info ki) = NONE \<and>
     current_tid ki = int (a_cur a) \<and> num_kthreads s = 1"

lemma currentD:
  assumes "current i a s x p t c ki"
  shows "inited s" "quantum s = 0" "fails s = (\<lambda>_. False)" "tcbs_lock s = Mutex_free" "rq_lock (rqueue s) = Mutex_free"
    "bitvec_lock s = Mutex_free" "kthread_info s = [ki]" "num_kthreads s = 1" "kinfo_ktid ki = i"
    "p \<noteq> NULL" "p \<noteq> exitall" "tcb_heap s p = Some c" "state c = RUNNING" "tcb_tid c = of_nat (a_cur a)"
    "unat (tcb_tid c) = a_cur a" "a_cur a < UTHREAD_MAX_THREADS" "tcbs s (a_cur a) = p" "task (sched_info ki) = NONE"
    "current_tid ki = int (a_cur a)" "unat (of_nat (a_cur a) :: tid_t) = a_cur a" "sint (of_nat (a_cur a) :: tid_t) = int (a_cur a)"
  using assms lib_readyD [of i s] unat_tid [of "a_cur a"] sint_tid [of "of_nat (a_cur a)"]
  by (simp_all add: current_def rel0_def single_def tcb_in_def thr_def)

lemma current_rel:
  assumes "current i a s x p t c ki"
  shows "rel0 i a s x" "a_thr a (a_cur a) = Some t" "a_status t = RUNNING" "thr (tcbs s) x (a_cur a) t c" "tcb_in s p c"
  using assms by (simp_all add: current_def)

lemma rel_current:
  assumes "rel i a m"
  obtains t c ki where "current i a (sh m) (ctxs m) (tcbs (sh m) (a_cur a)) t c ki" "exit_status m = None"
    "m = here i (sh m) (ctxs m) (resume_code (tcbs (sh m) (a_cur a)) (a_next t)) m"
proof -
  let ?s = "sh m" and ?p = "tcbs (sh m) (a_cur a)"
  from assms obtain t where t: "rel0 i a ?s (ctxs m)" "exit_status m = None" "a_thr a (a_cur a) = Some t" "a_status t = RUNNING"
    "running_on i ?p ?s" "kcode m i = Some (resume_code ?p (a_next t))" unfolding rel_def by blast
  note R = rel0D [OF t(1)]
  from R(2) t(3) obtain c where c: "tcb_in ?s ?p c" "thr (tcbs ?s) (ctxs m) (a_cur a) t c" "a_cur a < UTHREAD_MAX_THREADS"
    by (rule tab_thread_in)
  from singleD(2) [OF R(1)] obtain ki where ki: "kthread_info ?s = [ki]" by (auto simp: length_Suc_conv)
  from t(5) obtain t' where t': "tcb_in ?s ?p t'" "\<forall>k \<in> set (kthread_info ?s). kinfo_ktid k = i \<longrightarrow>
          task (sched_info k) = NONE \<and> current_tid k = int (unat (tcb_tid t'))" unfolding running_on_def by blast
  have "t' = c" using tcb_inD(3) [OF t'(1)] tcb_inD(3) [OF c(1)] by simp
  moreover have "kinfo_ktid ki = i" "num_kthreads ?s = 1" using singleD(1) [OF R(1)] ki by (auto simp: lib_ready_def)
  moreover have "unat (tcb_tid c) = a_cur a" using c(2) unat_tid [OF c(3)] by (simp add: thr_def)
  ultimately have "current i a ?s (ctxs m) ?p t c ki" using t c t'(2) ki unfolding current_def by simp
  then show thesis by (rule that [OF _ t(2)]) (simp add: here_self [OF t(6)])
qed

lemma current_running: "current i a s x p t c ki \<Longrightarrow> running_on i p s"
  using unat_tid [of "a_cur a"] unfolding current_def running_on_def rel0_def single_def thr_def
  by (intro conjI exI [of _ c]) auto

text \<open>The abstract program counter of the running thread is in the code of the kernel thread only.\<close>

lemma rel0_goto:
  assumes rel: "rel0 i a s x" and t: "a_thr a (a_cur a) = Some t" "a_status t = RUNNING"
  shows "rel0 i (a_goto u a) s x"
proof -
  note R = rel0D [OF rel]
  from R(2) t(1) obtain c where c: "tcb_heap s (tcbs s (a_cur a)) = Some c" "thr (tcbs s) x (a_cur a) t c" by (rule tabD)
  then have "thr (tcbs s) x (a_cur a) (t\<lparr>a_next := Go u\<rparr>) c" using t(2) by (simp add: thr_def)
  from tab_upd [OF R(2) t(1) this] have "tab (a_thr (a_goto u a)) (tcbs s) (tcb_heap s) x"
    by (simp add: a_goto_def a_upd_def t(1) fun_upd_idem [of "tcb_heap s", OF c(1)])
  moreover have "dom (a_thr (a_goto u a)) = dom (a_thr a)" using t(1) by (auto simp: a_goto_def a_upd_def)
  ultimately show ?thesis using rel by (simp add: rel0_def) (simp add: a_goto_def a_upd_def)
qed

lemma rel_goto:
  assumes "rel0 i a s x" "a_thr a (a_cur a) = Some t" "a_status t = RUNNING" "running_on i (tcbs s (a_cur a)) s" "exit_status m = None"
  shows "rel i (a_goto u a) (here i s x (User u) m)"
  using assms rel0_goto [OF assms(1-3), of u] by (simp add: rel_def) (simp add: a_goto_def a_upd_def)

lemma cur_kinfo:
  assumes "kthread_info s = [ki]" "num_kthreads s = 1" "kinfo_ktid ki = i"
  shows "kinfo_at s i = Ok ki" "kinfo_update f i s = Ok (s\<lparr>kthread_info := [f ki]\<rparr>)"
  using assms by (simp_all add: kinfo_at_def kinfo_update_def get_kthread_info_def)

text \<open>The rules for everything but the client's program.\<close>

lemmas lib_rules =
  solo_checked solo_call solo_stmt solo_expr solo_assert solo_Schedule solo_wait_loop solo_mask solo_preempted
  solo_Swapcontext solo_Setcontext solo_Setcontext_sched solo_Makecontext

section \<open>Calls that do not switch threads\<close>

lemma self_rel:
  assumes c: "current i a s x p t c ki" and m: "exit_status m = None"
  shows "solo i (\<lambda>_. True) (rel i (a_goto (k (of_nat (a_cur a))) a)) (here i s x (User (U_self k)) m)"
proof -
  note r = currentD [OF c] and R = current_rel [OF c]
  have "rel i (a_goto (k (of_nat (a_cur a))) a) (here i s x (User (k (of_nat (a_cur a)))) m)"
    using rel_goto [OF R(1-3) _ m] current_running [OF c] r(17) by simp
  then show ?thesis
    by (intro solo_User TrueI) (simp add: api_def, rule solo_expr, simp_all add: r uthread_self_def cur_kinfo, rule solo_now)
qed

lemma mem_rel:
  assumes c: "current i a s x p t c ki" and m: "exit_status m = None" and f: "f (a_mem a) = (mem, u)"
  shows "solo i (\<lambda>_. True) (rel i (a_goto u (a\<lparr>a_mem := mem\<rparr>))) (here i s x (User (U_mem f)) m)"
proof -
  note r = currentD [OF c] and R = current_rel [OF c]
  let ?s = "s\<lparr>cmem := mem\<rparr>"
  have "rel0 i (a\<lparr>a_mem := mem\<rparr>) ?s x"
    using R(1) by (simp add: rel0_def single_def lib_ready_def low_def ready_is_def sys_stacks_def)
  moreover have "running_on i p ?s" using current_running [OF c] by (simp add: running_on_def lib_ready_def tcb_in_def)
  ultimately have "rel i (a_goto u (a\<lparr>a_mem := mem\<rparr>)) (here i ?s x (User u) m)"
    using rel_goto [of i "a\<lparr>a_mem := mem\<rparr>" ?s x t m u] R m r(17) by simp
  moreover have "cmem s = a_mem a" using R(1) by (simp add: rel0_def)
  ultimately show ?thesis
    by (intro solo_User TrueI) (simp add: api_def, rule solo_Atom, simp_all add: f, rule solo_now)
qed

lemma start_rel:
  assumes c: "current i a s x p t c ki" and m: "exit_status m = None"
  shows "solo i (\<lambda>_. True) (rel i (a_goto (f v) a)) (here i s x (trampoline f v) m)"
proof -
  note r = currentD [OF c] and R = current_rel [OF c]
  have "rel i (a_goto (f v) a) (here i s x (User (f v)) m)"
    using rel_goto [OF R(1-3) _ m] current_running [OF c] r(17) by simp
  moreover have "s\<lparr>tcbs_lock := Mutex_free\<rparr> = s" using r(4) by (cases s) simp
  ultimately have fin: "rel i (a_goto (f v) a) (here i (s\<lparr>tcbs_lock := Mutex_free\<rparr>) x (User (f v)) m)" by simp
  show ?thesis
    unfolding trampoline_def lock_tcbs_def unlock_tcbs_def
    by ((rule solo_checked solo_assert, (simp add: r cur_kinfo run_simps; fail)+)+, rule solo_now, rule fin)
qed

section \<open>Leaving the kernel thread\<close>

lemma leave_tab:
  assumes c: "current i a s x p t c ki" and st: "st \<noteq> FINISHED"
  shows "tab (a_thr (a_leave st r a)) (tcbs s) ((tcb_heap s)(p \<mapsto> c\<lparr>state := st\<rparr>)) (x(p \<mapsto> (resume_code p r, b)))"
proof -
  note d = currentD [OF c] and R = current_rel [OF c]
  have "thr (tcbs s) (x(p \<mapsto> (resume_code p r, b))) (a_cur a) (t\<lparr>a_status := st, a_next := r\<rparr>) (c\<lparr>state := st\<rparr>)"
    using R(4) d(17) st by (auto simp: thr_def)
  from tab_upd [OF rel0D(2) [OF R(1)] R(2) this] d(17) R(2) show ?thesis by (simp add: a_leave_def a_upd_def)
qed

lemma a_leave_simps [simp]:
  "a_cur (a_leave st r a) = a_cur a" "a_ready (a_leave st r a) = a_ready a" "a_sems (a_leave st r a) = a_sems a"
  "a_mem (a_leave st r a) = a_mem a" "dom (a_thr (a_leave st r a)) = dom (a_thr a)"
  by (auto simp: a_leave_def a_upd_def)

lemma heap_upd_stk:
  assumes "current i a s x p t c ki"
  shows "stk ((tcb_heap s)(p \<mapsto> c\<lparr>state := st\<rparr>)) (blocks s) (sys_stacks s)"
  by (rule stk_upd [OF rel0D(3) [OF current_rel(1) [OF assms]] currentD(12) [OF assms]]) simp_all

text \<open>Every list of distinct threads is short.\<close>

lemma short_list:
  assumes "distinct ns" "set ns \<subseteq> {..<UTHREAD_MAX_THREADS}"
  shows "int (length ns) < INT_MAX"
proof -
  have "card (set ns) \<le> UTHREAD_MAX_THREADS" using card_mono [OF _ assms(2)] by simp
  then show ?thesis using distinct_card [OF assms(1)] by (simp add: UTHREAD_MAX_THREADS_def INT_MAX_def)
qed

lemma tab_bound: "tab A T H x \<Longrightarrow> dom A \<subseteq> {..<UTHREAD_MAX_THREADS}"
  by (auto simp: tab_def)

lemma ready_short:
  assumes "a_wf a" "tab (a_thr a) T H x"
  shows "int (length (a_ready a)) < INT_MAX"
  using a_wfD(1,2) [OF assms(1)] tab_bound [OF assms(2)] by (intro short_list) auto

lemma yield_rel:
  assumes c: "current i a s x p t c ki" and m: "exit_status m = None" and wf: "a_wf a" and d: "a_yield k a = Some a'"
  shows "solo i (\<lambda>_. True) (rel i a') (here i s x (User (U_yield k)) m)"
proof -
  note r = currentD [OF c] and R = current_rel [OF c]
  note R0 = rel0D [OF R(1)]
  note S = singleD [OF R0(1)]
  let ?a = "(a_leave READY (Go k) a)\<lparr>a_ready := a_ready a @ [a_cur a]\<rparr>"
  have rq: "queue_rep (rq_queue (rqueue s)) (map (tcbs s) (a_ready a))" "rq_not_empty (rqueue s) = Sem_value (length (a_ready a))"
    using R0(5) by (simp_all add: ready_is_def)
  have len: "int (length (a_ready a)) < INT_MAX" by (rule ready_short [OF wf R0(2)])
  have brk: "brk s \<noteq> NULL" "brk s |\<notin>| fmdom (nodes (rq_queue (rqueue s)))"
    using lowD(2,5) [OF S(5)] below_fresh by blast+
  obtain q1 where q1: "queue_enqueue (brk s) (rq_queue (rqueue s)) p = Ok (0, q1)" "queue_rep q1 (map (tcbs s) (a_ready a) @ [p])"
    "fmdom (nodes q1) = finsert (brk s) (fmdom (nodes (rq_queue (rqueue s))))"
    using queue_enqueue_rep [OF rq(1) r(10) brk] len by auto
  note post = sem_post_value [OF len]
  have ready: "\<exists>t. a_thr ?a n = Some t \<and> a_status t = READY" if "n \<in> set (a_ready ?a)" for n
    using that a_wfD(2) [OF wf] R(2,3) by (auto simp: a_leave_def a_upd_def)
  have d': "a_dispatch ?a = Some a'" using d by (simp add: a_yield_def)
  show ?thesis
    unfolding uthread_yield_def run_defs
    apply (rule solo_User [OF TrueI], simp add: api_def)
    unfolding uthread_yield_def run_defs
    apply ((rule solo_rules, (simp add: r cur_kinfo run_simps q1 rq(2) post del: kthread_sem_post.simps; fail)+,
        (simp only: prod.case sched_switch.simps run_defs if_True if_False)?)+, rule dispatch_rel [OF _ ready d' m])
    unfolding rel0_def single_def
    apply (intro conjI)
    subgoal by (simp add: lib_ready_def r)
    subgoal by simp
    subgoal using S by simp
    subgoal using S by simp
    subgoal using lowD [OF S(5)] r(12) q1(3)
      by (auto simp: low_def less_Suc_eq intro: below_Suc below_enqueue split: if_splits)
    subgoal using leave_tab [OF c, of READY "Go k"] by simp
    subgoal using heap_upd_stk [OF c, of READY] r(7) by (simp add: sys_stacks_def)
    subgoal using R0(4) by simp
    subgoal using q1(2) r(17) by (simp add: ready_is_def)
    subgoal using R0(6) by simp
    subgoal using R0(7) by simp
    subgoal by simp
    done
qed

end
