(* ===== verification/Fcfs_Sem.thy ===== *)
theory Fcfs_Sem
  imports Fcfs_Ops
begin

text \<open>
  The calls on semaphores, executed by the code, do what the abstract scheduler does.
\<close>

section \<open>Parts of the relation\<close>

lemma semrD:
  assumes "semr A T S" "A n = Some (v, ws)"
  obtains y where "S n = Some y" "counter y = v" "queue_rep (sem_queue y) (map T ws)" "sem_lock y = Mutex_free"
  using assms unfolding semr_def by blast

lemma semr_upd:
  assumes "semr A T S" "counter y = v" "queue_rep (sem_queue y) (map T ws)" "sem_lock y = Mutex_free"
  shows "semr (A(n \<mapsto> (v, ws))) T (S(n \<mapsto> y))"
  using assms unfolding semr_def by auto

lemma semr_del: "semr A T S \<Longrightarrow> semr (A(n := None)) T (S(n := y))"
  unfolding semr_def by auto

text \<open>The fields that the relation is about.\<close>

definition view ::
  "shared \<Rightarrow> (bool \<times> int \<times> (nat \<Rightarrow> bool) \<times> nat \<times> ksem \<times> ksem \<times> (ktid \<times> stack_t) list) \<times> (mutex \<times> mutex \<times> mutex) \<times>
    (queue_t \<times> ksem \<times> bitvec_t) \<times> (addr \<times> addr set \<times> stack_t) \<times> (nat \<Rightarrow> addr) \<times> (addr \<Rightarrow> uthread_tcb_t option) \<times>
    (semid \<Rightarrow> uthread_sem_t option) \<times> (nat \<Rightarrow> int)" where
  "view s =
     ((inited s, quantum s, fails s, num_kthreads s, inited_sem s, exitall_sem s, map kinfo_frame (kthread_info s)),
      (tcbs_lock s, bitvec_lock s, rq_lock (rqueue s)), (rq_queue (rqueue s), rq_not_empty (rqueue s), bitvec s),
      (brk s, blocks s, abort_stack s), tcbs s, tcb_heap s, sems s, cmem s)"

lemma rel0_view:
  assumes rel: "rel0 i a s x" and v: "view s' = view s"
  shows "rel0 i a s' x"
proof -
  have k: "map kinfo_frame (kthread_info s') = map kinfo_frame (kthread_info s)" using v by (simp add: view_def)
  then have "map fst (map kinfo_frame (kthread_info s')) = map fst (map kinfo_frame (kthread_info s))"
    "map (ss_sp \<circ> snd) (map kinfo_frame (kthread_info s')) = map (ss_sp \<circ> snd) (map kinfo_frame (kthread_info s))" by simp_all
  then have k': "map kinfo_ktid (kthread_info s') = map kinfo_ktid (kthread_info s)"
    "map (\<lambda>ki. ss_sp (sched_stack (sched_info ki))) (kthread_info s') = map (\<lambda>ki. ss_sp (sched_stack (sched_info ki))) (kthread_info s)"
    by (simp_all add: kinfo_frame_def comp_def)
  have "kinfo_ktid ` set (kthread_info s') = kinfo_ktid ` set (kthread_info s)" "length (kthread_info s') = length (kthread_info s)"
    using k'(1) by (metis set_map, metis length_map)
  with rel k' v show ?thesis
    by (simp add: rel0_def single_def lib_ready_def low_def ready_is_def sys_stacks_def view_def)
qed

lemma rel0_sems:
  assumes "rel0 i a s x" "semr A (tcbs s) S" "\<And>m y. S m = Some y \<Longrightarrow> below (brk s) (sem_queue y)"
  shows "rel0 i (a\<lparr>a_sems := A\<rparr>) (s\<lparr>sems := S\<rparr>) x"
  using assms by (auto simp: rel0_def single_def lib_ready_def ready_is_def sys_stacks_def low_def)

lemma rel0_sem:
  assumes "rel0 i a s x" "counter y = v" "queue_rep (sem_queue y) (map (tcbs s) ws)" "sem_lock y = Mutex_free" "below (brk s) (sem_queue y)"
  shows "rel0 i (a\<lparr>a_sems := (a_sems a)(n \<mapsto> (v, ws))\<rparr>) (s\<lparr>sems := (sems s)(n \<mapsto> y)\<rparr>) x"
  by (rule rel0_sems [OF assms(1) semr_upd [OF rel0D(6) [OF assms(1)] assms(2-4)]])
    (use lowD(6) [OF singleD(5) [OF rel0D(1) [OF assms(1)]]] assms(5) in \<open>auto split: if_splits\<close>)


lemma rel_goI:
  assumes rel: "rel0 i a s x" and t: "a_thr a (a_cur a) = Some t" "a_status t = RUNNING"
    and ki: "kthread_info s = [ki]" "task (sched_info ki) = NONE" "current_tid ki = int (a_cur a)" and m: "exit_status m = None"
  shows "rel i (a_goto u a) (here i s x (User u) m)"
proof (rule rel_goto [OF rel t _ m])
  note R = rel0D [OF rel]
  from R(2) t(1) obtain c where c: "tcb_in s (tcbs s (a_cur a)) c" "thr (tcbs s) x (a_cur a) t c" "a_cur a < UTHREAD_MAX_THREADS"
    by (rule tab_thread_in)
  show "running_on i (tcbs s (a_cur a)) s"
    unfolding running_on_def using singleD(1) [OF R(1)] c ki t(2) unat_tid [OF c(3)] by (intro conjI exI [of _ c]) (auto simp: thr_def)
qed

lemma ready_isD:
  assumes "ready_is s qs"
  shows "queue_rep (rq_queue (rqueue s)) qs" "rq_not_empty (rqueue s) = Sem_value (length qs)"
  using assms by (simp_all add: ready_is_def)

text \<open>A thread that is enqueued at the fresh address \<open>brk s\<close>.\<close>

lemma enqueue_fresh:
  assumes "queue_rep q qs" "p \<noteq> NULL" "int (length qs) < INT_MAX" "below b q" "b \<noteq> NULL"
  obtains q1 where "queue_enqueue b q p = Ok (0, q1)" "queue_rep q1 (qs @ [p])" "below (Suc b) q1"
proof -
  obtain q1 where "queue_enqueue b q p = Ok (0, q1)" "queue_rep q1 (qs @ [p])" "fmdom (nodes q1) = finsert b (fmdom (nodes q))"
    using queue_enqueue_rep [OF assms(1,2,5) below_fresh [OF assms(4)] assms(3)] by blast
  then show thesis using assms(4) by (intro that [of q1]) (auto intro: below_enqueue)
qed

section \<open>Semaphores\<close>

lemma new_queue: "queue_rep (snd (queue_init blank_queue)) []" "nodes (snd (queue_init blank_queue)) = fmempty"
  using queue_init_rep [of blank_queue] by (simp_all add: blank_queue_def queue_init_def)

lemma sem_init_rel:
  assumes c: "current i a s x p t c ki" and m: "exit_status m = None"
  shows "solo i (\<lambda>_. True) (rel i (a_goto (k 0) (a\<lparr>a_sems := (a_sems a)(n \<mapsto> (v, []))\<rparr>))) (here i s x (User (U_sem_init n v k)) m)"
proof -
  note r = currentD [OF c] and R = current_rel [OF c]
  let ?q = "snd (queue_init blank_queue)"
  note q = new_queue
  have rel: "rel0 i (a\<lparr>a_sems := (a_sems a)(n \<mapsto> (v, []))\<rparr>)
      (s\<lparr>sems := (sems s)(n \<mapsto> \<lparr>counter = v, sem_queue = ?q, sem_lock = Mutex_free\<rparr>)\<rparr>) x"
    by (rule rel0_sem [OF R(1)]) (use q below_empty [OF q(2)] in simp_all)
  show ?thesis
    apply (rule solo_User [OF TrueI], simp add: api_def)
    unfolding uthread_sem_init_def run_defs
    apply ((rule lib_rules, (simp add: r cur_kinfo run_simps sem_simps; fail)+, (simp only: Let_def prod.case if_True if_False simp_thms)?)+, rule solo_now)
    apply (rule rel_goI [where t = t and ki = ki, OF rel0_view [OF rel]])
    subgoal by (simp add: view_def blank_sem_def kthread_mutex_init_def)
    using R r m by simp_all
qed

lemma sem_destroy_rel:
  assumes c: "current i a s x p t c ki" and m: "exit_status m = None" and d: "a_sem_destroy n k a = Some a'"
  shows "solo i (\<lambda>_. True) (rel i a') (here i s x (User (U_sem_destroy n k)) m)"
proof -
  note r = currentD [OF c] and R = current_rel [OF c]
  note R0 = rel0D [OF R(1)]
  from d obtain v ws where n: "a_sems a n = Some (v, ws)" "a' = a_goto k (a\<lparr>a_sems := (a_sems a)(n := None)\<rparr>)"
    by (auto simp: a_sem_destroy_def split: option.splits)
  from R0(6) n(1) obtain y where y: "sems s n = Some y" "counter y = v" "queue_rep (sem_queue y) (map (tcbs s) ws)" "sem_lock y = Mutex_free"
    by (rule semrD)
  let ?y = "y\<lparr>sem_queue := (sem_queue y)\<lparr>nodes := fmempty\<rparr>, sem_lock := Mutex_destroyed\<rparr>"
  have rel: "rel0 i (a\<lparr>a_sems := (a_sems a)(n := None)\<rparr>) (s\<lparr>sems := (sems s)(n \<mapsto> ?y)\<rparr>) x"
    by (rule rel0_sems [OF R(1) semr_del [OF R0(6)]])
      (use lowD(6) [OF singleD(5) [OF R0(1)]] below_empty [of "sem_queue ?y"] in \<open>auto split: if_splits\<close>)
  show ?thesis
    unfolding n(2)
    apply (rule solo_User [OF TrueI], simp add: api_def)
    unfolding uthread_sem_destroy_def run_defs
    apply ((rule lib_rules, (simp add: r y queue_destroy_frees_all [OF y(3)] cur_kinfo run_simps sem_simps; fail)+, (simp only: Let_def prod.case if_True if_False simp_thms)?)+, rule solo_now)
    apply (rule rel_goI [where t = t and ki = ki, OF rel])
    using R r m by simp_all
qed

lemma sem_post_idle_rel:
  assumes c: "current i a s x p t c ki" and m: "exit_status m = None" and n: "a_sems a n = Some (v, [])" "v < INT_MAX"
  shows "solo i (\<lambda>_. True) (rel i (a_goto (k 0) (a\<lparr>a_sems := (a_sems a)(n \<mapsto> (v + 1, []))\<rparr>))) (here i s x (User (U_sem_post n k)) m)"
proof -
  note r = currentD [OF c] and R = current_rel [OF c]
  note R0 = rel0D [OF R(1)]
  note S = singleD [OF R0(1)]
  from R0(6) n(1) obtain y where y: "sems s n = Some y" "counter y = v" "queue_rep (sem_queue y) (map (tcbs s) [])" "sem_lock y = Mutex_free"
    by (rule semrD)
  have y': "queue_rep (sem_queue y) []" using y(3) by simp
  have rel: "rel0 i (a\<lparr>a_sems := (a_sems a)(n \<mapsto> (v + 1, []))\<rparr>) (s\<lparr>sems := (sems s)(n \<mapsto> y\<lparr>counter := v + 1\<rparr>)\<rparr>) x"
    by (rule rel0_sem [OF R(1)]) (use y lowD(6) [OF S(5) y(1)] in simp_all)
  show ?thesis
    apply (rule solo_User [OF TrueI], simp add: api_def)
    unfolding uthread_sem_post_def run_defs Let_def
    apply ((rule lib_rules, (simp add: r y n queue_size_rep [OF y'] cur_kinfo run_simps sem_simps; fail)+,
        (simp only: Let_def prod.case if_True if_False simp_thms queue_size_rep [OF y'] list.size of_nat_0 less_irrefl)?)+, rule solo_now)
    apply (rule rel_goI [where t = t and ki = ki])
    subgoal using rel by (simp add: sem_lock_same [OF y(4)])
    using R r m by simp_all
qed

text \<open>A thread that becomes ready, as the last of the ready threads.\<close>

lemma wake_rel0:
  assumes rel: "rel0 i a s x" and tw: "a_thr a w = Some tw" "a_status tw \<notin> {RUNNING, FINISHED}" and cw: "tcb_heap s (tcbs s w) = Some cw"
    and q: "queue_rep q (map (tcbs s) (a_ready a @ [w]))" "below b q" "brk s \<le> b"
    and s': "view s' = view (s\<lparr>tcb_heap := (tcb_heap s)(tcbs s w \<mapsto> cw\<lparr>state := READY\<rparr>),
      rqueue := \<lparr>rq_queue = q, rq_not_empty = Sem_value (Suc (length (a_ready a))), rq_lock = Mutex_free\<rparr>, brk := b\<rparr>)"
  shows "rel0 i (a_wake w a) s' x"
proof (rule rel0_view [OF _ s'])
  let ?s = "s\<lparr>tcb_heap := (tcb_heap s)(tcbs s w \<mapsto> cw\<lparr>state := READY\<rparr>),
      rqueue := \<lparr>rq_queue = q, rq_not_empty = Sem_value (Suc (length (a_ready a))), rq_lock = Mutex_free\<rparr>, brk := b\<rparr>"
  note R = rel0D [OF rel]
  note S = singleD [OF R(1)]
  from R(2) tw(1) obtain c where "tcb_heap s (tcbs s w) = Some c" "thr (tcbs s) x w tw c" by (rule tabD)
  then have "thr (tcbs s) x w (tw\<lparr>a_status := READY\<rparr>) (cw\<lparr>state := READY\<rparr>)" using tw(2) cw by (auto simp: thr_def)
  from tab_upd [OF R(2) tw(1) this] have tab: "tab (a_thr (a_wake w a)) (tcbs ?s) (tcb_heap ?s) x"
    by (simp add: a_wake_def a_upd_def tw(1))
  have dom: "dom (a_thr (a_wake w a)) = dom (a_thr a)" using tw(1) by (auto simp: a_wake_def a_upd_def)
  have "low ?s" unfolding low_def
    using lowD(1) [OF S(5)] cw q(2,3) by (auto dest!: lowD(7) [OF S(5)] dest: lowD(3,4,6) [OF S(5)] intro: below_mono split: if_splits)
  then have "single i ?s" using S by (simp add: single_def lib_ready_def)
  moreover have "stk (tcb_heap ?s) (blocks ?s) (sys_stacks ?s)"
    using stk_upd [OF R(3) cw, of "cw\<lparr>state := READY\<rparr>"] by (simp add: sys_stacks_def)
  ultimately show "rel0 i (a_wake w a) ?s x"
    using tab dom R(4,6,7) q(1) by (simp add: rel0_def) (simp add: a_wake_def a_upd_def ready_is_def)
qed

lemma sem_post_wake_rel:
  assumes c: "current i a s x p t c ki" and m: "exit_status m = None" and n: "a_sems a n = Some (v, w # ws)" "v < INT_MAX" and wf: "a_wf a"
  shows "solo i (\<lambda>_. True) (rel i (a_goto (k 0) (a_wake w (a\<lparr>a_sems := (a_sems a)(n \<mapsto> (v + 1, ws))\<rparr>))))
    (here i s x (User (U_sem_post n k)) m)"
proof -
  note r = currentD [OF c] and R = current_rel [OF c]
  note R0 = rel0D [OF R(1)]
  note S = singleD [OF R0(1)] and rq = ready_isD [OF R0(5)]
  from R0(6) n(1) obtain y where y: "sems s n = Some y" "counter y = v" "queue_rep (sem_queue y) (map (tcbs s) (w # ws))" "sem_lock y = Mutex_free"
    by (rule semrD)
  then have y': "queue_rep (sem_queue y) (tcbs s w # map (tcbs s) ws)" by simp
  from a_wfD(4) [OF wf n(1), of w] obtain tw where tw: "a_thr a w = Some tw" "a_status tw = WAITING_SEM" by auto
  from R0(2) tw(1) obtain cw where cw: "tcb_in s (tcbs s w) cw" "thr (tcbs s) x w tw cw" "w < UTHREAD_MAX_THREADS" by (rule tab_thread_in)
  note w = tcb_inD [OF cw(1)]
  have sw: "state cw = WAITING_SEM" using cw(2) tw(2) by (simp add: thr_def)
  have "w \<noteq> a_cur a" using tw R(2,3) by auto
  from queue_dequeue_rep [OF y'] obtain q2 where q2: "queue_dequeue (sem_queue y) = Ok (tcbs s w, q2)" "queue_rep q2 (map (tcbs s) ws)"
    "fmdom (nodes q2) |\<subseteq>| fmdom (nodes (sem_queue y))" by blast
  have len: "int (length (a_ready a)) < INT_MAX" by (rule ready_short [OF wf R0(2)])
  from enqueue_fresh [OF rq(1) w(1) _ lowD(5) [OF S(5)] lowD(2) [OF S(5)]] len obtain q1 where
    q1: "queue_enqueue (brk s) (rq_queue (rqueue s)) (tcbs s w) = Ok (0, q1)" "queue_rep q1 (map (tcbs s) (a_ready a) @ [tcbs s w])"
      "below (Suc (brk s)) q1" by auto
  note post = sem_post_value [OF len]
  have pos: "0 < 1 + int (length ws)" by simp
  let ?y = "y\<lparr>counter := v + 1, sem_queue := q2\<rparr>" and ?a = "a\<lparr>a_sems := (a_sems a)(n \<mapsto> (v + 1, ws))\<rparr>"
  let ?s = "s\<lparr>sems := (sems s)(n \<mapsto> ?y)\<rparr>"
  have rel: "rel0 i ?a ?s x"
    by (rule rel0_sem [OF R(1)]) (use y q2 below_subset [OF lowD(6) [OF S(5) y(1)] q2(3)] in simp_all)
  have rel': "rel0 i (a_wake w ?a) s' x" if "view s' = view (?s\<lparr>tcb_heap := (tcb_heap ?s)(tcbs ?s w \<mapsto> cw\<lparr>state := READY\<rparr>),
      rqueue := \<lparr>rq_queue = q1, rq_not_empty = Sem_value (Suc (length (a_ready ?a))), rq_lock = Mutex_free\<rparr>, brk := Suc (brk s)\<rparr>)" for s'
    by (rule wake_rel0 [where tw = tw, OF rel _ _ _ _ _ _ that]) (use tw w(3) q1 in simp_all)
  show ?thesis
    apply (rule solo_User [OF TrueI], simp add: api_def)
    unfolding uthread_sem_post_def run_defs Let_def
    apply ((rule lib_rules, (simp add: r y n w sw q1 q2 post rq(2) queue_size_rep [OF y'] cur_kinfo run_simps sem_simps del: kthread_sem_post.simps; fail)+,
        (simp only: Let_def prod.case if_True if_False simp_thms pos)?)+, rule solo_now)
    apply (rule rel_goI [where t = t and ki = ki, OF rel'])
    subgoal using y(4) r(4) by (cases y) (simp add: view_def)
    using R r m \<open>w \<noteq> a_cur a\<close> by (simp_all add: a_wake_def a_upd_def)
qed

lemma sem_post_rel:
  assumes c: "current i a s x p t c ki" and m: "exit_status m = None" and wf: "a_wf a" and d: "a_sem_post n k a = Some a'"
  shows "solo i (\<lambda>_. True) (rel i a') (here i s x (User (U_sem_post n k)) m)"
proof -
  from d obtain v ws where n: "a_sems a n = Some (v, ws)" "v < INT_MAX" by (auto simp: a_sem_post_def split: option.splits if_splits)
  show ?thesis
  proof (cases ws)
    case Nil
    then show ?thesis using sem_post_idle_rel [OF c m, of n v k] n d by (simp add: a_sem_post_def)
  next
    case (Cons w ws')
    then show ?thesis using sem_post_wake_rel [OF c m _ _ wf, of n v w ws' k] n d by (simp add: a_sem_post_def)
  qed
qed

section \<open>Waiting at a semaphore\<close>

text \<open>The relation after the running thread has saved its context.\<close>

lemma leave_rel0:
  assumes c: "current i a s x p t c ki" and st: "st \<noteq> FINISHED"
  shows "rel0 i (a_leave st r a) (s\<lparr>tcb_heap := (tcb_heap s)(p \<mapsto> c\<lparr>state := st\<rparr>)\<rparr>) (x(p \<mapsto> (resume_code p r, b)))"
proof -
  note d = currentD [OF c] and R0 = rel0D [OF current_rel(1) [OF c]]
  note S = singleD [OF R0(1)]
  have "low (s\<lparr>tcb_heap := (tcb_heap s)(p \<mapsto> c\<lparr>state := st\<rparr>)\<rparr>)"
    unfolding low_def using lowD [OF S(5)] d(12) by (auto split: if_splits)
  then show ?thesis
    using S R0 leave_tab [OF c st] heap_upd_stk [OF c, of st]
    by (simp add: rel0_def single_def lib_ready_def ready_is_def sys_stacks_def)
qed

lemma sems_short:
  assumes "a_wf a" "tab (a_thr a) T H x" "a_sems a n = Some (v, ws)"
  shows "int (length ws) < INT_MAX"
  using a_wfD(3,4) [OF assms(1,3)] tab_bound [OF assms(2)] by (intro short_list) auto

lemma rel0_brk:
  assumes "rel0 i a s x" "brk s \<le> b"
  shows "rel0 i a (s\<lparr>brk := b\<rparr>) x"
proof -
  note S = singleD [OF rel0D(1) [OF assms(1)]]
  have "low (s\<lparr>brk := b\<rparr>)" unfolding low_def using lowD(1,5) [OF S(5)] assms(2)
    by (auto dest!: lowD(7) [OF S(5)] dest: lowD(3,4,6) [OF S(5)] intro: below_mono)
  with assms show ?thesis by (simp add: rel0_def single_def lib_ready_def ready_is_def sys_stacks_def)
qed

text \<open>From the head of the loop on, with the lock of the semaphore held.\<close>

lemma sem_wait_loop_rel:
  assumes c: "current i a s x p t c ki" and m: "exit_status m = None" and wf: "a_wf a" and d: "a_sem_wait n k a = Some a'"
    and y: "sems s n = Some y" "sem_lock y = Mutex_free"
  shows "solo i (\<lambda>_. True) (rel i a')
    (here i (s\<lparr>sems := (sems s)(n \<mapsto> y\<lparr>sem_lock := Mutex_held i\<rparr>)\<rparr>) x (Sem_wait_loop n p (\<lambda>r. User (k r))) m)"
proof -
  note r = currentD [OF c] and R = current_rel [OF c]
  note R0 = rel0D [OF R(1)]
  note S = singleD [OF R0(1)]
  from d obtain v ws where n: "a_sems a n = Some (v, ws)" "0 \<le> v" by (auto simp: a_sem_wait_def split: option.splits if_splits)
  from R0(6) n(1) y(1) have y': "counter y = v" "queue_rep (sem_queue y) (map (tcbs s) ws)" by (auto elim: semrD)
  note low = lowD(6) [OF S(5) y(1)]
  show ?thesis
  proof (cases "v = 0")
    case True
    let ?a = "(a_leave WAITING_SEM (Rewait n k) a)\<lparr>a_sems := (a_sems a)(n \<mapsto> (0, ws @ [a_cur a]))\<rparr>"
    let ?H = "(tcb_heap s)(p \<mapsto> c\<lparr>state := WAITING_SEM\<rparr>)"
    from True d n have d': "a_dispatch ?a = Some a'" by (simp add: a_sem_wait_def)
    have ready: "\<exists>t. a_thr ?a w = Some t \<and> a_status t = READY" if "w \<in> set (a_ready ?a)" for w
      using that a_wfD(2) [OF wf] R(2,3) by (fastforce simp: a_leave_def a_upd_def)
    from enqueue_fresh [OF y'(2) r(10) _ low lowD(2) [OF S(5)]] sems_short [OF wf R0(2) n(1)] obtain q1 where
      q1: "queue_enqueue (brk s) (sem_queue y) p = Ok (0, q1)" "queue_rep q1 (map (tcbs s) ws @ [p])" "below (Suc (brk s)) q1" by auto
    let ?y = "y\<lparr>sem_queue := q1\<rparr>"
    note rel1 = rel0_brk [OF leave_rel0 [OF c, of WAITING_SEM "Rewait n k"], of "Suc (brk s)"]
    have rel: "rel0 i ?a s' (x(p \<mapsto> (resume_code p (Rewait n k), b)))"
      if "view s' = view (s\<lparr>tcb_heap := ?H, brk := Suc (brk s), sems := (sems s)(n \<mapsto> ?y)\<rparr>)" for s' b
      by (rule rel0_view [OF _ that]) (use rel0_sem [OF rel1, of ?y 0 "ws @ [a_cur a]" n b] q1(2,3) r(17) y(2) y'(1) True in simp)
    show ?thesis
      apply (rule lib_rules, rule TrueI)
      unfolding sem_wait_loop_def run_defs
      apply ((rule lib_rules, (simp add: r y y' True q1 cur_kinfo run_simps sem_simps; fail)+,
        (simp only: Let_def prod.case if_True if_False simp_thms sched_switch.simps run_defs)?)+)
      apply (rule dispatch_rel [OF _ ready d' m])
      apply (rule rel [simplified])
      using r(4,7) y(2) by (cases y) (simp add: view_def kinfo_frame_def)
  next
    case False
    then have a': "a' = a_goto (k 0) (a\<lparr>a_sems := (a_sems a)(n \<mapsto> (v - 1, ws))\<rparr>)" using n d by (simp add: a_sem_wait_def)
    have rel: "rel0 i (a\<lparr>a_sems := (a_sems a)(n \<mapsto> (v - 1, ws))\<rparr>) (s\<lparr>sems := (sems s)(n \<mapsto> y\<lparr>counter := v - 1\<rparr>)\<rparr>) x"
      by (rule rel0_sem [OF R(1)]) (use y y' low in simp_all)
    have v: "0 < v" "0 \<le> v" using n(2) False by auto
    show ?thesis
      unfolding a'
      apply (rule lib_rules, rule TrueI)
      unfolding sem_wait_loop_def run_defs
      apply ((rule lib_rules, (simp add: r y y' v cur_kinfo run_simps sem_simps; fail)+,
        (simp only: Let_def prod.case if_True if_False simp_thms False)?)+, rule solo_now)
      apply (rule rel_goI [where t = t and ki = ki])
      subgoal using rel by (simp add: sem_lock_same [OF y(2)])
      using R r m by simp_all
  qed
qed

lemma sem_wait_rel:
  assumes c: "current i a s x p t c ki" and m: "exit_status m = None" and wf: "a_wf a" and d: "a_sem_wait n k a = Some a'"
  shows "solo i (\<lambda>_. True) (rel i a') (here i s x (User (U_sem_wait n k)) m)"
    "solo i (\<lambda>_. True) (rel i a') (here i s x (resume_code p (Rewait n k)) m)"
proof -
  note r = currentD [OF c] and R0 = rel0D [OF current_rel(1) [OF c]]
  from d obtain v ws where n: "a_sems a n = Some (v, ws)" "0 \<le> v" by (auto simp: a_sem_wait_def split: option.splits if_splits)
  from R0(6) n(1) obtain y where y: "sems s n = Some y" "counter y = v" "sem_lock y = Mutex_free" by (rule semrD)
  note loop = sem_wait_loop_rel [OF c m wf d y(1,3)]
  show "solo i (\<lambda>_. True) (rel i a') (here i s x (User (U_sem_wait n k)) m)"
    apply (rule solo_User [OF TrueI], simp add: api_def)
    unfolding uthread_sem_wait_def run_defs
    by ((rule solo_checked solo_call solo_stmt solo_expr solo_assert solo_mask solo_preempted, (simp add: r y n cur_kinfo run_simps sem_simps; fail)+,
        (simp only: Let_def prod.case if_True if_False simp_thms)?)+, rule loop)
  show "solo i (\<lambda>_. True) (rel i a') (here i s x (resume_code p (Rewait n k)) m)"
    unfolding resume_code.simps
    by ((rule solo_checked solo_call solo_stmt solo_expr solo_assert solo_mask solo_preempted, (simp add: r y n cur_kinfo run_simps sem_simps; fail)+,
        (simp only: Let_def prod.case if_True if_False simp_thms)?)+, rule loop)
qed

end
