(* ===== verification/Fcfs_Join.thy ===== *)
theory Fcfs_Join
  imports Fcfs_Sem
begin

text \<open>
  Creating, ending and joining threads, executed by the code, do what the abstract scheduler does.
\<close>

section \<open>The end of a thread\<close>

lemma finish_rel0:
  assumes c: "current i a s x p t c ki" and q: "queue_rep q (map (tcbs s) js)" "below (brk s) q"
  shows "rel0 i (a_upd (a_cur a) (\<lambda>t. t\<lparr>a_status := FINISHED, a_ret := v, a_join := js\<rparr>) a)
    (s\<lparr>tcb_heap := (tcb_heap s)(p \<mapsto> c\<lparr>retval := v, state := FINISHED, join_queue := q\<rparr>)\<rparr>) x"
proof -
  note d = currentD [OF c] and R = current_rel [OF c]
  note R0 = rel0D [OF R(1)]
  note S = singleD [OF R0(1)]
  let ?c = "c\<lparr>retval := v, state := FINISHED, join_queue := q\<rparr>" and ?t = "t\<lparr>a_status := FINISHED, a_ret := v, a_join := js\<rparr>"
  have "thr (tcbs s) x (a_cur a) ?t ?c" using R(4) q(1) by (simp add: thr_def)
  from tab_upd [OF R0(2) R(2) this] have tab: "tab ((a_thr a)(a_cur a \<mapsto> ?t)) (tcbs s) ((tcb_heap s)(p \<mapsto> ?c)) x" by (simp add: d(17))
  have low: "low (s\<lparr>tcb_heap := (tcb_heap s)(p \<mapsto> ?c)\<rparr>)"
    unfolding low_def using lowD [OF S(5)] d(12) q(2) by (auto split: if_splits)
  have stk: "stk ((tcb_heap s)(p \<mapsto> ?c)) (blocks s) (sys_stacks s)" by (rule stk_upd [OF R0(3) d(12)]) simp_all
  have "insert (a_cur a) (dom (a_thr a)) = dom (a_thr a)" using R(2) by blast
  then show ?thesis
    using S R0(4-7) tab low stk by (simp add: rel0_def a_upd_def R(2) single_def lib_ready_def ready_is_def sys_stacks_def)
qed

lemma exit_last_rel:
  assumes c: "current i a s x p t c ki" and m: "exit_status m = None" and wf: "a_wf a" and j: "a_join t = []" and d: "a_exit v t a = Some a'"
  shows "solo i (\<lambda>_. True) (rel i a') (here i s x (uthread_exit v) m)"
proof -
  note r = currentD [OF c] and R = current_rel [OF c]
  have q: "queue_rep (join_queue c) []" using R(4) j by (simp add: thr_def)
  let ?a = "a_upd (a_cur a) (\<lambda>t. t\<lparr>a_status := FINISHED, a_ret := v, a_join := []\<rparr>) a"
  have d': "a_dispatch ?a = Some a'" using d j R(2) by (simp add: a_exit_def a_upd_def)
  have ready: "\<exists>t. a_thr ?a w = Some t \<and> a_status t = READY" if "w \<in> set (a_ready ?a)" for w
    using that a_wfD(2) [OF wf] R(2,3) by (fastforce simp: a_upd_def)
  have "below (brk s) (join_queue c)" using lowD(4) [OF singleD(5) [OF rel0D(1) [OF R(1)]] r(12)] .
  note rel = finish_rel0 [OF c, of "join_queue c" "[]", simplified, OF q this]
  show ?thesis
    unfolding uthread_exit_def run_defs
    apply ((rule lib_rules, (simp add: r cur_kinfo run_simps sem_simps queue_size_rep [OF q]; fail)+,
        (simp only: prod.case sched_switch.simps run_defs list.size of_nat_0 less_irrefl if_True if_False)?)+)
    apply (rule dispatch_rel [OF rel0_view [OF rel] ready d' m])
    using r(4,7) by (cases c) (simp_all add: view_def kinfo_frame_def)
qed

lemma exit_joined_rel:
  assumes c: "current i a s x p t c ki" and m: "exit_status m = None" and wf: "a_wf a" and j: "a_join t = j # js" and d: "a_exit v t a = Some a'"
  shows "solo i (\<lambda>_. True) (rel i a') (here i s x (uthread_exit v) m)"
proof -
  note r = currentD [OF c] and R = current_rel [OF c]
  note R0 = rel0D [OF R(1)]
  note S = singleD [OF R0(1)] and rq = ready_isD [OF R0(5)]
  have q: "queue_rep (join_queue c) (tcbs s j # map (tcbs s) js)" using R(4) j by (simp add: thr_def)
  from queue_dequeue_rep [OF q] obtain q2 where q2: "queue_dequeue (join_queue c) = Ok (tcbs s j, q2)" "queue_rep q2 (map (tcbs s) js)"
    "fmdom (nodes q2) |\<subseteq>| fmdom (nodes (join_queue c))" by blast
  from a_wfD(6) [OF wf R(2), of j] j obtain tj where tj: "a_thr a j = Some tj" "a_status tj = WAITING_JOIN" by auto
  from R0(2) tj(1) obtain cj where cj: "tcb_in s (tcbs s j) cj" "thr (tcbs s) x j tj cj" "j < UTHREAD_MAX_THREADS" by (rule tab_thread_in)
  note w = tcb_inD [OF cj(1)]
  have sj: "state cj = WAITING_JOIN" using cj(2) tj(2) by (simp add: thr_def)
  have ne: "j \<noteq> a_cur a" "tcbs s j \<noteq> p" using tj R(2,3) sj w(3) r(12,13) by auto
  have tid: "tcb_tid cj \<noteq> of_nat (a_cur a)" using w(5) r(17,20) ne(2) by metis
  have len: "int (length (a_ready a)) < INT_MAX" by (rule ready_short [OF wf R0(2)])
  from enqueue_fresh [OF rq(1) w(1) _ lowD(5) [OF S(5)] lowD(2) [OF S(5)]] len obtain q1 where
    q1: "queue_enqueue (brk s) (rq_queue (rqueue s)) (tcbs s j) = Ok (0, q1)" "queue_rep q1 (map (tcbs s) (a_ready a) @ [tcbs s j])"
      "below (Suc (brk s)) q1" by auto
  note post = sem_post_value [OF len]
  have pos: "0 < 1 + int (length js)" by simp
  let ?a = "a_upd (a_cur a) (\<lambda>t. t\<lparr>a_status := FINISHED, a_ret := v, a_join := js\<rparr>) a"
  let ?s = "s\<lparr>tcb_heap := (tcb_heap s)(p \<mapsto> c\<lparr>retval := v, state := FINISHED, join_queue := q2\<rparr>)\<rparr>"
  have d': "a_dispatch (a_wake j ?a) = Some a'" using d j R(2) by (simp add: a_exit_def a_upd_def)
  have ready: "\<exists>t. a_thr (a_wake j ?a) w = Some t \<and> a_status t = READY" if "w \<in> set (a_ready (a_wake j ?a))" for w
    using that a_wfD(2) [OF wf] R(2,3) ne tj by (fastforce simp: a_upd_def a_wake_def)
  have "below (brk s) q2" using below_subset [OF lowD(4) [OF S(5) r(12)] q2(3)] .
  note rel = finish_rel0 [OF c q2(2) this, of v]
  have rel': "rel0 i (a_wake j ?a) s' x" if "view s' = view (?s\<lparr>tcb_heap := (tcb_heap ?s)(tcbs ?s j \<mapsto> cj\<lparr>state := READY\<rparr>),
      rqueue := \<lparr>rq_queue = q1, rq_not_empty = Sem_value (Suc (length (a_ready ?a))), rq_lock = Mutex_free\<rparr>, brk := Suc (brk s)\<rparr>)" for s'
    by (rule wake_rel0 [where tw = tj, OF rel _ _ _ _ _ _ that]) (use tj ne w(3) q1 in \<open>simp_all add: a_upd_def\<close>)
  show ?thesis
    unfolding uthread_exit_def run_defs
    apply ((rule lib_rules, (simp add: r w sj ne tid q1 q2 post rq(2) cur_kinfo run_simps sem_simps queue_size_rep [OF q] del: kthread_sem_post.simps; fail)+,
        (simp only: prod.case sched_switch.simps run_defs pos if_True if_False)?)+)
    apply (rule dispatch_rel [OF rel' ready d' m])
    using r(4,7) by (cases c) (simp_all add: view_def kinfo_frame_def a_upd_def)
qed

lemma exit_rel:
  assumes c: "current i a s x p t c ki" and m: "exit_status m = None" and wf: "a_wf a" and d: "a_exit v t a = Some a'"
  shows "solo i (\<lambda>_. True) (rel i a') (here i s x (User (U_exit v)) m)" "solo i (\<lambda>_. True) (rel i a') (here i s x (User (U_ret v)) m)"
proof -
  have "solo i (\<lambda>_. True) (rel i a') (here i s x (uthread_exit v) m)"
    using exit_last_rel [OF c m wf _ d] exit_joined_rel [OF c m wf _ d] by (cases "a_join t") auto
  then show "solo i (\<lambda>_. True) (rel i a') (here i s x (User (U_exit v)) m)" "solo i (\<lambda>_. True) (rel i a') (here i s x (User (U_ret v)) m)"
    by (auto intro!: solo_User simp: api_def)
qed

section \<open>Joining\<close>

lemma map_upd_notin: "n \<notin> set ns \<Longrightarrow> map (T(n := p)) ns = map T ns"
  by simp

lemma semr_tab:
  assumes "semr A T S" "\<And>m v ws. A m = Some (v, ws) \<Longrightarrow> n \<notin> set ws"
  shows "semr A (T(n := p)) S"
  unfolding semr_def
proof (intro allI impI)
  fix m v ws assume A: "A m = Some (v, ws)"
  with assms(1) obtain y where "S m = Some y" "counter y = v" "queue_rep (sem_queue y) (map T ws)" "sem_lock y = Mutex_free" by (rule semrD)
  then show "\<exists>y. S m = Some y \<and> counter y = v \<and> queue_rep (sem_queue y) (map (T(n := p)) ws) \<and> sem_lock y = Mutex_free"
    by (simp only: map_upd_notin [OF assms(2) [OF A]]) blast
qed

lemma destroy_rel0:
  assumes rel: "rel0 i a s x" and wf: "a_wf a" and t: "a_thr a n = Some t" "a_status t = FINISHED" and c: "tcb_heap s (tcbs s n) = Some c"
    and bv: "bv_rep UTHREAD_MAX_THREADS bv (dom (a_thr a) - {n})"
    and s': "view s' = view (s\<lparr>bitvec := bv, tcb_heap := (tcb_heap s)(tcbs s n := None), tcbs := (tcbs s)(n := NULL),
      blocks := if stack_allocated c then blocks s - {ss_sp (uc_stack c)} else blocks s\<rparr>)"
  shows "rel0 i (a\<lparr>a_thr := (a_thr a)(n := None)\<rparr>) s' x"
proof (rule rel0_view [OF _ s'])
  let ?s = "s\<lparr>bitvec := bv, tcb_heap := (tcb_heap s)(tcbs s n := None), tcbs := (tcbs s)(n := NULL),
      blocks := if stack_allocated c then blocks s - {ss_sp (uc_stack c)} else blocks s\<rparr>"
  note R = rel0D [OF rel]
  note S = singleD [OF R(1)] and free = not_listedD [OF not_listed [OF wf t(1)]]
  have "low ?s" unfolding low_def using lowD [OF S(5)] by (auto split: if_splits)
  then have "single i ?s" using S by (simp add: single_def lib_ready_def)
  moreover have "tab (a_thr (a\<lparr>a_thr := (a_thr a)(n := None)\<rparr>)) (tcbs ?s) (tcb_heap ?s) x"
    using tab_del [OF R(2) t(1) free(3)] t(2) by simp
  moreover have "semr (a_sems a) (tcbs ?s) (sems ?s)" using semr_tab [OF R(6) free(2)] t(2) by simp
  moreover have "ready_is ?s (map (tcbs ?s) (a_ready a))" using R(5) free(1) t(2) by (simp add: ready_is_def)
  ultimately show "rel0 i (a\<lparr>a_thr := (a_thr a)(n := None)\<rparr>) ?s x"
    using stk_del [OF R(3) c] R(7) bv by (simp add: rel0_def sys_stacks_def)
qed

lemma join_finish_rel:
  assumes c: "current i a s x p t c ki" and m: "exit_status m = None" and wf: "a_wf a" and d: "a_join_finish tid pret k a = Some a'"
  shows "solo i (\<lambda>_. True) (rel i a') (here i (s\<lparr>tcbs_lock := Mutex_held i\<rparr>) x (uthread_join_finish tid pret (\<lambda>r. User (k r))) m)"
proof -
  note r = currentD [OF c] and R = current_rel [OF c]
  note R0 = rel0D [OF R(1)]
  let ?n = "unat tid"
  from d obtain tq where tq: "a_thr a ?n = Some tq" "a_status tq = FINISHED"
    and a': "a' = a_goto (k (0, if pret then Some (a_ret tq) else None)) (a\<lparr>a_thr := (a_thr a)(?n := None)\<rparr>)"
    by (auto simp: a_join_finish_def split: option.splits if_splits)
  have ne: "a_cur a \<noteq> ?n" using tq R(2,3) by auto
  from R0(2) tq(1) obtain cq where cq: "?n < UTHREAD_MAX_THREADS" "tcbs s ?n \<noteq> NULL" "tcbs s ?n \<noteq> exitall" "tcb_heap s (tcbs s ?n) = Some cq"
    "thr (tcbs s) x ?n tq cq" by (rule tabD)
  have q: "state cq = FINISHED" "retval cq = a_ret tq" "queue_rep (join_queue cq) (map (tcbs s) (a_join tq))" using cq(5) tq(2) by (simp_all add: thr_def)
  from bvid.release_rep [OF R0(4) cq(1)] obtain bv where bv: "bitvec_clear (bitvec s) (int ?n) = Ok bv"
    "bv_rep UTHREAD_MAX_THREADS bv (dom (a_thr a) - {?n})" by blast
  have stack: "ss_sp (uc_stack cq) \<noteq> NULL \<and> ss_sp (uc_stack cq) \<in> blocks s" if "stack_allocated cq"
    using R0(3) cq(4) that unfolding stk_def by blast
  have free_stack: "free_tcb_stack tid i s' = Ok (s'\<lparr>blocks := if stack_allocated cq then blocks s - {ss_sp (uc_stack cq)} else blocks s\<rparr>)"
    if "tcbs s' = tcbs s" "blocks s' = blocks s" "tcb_heap s' (tcbs s ?n) = Some t'" "stack_allocated t' = stack_allocated cq" "uc_stack t' = uc_stack cq" for s' t'
    using that cq stack by (cases "stack_allocated cq") (simp_all add: free_tcb_stack_def free_block_def tcbs_at_def tcb_at_def)
  have sint: "sint tid = uint tid" "bitvec_clear (bitvec s) (uint tid) = Ok bv" using sint_tid [OF cq(1)] bv(1) by simp_all
  note rel = destroy_rel0 [OF R(1) wf tq cq(4) bv(2)]
  show ?thesis
    unfolding uthread_join_finish_def reclaim_tid_def destroy_thread_def run_defs a'
    apply (cases pret; simp only: if_True if_False; (rule lib_rules, (simp add: r cq(1-4) q bv sint free_stack [where t' = "cq\<lparr>join_queue := (join_queue cq)\<lparr>nodes := fmempty\<rparr>\<rparr>"] queue_destroy_frees_all [OF q(3)] run_simps join_simps UTHREAD_TID_MAIN_def
          cong: if_cong; fail)+,
        (simp only: simp_thms if_True if_False)?)+, rule solo_now, rule rel_goI [where t = t and ki = ki, OF rel])
    using R(2,3) r ne m by (simp_all add: view_def)
qed

lemma join_wait_rel0:
  assumes c: "current i a s x p t c ki" and tq: "a_thr a n = Some tq" "n \<noteq> a_cur a" and cq: "tcb_heap s (tcbs s n) = Some cq"
    and q: "queue_rep q (map (tcbs s) (a_join tq @ [a_cur a]))" "below b q" "brk s \<le> b"
    and s': "view s' = view (s\<lparr>tcb_heap := (tcb_heap s)(p \<mapsto> c\<lparr>state := WAITING_JOIN\<rparr>, tcbs s n \<mapsto> cq\<lparr>join_queue := q\<rparr>), brk := b\<rparr>)"
  shows "rel0 i (a_upd n (\<lambda>t. t\<lparr>a_join := a_join t @ [a_cur a]\<rparr>) (a_leave WAITING_JOIN r a)) s' (x(p \<mapsto> (resume_code p r, msk)))"
proof (rule rel0_view [OF _ s'])
  let ?a = "a_leave WAITING_JOIN r a" and ?x = "x(p \<mapsto> (resume_code p r, msk))"
  let ?s1 = "s\<lparr>tcb_heap := (tcb_heap s)(p \<mapsto> c\<lparr>state := WAITING_JOIN\<rparr>), brk := b\<rparr>"
  let ?c = "cq\<lparr>join_queue := q\<rparr>" and ?t = "tq\<lparr>a_join := a_join tq @ [a_cur a]\<rparr>"
  let ?s = "s\<lparr>tcb_heap := (tcb_heap s)(p \<mapsto> c\<lparr>state := WAITING_JOIN\<rparr>, tcbs s n \<mapsto> ?c), brk := b\<rparr>"
  note d = currentD [OF c] and R = current_rel [OF c]
  have rel1: "rel0 i ?a ?s1 ?x" using rel0_brk [OF leave_rel0 [OF c], of WAITING_JOIN b r msk] q(3) by simp
  note R1 = rel0D [OF rel1]
  note S = singleD [OF R1(1)]
  have "tcbs s n \<noteq> p" using tab_inj [OF rel0D(2) [OF R(1)] tq(1) R(2)] tq(2) d(17) by auto
  then have cq': "tcb_heap ?s1 (tcbs s n) = Some cq" using cq by simp
  have tq': "a_thr ?a n = Some tq" using tq by (simp add: a_leave_def a_upd_def)
  from R1(2) tq' have "thr (tcbs s) ?x n tq cq" by (rule tabD) (use cq' in simp)
  then have "thr (tcbs s) ?x n ?t ?c" using q(1) by (simp add: thr_def)
  from tab_upd [OF R1(2) tq', of ?x ?t ?c] this have tab: "tab ((a_thr ?a)(n \<mapsto> ?t)) (tcbs ?s) (tcb_heap ?s) ?x" by simp
  have "low ?s" unfolding low_def
    using lowD [OF S(5)] cq' q(2) by (auto split: if_splits)
  then have "single i ?s" using S by (simp add: single_def lib_ready_def)
  moreover have "stk (tcb_heap ?s) (blocks ?s) (sys_stacks ?s)" using stk_upd [OF R1(3) cq', of ?c] by (simp add: sys_stacks_def del: fun_upd_apply)
  moreover have "insert n (dom (a_thr a)) = dom (a_thr a)" using tq(1) by blast
  ultimately show "rel0 i (a_upd n (\<lambda>t. t\<lparr>a_join := a_join t @ [a_cur a]\<rparr>) ?a) ?s ?x"
    using tab R1(4-7) by (simp add: rel0_def a_upd_def tq' ready_is_def)
qed

lemma joins_short:
  assumes "a_wf a" "tab (a_thr a) T H x" "a_thr a n = Some t"
  shows "int (length (a_join t)) < INT_MAX"
  using a_wfD(5,6) [OF assms(1,3)] tab_bound [OF assms(2)] by (intro short_list) auto

lemma join_rel:
  assumes c: "current i a s x p t c ki" and m: "exit_status m = None" and wf: "a_wf a" and d: "a_join_thread tid pret k t a = Some a'"
  shows "solo i (\<lambda>_. True) (rel i a') (here i s x (User (U_join tid pret k)) m)"
proof -
  note r = currentD [OF c] and R = current_rel [OF c]
  note R0 = rel0D [OF R(1)]
  note S = singleD [OF R0(1)]
  let ?n = "unat tid"
  from d obtain tq where tq: "a_thr a ?n = Some tq" by (auto simp: a_join_thread_def split: option.splits)
  from R0(2) tq obtain cq where cq: "?n < UTHREAD_MAX_THREADS" "tcbs s ?n \<noteq> NULL" "tcbs s ?n \<noteq> exitall" "tcb_heap s (tcbs s ?n) = Some cq"
    "thr (tcbs s) x ?n tq cq" by (rule tabD)
  show ?thesis
  proof (cases "a_status tq = FINISHED")
    case True
    then have st: "state cq = FINISHED" and d': "a_join_finish tid pret k a = Some a'"
      using cq(5) d tq by (simp_all add: thr_def a_join_thread_def)
    show ?thesis
      apply (rule solo_User [OF TrueI], simp add: api_def)
      unfolding uthread_join_def run_defs
      by ((rule lib_rules, (simp add: r cq(1-4) st cur_kinfo run_simps; fail)+, (simp only: simp_thms if_True if_False)?)+,
        rule join_finish_rel [OF c m wf d'])
  next
    case False
    have st: "state cq \<noteq> FINISHED" and q: "queue_rep (join_queue cq) (map (tcbs s) (a_join tq))" using cq(5) False by (simp_all add: thr_def)
    from False d tq have j: "a_join t = []" and ne: "?n \<noteq> a_cur a" and
      d': "a_dispatch (a_upd ?n (\<lambda>t. t\<lparr>a_join := a_join t @ [a_cur a]\<rparr>) (a_leave WAITING_JOIN (Rejoin tid pret k) a)) = Some a'" (is "a_dispatch ?a = _")
      by (auto simp: a_join_thread_def split: if_splits)
    have jq: "queue_rep (join_queue c) []" using R(4) j by (simp add: thr_def)
    have "tcbs s ?n \<noteq> p" using tab_inj [OF R0(2) tq R(2)] ne r(17) by auto
    have ready: "\<exists>t. a_thr ?a w = Some t \<and> a_status t = READY" if "w \<in> set (a_ready ?a)" for w
      using that a_wfD(2) [OF wf] R(2,3) tq by (fastforce simp: a_leave_def a_upd_def)
    from enqueue_fresh [OF q r(10) _ lowD(4) [OF S(5) cq(4)] lowD(2) [OF S(5)]] joins_short [OF wf R0(2) tq] obtain q1 where
      q1: "queue_enqueue (brk s) (join_queue cq) p = Ok (0, q1)" "queue_rep q1 (map (tcbs s) (a_join tq) @ [p])" "below (Suc (brk s)) q1" by auto
    have rel: "rel0 i ?a s' (x(p \<mapsto> (resume_code p (Rejoin tid pret k), msk)))"
      if "view s' = view (s\<lparr>tcb_heap := (tcb_heap s)(p \<mapsto> c\<lparr>state := WAITING_JOIN\<rparr>, tcbs s ?n \<mapsto> cq\<lparr>join_queue := q1\<rparr>), brk := Suc (brk s)\<rparr>)" for s' msk
      by (rule join_wait_rel0 [OF c tq ne cq(4) _ q1(3) _ that]) (use q1(2) r(17) in simp_all)
    show ?thesis
      apply (rule solo_User [OF TrueI], simp add: api_def)
      unfolding uthread_join_def run_defs
      apply ((rule solo_expr [where v = False] lib_rules, (simp add: r cq(1-4) \<open>tcbs s ?n \<noteq> p\<close> st q1 queue_size_rep [OF jq] cur_kinfo run_simps sem_simps; fail)+,
        (simp only: simp_thms if_True if_False prod.case sched_switch.simps run_defs)?)+)
      apply (rule dispatch_rel [OF _ ready d' m])
      apply (rule rel [unfolded resume_code.simps lock_tcbs_def])
      using r(4,7) by (simp add: view_def kinfo_frame_def)
  qed
qed

lemma rejoin_rel:
  assumes c: "current i a s x p t c ki" and m: "exit_status m = None" and wf: "a_wf a" and d: "a_join_finish tid pret k a = Some a'"
  shows "solo i (\<lambda>_. True) (rel i a') (here i s x (resume_code p (Rejoin tid pret k)) m)"
  unfolding resume_code.simps run_defs
  by ((rule solo_mask solo_checked, (simp add: currentD [OF c] run_simps; fail)+)+, rule join_finish_rel [OF c m wf d])

section \<open>Creating a thread\<close>

lemma brk_new:
  assumes "low s"
  shows "exitall < brk s" "tcb_heap s (brk s) = None" "brk s \<noteq> NULL"
  using lowD(1,2) [OF assms] lowD(3) [OF assms, of "brk s"] by (auto intro: ccontr)

lemma create_rel0:
  assumes rel: "rel0 i a s x" and wf: "a_wf a" and n: "a_thr a n = None" "n < UTHREAD_MAX_THREADS"
    and bv: "bv_rep UTHREAD_MAX_THREADS bv (insert n (dom (a_thr a)))"
    and c: "tcb_tid c = of_nat n" "state c = READY" "queue_rep (join_queue c) []" "nodes (join_queue c) = fmempty"
      "stack_allocated c \<Longrightarrow> ss_sp (uc_stack c) = Suc (brk s)"
    and q: "queue_rep q (map (tcbs s) (a_ready a) @ [brk s])" "below b q" "Suc (brk s) < b"
    and s': "view s' = view (s\<lparr>bitvec := bv, tcbs := (tcbs s)(n := brk s), tcb_heap := (tcb_heap s)(brk s \<mapsto> c), brk := b,
      rqueue := \<lparr>rq_queue = q, rq_not_empty = Sem_value (Suc (length (a_ready a))), rq_lock = Mutex_free\<rparr>,
      blocks := if stack_allocated c then insert (Suc (brk s)) (blocks s) else blocks s\<rparr>)"
  shows "rel0 i (a\<lparr>a_thr := (a_thr a)(n \<mapsto> \<lparr>a_status = READY, a_next = Start f v, a_ret = NULL, a_join = []\<rparr>), a_ready := a_ready a @ [n]\<rparr>)
    s' (x(brk s \<mapsto> (trampoline f v, msk)))" (is "rel0 i ?a s' ?x")
proof (rule rel0_view [OF _ s'])
  let ?s = "s\<lparr>bitvec := bv, tcbs := (tcbs s)(n := brk s), tcb_heap := (tcb_heap s)(brk s \<mapsto> c), brk := b,
      rqueue := \<lparr>rq_queue = q, rq_not_empty = Sem_value (Suc (length (a_ready a))), rq_lock = Mutex_free\<rparr>,
      blocks := if stack_allocated c then insert (Suc (brk s)) (blocks s) else blocks s\<rparr>"
  note R = rel0D [OF rel]
  note S = singleD [OF R(1)] and new = not_listedD [OF not_listed_None [OF wf n(1)]]
  have brk: "tcb_heap s (brk s) = None" "brk s \<noteq> NULL" "brk s \<noteq> exitall" by (use brk_new [OF S(5)] in simp_all)
  have fresh: "Suc (brk s) \<notin> blocks s" using lowD(7) [OF S(5), of "Suc (brk s)"] by auto
  have "low ?s" unfolding low_def
    using lowD(1) [OF S(5)] q(2,3) below_empty [OF c(4)]
    by (auto dest!: lowD(7) [OF S(5)] dest: lowD(3,4,6) [OF S(5)] intro: below_mono split: if_splits)
  then have "single i ?s" using S by (simp add: single_def lib_ready_def)
  moreover have "tab (a_thr ?a) (tcbs ?s) (tcb_heap ?s) ?x"
    using tab_new [OF R(2) n brk, of ?x "\<lparr>a_status = READY, a_next = Start f v, a_ret = NULL, a_join = []\<rparr>" c] c(1-3) wf_joins [OF wf]
    by (simp add: thr_def)
  moreover have "semr (a_sems a) (tcbs ?s) (sems ?s)" using semr_tab [OF R(6) new(2)] by simp
  moreover have "ready_is ?s (map (tcbs ?s) (a_ready ?a))" using q(1) new(1) by (simp add: ready_is_def)
  moreover have "stk (tcb_heap ?s) (blocks ?s) (sys_stacks ?s)"
    using stk_new [OF R(3) brk(1), of c "Suc (brk s)" "blocks ?s"] c(5) fresh by (auto simp: sys_stacks_def)
  ultimately show "rel0 i ?a ?s ?x" using R(7) bv by (simp add: rel0_def)
qed

lemma create_rel:
  assumes c: "current i a s x p t c ki" and m: "exit_status m = None" and wf: "a_wf a" and d: "a_create f v k a = Some a'"
  shows "solo i (\<lambda>_. True) (rel i a') (here i s x (User (U_create f v b sz k)) m)"
proof -
  note r = currentD [OF c] and R = current_rel [OF c]
  note R0 = rel0D [OF R(1)]
  note S = singleD [OF R0(1)] and rq = ready_isD [OF R0(5)]
  let ?t = "\<lparr>a_status = READY, a_next = Start f v, a_ret = NULL, a_join = []\<rparr>"
  from d obtain n where n: "a_free (a_thr a) 0 UTHREAD_MAX_THREADS = Some n"
    and a': "a' = a_goto (k (0, Some (of_nat n))) (a\<lparr>a_thr := (a_thr a)(n \<mapsto> ?t), a_ready := a_ready a @ [n]\<rparr>)"
    by (auto simp: a_create_def split: option.splits)
  from a_free_least [OF n] have n': "n < UTHREAD_MAX_THREADS" "a_thr a n = None" "n \<notin> dom (a_thr a)" "{..<n} \<subseteq> dom (a_thr a)" by auto
  note bv1 = bvid.first_free [OF R0(4) n'(1,3,4)]
  from bvid.mark_rep [OF R0(4) n'(1)] obtain bv where bv: "bitvec_set (bitvec s) (int n) = Ok bv" "bv_rep UTHREAD_MAX_THREADS bv (insert n (dom (a_thr a)))"
    by blast
  have brk: "exitall < brk s" "tcb_heap s (brk s) = None" "brk s \<noteq> NULL"
    by (rule brk_new [OF S(5)])+
  have len: "int (length (a_ready a)) < INT_MAX" by (rule ready_short [OF wf R0(2)])
  note post = sem_post_value [OF len]
  let ?b = "if b = NULL then Suc (Suc (brk s)) else Suc (brk s)"
  have "int (length (map (tcbs s) (a_ready a))) < INT_MAX" "brk s \<le> ?b" "?b \<noteq> NULL" using len by simp_all
  from enqueue_fresh [OF rq(1) brk(3) this(1) below_mono [OF lowD(5) [OF S(5)] this(2)] this(3)] obtain q1 where
    q: "queue_enqueue ?b (rq_queue (rqueue s)) (brk s) = Ok (0, q1)" "queue_rep q1 (map (tcbs s) (a_ready a) @ [brk s])" "below (Suc ?b) q1" .
  note rel = create_rel0 [OF R(1) wf n'(2,1) bv(2) _ _ _ _ _ q(2,3)]
  let ?c = "\<lparr>tcb_tid = of_nat n, stack_allocated = (b = NULL), state = READY, retval = NULL, join_queue = snd (queue_init blank_queue),
    uc_stack = blank_stack\<lparr>ss_size := if sz \<noteq> 0 then sz else UTHREAD_DEF_STACK_SIZE, ss_sp := if b = NULL then Suc (brk s) else b, ss_flags := 0\<rparr>,
    uc_link_abort = True\<rparr>"
  note q0 = new_queue
  have cur: "a_cur a \<noteq> n" using n'(2) R(2) by auto
  show ?thesis
    unfolding a'
    apply (rule solo_User [OF TrueI], simp add: api_def)
    apply (rule create_picks [OF S(1) bv1 bv(1)])
      apply simp
     apply simp
    unfolding create_defs run_defs
    apply ((rule lib_rules, (simp add: r q(1) brk n' rq post unat_tid [OF n'(1)] cur_kinfo run_simps create_simps
          del: kthread_sem_post.simps cong: if_cong; fail)+,
        (simp only: prod.case Let_def brk if_True if_False simp_thms)?)+, rule solo_now, rule rel_goI [where t = t and ki = ki])
    subgoal by (rule rel [where c = ?c]) (use q0 r(4,5,6) in \<open>simp_all add: view_def\<close>)
    using R r cur m by simp_all
qed

end
