(* ===== verification/Fcfs_Boot.thy ===== *)
theory Fcfs_Boot
  imports Fcfs_Join
begin

text \<open>
  Every step of the abstract scheduler is followed by the code; initialisation and teardown with one kernel thread.
\<close>

section \<open>Forward simulation\<close>

text \<open>
  What a simulation needs: a step function, the result \<open>steps n\<close> of at most \<open>n\<close> steps, an invariant \<open>ok\<close>, a relation to
  the concrete states, and a notion \<open>reaches\<close> of concrete execution that can be composed. Then the concrete system follows
  every abstract run.
\<close>

locale forward_simulation =
  fixes step :: "'a \<Rightarrow> 'a option" and steps :: "nat \<Rightarrow> 'a \<Rightarrow> 'a" and ok :: "'a \<Rightarrow> bool"
    and R :: "'a \<Rightarrow> 'm \<Rightarrow> bool" and reaches :: "('m \<Rightarrow> bool) \<Rightarrow> 'm \<Rightarrow> bool"
  assumes steps_0: "steps 0 a = a"
    and steps_Suc: "steps (Suc n) a = (case step a of None \<Rightarrow> a | Some b \<Rightarrow> steps n b)"
    and ok_step: "ok a \<Longrightarrow> step a = Some b \<Longrightarrow> ok b"
    and sim_step: "R a m \<Longrightarrow> ok a \<Longrightarrow> step a = Some b \<Longrightarrow> reaches (R b) m"
    and reaches_now: "Q m \<Longrightarrow> reaches Q m"
    and reaches_trans: "reaches Q m \<Longrightarrow> (\<And>m'. Q m' \<Longrightarrow> reaches Q' m') \<Longrightarrow> reaches Q' m"
begin

lemma follows: "R a m \<Longrightarrow> ok a \<Longrightarrow> reaches (R (steps n a)) m"
proof (induction n arbitrary: a m)
  case 0
  then show ?case by (simp add: steps_0 reaches_now)
next
  case (Suc n)
  show ?case
  proof (cases "step a")
    case None
    with Suc.prems show ?thesis by (simp add: steps_Suc reaches_now)
  next
    case (Some b)
    have "reaches (R b) m" by (rule sim_step [OF Suc.prems Some])
    moreover have "ok b" by (rule ok_step [OF Suc.prems(2) Some])
    ultimately show ?thesis using Suc.IH Some by (auto simp: steps_Suc intro: reaches_trans)
  qed
qed

end

section \<open>Every step\<close>

lemma astep_rel:
  assumes rel: "rel i a m" and wf: "a_wf a" and d: "astep a = Some a'"
  shows "solo i (\<lambda>_. True) (rel i a') m"
proof -
  from rel obtain t c ki where c: "current i a (sh m) (ctxs m) (tcbs (sh m) (a_cur a)) t c ki" and m: "exit_status m = None"
    and here: "m = here i (sh m) (ctxs m) (resume_code (tcbs (sh m) (a_cur a)) (a_next t)) m" by (rule rel_current)
  note t = current_rel(2) [OF c]
  have "solo i (\<lambda>_. True) (rel i a') (here i (sh m) (ctxs m) (resume_code (tcbs (sh m) (a_cur a)) (a_next t)) m)"
  proof (cases "a_next t")
    case (Go u)
    note step = d [unfolded astep_def, simplified t Go option.case resume.case]
    show ?thesis
      using step unfolding Go resume_code.simps
      by (cases u) (auto intro: self_rel [OF c m] mem_rel [OF c m] yield_rel [OF c m wf] create_rel [OF c m wf] exit_rel [OF c m wf]
          join_rel [OF c m wf] sem_init_rel [OF c m] sem_post_rel [OF c m wf] sem_wait_rel(1) [OF c m wf] sem_destroy_rel [OF c m] split: prod.splits)
  next
    case (Start f v)
    with d t show ?thesis using start_rel [OF c m, of f v] by (auto simp: astep_def)
  next
    case (Rewait n k)
    with d t show ?thesis using sem_wait_rel(2) [OF c m wf] by (simp add: astep_def)
  next
    case (Rejoin tid pret k)
    with d t show ?thesis using rejoin_rel [OF c m wf] by (simp add: astep_def)
  qed
  then show ?thesis using here by simp
qed

interpretation fcfs: forward_simulation astep arun a_ok "rel i" "solo i (\<lambda>_. True)" for i
proof (unfold_locales, goal_cases)
  case (4 a m b)
  then show ?case by (intro astep_rel) (simp_all add: a_ok_def)
next
  case (6 Q m Q')
  then show ?case by (rule solo_trans)
qed (simp_all add: ok_astep solo_now)

section \<open>Initialisation with one kernel thread\<close>

lemmas init_defs = uthread_init_def Let_def sys_or_abort_def init_sem_of_def mutex_init_or_abort_def get_next_tid_def
lemmas init_simps = kthread_mutex_init_def init_bitvec_def malloc_tcb_def on_tcb_def init_tcb_def blank_tcb_def init_abort_ctx_def
  new_kinfo_def allocate_stack_def UTHREAD_TID_MAIN_def

lemma init_rel:
  assumes m: "exit_status m = None"
  shows "solo i (\<lambda>_. True) (rel i (a_init mem (k 0)))
    (here i ((initial_shared (\<lambda>_. False) i)\<lparr>cmem := mem\<rparr>) (\<lambda>_. None) (User (U_init 1 0 k)) m)"
proof -
  let ?b = "\<lparr>nbits = 0, nbytes = 0, vec = None\<rparr>"
  have "0 < UTHREAD_MAX_THREADS" "8 dvd UTHREAD_MAX_THREADS" "int UTHREAD_MAX_THREADS \<le> INT_MAX" by (simp_all add: UTHREAD_MAX_THREADS_def INT_MAX_def)
  from this(1) bitvec_init_rep [OF this, of ?b] obtain bv0 where
    b0: "0 < UTHREAD_MAX_THREADS" "bitvec_init True ?b UTHREAD_MAX_THREADS = Ok (0, bv0)" "bv_rep UTHREAD_MAX_THREADS bv0 {}" by blast
  from bvid.first_free [OF b0(3), of 0] b0(1) have b1: "bitvec_first_cleared_index bv0 = Ok 0" by simp
  from bvid.mark_rep [OF b0(3,1)] obtain bv1 where b2: "bitvec_set bv0 0 = Ok bv1" "bv_rep UTHREAD_MAX_THREADS bv1 {0}" by auto
  have n: "nat (1 mod 2 ^ 64) = 1" "new_kinfos 1 j k' = stmt (new_kinfo j) k'" "size_pred 1 = 0" for j k' by (simp_all add: size_pred_def)
  note q0 = new_queue
  show ?thesis
    apply (rule solo_User [OF TrueI], simp add: api_def)
    unfolding init_defs run_defs n
    apply ((rule lib_rules, (simp add: initial_shared_def run_simps init_simps b0 b1 b2; fail)+,
        (simp only: prod.case Let_def if_True if_False simp_thms diff_self_eq_0 create_kthreads.simps post_all_inited.simps)?)+, rule solo_now)
    unfolding rel_def rel0_def single_def
    apply (intro conjI)
    subgoal by (simp add: lib_ready_def)
    subgoal by simp
    subgoal by (simp add: kthread_sem_init_def SEM_VALUE_MAX_def)
    subgoal by (simp add: kthread_sem_init_def SEM_VALUE_MAX_def)
    subgoal by (simp add: low_def exitall_def q0 below_empty)
    subgoal using b0(1) q0(1) by (auto simp: tab_def thr_def a_init_def exitall_def)
    subgoal by (auto simp: stk_def sys_stacks_def)
    subgoal using b2(2) by (simp add: a_init_def)
    subgoal using q0(1) by (simp add: ready_is_def a_init_def kthread_sem_init_def SEM_VALUE_MAX_def)
    subgoal by (simp add: semr_def a_init_def)
    subgoal by (simp add: a_init_def)
    subgoal using m by simp
    subgoal using b0(1) by (simp add: a_init_def running_on_def lib_ready_def tcb_in_def exitall_def)
    done
qed

section \<open>Teardown\<close>

text \<open>All threads can be destroyed; \<open>sys\<close> are the stacks of the library.\<close>

definition dead :: "addr list \<Rightarrow> shared \<Rightarrow> bool" where
  "dead sys s \<longleftrightarrow>
     (\<forall>n. tcbs s n \<noteq> NULL \<longrightarrow> n < UTHREAD_MAX_THREADS \<and>
        (\<exists>c qs. tcb_heap s (tcbs s n) = Some c \<and> tcb_tid c = of_nat n \<and> queue_rep (join_queue c) qs)) \<and>
     stk (tcb_heap s) (blocks s) sys"

lemma deadD:
  assumes "dead sys s" "tcbs s n \<noteq> NULL"
  obtains c qs where "n < UTHREAD_MAX_THREADS" "tcb_heap s (tcbs s n) = Some c" "tcb_tid c = of_nat n" "queue_rep (join_queue c) qs"
    "stack_allocated c \<longrightarrow> ss_sp (uc_stack c) \<noteq> NULL \<and> ss_sp (uc_stack c) \<in> blocks s - set sys"
  using assms unfolding dead_def stk_def by blast

lemma dead_inj:
  assumes "dead sys s" "tcbs s n \<noteq> NULL" "tcbs s n' = tcbs s n"
  shows "n' = n"
proof -
  from assms(1,2) obtain c where c: "n < UTHREAD_MAX_THREADS" "tcb_heap s (tcbs s n) = Some c" "tcb_tid c = of_nat n" by (rule deadD)
  from assms(1) obtain c' where c': "n' < UTHREAD_MAX_THREADS" "tcb_heap s (tcbs s n') = Some c'" "tcb_tid c' = of_nat n'"
    by (rule deadD [of sys s n']) (use assms in simp_all)
  show ?thesis using c c' assms(3) unat_tid by (metis option.inject)
qed

lemma destroy_now:
  assumes dead: "dead sys s" and n: "tcbs s n \<noteq> NULL"
  shows "\<exists>H B. destroy_thread_now (of_nat n) i s = Ok (s\<lparr>tcb_heap := H, blocks := B, tcbs := (tcbs s)(n := NULL)\<rparr>) \<and>
    dead sys (s\<lparr>tcb_heap := H, blocks := B, tcbs := (tcbs s)(n := NULL)\<rparr>)"
proof -
  from dead n obtain c qs where c: "n < UTHREAD_MAX_THREADS" "tcb_heap s (tcbs s n) = Some c" "tcb_tid c = of_nat n" "queue_rep (join_queue c) qs"
    "stack_allocated c \<longrightarrow> ss_sp (uc_stack c) \<noteq> NULL \<and> ss_sp (uc_stack c) \<in> blocks s - set sys" by (rule deadD)
  let ?H = "(tcb_heap s)(tcbs s n := None)" and ?B = "if stack_allocated c then blocks s - {ss_sp (uc_stack c)} else blocks s"
  let ?s = "s\<lparr>tcb_heap := ?H, blocks := ?B, tcbs := (tcbs s)(n := NULL)\<rparr>"
  have "destroy_thread_now (of_nat n) i s = Ok ?s"
    using c n unat_tid [OF c(1)]
    by (cases "stack_allocated c") (simp_all add: destroy_thread_now_def destroy_join_queue_def free_tcb_stack_def free_tcb_def clear_tcb_def
        free_block_def tcbs_at_def tcb_at_def queue_destroy_frees_all)
  moreover have stk: "stk (tcb_heap s) (blocks s) sys" using dead by (simp add: dead_def)
  have "dead sys ?s"
    using dead stk_del [OF stk c(2)] dead_inj [OF dead n] unfolding dead_def by (auto split: if_splits)
  ultimately show ?thesis by blast
qed

lemma destroy_zombies_ok:
  "dead sys s \<Longrightarrow> \<exists>H B T. destroy_zombies js i s = Ok (s\<lparr>tcb_heap := H, blocks := B, tcbs := T\<rparr>) \<and>
    dead sys (s\<lparr>tcb_heap := H, blocks := B, tcbs := T\<rparr>) \<and> (\<forall>n. n \<notin> set js \<longrightarrow> T n = tcbs s n)"
proof (induction js arbitrary: s)
  case Nil
  then show ?case by (intro exI [of _ "tcb_heap s"] exI [of _ "blocks s"] exI [of _ "tcbs s"]) simp
next
  case (Cons j js)
  show ?case
  proof (cases "tcbs s j = NULL")
    case True
    with Cons show ?thesis by fastforce
  next
    case False
    from destroy_now [OF Cons.prems this] obtain H B where
      d: "destroy_thread_now (of_nat j) i s = Ok (s\<lparr>tcb_heap := H, blocks := B, tcbs := (tcbs s)(j := NULL)\<rparr>)"
        "dead sys (s\<lparr>tcb_heap := H, blocks := B, tcbs := (tcbs s)(j := NULL)\<rparr>)" by blast
    from Cons.IH [OF d(2)] d(1) False show ?thesis by fastforce
  qed
qed

lemma rel_dead:
  assumes "rel0 i a s x"
  shows "dead (sys_stacks s) s"
proof -
  note R = rel0D [OF assms]
  have "n < UTHREAD_MAX_THREADS \<and> (\<exists>c qs. tcb_heap s (tcbs s n) = Some c \<and> tcb_tid c = of_nat n \<and> queue_rep (join_queue c) qs)"
    if "tcbs s n \<noteq> NULL" for n
  proof -
    from that R(2) obtain t where "a_thr a n = Some t" by (cases "a_thr a n") (simp add: tab_def)
    with R(2) obtain c where "n < UTHREAD_MAX_THREADS" "tcb_heap s (tcbs s n) = Some c" "thr (tcbs s) x n t c" by (rule tabD)
    then show ?thesis by (auto simp: thr_def)
  qed
  with R(3) show ?thesis unfolding dead_def by blast
qed

lemma single_kinfo:
  assumes "single i s"
  obtains ki where "kthread_info s = [ki]" "kinfo_ktid ki = i" "num_kthreads s = 1"
proof -
  from singleD(2) [OF assms] obtain ki where "kthread_info s = [ki]" by (auto simp: length_Suc_conv)
  moreover from this singleD(1) [OF assms] have "kinfo_ktid ki = i" "num_kthreads s = 1" by (auto simp: lib_ready_def)
  ultimately show thesis by (rule that)
qed

lemma teardown_finish_ok:
  assumes rel0: "rel0 i a s x" and zero: "a_thr a 0 \<noteq> None" and m: "exit_status m = None"
  shows "solo i (\<lambda>_. True) (\<lambda>m'. kcode m' i = Some (User k) \<and> cmem (sh m') = a_mem a \<and> exit_status m' = None)
    (here i s x (teardown_finish (User k)) m)"
proof -
  note R = rel0D [OF rel0]
  note S = singleD [OF R(1)] and rq = ready_isD [OF R(5)]
  note r = lib_readyD [OF S(1)]
  from R(1) obtain ki where ki: "kthread_info s = [ki]" "kinfo_ktid ki = i" "num_kthreads s = 1" by (rule single_kinfo)
  let ?a = "ss_sp (abort_stack s)" and ?k = "ss_sp (sched_stack (sched_info ki))"
  have sys: "sys_stacks s = [?a, ?k]" using ki by (simp add: sys_stacks_def)
  let ?s1 = "s\<lparr>rqueue := (rqueue s)\<lparr>rq_lock := Mutex_destroyed, rq_not_empty := Sem_destroyed, rq_queue := (rq_queue (rqueue s))\<lparr>nodes := fmempty\<rparr>\<rparr>,
    bitvec := bitvec_destroy (bitvec s), bitvec_lock := Mutex_destroyed, tcbs_lock := Mutex_destroyed\<rparr>"
  have "dead [?a, ?k] ?s1" using rel_dead [OF rel0] by (simp add: sys dead_def)
  from destroy_zombies_ok [OF this, of "[1..<UTHREAD_MAX_THREADS]" i] obtain H B T where
    z: "destroy_zombies [1..<UTHREAD_MAX_THREADS] i ?s1 = Ok (?s1\<lparr>tcb_heap := H, blocks := B, tcbs := T\<rparr>)"
      "dead [?a, ?k] (?s1\<lparr>tcb_heap := H, blocks := B, tcbs := T\<rparr>)" and T: "T 0 = tcbs s 0" by force
  from zero obtain t where "a_thr a 0 = Some t" by blast
  with R(2) have "tcbs s 0 \<noteq> NULL" "0 < UTHREAD_MAX_THREADS" by (auto elim: tabD)
  with z(2) T obtain c qs where c: "H (T 0) = Some c" "queue_rep (join_queue c) qs" "T 0 \<noteq> NULL" "0 < UTHREAD_MAX_THREADS"
    "stack_allocated c \<longrightarrow> ss_sp (uc_stack c) \<noteq> NULL \<and> ss_sp (uc_stack c) \<in> B - set [?a, ?k]"
    by (auto elim: deadD [of _ _ 0])
  then have own: "stack_allocated c \<Longrightarrow> ss_sp (uc_stack c) \<noteq> NULL" "stack_allocated c \<Longrightarrow> ss_sp (uc_stack c) \<in> B"
    "stack_allocated c \<Longrightarrow> ss_sp (uc_stack c) \<noteq> ?a" "stack_allocated c \<Longrightarrow> ss_sp (uc_stack c) \<noteq> ?k" by simp_all
  from z(2) have st: "?a \<noteq> NULL" "?k \<noteq> NULL" "?a \<in> B" "?k \<in> B" "?a \<noteq> ?k" by (auto simp: dead_def stk_def)
  show ?thesis
    unfolding teardown_finish_def destroy_thread_def
    apply ((rule lib_rules, (simp add: r ki S(3,4) rq(2) queue_destroy_frees_all [OF rq(1)] spin_destroy_def destroy_rqueue_def MAIN_KTHREAD_INDEX_def EBUSY_def; fail)+,
        (simp only: prod.case Let_def if_True if_False simp_thms join_kthreads.simps diff_Suc_1)?)+, rule z(1))
    apply (cases "stack_allocated c"; (rule lib_rules, (simp add: r ki S(3,4) c(1-4) st st(5) [symmetric] own queue_destroy_frees_all [OF c(2)] free_block_def free_kthread_info_def
      tcbs_at_def tcb_at_def destroy_join_queue_def free_tcb_stack_def free_tcb_def clear_tcb_def; fail)+)+; rule solo_now)
    using R(7) m by simp_all
qed

lemma exitall_not_NULL: "exitall \<noteq> NULL"
  by (simp add: exitall_def)

text \<open>The main thread is dispatched again, as the only ready thread.\<close>

lemma back_rel0:
  assumes c: "current i a s x p t c ki" and ready: "a_ready a = []" and h: "handed_over i s1 (x(p \<mapsto> y)) p [] code m m'"
    and s1: "unchanged (s\<lparr>brk := b\<rparr>) s1" "tcbs s1 = tcbs s" "sems s1 = sems s" "tcb_heap s1 = (tcb_heap s)(p \<mapsto> c\<lparr>state := READY\<rparr>)"
      "below b (rq_queue (rqueue s1))" "brk s \<le> b"
  shows "rel0 i a (sh m') (x(p \<mapsto> y))"
proof -
  note d = currentD [OF c] and R = current_rel [OF c]
  let ?s = "sh m'"
  note B = rel0D [OF rel0_brk [OF R(1) s1(6)]]
  note S = singleD [OF B(1)]
  from h have f: "running_on i p ?s" "ready_is ?s []" "tcb_heap ?s = (tcb_heap s1)(p := map_option (\<lambda>t. t\<lparr>state := RUNNING\<rparr>) (tcb_heap s1 p))"
    "tcbs ?s = tcbs s1" "sems ?s = sems s1" "unchanged s1 ?s" "fmdom (nodes (rq_queue (rqueue ?s))) |\<subseteq>| fmdom (nodes (rq_queue (rqueue s1)))"
    by (simp_all add: handed_over_def)
  have u: "unchanged (s\<lparr>brk := b\<rparr>) ?s" using s1(1) f(6) by (simp add: unchanged_def)
  have "c\<lparr>state := RUNNING\<rparr> = c" using d(13) by (cases c) simp
  then have heap: "tcb_heap ?s = tcb_heap s" using f(3) s1(4) d(12) by auto
  have "low ?s" unfolding low_def
    using lowD [OF S(5)] below_subset [OF s1(5) f(7)] u by (auto simp: unchanged_def heap f(5) s1(3))
  moreover have "length (kthread_info ?s) = 1" using S(2) u map_eq_imp_length_eq unfolding unchanged_def by fastforce
  ultimately have "single i ?s" using S u f(1) by (simp add: single_def running_on_def unchanged_def)
  moreover have "thr (tcbs s) (x(p \<mapsto> y)) (a_cur a) t c" using R(3,4) by (simp add: thr_def)
  from tab_upd [OF rel0D(2) [OF R(1)] R(2) this] have "tab (a_thr a) (tcbs ?s) (tcb_heap ?s) (x(p \<mapsto> y))"
    using d(12,17) R(2) by (simp add: heap f(4) s1(2) fun_upd_idem)
  moreover have "sys_stacks ?s = sys_stacks s" using sys_stacks_frame [OF u] by (simp add: sys_stacks_def)
  ultimately show ?thesis
    using B(3-7) u f(2) ready by (simp add: rel0_def unchanged_def heap f(4,5) s1(2,3) sys_stacks_def)
qed

lemma back_finish:
  assumes c: "current i a s x p t c ki" and m: "exit_status m = None" and ready: "a_ready a = []" and zero: "a_thr a 0 \<noteq> None"
    and h: "handed_over i s1 (x(p \<mapsto> y)) p [] (teardown_finish (User k)) m m'"
    and s1: "unchanged (s\<lparr>brk := b\<rparr>) s1" "tcbs s1 = tcbs s" "sems s1 = sems s" "tcb_heap s1 = (tcb_heap s)(p \<mapsto> c\<lparr>state := READY\<rparr>)"
      "below b (rq_queue (rqueue s1))" "brk s \<le> b"
  shows "solo i (\<lambda>_. True) (\<lambda>m'. kcode m' i = Some (User k) \<and> cmem (sh m') = a_mem a \<and> exit_status m' = None) m'"
proof -
  from h have f: "kcode m' i = Some (teardown_finish (User k))" "ctxs m' = x(p \<mapsto> y)" "exit_status m' = None"
    using m by (simp_all add: handed_over_def)
  have "here i (sh m') (x(p \<mapsto> y)) (teardown_finish (User k)) m' = m'" using here_self [OF f(1)] f(2) by simp
  with teardown_finish_ok [OF back_rel0 [OF c ready h s1] zero f(3), of k] show ?thesis by simp
qed

lemma teardown_ok:
  assumes c: "current i a s x p t c ki" and m: "exit_status m = None" and ready: "a_ready a = []" and zero: "a_thr a 0 \<noteq> None"
  shows "solo i (\<lambda>_. True) (\<lambda>m'. kcode m' i = Some (User k) \<and> cmem (sh m') = a_mem a \<and> exit_status m' = None)
    (here i s x (User (U_teardown k)) m)" (is "solo i _ ?Q _")
proof -
  note r = currentD [OF c] and R = current_rel [OF c]
  note R0 = rel0D [OF R(1)]
  note S = singleD [OF R0(1)] and rq = ready_isD [OF R0(5)]
  note brk = lowD(2) [OF S(5)]
  have q0: "queue_rep (rq_queue (rqueue s)) []" "rq_not_empty (rqueue s) = Sem_value 0" using rq ready by simp_all
  from enqueue_fresh [OF q0(1) exitall_not_NULL _ lowD(5) [OF S(5)] brk] obtain q1 where
    q1: "queue_enqueue (brk s) (rq_queue (rqueue s)) exitall = Ok (0, q1)" "queue_rep q1 [exitall]" "below (Suc (brk s)) q1"
    by (auto simp: INT_MAX_def)
  from enqueue_fresh [OF q1(2) r(10) _ q1(3)] obtain q2 where
    q2: "queue_enqueue (Suc (brk s)) q1 p = Ok (0, q2)" "queue_rep q2 [exitall, p]" "below (Suc (Suc (brk s))) q2"
    by (auto simp: INT_MAX_def)
  from queue_dequeue_rep [OF q2(2)] obtain q3 where
    q3: "queue_dequeue q2 = Ok (exitall, q3)" "queue_rep q3 [p]" "fmdom (nodes q3) |\<subseteq>| fmdom (nodes q2)" by blast
  have post: "kthread_sem_post (Sem_value 0) = Ok (0, Sem_value (Suc 0))" "kthread_sem_post (Sem_value (Suc 0)) = Ok (0, Sem_value (Suc (Suc 0)))"
    by (rule sem_post_value; simp add: INT_MAX_def)+
  have size: "size_pred (Suc 0) = 0" by (simp add: size_pred_def)
  show ?thesis
    apply (rule solo_User [OF TrueI], simp add: api_def)
    unfolding uthread_teardown_def run_defs
    apply ((rule lib_rules, (simp add: r q0 q1(1) q2(1) q3(1) queue_size_rep [OF q2(2)] post cur_kinfo run_simps MAIN_KTHREAD_INDEX_def exitall_not_NULL del: kthread_sem_post.simps; fail)+,
        (simp only: prod.case sched_switch.simps sched_next_def run_defs enqueue_exitalls.simps One_nat_def wait_all_exited.simps if_True if_False)?)+)
    apply (simp only: if_True simp_thms)
    apply ((rule lib_rules, (simp add: r cur_kinfo run_simps MAIN_KTHREAD_INDEX_def; fail)+,
        (simp only: prod.case sched_switch.simps run_defs size wait_all_exited.simps if_True if_False)?)+)
    apply (rule solo_trans [OF sched_next_hands_over [of _ _ p "[]" _ "teardown_finish (User k)"]])
    subgoal using S(1) by (simp add: lib_ready_def r)
    subgoal using q3(2) by (simp add: ready_is_def)
    subgoal using R(5) by (simp add: ready_thread_def tcb_in_def)
    subgoal for m'
      by (rule back_finish [OF c m ready zero, where b = "Suc (Suc (brk s))"], assumption)
        (use r(4,7) below_subset [OF q2(3) q3(3)] in \<open>simp_all add: unchanged_def kinfo_frame_def\<close>)
    done
qed

end
