(* ===== verification/Fcfs_Run.thy ===== *)
theory Fcfs_Run
  imports Fcfs_Boot
begin

text \<open>
  Whole programs on one kernel thread: the code implements the abstract scheduler from the start of the process to its end.
\<close>

section \<open>Programs from start to end\<close>

lemma local_solo:
  "a_local n mem u = (mem', u') \<Longrightarrow> solo i (\<lambda>_. True) Q (here i (s\<lparr>cmem := mem'\<rparr>) x (User u') m) \<Longrightarrow>
   solo i (\<lambda>_. True) Q (here i (s\<lparr>cmem := mem\<rparr>) x (User u) m)"
proof (induction n arbitrary: mem u)
  case (Suc n)
  show ?case
  proof (cases "\<exists>f. u = U_mem f")
    case True
    then obtain f mem1 u1 where u: "u = U_mem f" "f mem = (mem1, u1)" by (metis surj_pair)
    then have "solo i (\<lambda>_. True) Q (here i (s\<lparr>cmem := mem1\<rparr>) x (User u1) m)" using Suc by simp
    then show ?thesis
      unfolding u(1) by (intro solo_User TrueI) (simp add: api_def, rule solo_Atom, simp_all add: u(2))
  next
    case False
    with Suc.prems(1) have "mem' = mem" "u' = u" by (auto split: uprog.splits)
    with Suc.prems(2) show ?thesis by simp
  qed
qed simp

lemma exit_solo: "solo i (\<lambda>_. True) (\<lambda>m'. exit_status m' = Some r) (here i s x (User (U_process_exit r)) m)"
  by (rule solo_User [OF TrueI], simp add: api_def, rule solo_step [OF TrueI], simp add: kstep_def, rule solo_now) simp

lemma status_solo:
  assumes "a_status_of n (cmem s) u = Some r"
  shows "solo i (\<lambda>_. True) (\<lambda>m'. exit_status m' = Some r) (here i s x (User u) m)"
proof -
  obtain mem' u' where l: "a_local n (cmem s) u = (mem', u')" by (metis surj_pair)
  with assms have "u' = U_process_exit r" by (auto simp: a_status_of_def split: uprog.splits)
  then have "solo i (\<lambda>_. True) (\<lambda>m'. exit_status m' = Some r) (here i (s\<lparr>cmem := cmem s\<rparr>) x (User u) m)"
    by (intro local_solo [OF l]) (simp add: exit_solo)
  then show ?thesis by simp
qed

lemma after_init_solo:
  assumes rel: "rel i (a_init mem u) m" and r: "a_after_init n mem u = Some r"
  shows "solo i (\<lambda>_. True) (\<lambda>m'. exit_status m' = Some r) m"
proof (rule solo_trans [OF fcfs.follows [OF rel ok_init]])
  fix m' assume rel': "rel i (arun n (a_init mem u)) m'"
  let ?a = "arun n (a_init mem u)"
  from r obtain k where k: "a_main ?a = Some (U_teardown k)" "a_status_of n (a_mem ?a) k = Some r"
    by (auto simp: a_after_init_def Let_def split: option.splits uprog.splits)
  from k(1) obtain t0 where t0: "a_cur ?a = 0" "a_ready ?a = []" "a_thr ?a 0 = Some t0" "a_next t0 = Go (U_teardown k)"
    by (auto simp: a_main_def split: if_splits option.splits resume.splits)
  from rel' obtain t c ki where c: "current i ?a (sh m') (ctxs m') (tcbs (sh m') (a_cur ?a)) t c ki" and m: "exit_status m' = None"
    and here: "m' = here i (sh m') (ctxs m') (resume_code (tcbs (sh m') (a_cur ?a)) (a_next t)) m'" by (rule rel_current)
  have "t = t0" using current_rel(2) [OF c] t0 by simp
  with here t0 have here': "m' = here i (sh m') (ctxs m') (User (U_teardown k)) m'" by simp
  have "solo i (\<lambda>_. True) (\<lambda>m'. exit_status m' = Some r) (here i (sh m') (ctxs m') (User (U_teardown k)) m')"
  proof (rule solo_trans [OF teardown_ok [OF c m t0(2), of k]])
    show "a_thr ?a 0 \<noteq> None" using t0 by simp
    fix m2 :: machine assume "kcode m2 i = Some (User k) \<and> cmem (sh m2) = a_mem ?a \<and> exit_status m2 = None"
    then have "here i (sh m2) (ctxs m2) (User k) m2 = m2" "a_status_of n (cmem (sh m2)) k = Some r" using here_self k(2) by auto
    then show "solo i (\<lambda>_. True) (\<lambda>m'. exit_status m' = Some r) m2" using status_solo [of n "sh m2" k r i "ctxs m2" m2] by simp
  qed
  then show "solo i (\<lambda>_. True) (\<lambda>m'. exit_status m' = Some r) m'" using here' by simp
qed

lemma initial_here:
  "initial f i u = here i ((initial_shared f i)\<lparr>cmem := \<lambda>_. 0\<rparr>) (\<lambda>_. None) (User u) (initial f i u)"
  by (simp add: initial_def here_def initial_shared_def)

lemma exec_solo:
  assumes "a_exec n u = Some r"
  shows "solo i (\<lambda>_. True) (\<lambda>m'. exit_status m' = Some r) (initial (\<lambda>_. False) i u)"
proof -
  obtain mem v where l: "a_local n (\<lambda>_. 0) u = (mem, v)" by (metis surj_pair)
  with assms obtain k where v: "v = U_init 1 0 k" "a_after_init n mem (k 0) = Some r"
    by (auto simp: a_exec_def split: uprog.splits if_splits)
  have m: "exit_status (initial (\<lambda>_. False) i u) = None" by (simp add: initial_def)
  have "solo i (\<lambda>_. True) (\<lambda>m'. exit_status m' = Some r)
    (here i ((initial_shared (\<lambda>_. False) i)\<lparr>cmem := mem\<rparr>) (\<lambda>_. None) (User v) (initial (\<lambda>_. False) i u))"
    unfolding v(1) by (rule solo_trans [OF init_rel [OF m]], erule after_init_solo [OF _ v(2)])
  from local_solo [OF l this] show ?thesis by (simp flip: initial_here)
qed

text \<open>
  C2: The code implements the abstract first-come-first-served scheduler: a program that initialises the library
  with one kernel thread and no preemption reaches, without any error, a state that represents each state
  of the abstract scheduler's run, and that state is well-formed.
\<close>

theorem fcfs_refinement:
  "\<exists>n' m'. run (replicate n' i) (initial (\<lambda>_. False) i (U_init 1 0 k)) = Ok m' \<and>
    rel i (arun n (a_init (\<lambda>_. 0) (k 0))) m' \<and> a_ok (arun n (a_init (\<lambda>_. 0) (k 0)))"
proof (rule solo_run [where P = "\<lambda>_. True"])
  have "exit_status (initial (\<lambda>_. False) i (U_init 1 0 k)) = None" by (simp add: initial_def)
  from solo_trans [OF init_rel [OF this] fcfs.follows [OF _ ok_init]]
  have "solo i (\<lambda>_. True) (rel i (arun n (a_init (\<lambda>_. 0) (k 0)))) (initial (\<lambda>_. False) i (U_init 1 0 k))"
    by (subst initial_here)
  then show "solo i (\<lambda>_. True) (\<lambda>m'. rel i (arun n (a_init (\<lambda>_. 0) (k 0))) m' \<and> a_ok (arun n (a_init (\<lambda>_. 0) (k 0))))
    (initial (\<lambda>_. False) i (U_init 1 0 k))"
    by (rule solo_mono) (simp add: ok_arun ok_init)
qed

text \<open>
  C4: A program that, by the abstract scheduler, exits with status \<open>r\<close>, does so when the library executes it on one kernel thread:
  from the start of the process through initialisation, the calls of all its threads and teardown.
\<close>

theorem exec_exits:
  assumes "a_exec n u = Some r"
  shows "\<exists>n' m'. run (replicate n' i) (initial (\<lambda>_. False) i u) = Ok m' \<and> exit_status m' = Some r"
  by (rule solo_run [OF exec_solo [OF assms]])

theorem exec_exits_witness:
  "\<exists>n' m'. run (replicate n' 1) (initial (\<lambda>_. False) 1 (U_init 1 0 (\<lambda>_. U_yield (U_teardown (U_process_exit 7))))) = Ok m' \<and>
    exit_status m' = Some 7"
  by (rule exec_exits [of 3])
    (simp add: a_exec_def a_after_init_def a_status_of_def a_main_def a_init_def astep_def a_yield_def a_dispatch_def a_leave_def a_upd_def
      numeral_eq_Suc)

end
