(* ===== verification/Fcfs_Tests.thy ===== *)
theory Fcfs_Tests
  imports Fcfs_Run
begin

text \<open>
  The test programs for one kernel thread pass: by the refinement theorem it is enough to evaluate them with the
  abstract scheduler.
\<close>

section \<open>Evaluation\<close>

text \<open>A program is evaluated up to its next call, and the memory and the table are kept in a normal form.\<close>

lemma prog_cong:
  "U_mem f = U_mem f" "U_create g x b z kc = U_create g x b z kc" "U_init n q ki = U_init n q ki" "U_self kt = U_self kt"
  "U_join t p kj = U_join t p kj" "U_sem_init s v ki = U_sem_init s v ki" "U_sem_post s ki = U_sem_post s ki"
  "U_sem_wait s ki = U_sem_wait s ki" "U_sem_destroy s u = U_sem_destroy s u" "U_yield u = U_yield u" "U_teardown u = U_teardown u"
  "Start g x = Start g x"
  by (rule refl)+

lemma upd_order: "m < n \<Longrightarrow> (f(n := v))(m := w) = (f(m := w))(n := v)" for m n :: nat
  by (rule fun_upd_twist) simp

lemma numeral_steps:
  "arun (numeral v) a = (case astep a of None \<Rightarrow> a | Some a' \<Rightarrow> arun (pred_numeral v) a')"
  "a_local (numeral v) mem u = (case u of U_mem f \<Rightarrow> (case f mem of (mem', u') \<Rightarrow> a_local (pred_numeral v) mem' u') | _ \<Rightarrow> (mem, u))"
  "a_free h n (numeral v) = (if h n = None then Some n else a_free h (Suc n) (pred_numeral v))"
  by (simp_all add: numeral_eq_Suc)

lemmas spec_defs =
  numeral_steps a_exec_def a_after_init_def a_status_of_def a_main_def a_init_def astep_def a_goto_def a_upd_def a_dispatch_def a_leave_def
  a_wake_def a_yield_def a_create_def a_exit_def a_join_finish_def a_join_thread_def a_sem_wait_def a_sem_post_def a_sem_destroy_def
  UTHREAD_MAX_THREADS_def INT_MAX_def

lemmas helper_defs =
  test_counter_def test_nope_def U_set_def U_get_def U_inc_def INIT_def CHECKPOINT_def CHECKPOINT_parent_def ASSERT_def VERIFY_def
  THREAD_ARG_STACK_def THREAD_ARG_def THREAD_def parent_first_def upd_order Let_def

lemmas test_defs = test_create_def create_thread_main_def create_subthread_main_def test_self_def self_thread_main_def self_subthread_main_def
  m_self_def t_self_def st_self_def test_fcfs_def fcfs_thread_main_def fcfs_thread2_main_def fcfs_subthread_main_def
  test_yield_def yield_thread_main_def yield_thread2_main_def test_yield2_def yield2_thread_main_def yield2_thread2_main_def
  test_exit_def exit_thread_main_def exit_thread2_main_def test_join_def join_thread_main_def join_thread2_main_def join_thread3_main_def join_thread4_main_def
  somevar_def othervar_def test_sem2_def sem2_thread_def test_sem3_def sem3_thread_def

lemma test_create_exec: "a_exec 80 (test_create b True) = Some 0"
  by (simp add: spec_defs helper_defs test_defs cong: prog_cong)

lemma test_self_exec: "a_exec 80 (test_self) = Some 0"
  by (simp add: spec_defs helper_defs test_defs cong: prog_cong)

lemma test_fcfs_exec: "a_exec 80 (test_fcfs) = Some 0"
  by (simp add: spec_defs helper_defs test_defs cong: prog_cong)

lemma test_yield_exec: "a_exec 80 (test_yield) = Some 0"
  by (simp add: spec_defs helper_defs test_defs cong: prog_cong)

lemma test_yield2_exec: "a_exec 80 (test_yield2) = Some 0"
  by (simp add: spec_defs helper_defs test_defs cong: prog_cong)

lemma test_exit_exec: "a_exec 80 (test_exit) = Some 0"
  by (simp add: spec_defs helper_defs test_defs cong: prog_cong)

lemma test_join_exec: "a_exec 80 (test_join) = Some 0"
  by (simp add: spec_defs helper_defs test_defs cong: prog_cong)

lemma test_sem2_exec: "a_exec 80 (test_sem2) = Some 0"
  by (simp add: spec_defs helper_defs test_defs cong: prog_cong)

lemma test_sem3_exec: "a_exec 80 (test_sem3) = Some 0"
  by (simp add: spec_defs helper_defs test_defs cong: prog_cong)

section \<open>\<^verbatim>\<open>test-sem.c\<close>\<close>

lemma arun_stuck: "astep a = None \<Longrightarrow> arun n a = a"
  by (cases n) simp_all

lemma arun_add: "arun (m + n) a = arun n (arun m a)"
  by (induction m arbitrary: a) (auto simp: arun_stuck split: option.splits)

definition leads :: "astate \<Rightarrow> astate \<Rightarrow> bool" where
  "leads a b \<longleftrightarrow> (\<exists>n. arun n a = b)"

lemma leads_refl: "leads a a"
  unfolding leads_def by (intro exI [of _ 0]) simp

lemma leads_trans: "leads a b \<Longrightarrow> leads b c \<Longrightarrow> leads a c"
  unfolding leads_def by (auto simp flip: arun_add)

lemma leads_step: "astep a = Some b \<Longrightarrow> leads b c \<Longrightarrow> leads a c"
  using leads_trans [of a b c] unfolding leads_def by (metis arun.simps option.simps(5))

text \<open>The main thread alone, with semaphores \<open>S\<close>.\<close>

definition lone :: "(nat \<Rightarrow> int) \<Rightarrow> (semid \<Rightarrow> (int \<times> nat list) option) \<Rightarrow> uprog \<Rightarrow> astate" where
  "lone mem S u =
     \<lparr>a_cur = 0, a_ready = [], a_thr = [0 \<mapsto> \<lparr>a_status = RUNNING, a_next = Go u, a_ret = NULL, a_join = []\<rparr>], a_sems = S, a_mem = mem\<rparr>"

lemma lone_steps:
  "astep (lone mem S (U_sem_init n v k)) = Some (lone mem (S(n \<mapsto> (v, []))) (k 0))"
  "S n = Some (v, []) \<Longrightarrow> v < INT_MAX \<Longrightarrow> astep (lone mem S (U_sem_post n k)) = Some (lone mem (S(n \<mapsto> (v + 1, []))) (k 0))"
  "S n = Some (v, []) \<Longrightarrow> 0 < v \<Longrightarrow> astep (lone mem S (U_sem_wait n k)) = Some (lone mem (S(n \<mapsto> (v - 1, []))) (k 0))"
  "S n = Some (v, []) \<Longrightarrow> astep (lone mem S (U_sem_destroy n u)) = Some (lone mem (S(n := None)) u)"
  "f mem = (mem', u) \<Longrightarrow> astep (lone mem S (U_mem f)) = Some (lone mem' S u)"
  by (simp_all add: lone_def astep_def a_goto_def a_upd_def a_sem_post_def a_sem_wait_def a_sem_destroy_def)

lemma first_body_leads:
  assumes "i < 50" "leads (lone mem (S(50 := None, i \<mapsto> (int i + 1, []))) k) c"
  shows "leads (lone mem S (sem_first_body i k)) c"
proof -
  have "S(50 := None, i \<mapsto> (int i + 1, [])) = S(50 \<mapsto> (1, []), i \<mapsto> (int i + 1, []), 50 := None)" using assms(1) by (auto simp: fun_eq_iff)
  with assms show ?thesis
    unfolding sem_first_body_def
    by (intro leads_step [OF lone_steps(1)] leads_step [OF lone_steps(2)] leads_step [OF lone_steps(3)] leads_step [OF lone_steps(4)])
      (auto simp: INT_MAX_def)
qed

lemma first_loop_leads:
  assumes "set js \<subseteq> {..<50}" "leads (lone mem (\<lambda>n. if n \<in> set js then Some (int n + 1, []) else if n = 50 \<and> js \<noteq> [] then None else S n) k) c"
  shows "leads (lone mem S (U_for js sem_first_body k)) c"
  using assms
proof (induction js arbitrary: S)
  case (Cons j js)
  have "(\<lambda>n. if n \<in> set js then Some (int n + 1, []) else if n = 50 \<and> js \<noteq> [] then None else (S(50 := None, j \<mapsto> (int j + 1, []))) n) =
    (\<lambda>n. if n \<in> set (j # js) then Some (int n + 1, []) else if n = 50 \<and> j # js \<noteq> [] then None else S n)"
    using Cons.prems(1) by (auto simp: fun_eq_iff)
  with Cons show ?case by (simp add: first_body_leads)
qed simp

lemma waits_leads:
  assumes "0 \<le> v" "leads (lone mem (S(i \<mapsto> (v, []))) k) c"
  shows "leads (lone mem (S(i \<mapsto> (v + int n, []))) (U_repeat n (\<lambda>k. U_sem_wait i (\<lambda>_. k)) k)) c"
proof (induction n)
  case 0
  with assms(2) show ?case by (simp del: fun_upd_apply)
next
  case (Suc n)
  then have "leads (lone mem (S(i \<mapsto> (v + int (Suc n), []), i \<mapsto> (v + int (Suc n) - 1, []))) (U_repeat n (\<lambda>k. U_sem_wait i (\<lambda>_. k)) k)) c"
    by (simp del: fun_upd_apply)
  moreover have "0 < v + int (Suc n)" using assms(1) by simp
  ultimately show ?case unfolding U_repeat.simps by (intro leads_step [OF lone_steps(3) [OF fun_upd_same]])
qed

lemma second_loop_leads:
  assumes "distinct js" "\<And>j. j \<in> set js \<Longrightarrow> S j = Some (int j + 1, [])" "\<And>S. leads (lone mem S k) (f S)" 
  shows "\<exists>S'. leads (lone mem S (U_for js sem_second_body k)) (f S')"
  using assms(1,2)
proof (induction js arbitrary: S)
  case Nil
  with assms(3) show ?case by auto
next
  case (Cons j js)
  then have "\<exists>S'. leads (lone mem (S(j := None)) (U_for js sem_second_body k)) (f S')" by (intro Cons.IH) auto
  then obtain S' where "leads (lone mem (S(j := None)) (U_for js sem_second_body k)) (f S')" by blast
  then have "leads (lone mem (S(j \<mapsto> (0, []))) (U_sem_destroy j (U_for js sem_second_body k))) (f S')"
    by (intro leads_step [OF lone_steps(4)]) auto
  from waits_leads [OF _ this, of "j + 1"] Cons.prems(2) [of j] have "leads (lone mem S (sem_second_body j (U_for js sem_second_body k))) (f S')"
    by (simp add: sem_second_body_def fun_upd_idem add.commute)
  then show ?case by auto
qed

lemma leads_exec:
  assumes "leads (a_init (\<lambda>_. 0) (k 0)) b" "a_main b = Some (U_teardown u)" "a_thr b (a_cur b) = a_thr b 0" "\<And>n. n \<ge> 5 \<Longrightarrow> a_status_of n (a_mem b) u = Some r"
  shows "\<exists>n. a_exec n (U_init 1 0 k) = Some r"
proof -
  from assms(2) have stuck: "astep b = None" by (auto simp: a_main_def astep_def split: if_splits option.splits resume.splits)
  from assms(1) obtain n where n: "arun n (a_init (\<lambda>_. 0) (k 0)) = b" unfolding leads_def by blast
  have "arun (n + 5) (a_init (\<lambda>_. 0) (k 0)) = b" by (simp only: arun_add n arun_stuck [OF stuck])
  moreover have "a_local (n + 5) mem (U_init 1 0 k) = (mem, U_init 1 0 k)" for mem by (simp add: numeral_eq_Suc)
  ultimately have "a_exec (n + 5) (U_init 1 0 k) = Some r"
    using assms(2) assms(4) [of "n + 5"] by (simp add: a_exec_def a_after_init_def)
  then show ?thesis ..
qed

lemma test_sem_exec: "\<exists>n. a_exec n test_sem = Some 0"
proof -
  let ?mem = "(\<lambda>_. 0)(test_counter := 1 :: int)" and ?v = "VERIFY 1"
  let ?S = "\<lambda>n. if n \<in> set [0..<50] then Some (int n + 1, []) else if n = 50 \<and> [0..<50::nat] \<noteq> [] then None else (\<lambda>_. None :: (int \<times> nat list) option) n"
  have "\<exists>S'. leads (lone ?mem ?S (U_for [0..<50] sem_second_body ?v)) (lone ?mem S' ?v)"
    by (rule second_loop_leads) (auto simp: leads_refl)
  then obtain S' where "leads (lone ?mem ?S (U_for [0..<50] sem_second_body ?v)) (lone ?mem S' ?v)" by blast
  moreover have "set [0..<50] \<subseteq> {..<50 :: nat}" by auto
  ultimately have loops: "leads (lone ?mem (\<lambda>_. None) (U_for [0..<50] sem_first_body (U_for [0..<50] sem_second_body ?v))) (lone ?mem S' ?v)"
    by (intro first_loop_leads)
  let ?k = "\<lambda>r. if r \<noteq> (0 :: int) then U_process_exit 1 else CHECKPOINT 0 (U_for [0..<50] sem_first_body (U_for [0..<50] sem_second_body ?v))"
  have "leads (lone (\<lambda>_. 0) (\<lambda>_. None) (?k 0)) (lone ?mem S' ?v)"
    using leads_step [OF lone_steps(5) loops] by (simp add: CHECKPOINT_def)
  then have "leads (a_init (\<lambda>_. 0) (?k 0)) (lone ?mem S' ?v)" by (simp add: a_init_def lone_def)
  then have "\<exists>n. a_exec n (U_init 1 0 ?k) = Some 0"
    by (rule leads_exec)
      (auto simp: a_main_def lone_def VERIFY_def a_status_of_def U_get_def test_nope_def test_counter_def Let_def le_iff_add numeral_eq_Suc)
  then show ?thesis by (simp add: test_sem_def INIT_def)
qed

section \<open>The tests pass\<close>

text \<open>The program, started as a process whose system calls succeed, exits with status 0.\<close>

definition passes :: "uprog \<Rightarrow> bool" where
  "passes u \<longleftrightarrow> (\<exists>n m. run (replicate n 1) (initial (\<lambda>_. False) 1 u) = Ok m \<and> exit_status m = Some 0)"

lemma passesI: "a_exec n u = Some 0 \<Longrightarrow> passes u"
  unfolding passes_def by (rule solo_run [OF exec_solo])

text \<open>
  C3: The ten test programs for one kernel thread (\<^verbatim>\<open>test-create\<close> when the compiler places the local variable of the
  subthread on the stack it was given) reach all checkpoints in order, meet no error and exit with status 0.
\<close>

theorem tests_pass:
  "passes (test_create buf True) \<and> passes test_self \<and> passes test_fcfs \<and> passes test_yield \<and> passes test_yield2 \<and> passes test_exit \<and>
   passes test_join \<and> passes test_sem \<and> passes test_sem2 \<and> passes test_sem3"
  using test_sem_exec by (auto intro: passesI test_create_exec test_self_exec test_fcfs_exec test_yield_exec test_yield2_exec test_exit_exec
    test_join_exec test_sem2_exec test_sem3_exec)

end
