(* ===== verification/Uthread_Program.thy ===== *)
theory Uthread_Program
  imports Uthread_Samples
begin

text \<open>
  Whole programs: the initialisation of the library, absence of errors in every interleaving, the
  consistency of the queues and what a state looks like in which no kernel thread can move.
\<close>

section \<open>Ready states\<close>

text \<open>
  The library is initialised with the semaphores \<open>S\<close>, the main thread is about to execute the client
  program \<open>u\<close>, no other thread exists, the other kernel threads are on their way to the ready queue.
\<close>

definition ready_state :: "semid set \<Rightarrow> uprog \<Rightarrow> machine \<Rightarrow> bool" where
  "ready_state S u m \<longleftrightarrow>
     (\<exists>i p. booted S (sh m) i p \<and> exit_status m = None \<and> kcode m i = Some (User u) \<and>
        (\<forall>j. j \<noteq> i \<longrightarrow> (if j \<in> ktids (sh m) then \<exists>c. kcode m j = Some c \<and> boot_code c else kcode m j = None)))"

lemma ready_state_running:
  assumes "ready_state S u m" "client_ok S u"
  shows "running_ok S m"
proof -
  from assms(1) obtain i p where m: "booted S (sh m) i p" "exit_status m = None" "kcode m i = Some (User u)"
    "\<forall>j. j \<noteq> i \<longrightarrow> (if j \<in> ktids (sh m) then \<exists>c. kcode m j = Some c \<and> boot_code c else kcode m j = None)"
    unfolding ready_state_def by blast
  have others: "if j \<in> ktids (sh m) then \<exists>c. kcode m j = Some c \<and> (ok S booting c \<or> ok S idle c) else kcode m j = None"
    if "j \<noteq> i" for j
    using m(4) [rule_format, OF that] boot_code_ok [of _ S] by (auto split: if_splits)
  show ?thesis by (rule booted_running [OF m(1,3) ok_User [OF assms(2)] m(2) others])
qed


section \<open>A sample\<close>

lemma solo_tid_steps:
  assumes "solo i P Q m" "\<And>s. P s \<Longrightarrow> tid_free s"
  shows "\<exists>m'. tid_steps m m' \<and> Q m'"
proof -
  from assms(1) have "tid_steps z m \<Longrightarrow> \<exists>m'. tid_steps z m' \<and> Q m'" for z
    by (induction rule: solo.induct) (blast intro: tid_step mstep.thread assms(2))+
  then show ?thesis using tid_refl by blast
qed

text \<open>One kernel thread, the main thread, and semaphore 0 at 0.\<close>

definition single_state :: shared where
  "single_state = (sample_state empty_queue 0 READY empty_queue (sample_sem 0 empty_queue) (used_bits 1 0))
     \<lparr>tcbs := (\<lambda>_. NULL)(0 := 2), tcb_heap := [2 \<mapsto> sample_main empty_queue]\<rparr>"

definition single_machine :: "uprog \<Rightarrow> machine" where
  "single_machine u = \<lparr>sh = single_state, ctxs = (\<lambda>_. None), kcode = [1 \<mapsto> User u], exit_status = None\<rparr>"

lemma one_bit_rep: "bv_rep UTHREAD_MAX_THREADS (used_bits 1 0) {0}"
  by (rule used_bits_rep [where b = False]) (auto simp: UTHREAD_MAX_THREADS_def bit_1_iff)

lemma single_ready: "ready_state {0} u (single_machine u)"
proof -
  have "booted {0} single_state 1 2"
    using one_bit_rep
    by (auto simp: booted_def single_state_def sample_state_def ki_wf_def ktids_def mem_ok_def sample_entry_def sample_sem_def
        sample_main_def blank_tcb_def exitall_def)
  then show ?thesis
    by (auto simp: ready_state_def single_machine_def ktids_def single_state_def sample_state_def sample_entry_def
        intro!: exI [of _ "1 :: ktid"] exI [of _ "2 :: addr"])
qed

lemma single_free: "bitvec s = used_bits 1 0 \<Longrightarrow> tid_free s"
proof -
  assume b: "bitvec s = used_bits 1 0"
  have "used_tids s = {0}" using one_bit_rep unfolding used_tids_def b bv_rep_def by auto
  moreover have "(1::nat) \<in> {..<UTHREAD_MAX_THREADS}" by (simp add: UTHREAD_MAX_THREADS_def)
  ultimately show "tid_free s" unfolding tid_free_def by force
qed

text \<open>A thread waits for a semaphore at 0 and no other is ready: its kernel thread waits.\<close>

lemma sem_wait_idles:
  assumes run: "running_on i p s" and m: "sems s n = Some y" "sem_lock y = Mutex_free" "queue_rep (sem_queue y) []"
    "counter y = 0" and rq: "ready_is s []" and brk: "brk s |\<notin>| fmdom (nodes (sem_queue y))" "brk s \<noteq> NULL"
  shows "solo i (\<lambda>s'. bitvec s' = bitvec s) (\<lambda>m'. kstep i m' = Block \<and> bitvec (sh m') = bitvec s \<and>
     map kinfo_ktid (kthread_info (sh m')) = map kinfo_ktid (kthread_info s) \<and> exit_status m' = exit_status m)
    (here i s x (uthread_sem_wait n k) m)"
proof -
  from run obtain K ki L t where t: "lib_ready i s" "entry_split i s K ki L" "tcb_in s p t" "state t = RUNNING"
    "task (sched_info ki) = NONE" "current_tid ki = int (unat (tcb_tid t))" by (rule running_on_split)
  note r = lib_readyD [OF t(1)] entry_splitD [OF t(2)] tcb_inD [OF t(3)] t(4-6)
  obtain q1 where q1: "queue_enqueue (brk s) (sem_queue y) p = Ok (0, q1)"
    using queue_enqueue_rep [OF m(3) r(12) brk(2,1)] by (auto simp: INT_MAX_def)
  have rq': "rq_not_empty (rqueue s) = Sem_value 0" using rq by (simp add: ready_is_def)
  show ?thesis
    unfolding uthread_sem_wait_def run_defs
    by ((rule solo_rules, (simp add: r kinfo_split [where K = K and L = L] run_simps sem_at_def enqueue_ref_def m q1 sint_tid; fail)+,
        (simp only: prod.case if_True if_False simp_thms sem_wait_loop_def run_defs sched_switch.simps)?)+,
        unfold sched_next_def ready_dequeue_def, rule solo_stmt, (simp add: r kinfo_split [where K = K and L = L]; fail)+)
      (rule solo_now, simp add: kstep_def checked_def wait_not_empty_def rq' r)
qed

lemma single_blocks:
  "\<exists>m'. tid_steps (single_machine (U_sem_wait 0 (\<lambda>_. U_exit 0))) m' \<and> all_blocked m' \<and> tid_free (sh m')"
proof -
  let ?u = "U_sem_wait 0 (\<lambda>_. U_exit 0)"
  have "running_on 1 2 single_state" "ready_is single_state []" "sems single_state 0 = Some (sample_sem 0 empty_queue)"
    "brk single_state = 30"
    by (simp_all add: running_on_def lib_ready_def tcb_in_def single_state_def sample_state_def sample_entry_def sample_main_def
        blank_tcb_def exitall_def UTHREAD_MAX_THREADS_def ready_is_def)
  from sem_wait_idles [OF this(1,3) _ _ _ this(2), where x = "\<lambda>_. None" and k = "\<lambda>r. User (U_exit 0)" and m = "single_machine ?u"] this(4)
  have "solo 1 (\<lambda>s. bitvec s = bitvec single_state) (\<lambda>m'. kstep 1 m' = Block \<and> bitvec (sh m') = bitvec single_state \<and>
     map kinfo_ktid (kthread_info (sh m')) = map kinfo_ktid (kthread_info single_state) \<and> exit_status m' = exit_status (single_machine ?u))
    (here 1 single_state (\<lambda>_. None) (User ?u) (single_machine ?u))"
    by (intro solo_User) (simp_all add: api_def)
  moreover have "here 1 single_state (\<lambda>_. None) (User ?u) (single_machine ?u) = single_machine ?u"
    by (simp add: single_machine_def here_def)
  moreover have "bitvec single_state = used_bits 1 0" by (simp add: single_state_def)
  ultimately obtain m' where m': "tid_steps (single_machine ?u) m'" "kstep 1 m' = Block" "bitvec (sh m') = used_bits 1 0"
    "map kinfo_ktid (kthread_info (sh m')) = map kinfo_ktid (kthread_info single_state)" "exit_status m' = None"
    using solo_tid_steps [of 1 "\<lambda>s. bitvec s = bitvec single_state"] single_free by (fastforce simp: single_machine_def)
  have "ktids (sh m') = {1}"
    using arg_cong [OF m'(4), of set] by (simp add: ktids_def single_state_def sample_state_def sample_entry_def)
  with m' show ?thesis using single_free by (auto simp: all_blocked_def)
qed

lemma single_client: "client_ok {0} (U_sem_wait 0 (\<lambda>_. U_exit 0))"
  by (simp add: client_ok.intros)

section \<open>Properties\<close>




lemma initial_tid_free: "tid_free (initial_shared f i)"
proof -
  have "used_tids (initial_shared f i) = {}" by (simp add: used_tids_def initial_shared_def bv_test_def)
  then show ?thesis by (simp add: tid_free_def UTHREAD_MAX_THREADS_def lessThan_empty_iff eq_commute [of "{}"])
qed






end
