(* ===== verification/Vg_Machine.thy ===== *)
theory Vg_Machine
  imports Uthread_Prelude
begin

text \<open>
  A machine for the inline assembly of \<^verbatim>\<open>valgrind.h\<close>: registers, memory and the few
  instructions that the macros for x86, amd64, arm, arm64, ppc32, ppc64, s390x, mips32 and mips64 use.
  The type of register names and the word length are parameters. A memory cell at address \<open>y\<close> holds the word
  that occupies the bytes from \<open>y\<close> on; a store forgets the cells that it overlaps partially.
\<close>

section \<open>Registers, memory, instructions\<close>

record (overloaded) ('r, 'w) cpu =
  regs :: "'r \<Rightarrow> 'w::len word"
  cells :: "'w word \<Rightarrow> 'w word option"

datatype 'r instr =
    Mov 'r 'r
  | Ldr 'r 'r int
  | Str 'r 'r int
  | Mvc 'r nat 'r nat
  | Push_mem 'r nat
  | Push_regs "'r list"
  | Sub_imm 'r nat
  | Add_imm 'r nat
  | And_imm 'r int
  | Bic 'r 'r nat
  | Rol 'r nat
  | Ror 'r nat
  | Rotl_mask 'r 'r nat nat nat
  | Srl 'r 'r nat
  | Sll 'r 'r nat
  | Lr 'r 'r
  | Xchg 'r 'r
  | Orr 'r 'r 'r
  | Directive

text \<open>The number of bytes of a word.\<close>

definition word_bytes :: "'w::len itself \<Rightarrow> nat" where
  "word_bytes _ = LENGTH('w) div 8"

definition offset :: "nat \<Rightarrow> 'w::len word" where
  "offset i = of_nat (word_bytes TYPE('w) * i)"

definition overlaps :: "'w::len word \<Rightarrow> 'w word \<Rightarrow> bool" where
  "overlaps x y \<longleftrightarrow> unat (x - y) < word_bytes TYPE('w) \<or> unat (y - x) < word_bytes TYPE('w)"

definition store :: "'w::len word \<Rightarrow> 'w word \<Rightarrow> ('r, 'w) cpu \<Rightarrow> ('r, 'w) cpu" where
  "store x v st = st\<lparr>cells := (\<lambda>y. if y = x then Some v else if overlaps x y then None else cells st y)\<rparr>"

definition fetch :: "'w::len word \<Rightarrow> ('r, 'w) cpu \<Rightarrow> 'w word outcome" where
  "fetch x st = (case cells st x of None \<Rightarrow> Err Undefined | Some v \<Rightarrow> Ok v)"

definition set_reg :: "'r \<Rightarrow> 'w::len word \<Rightarrow> ('r, 'w) cpu \<Rightarrow> ('r, 'w) cpu" where
  "set_reg r v st = st\<lparr>regs := (regs st)(r := v)\<rparr>"

text \<open>
  The bits \<open>mb\<close> to \<open>me\<close> of a PowerPC word, whose bits are numbered from the most significant one.
\<close>

definition ppc_mask :: "nat \<Rightarrow> nat \<Rightarrow> 'w::len word" where
  "ppc_mask mb me = push_bit (LENGTH('w) - 1 - me) (mask (Suc me - mb))"

text \<open>Push words so that the first one of the list ends up at the lowest address.\<close>

primrec push_words :: "'r \<Rightarrow> 'w::len word list \<Rightarrow> ('r, 'w) cpu \<Rightarrow> ('r, 'w) cpu" where
  "push_words sp [] st = st"
| "push_words sp (v # vs) st =
     (let st1 = push_words sp vs st; x = regs st1 sp - offset 1 in
      store x v (set_reg sp x st1))"

fun exec_instr :: "'r \<Rightarrow> 'r instr \<Rightarrow> ('r, 'w::len) cpu \<Rightarrow> ('r, 'w) cpu outcome" where
  "exec_instr sp (Mov d s) st = Ok (set_reg d (regs st s) st)"
| "exec_instr sp (Ldr d b off) st =
     bind_o (fetch (regs st b + word_of_int off) st) (\<lambda>v. Ok (set_reg d v st))"
| "exec_instr sp (Str s b off) st = Ok (store (regs st b + word_of_int off) (regs st s) st)"
| "exec_instr sp (Mvc b i c j) st =
     bind_o (fetch (regs st c + of_nat j) st) (\<lambda>v. Ok (store (regs st b + of_nat i) v st))"
| "exec_instr sp (Push_mem b off) st =
     bind_o (fetch (regs st b + of_nat off) st) (\<lambda>v. Ok (push_words sp [v] st))"
| "exec_instr sp (Push_regs rs) st = Ok (push_words sp (map (regs st) rs) st)"
| "exec_instr sp (Sub_imm d n) st = Ok (set_reg d (regs st d - of_nat n) st)"
| "exec_instr sp (Add_imm d n) st = Ok (set_reg d (regs st d + of_nat n) st)"
| "exec_instr sp (And_imm d n) st = Ok (set_reg d (and (regs st d) (word_of_int n)) st)"
| "exec_instr sp (Bic d s n) st = Ok (set_reg d (and (regs st s) (not (of_nat n))) st)"
| "exec_instr sp (Rol d n) st = Ok (set_reg d (word_rotl n (regs st d)) st)"
| "exec_instr sp (Ror d n) st = Ok (set_reg d (word_rotr n (regs st d)) st)"
| "exec_instr sp (Rotl_mask d s n mb me) st = Ok (set_reg d (and (word_rotl n (regs st s)) (ppc_mask mb me)) st)"
| "exec_instr sp (Srl d s n) st = Ok (set_reg d (drop_bit n (regs st s)) st)"
| "exec_instr sp (Sll d s n) st = Ok (set_reg d (push_bit n (regs st s)) st)"
| "exec_instr sp (Lr d s) st = Ok (set_reg d (or (and (regs st d) (not (mask 32))) (take_bit 32 (regs st s))) st)"
| "exec_instr sp (Xchg a b) st = Ok (set_reg a (regs st b) (set_reg b (regs st a) st))"
| "exec_instr sp (Orr d a b) st = Ok (set_reg d (or (regs st a) (regs st b)) st)"
| "exec_instr sp Directive st = Ok st"

primrec exec_seq :: "'r \<Rightarrow> 'r instr list \<Rightarrow> ('r, 'w::len) cpu \<Rightarrow> ('r, 'w) cpu outcome" where
  "exec_seq sp [] st = Ok st"
| "exec_seq sp (i # is) st = bind_o (exec_instr sp i st) (exec_seq sp is)"

section \<open>Special instruction sequences\<close>

text \<open>
  Valgrind recognises a preamble that has no effect on a real processor, followed by one
  more such instruction, which selects what is done instead.
\<close>

datatype special = Client_request | Get_nr_context | Get_nr_gpr2 | Call_noredir | Inject_ir

record 'r isa =
  stack_reg :: 'r
  request_reg :: 'r
  result_reg :: 'r
  nraddr_reg :: 'r
  preamble :: "'r instr list"
  selector :: "'r instr \<Rightarrow> special option"

type_synonym ('r, 'w) hooks = "special \<Rightarrow> ('r, 'w) cpu \<Rightarrow> ('r, 'w) cpu outcome"

definition special_at :: "'r isa \<Rightarrow> 'r instr list \<Rightarrow> special option" where
  "special_at isa is =
     (if take (length (preamble isa)) is = preamble isa \<and> length (preamble isa) < length is
      then selector isa (is ! length (preamble isa)) else None)"

function vg_exec ::
  "'r isa \<Rightarrow> ('r, 'w::len) hooks \<Rightarrow> 'r instr list \<Rightarrow> ('r, 'w) cpu \<Rightarrow> ('r, 'w) cpu outcome" where
  "vg_exec isa h is st =
     (case special_at isa is of
        Some x \<Rightarrow> bind_o (h x st) (vg_exec isa h (drop (Suc (length (preamble isa))) is))
      | None \<Rightarrow> (case is of
            [] \<Rightarrow> Ok st
          | i # is' \<Rightarrow> bind_o (exec_instr (stack_reg isa) i st) (vg_exec isa h is')))"
  by pat_completeness auto
termination
  by (relation "measure (\<lambda>(isa, h, is, st). length is)") (auto simp: special_at_def split: if_splits)

declare vg_exec.simps [simp del]

text \<open>
  What Valgrind does for a special sequence, as the comments beside the macros say: answer a
  client request whose six words are in memory, give the address of the original
  function and, on ppc64, the pointer to its table of contents, call it without redirection, or
  inject code. The answer \<open>f\<close>, the original function \<open>nr\<close> and the called function (from the call
  to its return) are parameters.
\<close>

record (overloaded) 'w orig_fn =
  nraddr :: "'w::len word"
  r2 :: "'w word"

primrec fetch_words :: "nat \<Rightarrow> 'w::len word \<Rightarrow> ('r, 'w) cpu \<Rightarrow> 'w word list outcome" where
  "fetch_words 0 x st = Ok []"
| "fetch_words (Suc n) x st =
     bind_o (fetch x st) (\<lambda>v. bind_o (fetch_words n (x + offset 1) st) (\<lambda>vs. Ok (v # vs)))"

fun valgrind_hooks ::
  "'r isa \<Rightarrow> ('w::len word list \<Rightarrow> 'w word) \<Rightarrow> 'w orig_fn \<Rightarrow> (('r, 'w) cpu \<Rightarrow> ('r, 'w) cpu outcome) \<Rightarrow> ('r, 'w) hooks" where
  "valgrind_hooks isa f nr callee Client_request st =
     bind_o (fetch_words 6 (regs st (request_reg isa)) st) (\<lambda>ws.
     Ok (set_reg (result_reg isa) (f ws) st))"
| "valgrind_hooks isa f nr callee Get_nr_context st = Ok (set_reg (nraddr_reg isa) (nraddr nr) st)"
| "valgrind_hooks isa f nr callee Get_nr_gpr2 st = Ok (set_reg (nraddr_reg isa) (r2 nr) st)"
| "valgrind_hooks isa f nr callee Call_noredir st = callee st"
| "valgrind_hooks isa f nr callee Inject_ir st = Ok st"

section \<open>Arrays of words\<close>

text \<open>The assignments that fill a local array at address \<open>a\<close>.\<close>

primrec put_words :: "'w::len word \<Rightarrow> 'w word list \<Rightarrow> ('r, 'w) cpu \<Rightarrow> ('r, 'w) cpu" where
  "put_words a [] st = st"
| "put_words a (v # vs) st = put_words (a + offset 1) vs (store a v st)"

section \<open>Lemmas\<close>

lemma exec_seq_append:
  "exec_seq sp (is @ js) st = bind_o (exec_seq sp is st) (exec_seq sp js)"
proof (induction "is" arbitrary: st)
  case (Cons i "is")
  then show ?case by (cases "exec_instr sp i st") simp_all
qed simp

lemma vg_exec_Nil: "preamble isa \<noteq> [] \<Longrightarrow> vg_exec isa h [] st = Ok st"
  by (simp add: vg_exec.simps special_at_def)

lemma vg_exec_special:
  assumes "selector isa i = Some x"
  shows "vg_exec isa h (preamble isa @ i # rest) st = bind_o (h x st) (vg_exec isa h rest)"
  using assms by (subst vg_exec.simps) (simp add: special_at_def)

lemma vg_exec_plain:
  assumes "preamble isa \<noteq> []" "hd (preamble isa) \<notin> set is"
  shows "vg_exec isa h (is @ rest) st = bind_o (exec_seq (stack_reg isa) is st) (vg_exec isa h rest)"
  using assms(2)
proof (induction "is" arbitrary: st)
  case (Cons i "is")
  have "special_at isa ((i # is) @ rest) = None"
    using assms(1) Cons.prems by (cases "preamble isa") (auto simp: special_at_def)
  moreover have "vg_exec isa h (is @ rest) =
    (\<lambda>st. bind_o (exec_seq (stack_reg isa) is st) (vg_exec isa h rest))"
    using Cons by auto
  ultimately show ?case
    by (subst vg_exec.simps) (simp add: bind_o_assoc)
qed simp

lemma regs_set_reg [simp]: "regs (set_reg r v st) = (regs st)(r := v)" "cells (set_reg r v st) = cells st"
  by (simp_all add: set_reg_def)

lemma regs_store [simp]: "regs (store x v st) = regs st"
  by (simp add: store_def)

lemma set_reg_same [simp]: "regs st r = v \<Longrightarrow> set_reg r v st = st"
  by (auto simp: set_reg_def)

text \<open>Rotations as rotations by an integer.\<close>

lemma rotr_roti: "word_rotr n w = word_roti (int n) w"
  by simp

lemma rotl_roti: "word_rotl n w = word_roti (- int n) w"
proof -
  have "word_rotr n (word_roti (- int n) w) = w"
    unfolding rotr_roti using word_roti_add [of "int n" "- int n" w]
    by (simp del: word_roti_eq_word_rotr_word_rotl)
  then show ?thesis by (simp only: word_rot_gal)
qed

lemma roti_period: "word_roti (int LENGTH('w) * k) (w :: 'w::len word) = w"
  using word_roti_conv_mod [of "int LENGTH('w) * k" w] by (simp del: word_roti_eq_word_rotr_word_rotl)

lemma offset_add: "offset (i + j) = (offset i + offset j :: 'w::len word)"
  by (simp add: offset_def algebra_simps)

lemma offset_0 [simp]: "offset 0 = 0"
  by (simp add: offset_def)

lemma offset_Suc: "offset (Suc i) = (offset i + offset 1 :: 'w::len word)"
  using offset_add [of i 1] by simp

lemma offset_diff: "i \<le> j \<Longrightarrow> offset (j - i) = (offset j - offset i :: 'w::len word)"
  using offset_add [of "j - i" i, where 'w = 'w] by (simp add: algebra_simps)

lemma overlaps_self: "0 < word_bytes TYPE('w) \<Longrightarrow> overlaps x (x :: 'w::len word)"
  by (simp add: overlaps_def)

lemma not_overlapI:
  fixes x y :: "'w::len word"
  assumes "unat x + word_bytes TYPE('w) \<le> unat y" "unat y + word_bytes TYPE('w) \<le> 2 ^ LENGTH('w) + unat x"
  shows "\<not> overlaps x y" "\<not> overlaps y x"
proof -
  have le: "x \<le> y" using assms(1) by (simp add: word_le_nat_alt)
  then have 1: "unat (y - x) = unat y - unat x" by (simp add: unat_sub)
  have 2: "word_bytes TYPE('w) \<le> unat (x - y)"
    using assms unat_sub_if' [of x y] by (auto split: if_splits)
  show "\<not> overlaps x y" "\<not> overlaps y x" using 1 2 assms by (auto simp: overlaps_def)
qed

lemma unat_above:
  fixes a :: "'w::len word"
  assumes "unat a + word_bytes TYPE('w) * i < 2 ^ LENGTH('w)"
  shows "unat (a + offset i) = unat a + word_bytes TYPE('w) * i"
proof -
  have "unat (offset i :: 'w word) = word_bytes TYPE('w) * i"
    unfolding offset_def unat_of_nat using assms by simp
  with assms show ?thesis by (simp add: unat_plus_if')
qed

lemma regs_put_words [simp]: "regs (put_words a vs st) = regs st"
  by (induction vs arbitrary: a st) simp_all

text \<open>Later entries of the array are apart from earlier ones and from everything before it.\<close>

lemma put_words_below:
  fixes a :: "'w::len word"
  assumes "unat y + word_bytes TYPE('w) \<le> unat a" "unat a + word_bytes TYPE('w) * length vs \<le> 2 ^ LENGTH('w)"
    "0 < word_bytes TYPE('w)"
  shows "cells (put_words a vs st) y = cells st y"
  using assms(1,2)
proof (induction vs arbitrary: a st)
  case (Cons v vs)
  let ?B = "word_bytes TYPE('w)"
  have apart: "\<not> overlaps a y" using Cons.prems by (intro not_overlapI(2)) auto
  then have "y \<noteq> a" using overlaps_self [OF assms(3)] by metis
  with apart have one: "cells (store a v st) y = cells st y" by (simp add: store_def)
  show ?case
  proof (cases vs)
    case Nil
    with one show ?thesis by simp
  next
    case (Cons u us)
    then have "unat (a + offset 1) = unat a + ?B" using Cons.prems assms(3) unat_above [of a 1] by simp
    with Cons.IH [of "a + offset 1" "store a v st"] Cons.prems one show ?thesis by simp
  qed
qed simp

lemma put_words_nth:
  fixes a :: "'w::len word"
  assumes "unat a + word_bytes TYPE('w) * length vs \<le> 2 ^ LENGTH('w)" "0 < word_bytes TYPE('w)" "i < length vs"
  shows "cells (put_words a vs st) (a + offset i) = Some (vs ! i)"
  using assms(1,3)
proof (induction vs arbitrary: a st i)
  case (Cons v vs)
  let ?B = "word_bytes TYPE('w)"
  show ?case
  proof (cases vs)
    case Nil
    with Cons.prems show ?thesis by (simp add: store_def)
  next
    case (Cons u us)
    then have next_a: "unat (a + offset 1) = unat a + ?B"
      using Cons.prems assms(2) unat_above [of a 1] by simp
    show ?thesis
    proof (cases i)
      case 0
      have "cells (put_words (a + offset 1) vs (store a v st)) a = cells (store a v st) a"
        using next_a Cons.prems assms(2) by (intro put_words_below) auto
      with 0 show ?thesis by (simp add: store_def)
    next
      case (Suc j)
      with Cons.IH [of "a + offset 1" j "store a v st"] next_a Cons.prems show ?thesis
        by (simp add: offset_Suc [of j] add_ac)
    qed
  qed
qed simp

lemma fetch_words_put:
  fixes a :: "'w::len word"
  assumes "unat a + word_bytes TYPE('w) * length vs \<le> 2 ^ LENGTH('w)" "0 < word_bytes TYPE('w)"
    "cells st' = cells (put_words a vs st)"
  shows "fetch_words (length vs) a st' = Ok vs"
proof -
  have "fetch_words n (a + offset k) st' = Ok (take n (drop k vs))" if "n + k \<le> length vs" for n k
    using that
  proof (induction n arbitrary: k)
    case (Suc n)
    have "fetch (a + offset k) st' = Ok (vs ! k)"
      using put_words_nth [OF assms(1,2), of k st] Suc.prems assms(3) by (simp add: fetch_def)
    with Suc.IH [of "Suc k"] Suc.prems show ?case
      by (simp add: offset_Suc [of k] add_ac take_Suc_conv_app_nth Cons_nth_drop_Suc [symmetric])
  qed simp
  from this [of "length vs" 0] show ?thesis by simp
qed

end
