(* ===== verification/Vg_Special.thy ===== *)
theory Vg_Special
  imports Vg_Machine
begin

text \<open>
  The special instruction sequences of \<^verbatim>\<open>valgrind.h\<close> for x86, amd64, arm and arm64: the
  preambles, the expression \<^verbatim>\<open>VALGRIND_DO_CLIENT_REQUEST_EXPR\<close>, the context of a wrapped
  function and the call without redirection. A definition that executes assembly takes the
  executor as an argument: \<open>exec_seq\<close> is the real processor, \<open>vg_exec\<close> is Valgrind.
\<close>

section \<open>Registers\<close>

text \<open>\<open>Opd2\<close> and \<open>Opd k\<close> are registers that the compiler chose for an operand of the assembly.\<close>

datatype x86_reg =
  AX | BX | CX | DX | SI | DI | BP | SP | R8 | R9 | R10 | R11 | R12 | R13 | R14 | R15 | Opd2

datatype arm_reg = R nat | Sp | Opd nat

type_synonym ('r, 'w) executor = "'r instr list \<Rightarrow> ('r, 'w) cpu \<Rightarrow> ('r, 'w) cpu outcome"

text \<open>
  With \<^verbatim>\<open>NVALGRIND\<close> the expression is its default value. The statement form discards the
  value of the expression.
\<close>

definition VALGRIND_DO_CLIENT_REQUEST_EXPR_none ::
  "'w::len word \<Rightarrow> 'w word \<Rightarrow> 'w word \<Rightarrow> 'w word \<Rightarrow> 'w word \<Rightarrow> 'w word \<Rightarrow> 'w word \<Rightarrow> 'w word" where
  "VALGRIND_DO_CLIENT_REQUEST_EXPR_none dflt request arg1 arg2 arg3 arg4 arg5 = dflt"

section \<open>x86\<close>

definition SPECIAL_INSTRUCTION_PREAMBLE_x86 :: "x86_reg instr list" where
  "SPECIAL_INSTRUCTION_PREAMBLE_x86 = [Rol DI 3, Rol DI 13, Rol DI 29, Rol DI 19]"

definition isa_x86 :: "x86_reg isa" where
  "isa_x86 =
     \<lparr>stack_reg = SP, request_reg = AX, result_reg = DX, nraddr_reg = AX,
      preamble = SPECIAL_INSTRUCTION_PREAMBLE_x86,
      selector = (\<lambda>i.
        if i = Xchg BX BX then Some Client_request
        else if i = Xchg CX CX then Some Get_nr_context
        else if i = Xchg DX DX then Some Call_noredir
        else if i = Xchg DI DI then Some Inject_ir else None)\<rparr>"

definition VALGRIND_DO_CLIENT_REQUEST_EXPR_x86 ::
  "(x86_reg, 32) executor \<Rightarrow> 32 word \<Rightarrow> 32 word \<Rightarrow> 32 word \<Rightarrow> 32 word \<Rightarrow> 32 word \<Rightarrow> 32 word \<Rightarrow> 32 word \<Rightarrow> 32 word \<Rightarrow>
   (x86_reg, 32) cpu \<Rightarrow> (32 word \<times> (x86_reg, 32) cpu) outcome" where
  "VALGRIND_DO_CLIENT_REQUEST_EXPR_x86 run dflt request arg1 arg2 arg3 arg4 arg5 a st =
     (let st1 = put_words a [request, arg1, arg2, arg3, arg4, arg5] st;
          st2 = set_reg DX dflt (set_reg AX a st1) in
      bind_o (run (SPECIAL_INSTRUCTION_PREAMBLE_x86 @ [Xchg BX BX]) st2) (\<lambda>st3.
      Ok (regs st3 DX, st3)))"

definition VALGRIND_GET_NR_CONTEXT_x86 ::
  "(x86_reg, 32) executor \<Rightarrow> (x86_reg, 32) cpu \<Rightarrow> (32 word \<times> (x86_reg, 32) cpu) outcome" where
  "VALGRIND_GET_NR_CONTEXT_x86 run st =
     bind_o (run (SPECIAL_INSTRUCTION_PREAMBLE_x86 @ [Xchg CX CX]) st) (\<lambda>st1.
     Ok (regs st1 AX, st1))"

definition VALGRIND_CALL_NOREDIR_EAX_x86 :: "x86_reg instr list" where
  "VALGRIND_CALL_NOREDIR_EAX_x86 = SPECIAL_INSTRUCTION_PREAMBLE_x86 @ [Xchg DX DX]"

definition VALGRIND_VEX_INJECT_IR_x86 :: "x86_reg instr list" where
  "VALGRIND_VEX_INJECT_IR_x86 = SPECIAL_INSTRUCTION_PREAMBLE_x86 @ [Xchg DI DI]"

section \<open>amd64\<close>

definition SPECIAL_INSTRUCTION_PREAMBLE_amd64 :: "x86_reg instr list" where
  "SPECIAL_INSTRUCTION_PREAMBLE_amd64 = [Rol DI 3, Rol DI 13, Rol DI 61, Rol DI 51]"

definition isa_amd64 :: "x86_reg isa" where
  "isa_amd64 =
     \<lparr>stack_reg = SP, request_reg = AX, result_reg = DX, nraddr_reg = AX,
      preamble = SPECIAL_INSTRUCTION_PREAMBLE_amd64,
      selector = (\<lambda>i.
        if i = Xchg BX BX then Some Client_request
        else if i = Xchg CX CX then Some Get_nr_context
        else if i = Xchg DX DX then Some Call_noredir
        else if i = Xchg DI DI then Some Inject_ir else None)\<rparr>"

definition VALGRIND_DO_CLIENT_REQUEST_EXPR_amd64 ::
  "(x86_reg, 64) executor \<Rightarrow> 64 word \<Rightarrow> 64 word \<Rightarrow> 64 word \<Rightarrow> 64 word \<Rightarrow> 64 word \<Rightarrow> 64 word \<Rightarrow> 64 word \<Rightarrow> 64 word \<Rightarrow>
   (x86_reg, 64) cpu \<Rightarrow> (64 word \<times> (x86_reg, 64) cpu) outcome" where
  "VALGRIND_DO_CLIENT_REQUEST_EXPR_amd64 run dflt request arg1 arg2 arg3 arg4 arg5 a st =
     (let st1 = put_words a [request, arg1, arg2, arg3, arg4, arg5] st;
          st2 = set_reg DX dflt (set_reg AX a st1) in
      bind_o (run (SPECIAL_INSTRUCTION_PREAMBLE_amd64 @ [Xchg BX BX]) st2) (\<lambda>st3.
      Ok (regs st3 DX, st3)))"

definition VALGRIND_GET_NR_CONTEXT_amd64 ::
  "(x86_reg, 64) executor \<Rightarrow> (x86_reg, 64) cpu \<Rightarrow> (64 word \<times> (x86_reg, 64) cpu) outcome" where
  "VALGRIND_GET_NR_CONTEXT_amd64 run st =
     bind_o (run (SPECIAL_INSTRUCTION_PREAMBLE_amd64 @ [Xchg CX CX]) st) (\<lambda>st1.
     Ok (regs st1 AX, st1))"

definition VALGRIND_CALL_NOREDIR_RAX_amd64 :: "x86_reg instr list" where
  "VALGRIND_CALL_NOREDIR_RAX_amd64 = SPECIAL_INSTRUCTION_PREAMBLE_amd64 @ [Xchg DX DX]"

definition VALGRIND_VEX_INJECT_IR_amd64 :: "x86_reg instr list" where
  "VALGRIND_VEX_INJECT_IR_amd64 = SPECIAL_INSTRUCTION_PREAMBLE_amd64 @ [Xchg DI DI]"

section \<open>arm\<close>

definition SPECIAL_INSTRUCTION_PREAMBLE_arm :: "arm_reg instr list" where
  "SPECIAL_INSTRUCTION_PREAMBLE_arm = [Ror (R 12) 3, Ror (R 12) 13, Ror (R 12) 29, Ror (R 12) 19]"

definition isa_arm :: "arm_reg isa" where
  "isa_arm =
     \<lparr>stack_reg = Sp, request_reg = R 4, result_reg = R 3, nraddr_reg = R 3,
      preamble = SPECIAL_INSTRUCTION_PREAMBLE_arm,
      selector = (\<lambda>i.
        if i = Orr (R 10) (R 10) (R 10) then Some Client_request
        else if i = Orr (R 11) (R 11) (R 11) then Some Get_nr_context
        else if i = Orr (R 12) (R 12) (R 12) then Some Call_noredir
        else if i = Orr (R 9) (R 9) (R 9) then Some Inject_ir else None)\<rparr>"

definition VALGRIND_DO_CLIENT_REQUEST_EXPR_arm ::
  "(arm_reg, 32) executor \<Rightarrow> 32 word \<Rightarrow> 32 word \<Rightarrow> 32 word \<Rightarrow> 32 word \<Rightarrow> 32 word \<Rightarrow> 32 word \<Rightarrow> 32 word \<Rightarrow> 32 word \<Rightarrow>
   (arm_reg, 32) cpu \<Rightarrow> (32 word \<times> (arm_reg, 32) cpu) outcome" where
  "VALGRIND_DO_CLIENT_REQUEST_EXPR_arm run dflt request arg1 arg2 arg3 arg4 arg5 a st =
     (let st1 = put_words a [request, arg1, arg2, arg3, arg4, arg5] st;
          st2 = set_reg (Opd 2) a (set_reg (Opd 1) dflt st1) in
      bind_o (run ([Mov (R 3) (Opd 1), Mov (R 4) (Opd 2)] @ SPECIAL_INSTRUCTION_PREAMBLE_arm @
        [Orr (R 10) (R 10) (R 10), Mov (Opd 0) (R 3)]) st2) (\<lambda>st3.
      Ok (regs st3 (Opd 0), st3)))"

definition VALGRIND_GET_NR_CONTEXT_arm ::
  "(arm_reg, 32) executor \<Rightarrow> (arm_reg, 32) cpu \<Rightarrow> (32 word \<times> (arm_reg, 32) cpu) outcome" where
  "VALGRIND_GET_NR_CONTEXT_arm run st =
     bind_o (run (SPECIAL_INSTRUCTION_PREAMBLE_arm @ [Orr (R 11) (R 11) (R 11)] @ [Mov (Opd 0) (R 3)]) st) (\<lambda>st1.
     Ok (regs st1 (Opd 0), st1))"

definition VALGRIND_BRANCH_AND_LINK_TO_NOREDIR_R4_arm :: "arm_reg instr list" where
  "VALGRIND_BRANCH_AND_LINK_TO_NOREDIR_R4_arm = SPECIAL_INSTRUCTION_PREAMBLE_arm @ [Orr (R 12) (R 12) (R 12)]"

definition VALGRIND_VEX_INJECT_IR_arm :: "arm_reg instr list" where
  "VALGRIND_VEX_INJECT_IR_arm = SPECIAL_INSTRUCTION_PREAMBLE_arm @ [Orr (R 9) (R 9) (R 9)]"

section \<open>arm64\<close>

definition SPECIAL_INSTRUCTION_PREAMBLE_arm64 :: "arm_reg instr list" where
  "SPECIAL_INSTRUCTION_PREAMBLE_arm64 = [Ror (R 12) 3, Ror (R 12) 13, Ror (R 12) 51, Ror (R 12) 61]"

definition isa_arm64 :: "arm_reg isa" where
  "isa_arm64 =
     \<lparr>stack_reg = Sp, request_reg = R 4, result_reg = R 3, nraddr_reg = R 3,
      preamble = SPECIAL_INSTRUCTION_PREAMBLE_arm64,
      selector = (\<lambda>i.
        if i = Orr (R 10) (R 10) (R 10) then Some Client_request
        else if i = Orr (R 11) (R 11) (R 11) then Some Get_nr_context
        else if i = Orr (R 12) (R 12) (R 12) then Some Call_noredir
        else if i = Orr (R 9) (R 9) (R 9) then Some Inject_ir else None)\<rparr>"

definition VALGRIND_DO_CLIENT_REQUEST_EXPR_arm64 ::
  "(arm_reg, 64) executor \<Rightarrow> 64 word \<Rightarrow> 64 word \<Rightarrow> 64 word \<Rightarrow> 64 word \<Rightarrow> 64 word \<Rightarrow> 64 word \<Rightarrow> 64 word \<Rightarrow> 64 word \<Rightarrow>
   (arm_reg, 64) cpu \<Rightarrow> (64 word \<times> (arm_reg, 64) cpu) outcome" where
  "VALGRIND_DO_CLIENT_REQUEST_EXPR_arm64 run dflt request arg1 arg2 arg3 arg4 arg5 a st =
     (let st1 = put_words a [request, arg1, arg2, arg3, arg4, arg5] st;
          st2 = set_reg (Opd 2) a (set_reg (Opd 1) dflt st1) in
      bind_o (run ([Mov (R 3) (Opd 1), Mov (R 4) (Opd 2)] @ SPECIAL_INSTRUCTION_PREAMBLE_arm64 @
        [Orr (R 10) (R 10) (R 10), Mov (Opd 0) (R 3)]) st2) (\<lambda>st3.
      Ok (regs st3 (Opd 0), st3)))"

definition VALGRIND_GET_NR_CONTEXT_arm64 ::
  "(arm_reg, 64) executor \<Rightarrow> (arm_reg, 64) cpu \<Rightarrow> (64 word \<times> (arm_reg, 64) cpu) outcome" where
  "VALGRIND_GET_NR_CONTEXT_arm64 run st =
     bind_o (run (SPECIAL_INSTRUCTION_PREAMBLE_arm64 @ [Orr (R 11) (R 11) (R 11)] @ [Mov (Opd 0) (R 3)]) st) (\<lambda>st1.
     Ok (regs st1 (Opd 0), st1))"

definition VALGRIND_BRANCH_AND_LINK_TO_NOREDIR_X8_arm64 :: "arm_reg instr list" where
  "VALGRIND_BRANCH_AND_LINK_TO_NOREDIR_X8_arm64 = SPECIAL_INSTRUCTION_PREAMBLE_arm64 @ [Orr (R 12) (R 12) (R 12)]"

definition VALGRIND_VEX_INJECT_IR_arm64 :: "arm_reg instr list" where
  "VALGRIND_VEX_INJECT_IR_arm64 = SPECIAL_INSTRUCTION_PREAMBLE_arm64 @ [Orr (R 9) (R 9) (R 9)]"

section \<open>Without Valgrind the sequences do nothing\<close>

lemma word_bytes_simps [simp]: "word_bytes TYPE(32) = 4" "word_bytes TYPE(64) = 8"
  by (simp_all add: word_bytes_def)

lemma rotations_cancel:
  "word_rotl 19 (word_rotl 29 (word_rotl 13 (word_rotl 3 (w :: 32 word)))) = w"
  "word_rotl 51 (word_rotl 61 (word_rotl 13 (word_rotl 3 (v :: 64 word)))) = v"
  "word_rotr 19 (word_rotr 29 (word_rotr 13 (word_rotr 3 w))) = w"
  "word_rotr 61 (word_rotr 51 (word_rotr 13 (word_rotr 3 v))) = v"
  unfolding rotl_roti rotr_roti word_roti_add [symmetric]
  using roti_period [of "- 2" w] roti_period [of "- 2" v] roti_period [of 2 w] roti_period [of 2 v]
  by (simp_all del: word_roti_eq_word_rotr_word_rotl)

lemmas preamble_defs =
  SPECIAL_INSTRUCTION_PREAMBLE_x86_def SPECIAL_INSTRUCTION_PREAMBLE_amd64_def
  SPECIAL_INSTRUCTION_PREAMBLE_arm_def SPECIAL_INSTRUCTION_PREAMBLE_arm64_def

lemma preamble_native:
  "exec_seq sp SPECIAL_INSTRUCTION_PREAMBLE_x86 (s :: (x86_reg, 32) cpu) = Ok s"
  "exec_seq sp SPECIAL_INSTRUCTION_PREAMBLE_amd64 (t :: (x86_reg, 64) cpu) = Ok t"
  "exec_seq sp' SPECIAL_INSTRUCTION_PREAMBLE_arm (u :: (arm_reg, 32) cpu) = Ok u"
  "exec_seq sp' SPECIAL_INSTRUCTION_PREAMBLE_arm64 (v :: (arm_reg, 64) cpu) = Ok v"
  by (simp_all add: preamble_defs set_reg_def rotations_cancel
      del: word_roti_eq_word_rotr_word_rotl)

lemma select_native:
  "exec_instr sp (Xchg r r) s = Ok s" "exec_instr sp (Orr r r r) s = Ok s"
  by simp_all

section \<open>Under Valgrind the sequences select a service\<close>

lemmas isa_defs = isa_x86_def isa_amd64_def isa_arm_def isa_arm64_def

lemma isa_preamble:
  "preamble isa_x86 = SPECIAL_INSTRUCTION_PREAMBLE_x86" "preamble isa_amd64 = SPECIAL_INSTRUCTION_PREAMBLE_amd64"
  "preamble isa_arm = SPECIAL_INSTRUCTION_PREAMBLE_arm" "preamble isa_arm64 = SPECIAL_INSTRUCTION_PREAMBLE_arm64"
  by (simp_all add: isa_defs)

lemma isa_regs [simp]:
  "stack_reg isa_x86 = SP" "request_reg isa_x86 = AX" "result_reg isa_x86 = DX" "nraddr_reg isa_x86 = AX"
  "stack_reg isa_amd64 = SP" "request_reg isa_amd64 = AX" "result_reg isa_amd64 = DX" "nraddr_reg isa_amd64 = AX"
  "stack_reg isa_arm = Sp" "request_reg isa_arm = R 4" "result_reg isa_arm = R 3" "nraddr_reg isa_arm = R 3"
  "stack_reg isa_arm64 = Sp" "request_reg isa_arm64 = R 4" "result_reg isa_arm64 = R 3" "nraddr_reg isa_arm64 = R 3"
  by (simp_all add: isa_defs)

lemma vg_exec_service:
  assumes "isa \<in> {isa_x86, isa_amd64}"
  shows "vg_exec isa h (preamble isa @ Xchg BX BX # rest) st = bind_o (h Client_request st) (vg_exec isa h rest)"
    "vg_exec isa h (preamble isa @ Xchg CX CX # rest) st = bind_o (h Get_nr_context st) (vg_exec isa h rest)"
    "vg_exec isa h (preamble isa @ Xchg DX DX # rest) st = bind_o (h Call_noredir st) (vg_exec isa h rest)"
    "vg_exec isa h (preamble isa @ Xchg DI DI # rest) st = bind_o (h Inject_ir st) (vg_exec isa h rest)"
  using assms by (auto intro!: vg_exec_special simp: isa_defs)

lemma vg_exec_service_arm:
  assumes "isa \<in> {isa_arm, isa_arm64}"
  shows "vg_exec isa h (preamble isa @ Orr (R 10) (R 10) (R 10) # rest) st = bind_o (h Client_request st) (vg_exec isa h rest)"
    "vg_exec isa h (preamble isa @ Orr (R 11) (R 11) (R 11) # rest) st = bind_o (h Get_nr_context st) (vg_exec isa h rest)"
    "vg_exec isa h (preamble isa @ Orr (R 12) (R 12) (R 12) # rest) st = bind_o (h Call_noredir st) (vg_exec isa h rest)"
    "vg_exec isa h (preamble isa @ Orr (R 9) (R 9) (R 9) # rest) st = bind_o (h Inject_ir st) (vg_exec isa h rest)"
  using assms by (auto intro!: vg_exec_special simp: isa_defs)

lemma vg_exec_end: "isa \<in> {isa_x86, isa_amd64} \<Longrightarrow> vg_exec isa h [] st = Ok st"
  "isa' \<in> {isa_arm, isa_arm64} \<Longrightarrow> vg_exec isa' h' [] st' = Ok st'"
  by (auto intro!: vg_exec_Nil simp: isa_defs preamble_defs)

lemmas vg_exec_services =
  vg_exec_service [of isa_x86, simplified, unfolded isa_preamble] vg_exec_service [of isa_amd64, simplified, unfolded isa_preamble]
  vg_exec_service_arm [of isa_arm, simplified, unfolded isa_preamble] vg_exec_service_arm [of isa_arm64, simplified, unfolded isa_preamble]

lemmas vg_exec_ends =
  vg_exec_end(1) [of isa_x86, simplified] vg_exec_end(1) [of isa_amd64, simplified]
  vg_exec_end(2) [of isa_arm, simplified] vg_exec_end(2) [of isa_arm64, simplified]

text \<open>An ordinary instruction before a service or at the end.\<close>

lemma vg_exec_step:
  assumes "isa \<in> {isa_arm, isa_arm64}"
  shows "vg_exec isa h (Mov x y # rest) st = bind_o (exec_instr (stack_reg isa) (Mov x y) st) (vg_exec isa h rest)"
  using vg_exec_plain [of isa "[Mov x y]" h rest st] assms by (auto simp: isa_defs preamble_defs)

lemmas vg_exec_steps = vg_exec_step [of isa_arm, simplified] vg_exec_step [of isa_arm64, simplified]

end
