(* ===== verification/Vg_Platforms.thy ===== *)
theory Vg_Platforms
  imports Vg_Special
begin

text \<open>
  The special instruction sequences of \<^verbatim>\<open>valgrind.h\<close> for ppc32, ppc64 (both byte orders),
  s390x, mips32, mips64 and for the Microsoft compiler on x86, in the same form as in
  \<open>Vg_Special\<close>. On ppc64 the context of a wrapped function has a second word, the pointer to its
  table of contents. A memory cell is a whole word, so the two byte orders of ppc64 have the same model.
\<close>

section \<open>Registers\<close>

text \<open>
  \<open>G n\<close> is the general-purpose register \<open>n\<close> (the stack pointer is register 1 on ppc, 15 on s390x,
  29 on mips); \<open>Op k\<close> is the register that the compiler chose for operand \<open>k\<close> of the assembly.
  Register 0 of mips is always 0; that a write to it has no effect is not part of the machine, and the
  only instructions that write it are shifts of itself, after which it is 0.
\<close>

datatype gp_reg = G nat | Op nat

section \<open>x86 with the Microsoft compiler\<close>

text \<open>The same instructions as on x86, in a function, with the operands loaded by the assembly.\<close>

definition valgrind_do_client_request_expr_win32 ::
  "(x86_reg, 32) executor \<Rightarrow> 32 word \<Rightarrow> 32 word \<Rightarrow> 32 word \<Rightarrow> 32 word \<Rightarrow> 32 word \<Rightarrow> 32 word \<Rightarrow> 32 word \<Rightarrow> 32 word \<Rightarrow>
   (x86_reg, 32) cpu \<Rightarrow> (32 word \<times> (x86_reg, 32) cpu) outcome" where
  "valgrind_do_client_request_expr_win32 run dflt request arg1 arg2 arg3 arg4 arg5 a st =
     (let st1 = put_words a [request, arg1, arg2, arg3, arg4, arg5] st;
          st2 = set_reg DX dflt (set_reg AX a st1) in
      bind_o (run ([Rol DI 3, Rol DI 13, Rol DI 29, Rol DI 19] @ [Xchg BX BX]) st2) (\<lambda>st3.
      Ok (regs st3 DX, st3)))"

definition VALGRIND_GET_NR_CONTEXT_win32 ::
  "(x86_reg, 32) executor \<Rightarrow> (x86_reg, 32) cpu \<Rightarrow> (32 word \<times> (x86_reg, 32) cpu) outcome" where
  "VALGRIND_GET_NR_CONTEXT_win32 run st =
     bind_o (run ([Rol DI 3, Rol DI 13, Rol DI 29, Rol DI 19] @ [Xchg CX CX]) st) (\<lambda>st1.
     Ok (regs st1 AX, st1))"

definition VALGRIND_VEX_INJECT_IR_win32 :: "x86_reg instr list" where
  "VALGRIND_VEX_INJECT_IR_win32 = [Rol DI 3, Rol DI 13, Rol DI 29, Rol DI 19] @ [Xchg DI DI]"

lemma win32_as_x86:
  "valgrind_do_client_request_expr_win32 = VALGRIND_DO_CLIENT_REQUEST_EXPR_x86"
  "VALGRIND_GET_NR_CONTEXT_win32 = VALGRIND_GET_NR_CONTEXT_x86"
  "VALGRIND_VEX_INJECT_IR_win32 = VALGRIND_VEX_INJECT_IR_x86"
  by (simp_all add: fun_eq_iff valgrind_do_client_request_expr_win32_def VALGRIND_DO_CLIENT_REQUEST_EXPR_x86_def
      VALGRIND_GET_NR_CONTEXT_win32_def VALGRIND_GET_NR_CONTEXT_x86_def VALGRIND_VEX_INJECT_IR_win32_def
      VALGRIND_VEX_INJECT_IR_x86_def SPECIAL_INSTRUCTION_PREAMBLE_x86_def)

section \<open>ppc32\<close>

definition SPECIAL_INSTRUCTION_PREAMBLE_ppc32 :: "gp_reg instr list" where
  "SPECIAL_INSTRUCTION_PREAMBLE_ppc32 =
     [Rotl_mask (G 0) (G 0) 3 0 31, Rotl_mask (G 0) (G 0) 13 0 31,
      Rotl_mask (G 0) (G 0) 29 0 31, Rotl_mask (G 0) (G 0) 19 0 31]"

definition isa_ppc32 :: "gp_reg isa" where
  "isa_ppc32 =
     \<lparr>stack_reg = G 1, request_reg = G 4, result_reg = G 3, nraddr_reg = G 3,
      preamble = SPECIAL_INSTRUCTION_PREAMBLE_ppc32,
      selector = (\<lambda>i.
        if i = Orr (G 1) (G 1) (G 1) then Some Client_request
        else if i = Orr (G 2) (G 2) (G 2) then Some Get_nr_context
        else if i = Orr (G 3) (G 3) (G 3) then Some Call_noredir
        else if i = Orr (G 5) (G 5) (G 5) then Some Inject_ir else None)\<rparr>"

definition VALGRIND_DO_CLIENT_REQUEST_EXPR_ppc32 ::
  "(gp_reg, 32) executor \<Rightarrow> 32 word \<Rightarrow> 32 word \<Rightarrow> 32 word \<Rightarrow> 32 word \<Rightarrow> 32 word \<Rightarrow> 32 word \<Rightarrow> 32 word \<Rightarrow> 32 word \<Rightarrow>
   (gp_reg, 32) cpu \<Rightarrow> (32 word \<times> (gp_reg, 32) cpu) outcome" where
  "VALGRIND_DO_CLIENT_REQUEST_EXPR_ppc32 run dflt request arg1 arg2 arg3 arg4 arg5 a st =
     (let st1 = put_words a [request, arg1, arg2, arg3, arg4, arg5] st;
          st2 = set_reg (Op 2) a (set_reg (Op 1) dflt st1) in
      bind_o (run ([Mov (G 3) (Op 1), Mov (G 4) (Op 2)] @ SPECIAL_INSTRUCTION_PREAMBLE_ppc32 @
        [Orr (G 1) (G 1) (G 1), Mov (Op 0) (G 3)]) st2) (\<lambda>st3.
      Ok (regs st3 (Op 0), st3)))"

definition VALGRIND_GET_NR_CONTEXT_ppc32 ::
  "(gp_reg, 32) executor \<Rightarrow> (gp_reg, 32) cpu \<Rightarrow> (32 word \<times> (gp_reg, 32) cpu) outcome" where
  "VALGRIND_GET_NR_CONTEXT_ppc32 run st =
     bind_o (run (SPECIAL_INSTRUCTION_PREAMBLE_ppc32 @ [Orr (G 2) (G 2) (G 2), Mov (Op 0) (G 3)]) st) (\<lambda>st1.
     Ok (regs st1 (Op 0), st1))"

definition VALGRIND_BRANCH_AND_LINK_TO_NOREDIR_R11_ppc32 :: "gp_reg instr list" where
  "VALGRIND_BRANCH_AND_LINK_TO_NOREDIR_R11_ppc32 = SPECIAL_INSTRUCTION_PREAMBLE_ppc32 @ [Orr (G 3) (G 3) (G 3)]"

definition VALGRIND_VEX_INJECT_IR_ppc32 :: "gp_reg instr list" where
  "VALGRIND_VEX_INJECT_IR_ppc32 = SPECIAL_INSTRUCTION_PREAMBLE_ppc32 @ [Orr (G 5) (G 5) (G 5)]"

section \<open>ppc64, big endian\<close>

definition SPECIAL_INSTRUCTION_PREAMBLE_ppc64be :: "gp_reg instr list" where
  "SPECIAL_INSTRUCTION_PREAMBLE_ppc64be =
     [Rotl_mask (G 0) (G 0) 3 0 63, Rotl_mask (G 0) (G 0) 13 0 63,
      Rotl_mask (G 0) (G 0) 61 0 63, Rotl_mask (G 0) (G 0) 51 0 63]"

definition isa_ppc64be :: "gp_reg isa" where
  "isa_ppc64be =
     \<lparr>stack_reg = G 1, request_reg = G 4, result_reg = G 3, nraddr_reg = G 3,
      preamble = SPECIAL_INSTRUCTION_PREAMBLE_ppc64be,
      selector = (\<lambda>i.
        if i = Orr (G 1) (G 1) (G 1) then Some Client_request
        else if i = Orr (G 2) (G 2) (G 2) then Some Get_nr_context
        else if i = Orr (G 4) (G 4) (G 4) then Some Get_nr_gpr2
        else if i = Orr (G 3) (G 3) (G 3) then Some Call_noredir
        else if i = Orr (G 5) (G 5) (G 5) then Some Inject_ir else None)\<rparr>"

definition VALGRIND_DO_CLIENT_REQUEST_EXPR_ppc64be ::
  "(gp_reg, 64) executor \<Rightarrow> 64 word \<Rightarrow> 64 word \<Rightarrow> 64 word \<Rightarrow> 64 word \<Rightarrow> 64 word \<Rightarrow> 64 word \<Rightarrow> 64 word \<Rightarrow> 64 word \<Rightarrow>
   (gp_reg, 64) cpu \<Rightarrow> (64 word \<times> (gp_reg, 64) cpu) outcome" where
  "VALGRIND_DO_CLIENT_REQUEST_EXPR_ppc64be run dflt request arg1 arg2 arg3 arg4 arg5 a st =
     (let st1 = put_words a [request, arg1, arg2, arg3, arg4, arg5] st;
          st2 = set_reg (Op 2) a (set_reg (Op 1) dflt st1) in
      bind_o (run ([Mov (G 3) (Op 1), Mov (G 4) (Op 2)] @ SPECIAL_INSTRUCTION_PREAMBLE_ppc64be @
        [Orr (G 1) (G 1) (G 1), Mov (Op 0) (G 3)]) st2) (\<lambda>st3.
      Ok (regs st3 (Op 0), st3)))"

definition VALGRIND_GET_NR_CONTEXT_ppc64be ::
  "(gp_reg, 64) executor \<Rightarrow> (gp_reg, 64) cpu \<Rightarrow> (64 orig_fn \<times> (gp_reg, 64) cpu) outcome" where
  "VALGRIND_GET_NR_CONTEXT_ppc64be run st =
     bind_o (run (SPECIAL_INSTRUCTION_PREAMBLE_ppc64be @ [Orr (G 2) (G 2) (G 2), Mov (Op 0) (G 3)]) st) (\<lambda>st1.
     bind_o (run (SPECIAL_INSTRUCTION_PREAMBLE_ppc64be @ [Orr (G 4) (G 4) (G 4), Mov (Op 0) (G 3)]) st1) (\<lambda>st2.
     Ok (\<lparr>nraddr = regs st1 (Op 0), r2 = regs st2 (Op 0)\<rparr>, st2)))"

definition VALGRIND_BRANCH_AND_LINK_TO_NOREDIR_R11_ppc64be :: "gp_reg instr list" where
  "VALGRIND_BRANCH_AND_LINK_TO_NOREDIR_R11_ppc64be = SPECIAL_INSTRUCTION_PREAMBLE_ppc64be @ [Orr (G 3) (G 3) (G 3)]"

definition VALGRIND_VEX_INJECT_IR_ppc64be :: "gp_reg instr list" where
  "VALGRIND_VEX_INJECT_IR_ppc64be = SPECIAL_INSTRUCTION_PREAMBLE_ppc64be @ [Orr (G 5) (G 5) (G 5)]"

section \<open>ppc64, little endian\<close>

definition SPECIAL_INSTRUCTION_PREAMBLE_ppc64le :: "gp_reg instr list" where
  "SPECIAL_INSTRUCTION_PREAMBLE_ppc64le =
     [Rotl_mask (G 0) (G 0) 3 0 63, Rotl_mask (G 0) (G 0) 13 0 63,
      Rotl_mask (G 0) (G 0) 61 0 63, Rotl_mask (G 0) (G 0) 51 0 63]"

definition isa_ppc64le :: "gp_reg isa" where
  "isa_ppc64le =
     \<lparr>stack_reg = G 1, request_reg = G 4, result_reg = G 3, nraddr_reg = G 3,
      preamble = SPECIAL_INSTRUCTION_PREAMBLE_ppc64le,
      selector = (\<lambda>i.
        if i = Orr (G 1) (G 1) (G 1) then Some Client_request
        else if i = Orr (G 2) (G 2) (G 2) then Some Get_nr_context
        else if i = Orr (G 4) (G 4) (G 4) then Some Get_nr_gpr2
        else if i = Orr (G 3) (G 3) (G 3) then Some Call_noredir
        else if i = Orr (G 5) (G 5) (G 5) then Some Inject_ir else None)\<rparr>"

definition VALGRIND_DO_CLIENT_REQUEST_EXPR_ppc64le ::
  "(gp_reg, 64) executor \<Rightarrow> 64 word \<Rightarrow> 64 word \<Rightarrow> 64 word \<Rightarrow> 64 word \<Rightarrow> 64 word \<Rightarrow> 64 word \<Rightarrow> 64 word \<Rightarrow> 64 word \<Rightarrow>
   (gp_reg, 64) cpu \<Rightarrow> (64 word \<times> (gp_reg, 64) cpu) outcome" where
  "VALGRIND_DO_CLIENT_REQUEST_EXPR_ppc64le run dflt request arg1 arg2 arg3 arg4 arg5 a st =
     (let st1 = put_words a [request, arg1, arg2, arg3, arg4, arg5] st;
          st2 = set_reg (Op 2) a (set_reg (Op 1) dflt st1) in
      bind_o (run ([Mov (G 3) (Op 1), Mov (G 4) (Op 2)] @ SPECIAL_INSTRUCTION_PREAMBLE_ppc64le @
        [Orr (G 1) (G 1) (G 1), Mov (Op 0) (G 3)]) st2) (\<lambda>st3.
      Ok (regs st3 (Op 0), st3)))"

definition VALGRIND_GET_NR_CONTEXT_ppc64le ::
  "(gp_reg, 64) executor \<Rightarrow> (gp_reg, 64) cpu \<Rightarrow> (64 orig_fn \<times> (gp_reg, 64) cpu) outcome" where
  "VALGRIND_GET_NR_CONTEXT_ppc64le run st =
     bind_o (run (SPECIAL_INSTRUCTION_PREAMBLE_ppc64le @ [Orr (G 2) (G 2) (G 2), Mov (Op 0) (G 3)]) st) (\<lambda>st1.
     bind_o (run (SPECIAL_INSTRUCTION_PREAMBLE_ppc64le @ [Orr (G 4) (G 4) (G 4), Mov (Op 0) (G 3)]) st1) (\<lambda>st2.
     Ok (\<lparr>nraddr = regs st1 (Op 0), r2 = regs st2 (Op 0)\<rparr>, st2)))"

definition VALGRIND_BRANCH_AND_LINK_TO_NOREDIR_R12_ppc64le :: "gp_reg instr list" where
  "VALGRIND_BRANCH_AND_LINK_TO_NOREDIR_R12_ppc64le = SPECIAL_INSTRUCTION_PREAMBLE_ppc64le @ [Orr (G 3) (G 3) (G 3)]"

definition VALGRIND_VEX_INJECT_IR_ppc64le :: "gp_reg instr list" where
  "VALGRIND_VEX_INJECT_IR_ppc64le = SPECIAL_INSTRUCTION_PREAMBLE_ppc64le @ [Orr (G 5) (G 5) (G 5)]"

section \<open>s390x\<close>

definition SPECIAL_INSTRUCTION_PREAMBLE_s390x :: "gp_reg instr list" where
  "SPECIAL_INSTRUCTION_PREAMBLE_s390x =
     [Lr (G 15) (G 15), Lr (G 1) (G 1), Lr (G 2) (G 2), Lr (G 3) (G 3)]"

definition isa_s390x :: "gp_reg isa" where
  "isa_s390x =
     \<lparr>stack_reg = G 15, request_reg = G 2, result_reg = G 3, nraddr_reg = G 3,
      preamble = SPECIAL_INSTRUCTION_PREAMBLE_s390x,
      selector = (\<lambda>i.
        if i = Lr (G 2) (G 2) then Some Client_request
        else if i = Lr (G 3) (G 3) then Some Get_nr_context
        else if i = Lr (G 4) (G 4) then Some Call_noredir
        else if i = Lr (G 5) (G 5) then Some Inject_ir else None)\<rparr>"

definition VALGRIND_DO_CLIENT_REQUEST_EXPR_s390x ::
  "(gp_reg, 64) executor \<Rightarrow> 64 word \<Rightarrow> 64 word \<Rightarrow> 64 word \<Rightarrow> 64 word \<Rightarrow> 64 word \<Rightarrow> 64 word \<Rightarrow> 64 word \<Rightarrow> 64 word \<Rightarrow>
   (gp_reg, 64) cpu \<Rightarrow> (64 word \<times> (gp_reg, 64) cpu) outcome" where
  "VALGRIND_DO_CLIENT_REQUEST_EXPR_s390x run dflt request arg1 arg2 arg3 arg4 arg5 a st =
     (let st1 = put_words a [request, arg1, arg2, arg3, arg4, arg5] st;
          st2 = set_reg (Op 1) a (set_reg (Op 0) dflt st1) in
      bind_o (run ([Mov (G 2) (Op 1), Mov (G 3) (Op 0)] @ SPECIAL_INSTRUCTION_PREAMBLE_s390x @
        [Lr (G 2) (G 2), Mov (Op 0) (G 3)]) st2) (\<lambda>st3.
      Ok (regs st3 (Op 0), st3)))"

definition VALGRIND_GET_NR_CONTEXT_s390x ::
  "(gp_reg, 64) executor \<Rightarrow> (gp_reg, 64) cpu \<Rightarrow> (64 word \<times> (gp_reg, 64) cpu) outcome" where
  "VALGRIND_GET_NR_CONTEXT_s390x run st =
     bind_o (run (SPECIAL_INSTRUCTION_PREAMBLE_s390x @ [Lr (G 3) (G 3), Mov (Op 0) (G 3)]) st) (\<lambda>st1.
     Ok (regs st1 (Op 0), st1))"

definition VALGRIND_CALL_NOREDIR_R1_s390x :: "gp_reg instr list" where
  "VALGRIND_CALL_NOREDIR_R1_s390x = SPECIAL_INSTRUCTION_PREAMBLE_s390x @ [Lr (G 4) (G 4)]"

definition VALGRIND_VEX_INJECT_IR_s390x :: "gp_reg instr list" where
  "VALGRIND_VEX_INJECT_IR_s390x = SPECIAL_INSTRUCTION_PREAMBLE_s390x @ [Lr (G 5) (G 5)]"

section \<open>mips32\<close>

definition SPECIAL_INSTRUCTION_PREAMBLE_mips32 :: "gp_reg instr list" where
  "SPECIAL_INSTRUCTION_PREAMBLE_mips32 =
     [Srl (G 0) (G 0) 13, Srl (G 0) (G 0) 29, Srl (G 0) (G 0) 3, Srl (G 0) (G 0) 19]"

definition isa_mips32 :: "gp_reg isa" where
  "isa_mips32 =
     \<lparr>stack_reg = G 29, request_reg = G 12, result_reg = G 11, nraddr_reg = G 11,
      preamble = SPECIAL_INSTRUCTION_PREAMBLE_mips32,
      selector = (\<lambda>i.
        if i = Orr (G 13) (G 13) (G 13) then Some Client_request
        else if i = Orr (G 14) (G 14) (G 14) then Some Get_nr_context
        else if i = Orr (G 15) (G 15) (G 15) then Some Call_noredir
        else if i = Orr (G 11) (G 11) (G 11) then Some Inject_ir else None)\<rparr>"

definition VALGRIND_DO_CLIENT_REQUEST_EXPR_mips32 ::
  "(gp_reg, 32) executor \<Rightarrow> 32 word \<Rightarrow> 32 word \<Rightarrow> 32 word \<Rightarrow> 32 word \<Rightarrow> 32 word \<Rightarrow> 32 word \<Rightarrow> 32 word \<Rightarrow> 32 word \<Rightarrow>
   (gp_reg, 32) cpu \<Rightarrow> (32 word \<times> (gp_reg, 32) cpu) outcome" where
  "VALGRIND_DO_CLIENT_REQUEST_EXPR_mips32 run dflt request arg1 arg2 arg3 arg4 arg5 a st =
     (let st1 = put_words a [request, arg1, arg2, arg3, arg4, arg5] st;
          st2 = set_reg (Op 2) a (set_reg (Op 1) dflt st1) in
      bind_o (run ([Mov (G 11) (Op 1), Mov (G 12) (Op 2)] @ SPECIAL_INSTRUCTION_PREAMBLE_mips32 @
        [Orr (G 13) (G 13) (G 13), Mov (Op 0) (G 11)]) st2) (\<lambda>st3.
      Ok (regs st3 (Op 0), st3)))"

definition VALGRIND_GET_NR_CONTEXT_mips32 ::
  "(gp_reg, 32) executor \<Rightarrow> (gp_reg, 32) cpu \<Rightarrow> (32 word \<times> (gp_reg, 32) cpu) outcome" where
  "VALGRIND_GET_NR_CONTEXT_mips32 run st =
     bind_o (run (SPECIAL_INSTRUCTION_PREAMBLE_mips32 @ [Orr (G 14) (G 14) (G 14), Mov (Op 0) (G 11)]) st) (\<lambda>st1.
     Ok (regs st1 (Op 0), st1))"

definition VALGRIND_CALL_NOREDIR_T9_mips32 :: "gp_reg instr list" where
  "VALGRIND_CALL_NOREDIR_T9_mips32 = SPECIAL_INSTRUCTION_PREAMBLE_mips32 @ [Orr (G 15) (G 15) (G 15)]"

definition VALGRIND_VEX_INJECT_IR_mips32 :: "gp_reg instr list" where
  "VALGRIND_VEX_INJECT_IR_mips32 = SPECIAL_INSTRUCTION_PREAMBLE_mips32 @ [Orr (G 11) (G 11) (G 11)]"

section \<open>mips64\<close>

definition SPECIAL_INSTRUCTION_PREAMBLE_mips64 :: "gp_reg instr list" where
  "SPECIAL_INSTRUCTION_PREAMBLE_mips64 =
     [Sll (G 0) (G 0) 3, Sll (G 0) (G 0) 13, Sll (G 0) (G 0) 29, Sll (G 0) (G 0) 19]"

definition isa_mips64 :: "gp_reg isa" where
  "isa_mips64 =
     \<lparr>stack_reg = G 29, request_reg = G 12, result_reg = G 11, nraddr_reg = G 11,
      preamble = SPECIAL_INSTRUCTION_PREAMBLE_mips64,
      selector = (\<lambda>i.
        if i = Orr (G 13) (G 13) (G 13) then Some Client_request
        else if i = Orr (G 14) (G 14) (G 14) then Some Get_nr_context
        else if i = Orr (G 15) (G 15) (G 15) then Some Call_noredir
        else if i = Orr (G 11) (G 11) (G 11) then Some Inject_ir else None)\<rparr>"

definition VALGRIND_DO_CLIENT_REQUEST_EXPR_mips64 ::
  "(gp_reg, 64) executor \<Rightarrow> 64 word \<Rightarrow> 64 word \<Rightarrow> 64 word \<Rightarrow> 64 word \<Rightarrow> 64 word \<Rightarrow> 64 word \<Rightarrow> 64 word \<Rightarrow> 64 word \<Rightarrow>
   (gp_reg, 64) cpu \<Rightarrow> (64 word \<times> (gp_reg, 64) cpu) outcome" where
  "VALGRIND_DO_CLIENT_REQUEST_EXPR_mips64 run dflt request arg1 arg2 arg3 arg4 arg5 a st =
     (let st1 = put_words a [request, arg1, arg2, arg3, arg4, arg5] st;
          st2 = set_reg (Op 2) a (set_reg (Op 1) dflt st1) in
      bind_o (run ([Mov (G 11) (Op 1), Mov (G 12) (Op 2)] @ SPECIAL_INSTRUCTION_PREAMBLE_mips64 @
        [Orr (G 13) (G 13) (G 13), Mov (Op 0) (G 11)]) st2) (\<lambda>st3.
      Ok (regs st3 (Op 0), st3)))"

definition VALGRIND_GET_NR_CONTEXT_mips64 ::
  "(gp_reg, 64) executor \<Rightarrow> (gp_reg, 64) cpu \<Rightarrow> (64 word \<times> (gp_reg, 64) cpu) outcome" where
  "VALGRIND_GET_NR_CONTEXT_mips64 run st =
     bind_o (run (SPECIAL_INSTRUCTION_PREAMBLE_mips64 @ [Orr (G 14) (G 14) (G 14), Mov (Op 0) (G 11)]) st) (\<lambda>st1.
     Ok (regs st1 (Op 0), st1))"

definition VALGRIND_CALL_NOREDIR_T9_mips64 :: "gp_reg instr list" where
  "VALGRIND_CALL_NOREDIR_T9_mips64 = SPECIAL_INSTRUCTION_PREAMBLE_mips64 @ [Orr (G 15) (G 15) (G 15)]"

definition VALGRIND_VEX_INJECT_IR_mips64 :: "gp_reg instr list" where
  "VALGRIND_VEX_INJECT_IR_mips64 = SPECIAL_INSTRUCTION_PREAMBLE_mips64 @ [Orr (G 11) (G 11) (G 11)]"

section \<open>Without Valgrind the sequences do nothing\<close>

lemma ppc_mask_full: "(ppc_mask 0 31 :: 32 word) = - 1" "(ppc_mask 0 63 :: 64 word) = - 1"
  by (simp_all add: ppc_mask_def mask_eq_exp_minus_1)

lemma ppc_mask_align: "(ppc_mask 0 27 :: 32 word) = not (mask 4)" "(ppc_mask 0 59 :: 64 word) = not (mask 4)"
  by (simp_all add: ppc_mask_def mask_eq_exp_minus_1)

lemma rotl_zero [simp]: "word_rotl 0 x = (x :: 'w::len word)"
  unfolding rotl_roti using roti_period [of 0 x] by (simp del: word_roti_eq_word_rotr_word_rotl)

lemma halves: "or (and x (not (mask 32))) (take_bit 32 x) = (x :: 'w::len word)"
  by (rule bit_eqI) (auto simp: bit_simps)

lemma shifted_out:
  "drop_bit 19 (drop_bit 3 (drop_bit 29 (drop_bit 13 (x :: 32 word)))) = 0"
  "push_bit 19 (push_bit 29 (push_bit 13 (push_bit 3 (y :: 64 word)))) = 0"
  by (rule bit_eqI, simp add: bit_simps)+

lemmas platform_preamble_defs =
  SPECIAL_INSTRUCTION_PREAMBLE_ppc32_def
  SPECIAL_INSTRUCTION_PREAMBLE_ppc64be_def
  SPECIAL_INSTRUCTION_PREAMBLE_ppc64le_def
  SPECIAL_INSTRUCTION_PREAMBLE_s390x_def
  SPECIAL_INSTRUCTION_PREAMBLE_mips32_def
  SPECIAL_INSTRUCTION_PREAMBLE_mips64_def

lemma platform_preamble_native:
  "exec_seq sp SPECIAL_INSTRUCTION_PREAMBLE_ppc32 (s :: (gp_reg, 32) cpu) = Ok s"
  "exec_seq sp SPECIAL_INSTRUCTION_PREAMBLE_ppc64be (t :: (gp_reg, 64) cpu) = Ok t"
  "exec_seq sp SPECIAL_INSTRUCTION_PREAMBLE_ppc64le t = Ok t"
  "exec_seq sp SPECIAL_INSTRUCTION_PREAMBLE_s390x t = Ok t"
  "exec_seq sp SPECIAL_INSTRUCTION_PREAMBLE_mips32 s = Ok (set_reg (G 0) 0 s)"
  "exec_seq sp SPECIAL_INSTRUCTION_PREAMBLE_mips64 t = Ok (set_reg (G 0) 0 t)"
  by (simp_all add: platform_preamble_defs set_reg_def rotations_cancel ppc_mask_full halves shifted_out
      del: word_roti_eq_word_rotr_word_rotl)

section \<open>Under Valgrind the sequences select a service\<close>

lemmas platform_isa_defs =
  isa_ppc32_def isa_ppc64be_def isa_ppc64le_def isa_s390x_def isa_mips32_def isa_mips64_def

lemma platform_isa_regs [simp]:
  "stack_reg isa_ppc32 = G 1" "request_reg isa_ppc32 = G 4" "result_reg isa_ppc32 = G 3" "nraddr_reg isa_ppc32 = G 3"
  "stack_reg isa_ppc64be = G 1" "request_reg isa_ppc64be = G 4" "result_reg isa_ppc64be = G 3" "nraddr_reg isa_ppc64be = G 3"
  "stack_reg isa_ppc64le = G 1" "request_reg isa_ppc64le = G 4" "result_reg isa_ppc64le = G 3" "nraddr_reg isa_ppc64le = G 3"
  "stack_reg isa_s390x = G 15" "request_reg isa_s390x = G 2" "result_reg isa_s390x = G 3" "nraddr_reg isa_s390x = G 3"
  "stack_reg isa_mips32 = G 29" "request_reg isa_mips32 = G 12" "result_reg isa_mips32 = G 11" "nraddr_reg isa_mips32 = G 11"
  "stack_reg isa_mips64 = G 29" "request_reg isa_mips64 = G 12" "result_reg isa_mips64 = G 11" "nraddr_reg isa_mips64 = G 11"
  by (simp_all add: platform_isa_defs)

lemma platform_preambles:
  "preamble isa_ppc32 = SPECIAL_INSTRUCTION_PREAMBLE_ppc32"
  "preamble isa_ppc64be = SPECIAL_INSTRUCTION_PREAMBLE_ppc64be"
  "preamble isa_ppc64le = SPECIAL_INSTRUCTION_PREAMBLE_ppc64le"
  "preamble isa_s390x = SPECIAL_INSTRUCTION_PREAMBLE_s390x"
  "preamble isa_mips32 = SPECIAL_INSTRUCTION_PREAMBLE_mips32"
  "preamble isa_mips64 = SPECIAL_INSTRUCTION_PREAMBLE_mips64"
  by (simp_all add: platform_isa_defs)

text \<open>The services, an ordinary instruction, and the end.\<close>

lemma platform_requests:
  "vg_exec isa_ppc32 h (SPECIAL_INSTRUCTION_PREAMBLE_ppc32 @ Orr (G 1) (G 1) (G 1) # rest) st = bind_o (h Client_request st) (vg_exec isa_ppc32 h rest)"
  "vg_exec isa_ppc64be h (SPECIAL_INSTRUCTION_PREAMBLE_ppc64be @ Orr (G 1) (G 1) (G 1) # rest) st = bind_o (h Client_request st) (vg_exec isa_ppc64be h rest)"
  "vg_exec isa_ppc64le h (SPECIAL_INSTRUCTION_PREAMBLE_ppc64le @ Orr (G 1) (G 1) (G 1) # rest) st = bind_o (h Client_request st) (vg_exec isa_ppc64le h rest)"
  "vg_exec isa_s390x h (SPECIAL_INSTRUCTION_PREAMBLE_s390x @ Lr (G 2) (G 2) # rest) st = bind_o (h Client_request st) (vg_exec isa_s390x h rest)"
  "vg_exec isa_mips32 h (SPECIAL_INSTRUCTION_PREAMBLE_mips32 @ Orr (G 13) (G 13) (G 13) # rest) st = bind_o (h Client_request st) (vg_exec isa_mips32 h rest)"
  "vg_exec isa_mips64 h (SPECIAL_INSTRUCTION_PREAMBLE_mips64 @ Orr (G 13) (G 13) (G 13) # rest) st = bind_o (h Client_request st) (vg_exec isa_mips64 h rest)"
  unfolding platform_preambles [symmetric] by (rule vg_exec_special, simp add: platform_isa_defs)+

lemma platform_contexts:
  "vg_exec isa_ppc32 h (SPECIAL_INSTRUCTION_PREAMBLE_ppc32 @ Orr (G 2) (G 2) (G 2) # rest) st = bind_o (h Get_nr_context st) (vg_exec isa_ppc32 h rest)"
  "vg_exec isa_ppc64be h (SPECIAL_INSTRUCTION_PREAMBLE_ppc64be @ Orr (G 2) (G 2) (G 2) # rest) st = bind_o (h Get_nr_context st) (vg_exec isa_ppc64be h rest)"
  "vg_exec isa_ppc64be h (SPECIAL_INSTRUCTION_PREAMBLE_ppc64be @ Orr (G 4) (G 4) (G 4) # rest) st = bind_o (h Get_nr_gpr2 st) (vg_exec isa_ppc64be h rest)"
  "vg_exec isa_ppc64le h (SPECIAL_INSTRUCTION_PREAMBLE_ppc64le @ Orr (G 2) (G 2) (G 2) # rest) st = bind_o (h Get_nr_context st) (vg_exec isa_ppc64le h rest)"
  "vg_exec isa_ppc64le h (SPECIAL_INSTRUCTION_PREAMBLE_ppc64le @ Orr (G 4) (G 4) (G 4) # rest) st = bind_o (h Get_nr_gpr2 st) (vg_exec isa_ppc64le h rest)"
  "vg_exec isa_s390x h (SPECIAL_INSTRUCTION_PREAMBLE_s390x @ Lr (G 3) (G 3) # rest) st = bind_o (h Get_nr_context st) (vg_exec isa_s390x h rest)"
  "vg_exec isa_mips32 h (SPECIAL_INSTRUCTION_PREAMBLE_mips32 @ Orr (G 14) (G 14) (G 14) # rest) st = bind_o (h Get_nr_context st) (vg_exec isa_mips32 h rest)"
  "vg_exec isa_mips64 h (SPECIAL_INSTRUCTION_PREAMBLE_mips64 @ Orr (G 14) (G 14) (G 14) # rest) st = bind_o (h Get_nr_context st) (vg_exec isa_mips64 h rest)"
  unfolding platform_preambles [symmetric] by (rule vg_exec_special, simp add: platform_isa_defs)+

lemma platform_step:
  assumes "isa \<in> {isa_ppc32, isa_ppc64be, isa_ppc64le, isa_s390x, isa_mips32, isa_mips64}"
  shows "vg_exec isa h (Mov x y # rest) st = bind_o (exec_instr (stack_reg isa) (Mov x y) st) (vg_exec isa h rest)"
    "vg_exec isa h [] st = Ok st"
  using vg_exec_plain [of isa "[Mov x y]" h rest st] vg_exec_Nil [of isa h st] assms
  by (auto simp: platform_isa_defs platform_preamble_defs)

lemmas platform_steps =
  platform_step(1) [of isa_ppc32, simplified] platform_step(2) [of isa_ppc32, simplified]
  platform_step(1) [of isa_ppc64be, simplified] platform_step(2) [of isa_ppc64be, simplified]
  platform_step(1) [of isa_ppc64le, simplified] platform_step(2) [of isa_ppc64le, simplified]
  platform_step(1) [of isa_s390x, simplified] platform_step(2) [of isa_s390x, simplified]
  platform_step(1) [of isa_mips32, simplified] platform_step(2) [of isa_mips32, simplified]
  platform_step(1) [of isa_mips64, simplified] platform_step(2) [of isa_mips64, simplified]

end
