(* ===== verification/Vg_Requests.thy ===== *)
theory Vg_Requests
  imports Vg_Platforms
begin

text \<open>
  The client requests of \<^verbatim>\<open>valgrind.h\<close>: the request codes, the macros that a program
  uses, and what they do on a real processor and under Valgrind. The library uses one of
  them, \<^verbatim>\<open>VALGRIND_STACK_REGISTER\<close> in \<^verbatim>\<open>allocate_stack\<close>.
\<close>

section \<open>Request codes\<close>

datatype vg_client_request =
    VG_USERREQ__RUNNING_ON_VALGRIND
  | VG_USERREQ__DISCARD_TRANSLATIONS
  | VG_USERREQ__CLIENT_CALL0
  | VG_USERREQ__CLIENT_CALL1
  | VG_USERREQ__CLIENT_CALL2
  | VG_USERREQ__CLIENT_CALL3
  | VG_USERREQ__COUNT_ERRORS
  | VG_USERREQ__GDB_MONITOR_COMMAND
  | VG_USERREQ__MALLOCLIKE_BLOCK
  | VG_USERREQ__RESIZEINPLACE_BLOCK
  | VG_USERREQ__FREELIKE_BLOCK
  | VG_USERREQ__CREATE_MEMPOOL
  | VG_USERREQ__DESTROY_MEMPOOL
  | VG_USERREQ__MEMPOOL_ALLOC
  | VG_USERREQ__MEMPOOL_FREE
  | VG_USERREQ__MEMPOOL_TRIM
  | VG_USERREQ__MOVE_MEMPOOL
  | VG_USERREQ__MEMPOOL_CHANGE
  | VG_USERREQ__MEMPOOL_EXISTS
  | VG_USERREQ__PRINTF
  | VG_USERREQ__PRINTF_BACKTRACE
  | VG_USERREQ__PRINTF_VALIST_BY_REF
  | VG_USERREQ__PRINTF_BACKTRACE_VALIST_BY_REF
  | VG_USERREQ__STACK_REGISTER
  | VG_USERREQ__STACK_DEREGISTER
  | VG_USERREQ__STACK_CHANGE
  | VG_USERREQ__LOAD_PDB_DEBUGINFO
  | VG_USERREQ__MAP_IP_TO_SRCLOC
  | VG_USERREQ__CHANGE_ERR_DISABLEMENT
  | VG_USERREQ__VEX_INIT_FOR_IRI
  | VG_USERREQ__INNER_THREADS

primrec request_code :: "vg_client_request \<Rightarrow> 32 word" where
  "request_code VG_USERREQ__RUNNING_ON_VALGRIND = 0x1001"
| "request_code VG_USERREQ__DISCARD_TRANSLATIONS = 0x1002"
| "request_code VG_USERREQ__CLIENT_CALL0 = 0x1101"
| "request_code VG_USERREQ__CLIENT_CALL1 = 0x1102"
| "request_code VG_USERREQ__CLIENT_CALL2 = 0x1103"
| "request_code VG_USERREQ__CLIENT_CALL3 = 0x1104"
| "request_code VG_USERREQ__COUNT_ERRORS = 0x1201"
| "request_code VG_USERREQ__GDB_MONITOR_COMMAND = 0x1202"
| "request_code VG_USERREQ__MALLOCLIKE_BLOCK = 0x1301"
| "request_code VG_USERREQ__RESIZEINPLACE_BLOCK = 0x130b"
| "request_code VG_USERREQ__FREELIKE_BLOCK = 0x1302"
| "request_code VG_USERREQ__CREATE_MEMPOOL = 0x1303"
| "request_code VG_USERREQ__DESTROY_MEMPOOL = 0x1304"
| "request_code VG_USERREQ__MEMPOOL_ALLOC = 0x1305"
| "request_code VG_USERREQ__MEMPOOL_FREE = 0x1306"
| "request_code VG_USERREQ__MEMPOOL_TRIM = 0x1307"
| "request_code VG_USERREQ__MOVE_MEMPOOL = 0x1308"
| "request_code VG_USERREQ__MEMPOOL_CHANGE = 0x1309"
| "request_code VG_USERREQ__MEMPOOL_EXISTS = 0x130a"
| "request_code VG_USERREQ__PRINTF = 0x1401"
| "request_code VG_USERREQ__PRINTF_BACKTRACE = 0x1402"
| "request_code VG_USERREQ__PRINTF_VALIST_BY_REF = 0x1403"
| "request_code VG_USERREQ__PRINTF_BACKTRACE_VALIST_BY_REF = 0x1404"
| "request_code VG_USERREQ__STACK_REGISTER = 0x1501"
| "request_code VG_USERREQ__STACK_DEREGISTER = 0x1502"
| "request_code VG_USERREQ__STACK_CHANGE = 0x1503"
| "request_code VG_USERREQ__LOAD_PDB_DEBUGINFO = 0x1601"
| "request_code VG_USERREQ__MAP_IP_TO_SRCLOC = 0x1701"
| "request_code VG_USERREQ__CHANGE_ERR_DISABLEMENT = 0x1801"
| "request_code VG_USERREQ__VEX_INIT_FOR_IRI = 0x1901"
| "request_code VG_USERREQ__INNER_THREADS = 0x1902"

text \<open>The public codes, listed.\<close>

definition all_requests :: "vg_client_request list" where
  "all_requests = [VG_USERREQ__RUNNING_ON_VALGRIND, VG_USERREQ__DISCARD_TRANSLATIONS,
     VG_USERREQ__CLIENT_CALL0, VG_USERREQ__CLIENT_CALL1,
     VG_USERREQ__CLIENT_CALL2, VG_USERREQ__CLIENT_CALL3,
     VG_USERREQ__COUNT_ERRORS, VG_USERREQ__GDB_MONITOR_COMMAND,
     VG_USERREQ__MALLOCLIKE_BLOCK, VG_USERREQ__RESIZEINPLACE_BLOCK,
     VG_USERREQ__FREELIKE_BLOCK, VG_USERREQ__CREATE_MEMPOOL,
     VG_USERREQ__DESTROY_MEMPOOL, VG_USERREQ__MEMPOOL_ALLOC,
     VG_USERREQ__MEMPOOL_FREE, VG_USERREQ__MEMPOOL_TRIM,
     VG_USERREQ__MOVE_MEMPOOL, VG_USERREQ__MEMPOOL_CHANGE,
     VG_USERREQ__MEMPOOL_EXISTS, VG_USERREQ__PRINTF,
     VG_USERREQ__PRINTF_BACKTRACE, VG_USERREQ__PRINTF_VALIST_BY_REF,
     VG_USERREQ__PRINTF_BACKTRACE_VALIST_BY_REF, VG_USERREQ__STACK_REGISTER,
     VG_USERREQ__STACK_DEREGISTER, VG_USERREQ__STACK_CHANGE,
     VG_USERREQ__LOAD_PDB_DEBUGINFO, VG_USERREQ__MAP_IP_TO_SRCLOC,
     VG_USERREQ__CHANGE_ERR_DISABLEMENT, VG_USERREQ__VEX_INIT_FOR_IRI,
     VG_USERREQ__INNER_THREADS]"

definition VG_USERREQ_TOOL_BASE :: "32 word \<Rightarrow> 32 word \<Rightarrow> 32 word" where
  "VG_USERREQ_TOOL_BASE a b = or (push_bit 24 (and a 0xff)) (push_bit 16 (and b 0xff))"

definition VG_IS_TOOL_USERREQ :: "32 word \<Rightarrow> 32 word \<Rightarrow> 32 word \<Rightarrow> bool" where
  "VG_IS_TOOL_USERREQ a b v \<longleftrightarrow> VG_USERREQ_TOOL_BASE a b = and v 0xffff0000"

section \<open>The macros\<close>

text \<open>A request as the macros write it: the default value, the code and the five arguments.\<close>

type_synonym 'w request = "'w word \<times> vg_client_request \<times> 'w word list"

text \<open>\<^verbatim>\<open>VALGRIND_DO_CLIENT_REQUEST_STMT\<close>: the default is 0 and the value is discarded.\<close>

definition VALGRIND_DO_CLIENT_REQUEST_STMT :: "vg_client_request \<Rightarrow> 'w::len word list \<Rightarrow> 'w request" where
  "VALGRIND_DO_CLIENT_REQUEST_STMT request args = (0, request, args)"

definition RUNNING_ON_VALGRIND :: "'w::len request" where
  "RUNNING_ON_VALGRIND =
     (0, VG_USERREQ__RUNNING_ON_VALGRIND, [0, 0, 0, 0, 0])"

definition VALGRIND_DISCARD_TRANSLATIONS :: "'w::len word \<Rightarrow> 'w word \<Rightarrow> 'w request" where
  "VALGRIND_DISCARD_TRANSLATIONS qzz_addr qzz_len =
     VALGRIND_DO_CLIENT_REQUEST_STMT VG_USERREQ__DISCARD_TRANSLATIONS [qzz_addr, qzz_len, 0, 0, 0]"

definition VALGRIND_INNER_THREADS :: "'w::len word \<Rightarrow> 'w request" where
  "VALGRIND_INNER_THREADS qzz_addr =
     VALGRIND_DO_CLIENT_REQUEST_STMT VG_USERREQ__INNER_THREADS [qzz_addr, 0, 0, 0, 0]"

definition VALGRIND_PRINTF :: "'w::len word \<Rightarrow> 'w word \<Rightarrow> 'w request" where
  "VALGRIND_PRINTF format vargs =
     (0, VG_USERREQ__PRINTF_VALIST_BY_REF, [format, vargs, 0, 0, 0])"

definition VALGRIND_PRINTF_BACKTRACE :: "'w::len word \<Rightarrow> 'w word \<Rightarrow> 'w request" where
  "VALGRIND_PRINTF_BACKTRACE format vargs =
     (0, VG_USERREQ__PRINTF_BACKTRACE_VALIST_BY_REF, [format, vargs, 0, 0, 0])"

definition VALGRIND_NON_SIMD_CALL0 :: "'w::len word \<Rightarrow> 'w request" where
  "VALGRIND_NON_SIMD_CALL0 qyy_fn =
     (0, VG_USERREQ__CLIENT_CALL0, [qyy_fn, 0, 0, 0, 0])"

definition VALGRIND_NON_SIMD_CALL1 :: "'w::len word \<Rightarrow> 'w word \<Rightarrow> 'w request" where
  "VALGRIND_NON_SIMD_CALL1 qyy_fn qyy_arg1 =
     (0, VG_USERREQ__CLIENT_CALL1, [qyy_fn, qyy_arg1, 0, 0, 0])"

definition VALGRIND_NON_SIMD_CALL2 :: "'w::len word \<Rightarrow> 'w word \<Rightarrow> 'w word \<Rightarrow> 'w request" where
  "VALGRIND_NON_SIMD_CALL2 qyy_fn qyy_arg1 qyy_arg2 =
     (0, VG_USERREQ__CLIENT_CALL2, [qyy_fn, qyy_arg1, qyy_arg2, 0, 0])"

definition VALGRIND_NON_SIMD_CALL3 :: "'w::len word \<Rightarrow> 'w word \<Rightarrow> 'w word \<Rightarrow> 'w word \<Rightarrow> 'w request" where
  "VALGRIND_NON_SIMD_CALL3 qyy_fn qyy_arg1 qyy_arg2 qyy_arg3 =
     (0, VG_USERREQ__CLIENT_CALL3, [qyy_fn, qyy_arg1, qyy_arg2, qyy_arg3, 0])"

definition VALGRIND_COUNT_ERRORS :: "'w::len request" where
  "VALGRIND_COUNT_ERRORS =
     (0, VG_USERREQ__COUNT_ERRORS, [0, 0, 0, 0, 0])"

definition VALGRIND_MALLOCLIKE_BLOCK :: "'w::len word \<Rightarrow> 'w word \<Rightarrow> 'w word \<Rightarrow> 'w word \<Rightarrow> 'w request" where
  "VALGRIND_MALLOCLIKE_BLOCK addr sizeB rzB is_zeroed =
     VALGRIND_DO_CLIENT_REQUEST_STMT VG_USERREQ__MALLOCLIKE_BLOCK [addr, sizeB, rzB, is_zeroed, 0]"

definition VALGRIND_RESIZEINPLACE_BLOCK :: "'w::len word \<Rightarrow> 'w word \<Rightarrow> 'w word \<Rightarrow> 'w word \<Rightarrow> 'w request" where
  "VALGRIND_RESIZEINPLACE_BLOCK addr oldSizeB newSizeB rzB =
     VALGRIND_DO_CLIENT_REQUEST_STMT VG_USERREQ__RESIZEINPLACE_BLOCK [addr, oldSizeB, newSizeB, rzB, 0]"

definition VALGRIND_FREELIKE_BLOCK :: "'w::len word \<Rightarrow> 'w word \<Rightarrow> 'w request" where
  "VALGRIND_FREELIKE_BLOCK addr rzB =
     VALGRIND_DO_CLIENT_REQUEST_STMT VG_USERREQ__FREELIKE_BLOCK [addr, rzB, 0, 0, 0]"

definition VALGRIND_CREATE_MEMPOOL :: "'w::len word \<Rightarrow> 'w word \<Rightarrow> 'w word \<Rightarrow> 'w request" where
  "VALGRIND_CREATE_MEMPOOL pool rzB is_zeroed =
     VALGRIND_DO_CLIENT_REQUEST_STMT VG_USERREQ__CREATE_MEMPOOL [pool, rzB, is_zeroed, 0, 0]"

definition VALGRIND_CREATE_MEMPOOL_EXT :: "'w::len word \<Rightarrow> 'w word \<Rightarrow> 'w word \<Rightarrow> 'w word \<Rightarrow> 'w request" where
  "VALGRIND_CREATE_MEMPOOL_EXT pool rzB is_zeroed flags =
     VALGRIND_DO_CLIENT_REQUEST_STMT VG_USERREQ__CREATE_MEMPOOL [pool, rzB, is_zeroed, flags, 0]"

definition VALGRIND_DESTROY_MEMPOOL :: "'w::len word \<Rightarrow> 'w request" where
  "VALGRIND_DESTROY_MEMPOOL pool =
     VALGRIND_DO_CLIENT_REQUEST_STMT VG_USERREQ__DESTROY_MEMPOOL [pool, 0, 0, 0, 0]"

definition VALGRIND_MEMPOOL_ALLOC :: "'w::len word \<Rightarrow> 'w word \<Rightarrow> 'w word \<Rightarrow> 'w request" where
  "VALGRIND_MEMPOOL_ALLOC pool addr sz =
     VALGRIND_DO_CLIENT_REQUEST_STMT VG_USERREQ__MEMPOOL_ALLOC [pool, addr, sz, 0, 0]"

definition VALGRIND_MEMPOOL_FREE :: "'w::len word \<Rightarrow> 'w word \<Rightarrow> 'w request" where
  "VALGRIND_MEMPOOL_FREE pool addr =
     VALGRIND_DO_CLIENT_REQUEST_STMT VG_USERREQ__MEMPOOL_FREE [pool, addr, 0, 0, 0]"

definition VALGRIND_MEMPOOL_TRIM :: "'w::len word \<Rightarrow> 'w word \<Rightarrow> 'w word \<Rightarrow> 'w request" where
  "VALGRIND_MEMPOOL_TRIM pool addr sz =
     VALGRIND_DO_CLIENT_REQUEST_STMT VG_USERREQ__MEMPOOL_TRIM [pool, addr, sz, 0, 0]"

definition VALGRIND_MOVE_MEMPOOL :: "'w::len word \<Rightarrow> 'w word \<Rightarrow> 'w request" where
  "VALGRIND_MOVE_MEMPOOL poolA poolB =
     VALGRIND_DO_CLIENT_REQUEST_STMT VG_USERREQ__MOVE_MEMPOOL [poolA, poolB, 0, 0, 0]"

definition VALGRIND_MEMPOOL_CHANGE :: "'w::len word \<Rightarrow> 'w word \<Rightarrow> 'w word \<Rightarrow> 'w word \<Rightarrow> 'w request" where
  "VALGRIND_MEMPOOL_CHANGE pool addrA addrB sz =
     VALGRIND_DO_CLIENT_REQUEST_STMT VG_USERREQ__MEMPOOL_CHANGE [pool, addrA, addrB, sz, 0]"

definition VALGRIND_MEMPOOL_EXISTS :: "'w::len word \<Rightarrow> 'w request" where
  "VALGRIND_MEMPOOL_EXISTS pool =
     (0, VG_USERREQ__MEMPOOL_EXISTS, [pool, 0, 0, 0, 0])"

definition VALGRIND_STACK_REGISTER :: "'w::len word \<Rightarrow> 'w word \<Rightarrow> 'w request" where
  "VALGRIND_STACK_REGISTER stack_start stack_end =
     (0, VG_USERREQ__STACK_REGISTER, [stack_start, stack_end, 0, 0, 0])"

definition VALGRIND_STACK_DEREGISTER :: "'w::len word \<Rightarrow> 'w request" where
  "VALGRIND_STACK_DEREGISTER stack_id =
     VALGRIND_DO_CLIENT_REQUEST_STMT VG_USERREQ__STACK_DEREGISTER [stack_id, 0, 0, 0, 0]"

definition VALGRIND_STACK_CHANGE :: "'w::len word \<Rightarrow> 'w word \<Rightarrow> 'w word \<Rightarrow> 'w request" where
  "VALGRIND_STACK_CHANGE stack_id stack_start stack_end =
     VALGRIND_DO_CLIENT_REQUEST_STMT VG_USERREQ__STACK_CHANGE [stack_id, stack_start, stack_end, 0, 0]"

definition VALGRIND_LOAD_PDB_DEBUGINFO :: "'w::len word \<Rightarrow> 'w word \<Rightarrow> 'w word \<Rightarrow> 'w word \<Rightarrow> 'w request" where
  "VALGRIND_LOAD_PDB_DEBUGINFO fd ptr total_size delta =
     VALGRIND_DO_CLIENT_REQUEST_STMT VG_USERREQ__LOAD_PDB_DEBUGINFO [fd, ptr, total_size, delta, 0]"

definition VALGRIND_MAP_IP_TO_SRCLOC :: "'w::len word \<Rightarrow> 'w word \<Rightarrow> 'w request" where
  "VALGRIND_MAP_IP_TO_SRCLOC addr buf64 =
     (0, VG_USERREQ__MAP_IP_TO_SRCLOC, [addr, buf64, 0, 0, 0])"

definition VALGRIND_DISABLE_ERROR_REPORTING :: "'w::len request" where
  "VALGRIND_DISABLE_ERROR_REPORTING =
     VALGRIND_DO_CLIENT_REQUEST_STMT VG_USERREQ__CHANGE_ERR_DISABLEMENT [1, 0, 0, 0, 0]"

definition VALGRIND_ENABLE_ERROR_REPORTING :: "'w::len request" where
  "VALGRIND_ENABLE_ERROR_REPORTING =
     VALGRIND_DO_CLIENT_REQUEST_STMT VG_USERREQ__CHANGE_ERR_DISABLEMENT [- 1, 0, 0, 0, 0]"

definition VALGRIND_MONITOR_COMMAND :: "'w::len word \<Rightarrow> 'w request" where
  "VALGRIND_MONITOR_COMMAND command =
     (0, VG_USERREQ__GDB_MONITOR_COMMAND, [command, 0, 0, 0, 0])"

text \<open>The values of the macros that cast the result to \<^verbatim>\<open>unsigned\<close> or \<^verbatim>\<open>int\<close>.\<close>

definition as_unsigned :: "'w::len word \<Rightarrow> 32 word" where
  "as_unsigned v = ucast v"

section \<open>Executing a request\<close>

fun request_words :: "'w::len request \<Rightarrow> 'w word list" where
  "request_words (d, r, args) = ucast (request_code r) # args"

fun do_request_amd64 :: "(x86_reg, 64) executor \<Rightarrow> 64 request \<Rightarrow> 64 word \<Rightarrow> (x86_reg, 64) cpu \<Rightarrow>
    (64 word \<times> (x86_reg, 64) cpu) outcome" where
  "do_request_amd64 run (d, r, args) a st =
     VALGRIND_DO_CLIENT_REQUEST_EXPR_amd64 run d (ucast (request_code r))
       (args ! 0) (args ! 1) (args ! 2) (args ! 3) (args ! 4) a st"

fun do_request_x86 :: "(x86_reg, 32) executor \<Rightarrow> 32 request \<Rightarrow> 32 word \<Rightarrow> (x86_reg, 32) cpu \<Rightarrow>
    (32 word \<times> (x86_reg, 32) cpu) outcome" where
  "do_request_x86 run (d, r, args) a st =
     VALGRIND_DO_CLIENT_REQUEST_EXPR_x86 run d (ucast (request_code r))
       (args ! 0) (args ! 1) (args ! 2) (args ! 3) (args ! 4) a st"

section \<open>Names of wrappers and replacements\<close>

definition VG_CONCAT4 :: "string \<Rightarrow> string \<Rightarrow> string \<Rightarrow> string \<Rightarrow> string" where
  "VG_CONCAT4 a b c d = a @ b @ c @ d"

definition I_WRAP_SONAME_FNNAME_ZU :: "string \<Rightarrow> string \<Rightarrow> string" where
  "I_WRAP_SONAME_FNNAME_ZU soname fnname = VG_CONCAT4 ''_vgw00000ZU_'' soname ''_'' fnname"

definition I_WRAP_SONAME_FNNAME_ZZ :: "string \<Rightarrow> string \<Rightarrow> string" where
  "I_WRAP_SONAME_FNNAME_ZZ soname fnname = VG_CONCAT4 ''_vgw00000ZZ_'' soname ''_'' fnname"

definition I_REPLACE_SONAME_FNNAME_ZU :: "string \<Rightarrow> string \<Rightarrow> string" where
  "I_REPLACE_SONAME_FNNAME_ZU soname fnname = VG_CONCAT4 ''_vgr00000ZU_'' soname ''_'' fnname"

definition I_REPLACE_SONAME_FNNAME_ZZ :: "string \<Rightarrow> string \<Rightarrow> string" where
  "I_REPLACE_SONAME_FNNAME_ZZ soname fnname = VG_CONCAT4 ''_vgr00000ZZ_'' soname ''_'' fnname"

text \<open>
  The prefix tells the four kinds apart, and a name determines the object and the function when the name of the object
  has no underscore, as in the encoding of Valgrind, which writes it as \<^verbatim>\<open>Zu\<close>.
\<close>

lemmas wrapper_defs = I_WRAP_SONAME_FNNAME_ZU_def I_WRAP_SONAME_FNNAME_ZZ_def
  I_REPLACE_SONAME_FNNAME_ZU_def I_REPLACE_SONAME_FNNAME_ZZ_def VG_CONCAT4_def

lemma wrapper_kinds_differ:
  "I_WRAP_SONAME_FNNAME_ZU s g \<noteq> I_WRAP_SONAME_FNNAME_ZZ s' g'"
  "I_REPLACE_SONAME_FNNAME_ZU s g \<noteq> I_REPLACE_SONAME_FNNAME_ZZ s' g'"
  "I_WRAP_SONAME_FNNAME_ZU s g \<noteq> I_REPLACE_SONAME_FNNAME_ZU s' g'"
  "I_WRAP_SONAME_FNNAME_ZU s g \<noteq> I_REPLACE_SONAME_FNNAME_ZZ s' g'"
  "I_WRAP_SONAME_FNNAME_ZZ s g \<noteq> I_REPLACE_SONAME_FNNAME_ZU s' g'"
  "I_WRAP_SONAME_FNNAME_ZZ s g \<noteq> I_REPLACE_SONAME_FNNAME_ZZ s' g'"
  by (simp_all add: wrapper_defs)

lemma separator_unique:
  assumes "x \<notin> set s" "x \<notin> set s'"
  shows "s @ x # g = s' @ x # g' \<longleftrightarrow> s = s' \<and> g = g'"
  using assms
proof (induction s arbitrary: s')
  case Nil
  then show ?case by (cases s') auto
next
  case (Cons c s)
  then show ?case by (cases s') auto
qed

lemma wrapper_name_inj:
  assumes "CHR ''_'' \<notin> set s" "CHR ''_'' \<notin> set s'"
  shows "I_WRAP_SONAME_FNNAME_ZU s g = I_WRAP_SONAME_FNNAME_ZU s' g' \<longleftrightarrow> s = s' \<and> g = g'"
    "I_REPLACE_SONAME_FNNAME_ZU s g = I_REPLACE_SONAME_FNNAME_ZU s' g' \<longleftrightarrow> s = s' \<and> g = g'"
  by (simp_all add: wrapper_defs separator_unique [OF assms])

section \<open>Properties\<close>

lemmas platform_request_defs =
  VALGRIND_DO_CLIENT_REQUEST_EXPR_ppc32_def
  VALGRIND_DO_CLIENT_REQUEST_EXPR_ppc64be_def
  VALGRIND_DO_CLIENT_REQUEST_EXPR_ppc64le_def
  VALGRIND_DO_CLIENT_REQUEST_EXPR_s390x_def
  VALGRIND_DO_CLIENT_REQUEST_EXPR_mips32_def
  VALGRIND_DO_CLIENT_REQUEST_EXPR_mips64_def

lemma platform_request_native:
  fixes w :: "(gp_reg, 32) cpu" and x :: "(gp_reg, 64) cpu"
  shows "VALGRIND_DO_CLIENT_REQUEST_EXPR_ppc32 (exec_seq (G 1)) d q a1 a2 a3 a4 a5 a w =
     Ok (VALGRIND_DO_CLIENT_REQUEST_EXPR_none d q a1 a2 a3 a4 a5,
         set_reg (Op 0) d (set_reg (G 4) a (set_reg (G 3) d (set_reg (Op 2) a (set_reg (Op 1) d
           (put_words a [q, a1, a2, a3, a4, a5] w))))))"
  "VALGRIND_DO_CLIENT_REQUEST_EXPR_ppc64be (exec_seq (G 1)) e r b1 b2 b3 b4 b5 b x =
     Ok (VALGRIND_DO_CLIENT_REQUEST_EXPR_none e r b1 b2 b3 b4 b5,
         set_reg (Op 0) e (set_reg (G 4) b (set_reg (G 3) e (set_reg (Op 2) b (set_reg (Op 1) e
           (put_words b [r, b1, b2, b3, b4, b5] x))))))"
  "VALGRIND_DO_CLIENT_REQUEST_EXPR_ppc64le (exec_seq (G 1)) e r b1 b2 b3 b4 b5 b x =
     Ok (VALGRIND_DO_CLIENT_REQUEST_EXPR_none e r b1 b2 b3 b4 b5,
         set_reg (Op 0) e (set_reg (G 4) b (set_reg (G 3) e (set_reg (Op 2) b (set_reg (Op 1) e
           (put_words b [r, b1, b2, b3, b4, b5] x))))))"
  "VALGRIND_DO_CLIENT_REQUEST_EXPR_s390x (exec_seq (G 15)) e r b1 b2 b3 b4 b5 b x =
     Ok (VALGRIND_DO_CLIENT_REQUEST_EXPR_none e r b1 b2 b3 b4 b5,
         set_reg (Op 0) e (set_reg (G 3) e (set_reg (G 2) b (set_reg (Op 1) b (set_reg (Op 0) e
           (put_words b [r, b1, b2, b3, b4, b5] x))))))"
  "VALGRIND_DO_CLIENT_REQUEST_EXPR_mips32 (exec_seq (G 29)) d q a1 a2 a3 a4 a5 a w =
     Ok (VALGRIND_DO_CLIENT_REQUEST_EXPR_none d q a1 a2 a3 a4 a5,
         set_reg (Op 0) d (set_reg (G 0) 0 (set_reg (G 12) a (set_reg (G 11) d (set_reg (Op 2) a (set_reg (Op 1) d
           (put_words a [q, a1, a2, a3, a4, a5] w)))))))"
  "VALGRIND_DO_CLIENT_REQUEST_EXPR_mips64 (exec_seq (G 29)) e r b1 b2 b3 b4 b5 b x =
     Ok (VALGRIND_DO_CLIENT_REQUEST_EXPR_none e r b1 b2 b3 b4 b5,
         set_reg (Op 0) e (set_reg (G 0) 0 (set_reg (G 12) b (set_reg (G 11) e (set_reg (Op 2) b (set_reg (Op 1) e
           (put_words b [r, b1, b2, b3, b4, b5] x)))))))"
  by (simp_all add: platform_request_defs VALGRIND_DO_CLIENT_REQUEST_EXPR_none_def exec_seq_append
      platform_preamble_native fun_upd_twist halves del: put_words.simps)

text \<open>
  C35: On a real processor a client request costs nothing but its operands: the special sequence
  leaves every other register and all other memory alone and the value is the default, as
  in a build with \<^verbatim>\<open>NVALGRIND\<close>. This holds on all ten
  platforms; on mips the sequence also shifts register 0, which is always 0.
\<close>

theorem client_request_native:
  fixes w :: "(gp_reg, 32) cpu" and x :: "(gp_reg, 64) cpu"
  shows "VALGRIND_DO_CLIENT_REQUEST_EXPR_x86 (exec_seq SP) d q a1 a2 a3 a4 a5 a s =
     Ok (VALGRIND_DO_CLIENT_REQUEST_EXPR_none d q a1 a2 a3 a4 a5,
         set_reg DX d (set_reg AX a (put_words a [q, a1, a2, a3, a4, a5] s))) \<and>
   VALGRIND_DO_CLIENT_REQUEST_EXPR_amd64 (exec_seq SP) e r b1 b2 b3 b4 b5 b t =
     Ok (VALGRIND_DO_CLIENT_REQUEST_EXPR_none e r b1 b2 b3 b4 b5,
         set_reg DX e (set_reg AX b (put_words b [r, b1, b2, b3, b4, b5] t))) \<and>
   VALGRIND_DO_CLIENT_REQUEST_EXPR_arm (exec_seq Sp) d q a1 a2 a3 a4 a5 a u =
     Ok (VALGRIND_DO_CLIENT_REQUEST_EXPR_none d q a1 a2 a3 a4 a5,
         set_reg (Opd 0) d (set_reg (R 4) a (set_reg (R 3) d (set_reg (Opd 2) a (set_reg (Opd 1) d
           (put_words a [q, a1, a2, a3, a4, a5] u)))))) \<and>
   VALGRIND_DO_CLIENT_REQUEST_EXPR_arm64 (exec_seq Sp) e r b1 b2 b3 b4 b5 b v =
     Ok (VALGRIND_DO_CLIENT_REQUEST_EXPR_none e r b1 b2 b3 b4 b5,
         set_reg (Opd 0) e (set_reg (R 4) b (set_reg (R 3) e (set_reg (Opd 2) b (set_reg (Opd 1) e
           (put_words b [r, b1, b2, b3, b4, b5] v)))))) \<and>
   VALGRIND_DO_CLIENT_REQUEST_EXPR_ppc32 (exec_seq (G 1)) d q a1 a2 a3 a4 a5 a w =
     Ok (VALGRIND_DO_CLIENT_REQUEST_EXPR_none d q a1 a2 a3 a4 a5,
         set_reg (Op 0) d (set_reg (G 4) a (set_reg (G 3) d (set_reg (Op 2) a (set_reg (Op 1) d
           (put_words a [q, a1, a2, a3, a4, a5] w)))))) \<and>
   VALGRIND_DO_CLIENT_REQUEST_EXPR_ppc64be (exec_seq (G 1)) e r b1 b2 b3 b4 b5 b x =
     Ok (VALGRIND_DO_CLIENT_REQUEST_EXPR_none e r b1 b2 b3 b4 b5,
         set_reg (Op 0) e (set_reg (G 4) b (set_reg (G 3) e (set_reg (Op 2) b (set_reg (Op 1) e
           (put_words b [r, b1, b2, b3, b4, b5] x)))))) \<and>
   VALGRIND_DO_CLIENT_REQUEST_EXPR_ppc64le (exec_seq (G 1)) e r b1 b2 b3 b4 b5 b x =
     Ok (VALGRIND_DO_CLIENT_REQUEST_EXPR_none e r b1 b2 b3 b4 b5,
         set_reg (Op 0) e (set_reg (G 4) b (set_reg (G 3) e (set_reg (Op 2) b (set_reg (Op 1) e
           (put_words b [r, b1, b2, b3, b4, b5] x)))))) \<and>
   VALGRIND_DO_CLIENT_REQUEST_EXPR_s390x (exec_seq (G 15)) e r b1 b2 b3 b4 b5 b x =
     Ok (VALGRIND_DO_CLIENT_REQUEST_EXPR_none e r b1 b2 b3 b4 b5,
         set_reg (Op 0) e (set_reg (G 3) e (set_reg (G 2) b (set_reg (Op 1) b (set_reg (Op 0) e
           (put_words b [r, b1, b2, b3, b4, b5] x)))))) \<and>
   VALGRIND_DO_CLIENT_REQUEST_EXPR_mips32 (exec_seq (G 29)) d q a1 a2 a3 a4 a5 a w =
     Ok (VALGRIND_DO_CLIENT_REQUEST_EXPR_none d q a1 a2 a3 a4 a5,
         set_reg (Op 0) d (set_reg (G 0) 0 (set_reg (G 12) a (set_reg (G 11) d (set_reg (Op 2) a (set_reg (Op 1) d
           (put_words a [q, a1, a2, a3, a4, a5] w))))))) \<and>
   VALGRIND_DO_CLIENT_REQUEST_EXPR_mips64 (exec_seq (G 29)) e r b1 b2 b3 b4 b5 b x =
     Ok (VALGRIND_DO_CLIENT_REQUEST_EXPR_none e r b1 b2 b3 b4 b5,
         set_reg (Op 0) e (set_reg (G 0) 0 (set_reg (G 12) b (set_reg (G 11) e (set_reg (Op 2) b (set_reg (Op 1) e
           (put_words b [r, b1, b2, b3, b4, b5] x)))))))"
  by (intro conjI platform_request_native)
    (simp_all add: VALGRIND_DO_CLIENT_REQUEST_EXPR_x86_def VALGRIND_DO_CLIENT_REQUEST_EXPR_amd64_def
      VALGRIND_DO_CLIENT_REQUEST_EXPR_arm_def VALGRIND_DO_CLIENT_REQUEST_EXPR_arm64_def
      VALGRIND_DO_CLIENT_REQUEST_EXPR_none_def exec_seq_append preamble_native
      del: put_words.simps)

lemma fetch_request:
  fixes a :: "'w::len word"
  assumes "unat a + word_bytes TYPE('w) * 6 \<le> 2 ^ LENGTH('w)" "0 < word_bytes TYPE('w)"
    "cells st' = cells (put_words a [q, a1, a2, a3, a4, a5] st)"
  shows "fetch_words 6 a st' = Ok [q, a1, a2, a3, a4, a5]"
proof -
  have six: "length [q, a1, a2, a3, a4, a5] = 6" by simp
  show ?thesis using fetch_words_put [of a "[q, a1, a2, a3, a4, a5]" st' st] assms unfolding six by blast
qed

lemma platform_request_delivered:
  fixes w :: "(gp_reg, 32) cpu" and x :: "(gp_reg, 64) cpu"
  assumes "unat a + 24 \<le> 2 ^ 32" "unat b + 48 \<le> 2 ^ 64"
  shows "(\<exists>s'. VALGRIND_DO_CLIENT_REQUEST_EXPR_ppc32 (vg_exec isa_ppc32 (valgrind_hooks isa_ppc32 f nr c5))
      d q a1 a2 a3 a4 a5 a w = Ok (f [q, a1, a2, a3, a4, a5], s'))"
    "(\<exists>s'. VALGRIND_DO_CLIENT_REQUEST_EXPR_ppc64be (vg_exec isa_ppc64be (valgrind_hooks isa_ppc64be g nr' c6))
      e r b1 b2 b3 b4 b5 b x = Ok (g [r, b1, b2, b3, b4, b5], s'))"
    "(\<exists>s'. VALGRIND_DO_CLIENT_REQUEST_EXPR_ppc64le (vg_exec isa_ppc64le (valgrind_hooks isa_ppc64le g nr' c7))
      e r b1 b2 b3 b4 b5 b x = Ok (g [r, b1, b2, b3, b4, b5], s'))"
    "(\<exists>s'. VALGRIND_DO_CLIENT_REQUEST_EXPR_s390x (vg_exec isa_s390x (valgrind_hooks isa_s390x g nr' c8))
      e r b1 b2 b3 b4 b5 b x = Ok (g [r, b1, b2, b3, b4, b5], s'))"
    "(\<exists>s'. VALGRIND_DO_CLIENT_REQUEST_EXPR_mips32 (vg_exec isa_mips32 (valgrind_hooks isa_mips32 f nr c9))
      d q a1 a2 a3 a4 a5 a w = Ok (f [q, a1, a2, a3, a4, a5], s'))"
    "(\<exists>s'. VALGRIND_DO_CLIENT_REQUEST_EXPR_mips64 (vg_exec isa_mips64 (valgrind_hooks isa_mips64 g nr' c10))
      e r b1 b2 b3 b4 b5 b x = Ok (g [r, b1, b2, b3, b4, b5], s'))"
  using assms
  by (simp_all add: platform_request_defs platform_requests [unfolded One_nat_def] platform_steps fetch_request
      del: put_words.simps fetch_words.simps)

text \<open>
  C36: Under Valgrind the tool receives exactly the request code and the five arguments, in order,
  and its answer is the value of the expression.
\<close>

theorem client_request_delivered:
  fixes w :: "(gp_reg, 32) cpu" and x :: "(gp_reg, 64) cpu"
  assumes "unat a + 24 \<le> 2 ^ 32" "unat b + 48 \<le> 2 ^ 64"
  shows "(\<exists>s'. VALGRIND_DO_CLIENT_REQUEST_EXPR_x86 (vg_exec isa_x86 (valgrind_hooks isa_x86 f nr c1))
      d q a1 a2 a3 a4 a5 a s = Ok (f [q, a1, a2, a3, a4, a5], s')) \<and>
    (\<exists>s'. VALGRIND_DO_CLIENT_REQUEST_EXPR_amd64 (vg_exec isa_amd64 (valgrind_hooks isa_amd64 g nr' c2))
      e r b1 b2 b3 b4 b5 b t = Ok (g [r, b1, b2, b3, b4, b5], s')) \<and>
    (\<exists>s'. VALGRIND_DO_CLIENT_REQUEST_EXPR_arm (vg_exec isa_arm (valgrind_hooks isa_arm f nr c3))
      d q a1 a2 a3 a4 a5 a u = Ok (f [q, a1, a2, a3, a4, a5], s')) \<and>
    (\<exists>s'. VALGRIND_DO_CLIENT_REQUEST_EXPR_arm64 (vg_exec isa_arm64 (valgrind_hooks isa_arm64 g nr' c4))
      e r b1 b2 b3 b4 b5 b v = Ok (g [r, b1, b2, b3, b4, b5], s')) \<and>
    (\<exists>s'. VALGRIND_DO_CLIENT_REQUEST_EXPR_ppc32 (vg_exec isa_ppc32 (valgrind_hooks isa_ppc32 f nr c5))
      d q a1 a2 a3 a4 a5 a w = Ok (f [q, a1, a2, a3, a4, a5], s')) \<and>
    (\<exists>s'. VALGRIND_DO_CLIENT_REQUEST_EXPR_ppc64be (vg_exec isa_ppc64be (valgrind_hooks isa_ppc64be g nr' c6))
      e r b1 b2 b3 b4 b5 b x = Ok (g [r, b1, b2, b3, b4, b5], s')) \<and>
    (\<exists>s'. VALGRIND_DO_CLIENT_REQUEST_EXPR_ppc64le (vg_exec isa_ppc64le (valgrind_hooks isa_ppc64le g nr' c7))
      e r b1 b2 b3 b4 b5 b x = Ok (g [r, b1, b2, b3, b4, b5], s')) \<and>
    (\<exists>s'. VALGRIND_DO_CLIENT_REQUEST_EXPR_s390x (vg_exec isa_s390x (valgrind_hooks isa_s390x g nr' c8))
      e r b1 b2 b3 b4 b5 b x = Ok (g [r, b1, b2, b3, b4, b5], s')) \<and>
    (\<exists>s'. VALGRIND_DO_CLIENT_REQUEST_EXPR_mips32 (vg_exec isa_mips32 (valgrind_hooks isa_mips32 f nr c9))
      d q a1 a2 a3 a4 a5 a w = Ok (f [q, a1, a2, a3, a4, a5], s')) \<and>
    (\<exists>s'. VALGRIND_DO_CLIENT_REQUEST_EXPR_mips64 (vg_exec isa_mips64 (valgrind_hooks isa_mips64 g nr' c10))
      e r b1 b2 b3 b4 b5 b x = Ok (g [r, b1, b2, b3, b4, b5], s'))"
  using assms platform_request_delivered [OF assms]
  by (simp add: VALGRIND_DO_CLIENT_REQUEST_EXPR_x86_def VALGRIND_DO_CLIENT_REQUEST_EXPR_amd64_def
      VALGRIND_DO_CLIENT_REQUEST_EXPR_arm_def VALGRIND_DO_CLIENT_REQUEST_EXPR_arm64_def
      vg_exec_services vg_exec_ends vg_exec_steps fetch_request del: put_words.simps fetch_words.simps)

theorem client_request_delivered_witness:
  "\<exists>s'. do_request_amd64 (vg_exec isa_amd64 (valgrind_hooks isa_amd64 (\<lambda>ws. ws ! 2 - ws ! 1) \<lparr>nraddr = 0, r2 = 0\<rparr> Ok))
      (VALGRIND_STACK_REGISTER 0x10000 0x20000) 0x7000 \<lparr>regs = (\<lambda>_. 0), cells = (\<lambda>_. None)\<rparr> = Ok (0x10000, s')"
  using client_request_delivered [of 0 "0x7000", THEN conjunct2, THEN conjunct1,
      of "\<lambda>ws. ws ! 2 - ws ! 1" "\<lparr>nraddr = 0, r2 = 0\<rparr>" Ok 0 "0x1501" "0x10000" "0x20000" 0 0 0
         "\<lparr>regs = (\<lambda>_. 0), cells = (\<lambda>_. None)\<rparr>"]
  by (simp add: VALGRIND_STACK_REGISTER_def)

text \<open>
  Under Valgrind a wrapper gets the context of the original function, on ppc64 with the pointer to the table of
  contents, and the memory is left alone.
\<close>

lemmas context_defs =
  VALGRIND_GET_NR_CONTEXT_x86_def VALGRIND_GET_NR_CONTEXT_amd64_def VALGRIND_GET_NR_CONTEXT_arm_def
  VALGRIND_GET_NR_CONTEXT_arm64_def VALGRIND_GET_NR_CONTEXT_ppc32_def VALGRIND_GET_NR_CONTEXT_ppc64be_def
  VALGRIND_GET_NR_CONTEXT_ppc64le_def VALGRIND_GET_NR_CONTEXT_s390x_def VALGRIND_GET_NR_CONTEXT_mips32_def
  VALGRIND_GET_NR_CONTEXT_mips64_def

lemma nr_context_delivered:
  "\<exists>st'. VALGRIND_GET_NR_CONTEXT_x86 (vg_exec isa_x86 (valgrind_hooks isa_x86 f nr c1)) s =
      Ok (nraddr nr, st') \<and> cells st' = cells s"
  "\<exists>st'. VALGRIND_GET_NR_CONTEXT_amd64 (vg_exec isa_amd64 (valgrind_hooks isa_amd64 g nr' c2)) t =
      Ok (nraddr nr', st') \<and> cells st' = cells t"
  "\<exists>st'. VALGRIND_GET_NR_CONTEXT_arm (vg_exec isa_arm (valgrind_hooks isa_arm f nr c3)) u =
      Ok (nraddr nr, st') \<and> cells st' = cells u"
  "\<exists>st'. VALGRIND_GET_NR_CONTEXT_arm64 (vg_exec isa_arm64 (valgrind_hooks isa_arm64 g nr' c4)) v =
      Ok (nraddr nr', st') \<and> cells st' = cells v"
  "\<exists>st'. VALGRIND_GET_NR_CONTEXT_ppc32 (vg_exec isa_ppc32 (valgrind_hooks isa_ppc32 f nr c5)) w =
      Ok (nraddr nr, st') \<and> cells st' = cells w"
  "\<exists>st'. VALGRIND_GET_NR_CONTEXT_mips32 (vg_exec isa_mips32 (valgrind_hooks isa_mips32 f nr c5)) w =
      Ok (nraddr nr, st') \<and> cells st' = cells w"
  "\<exists>st'. VALGRIND_GET_NR_CONTEXT_ppc64be (vg_exec isa_ppc64be (valgrind_hooks isa_ppc64be g nr' c6)) x =
      Ok (nr', st') \<and> cells st' = cells x"
  "\<exists>st'. VALGRIND_GET_NR_CONTEXT_ppc64le (vg_exec isa_ppc64le (valgrind_hooks isa_ppc64le g nr' c6)) x =
      Ok (nr', st') \<and> cells st' = cells x"
  "\<exists>st'. VALGRIND_GET_NR_CONTEXT_s390x (vg_exec isa_s390x (valgrind_hooks isa_s390x g nr' c6)) x =
      Ok (nraddr nr', st') \<and> cells st' = cells x"
  "\<exists>st'. VALGRIND_GET_NR_CONTEXT_mips64 (vg_exec isa_mips64 (valgrind_hooks isa_mips64 g nr' c6)) x =
      Ok (nraddr nr', st') \<and> cells st' = cells x"
  by (simp_all add: context_defs vg_exec_services vg_exec_ends vg_exec_steps platform_contexts platform_steps)

lemma tool_base_take:
  "VG_USERREQ_TOOL_BASE a b = or (push_bit 24 (take_bit 8 a)) (push_bit 16 (take_bit 8 b))"
  by (simp add: VG_USERREQ_TOOL_BASE_def take_bit_eq_mask mask_eq_exp_minus_1)

lemma tool_base_bit:
  "bit (VG_USERREQ_TOOL_BASE a b) n \<longleftrightarrow>
   n < 32 \<and> (24 \<le> n \<and> bit a (n - 24) \<or> 16 \<le> n \<and> n < 24 \<and> bit b (n - 16))"
  unfolding tool_base_take by (auto simp: bit_simps)

lemma tool_base_inj:
  assumes "VG_USERREQ_TOOL_BASE a b = VG_USERREQ_TOOL_BASE a' b'"
  shows "take_bit 8 a = take_bit 8 a' \<and> take_bit 8 b = take_bit 8 b'"
proof -
  have eq: "bit (VG_USERREQ_TOOL_BASE a b) n = bit (VG_USERREQ_TOOL_BASE a' b') n" for n
    by (simp add: assms)
  have "bit a n = bit a' n \<and> bit b n = bit b' n" if "n < 8" for n
    using eq [of "n + 24"] eq [of "n + 16"] that by (auto simp: tool_base_bit)
  then show ?thesis by (auto simp: bit_eq_iff bit_take_bit_iff)
qed

lemma find_request: "find (\<lambda>x. request_code x = request_code r) all_requests = Some r"
  by (cases r) (simp_all add: all_requests_def)

lemma core_request: "and (request_code r) 0xffff0000 = 0"
  by (cases r) simp_all

text \<open>
  The public request codes are pairwise different and none of them is taken for a request of a
  tool with a nonzero tag; the tags of two tools are different when their letters are.
\<close>

theorem request_codes_disjoint:
  "inj request_code \<and>
   (VG_IS_TOOL_USERREQ a b (request_code r) \<longleftrightarrow> VG_USERREQ_TOOL_BASE a b = 0) \<and>
   (VG_USERREQ_TOOL_BASE a b = VG_USERREQ_TOOL_BASE a' b' \<longleftrightarrow>
      take_bit 8 a = take_bit 8 a' \<and> take_bit 8 b = take_bit 8 b')"
proof (intro conjI)
  show "inj request_code" using find_request by (metis injI option.inject)
  show "VG_IS_TOOL_USERREQ a b (request_code r) \<longleftrightarrow> VG_USERREQ_TOOL_BASE a b = 0"
    by (simp add: VG_IS_TOOL_USERREQ_def core_request)
  show "VG_USERREQ_TOOL_BASE a b = VG_USERREQ_TOOL_BASE a' b' \<longleftrightarrow>
      take_bit 8 a = take_bit 8 a' \<and> take_bit 8 b = take_bit 8 b'"
    using tool_base_inj [of a b a' b'] by (auto simp: tool_base_take)
qed

end
