(* ===== verification/Vg_Frame.thy ===== *)
theory Vg_Frame
  imports Vg_Machine
begin

section \<open>An abstract executor\<close>

text \<open>
  The assembly of the \<^verbatim>\<open>CALL_FN_\<close> macros reads the argument array and writes to the
  stack. The abstract executor keeps the registers, the list of stack words (the first one at the
  stack pointer, \<open>None\<close> for reserved space) and the words of the array (\<open>None\<close> for an
  entry that has no value yet), and is undefined for everything else. The pointer \<open>a\<close> that the
  assembly gets is the address of entry \<open>e\<close> of the array; the first \<open>w\<close> entries may be
  written. On the stack it writes only below the first \<open>z\<close> words, the red zone.
\<close>

type_synonym ('r, 'w) abs = "('r \<Rightarrow> 'w word) \<times> 'w word option list \<times> 'w word option list"

text \<open>The entry of the array at a displacement from the pointer, and the depth of a displacement in the stack.\<close>

definition entry_at :: "'w::len itself \<Rightarrow> nat \<Rightarrow> int \<Rightarrow> nat option" where
  "entry_at t e off =
     (let q = off div int (word_bytes t) in
      if off = int (word_bytes t) * q \<and> 0 \<le> int e + q then Some (nat (int e + q)) else None)"

definition known :: "'w option list \<Rightarrow> nat option \<Rightarrow> 'w option" where
  "known ws x = (case x of Some j \<Rightarrow> if j < length ws then ws ! j else None | None \<Rightarrow> None)"

fun abs_instr ::
  "'r \<Rightarrow> nat \<Rightarrow> nat \<Rightarrow> nat \<Rightarrow> nat \<Rightarrow> 'w::len word \<Rightarrow> 'r instr \<Rightarrow> ('r, 'w) abs \<Rightarrow> ('r, 'w) abs option" where
  "abs_instr sp z d w e a (Mov t s) (r, stk, ws) = (if t = sp then None else Some (r(t := r s), stk, ws))"
| "abs_instr sp z d w e a (Ldr t b off) (r, stk, ws) =
     (case known ws (entry_at TYPE('w) e off) of
        Some v \<Rightarrow> if t \<noteq> sp \<and> r b = a then Some (r(t := v), stk, ws) else None
      | None \<Rightarrow> None)"
| "abs_instr sp z d w e a (Str s b off) (r, stk, ws) =
     (if b = sp then
        (case entry_at TYPE('w) 0 off of
           Some i \<Rightarrow> if z + i < length stk then Some (r, stk[i := Some (r s)], ws) else None
         | None \<Rightarrow> None)
      else
        (case entry_at TYPE('w) e off of
           Some j \<Rightarrow> if r b = a \<and> j < w then Some (r, stk, ws[j := Some (r s)]) else None
         | None \<Rightarrow> None))"
| "abs_instr sp z d w e a (Mvc b i c j) (r, stk, ws) =
     (case (entry_at TYPE('w) 0 (int i), known ws (entry_at TYPE('w) e (int j))) of
        (Some k, Some v) \<Rightarrow>
          if b = sp \<and> r c = a \<and> z + k < length stk then Some (r, stk[k := Some v], ws) else None
      | _ \<Rightarrow> None)"
| "abs_instr sp z d w e a (Push_mem b off) (r, stk, ws) =
     (case known ws (entry_at TYPE('w) e (int off)) of
        Some v \<Rightarrow>
          if r b = a \<and> z \<le> length stk \<and> length stk < d
          then Some (r(sp := r sp - offset 1), Some v # stk, ws) else None
      | None \<Rightarrow> None)"
| "abs_instr sp z d w e a (Push_regs rs) (r, stk, ws) =
     (if z \<le> length stk \<and> length rs + length stk \<le> d
      then Some (r(sp := r sp - offset (length rs)), map (\<lambda>x. Some (r x)) rs @ stk, ws) else None)"
| "abs_instr sp z d w e a (Sub_imm t n) (r, stk, ws) =
     (let k = n div word_bytes TYPE('w) in
      if t = sp \<and> n = word_bytes TYPE('w) * k \<and> k + length stk \<le> d
      then Some (r(sp := r sp - of_nat n), replicate k None @ stk, ws) else None)"
| "abs_instr sp z d w e a Directive (r, stk, ws) = Some (r, stk, ws)"
| "abs_instr sp z d w e a _ _ = None"

primrec abs_seq ::
  "'r \<Rightarrow> nat \<Rightarrow> nat \<Rightarrow> nat \<Rightarrow> nat \<Rightarrow> 'w::len word \<Rightarrow> 'r instr list \<Rightarrow> ('r, 'w) abs \<Rightarrow> ('r, 'w) abs option" where
  "abs_seq sp z d w e a [] x = Some x"
| "abs_seq sp z d w e a (i # is) x =
     (case abs_instr sp z d w e a i x of None \<Rightarrow> None | Some y \<Rightarrow> abs_seq sp z d w e a is y)"

section \<open>Refinement\<close>

text \<open>Cells that lie at or above the red zone of a stack that starts at \<open>base\<close>.\<close>

definition above :: "'w::len word \<Rightarrow> nat \<Rightarrow> 'w word \<Rightarrow> bool" where
  "above base z y \<longleftrightarrow>
     unat base \<le> unat y + word_bytes TYPE('w) * z \<and> unat y + word_bytes TYPE('w) \<le> 2 ^ LENGTH('w)"

text \<open>The address of entry \<open>j\<close> of an array whose entry \<open>e\<close> is at \<open>a\<close>.\<close>

definition elem :: "nat \<Rightarrow> 'w::len word \<Rightarrow> nat \<Rightarrow> 'w word" where
  "elem e a j = a - offset e + offset j"

text \<open>Room for \<open>d\<close> words on the stack, and \<open>n\<close> words of the array above it.\<close>

definition geometry :: "'w::len word \<Rightarrow> nat \<Rightarrow> nat \<Rightarrow> nat \<Rightarrow> nat \<Rightarrow> 'w word \<Rightarrow> nat \<Rightarrow> bool" where
  "geometry base z d w e a n \<longleftrightarrow>
     0 < word_bytes TYPE('w) \<and> word_bytes TYPE('w) * d \<le> unat base \<and>
     (z = 0 \<or> w = 0) \<and> w \<le> n \<and> word_bytes TYPE('w) * e \<le> unat a \<and>
     unat base + word_bytes TYPE('w) * e \<le> unat a + word_bytes TYPE('w) * z \<and>
     unat a + word_bytes TYPE('w) * n \<le> 2 ^ LENGTH('w) + word_bytes TYPE('w) * e"

text \<open>Cells that the assembly leaves alone: above the red zone, and not in the writable part of the array.\<close>

definition kept :: "'w::len word \<Rightarrow> nat \<Rightarrow> 'w word list \<Rightarrow> 'w word \<Rightarrow> bool" where
  "kept base z slots y \<longleftrightarrow> above base z y \<and> (\<forall>x \<in> set slots. \<not> overlaps x y)"

definition slots :: "nat \<Rightarrow> nat \<Rightarrow> 'w::len word \<Rightarrow> 'w word list" where
  "slots w e a = map (elem e a) [0..<w]"

definition refines ::
  "'r \<Rightarrow> nat \<Rightarrow> 'w::len word \<Rightarrow> nat \<Rightarrow> nat \<Rightarrow> 'w word \<Rightarrow> ('w word \<Rightarrow> 'w word option) \<Rightarrow> ('r, 'w) cpu \<Rightarrow> ('r, 'w) abs \<Rightarrow> bool" where
  "refines sp z base w e a c0 st x \<longleftrightarrow>
     (case x of (r, stk, ws) \<Rightarrow>
       regs st = r \<and> r sp = base - offset (length stk) \<and>
       (\<forall>i < length stk. \<forall>v. stk ! i = Some v \<longrightarrow> cells st (base - offset (length stk - i)) = Some v) \<and>
       (\<forall>j < length ws. \<forall>v. ws ! j = Some v \<longrightarrow> cells st (elem e a j) = Some v) \<and>
       (\<forall>y. kept base z (slots w e a) y \<longrightarrow> cells st y = c0 y))"

lemma refinesI:
  assumes "regs st = r" "r sp = base - offset (length stk)"
    "\<And>i v. i < length stk \<Longrightarrow> stk ! i = Some v \<Longrightarrow> cells st (base - offset (length stk - i)) = Some v"
    "\<And>j v. j < length ws \<Longrightarrow> ws ! j = Some v \<Longrightarrow> cells st (elem e a j) = Some v"
    "\<And>y. kept base z (slots w e a) y \<Longrightarrow> cells st y = c0 y"
  shows "refines sp z base w e a c0 st (r, stk, ws)"
  using assms by (simp add: refines_def)

lemma refinesD:
  assumes "refines sp z base w e a c0 st (r, stk, ws)"
  shows "regs st = r" "r sp = base - offset (length stk)"
    "\<And>i v. i < length stk \<Longrightarrow> stk ! i = Some v \<Longrightarrow> cells st (base - offset (length stk - i)) = Some v"
    "\<And>j v. j < length ws \<Longrightarrow> ws ! j = Some v \<Longrightarrow> cells st (elem e a j) = Some v"
    "\<And>y. kept base z (slots w e a) y \<Longrightarrow> cells st y = c0 y"
  using assms by (simp_all add: refines_def)

lemma unat_below:
  fixes base :: "'w::len word"
  assumes "word_bytes TYPE('w) * k \<le> unat base"
  shows "unat (base - offset k) = unat base - word_bytes TYPE('w) * k"
proof -
  have "unat (offset k :: 'w word) = word_bytes TYPE('w) * k"
    unfolding offset_def unat_of_nat by (rule mod_less, rule le_less_trans [OF assms unsigned_less])
  moreover from this have "(offset k :: 'w word) \<le> base" using assms by (simp add: word_le_nat_alt)
  ultimately show ?thesis by (simp add: unat_sub)
qed

lemma stack_cells_apart:
  fixes base :: "'w::len word"
  assumes "word_bytes TYPE('w) * d \<le> unat base" "k \<le> d" "j \<le> d" "j < k" "0 < j"
  shows "\<not> overlaps (base - offset j) (base - offset k)" "\<not> overlaps (base - offset k) (base - offset j)"
proof -
  let ?B = "word_bytes TYPE('w)"
  have lt: "unat base < 2 ^ LENGTH('w)" by (rule unsigned_less)
  have j: "unat (base - offset j) = unat base - ?B * j" and k: "unat (base - offset k) = unat base - ?B * k"
    using assms order_trans [OF mult_le_mono2 assms(1)] by (auto intro: unat_below)
  have "?B * k \<le> unat base" using assms(1,2) order_trans [OF mult_le_mono2] by blast
  moreover have "?B * j + ?B \<le> ?B * k" using mult_le_mono2 [of "Suc j" k ?B] assms(4) by simp
  moreover have "?B \<le> ?B * j" using assms(5) by (cases j) simp_all
  ultimately have "unat (base - offset k) + ?B \<le> unat (base - offset j)"
    "unat (base - offset j) + ?B \<le> 2 ^ LENGTH('w) + unat (base - offset k)"
    using j k lt by linarith+
  from not_overlapI [OF this]
  show "\<not> overlaps (base - offset j) (base - offset k)" "\<not> overlaps (base - offset k) (base - offset j)"
    by simp_all
qed

lemma stack_cell_below:
  fixes base :: "'w::len word"
  assumes "word_bytes TYPE('w) * d \<le> unat base" "k \<le> d" "z < k" "above base z y"
  shows "\<not> overlaps (base - offset k) y"
proof -
  let ?B = "word_bytes TYPE('w)"
  have le: "?B * k \<le> unat base" using assms(1,2) order_trans [OF mult_le_mono2] by blast
  have "?B * z + ?B \<le> ?B * k" using mult_le_mono2 [of "Suc z" k ?B] assms(3) by simp
  with le assms(4) unat_below [OF le] show ?thesis
    unfolding above_def by (intro not_overlapI) auto
qed

text \<open>A store into the cell at depth \<open>k\<close>, below the red zone.\<close>

lemma store_stack:
  fixes base :: "'w::len word"
  assumes d: "word_bytes TYPE('w) * d \<le> unat base" and B: "0 < word_bytes TYPE('w)"
    and k: "z < k" "k \<le> d"
  shows "cells (store (base - offset k) v st) (base - offset k) = Some v"
    and "0 < j \<Longrightarrow> j \<le> d \<Longrightarrow> j \<noteq> k \<Longrightarrow>
      cells (store (base - offset k) v st) (base - offset j) = cells st (base - offset j)"
    and "above base z y \<Longrightarrow> cells (store (base - offset k) v st) y = cells st y"
proof -
  show "cells (store (base - offset k) v st) (base - offset k) = Some v"
    by (simp add: store_def)
  show "cells (store (base - offset k) v st) (base - offset j) = cells st (base - offset j)"
    if "0 < j" "j \<le> d" "j \<noteq> k"
  proof -
    have "\<not> overlaps (base - offset k) (base - offset j)"
      using stack_cells_apart [OF d] that k by (cases "j < k") auto
    moreover from this overlaps_self [OF B] have "base - offset j \<noteq> base - offset k" by metis
    ultimately show ?thesis by (simp add: store_def)
  qed
  show "cells (store (base - offset k) v st) y = cells st y" if "above base z y"
  proof -
    have "\<not> overlaps (base - offset k) y" by (rule stack_cell_below [OF d k(2,1) that])
    moreover from this overlaps_self [OF B] have "y \<noteq> base - offset k" by metis
    ultimately show ?thesis by (simp add: store_def)
  qed
qed

text \<open>The entries of the array are above the red zone and apart from each other.\<close>

lemma unat_elem:
  fixes a :: "'w::len word"
  assumes "geometry base z d w e a n" "j < n"
  shows "unat (elem e a j) + word_bytes TYPE('w) * e = unat a + word_bytes TYPE('w) * j"
    and "unat (elem e a j) + word_bytes TYPE('w) \<le> 2 ^ LENGTH('w)"
proof -
  let ?B = "word_bytes TYPE('w)"
  have e: "unat (a - offset e) = unat a - ?B * e" using assms(1) by (intro unat_below) (simp add: geometry_def)
  have "?B * Suc j \<le> ?B * n" using assms(2) by (intro mult_le_mono2) simp
  then have "?B * j + ?B \<le> ?B * n" by simp
  moreover have "?B * e \<le> unat a" "unat a + ?B * n \<le> 2 ^ LENGTH('w) + ?B * e"
    using assms(1) by (simp_all add: geometry_def)
  ultimately have j: "unat (a - offset e) + ?B * j + ?B \<le> 2 ^ LENGTH('w)"
    using e by linarith
  moreover have "0 < ?B" using assms(1) by (simp add: geometry_def)
  ultimately have "unat (elem e a j) = unat (a - offset e) + ?B * j"
    unfolding elem_def by (intro unat_above) simp
  then show "unat (elem e a j) + ?B * e = unat a + ?B * j" "unat (elem e a j) + ?B \<le> 2 ^ LENGTH('w)"
    using e j assms(1) by (simp_all add: geometry_def)
qed

lemma elem_above: "geometry base z d w e a n \<Longrightarrow> j < n \<Longrightarrow> above base z (elem e a j)"
  using unat_elem [of base z d w e a n j] by (simp add: above_def geometry_def)

lemma elems_apart:
  fixes a :: "'w::len word"
  assumes g: "geometry base z d w e a n" and "i < n" "j < n" "i \<noteq> j"
  shows "\<not> overlaps (elem e a i) (elem e a j)"
proof -
  let ?B = "word_bytes TYPE('w)"
  have *: "\<not> overlaps (elem e a x) (elem e a y) \<and> \<not> overlaps (elem e a y) (elem e a x)" if "x < y" "y < n" for x y
  proof -
    have "?B * Suc x \<le> ?B * y" using that(1) by (intro mult_le_mono2) simp
    moreover note unat_elem [OF g, of x] unat_elem [OF g, of y]
    ultimately have "unat (elem e a x) + ?B \<le> unat (elem e a y)" using that by simp
    moreover have "unat (elem e a y) + ?B \<le> 2 ^ LENGTH('w) + unat (elem e a x)"
      using unat_elem(2) [OF g that(2)] by simp
    ultimately show ?thesis using not_overlapI by blast
  qed
  with assms(2-) show ?thesis by (cases "i < j") auto
qed

lemma elem_kept: "geometry base z d w e a n \<Longrightarrow> w \<le> j \<Longrightarrow> j < n \<Longrightarrow> kept base z (slots w e a) (elem e a j)"
  using elem_above [of base z d w e a n j] elems_apart [of base z d w e a n _ j]
  by (auto simp: kept_def slots_def geometry_def)

text \<open>A store into a writable entry of the array.\<close>

lemma store_elem:
  fixes a :: "'w::len word"
  assumes g: "geometry base z d w e a n" and j: "j < w"
  shows "cells (store (elem e a j) v st) (elem e a j) = Some v"
    and "i < n \<Longrightarrow> i \<noteq> j \<Longrightarrow> cells (store (elem e a j) v st) (elem e a i) = cells st (elem e a i)"
    and "kept base z (slots w e a) y \<Longrightarrow> cells (store (elem e a j) v st) y = cells st y"
    and "0 < k \<Longrightarrow> k \<le> d \<Longrightarrow> cells (store (elem e a j) v st) (base - offset k) = cells st (base - offset k)"
proof -
  have *: "cells (store (elem e a j) v st) y = cells st y" if "\<not> overlaps (elem e a j) y" for y
    using that overlaps_self [of "elem e a j"] g by (auto simp: store_def geometry_def)
  have n: "j < n" using g j by (simp add: geometry_def)
  show "cells (store (elem e a j) v st) (elem e a j) = Some v" by (simp add: store_def)
  show "cells (store (elem e a j) v st) (elem e a i) = cells st (elem e a i)" if "i < n" "i \<noteq> j"
    using elems_apart [OF g n that(1)] that(2) by (simp add: *)
  show "cells (store (elem e a j) v st) y = cells st y" if "kept base z (slots w e a) y"
    using that j by (intro *) (auto simp: kept_def slots_def)
  have "z = 0" "word_bytes TYPE('w) * d \<le> unat base" using g j by (auto simp: geometry_def)
  with stack_cell_below [of d base k z "elem e a j"] elem_above [OF g n]
  show "cells (store (elem e a j) v st) (base - offset k) = cells st (base - offset k)" if "0 < k" "k \<le> d"
    using that by (intro *) (auto simp: overlaps_def)
qed

text \<open>A store into the stack, below the red zone.\<close>

lemma refines_store:
  fixes base :: "'w::len word"
  assumes g: "geometry base z d w e a (length ws)" and ref: "refines sp z base w e a c0 st (r, stk, ws)"
    and i: "z + i < length stk" "length stk \<le> d"
  shows "refines sp z base w e a c0 (store (r sp + offset i) v st) (r, stk[i := Some v], ws)"
proof -
  let ?k = "length stk - i"
  note D = refinesD [OF ref]
  have k: "z < ?k" "?k \<le> d" using i by auto
  have g': "word_bytes TYPE('w) * d \<le> unat base" "0 < word_bytes TYPE('w)" using g by (simp_all add: geometry_def)
  note S = store_stack [OF g' k, where v = v and st = st]
  have x: "r sp + offset i = base - offset ?k" using D(2) i(1) by (simp add: offset_diff)
  have "refines sp z base w e a c0 (store (base - offset ?k) v st) (r, stk[i := Some v], ws)"
  proof (rule refinesI)
    fix j u assume j: "j < length (stk[i := Some v])" "stk[i := Some v] ! j = Some u"
    then have j': "j < length stk" by simp
    show "cells (store (base - offset ?k) v st) (base - offset (length (stk[i := Some v]) - j)) = Some u"
    proof (cases "j = i")
      case True
      with j S(1) show ?thesis by simp
    next
      case False
      with j have "cells st (base - offset (length stk - j)) = Some u" by (simp add: D(3))
      moreover have "length stk - j \<noteq> ?k" "0 < length stk - j" "length stk - j \<le> d" using False j' i by auto
      ultimately show ?thesis by (simp add: S(2))
    qed
  next
    fix j u assume j: "j < length ws" "ws ! j = Some u"
    then show "cells (store (base - offset ?k) v st) (elem e a j) = Some u"
      using D(4) elem_above [OF g j(1)] by (simp add: S(3))
  next
    fix y assume "kept base z (slots w e a) y"
    then show "cells (store (base - offset ?k) v st) y = c0 y"
      using D(5) by (simp add: S(3) kept_def)
  qed (simp_all add: D(1,2))
  then show ?thesis by (simp add: x)
qed

text \<open>Moving the stack pointer down.\<close>

lemma refines_reserve:
  assumes "refines sp z base w e a c0 st (r, stk, ws)"
  shows "refines sp z base w e a c0 (set_reg sp (r sp - offset k) st)
    (r(sp := r sp - offset k), replicate k None @ stk, ws)"
proof -
  note D = refinesD [OF assms]
  show ?thesis
  proof (rule refinesI)
    fix j v assume j: "j < length (replicate k None @ stk)" "(replicate k None @ stk) ! j = Some v"
    then have eq: "length (replicate k None @ stk) - j = length stk - (j - k)" and "k \<le> j"
      by (auto simp: nth_append split: if_splits)
    then have "j - k < length stk" "stk ! (j - k) = Some v" using j by (auto simp: nth_append)
    then show "cells (set_reg sp (r sp - offset k) st) (base - offset (length (replicate k None @ stk) - j)) = Some v"
      unfolding eq by (simp add: D(3))
  qed (use D in \<open>simp_all add: offset_add diff_diff_eq add_ac\<close>)
qed

text \<open>Pushing words.\<close>

lemma refines_push:
  fixes base :: "'w::len word"
  assumes g: "geometry base z d w e a (length ws)"
    and ref: "refines sp z base w e a c0 st (r, stk, ws)" and z: "z \<le> length stk" and len: "length vs + length stk \<le> d"
  shows "refines sp z base w e a c0 (push_words sp vs st)
    (r(sp := r sp - offset (length vs)), map Some vs @ stk, ws)"
  using len
proof (induction vs)
  case Nil
  then show ?case using ref by (simp add: offset_def)
next
  case (Cons v vs)
  let ?r = "r(sp := r sp - offset (length vs))"
  have IH: "refines sp z base w e a c0 (push_words sp vs st) (?r, map Some vs @ stk, ws)"
    using Cons.prems by (intro Cons.IH) simp
  note D = refinesD [OF IH]
  have R: "?r(sp := ?r sp - offset 1) = r(sp := r sp - offset (length (v # vs)))"
    by (simp add: offset_Suc [of "length vs"] diff_diff_eq add_ac)
  from refines_store [OF g refines_reserve [OF IH, of 1], of 0 v] z Cons.prems
  have "refines sp z base w e a c0 (store (?r sp - offset 1) v (set_reg sp (?r sp - offset 1) (push_words sp vs st)))
      (?r(sp := ?r sp - offset 1), Some v # map Some vs @ stk, ws)"
    by simp
  then show ?case unfolding R by (simp add: D(1) Let_def fun_upd_def)
qed

section \<open>Every instruction\<close>

lemma entry_at_address:
  fixes a :: "'w::len word"
  assumes "entry_at TYPE('w) e off = Some j"
  shows "a + word_of_int off = elem e a j"
proof -
  let ?B = "word_bytes TYPE('w)"
  define q where "q = off div int ?B"
  from assms have q: "off = int ?B * q" "0 \<le> int e + q" "j = nat (int e + q)"
    by (auto simp: entry_at_def q_def Let_def split: if_splits)
  then have "int (?B * j) = int ?B * int e + off" by (simp add: algebra_simps)
  then have "(offset j :: 'w word) = offset e + word_of_int off"
    unfolding offset_def by (metis of_int_add of_int_of_nat_eq of_nat_mult)
  then show ?thesis by (simp add: elem_def)
qed

lemma entry_at_stack:
  fixes x :: "'w::len word"
  assumes "entry_at TYPE('w) 0 off = Some i"
  shows "x + word_of_int off = x + offset i"
  using entry_at_address [OF assms, of x] by (simp add: elem_def)

lemma refines_fetch:
  fixes a :: "'w::len word"
  assumes "refines sp z base w e a c0 st (r, stk, ws)" "known ws (entry_at TYPE('w) e off) = Some v"
  shows "fetch (a + word_of_int off) st = Ok v"
proof -
  from assms(2) obtain j where j: "entry_at TYPE('w) e off = Some j" "j < length ws" "ws ! j = Some v"
    by (auto simp: known_def split: option.splits if_splits)
  with refinesD(4) [OF assms(1)] entry_at_address [OF j(1), of a] show ?thesis by (simp add: fetch_def)
qed

lemma refines_set_reg:
  "refines sp z base w e a c0 st (r, stk, ws) \<Longrightarrow> t \<noteq> sp \<Longrightarrow> refines sp z base w e a c0 (set_reg t v st) (r(t := v), stk, ws)"
  by (simp add: refines_def)

text \<open>Every instruction that the abstract executor accepts refines it.\<close>

lemma refines_instr:
  fixes base :: "'w::len word"
  assumes g: "geometry base z d w e a (length ws)"
    and ref: "refines sp z base w e a c0 st (r, stk, ws)"
    and len: "length stk \<le> d" and abs: "abs_instr sp z d w e a i (r, stk, ws) = Some (r', stk', ws')"
  shows "(\<exists>st'. exec_instr sp i st = Ok st' \<and> refines sp z base w e a c0 st' (r', stk', ws')) \<and>
    length stk' \<le> d \<and> length ws' = length ws"
proof (cases i)
  case (Mov t s)
  with abs ref len refinesD(1) [OF ref] show ?thesis by (auto intro: refines_set_reg split: if_splits)
next
  case (Ldr t b off)
  with abs obtain v where v: "known ws (entry_at TYPE('w) e off) = Some v" "t \<noteq> sp" "r b = a"
    "r' = r(t := v)" "stk' = stk" "ws' = ws"
    by (auto split: option.splits if_splits)
  from refines_fetch [OF ref v(1)] v refinesD(1) [OF ref] refines_set_reg [OF ref v(2)] len
  show ?thesis unfolding Ldr by simp
next
  case (Str s b off)
  show ?thesis
  proof (cases "b = sp")
    case True
    with Str abs obtain k where k: "entry_at TYPE('w) 0 off = Some k" "z + k < length stk"
      "r' = r" "stk' = stk[k := Some (r s)]" "ws' = ws"
      by (auto split: option.splits if_splits)
    from refines_store [OF g ref k(2) len, of "r s"] entry_at_stack [OF k(1), of "r sp"] k True len refinesD(1) [OF ref]
    show ?thesis unfolding Str by simp
  next
    case False
    with Str abs obtain j where j: "entry_at TYPE('w) e off = Some j" "r b = a" "j < w"
      "r' = r" "stk' = stk" "ws' = ws[j := Some (r s)]"
      by (auto split: option.splits if_splits)
    note S = store_elem [OF g j(3), where v = "r s" and st = st]
    note D = refinesD [OF ref]
    have n: "j < length ws" using g j(3) by (simp add: geometry_def)
    have "refines sp z base w e a c0 (store (elem e a j) (r s) st) (r, stk, ws[j := Some (r s)])"
    proof (rule refinesI)
      fix i v assume "i < length stk" "stk ! i = Some v"
      with S(4) [of "length stk - i"] len D(3)
      show "cells (store (elem e a j) (r s) st) (base - offset (length stk - i)) = Some v" by simp
    next
      fix i v assume i: "i < length (ws[j := Some (r s)])" "ws[j := Some (r s)] ! i = Some v"
      then show "cells (store (elem e a j) (r s) st) (elem e a i) = Some v"
        using S(1) S(2) [of i] D(4) [of i] by (cases "i = j") simp_all
    qed (use D S(3) in simp_all)
    with entry_at_address [OF j(1), of a] j D(1) len show ?thesis unfolding Str by simp
  qed
next
  case (Mvc b i c j)
  with abs obtain k v where k: "entry_at TYPE('w) 0 (int i) = Some k" "known ws (entry_at TYPE('w) e (int j)) = Some v"
    "b = sp" "r c = a" "z + k < length stk" "r' = r" "stk' = stk[k := Some v]" "ws' = ws"
    by (auto split: option.splits if_splits)
  from refines_fetch [OF ref k(2)] refines_store [OF g ref k(5) len, of v] entry_at_stack [OF k(1), of "r sp"]
    k refinesD(1) [OF ref] len
  show ?thesis unfolding Mvc by simp
next
  case (Push_mem b off)
  with abs obtain v where v: "known ws (entry_at TYPE('w) e (int off)) = Some v" "r b = a" "z \<le> length stk"
    "length stk < d" "r' = r(sp := r sp - offset 1)" "stk' = Some v # stk" "ws' = ws"
    by (auto split: option.splits if_splits)
  from refines_fetch [OF ref v(1)] refines_push [OF g ref v(3), of "[v]"] v refinesD(1) [OF ref]
  show ?thesis unfolding Push_mem by (simp del: push_words.simps)
next
  case (Push_regs rs)
  with abs have i: "z \<le> length stk" "length rs + length stk \<le> d" "r' = r(sp := r sp - offset (length rs))"
    "stk' = map (\<lambda>x. Some (r x)) rs @ stk" "ws' = ws"
    by (auto split: if_splits)
  from refines_push [OF g ref i(1), of "map r rs"] i refinesD(1) [OF ref]
  show ?thesis unfolding Push_regs by (simp add: comp_def)
next
  case (Sub_imm t n)
  define k where "k = n div word_bytes TYPE('w)"
  from Sub_imm abs have i: "t = sp" "n = word_bytes TYPE('w) * k" "k + length stk \<le> d"
    "r' = r(sp := r sp - of_nat n)" "stk' = replicate k None @ stk" "ws' = ws"
    by (auto simp: Let_def k_def split: if_splits)
  from i(2) have "(of_nat n :: 'w word) = offset k" by (simp add: offset_def)
  with refines_reserve [OF ref, of k] i refinesD(1) [OF ref] show ?thesis unfolding Sub_imm by simp
next
  case Directive
  with abs ref len show ?thesis by auto
qed (use abs in auto)

lemma refines_seq:
  fixes base :: "'w::len word"
  assumes "geometry base z d w e a (length ws)" "refines sp z base w e a c0 st (r, stk, ws)" "length stk \<le> d"
    and "abs_seq sp z d w e a is (r, stk, ws) = Some (r', stk', ws')"
  shows "\<exists>st'. exec_seq sp is st = Ok st' \<and> refines sp z base w e a c0 st' (r', stk', ws')"
  using assms
proof (induction "is" arbitrary: st r stk ws)
  case Nil
  then show ?case by auto
next
  case (Cons i "is")
  then obtain r1 stk1 ws1 where x1: "abs_instr sp z d w e a i (r, stk, ws) = Some (r1, stk1, ws1)"
    "abs_seq sp z d w e a is (r1, stk1, ws1) = Some (r', stk', ws')"
    by (auto split: option.splits)
  from refines_instr [OF Cons.prems(1-3) x1(1)] obtain st1 where
    "exec_instr sp i st = Ok st1" "refines sp z base w e a c0 st1 (r1, stk1, ws1)" "length stk1 \<le> d"
    "length ws1 = length ws" by blast
  with Cons.IH [OF _ _ _ x1(2)] Cons.prems(1) show ?case by auto
qed

section \<open>Call sequences\<close>

text \<open>
  A call macro: a prologue that aligns the stack, a body that the abstract executor
  understands, the call without redirection, an epilogue.
\<close>

lemma call_sequence:
  fixes base :: "'w::len word"
  assumes isa: "preamble isa \<noteq> []" "hd (preamble isa) \<notin> set (pro @ body)" "selector isa i = Some Call_noredir"
    and pro: "exec_seq (stack_reg isa) pro st0 = Ok stp" "regs stp (stack_reg isa) = base"
    and g: "geometry base z d w e a (length ws)"
    and arr: "\<And>j v. j < length ws \<Longrightarrow> ws ! j = Some v \<Longrightarrow> cells stp (elem e a j) = Some v"
    and abs: "abs_seq (stack_reg isa) z d w e a body (regs stp, [], ws) = Some (r, stk, ws')"
  shows "\<exists>st1. vg_exec isa h (pro @ body @ preamble isa @ i # epi) st0 =
      bind_o (h Call_noredir st1) (vg_exec isa h epi) \<and>
    refines (stack_reg isa) z base w e a (cells stp) st1 (r, stk, ws')"
proof -
  have "refines (stack_reg isa) z base w e a (cells stp) stp (regs stp, [], ws)"
    using pro(2) arr by (intro refinesI) simp_all
  from refines_seq [OF g this _ abs] obtain st1 where st1:
    "exec_seq (stack_reg isa) body stp = Ok st1" "refines (stack_reg isa) z base w e a (cells stp) st1 (r, stk, ws')"
    by auto
  have "vg_exec isa h ((pro @ body) @ preamble isa @ i # epi) st0 =
    bind_o (exec_seq (stack_reg isa) (pro @ body) st0) (vg_exec isa h (preamble isa @ i # epi))"
    by (rule vg_exec_plain [OF isa(1,2)])
  also have "exec_seq (stack_reg isa) (pro @ body) st0 = Ok st1"
    using pro(1) st1(1) by (simp add: exec_seq_append)
  finally show ?thesis using st1(2) vg_exec_special [OF isa(3)] by auto
qed

text \<open>The argument array of a call macro, filled by assignments from entry \<open>w\<close> on.\<close>

lemma put_words_elem:
  fixes a :: "'w::len word"
  assumes "geometry base z d w e a (w + length vs)" "w \<le> e" "j < length vs"
  shows "cells (put_words (a - offset (e - w)) vs st) (elem e a (w + j)) = Some (vs ! j)"
proof -
  let ?B = "word_bytes TYPE('w)"
  have "?B * (e - w) \<le> ?B * e" by (intro mult_le_mono2) simp
  moreover have g: "?B * e \<le> unat a" "unat a + ?B * (w + length vs) \<le> 2 ^ LENGTH('w) + ?B * e" "0 < ?B"
    using assms(1) by (simp_all add: geometry_def)
  ultimately have "unat (a - offset (e - w)) = unat a - ?B * (e - w)" by (intro unat_below) linarith
  moreover have "?B * e = ?B * w + ?B * (e - w)" using assms(2) by (metis add_mult_distrib2 le_add_diff_inverse)
  ultimately have "unat (a - offset (e - w)) + ?B * length vs \<le> 2 ^ LENGTH('w)"
    using g by (simp add: algebra_simps)
  from put_words_nth [OF this g(3) assms(3)]
  show ?thesis using assms(2) by (simp add: elem_def offset_diff offset_add algebra_simps)
qed

section \<open>Alignment\<close>

lemma align_down:
  fixes x :: "'w::len word"
  assumes "k \<le> LENGTH('w)"
  shows "unat (and x (not (mask k))) = unat x - unat x mod 2 ^ k"
proof -
  have "and x (not (mask k)) + take_bit k x = or (and x (not (mask k))) (take_bit k x)"
    by (rule disjunctive_add) (auto simp: bit_simps)
  also have "\<dots> = x" by (rule bit_eqI) (auto simp: bit_simps)
  finally have "and x (not (mask k)) = x - take_bit k x" by (simp add: algebra_simps)
  moreover have u: "unat (take_bit k x) = unat x mod 2 ^ k"
    unfolding unsigned_take_bit_eq by (simp add: take_bit_eq_mod)
  moreover have "take_bit k x \<le> x" using u by (simp add: word_le_nat_alt)
  ultimately show ?thesis by (simp add: unat_sub)
qed

lemma align_down_dvd:
  fixes x :: "'w::len word"
  assumes "k \<le> LENGTH('w)"
  shows "2 ^ k dvd unat (and x (not (mask k)))" "unat (and x (not (mask k))) \<le> unat x"
    "unat x < unat (and x (not (mask k))) + 2 ^ k"
proof -
  let ?A = "unat (and x (not (mask k)))"
  have A: "?A = unat x div 2 ^ k * 2 ^ k" using align_down [OF assms, of x] minus_mod_eq_div_mult [of "unat x" "2 ^ k"] by simp
  then show "2 ^ k dvd ?A" by simp
  have "?A + unat x mod 2 ^ k = unat x" unfolding A by (rule div_mult_mod_eq)
  moreover have "unat x mod 2 ^ k < 2 ^ k" by simp
  ultimately show "?A \<le> unat x" "unat x < ?A + 2 ^ k" by linarith+
qed

lemma align_down_same: "k \<le> LENGTH('w) \<Longrightarrow> 2 ^ k dvd unat x \<Longrightarrow> and x (not (mask k)) = (x :: 'w::len word)"
  using align_down [of k x] by (simp add: word_unat_eq_iff)

text \<open>Lists of at most twelve arguments, case by case.\<close>

lemma args_cases:
  assumes "length xs \<le> 12" "P []" "\<And>a. P [a]" "\<And>a b. P [a, b]" "\<And>a b c. P [a, b, c]"
    "\<And>a b c d. P [a, b, c, d]" "\<And>a b c d e. P [a, b, c, d, e]" "\<And>a b c d e f. P [a, b, c, d, e, f]"
    "\<And>a b c d e f g. P [a, b, c, d, e, f, g]" "\<And>a b c d e f g h. P [a, b, c, d, e, f, g, h]"
    "\<And>a b c d e f g h i. P [a, b, c, d, e, f, g, h, i]"
    "\<And>a b c d e f g h i j. P [a, b, c, d, e, f, g, h, i, j]"
    "\<And>a b c d e f g h i j k. P [a, b, c, d, e, f, g, h, i, j, k]"
    "\<And>a b c d e f g h i j k l. P [a, b, c, d, e, f, g, h, i, j, k, l]"
  shows "P xs"
proof -
  have "length xs \<in> {0, 1, 2, 3, 4, 5, 6, 7, 8, 9, 10, 11, 12}"
    using assms(1) unfolding insert_iff empty_iff by presburger
  then show ?thesis using assms(2-) by (auto simp: length_Suc_conv eval_nat_numeral)
qed

end
