(* ===== verification/Vg_CallDefs.thy ===== *)
theory Vg_CallDefs
  imports Vg_Special
begin

text \<open>
  The macros \<^verbatim>\<open>CALL_FN_W_*\<close> of \<^verbatim>\<open>valgrind.h\<close> for x86, amd64, arm and arm64, with which
  a wrapper calls the original function, transcribed instruction by instruction.
\<close>

section \<open>The common part\<close>

text \<open>
  A macro fills the local array \<^verbatim>\<open>_argvec\<close> at address \<open>a\<close> with the address of the function and
  its arguments, passes the address of the array in a register, executes its assembly and
  takes the result from a register.
\<close>

type_synonym ('r, 'w) macro = "'w word \<Rightarrow> ('r, 'w) cpu \<Rightarrow> ('w word \<times> ('r, 'w) cpu) outcome"

definition CALL_FN ::
  "('r, 'w::len) executor \<Rightarrow> 'r instr list \<Rightarrow> 'r \<Rightarrow> 'r \<Rightarrow> 'w word \<Rightarrow> 'w word list \<Rightarrow> 'w word \<Rightarrow>
   ('r, 'w) cpu \<Rightarrow> ('w word \<times> ('r, 'w) cpu) outcome" where
  "CALL_FN run asm arg res orig args a st =
     bind_o (run asm (set_reg arg a (put_words a (orig # args) st))) (\<lambda>st'.
     Ok (regs st' res, st'))"

text \<open>
  The macros \<^verbatim>\<open>CALL_FN_v_v\<close> to \<^verbatim>\<open>CALL_FN_v_7W\<close> for functions without a result: that of the
  macro \<open>call\<close> with a result is discarded. There are none for more than seven arguments.
\<close>

definition CALL_FN_v ::
  "('w::len word list \<Rightarrow> ('r, 'w) macro) \<Rightarrow> 'w word list \<Rightarrow> 'w word \<Rightarrow> ('r, 'w) cpu \<Rightarrow> ('r, 'w) cpu outcome" where
  "CALL_FN_v call args a st =
     (if length args \<le> 7 then bind_o (call args a st) (\<lambda>(junk, st'). Ok st') else Err Undefined)"

lemma CALL_FN_v_returns:
  "length args \<le> 7 \<Longrightarrow> (\<exists>v. call args a st = Ok (v, st')) \<Longrightarrow> CALL_FN_v call args a st = Ok st'"
  by (auto simp: CALL_FN_v_def)

section \<open>The macros for x86\<close>

definition VALGRIND_ALIGN_STACK_x86 :: "x86_reg instr list" where
  "VALGRIND_ALIGN_STACK_x86 = [Mov DI SP, And_imm SP 0xfffffff0]"

definition VALGRIND_RESTORE_STACK_x86 :: "x86_reg instr list" where
  "VALGRIND_RESTORE_STACK_x86 = [Mov SP DI]"

definition asm_v_x86 :: "x86_reg instr list" where
  "asm_v_x86 =
     VALGRIND_ALIGN_STACK_x86 @
     [Ldr AX AX 0] @
     VALGRIND_CALL_NOREDIR_EAX_x86 @
     VALGRIND_RESTORE_STACK_x86"

definition asm_W_x86 :: "x86_reg instr list" where
  "asm_W_x86 =
     VALGRIND_ALIGN_STACK_x86 @
     [Sub_imm SP 12, Push_mem AX 4, Ldr AX AX 0] @
     VALGRIND_CALL_NOREDIR_EAX_x86 @
     VALGRIND_RESTORE_STACK_x86"

definition asm_WW_x86 :: "x86_reg instr list" where
  "asm_WW_x86 =
     VALGRIND_ALIGN_STACK_x86 @
     [Sub_imm SP 8, Push_mem AX 8, Push_mem AX 4, Ldr AX AX 0] @
     VALGRIND_CALL_NOREDIR_EAX_x86 @
     VALGRIND_RESTORE_STACK_x86"

definition asm_WWW_x86 :: "x86_reg instr list" where
  "asm_WWW_x86 =
     VALGRIND_ALIGN_STACK_x86 @
     [Sub_imm SP 4, Push_mem AX 12, Push_mem AX 8, Push_mem AX 4, Ldr AX AX 0] @
     VALGRIND_CALL_NOREDIR_EAX_x86 @
     VALGRIND_RESTORE_STACK_x86"

definition asm_WWWW_x86 :: "x86_reg instr list" where
  "asm_WWWW_x86 =
     VALGRIND_ALIGN_STACK_x86 @
     [Push_mem AX 16, Push_mem AX 12, Push_mem AX 8, Push_mem AX 4, Ldr AX AX 0] @
     VALGRIND_CALL_NOREDIR_EAX_x86 @
     VALGRIND_RESTORE_STACK_x86"

definition asm_5W_x86 :: "x86_reg instr list" where
  "asm_5W_x86 =
     VALGRIND_ALIGN_STACK_x86 @
     [Sub_imm SP 12, Push_mem AX 20, Push_mem AX 16, Push_mem AX 12, Push_mem AX 8,
      Push_mem AX 4, Ldr AX AX 0] @
     VALGRIND_CALL_NOREDIR_EAX_x86 @
     VALGRIND_RESTORE_STACK_x86"

definition asm_6W_x86 :: "x86_reg instr list" where
  "asm_6W_x86 =
     VALGRIND_ALIGN_STACK_x86 @
     [Sub_imm SP 8, Push_mem AX 24, Push_mem AX 20, Push_mem AX 16, Push_mem AX 12,
      Push_mem AX 8, Push_mem AX 4, Ldr AX AX 0] @
     VALGRIND_CALL_NOREDIR_EAX_x86 @
     VALGRIND_RESTORE_STACK_x86"

definition asm_7W_x86 :: "x86_reg instr list" where
  "asm_7W_x86 =
     VALGRIND_ALIGN_STACK_x86 @
     [Sub_imm SP 4, Push_mem AX 28, Push_mem AX 24, Push_mem AX 20, Push_mem AX 16,
      Push_mem AX 12, Push_mem AX 8, Push_mem AX 4, Ldr AX AX 0] @
     VALGRIND_CALL_NOREDIR_EAX_x86 @
     VALGRIND_RESTORE_STACK_x86"

definition asm_8W_x86 :: "x86_reg instr list" where
  "asm_8W_x86 =
     VALGRIND_ALIGN_STACK_x86 @
     [Push_mem AX 32, Push_mem AX 28, Push_mem AX 24, Push_mem AX 20, Push_mem AX 16,
      Push_mem AX 12, Push_mem AX 8, Push_mem AX 4, Ldr AX AX 0] @
     VALGRIND_CALL_NOREDIR_EAX_x86 @
     VALGRIND_RESTORE_STACK_x86"

definition asm_9W_x86 :: "x86_reg instr list" where
  "asm_9W_x86 =
     VALGRIND_ALIGN_STACK_x86 @
     [Sub_imm SP 12, Push_mem AX 36, Push_mem AX 32, Push_mem AX 28, Push_mem AX 24,
      Push_mem AX 20, Push_mem AX 16, Push_mem AX 12, Push_mem AX 8, Push_mem AX 4,
      Ldr AX AX 0] @
     VALGRIND_CALL_NOREDIR_EAX_x86 @
     VALGRIND_RESTORE_STACK_x86"

definition asm_10W_x86 :: "x86_reg instr list" where
  "asm_10W_x86 =
     VALGRIND_ALIGN_STACK_x86 @
     [Sub_imm SP 8, Push_mem AX 40, Push_mem AX 36, Push_mem AX 32, Push_mem AX 28,
      Push_mem AX 24, Push_mem AX 20, Push_mem AX 16, Push_mem AX 12, Push_mem AX 8,
      Push_mem AX 4, Ldr AX AX 0] @
     VALGRIND_CALL_NOREDIR_EAX_x86 @
     VALGRIND_RESTORE_STACK_x86"

definition asm_11W_x86 :: "x86_reg instr list" where
  "asm_11W_x86 =
     VALGRIND_ALIGN_STACK_x86 @
     [Sub_imm SP 4, Push_mem AX 44, Push_mem AX 40, Push_mem AX 36, Push_mem AX 32,
      Push_mem AX 28, Push_mem AX 24, Push_mem AX 20, Push_mem AX 16, Push_mem AX 12,
      Push_mem AX 8, Push_mem AX 4, Ldr AX AX 0] @
     VALGRIND_CALL_NOREDIR_EAX_x86 @
     VALGRIND_RESTORE_STACK_x86"

definition asm_12W_x86 :: "x86_reg instr list" where
  "asm_12W_x86 =
     VALGRIND_ALIGN_STACK_x86 @
     [Push_mem AX 48, Push_mem AX 44, Push_mem AX 40, Push_mem AX 36, Push_mem AX 32,
      Push_mem AX 28, Push_mem AX 24, Push_mem AX 20, Push_mem AX 16, Push_mem AX 12,
      Push_mem AX 8, Push_mem AX 4, Ldr AX AX 0] @
     VALGRIND_CALL_NOREDIR_EAX_x86 @
     VALGRIND_RESTORE_STACK_x86"

text \<open>The assembly for \<open>n\<close> arguments.\<close>

definition asm_x86 :: "nat \<Rightarrow> x86_reg instr list" where
  "asm_x86 n =
     [asm_v_x86, asm_W_x86, asm_WW_x86,
      asm_WWW_x86, asm_WWWW_x86, asm_5W_x86,
      asm_6W_x86, asm_7W_x86, asm_8W_x86,
      asm_9W_x86, asm_10W_x86, asm_11W_x86,
      asm_12W_x86] ! n"

lemmas asm_x86_defs =
  asm_v_x86_def asm_W_x86_def asm_WW_x86_def
  asm_WWW_x86_def asm_WWWW_x86_def asm_5W_x86_def
  asm_6W_x86_def asm_7W_x86_def asm_8W_x86_def
  asm_9W_x86_def asm_10W_x86_def asm_11W_x86_def
  asm_12W_x86_def
  VALGRIND_ALIGN_STACK_x86_def VALGRIND_RESTORE_STACK_x86_def

definition CALL_FN_W_v_x86 ::
  "(x86_reg, 32) executor \<Rightarrow> 32 word \<Rightarrow> (x86_reg, 32) macro" where
  "CALL_FN_W_v_x86 run orig =
     CALL_FN run asm_v_x86 AX AX orig []"

definition CALL_FN_W_W_x86 ::
  "(x86_reg, 32) executor \<Rightarrow> 32 word \<Rightarrow> 32 word \<Rightarrow> (x86_reg, 32) macro" where
  "CALL_FN_W_W_x86 run orig arg1 =
     CALL_FN run asm_W_x86 AX AX orig [arg1]"

definition CALL_FN_W_WW_x86 ::
  "(x86_reg, 32) executor \<Rightarrow> 32 word \<Rightarrow> 32 word \<Rightarrow> 32 word \<Rightarrow> (x86_reg, 32) macro" where
  "CALL_FN_W_WW_x86 run orig arg1 arg2 =
     CALL_FN run asm_WW_x86 AX AX orig [arg1, arg2]"

definition CALL_FN_W_WWW_x86 ::
  "(x86_reg, 32) executor \<Rightarrow> 32 word \<Rightarrow> 32 word \<Rightarrow> 32 word \<Rightarrow> 32 word \<Rightarrow> (x86_reg, 32) macro" where
  "CALL_FN_W_WWW_x86 run orig arg1 arg2 arg3 =
     CALL_FN run asm_WWW_x86 AX AX orig [arg1, arg2, arg3]"

definition CALL_FN_W_WWWW_x86 ::
  "(x86_reg, 32) executor \<Rightarrow> 32 word \<Rightarrow> 32 word \<Rightarrow> 32 word \<Rightarrow> 32 word \<Rightarrow> 32 word \<Rightarrow> (x86_reg, 32) macro" where
  "CALL_FN_W_WWWW_x86 run orig arg1 arg2 arg3 arg4 =
     CALL_FN run asm_WWWW_x86 AX AX orig [arg1, arg2, arg3, arg4]"

definition CALL_FN_W_5W_x86 ::
  "(x86_reg, 32) executor \<Rightarrow> 32 word \<Rightarrow> 32 word \<Rightarrow> 32 word \<Rightarrow> 32 word \<Rightarrow> 32 word \<Rightarrow> 32 word \<Rightarrow> (x86_reg, 32) macro" where
  "CALL_FN_W_5W_x86 run orig arg1 arg2 arg3 arg4 arg5 =
     CALL_FN run asm_5W_x86 AX AX orig [arg1, arg2, arg3, arg4, arg5]"

definition CALL_FN_W_6W_x86 ::
  "(x86_reg, 32) executor \<Rightarrow> 32 word \<Rightarrow> 32 word \<Rightarrow> 32 word \<Rightarrow> 32 word \<Rightarrow> 32 word \<Rightarrow> 32 word \<Rightarrow> 32 word \<Rightarrow> (x86_reg, 32) macro" where
  "CALL_FN_W_6W_x86 run orig arg1 arg2 arg3 arg4 arg5 arg6 =
     CALL_FN run asm_6W_x86 AX AX orig [arg1, arg2, arg3, arg4, arg5, arg6]"

definition CALL_FN_W_7W_x86 ::
  "(x86_reg, 32) executor \<Rightarrow> 32 word \<Rightarrow> 32 word \<Rightarrow> 32 word \<Rightarrow> 32 word \<Rightarrow> 32 word \<Rightarrow> 32 word \<Rightarrow> 32 word \<Rightarrow> 32 word \<Rightarrow>
   (x86_reg, 32) macro" where
  "CALL_FN_W_7W_x86 run orig arg1 arg2 arg3 arg4 arg5 arg6 arg7 =
     CALL_FN run asm_7W_x86 AX AX orig [arg1, arg2, arg3, arg4, arg5, arg6, arg7]"

definition CALL_FN_W_8W_x86 ::
  "(x86_reg, 32) executor \<Rightarrow> 32 word \<Rightarrow> 32 word \<Rightarrow> 32 word \<Rightarrow> 32 word \<Rightarrow> 32 word \<Rightarrow> 32 word \<Rightarrow> 32 word \<Rightarrow> 32 word \<Rightarrow>
   32 word \<Rightarrow> (x86_reg, 32) macro" where
  "CALL_FN_W_8W_x86 run orig arg1 arg2 arg3 arg4 arg5 arg6 arg7 arg8 =
     CALL_FN run asm_8W_x86 AX AX orig [arg1, arg2, arg3, arg4, arg5, arg6, arg7, arg8]"

definition CALL_FN_W_9W_x86 ::
  "(x86_reg, 32) executor \<Rightarrow> 32 word \<Rightarrow> 32 word \<Rightarrow> 32 word \<Rightarrow> 32 word \<Rightarrow> 32 word \<Rightarrow> 32 word \<Rightarrow> 32 word \<Rightarrow> 32 word \<Rightarrow>
   32 word \<Rightarrow> 32 word \<Rightarrow> (x86_reg, 32) macro" where
  "CALL_FN_W_9W_x86 run orig arg1 arg2 arg3 arg4 arg5 arg6 arg7 arg8 arg9 =
     CALL_FN run asm_9W_x86 AX AX orig [arg1, arg2, arg3, arg4, arg5, arg6, arg7, arg8, arg9]"

definition CALL_FN_W_10W_x86 ::
  "(x86_reg, 32) executor \<Rightarrow> 32 word \<Rightarrow> 32 word \<Rightarrow> 32 word \<Rightarrow> 32 word \<Rightarrow> 32 word \<Rightarrow> 32 word \<Rightarrow> 32 word \<Rightarrow> 32 word \<Rightarrow>
   32 word \<Rightarrow> 32 word \<Rightarrow> 32 word \<Rightarrow> (x86_reg, 32) macro" where
  "CALL_FN_W_10W_x86 run orig arg1 arg2 arg3 arg4 arg5 arg6 arg7 arg8 arg9 arg10 =
     CALL_FN run asm_10W_x86 AX AX orig [arg1, arg2, arg3, arg4, arg5, arg6, arg7, arg8, arg9, arg10]"

definition CALL_FN_W_11W_x86 ::
  "(x86_reg, 32) executor \<Rightarrow> 32 word \<Rightarrow> 32 word \<Rightarrow> 32 word \<Rightarrow> 32 word \<Rightarrow> 32 word \<Rightarrow> 32 word \<Rightarrow> 32 word \<Rightarrow> 32 word \<Rightarrow>
   32 word \<Rightarrow> 32 word \<Rightarrow> 32 word \<Rightarrow> 32 word \<Rightarrow> (x86_reg, 32) macro" where
  "CALL_FN_W_11W_x86 run orig arg1 arg2 arg3 arg4 arg5 arg6 arg7 arg8 arg9 arg10 arg11 =
     CALL_FN run asm_11W_x86 AX AX orig [arg1, arg2, arg3, arg4, arg5, arg6, arg7, arg8, arg9, arg10, arg11]"

definition CALL_FN_W_12W_x86 ::
  "(x86_reg, 32) executor \<Rightarrow> 32 word \<Rightarrow> 32 word \<Rightarrow> 32 word \<Rightarrow> 32 word \<Rightarrow> 32 word \<Rightarrow> 32 word \<Rightarrow> 32 word \<Rightarrow> 32 word \<Rightarrow>
   32 word \<Rightarrow> 32 word \<Rightarrow> 32 word \<Rightarrow> 32 word \<Rightarrow> 32 word \<Rightarrow> (x86_reg, 32) macro" where
  "CALL_FN_W_12W_x86 run orig arg1 arg2 arg3 arg4 arg5 arg6 arg7 arg8 arg9 arg10 arg11 arg12 =
     CALL_FN run asm_12W_x86 AX AX orig [arg1, arg2, arg3, arg4, arg5, arg6, arg7, arg8, arg9, arg10, arg11, arg12]"

text \<open>The macro for a list of arguments.\<close>

fun CALL_FN_W_x86 ::
  "(x86_reg, 32) executor \<Rightarrow> 32 word \<Rightarrow> 32 word list \<Rightarrow>
   (x86_reg, 32) macro" where
  "CALL_FN_W_x86 run orig [] = CALL_FN_W_v_x86 run orig"
| "CALL_FN_W_x86 run orig [a1] = CALL_FN_W_W_x86 run orig a1"
| "CALL_FN_W_x86 run orig [a1, a2] = CALL_FN_W_WW_x86 run orig a1 a2"
| "CALL_FN_W_x86 run orig [a1, a2, a3] = CALL_FN_W_WWW_x86 run orig a1 a2 a3"
| "CALL_FN_W_x86 run orig [a1, a2, a3, a4] = CALL_FN_W_WWWW_x86 run orig a1 a2 a3 a4"
| "CALL_FN_W_x86 run orig [a1, a2, a3, a4, a5] = CALL_FN_W_5W_x86 run orig a1 a2 a3 a4 a5"
| "CALL_FN_W_x86 run orig [a1, a2, a3, a4, a5, a6] = CALL_FN_W_6W_x86 run orig a1 a2 a3 a4 a5 a6"
| "CALL_FN_W_x86 run orig [a1, a2, a3, a4, a5, a6, a7] = CALL_FN_W_7W_x86 run orig a1 a2 a3 a4 a5 a6 a7"
| "CALL_FN_W_x86 run orig [a1, a2, a3, a4, a5, a6, a7, a8] = CALL_FN_W_8W_x86 run orig a1 a2 a3 a4 a5 a6 a7 a8"
| "CALL_FN_W_x86 run orig [a1, a2, a3, a4, a5, a6, a7, a8, a9] = CALL_FN_W_9W_x86 run orig a1 a2 a3 a4 a5 a6 a7 a8 a9"
| "CALL_FN_W_x86 run orig [a1, a2, a3, a4, a5, a6, a7, a8, a9, a10] = CALL_FN_W_10W_x86 run orig a1 a2 a3 a4 a5 a6 a7 a8 a9 a10"
| "CALL_FN_W_x86 run orig [a1, a2, a3, a4, a5, a6, a7, a8, a9, a10, a11] = CALL_FN_W_11W_x86 run orig a1 a2 a3 a4 a5 a6 a7 a8 a9 a10 a11"
| "CALL_FN_W_x86 run orig [a1, a2, a3, a4, a5, a6, a7, a8, a9, a10, a11, a12] = CALL_FN_W_12W_x86 run orig a1 a2 a3 a4 a5 a6 a7 a8 a9 a10 a11 a12"
| "CALL_FN_W_x86 run orig args = (\<lambda>a st. Err Undefined)"

lemmas CALL_FN_x86_defs =
  CALL_FN_W_v_x86_def CALL_FN_W_W_x86_def CALL_FN_W_WW_x86_def
  CALL_FN_W_WWW_x86_def CALL_FN_W_WWWW_x86_def CALL_FN_W_5W_x86_def
  CALL_FN_W_6W_x86_def CALL_FN_W_7W_x86_def CALL_FN_W_8W_x86_def
  CALL_FN_W_9W_x86_def CALL_FN_W_10W_x86_def CALL_FN_W_11W_x86_def
  CALL_FN_W_12W_x86_def

section \<open>The macros for amd64\<close>

definition VALGRIND_CFI_PROLOGUE_amd64 :: "x86_reg instr list" where
  "VALGRIND_CFI_PROLOGUE_amd64 = [Mov R15 BP, Mov BP Opd2, Directive, Directive]"

definition VALGRIND_CFI_EPILOGUE_amd64 :: "x86_reg instr list" where
  "VALGRIND_CFI_EPILOGUE_amd64 = [Mov BP R15, Directive]"

definition VALGRIND_ALIGN_STACK_amd64 :: "x86_reg instr list" where
  "VALGRIND_ALIGN_STACK_amd64 = [Mov R14 SP, And_imm SP 0xfffffffffffffff0]"

definition VALGRIND_RESTORE_STACK_amd64 :: "x86_reg instr list" where
  "VALGRIND_RESTORE_STACK_amd64 = [Mov SP R14]"

definition asm_v_amd64 :: "x86_reg instr list" where
  "asm_v_amd64 =
     VALGRIND_CFI_PROLOGUE_amd64 @
     VALGRIND_ALIGN_STACK_amd64 @
     [Sub_imm SP 128, Ldr AX AX 0] @
     VALGRIND_CALL_NOREDIR_RAX_amd64 @
     VALGRIND_RESTORE_STACK_amd64 @
     VALGRIND_CFI_EPILOGUE_amd64"

definition asm_W_amd64 :: "x86_reg instr list" where
  "asm_W_amd64 =
     VALGRIND_CFI_PROLOGUE_amd64 @
     VALGRIND_ALIGN_STACK_amd64 @
     [Sub_imm SP 128, Ldr DI AX 8, Ldr AX AX 0] @
     VALGRIND_CALL_NOREDIR_RAX_amd64 @
     VALGRIND_RESTORE_STACK_amd64 @
     VALGRIND_CFI_EPILOGUE_amd64"

definition asm_WW_amd64 :: "x86_reg instr list" where
  "asm_WW_amd64 =
     VALGRIND_CFI_PROLOGUE_amd64 @
     VALGRIND_ALIGN_STACK_amd64 @
     [Sub_imm SP 128, Ldr SI AX 16, Ldr DI AX 8, Ldr AX AX 0] @
     VALGRIND_CALL_NOREDIR_RAX_amd64 @
     VALGRIND_RESTORE_STACK_amd64 @
     VALGRIND_CFI_EPILOGUE_amd64"

definition asm_WWW_amd64 :: "x86_reg instr list" where
  "asm_WWW_amd64 =
     VALGRIND_CFI_PROLOGUE_amd64 @
     VALGRIND_ALIGN_STACK_amd64 @
     [Sub_imm SP 128, Ldr DX AX 24, Ldr SI AX 16, Ldr DI AX 8, Ldr AX AX 0] @
     VALGRIND_CALL_NOREDIR_RAX_amd64 @
     VALGRIND_RESTORE_STACK_amd64 @
     VALGRIND_CFI_EPILOGUE_amd64"

definition asm_WWWW_amd64 :: "x86_reg instr list" where
  "asm_WWWW_amd64 =
     VALGRIND_CFI_PROLOGUE_amd64 @
     VALGRIND_ALIGN_STACK_amd64 @
     [Sub_imm SP 128, Ldr CX AX 32, Ldr DX AX 24, Ldr SI AX 16, Ldr DI AX 8, Ldr AX AX 0] @
     VALGRIND_CALL_NOREDIR_RAX_amd64 @
     VALGRIND_RESTORE_STACK_amd64 @
     VALGRIND_CFI_EPILOGUE_amd64"

definition asm_5W_amd64 :: "x86_reg instr list" where
  "asm_5W_amd64 =
     VALGRIND_CFI_PROLOGUE_amd64 @
     VALGRIND_ALIGN_STACK_amd64 @
     [Sub_imm SP 128, Ldr R8 AX 40, Ldr CX AX 32, Ldr DX AX 24, Ldr SI AX 16, Ldr DI AX 8,
      Ldr AX AX 0] @
     VALGRIND_CALL_NOREDIR_RAX_amd64 @
     VALGRIND_RESTORE_STACK_amd64 @
     VALGRIND_CFI_EPILOGUE_amd64"

definition asm_6W_amd64 :: "x86_reg instr list" where
  "asm_6W_amd64 =
     VALGRIND_CFI_PROLOGUE_amd64 @
     VALGRIND_ALIGN_STACK_amd64 @
     [Sub_imm SP 128, Ldr R9 AX 48, Ldr R8 AX 40, Ldr CX AX 32, Ldr DX AX 24, Ldr SI AX 16,
      Ldr DI AX 8, Ldr AX AX 0] @
     VALGRIND_CALL_NOREDIR_RAX_amd64 @
     VALGRIND_RESTORE_STACK_amd64 @
     VALGRIND_CFI_EPILOGUE_amd64"

definition asm_7W_amd64 :: "x86_reg instr list" where
  "asm_7W_amd64 =
     VALGRIND_CFI_PROLOGUE_amd64 @
     VALGRIND_ALIGN_STACK_amd64 @
     [Sub_imm SP 136, Push_mem AX 56, Ldr R9 AX 48, Ldr R8 AX 40, Ldr CX AX 32, Ldr DX AX 24,
      Ldr SI AX 16, Ldr DI AX 8, Ldr AX AX 0] @
     VALGRIND_CALL_NOREDIR_RAX_amd64 @
     VALGRIND_RESTORE_STACK_amd64 @
     VALGRIND_CFI_EPILOGUE_amd64"

definition asm_8W_amd64 :: "x86_reg instr list" where
  "asm_8W_amd64 =
     VALGRIND_CFI_PROLOGUE_amd64 @
     VALGRIND_ALIGN_STACK_amd64 @
     [Sub_imm SP 128, Push_mem AX 64, Push_mem AX 56, Ldr R9 AX 48, Ldr R8 AX 40, Ldr CX AX 32,
      Ldr DX AX 24, Ldr SI AX 16, Ldr DI AX 8, Ldr AX AX 0] @
     VALGRIND_CALL_NOREDIR_RAX_amd64 @
     VALGRIND_RESTORE_STACK_amd64 @
     VALGRIND_CFI_EPILOGUE_amd64"

definition asm_9W_amd64 :: "x86_reg instr list" where
  "asm_9W_amd64 =
     VALGRIND_CFI_PROLOGUE_amd64 @
     VALGRIND_ALIGN_STACK_amd64 @
     [Sub_imm SP 136, Push_mem AX 72, Push_mem AX 64, Push_mem AX 56, Ldr R9 AX 48,
      Ldr R8 AX 40, Ldr CX AX 32, Ldr DX AX 24, Ldr SI AX 16, Ldr DI AX 8, Ldr AX AX 0] @
     VALGRIND_CALL_NOREDIR_RAX_amd64 @
     VALGRIND_RESTORE_STACK_amd64 @
     VALGRIND_CFI_EPILOGUE_amd64"

definition asm_10W_amd64 :: "x86_reg instr list" where
  "asm_10W_amd64 =
     VALGRIND_CFI_PROLOGUE_amd64 @
     VALGRIND_ALIGN_STACK_amd64 @
     [Sub_imm SP 128, Push_mem AX 80, Push_mem AX 72, Push_mem AX 64, Push_mem AX 56,
      Ldr R9 AX 48, Ldr R8 AX 40, Ldr CX AX 32, Ldr DX AX 24, Ldr SI AX 16, Ldr DI AX 8,
      Ldr AX AX 0] @
     VALGRIND_CALL_NOREDIR_RAX_amd64 @
     VALGRIND_RESTORE_STACK_amd64 @
     VALGRIND_CFI_EPILOGUE_amd64"

definition asm_11W_amd64 :: "x86_reg instr list" where
  "asm_11W_amd64 =
     VALGRIND_CFI_PROLOGUE_amd64 @
     VALGRIND_ALIGN_STACK_amd64 @
     [Sub_imm SP 136, Push_mem AX 88, Push_mem AX 80, Push_mem AX 72, Push_mem AX 64,
      Push_mem AX 56, Ldr R9 AX 48, Ldr R8 AX 40, Ldr CX AX 32, Ldr DX AX 24, Ldr SI AX 16,
      Ldr DI AX 8, Ldr AX AX 0] @
     VALGRIND_CALL_NOREDIR_RAX_amd64 @
     VALGRIND_RESTORE_STACK_amd64 @
     VALGRIND_CFI_EPILOGUE_amd64"

definition asm_12W_amd64 :: "x86_reg instr list" where
  "asm_12W_amd64 =
     VALGRIND_CFI_PROLOGUE_amd64 @
     VALGRIND_ALIGN_STACK_amd64 @
     [Sub_imm SP 128, Push_mem AX 96, Push_mem AX 88, Push_mem AX 80, Push_mem AX 72,
      Push_mem AX 64, Push_mem AX 56, Ldr R9 AX 48, Ldr R8 AX 40, Ldr CX AX 32, Ldr DX AX 24,
      Ldr SI AX 16, Ldr DI AX 8, Ldr AX AX 0] @
     VALGRIND_CALL_NOREDIR_RAX_amd64 @
     VALGRIND_RESTORE_STACK_amd64 @
     VALGRIND_CFI_EPILOGUE_amd64"

text \<open>The assembly for \<open>n\<close> arguments.\<close>

definition asm_amd64 :: "nat \<Rightarrow> x86_reg instr list" where
  "asm_amd64 n =
     [asm_v_amd64, asm_W_amd64, asm_WW_amd64,
      asm_WWW_amd64, asm_WWWW_amd64, asm_5W_amd64,
      asm_6W_amd64, asm_7W_amd64, asm_8W_amd64,
      asm_9W_amd64, asm_10W_amd64, asm_11W_amd64,
      asm_12W_amd64] ! n"

lemmas asm_amd64_defs =
  asm_v_amd64_def asm_W_amd64_def asm_WW_amd64_def
  asm_WWW_amd64_def asm_WWWW_amd64_def asm_5W_amd64_def
  asm_6W_amd64_def asm_7W_amd64_def asm_8W_amd64_def
  asm_9W_amd64_def asm_10W_amd64_def asm_11W_amd64_def
  asm_12W_amd64_def
  VALGRIND_ALIGN_STACK_amd64_def VALGRIND_RESTORE_STACK_amd64_def VALGRIND_CFI_PROLOGUE_amd64_def VALGRIND_CFI_EPILOGUE_amd64_def

definition CALL_FN_W_v_amd64 ::
  "(x86_reg, 64) executor \<Rightarrow> 64 word \<Rightarrow> (x86_reg, 64) macro" where
  "CALL_FN_W_v_amd64 run orig =
     CALL_FN run asm_v_amd64 AX AX orig []"

definition CALL_FN_W_W_amd64 ::
  "(x86_reg, 64) executor \<Rightarrow> 64 word \<Rightarrow> 64 word \<Rightarrow> (x86_reg, 64) macro" where
  "CALL_FN_W_W_amd64 run orig arg1 =
     CALL_FN run asm_W_amd64 AX AX orig [arg1]"

definition CALL_FN_W_WW_amd64 ::
  "(x86_reg, 64) executor \<Rightarrow> 64 word \<Rightarrow> 64 word \<Rightarrow> 64 word \<Rightarrow> (x86_reg, 64) macro" where
  "CALL_FN_W_WW_amd64 run orig arg1 arg2 =
     CALL_FN run asm_WW_amd64 AX AX orig [arg1, arg2]"

definition CALL_FN_W_WWW_amd64 ::
  "(x86_reg, 64) executor \<Rightarrow> 64 word \<Rightarrow> 64 word \<Rightarrow> 64 word \<Rightarrow> 64 word \<Rightarrow> (x86_reg, 64) macro" where
  "CALL_FN_W_WWW_amd64 run orig arg1 arg2 arg3 =
     CALL_FN run asm_WWW_amd64 AX AX orig [arg1, arg2, arg3]"

definition CALL_FN_W_WWWW_amd64 ::
  "(x86_reg, 64) executor \<Rightarrow> 64 word \<Rightarrow> 64 word \<Rightarrow> 64 word \<Rightarrow> 64 word \<Rightarrow> 64 word \<Rightarrow> (x86_reg, 64) macro" where
  "CALL_FN_W_WWWW_amd64 run orig arg1 arg2 arg3 arg4 =
     CALL_FN run asm_WWWW_amd64 AX AX orig [arg1, arg2, arg3, arg4]"

definition CALL_FN_W_5W_amd64 ::
  "(x86_reg, 64) executor \<Rightarrow> 64 word \<Rightarrow> 64 word \<Rightarrow> 64 word \<Rightarrow> 64 word \<Rightarrow> 64 word \<Rightarrow> 64 word \<Rightarrow> (x86_reg, 64) macro" where
  "CALL_FN_W_5W_amd64 run orig arg1 arg2 arg3 arg4 arg5 =
     CALL_FN run asm_5W_amd64 AX AX orig [arg1, arg2, arg3, arg4, arg5]"

definition CALL_FN_W_6W_amd64 ::
  "(x86_reg, 64) executor \<Rightarrow> 64 word \<Rightarrow> 64 word \<Rightarrow> 64 word \<Rightarrow> 64 word \<Rightarrow> 64 word \<Rightarrow> 64 word \<Rightarrow> 64 word \<Rightarrow> (x86_reg, 64) macro" where
  "CALL_FN_W_6W_amd64 run orig arg1 arg2 arg3 arg4 arg5 arg6 =
     CALL_FN run asm_6W_amd64 AX AX orig [arg1, arg2, arg3, arg4, arg5, arg6]"

definition CALL_FN_W_7W_amd64 ::
  "(x86_reg, 64) executor \<Rightarrow> 64 word \<Rightarrow> 64 word \<Rightarrow> 64 word \<Rightarrow> 64 word \<Rightarrow> 64 word \<Rightarrow> 64 word \<Rightarrow> 64 word \<Rightarrow> 64 word \<Rightarrow>
   (x86_reg, 64) macro" where
  "CALL_FN_W_7W_amd64 run orig arg1 arg2 arg3 arg4 arg5 arg6 arg7 =
     CALL_FN run asm_7W_amd64 AX AX orig [arg1, arg2, arg3, arg4, arg5, arg6, arg7]"

definition CALL_FN_W_8W_amd64 ::
  "(x86_reg, 64) executor \<Rightarrow> 64 word \<Rightarrow> 64 word \<Rightarrow> 64 word \<Rightarrow> 64 word \<Rightarrow> 64 word \<Rightarrow> 64 word \<Rightarrow> 64 word \<Rightarrow> 64 word \<Rightarrow>
   64 word \<Rightarrow> (x86_reg, 64) macro" where
  "CALL_FN_W_8W_amd64 run orig arg1 arg2 arg3 arg4 arg5 arg6 arg7 arg8 =
     CALL_FN run asm_8W_amd64 AX AX orig [arg1, arg2, arg3, arg4, arg5, arg6, arg7, arg8]"

definition CALL_FN_W_9W_amd64 ::
  "(x86_reg, 64) executor \<Rightarrow> 64 word \<Rightarrow> 64 word \<Rightarrow> 64 word \<Rightarrow> 64 word \<Rightarrow> 64 word \<Rightarrow> 64 word \<Rightarrow> 64 word \<Rightarrow> 64 word \<Rightarrow>
   64 word \<Rightarrow> 64 word \<Rightarrow> (x86_reg, 64) macro" where
  "CALL_FN_W_9W_amd64 run orig arg1 arg2 arg3 arg4 arg5 arg6 arg7 arg8 arg9 =
     CALL_FN run asm_9W_amd64 AX AX orig [arg1, arg2, arg3, arg4, arg5, arg6, arg7, arg8, arg9]"

definition CALL_FN_W_10W_amd64 ::
  "(x86_reg, 64) executor \<Rightarrow> 64 word \<Rightarrow> 64 word \<Rightarrow> 64 word \<Rightarrow> 64 word \<Rightarrow> 64 word \<Rightarrow> 64 word \<Rightarrow> 64 word \<Rightarrow> 64 word \<Rightarrow>
   64 word \<Rightarrow> 64 word \<Rightarrow> 64 word \<Rightarrow> (x86_reg, 64) macro" where
  "CALL_FN_W_10W_amd64 run orig arg1 arg2 arg3 arg4 arg5 arg6 arg7 arg8 arg9 arg10 =
     CALL_FN run asm_10W_amd64 AX AX orig [arg1, arg2, arg3, arg4, arg5, arg6, arg7, arg8, arg9, arg10]"

definition CALL_FN_W_11W_amd64 ::
  "(x86_reg, 64) executor \<Rightarrow> 64 word \<Rightarrow> 64 word \<Rightarrow> 64 word \<Rightarrow> 64 word \<Rightarrow> 64 word \<Rightarrow> 64 word \<Rightarrow> 64 word \<Rightarrow> 64 word \<Rightarrow>
   64 word \<Rightarrow> 64 word \<Rightarrow> 64 word \<Rightarrow> 64 word \<Rightarrow> (x86_reg, 64) macro" where
  "CALL_FN_W_11W_amd64 run orig arg1 arg2 arg3 arg4 arg5 arg6 arg7 arg8 arg9 arg10 arg11 =
     CALL_FN run asm_11W_amd64 AX AX orig [arg1, arg2, arg3, arg4, arg5, arg6, arg7, arg8, arg9, arg10, arg11]"

definition CALL_FN_W_12W_amd64 ::
  "(x86_reg, 64) executor \<Rightarrow> 64 word \<Rightarrow> 64 word \<Rightarrow> 64 word \<Rightarrow> 64 word \<Rightarrow> 64 word \<Rightarrow> 64 word \<Rightarrow> 64 word \<Rightarrow> 64 word \<Rightarrow>
   64 word \<Rightarrow> 64 word \<Rightarrow> 64 word \<Rightarrow> 64 word \<Rightarrow> 64 word \<Rightarrow> (x86_reg, 64) macro" where
  "CALL_FN_W_12W_amd64 run orig arg1 arg2 arg3 arg4 arg5 arg6 arg7 arg8 arg9 arg10 arg11 arg12 =
     CALL_FN run asm_12W_amd64 AX AX orig [arg1, arg2, arg3, arg4, arg5, arg6, arg7, arg8, arg9, arg10, arg11, arg12]"

text \<open>The macro for a list of arguments.\<close>

fun CALL_FN_W_amd64 ::
  "(x86_reg, 64) executor \<Rightarrow> 64 word \<Rightarrow> 64 word list \<Rightarrow>
   (x86_reg, 64) macro" where
  "CALL_FN_W_amd64 run orig [] = CALL_FN_W_v_amd64 run orig"
| "CALL_FN_W_amd64 run orig [a1] = CALL_FN_W_W_amd64 run orig a1"
| "CALL_FN_W_amd64 run orig [a1, a2] = CALL_FN_W_WW_amd64 run orig a1 a2"
| "CALL_FN_W_amd64 run orig [a1, a2, a3] = CALL_FN_W_WWW_amd64 run orig a1 a2 a3"
| "CALL_FN_W_amd64 run orig [a1, a2, a3, a4] = CALL_FN_W_WWWW_amd64 run orig a1 a2 a3 a4"
| "CALL_FN_W_amd64 run orig [a1, a2, a3, a4, a5] = CALL_FN_W_5W_amd64 run orig a1 a2 a3 a4 a5"
| "CALL_FN_W_amd64 run orig [a1, a2, a3, a4, a5, a6] = CALL_FN_W_6W_amd64 run orig a1 a2 a3 a4 a5 a6"
| "CALL_FN_W_amd64 run orig [a1, a2, a3, a4, a5, a6, a7] = CALL_FN_W_7W_amd64 run orig a1 a2 a3 a4 a5 a6 a7"
| "CALL_FN_W_amd64 run orig [a1, a2, a3, a4, a5, a6, a7, a8] = CALL_FN_W_8W_amd64 run orig a1 a2 a3 a4 a5 a6 a7 a8"
| "CALL_FN_W_amd64 run orig [a1, a2, a3, a4, a5, a6, a7, a8, a9] = CALL_FN_W_9W_amd64 run orig a1 a2 a3 a4 a5 a6 a7 a8 a9"
| "CALL_FN_W_amd64 run orig [a1, a2, a3, a4, a5, a6, a7, a8, a9, a10] = CALL_FN_W_10W_amd64 run orig a1 a2 a3 a4 a5 a6 a7 a8 a9 a10"
| "CALL_FN_W_amd64 run orig [a1, a2, a3, a4, a5, a6, a7, a8, a9, a10, a11] = CALL_FN_W_11W_amd64 run orig a1 a2 a3 a4 a5 a6 a7 a8 a9 a10 a11"
| "CALL_FN_W_amd64 run orig [a1, a2, a3, a4, a5, a6, a7, a8, a9, a10, a11, a12] = CALL_FN_W_12W_amd64 run orig a1 a2 a3 a4 a5 a6 a7 a8 a9 a10 a11 a12"
| "CALL_FN_W_amd64 run orig args = (\<lambda>a st. Err Undefined)"

lemmas CALL_FN_amd64_defs =
  CALL_FN_W_v_amd64_def CALL_FN_W_W_amd64_def CALL_FN_W_WW_amd64_def
  CALL_FN_W_WWW_amd64_def CALL_FN_W_WWWW_amd64_def CALL_FN_W_5W_amd64_def
  CALL_FN_W_6W_amd64_def CALL_FN_W_7W_amd64_def CALL_FN_W_8W_amd64_def
  CALL_FN_W_9W_amd64_def CALL_FN_W_10W_amd64_def CALL_FN_W_11W_amd64_def
  CALL_FN_W_12W_amd64_def

section \<open>The macros for arm\<close>

definition VALGRIND_ALIGN_STACK_arm :: "arm_reg instr list" where
  "VALGRIND_ALIGN_STACK_arm = [Mov (R 10) Sp, Mov (R 4) Sp, Bic (R 4) (R 4) 7, Mov Sp (R 4)]"

definition VALGRIND_RESTORE_STACK_arm :: "arm_reg instr list" where
  "VALGRIND_RESTORE_STACK_arm = [Mov Sp (R 10)]"

definition asm_v_arm :: "arm_reg instr list" where
  "asm_v_arm =
     VALGRIND_ALIGN_STACK_arm @
     [Ldr (R 4) (Opd 0) 0] @
     VALGRIND_BRANCH_AND_LINK_TO_NOREDIR_R4_arm @
     VALGRIND_RESTORE_STACK_arm @
     [Mov (Opd 0) (R 0)]"

definition asm_W_arm :: "arm_reg instr list" where
  "asm_W_arm =
     VALGRIND_ALIGN_STACK_arm @
     [Ldr (R 0) (Opd 0) 4, Ldr (R 4) (Opd 0) 0] @
     VALGRIND_BRANCH_AND_LINK_TO_NOREDIR_R4_arm @
     VALGRIND_RESTORE_STACK_arm @
     [Mov (Opd 0) (R 0)]"

definition asm_WW_arm :: "arm_reg instr list" where
  "asm_WW_arm =
     VALGRIND_ALIGN_STACK_arm @
     [Ldr (R 0) (Opd 0) 4, Ldr (R 1) (Opd 0) 8, Ldr (R 4) (Opd 0) 0] @
     VALGRIND_BRANCH_AND_LINK_TO_NOREDIR_R4_arm @
     VALGRIND_RESTORE_STACK_arm @
     [Mov (Opd 0) (R 0)]"

definition asm_WWW_arm :: "arm_reg instr list" where
  "asm_WWW_arm =
     VALGRIND_ALIGN_STACK_arm @
     [Ldr (R 0) (Opd 0) 4, Ldr (R 1) (Opd 0) 8, Ldr (R 2) (Opd 0) 12, Ldr (R 4) (Opd 0) 0] @
     VALGRIND_BRANCH_AND_LINK_TO_NOREDIR_R4_arm @
     VALGRIND_RESTORE_STACK_arm @
     [Mov (Opd 0) (R 0)]"

definition asm_WWWW_arm :: "arm_reg instr list" where
  "asm_WWWW_arm =
     VALGRIND_ALIGN_STACK_arm @
     [Ldr (R 0) (Opd 0) 4, Ldr (R 1) (Opd 0) 8, Ldr (R 2) (Opd 0) 12, Ldr (R 3) (Opd 0) 16,
      Ldr (R 4) (Opd 0) 0] @
     VALGRIND_BRANCH_AND_LINK_TO_NOREDIR_R4_arm @
     VALGRIND_RESTORE_STACK_arm @
     [Mov (Opd 0) (R 0)]"

definition asm_5W_arm :: "arm_reg instr list" where
  "asm_5W_arm =
     VALGRIND_ALIGN_STACK_arm @
     [Sub_imm Sp 4, Ldr (R 0) (Opd 0) 20, Push_regs [R 0], Ldr (R 0) (Opd 0) 4,
      Ldr (R 1) (Opd 0) 8, Ldr (R 2) (Opd 0) 12, Ldr (R 3) (Opd 0) 16, Ldr (R 4) (Opd 0) 0] @
     VALGRIND_BRANCH_AND_LINK_TO_NOREDIR_R4_arm @
     VALGRIND_RESTORE_STACK_arm @
     [Mov (Opd 0) (R 0)]"

definition asm_6W_arm :: "arm_reg instr list" where
  "asm_6W_arm =
     VALGRIND_ALIGN_STACK_arm @
     [Ldr (R 0) (Opd 0) 20, Ldr (R 1) (Opd 0) 24, Push_regs [R 0, R 1], Ldr (R 0) (Opd 0) 4,
      Ldr (R 1) (Opd 0) 8, Ldr (R 2) (Opd 0) 12, Ldr (R 3) (Opd 0) 16, Ldr (R 4) (Opd 0) 0] @
     VALGRIND_BRANCH_AND_LINK_TO_NOREDIR_R4_arm @
     VALGRIND_RESTORE_STACK_arm @
     [Mov (Opd 0) (R 0)]"

definition asm_7W_arm :: "arm_reg instr list" where
  "asm_7W_arm =
     VALGRIND_ALIGN_STACK_arm @
     [Sub_imm Sp 4, Ldr (R 0) (Opd 0) 20, Ldr (R 1) (Opd 0) 24, Ldr (R 2) (Opd 0) 28,
      Push_regs [R 0, R 1, R 2], Ldr (R 0) (Opd 0) 4, Ldr (R 1) (Opd 0) 8,
      Ldr (R 2) (Opd 0) 12, Ldr (R 3) (Opd 0) 16, Ldr (R 4) (Opd 0) 0] @
     VALGRIND_BRANCH_AND_LINK_TO_NOREDIR_R4_arm @
     VALGRIND_RESTORE_STACK_arm @
     [Mov (Opd 0) (R 0)]"

definition asm_8W_arm :: "arm_reg instr list" where
  "asm_8W_arm =
     VALGRIND_ALIGN_STACK_arm @
     [Ldr (R 0) (Opd 0) 20, Ldr (R 1) (Opd 0) 24, Ldr (R 2) (Opd 0) 28, Ldr (R 3) (Opd 0) 32,
      Push_regs [R 0, R 1, R 2, R 3], Ldr (R 0) (Opd 0) 4, Ldr (R 1) (Opd 0) 8,
      Ldr (R 2) (Opd 0) 12, Ldr (R 3) (Opd 0) 16, Ldr (R 4) (Opd 0) 0] @
     VALGRIND_BRANCH_AND_LINK_TO_NOREDIR_R4_arm @
     VALGRIND_RESTORE_STACK_arm @
     [Mov (Opd 0) (R 0)]"

definition asm_9W_arm :: "arm_reg instr list" where
  "asm_9W_arm =
     VALGRIND_ALIGN_STACK_arm @
     [Sub_imm Sp 4, Ldr (R 0) (Opd 0) 20, Ldr (R 1) (Opd 0) 24, Ldr (R 2) (Opd 0) 28,
      Ldr (R 3) (Opd 0) 32, Ldr (R 4) (Opd 0) 36, Push_regs [R 0, R 1, R 2, R 3, R 4],
      Ldr (R 0) (Opd 0) 4, Ldr (R 1) (Opd 0) 8, Ldr (R 2) (Opd 0) 12, Ldr (R 3) (Opd 0) 16,
      Ldr (R 4) (Opd 0) 0] @
     VALGRIND_BRANCH_AND_LINK_TO_NOREDIR_R4_arm @
     VALGRIND_RESTORE_STACK_arm @
     [Mov (Opd 0) (R 0)]"

definition asm_10W_arm :: "arm_reg instr list" where
  "asm_10W_arm =
     VALGRIND_ALIGN_STACK_arm @
     [Ldr (R 0) (Opd 0) 40, Push_regs [R 0], Ldr (R 0) (Opd 0) 20, Ldr (R 1) (Opd 0) 24,
      Ldr (R 2) (Opd 0) 28, Ldr (R 3) (Opd 0) 32, Ldr (R 4) (Opd 0) 36, Push_regs [R 0, R 1,
      R 2, R 3, R 4], Ldr (R 0) (Opd 0) 4, Ldr (R 1) (Opd 0) 8, Ldr (R 2) (Opd 0) 12,
      Ldr (R 3) (Opd 0) 16, Ldr (R 4) (Opd 0) 0] @
     VALGRIND_BRANCH_AND_LINK_TO_NOREDIR_R4_arm @
     VALGRIND_RESTORE_STACK_arm @
     [Mov (Opd 0) (R 0)]"

definition asm_11W_arm :: "arm_reg instr list" where
  "asm_11W_arm =
     VALGRIND_ALIGN_STACK_arm @
     [Sub_imm Sp 4, Ldr (R 0) (Opd 0) 40, Ldr (R 1) (Opd 0) 44, Push_regs [R 0, R 1],
      Ldr (R 0) (Opd 0) 20, Ldr (R 1) (Opd 0) 24, Ldr (R 2) (Opd 0) 28, Ldr (R 3) (Opd 0) 32,
      Ldr (R 4) (Opd 0) 36, Push_regs [R 0, R 1, R 2, R 3, R 4], Ldr (R 0) (Opd 0) 4,
      Ldr (R 1) (Opd 0) 8, Ldr (R 2) (Opd 0) 12, Ldr (R 3) (Opd 0) 16, Ldr (R 4) (Opd 0) 0] @
     VALGRIND_BRANCH_AND_LINK_TO_NOREDIR_R4_arm @
     VALGRIND_RESTORE_STACK_arm @
     [Mov (Opd 0) (R 0)]"

definition asm_12W_arm :: "arm_reg instr list" where
  "asm_12W_arm =
     VALGRIND_ALIGN_STACK_arm @
     [Ldr (R 0) (Opd 0) 40, Ldr (R 1) (Opd 0) 44, Ldr (R 2) (Opd 0) 48, Push_regs [R 0, R 1,
      R 2], Ldr (R 0) (Opd 0) 20, Ldr (R 1) (Opd 0) 24, Ldr (R 2) (Opd 0) 28,
      Ldr (R 3) (Opd 0) 32, Ldr (R 4) (Opd 0) 36, Push_regs [R 0, R 1, R 2, R 3, R 4],
      Ldr (R 0) (Opd 0) 4, Ldr (R 1) (Opd 0) 8, Ldr (R 2) (Opd 0) 12, Ldr (R 3) (Opd 0) 16,
      Ldr (R 4) (Opd 0) 0] @
     VALGRIND_BRANCH_AND_LINK_TO_NOREDIR_R4_arm @
     VALGRIND_RESTORE_STACK_arm @
     [Mov (Opd 0) (R 0)]"

text \<open>The assembly for \<open>n\<close> arguments.\<close>

definition asm_arm :: "nat \<Rightarrow> arm_reg instr list" where
  "asm_arm n =
     [asm_v_arm, asm_W_arm, asm_WW_arm,
      asm_WWW_arm, asm_WWWW_arm, asm_5W_arm,
      asm_6W_arm, asm_7W_arm, asm_8W_arm,
      asm_9W_arm, asm_10W_arm, asm_11W_arm,
      asm_12W_arm] ! n"

lemmas asm_arm_defs =
  asm_v_arm_def asm_W_arm_def asm_WW_arm_def
  asm_WWW_arm_def asm_WWWW_arm_def asm_5W_arm_def
  asm_6W_arm_def asm_7W_arm_def asm_8W_arm_def
  asm_9W_arm_def asm_10W_arm_def asm_11W_arm_def
  asm_12W_arm_def
  VALGRIND_ALIGN_STACK_arm_def VALGRIND_RESTORE_STACK_arm_def

definition CALL_FN_W_v_arm ::
  "(arm_reg, 32) executor \<Rightarrow> 32 word \<Rightarrow> (arm_reg, 32) macro" where
  "CALL_FN_W_v_arm run orig =
     CALL_FN run asm_v_arm (Opd 0) (Opd 0) orig []"

definition CALL_FN_W_W_arm ::
  "(arm_reg, 32) executor \<Rightarrow> 32 word \<Rightarrow> 32 word \<Rightarrow> (arm_reg, 32) macro" where
  "CALL_FN_W_W_arm run orig arg1 =
     CALL_FN run asm_W_arm (Opd 0) (Opd 0) orig [arg1]"

definition CALL_FN_W_WW_arm ::
  "(arm_reg, 32) executor \<Rightarrow> 32 word \<Rightarrow> 32 word \<Rightarrow> 32 word \<Rightarrow> (arm_reg, 32) macro" where
  "CALL_FN_W_WW_arm run orig arg1 arg2 =
     CALL_FN run asm_WW_arm (Opd 0) (Opd 0) orig [arg1, arg2]"

definition CALL_FN_W_WWW_arm ::
  "(arm_reg, 32) executor \<Rightarrow> 32 word \<Rightarrow> 32 word \<Rightarrow> 32 word \<Rightarrow> 32 word \<Rightarrow> (arm_reg, 32) macro" where
  "CALL_FN_W_WWW_arm run orig arg1 arg2 arg3 =
     CALL_FN run asm_WWW_arm (Opd 0) (Opd 0) orig [arg1, arg2, arg3]"

definition CALL_FN_W_WWWW_arm ::
  "(arm_reg, 32) executor \<Rightarrow> 32 word \<Rightarrow> 32 word \<Rightarrow> 32 word \<Rightarrow> 32 word \<Rightarrow> 32 word \<Rightarrow> (arm_reg, 32) macro" where
  "CALL_FN_W_WWWW_arm run orig arg1 arg2 arg3 arg4 =
     CALL_FN run asm_WWWW_arm (Opd 0) (Opd 0) orig [arg1, arg2, arg3, arg4]"

definition CALL_FN_W_5W_arm ::
  "(arm_reg, 32) executor \<Rightarrow> 32 word \<Rightarrow> 32 word \<Rightarrow> 32 word \<Rightarrow> 32 word \<Rightarrow> 32 word \<Rightarrow> 32 word \<Rightarrow> (arm_reg, 32) macro" where
  "CALL_FN_W_5W_arm run orig arg1 arg2 arg3 arg4 arg5 =
     CALL_FN run asm_5W_arm (Opd 0) (Opd 0) orig [arg1, arg2, arg3, arg4, arg5]"

definition CALL_FN_W_6W_arm ::
  "(arm_reg, 32) executor \<Rightarrow> 32 word \<Rightarrow> 32 word \<Rightarrow> 32 word \<Rightarrow> 32 word \<Rightarrow> 32 word \<Rightarrow> 32 word \<Rightarrow> 32 word \<Rightarrow> (arm_reg, 32) macro" where
  "CALL_FN_W_6W_arm run orig arg1 arg2 arg3 arg4 arg5 arg6 =
     CALL_FN run asm_6W_arm (Opd 0) (Opd 0) orig [arg1, arg2, arg3, arg4, arg5, arg6]"

definition CALL_FN_W_7W_arm ::
  "(arm_reg, 32) executor \<Rightarrow> 32 word \<Rightarrow> 32 word \<Rightarrow> 32 word \<Rightarrow> 32 word \<Rightarrow> 32 word \<Rightarrow> 32 word \<Rightarrow> 32 word \<Rightarrow> 32 word \<Rightarrow>
   (arm_reg, 32) macro" where
  "CALL_FN_W_7W_arm run orig arg1 arg2 arg3 arg4 arg5 arg6 arg7 =
     CALL_FN run asm_7W_arm (Opd 0) (Opd 0) orig [arg1, arg2, arg3, arg4, arg5, arg6, arg7]"

definition CALL_FN_W_8W_arm ::
  "(arm_reg, 32) executor \<Rightarrow> 32 word \<Rightarrow> 32 word \<Rightarrow> 32 word \<Rightarrow> 32 word \<Rightarrow> 32 word \<Rightarrow> 32 word \<Rightarrow> 32 word \<Rightarrow> 32 word \<Rightarrow>
   32 word \<Rightarrow> (arm_reg, 32) macro" where
  "CALL_FN_W_8W_arm run orig arg1 arg2 arg3 arg4 arg5 arg6 arg7 arg8 =
     CALL_FN run asm_8W_arm (Opd 0) (Opd 0) orig [arg1, arg2, arg3, arg4, arg5, arg6, arg7, arg8]"

definition CALL_FN_W_9W_arm ::
  "(arm_reg, 32) executor \<Rightarrow> 32 word \<Rightarrow> 32 word \<Rightarrow> 32 word \<Rightarrow> 32 word \<Rightarrow> 32 word \<Rightarrow> 32 word \<Rightarrow> 32 word \<Rightarrow> 32 word \<Rightarrow>
   32 word \<Rightarrow> 32 word \<Rightarrow> (arm_reg, 32) macro" where
  "CALL_FN_W_9W_arm run orig arg1 arg2 arg3 arg4 arg5 arg6 arg7 arg8 arg9 =
     CALL_FN run asm_9W_arm (Opd 0) (Opd 0) orig [arg1, arg2, arg3, arg4, arg5, arg6, arg7, arg8, arg9]"

definition CALL_FN_W_10W_arm ::
  "(arm_reg, 32) executor \<Rightarrow> 32 word \<Rightarrow> 32 word \<Rightarrow> 32 word \<Rightarrow> 32 word \<Rightarrow> 32 word \<Rightarrow> 32 word \<Rightarrow> 32 word \<Rightarrow> 32 word \<Rightarrow>
   32 word \<Rightarrow> 32 word \<Rightarrow> 32 word \<Rightarrow> (arm_reg, 32) macro" where
  "CALL_FN_W_10W_arm run orig arg1 arg2 arg3 arg4 arg5 arg6 arg7 arg8 arg9 arg10 =
     CALL_FN run asm_10W_arm (Opd 0) (Opd 0) orig [arg1, arg2, arg3, arg4, arg5, arg6, arg7, arg8, arg9, arg10]"

definition CALL_FN_W_11W_arm ::
  "(arm_reg, 32) executor \<Rightarrow> 32 word \<Rightarrow> 32 word \<Rightarrow> 32 word \<Rightarrow> 32 word \<Rightarrow> 32 word \<Rightarrow> 32 word \<Rightarrow> 32 word \<Rightarrow> 32 word \<Rightarrow>
   32 word \<Rightarrow> 32 word \<Rightarrow> 32 word \<Rightarrow> 32 word \<Rightarrow> (arm_reg, 32) macro" where
  "CALL_FN_W_11W_arm run orig arg1 arg2 arg3 arg4 arg5 arg6 arg7 arg8 arg9 arg10 arg11 =
     CALL_FN run asm_11W_arm (Opd 0) (Opd 0) orig [arg1, arg2, arg3, arg4, arg5, arg6, arg7, arg8, arg9, arg10, arg11]"

definition CALL_FN_W_12W_arm ::
  "(arm_reg, 32) executor \<Rightarrow> 32 word \<Rightarrow> 32 word \<Rightarrow> 32 word \<Rightarrow> 32 word \<Rightarrow> 32 word \<Rightarrow> 32 word \<Rightarrow> 32 word \<Rightarrow> 32 word \<Rightarrow>
   32 word \<Rightarrow> 32 word \<Rightarrow> 32 word \<Rightarrow> 32 word \<Rightarrow> 32 word \<Rightarrow> (arm_reg, 32) macro" where
  "CALL_FN_W_12W_arm run orig arg1 arg2 arg3 arg4 arg5 arg6 arg7 arg8 arg9 arg10 arg11 arg12 =
     CALL_FN run asm_12W_arm (Opd 0) (Opd 0) orig [arg1, arg2, arg3, arg4, arg5, arg6, arg7, arg8, arg9, arg10, arg11, arg12]"

text \<open>The macro for a list of arguments.\<close>

fun CALL_FN_W_arm ::
  "(arm_reg, 32) executor \<Rightarrow> 32 word \<Rightarrow> 32 word list \<Rightarrow>
   (arm_reg, 32) macro" where
  "CALL_FN_W_arm run orig [] = CALL_FN_W_v_arm run orig"
| "CALL_FN_W_arm run orig [a1] = CALL_FN_W_W_arm run orig a1"
| "CALL_FN_W_arm run orig [a1, a2] = CALL_FN_W_WW_arm run orig a1 a2"
| "CALL_FN_W_arm run orig [a1, a2, a3] = CALL_FN_W_WWW_arm run orig a1 a2 a3"
| "CALL_FN_W_arm run orig [a1, a2, a3, a4] = CALL_FN_W_WWWW_arm run orig a1 a2 a3 a4"
| "CALL_FN_W_arm run orig [a1, a2, a3, a4, a5] = CALL_FN_W_5W_arm run orig a1 a2 a3 a4 a5"
| "CALL_FN_W_arm run orig [a1, a2, a3, a4, a5, a6] = CALL_FN_W_6W_arm run orig a1 a2 a3 a4 a5 a6"
| "CALL_FN_W_arm run orig [a1, a2, a3, a4, a5, a6, a7] = CALL_FN_W_7W_arm run orig a1 a2 a3 a4 a5 a6 a7"
| "CALL_FN_W_arm run orig [a1, a2, a3, a4, a5, a6, a7, a8] = CALL_FN_W_8W_arm run orig a1 a2 a3 a4 a5 a6 a7 a8"
| "CALL_FN_W_arm run orig [a1, a2, a3, a4, a5, a6, a7, a8, a9] = CALL_FN_W_9W_arm run orig a1 a2 a3 a4 a5 a6 a7 a8 a9"
| "CALL_FN_W_arm run orig [a1, a2, a3, a4, a5, a6, a7, a8, a9, a10] = CALL_FN_W_10W_arm run orig a1 a2 a3 a4 a5 a6 a7 a8 a9 a10"
| "CALL_FN_W_arm run orig [a1, a2, a3, a4, a5, a6, a7, a8, a9, a10, a11] = CALL_FN_W_11W_arm run orig a1 a2 a3 a4 a5 a6 a7 a8 a9 a10 a11"
| "CALL_FN_W_arm run orig [a1, a2, a3, a4, a5, a6, a7, a8, a9, a10, a11, a12] = CALL_FN_W_12W_arm run orig a1 a2 a3 a4 a5 a6 a7 a8 a9 a10 a11 a12"
| "CALL_FN_W_arm run orig args = (\<lambda>a st. Err Undefined)"

lemmas CALL_FN_arm_defs =
  CALL_FN_W_v_arm_def CALL_FN_W_W_arm_def CALL_FN_W_WW_arm_def
  CALL_FN_W_WWW_arm_def CALL_FN_W_WWWW_arm_def CALL_FN_W_5W_arm_def
  CALL_FN_W_6W_arm_def CALL_FN_W_7W_arm_def CALL_FN_W_8W_arm_def
  CALL_FN_W_9W_arm_def CALL_FN_W_10W_arm_def CALL_FN_W_11W_arm_def
  CALL_FN_W_12W_arm_def

section \<open>The macros for arm64\<close>

definition VALGRIND_ALIGN_STACK_arm64 :: "arm_reg instr list" where
  "VALGRIND_ALIGN_STACK_arm64 = [Mov (R 21) Sp, Bic Sp (R 21) 15]"

definition VALGRIND_RESTORE_STACK_arm64 :: "arm_reg instr list" where
  "VALGRIND_RESTORE_STACK_arm64 = [Mov Sp (R 21)]"

definition asm_v_arm64 :: "arm_reg instr list" where
  "asm_v_arm64 =
     VALGRIND_ALIGN_STACK_arm64 @
     [Ldr (R 8) (Opd 0) 0] @
     VALGRIND_BRANCH_AND_LINK_TO_NOREDIR_X8_arm64 @
     VALGRIND_RESTORE_STACK_arm64 @
     [Mov (Opd 0) (R 0)]"

definition asm_W_arm64 :: "arm_reg instr list" where
  "asm_W_arm64 =
     VALGRIND_ALIGN_STACK_arm64 @
     [Ldr (R 0) (Opd 0) 8, Ldr (R 8) (Opd 0) 0] @
     VALGRIND_BRANCH_AND_LINK_TO_NOREDIR_X8_arm64 @
     VALGRIND_RESTORE_STACK_arm64 @
     [Mov (Opd 0) (R 0)]"

definition asm_WW_arm64 :: "arm_reg instr list" where
  "asm_WW_arm64 =
     VALGRIND_ALIGN_STACK_arm64 @
     [Ldr (R 0) (Opd 0) 8, Ldr (R 1) (Opd 0) 16, Ldr (R 8) (Opd 0) 0] @
     VALGRIND_BRANCH_AND_LINK_TO_NOREDIR_X8_arm64 @
     VALGRIND_RESTORE_STACK_arm64 @
     [Mov (Opd 0) (R 0)]"

definition asm_WWW_arm64 :: "arm_reg instr list" where
  "asm_WWW_arm64 =
     VALGRIND_ALIGN_STACK_arm64 @
     [Ldr (R 0) (Opd 0) 8, Ldr (R 1) (Opd 0) 16, Ldr (R 2) (Opd 0) 24, Ldr (R 8) (Opd 0) 0] @
     VALGRIND_BRANCH_AND_LINK_TO_NOREDIR_X8_arm64 @
     VALGRIND_RESTORE_STACK_arm64 @
     [Mov (Opd 0) (R 0)]"

definition asm_WWWW_arm64 :: "arm_reg instr list" where
  "asm_WWWW_arm64 =
     VALGRIND_ALIGN_STACK_arm64 @
     [Ldr (R 0) (Opd 0) 8, Ldr (R 1) (Opd 0) 16, Ldr (R 2) (Opd 0) 24, Ldr (R 3) (Opd 0) 32,
      Ldr (R 8) (Opd 0) 0] @
     VALGRIND_BRANCH_AND_LINK_TO_NOREDIR_X8_arm64 @
     VALGRIND_RESTORE_STACK_arm64 @
     [Mov (Opd 0) (R 0)]"

definition asm_5W_arm64 :: "arm_reg instr list" where
  "asm_5W_arm64 =
     VALGRIND_ALIGN_STACK_arm64 @
     [Ldr (R 0) (Opd 0) 8, Ldr (R 1) (Opd 0) 16, Ldr (R 2) (Opd 0) 24, Ldr (R 3) (Opd 0) 32,
      Ldr (R 4) (Opd 0) 40, Ldr (R 8) (Opd 0) 0] @
     VALGRIND_BRANCH_AND_LINK_TO_NOREDIR_X8_arm64 @
     VALGRIND_RESTORE_STACK_arm64 @
     [Mov (Opd 0) (R 0)]"

definition asm_6W_arm64 :: "arm_reg instr list" where
  "asm_6W_arm64 =
     VALGRIND_ALIGN_STACK_arm64 @
     [Ldr (R 0) (Opd 0) 8, Ldr (R 1) (Opd 0) 16, Ldr (R 2) (Opd 0) 24, Ldr (R 3) (Opd 0) 32,
      Ldr (R 4) (Opd 0) 40, Ldr (R 5) (Opd 0) 48, Ldr (R 8) (Opd 0) 0] @
     VALGRIND_BRANCH_AND_LINK_TO_NOREDIR_X8_arm64 @
     VALGRIND_RESTORE_STACK_arm64 @
     [Mov (Opd 0) (R 0)]"

definition asm_7W_arm64 :: "arm_reg instr list" where
  "asm_7W_arm64 =
     VALGRIND_ALIGN_STACK_arm64 @
     [Ldr (R 0) (Opd 0) 8, Ldr (R 1) (Opd 0) 16, Ldr (R 2) (Opd 0) 24, Ldr (R 3) (Opd 0) 32,
      Ldr (R 4) (Opd 0) 40, Ldr (R 5) (Opd 0) 48, Ldr (R 6) (Opd 0) 56, Ldr (R 8) (Opd 0) 0] @
     VALGRIND_BRANCH_AND_LINK_TO_NOREDIR_X8_arm64 @
     VALGRIND_RESTORE_STACK_arm64 @
     [Mov (Opd 0) (R 0)]"

definition asm_8W_arm64 :: "arm_reg instr list" where
  "asm_8W_arm64 =
     VALGRIND_ALIGN_STACK_arm64 @
     [Ldr (R 0) (Opd 0) 8, Ldr (R 1) (Opd 0) 16, Ldr (R 2) (Opd 0) 24, Ldr (R 3) (Opd 0) 32,
      Ldr (R 4) (Opd 0) 40, Ldr (R 5) (Opd 0) 48, Ldr (R 6) (Opd 0) 56, Ldr (R 7) (Opd 0) 64,
      Ldr (R 8) (Opd 0) 0] @
     VALGRIND_BRANCH_AND_LINK_TO_NOREDIR_X8_arm64 @
     VALGRIND_RESTORE_STACK_arm64 @
     [Mov (Opd 0) (R 0)]"

definition asm_9W_arm64 :: "arm_reg instr list" where
  "asm_9W_arm64 =
     VALGRIND_ALIGN_STACK_arm64 @
     [Sub_imm Sp 32, Ldr (R 0) (Opd 0) 8, Ldr (R 1) (Opd 0) 16, Ldr (R 2) (Opd 0) 24,
      Ldr (R 3) (Opd 0) 32, Ldr (R 4) (Opd 0) 40, Ldr (R 5) (Opd 0) 48, Ldr (R 6) (Opd 0) 56,
      Ldr (R 7) (Opd 0) 64, Ldr (R 8) (Opd 0) 72, Str (R 8) Sp 0, Ldr (R 8) (Opd 0) 0] @
     VALGRIND_BRANCH_AND_LINK_TO_NOREDIR_X8_arm64 @
     VALGRIND_RESTORE_STACK_arm64 @
     [Mov (Opd 0) (R 0)]"

definition asm_10W_arm64 :: "arm_reg instr list" where
  "asm_10W_arm64 =
     VALGRIND_ALIGN_STACK_arm64 @
     [Sub_imm Sp 32, Ldr (R 0) (Opd 0) 8, Ldr (R 1) (Opd 0) 16, Ldr (R 2) (Opd 0) 24,
      Ldr (R 3) (Opd 0) 32, Ldr (R 4) (Opd 0) 40, Ldr (R 5) (Opd 0) 48, Ldr (R 6) (Opd 0) 56,
      Ldr (R 7) (Opd 0) 64, Ldr (R 8) (Opd 0) 72, Str (R 8) Sp 0, Ldr (R 8) (Opd 0) 80,
      Str (R 8) Sp 8, Ldr (R 8) (Opd 0) 0] @
     VALGRIND_BRANCH_AND_LINK_TO_NOREDIR_X8_arm64 @
     VALGRIND_RESTORE_STACK_arm64 @
     [Mov (Opd 0) (R 0)]"

definition asm_11W_arm64 :: "arm_reg instr list" where
  "asm_11W_arm64 =
     VALGRIND_ALIGN_STACK_arm64 @
     [Sub_imm Sp 48, Ldr (R 0) (Opd 0) 8, Ldr (R 1) (Opd 0) 16, Ldr (R 2) (Opd 0) 24,
      Ldr (R 3) (Opd 0) 32, Ldr (R 4) (Opd 0) 40, Ldr (R 5) (Opd 0) 48, Ldr (R 6) (Opd 0) 56,
      Ldr (R 7) (Opd 0) 64, Ldr (R 8) (Opd 0) 72, Str (R 8) Sp 0, Ldr (R 8) (Opd 0) 80,
      Str (R 8) Sp 8, Ldr (R 8) (Opd 0) 88, Str (R 8) Sp 16, Ldr (R 8) (Opd 0) 0] @
     VALGRIND_BRANCH_AND_LINK_TO_NOREDIR_X8_arm64 @
     VALGRIND_RESTORE_STACK_arm64 @
     [Mov (Opd 0) (R 0)]"

definition asm_12W_arm64 :: "arm_reg instr list" where
  "asm_12W_arm64 =
     VALGRIND_ALIGN_STACK_arm64 @
     [Sub_imm Sp 48, Ldr (R 0) (Opd 0) 8, Ldr (R 1) (Opd 0) 16, Ldr (R 2) (Opd 0) 24,
      Ldr (R 3) (Opd 0) 32, Ldr (R 4) (Opd 0) 40, Ldr (R 5) (Opd 0) 48, Ldr (R 6) (Opd 0) 56,
      Ldr (R 7) (Opd 0) 64, Ldr (R 8) (Opd 0) 72, Str (R 8) Sp 0, Ldr (R 8) (Opd 0) 80,
      Str (R 8) Sp 8, Ldr (R 8) (Opd 0) 88, Str (R 8) Sp 16, Ldr (R 8) (Opd 0) 96,
      Str (R 8) Sp 24, Ldr (R 8) (Opd 0) 0] @
     VALGRIND_BRANCH_AND_LINK_TO_NOREDIR_X8_arm64 @
     VALGRIND_RESTORE_STACK_arm64 @
     [Mov (Opd 0) (R 0)]"

text \<open>The assembly for \<open>n\<close> arguments.\<close>

definition asm_arm64 :: "nat \<Rightarrow> arm_reg instr list" where
  "asm_arm64 n =
     [asm_v_arm64, asm_W_arm64, asm_WW_arm64,
      asm_WWW_arm64, asm_WWWW_arm64, asm_5W_arm64,
      asm_6W_arm64, asm_7W_arm64, asm_8W_arm64,
      asm_9W_arm64, asm_10W_arm64, asm_11W_arm64,
      asm_12W_arm64] ! n"

lemmas asm_arm64_defs =
  asm_v_arm64_def asm_W_arm64_def asm_WW_arm64_def
  asm_WWW_arm64_def asm_WWWW_arm64_def asm_5W_arm64_def
  asm_6W_arm64_def asm_7W_arm64_def asm_8W_arm64_def
  asm_9W_arm64_def asm_10W_arm64_def asm_11W_arm64_def
  asm_12W_arm64_def
  VALGRIND_ALIGN_STACK_arm64_def VALGRIND_RESTORE_STACK_arm64_def

definition CALL_FN_W_v_arm64 ::
  "(arm_reg, 64) executor \<Rightarrow> 64 word \<Rightarrow> (arm_reg, 64) macro" where
  "CALL_FN_W_v_arm64 run orig =
     CALL_FN run asm_v_arm64 (Opd 0) (Opd 0) orig []"

definition CALL_FN_W_W_arm64 ::
  "(arm_reg, 64) executor \<Rightarrow> 64 word \<Rightarrow> 64 word \<Rightarrow> (arm_reg, 64) macro" where
  "CALL_FN_W_W_arm64 run orig arg1 =
     CALL_FN run asm_W_arm64 (Opd 0) (Opd 0) orig [arg1]"

definition CALL_FN_W_WW_arm64 ::
  "(arm_reg, 64) executor \<Rightarrow> 64 word \<Rightarrow> 64 word \<Rightarrow> 64 word \<Rightarrow> (arm_reg, 64) macro" where
  "CALL_FN_W_WW_arm64 run orig arg1 arg2 =
     CALL_FN run asm_WW_arm64 (Opd 0) (Opd 0) orig [arg1, arg2]"

definition CALL_FN_W_WWW_arm64 ::
  "(arm_reg, 64) executor \<Rightarrow> 64 word \<Rightarrow> 64 word \<Rightarrow> 64 word \<Rightarrow> 64 word \<Rightarrow> (arm_reg, 64) macro" where
  "CALL_FN_W_WWW_arm64 run orig arg1 arg2 arg3 =
     CALL_FN run asm_WWW_arm64 (Opd 0) (Opd 0) orig [arg1, arg2, arg3]"

definition CALL_FN_W_WWWW_arm64 ::
  "(arm_reg, 64) executor \<Rightarrow> 64 word \<Rightarrow> 64 word \<Rightarrow> 64 word \<Rightarrow> 64 word \<Rightarrow> 64 word \<Rightarrow> (arm_reg, 64) macro" where
  "CALL_FN_W_WWWW_arm64 run orig arg1 arg2 arg3 arg4 =
     CALL_FN run asm_WWWW_arm64 (Opd 0) (Opd 0) orig [arg1, arg2, arg3, arg4]"

definition CALL_FN_W_5W_arm64 ::
  "(arm_reg, 64) executor \<Rightarrow> 64 word \<Rightarrow> 64 word \<Rightarrow> 64 word \<Rightarrow> 64 word \<Rightarrow> 64 word \<Rightarrow> 64 word \<Rightarrow> (arm_reg, 64) macro" where
  "CALL_FN_W_5W_arm64 run orig arg1 arg2 arg3 arg4 arg5 =
     CALL_FN run asm_5W_arm64 (Opd 0) (Opd 0) orig [arg1, arg2, arg3, arg4, arg5]"

definition CALL_FN_W_6W_arm64 ::
  "(arm_reg, 64) executor \<Rightarrow> 64 word \<Rightarrow> 64 word \<Rightarrow> 64 word \<Rightarrow> 64 word \<Rightarrow> 64 word \<Rightarrow> 64 word \<Rightarrow> 64 word \<Rightarrow> (arm_reg, 64) macro" where
  "CALL_FN_W_6W_arm64 run orig arg1 arg2 arg3 arg4 arg5 arg6 =
     CALL_FN run asm_6W_arm64 (Opd 0) (Opd 0) orig [arg1, arg2, arg3, arg4, arg5, arg6]"

definition CALL_FN_W_7W_arm64 ::
  "(arm_reg, 64) executor \<Rightarrow> 64 word \<Rightarrow> 64 word \<Rightarrow> 64 word \<Rightarrow> 64 word \<Rightarrow> 64 word \<Rightarrow> 64 word \<Rightarrow> 64 word \<Rightarrow> 64 word \<Rightarrow>
   (arm_reg, 64) macro" where
  "CALL_FN_W_7W_arm64 run orig arg1 arg2 arg3 arg4 arg5 arg6 arg7 =
     CALL_FN run asm_7W_arm64 (Opd 0) (Opd 0) orig [arg1, arg2, arg3, arg4, arg5, arg6, arg7]"

definition CALL_FN_W_8W_arm64 ::
  "(arm_reg, 64) executor \<Rightarrow> 64 word \<Rightarrow> 64 word \<Rightarrow> 64 word \<Rightarrow> 64 word \<Rightarrow> 64 word \<Rightarrow> 64 word \<Rightarrow> 64 word \<Rightarrow> 64 word \<Rightarrow>
   64 word \<Rightarrow> (arm_reg, 64) macro" where
  "CALL_FN_W_8W_arm64 run orig arg1 arg2 arg3 arg4 arg5 arg6 arg7 arg8 =
     CALL_FN run asm_8W_arm64 (Opd 0) (Opd 0) orig [arg1, arg2, arg3, arg4, arg5, arg6, arg7, arg8]"

definition CALL_FN_W_9W_arm64 ::
  "(arm_reg, 64) executor \<Rightarrow> 64 word \<Rightarrow> 64 word \<Rightarrow> 64 word \<Rightarrow> 64 word \<Rightarrow> 64 word \<Rightarrow> 64 word \<Rightarrow> 64 word \<Rightarrow> 64 word \<Rightarrow>
   64 word \<Rightarrow> 64 word \<Rightarrow> (arm_reg, 64) macro" where
  "CALL_FN_W_9W_arm64 run orig arg1 arg2 arg3 arg4 arg5 arg6 arg7 arg8 arg9 =
     CALL_FN run asm_9W_arm64 (Opd 0) (Opd 0) orig [arg1, arg2, arg3, arg4, arg5, arg6, arg7, arg8, arg9]"

definition CALL_FN_W_10W_arm64 ::
  "(arm_reg, 64) executor \<Rightarrow> 64 word \<Rightarrow> 64 word \<Rightarrow> 64 word \<Rightarrow> 64 word \<Rightarrow> 64 word \<Rightarrow> 64 word \<Rightarrow> 64 word \<Rightarrow> 64 word \<Rightarrow>
   64 word \<Rightarrow> 64 word \<Rightarrow> 64 word \<Rightarrow> (arm_reg, 64) macro" where
  "CALL_FN_W_10W_arm64 run orig arg1 arg2 arg3 arg4 arg5 arg6 arg7 arg8 arg9 arg10 =
     CALL_FN run asm_10W_arm64 (Opd 0) (Opd 0) orig [arg1, arg2, arg3, arg4, arg5, arg6, arg7, arg8, arg9, arg10]"

definition CALL_FN_W_11W_arm64 ::
  "(arm_reg, 64) executor \<Rightarrow> 64 word \<Rightarrow> 64 word \<Rightarrow> 64 word \<Rightarrow> 64 word \<Rightarrow> 64 word \<Rightarrow> 64 word \<Rightarrow> 64 word \<Rightarrow> 64 word \<Rightarrow>
   64 word \<Rightarrow> 64 word \<Rightarrow> 64 word \<Rightarrow> 64 word \<Rightarrow> (arm_reg, 64) macro" where
  "CALL_FN_W_11W_arm64 run orig arg1 arg2 arg3 arg4 arg5 arg6 arg7 arg8 arg9 arg10 arg11 =
     CALL_FN run asm_11W_arm64 (Opd 0) (Opd 0) orig [arg1, arg2, arg3, arg4, arg5, arg6, arg7, arg8, arg9, arg10, arg11]"

definition CALL_FN_W_12W_arm64 ::
  "(arm_reg, 64) executor \<Rightarrow> 64 word \<Rightarrow> 64 word \<Rightarrow> 64 word \<Rightarrow> 64 word \<Rightarrow> 64 word \<Rightarrow> 64 word \<Rightarrow> 64 word \<Rightarrow> 64 word \<Rightarrow>
   64 word \<Rightarrow> 64 word \<Rightarrow> 64 word \<Rightarrow> 64 word \<Rightarrow> 64 word \<Rightarrow> (arm_reg, 64) macro" where
  "CALL_FN_W_12W_arm64 run orig arg1 arg2 arg3 arg4 arg5 arg6 arg7 arg8 arg9 arg10 arg11 arg12 =
     CALL_FN run asm_12W_arm64 (Opd 0) (Opd 0) orig [arg1, arg2, arg3, arg4, arg5, arg6, arg7, arg8, arg9, arg10, arg11, arg12]"

text \<open>The macro for a list of arguments.\<close>

fun CALL_FN_W_arm64 ::
  "(arm_reg, 64) executor \<Rightarrow> 64 word \<Rightarrow> 64 word list \<Rightarrow>
   (arm_reg, 64) macro" where
  "CALL_FN_W_arm64 run orig [] = CALL_FN_W_v_arm64 run orig"
| "CALL_FN_W_arm64 run orig [a1] = CALL_FN_W_W_arm64 run orig a1"
| "CALL_FN_W_arm64 run orig [a1, a2] = CALL_FN_W_WW_arm64 run orig a1 a2"
| "CALL_FN_W_arm64 run orig [a1, a2, a3] = CALL_FN_W_WWW_arm64 run orig a1 a2 a3"
| "CALL_FN_W_arm64 run orig [a1, a2, a3, a4] = CALL_FN_W_WWWW_arm64 run orig a1 a2 a3 a4"
| "CALL_FN_W_arm64 run orig [a1, a2, a3, a4, a5] = CALL_FN_W_5W_arm64 run orig a1 a2 a3 a4 a5"
| "CALL_FN_W_arm64 run orig [a1, a2, a3, a4, a5, a6] = CALL_FN_W_6W_arm64 run orig a1 a2 a3 a4 a5 a6"
| "CALL_FN_W_arm64 run orig [a1, a2, a3, a4, a5, a6, a7] = CALL_FN_W_7W_arm64 run orig a1 a2 a3 a4 a5 a6 a7"
| "CALL_FN_W_arm64 run orig [a1, a2, a3, a4, a5, a6, a7, a8] = CALL_FN_W_8W_arm64 run orig a1 a2 a3 a4 a5 a6 a7 a8"
| "CALL_FN_W_arm64 run orig [a1, a2, a3, a4, a5, a6, a7, a8, a9] = CALL_FN_W_9W_arm64 run orig a1 a2 a3 a4 a5 a6 a7 a8 a9"
| "CALL_FN_W_arm64 run orig [a1, a2, a3, a4, a5, a6, a7, a8, a9, a10] = CALL_FN_W_10W_arm64 run orig a1 a2 a3 a4 a5 a6 a7 a8 a9 a10"
| "CALL_FN_W_arm64 run orig [a1, a2, a3, a4, a5, a6, a7, a8, a9, a10, a11] = CALL_FN_W_11W_arm64 run orig a1 a2 a3 a4 a5 a6 a7 a8 a9 a10 a11"
| "CALL_FN_W_arm64 run orig [a1, a2, a3, a4, a5, a6, a7, a8, a9, a10, a11, a12] = CALL_FN_W_12W_arm64 run orig a1 a2 a3 a4 a5 a6 a7 a8 a9 a10 a11 a12"
| "CALL_FN_W_arm64 run orig args = (\<lambda>a st. Err Undefined)"

lemmas CALL_FN_arm64_defs =
  CALL_FN_W_v_arm64_def CALL_FN_W_W_arm64_def CALL_FN_W_WW_arm64_def
  CALL_FN_W_WWW_arm64_def CALL_FN_W_WWWW_arm64_def CALL_FN_W_5W_arm64_def
  CALL_FN_W_6W_arm64_def CALL_FN_W_7W_arm64_def CALL_FN_W_8W_arm64_def
  CALL_FN_W_9W_arm64_def CALL_FN_W_10W_arm64_def CALL_FN_W_11W_arm64_def
  CALL_FN_W_12W_arm64_def

end
