(* ===== verification/Vg_Call.thy ===== *)
theory Vg_Call
  imports Vg_Frame Vg_CallDefs
begin

text \<open>
  What a call macro promises, for all platforms: the called function finds its arguments where it
  expects them, on an aligned stack, and the caller gets the result and its registers back. The
  locale \<open>call_macros\<close> states what the prologue, the body and the epilogue of a family of macros must
  do and proves this once; \<open>Vg_Conv\<close>, \<open>Vg_ConvPpc\<close> and \<open>Vg_ConvRest\<close> interpret it on the macros of
  the platforms.
\<close>

section \<open>Calling conventions\<close>

text \<open>
  The state in which a function with the arguments \<open>args\<close> is entered: its address in the register
  \<open>target\<close>, the first arguments in the registers \<open>argregs\<close>, the others on the stack from \<open>f\<close> words
  above the stack pointer, the stack aligned to \<open>2 ^ k\<close> bytes, and the memory above the red zone of
  \<open>z\<close> words as the caller left it, except for the words \<open>written\<close> of the argument array.
\<close>

definition callee_entry ::
  "'r isa \<Rightarrow> 'r list \<Rightarrow> 'r \<Rightarrow> nat \<Rightarrow> nat \<Rightarrow> nat \<Rightarrow> 'w::len word list \<Rightarrow> 'w word \<Rightarrow> 'w word list \<Rightarrow>
   ('r, 'w) cpu \<Rightarrow> ('r, 'w) cpu \<Rightarrow> bool" where
  "callee_entry isa argregs target k z f written orig args st st1 \<longleftrightarrow>
     regs st1 target = orig \<and>
     map (regs st1) (take (length args) argregs) = take (length argregs) args \<and>
     (\<forall>i < length args - length argregs.
        cells st1 (regs st1 (stack_reg isa) + offset (f + i)) = Some (args ! (length argregs + i))) \<and>
     2 ^ k dvd unat (regs st1 (stack_reg isa)) \<and>
     (\<forall>y. kept (regs st (stack_reg isa)) z written y \<longrightarrow> cells st1 y = cells st y)"

text \<open>
  Where a value survives the call: in a register, which may be moved by some words, on the stack at some
  depth below the stack pointer of the caller, or in the argument array.
\<close>

datatype 'r place = Reg 'r nat | Stack nat | Array nat

fun place_val :: "'w::len word \<Rightarrow> nat \<Rightarrow> 'w word \<Rightarrow> ('r, 'w) cpu \<Rightarrow> 'r place \<Rightarrow> 'w word option" where
  "place_val base e a st (Reg y m) = Some (regs st y + offset m)"
| "place_val base e a st (Stack k) = cells st (base - offset k)"
| "place_val base e a st (Array j) = cells st (elem e a j)"

fun abs_place :: "('r, 'w::len) abs \<Rightarrow> 'r place \<Rightarrow> 'w word option" where
  "abs_place (r, stk, ws) (Reg y m) = Some (r y + offset m)"
| "abs_place (r, stk, ws) (Stack k) = (if 0 < k \<and> k \<le> length stk then stk ! (length stk - k) else None)"
| "abs_place (r, stk, ws) (Array j) = (if j < length ws then ws ! j else None)"

lemma place_refines:
  assumes "refines sp z base w e a c0 st x" "abs_place x p = Some v"
  shows "place_val base e a st p = Some v"
proof (cases x)
  case (fields r stk ws)
  note D = refinesD [OF assms(1) [unfolded fields]]
  show ?thesis
  proof (cases p)
    case (Stack k)
    with assms(2) D(3) [of "length stk - k" v] show ?thesis by (simp add: fields split: if_splits)
  qed (use assms(2) D(1,4) in \<open>simp_all add: fields split: if_splits\<close>)
qed

text \<open>The state before the call on the abstract executor.\<close>

definition ready ::
  "'r list \<Rightarrow> 'r \<Rightarrow> 'r list \<Rightarrow> nat \<Rightarrow> nat \<Rightarrow> nat \<Rightarrow> ('r \<times> 'r place) list \<Rightarrow>
   'w::len word list \<Rightarrow> 'w word \<Rightarrow> 'w word list \<Rightarrow> ('r \<Rightarrow> 'w word) \<Rightarrow> ('r, 'w) abs \<Rightarrow> bool" where
  "ready argregs target ctx k f d saved pre orig args v x \<longleftrightarrow>
     (case x of (r, stk, ws) \<Rightarrow>
       r target = orig \<and> map r ctx = pre \<and> map r (take (length args) argregs) = take (length argregs) args \<and>
       take (length args - length argregs) (drop f stk) = map Some (drop (length argregs) args) \<and>
       2 ^ k dvd word_bytes TYPE('w) * length stk \<and> length stk \<le> d \<and>
       list_all (\<lambda>(y, p). abs_place (r, stk, ws) p = Some (v y)) saved)"

text \<open>A macro with the words \<open>pre\<close> in its array before the address of the function.\<close>

definition CALL_FN_pre ::
  "('r, 'w::len) executor \<Rightarrow> 'r instr list \<Rightarrow> 'r \<Rightarrow> 'r \<Rightarrow> 'w word list \<Rightarrow> 'w word \<Rightarrow> 'w word list \<Rightarrow> 'w word \<Rightarrow>
   ('r, 'w) cpu \<Rightarrow> ('w word \<times> ('r, 'w) cpu) outcome" where
  "CALL_FN_pre run asm arg res pre orig args a st =
     bind_o (run asm (set_reg arg a (put_words (a - offset (length pre)) (pre @ orig # args) st))) (\<lambda>st'.
     Ok (regs st' res, st'))"

lemma CALL_FN_as_pre: "CALL_FN run asm arg res orig args = CALL_FN_pre run asm arg res [] orig args"
  by (simp add: fun_eq_iff CALL_FN_def CALL_FN_pre_def)

section \<open>A family of macros\<close>

text \<open>
  The shape of the call macros of one platform. \<open>places n\<close> says which registers of the caller are saved where
  before the call with \<open>n\<close> arguments; \<open>src\<close> is where a register is after the prologue. The macros
  align the stack if \<open>al\<close>, otherwise the caller must have done it. In the array, \<open>w\<close> words are left
  for the macro to write and \<open>np\<close> words precede the address of the function, which the function
  expects in the registers \<open>ctx\<close>.
\<close>

locale call_macros =
  fixes isa :: "'r isa"
    and asm :: "nat \<Rightarrow> 'r instr list"
    and pro :: "'r instr list"
    and body :: "nat \<Rightarrow> 'r instr list"
    and sel :: "'r instr"
    and epi :: "nat \<Rightarrow> 'r instr list"
    and argregs :: "'r list"
    and target :: 'r
    and ctx :: "'r list"
    and arg :: "nat \<Rightarrow> 'r"
    and ret :: 'r
    and res :: 'r
    and places :: "nat \<Rightarrow> ('r \<times> 'r place) list"
    and src :: "'r \<Rightarrow> 'r"
    and al :: bool
    and k :: nat
    and z :: nat
    and f :: nat
    and d :: nat
    and w :: nat
    and np :: nat
    and wt :: "'w::len itself"
  assumes bytes: "0 < word_bytes TYPE('w)" "k \<le> LENGTH('w)" "z = 0 \<or> w + np = 0"
    and nonempty: "preamble isa \<noteq> []"
    and selects: "selector isa sel = Some Call_noredir"
    and plain: "hd (preamble isa) \<notin> set pro" "n \<le> 12 \<Longrightarrow> hd (preamble isa) \<notin> set (body n) \<union> set (epi n)"
    and shape: "n \<le> 12 \<Longrightarrow> asm n = pro @ body n @ preamble isa @ sel # epi n"
    and no_stack: "al \<Longrightarrow> (x, Stack m) \<notin> set (places n)"
    and arg_not_sp: "arg n \<noteq> stack_reg isa"
    and pro_ok: "n \<le> 12 \<Longrightarrow> al \<or> 2 ^ k dvd unat (regs st (stack_reg isa)) \<Longrightarrow>
      \<exists>stp. exec_seq (stack_reg isa) pro st = Ok (stp :: ('r, 'w) cpu) \<and> cells stp = cells st \<and>
        regs stp (stack_reg isa) = and (regs st (stack_reg isa)) (not (mask k)) \<and>
        regs stp (arg n) = regs st (arg n) \<and> list_all (\<lambda>(x, p). regs stp (src x) = regs st x) (places n)"
    and body_ok: "length args \<le> 12 \<Longrightarrow> length pre = np \<Longrightarrow> r (arg (length args)) = (a :: 'w word) \<Longrightarrow>
      (case abs_seq (stack_reg isa) z d w (w + np) a (body (length args))
          (r, [], replicate w None @ map Some (pre @ orig # args)) of
        None \<Rightarrow> False
      | Some x \<Rightarrow> ready argregs target ctx k f d (places (length args)) pre orig args (r \<circ> src) x)"
    and epi_ok: "n \<le> 12 \<Longrightarrow> v (arg n) = (a :: 'w word) \<Longrightarrow>
      list_all (\<lambda>(x, p). place_val (v (stack_reg isa)) (w + np) a st p = Some (v x)) (places n) \<Longrightarrow>
      \<exists>st'. exec_seq (stack_reg isa) (epi n) st = Ok (st' :: ('r, 'w) cpu) \<and> cells st' = cells st \<and>
        regs st' res = regs st ret \<and> list_all (\<lambda>(x, p). regs st' x = v x) (places n)"
begin

lemma entry:
  fixes st :: "('r, 'w) cpu"
  assumes ref: "refines (stack_reg isa) z (and (regs st (stack_reg isa)) (not (mask k))) w e a (cells stp) st1 (r, stk, ws)"
    and rdy: "ready argregs target ctx k f d saved pre orig args v (r, stk, ws)" and mem: "cells stp = cells st"
    and room: "word_bytes TYPE('w) * d \<le> unat (and (regs st (stack_reg isa)) (not (mask k)))"
  shows "callee_entry isa argregs target k z f (slots w e a) orig args st st1" "map (regs st1) ctx = pre"
proof -
  let ?A = "and (regs st (stack_reg isa)) (not (mask k))"
  note D = refinesD [OF ref]
  have R: "r target = orig" "map r ctx = pre" "map r (take (length args) argregs) = take (length argregs) args"
    "take (length args - length argregs) (drop f stk) = map Some (drop (length argregs) args)"
    "2 ^ k dvd word_bytes TYPE('w) * length stk" "length stk \<le> d"
    using rdy by (simp_all add: ready_def)
  have "unat (r (stack_reg isa)) = unat ?A - word_bytes TYPE('w) * length stk"
    unfolding D(2) using R(6) room order_trans [OF mult_le_mono2]
    by (intro unat_below) auto
  then have aligned: "2 ^ k dvd unat (r (stack_reg isa))"
    using align_down_dvd(1) [OF bytes(2), of "regs st (stack_reg isa)"] R(5) by simp
  have stk: "cells st1 (r (stack_reg isa) + offset (f + i)) = Some (args ! (length argregs + i))"
    if "i < length args - length argregs" for i
  proof -
    from arg_cong [OF R(4), of length] that have len: "f + i < length stk" by simp
    from arg_cong [OF R(4), of "\<lambda>xs. xs ! i"] that len
    have "stk ! (f + i) = Some (args ! (length argregs + i))" by simp
    from D(3) [OF len this] show ?thesis unfolding D(2) using len by (simp add: offset_diff algebra_simps)
  qed
  have "cells st1 y = cells st y" if "kept (regs st (stack_reg isa)) z (slots w e a) y" for y
    using D(5) [of y] that align_down_dvd(2) [OF bytes(2), of "regs st (stack_reg isa)"] mem
    by (auto simp: kept_def above_def)
  with aligned stk D(1) R(1,3) show "callee_entry isa argregs target k z f (slots w e a) orig args st st1"
    by (auto simp: callee_entry_def)
  show "map (regs st1) ctx = pre" using D(1) R(2) by simp
qed

lemma call:
  fixes st :: "('r, 'w) cpu"
  assumes len: "length args \<le> 12" "length pre = np"
    and aligned: "al \<or> 2 ^ k dvd unat (regs st (stack_reg isa))"
    and room: "word_bytes TYPE('w) * d + 2 ^ k \<le> unat (regs st (stack_reg isa))"
    and arr: "unat (regs st (stack_reg isa)) + word_bytes TYPE('w) * (w + np) \<le> unat a + word_bytes TYPE('w) * z"
      "unat a + word_bytes TYPE('w) * (length args + 1) \<le> 2 ^ LENGTH('w)"
    and callee: "\<And>s1 s2. callee s1 = Ok s2 \<Longrightarrow>
      list_all (\<lambda>(x, p). place_val (regs st (stack_reg isa)) (w + np) a s2 p =
        place_val (regs st (stack_reg isa)) (w + np) a s1 p) (places (length args))"
  shows "\<exists>st1. callee_entry isa argregs target k z f (slots w (w + np) a) orig args
      (put_words (a - offset np) (pre @ orig # args) st) st1 \<and> map (regs st1) ctx = pre \<and>
    list_all (\<lambda>(x, p). place_val (regs st (stack_reg isa)) (w + np) a st1 p =
      Some (((regs st)(arg (length args) := a)) x)) (places (length args)) \<and>
    (\<forall>st2. callee st1 = Ok st2 \<longrightarrow>
      (\<exists>st'. CALL_FN_pre (vg_exec isa (valgrind_hooks isa g nr callee)) (asm (length args)) (arg (length args)) res
            pre orig args a st = Ok (regs st2 ret, st') \<and> cells st' = cells st2 \<and>
        list_all (\<lambda>(x, p). regs st' x = ((regs st)(arg (length args) := a)) x) (places (length args))))"
proof -
  let ?sp = "stack_reg isa" and ?n = "length args" and ?h = "valgrind_hooks isa g nr callee"
  let ?m = "put_words (a - offset np) (pre @ orig # args) st"
  let ?st0 = "set_reg (arg ?n) a ?m" and ?A = "and (regs st ?sp) (not (mask k))"
  let ?v = "(regs st)(arg ?n := a)" and ?ws = "replicate w None @ map Some (pre @ orig # args)"
  have v: "?v (arg ?n) = a" "?v ?sp = regs st ?sp" "regs ?st0 = ?v" using arg_not_sp [of ?n] by auto
  from pro_ok [OF len(1), of ?st0] aligned v obtain stp where
    pro: "exec_seq ?sp pro ?st0 = Ok stp" "cells stp = cells ?m" "regs stp ?sp = ?A" "regs stp (arg ?n) = a"
    "list_all (\<lambda>(x, p). regs stp (src x) = ?v x) (places ?n)"
    by auto
  have A: "unat ?A \<le> unat (regs st ?sp)" "word_bytes TYPE('w) * d \<le> unat ?A"
    using align_down_dvd(2,3) [OF bytes(2), of "regs st ?sp"] room by linarith+
  have g: "geometry ?A z d w (w + np) a (length ?ws)"
  proof -
    have "z = 0 \<or> w = 0" "word_bytes TYPE('w) * (w + np) \<le> unat a" using bytes(3) arr(1) by auto
    with A arr bytes(1) len(2) show ?thesis unfolding geometry_def by (simp add: algebra_simps)
  qed
  have ws: "cells stp (elem (w + np) a j) = Some u" if j: "j < length ?ws" "?ws ! j = Some u" for j u
  proof -
    let ?vs = "pre @ orig # args"
    from j have "w \<le> j" by (auto simp: nth_append split: if_splits)
    moreover from this j have "j - w < length ?vs" "map Some ?vs ! (j - w) = Some u"
      by (auto simp: nth_append [of "replicate w None"])
    moreover from this have "?vs ! (j - w) = u" by (simp only: nth_map option.inject)
    ultimately show ?thesis
      using put_words_elem [where base = ?A and z = z and d = d and w = w and e = "w + np" and a = a and vs = ?vs and j = "j - w" and st = st] g unfolding pro(2) by simp
  qed
  obtain x where abs: "abs_seq ?sp z d w (w + np) a (body ?n) (regs stp, [], ?ws) = Some x"
    "ready argregs target ctx k f d (places ?n) pre orig args (regs stp \<circ> src) x"
    using body_ok [where r = "regs stp" and orig = orig, OF len pro(4)] by (auto split: option.splits)
  obtain r stk ws' where x: "x = (r, stk, ws')" by (cases x)
  have "hd (preamble isa) \<notin> set (pro @ body ?n)" using plain len by auto
  from call_sequence [OF nonempty this selects pro(1,3) g ws abs(1) [unfolded x], of ?h "epi ?n"]
  obtain st1 where st1: "vg_exec isa ?h (asm ?n) ?st0 = bind_o (?h Call_noredir st1) (vg_exec isa ?h (epi ?n))"
    "refines ?sp z ?A w (w + np) a (cells stp) st1 (r, stk, ws')"
    unfolding shape [OF len(1)] by blast
  have base: "al \<or> ?A = regs st ?sp" using aligned align_down_same [OF bytes(2)] by blast
  have saved: "place_val (regs st ?sp) (w + np) a st1 p = Some (?v y)" if "(y, p) \<in> set (places ?n)" for y p
  proof -
    have "abs_place (r, stk, ws') p = Some (regs stp (src y))"
      using abs(2) that unfolding x ready_def by (auto simp: list_all_iff)
    moreover have "regs stp (src y) = ?v y" using pro(5) that by (auto simp: list_all_iff)
    ultimately have "place_val ?A (w + np) a st1 p = Some (?v y)" using place_refines [OF st1(2)] by metis
    with base no_stack [of y _ ?n] that show ?thesis by (cases p) auto
  qed
  have "\<exists>st'. CALL_FN_pre (vg_exec isa ?h) (asm ?n) (arg ?n) res pre orig args a st = Ok (regs st2 ret, st') \<and>
      cells st' = cells st2 \<and> list_all (\<lambda>(x, p). regs st' x = ?v x) (places ?n)"
    if st2: "callee st1 = Ok st2" for st2
  proof -
    have "list_all (\<lambda>(x, p). place_val (?v ?sp) (w + np) a st2 p = Some (?v x)) (places ?n)"
      unfolding v(2) using callee [OF st2] saved by (auto simp: list_all_iff)
    from epi_ok [OF len(1) v(1) this] obtain st' where st': "exec_seq ?sp (epi ?n) st2 = Ok st'"
      "cells st' = cells st2" "regs st' res = regs st2 ret" "list_all (\<lambda>(x, p). regs st' x = ?v x) (places ?n)"
      by blast
    have "vg_exec isa ?h (epi ?n) st2 = Ok st'"
      using vg_exec_plain [OF nonempty, of "epi ?n" ?h "[]" st2] plain(2) [OF len(1)] st'(1) vg_exec_Nil [OF nonempty, of ?h]
      by simp
    then have "CALL_FN_pre (vg_exec isa ?h) (asm ?n) (arg ?n) res pre orig args a st = Ok (regs st2 ret, st')"
      unfolding CALL_FN_pre_def len(2) st1(1) by (simp add: st2 st'(3))
    with st' show ?thesis by blast
  qed
  moreover have "callee_entry isa argregs target k z f (slots w (w + np) a) orig args ?m st1" "map (regs st1) ctx = pre"
    using entry [of ?m "w + np" a stp st1 r stk ws'] st1(2) abs(2) pro(2) A(2) by (simp_all add: x)
  ultimately show ?thesis using saved by (intro exI [of _ st1]) (auto simp: list_all_iff)
qed

end

section \<open>Case analysis\<close>

text \<open>The part of a macro between its prologue and the call, and its last instructions.\<close>

definition middle :: "nat \<Rightarrow> nat \<Rightarrow> 'r instr list \<Rightarrow> 'r instr list" where
  "middle m n is = drop m (take (length is - n) is)"

definition final :: "nat \<Rightarrow> 'r instr list \<Rightarrow> 'r instr list" where
  "final n is = drop (length is - n) is"

lemma align_masks:
  "(0xfffffffffffffff0 :: 64 word) = not (mask 4)" "(0xfffffff0 :: 32 word) = not (mask 4)"
  "(15 :: 64 word) = mask 4" "(7 :: 32 word) = mask 3"
  by (simp_all add: mask_eq_exp_minus_1)

lemma upto_12:
  assumes "n \<le> 12" "P 0" "P 1" "P 2" "P 3" "P 4" "P 5" "P 6" "P 7" "P 8" "P 9" "P 10" "P 11" "P 12"
  shows "P (n :: nat)"
proof -
  have "n \<in> {0, 1, 2, 3, 4, 5, 6, 7, 8, 9, 10, 11, 12}"
    using assms(1) unfolding insert_iff empty_iff by presburger
  with assms(2-) show ?thesis by auto
qed

lemma entry_at_words [simp]:
  "entry_at TYPE(32) e off = (if off mod 4 = 0 \<and> 0 \<le> int e + off div 4 then Some (nat (int e + off div 4)) else None)"
  "entry_at TYPE(64) e off = (if off mod 8 = 0 \<and> 0 \<le> int e + off div 8 then Some (nat (int e + off div 8)) else None)"
proof -
  have "off = 4 * (off div 4) \<longleftrightarrow> off mod 4 = 0" "off = 8 * (off div 8) \<longleftrightarrow> off mod 8 = 0" by presburger+
  then show "entry_at TYPE(32) e off = (if off mod 4 = 0 \<and> 0 \<le> int e + off div 4 then Some (nat (int e + off div 4)) else None)"
    "entry_at TYPE(64) e off = (if off mod 8 = 0 \<and> 0 \<le> int e + off div 8 then Some (nat (int e + off div 8)) else None)"
    by (simp_all add: entry_at_def Let_def)
qed

lemma known_simps [simp]: "known ws None = None" "known ws (Some j) = (if j < length ws then ws ! j else None)"
  by (simp_all add: known_def)

lemma reserved_words: "replicate (numeral k) x = x # replicate (pred_numeral k) x"
  by (simp add: numeral_eq_Suc)

lemma all_less_two: "(\<forall>i < Suc (Suc 0). P i) \<longleftrightarrow> P 0 \<and> P 1"
  by (auto simp: less_Suc_eq)

end
