(* ===== verification/Vg_Conv.thy ===== *)
theory Vg_Conv
  imports Vg_Call
begin

text \<open>
  The \<^verbatim>\<open>CALL_FN_W_*\<close> macros of x86, amd64, arm and arm64 follow the calling conventions of their
  platforms: the interpretations of the locale \<open>call_macros\<close> and the properties.
\<close>

section \<open>The four architectures\<close>

lemmas asm_defs =
  asm_x86_def asm_amd64_def asm_arm_def asm_arm64_def
  asm_x86_defs asm_amd64_defs asm_arm_defs asm_arm64_defs
  VALGRIND_CALL_NOREDIR_EAX_x86_def VALGRIND_CALL_NOREDIR_RAX_amd64_def
  VALGRIND_BRANCH_AND_LINK_TO_NOREDIR_R4_arm_def VALGRIND_BRANCH_AND_LINK_TO_NOREDIR_X8_arm64_def
  preamble_defs middle_def

interpretation x86: call_macros isa_x86 asm_x86 "VALGRIND_ALIGN_STACK_x86" "\<lambda>n. middle 2 6 (asm_x86 n)"
  "Xchg DX DX" "\<lambda>_. VALGRIND_RESTORE_STACK_x86" "[]" "AX" "[]" "\<lambda>_. AX" "AX" "AX"
  "\<lambda>_. [(SP, Reg DI 0)]" "\<lambda>_. DI" True 4 0 0 16 0 0 "TYPE(32)"
proof unfold_locales
  show "asm_x86 n = (VALGRIND_ALIGN_STACK_x86) @ middle 2 6 (asm_x86 n) @ preamble isa_x86 @ Xchg DX DX #
      (VALGRIND_RESTORE_STACK_x86)" if "n \<le> 12" for n
    by (rule upto_12 [OF that]) (simp_all add: asm_defs isa_preamble)
  show "hd (preamble isa_x86) \<notin> set (middle 2 6 (asm_x86 n)) \<union> set (VALGRIND_RESTORE_STACK_x86)" if "n \<le> 12" for n
    by (rule upto_12 [OF that]) (simp_all add: asm_defs isa_preamble)
  show "case abs_seq (stack_reg isa_x86) 0 16 0 (0 + 0) a (middle 2 6 (asm_x86 (length args)))
        (r, [], replicate 0 None @ map Some (pre @ orig # args)) of
      None \<Rightarrow> False
    | Some x \<Rightarrow> ready [] (AX) [] 4 0 16 [(SP, Reg DI 0)] pre orig args (r \<circ> (\<lambda>_. DI)) x"
    if "length args \<le> 12" "length pre = 0" "r (AX) = a" for args pre :: "32 word list" and r a orig
  proof -
    have pre: "pre = []" using that(2) by simp
    show ?thesis unfolding pre by (rule args_cases [OF that(1)]) (simp_all add: that(3) asm_defs ready_def, presburger+)
  qed
qed (auto simp: isa_defs asm_defs align_masks)

interpretation amd64: call_macros isa_amd64 asm_amd64 "VALGRIND_CFI_PROLOGUE_amd64 @ VALGRIND_ALIGN_STACK_amd64" "\<lambda>n. middle 6 8 (asm_amd64 n)"
  "Xchg DX DX" "\<lambda>_. VALGRIND_RESTORE_STACK_amd64 @ VALGRIND_CFI_EPILOGUE_amd64" "[DI, SI, DX, CX, R8, R9]" "AX" "[]" "\<lambda>_. AX" "AX" "AX"
  "\<lambda>_. [(SP, Reg R14 0), (BP, Reg R15 0)]" "id(SP := R14, BP := R15)" True 4 16 0 40 0 0 "TYPE(64)"
proof unfold_locales
  show "asm_amd64 n = (VALGRIND_CFI_PROLOGUE_amd64 @ VALGRIND_ALIGN_STACK_amd64) @ middle 6 8 (asm_amd64 n) @ preamble isa_amd64 @ Xchg DX DX #
      (VALGRIND_RESTORE_STACK_amd64 @ VALGRIND_CFI_EPILOGUE_amd64)" if "n \<le> 12" for n
    by (rule upto_12 [OF that]) (simp_all add: asm_defs isa_preamble)
  show "hd (preamble isa_amd64) \<notin> set (middle 6 8 (asm_amd64 n)) \<union> set (VALGRIND_RESTORE_STACK_amd64 @ VALGRIND_CFI_EPILOGUE_amd64)" if "n \<le> 12" for n
    by (rule upto_12 [OF that]) (simp_all add: asm_defs isa_preamble)
  show "case abs_seq (stack_reg isa_amd64) 16 40 0 (0 + 0) a (middle 6 8 (asm_amd64 (length args)))
        (r, [], replicate 0 None @ map Some (pre @ orig # args)) of
      None \<Rightarrow> False
    | Some x \<Rightarrow> ready [DI, SI, DX, CX, R8, R9] (AX) [] 4 0 40 [(SP, Reg R14 0), (BP, Reg R15 0)] pre orig args (r \<circ> (id(SP := R14, BP := R15))) x"
    if "length args \<le> 12" "length pre = 0" "r (AX) = a" for args pre :: "64 word list" and r a orig
  proof -
    have pre: "pre = []" using that(2) by simp
    show ?thesis unfolding pre by (rule args_cases [OF that(1)]) (simp_all add: that(3) asm_defs ready_def)
  qed
qed (auto simp: isa_defs asm_defs align_masks)

interpretation arm: call_macros isa_arm asm_arm "VALGRIND_ALIGN_STACK_arm" "\<lambda>n. middle 4 7 (asm_arm n)"
  "Orr (R 12) (R 12) (R 12)" "\<lambda>_. VALGRIND_RESTORE_STACK_arm @ [Mov (Opd 0) (R 0)]" "[R 0, R 1, R 2, R 3]" "R 4" "[]" "\<lambda>_. Opd 0" "R 0" "Opd 0"
  "\<lambda>_. [(Sp, Reg (R 10) 0)]" "\<lambda>_. R 10" True 3 0 0 16 0 0 "TYPE(32)"
proof unfold_locales
  show "asm_arm n = (VALGRIND_ALIGN_STACK_arm) @ middle 4 7 (asm_arm n) @ preamble isa_arm @ Orr (R 12) (R 12) (R 12) #
      (VALGRIND_RESTORE_STACK_arm @ [Mov (Opd 0) (R 0)])" if "n \<le> 12" for n
    by (rule upto_12 [OF that]) (simp_all add: asm_defs isa_preamble)
  show "hd (preamble isa_arm) \<notin> set (middle 4 7 (asm_arm n)) \<union> set (VALGRIND_RESTORE_STACK_arm @ [Mov (Opd 0) (R 0)])" if "n \<le> 12" for n
    by (rule upto_12 [OF that]) (simp_all add: asm_defs isa_preamble)
  show "case abs_seq (stack_reg isa_arm) 0 16 0 (0 + 0) a (middle 4 7 (asm_arm (length args)))
        (r, [], replicate 0 None @ map Some (pre @ orig # args)) of
      None \<Rightarrow> False
    | Some x \<Rightarrow> ready [R 0, R 1, R 2, R 3] (R 4) [] 3 0 16 [(Sp, Reg (R 10) 0)] pre orig args (r \<circ> (\<lambda>_. R 10)) x"
    if "length args \<le> 12" "length pre = 0" "r (Opd 0) = a" for args pre :: "32 word list" and r a orig
  proof -
    have pre: "pre = []" using that(2) by simp
    show ?thesis unfolding pre by (rule args_cases [OF that(1)]) (simp_all add: that(3) asm_defs ready_def)
  qed
qed (auto simp: isa_defs asm_defs align_masks)

interpretation arm64: call_macros isa_arm64 asm_arm64 "VALGRIND_ALIGN_STACK_arm64" "\<lambda>n. middle 2 7 (asm_arm64 n)"
  "Orr (R 12) (R 12) (R 12)" "\<lambda>_. VALGRIND_RESTORE_STACK_arm64 @ [Mov (Opd 0) (R 0)]" "[R 0, R 1, R 2, R 3, R 4, R 5, R 6, R 7]" "R 8" "[]" "\<lambda>_. Opd 0" "R 0" "Opd 0"
  "\<lambda>_. [(Sp, Reg (R 21) 0)]" "\<lambda>_. R 21" True 4 0 0 16 0 0 "TYPE(64)"
proof unfold_locales
  show "asm_arm64 n = (VALGRIND_ALIGN_STACK_arm64) @ middle 2 7 (asm_arm64 n) @ preamble isa_arm64 @ Orr (R 12) (R 12) (R 12) #
      (VALGRIND_RESTORE_STACK_arm64 @ [Mov (Opd 0) (R 0)])" if "n \<le> 12" for n
    by (rule upto_12 [OF that]) (simp_all add: asm_defs isa_preamble)
  show "hd (preamble isa_arm64) \<notin> set (middle 2 7 (asm_arm64 n)) \<union> set (VALGRIND_RESTORE_STACK_arm64 @ [Mov (Opd 0) (R 0)])" if "n \<le> 12" for n
    by (rule upto_12 [OF that]) (simp_all add: asm_defs isa_preamble)
  show "case abs_seq (stack_reg isa_arm64) 0 16 0 (0 + 0) a (middle 2 7 (asm_arm64 (length args)))
        (r, [], replicate 0 None @ map Some (pre @ orig # args)) of
      None \<Rightarrow> False
    | Some x \<Rightarrow> ready [R 0, R 1, R 2, R 3, R 4, R 5, R 6, R 7] (R 8) [] 4 0 16 [(Sp, Reg (R 21) 0)] pre orig args (r \<circ> (\<lambda>_. R 21)) x"
    if "length args \<le> 12" "length pre = 0" "r (Opd 0) = a" for args pre :: "64 word list" and r a orig
  proof -
    have pre: "pre = []" using that(2) by simp
    show ?thesis unfolding pre by (rule args_cases [OF that(1)]) (simp_all add: that(3) asm_defs ready_def reserved_words)
  qed
qed (auto simp: isa_defs asm_defs align_masks)

section \<open>Properties\<close>

text \<open>The macros execute their assembly.\<close>

lemma CALL_FN_W_asm:
  assumes "length args \<le> 12"
  shows "CALL_FN_W_x86 run orig args = CALL_FN run (asm_x86 (length args)) AX AX orig args"
    "CALL_FN_W_arm run' orig args = CALL_FN run' (asm_arm (length args)) (Opd 0) (Opd 0) orig args"
  by (rule args_cases [OF assms], simp_all add: CALL_FN_x86_defs CALL_FN_arm_defs asm_x86_def asm_arm_def)+

lemma CALL_FN_W_asm64:
  assumes "length args \<le> 12"
  shows "CALL_FN_W_amd64 run orig args = CALL_FN run (asm_amd64 (length args)) AX AX orig args"
    "CALL_FN_W_arm64 run' orig args = CALL_FN run' (asm_arm64 (length args)) (Opd 0) (Opd 0) orig args"
  by (rule args_cases [OF assms], simp_all add: CALL_FN_amd64_defs CALL_FN_arm64_defs asm_amd64_def asm_arm64_def)+

text \<open>Sample functions, which add their two arguments, and a sample state.\<close>

definition add_x86 :: "(x86_reg, 32) cpu \<Rightarrow> (x86_reg, 32) cpu outcome" where
  "add_x86 s = Ok (set_reg AX ((case (cells s (regs s SP), cells s (regs s SP + 4)) of (Some x, Some y) \<Rightarrow> x + y | _ \<Rightarrow> 0)) s)"

definition sample_x86 :: "(x86_reg, 32) cpu" where
  "sample_x86 = \<lparr>regs = (\<lambda>_. 0)(SP := 0x1000), cells = (\<lambda>_. None)\<rparr>"

definition add_amd64 :: "(x86_reg, 64) cpu \<Rightarrow> (x86_reg, 64) cpu outcome" where
  "add_amd64 s = Ok (set_reg AX (regs s DI + regs s SI) s)"

definition sample_amd64 :: "(x86_reg, 64) cpu" where
  "sample_amd64 = \<lparr>regs = (\<lambda>_. 0)(SP := 0x1000), cells = (\<lambda>_. None)\<rparr>"

definition add_arm :: "(arm_reg, 32) cpu \<Rightarrow> (arm_reg, 32) cpu outcome" where
  "add_arm s = Ok (set_reg (R 0) (regs s (R 0) + regs s (R 1)) s)"

definition sample_arm :: "(arm_reg, 32) cpu" where
  "sample_arm = \<lparr>regs = (\<lambda>_. 0)(Sp := 0x1000), cells = (\<lambda>_. None)\<rparr>"

definition add_arm64 :: "(arm_reg, 64) cpu \<Rightarrow> (arm_reg, 64) cpu outcome" where
  "add_arm64 s = Ok (set_reg (R 0) (regs s (R 0) + regs s (R 1)) s)"

definition sample_arm64 :: "(arm_reg, 64) cpu" where
  "sample_arm64 = \<lparr>regs = (\<lambda>_. 0)(Sp := 0x1000), cells = (\<lambda>_. None)\<rparr>"

text \<open>
  The macros for 0 to 12 arguments on x86: the called function finds all its arguments on the stack from the stack pointer up,
  with its address where the branch expects it, on a stack aligned to 16 bytes and with the memory
  of the caller intact. When it returns, having kept the callee-saved registers that hold the
  saved values, the macro yields its result and the caller has its stack pointer back, whatever it was.
  The argument array lies above the stack pointer.
\<close>

theorem CALL_FN_W_x86_convention:
  fixes st :: "(x86_reg, 32) cpu"
  assumes "length args \<le> 12" "80 \<le> unat (regs st SP)" "unat (regs st SP) \<le> unat a"
    "unat a + 4 * (length args + 1) \<le> 2 ^ 32"
    "\<And>s1 s2. callee s1 = Ok s2 \<Longrightarrow> regs s2 DI = regs s1 DI"
  shows "\<exists>st1. callee_entry isa_x86 [] AX 4 0 0 [] orig args (put_words a (orig # args) st) st1 \<and>
    (\<forall>st2. callee st1 = Ok st2 \<longrightarrow>
      (\<exists>st'. CALL_FN_W_x86 (vg_exec isa_x86 (valgrind_hooks isa_x86 f nr callee)) orig args a st =
          Ok (regs st2 AX, st') \<and> cells st' = cells st2 \<and> regs st' SP = regs st SP))"
  using x86.call [of args "[]" st a callee orig f nr] assms by (simp add: CALL_FN_as_pre slots_def CALL_FN_W_asm [OF assms(1)]) blast

theorem CALL_FN_W_x86_convention_witness:
  "\<exists>st'. CALL_FN_W_x86 (vg_exec isa_x86 (valgrind_hooks isa_x86 (\<lambda>_. 0) \<lparr>nraddr = 0, r2 = 0\<rparr> add_x86)) 7 [30, 12] 0x1000 sample_x86 =
     Ok (42, st') \<and> regs st' SP = 0x1000"
proof -
  have "add_x86 s1 = Ok s2 \<Longrightarrow> regs s2 DI = regs s1 DI" for s1 s2
    by (auto simp: add_x86_def)
  from CALL_FN_W_x86_convention [of "[30, 12]" sample_x86 "0x1000" add_x86 7 "\<lambda>_. 0" "\<lparr>nraddr = 0, r2 = 0\<rparr>"] this
  obtain st1 where entry: "callee_entry isa_x86 [] AX 4 0 0 [] 7 [30, 12] (put_words 0x1000 [7, 30, 12] sample_x86) st1"
    and ret: "\<And>st2. add_x86 st1 = Ok st2 \<Longrightarrow>
      \<exists>st'. CALL_FN_W_x86 (vg_exec isa_x86 (valgrind_hooks isa_x86 (\<lambda>_. 0) \<lparr>nraddr = 0, r2 = 0\<rparr> add_x86)) 7 [30, 12] 0x1000 sample_x86 =
          Ok (regs st2 AX, st') \<and> cells st' = cells st2 \<and> regs st' SP = regs sample_x86 SP"
    by (auto simp: sample_x86_def)
  from entry have "add_x86 st1 = Ok (set_reg AX 42 st1)"
    by (simp add: add_x86_def callee_entry_def all_less_two offset_def)
  from ret [OF this] show ?thesis by (auto simp: sample_x86_def numeral_2_eq_2)
qed

text \<open>
  C29: The macros for 0 to 12 arguments on amd64: the called function finds the first six arguments in the registers of the ABI and the others on the stack,
  with its address where the branch expects it, on a stack aligned to 16 bytes and with the memory
  of the caller intact. When it returns, having kept the callee-saved registers that hold the
  saved values, the macro yields its result and the caller has its stack pointer back, whatever it was.
  The argument array lies above the stack pointer or in the red zone below it.
\<close>

theorem CALL_FN_W_amd64_convention:
  fixes st :: "(x86_reg, 64) cpu"
  assumes "length args \<le> 12" "336 \<le> unat (regs st SP)" "unat (regs st SP) \<le> unat a + 128"
    "unat a + 8 * (length args + 1) \<le> 2 ^ 64"
    "\<And>s1 s2. callee s1 = Ok s2 \<Longrightarrow> regs s2 R14 = regs s1 R14 \<and> regs s2 R15 = regs s1 R15"
  shows "\<exists>st1. callee_entry isa_amd64 [DI, SI, DX, CX, R8, R9] AX 4 16 0 [] orig args (put_words a (orig # args) st) st1 \<and>
    (\<forall>st2. callee st1 = Ok st2 \<longrightarrow>
      (\<exists>st'. CALL_FN_W_amd64 (vg_exec isa_amd64 (valgrind_hooks isa_amd64 f nr callee)) orig args a st =
          Ok (regs st2 AX, st') \<and> cells st' = cells st2 \<and> regs st' SP = regs st SP \<and> regs st' BP = regs st BP))"
  using amd64.call [of args "[]" st a callee orig f nr] assms by (simp add: CALL_FN_as_pre slots_def CALL_FN_W_asm64 [OF assms(1)]) blast

theorem CALL_FN_W_amd64_convention_witness:
  "\<exists>st'. CALL_FN_W_amd64 (vg_exec isa_amd64 (valgrind_hooks isa_amd64 (\<lambda>_. 0) \<lparr>nraddr = 0, r2 = 0\<rparr> add_amd64)) 7 [30, 12] 0x1000 sample_amd64 =
     Ok (42, st') \<and> regs st' SP = 0x1000"
proof -
  have "add_amd64 s1 = Ok s2 \<Longrightarrow> regs s2 R14 = regs s1 R14 \<and> regs s2 R15 = regs s1 R15" for s1 s2
    by (auto simp: add_amd64_def)
  from CALL_FN_W_amd64_convention [of "[30, 12]" sample_amd64 "0x1000" add_amd64 7 "\<lambda>_. 0" "\<lparr>nraddr = 0, r2 = 0\<rparr>"] this
  obtain st1 where entry: "callee_entry isa_amd64 [DI, SI, DX, CX, R8, R9] AX 4 16 0 [] 7 [30, 12] (put_words 0x1000 [7, 30, 12] sample_amd64) st1"
    and ret: "\<And>st2. add_amd64 st1 = Ok st2 \<Longrightarrow>
      \<exists>st'. CALL_FN_W_amd64 (vg_exec isa_amd64 (valgrind_hooks isa_amd64 (\<lambda>_. 0) \<lparr>nraddr = 0, r2 = 0\<rparr> add_amd64)) 7 [30, 12] 0x1000 sample_amd64 =
          Ok (regs st2 AX, st') \<and> cells st' = cells st2 \<and> regs st' SP = regs sample_amd64 SP \<and> regs st' BP = regs sample_amd64 BP"
    by (auto simp: sample_amd64_def)
  from entry have "add_amd64 st1 = Ok (set_reg AX 42 st1)"
    by (simp add: add_amd64_def callee_entry_def all_less_two offset_def)
  from ret [OF this] show ?thesis by (auto simp: sample_amd64_def numeral_2_eq_2)
qed

text \<open>
  The macros for 0 to 12 arguments on arm: the called function finds the first four arguments in r0 to r3 and the others on the stack,
  with its address where the branch expects it, on a stack aligned to 8 bytes and with the memory
  of the caller intact. When it returns, having kept the callee-saved registers that hold the
  saved values, the macro yields its result and the caller has its stack pointer back, whatever it was.
  The argument array lies above the stack pointer.
\<close>

theorem CALL_FN_W_arm_convention:
  fixes st :: "(arm_reg, 32) cpu"
  assumes "length args \<le> 12" "72 \<le> unat (regs st Sp)" "unat (regs st Sp) \<le> unat a"
    "unat a + 4 * (length args + 1) \<le> 2 ^ 32"
    "\<And>s1 s2. callee s1 = Ok s2 \<Longrightarrow> regs s2 (R 10) = regs s1 (R 10)"
  shows "\<exists>st1. callee_entry isa_arm [R 0, R 1, R 2, R 3] (R 4) 3 0 0 [] orig args (put_words a (orig # args) st) st1 \<and>
    (\<forall>st2. callee st1 = Ok st2 \<longrightarrow>
      (\<exists>st'. CALL_FN_W_arm (vg_exec isa_arm (valgrind_hooks isa_arm f nr callee)) orig args a st =
          Ok (regs st2 (R 0), st') \<and> cells st' = cells st2 \<and> regs st' Sp = regs st Sp))"
  using arm.call [of args "[]" st a callee orig f nr] assms by (simp add: CALL_FN_as_pre slots_def CALL_FN_W_asm [OF assms(1)]) blast

theorem CALL_FN_W_arm_convention_witness:
  "\<exists>st'. CALL_FN_W_arm (vg_exec isa_arm (valgrind_hooks isa_arm (\<lambda>_. 0) \<lparr>nraddr = 0, r2 = 0\<rparr> add_arm)) 7 [30, 12] 0x1000 sample_arm =
     Ok (42, st') \<and> regs st' Sp = 0x1000"
proof -
  have "add_arm s1 = Ok s2 \<Longrightarrow> regs s2 (R 10) = regs s1 (R 10)" for s1 s2
    by (auto simp: add_arm_def)
  from CALL_FN_W_arm_convention [of "[30, 12]" sample_arm "0x1000" add_arm 7 "\<lambda>_. 0" "\<lparr>nraddr = 0, r2 = 0\<rparr>"] this
  obtain st1 where entry: "callee_entry isa_arm [R 0, R 1, R 2, R 3] (R 4) 3 0 0 [] 7 [30, 12] (put_words 0x1000 [7, 30, 12] sample_arm) st1"
    and ret: "\<And>st2. add_arm st1 = Ok st2 \<Longrightarrow>
      \<exists>st'. CALL_FN_W_arm (vg_exec isa_arm (valgrind_hooks isa_arm (\<lambda>_. 0) \<lparr>nraddr = 0, r2 = 0\<rparr> add_arm)) 7 [30, 12] 0x1000 sample_arm =
          Ok (regs st2 (R 0), st') \<and> cells st' = cells st2 \<and> regs st' Sp = regs sample_arm Sp"
    by (auto simp: sample_arm_def)
  from entry have "add_arm st1 = Ok (set_reg (R 0) 42 st1)"
    by (simp add: add_arm_def callee_entry_def all_less_two offset_def)
  from ret [OF this] show ?thesis by (auto simp: sample_arm_def numeral_2_eq_2)
qed

text \<open>
  C30: The macros for 0 to 12 arguments on arm64: the called function finds the first eight arguments in x0 to x7 and the others on the stack,
  with its address where the branch expects it, on a stack aligned to 16 bytes and with the memory
  of the caller intact. When it returns, having kept the callee-saved registers that hold the
  saved values, the macro yields its result and the caller has its stack pointer back, whatever it was.
  The argument array lies above the stack pointer.
\<close>

theorem CALL_FN_W_arm64_convention:
  fixes st :: "(arm_reg, 64) cpu"
  assumes "length args \<le> 12" "144 \<le> unat (regs st Sp)" "unat (regs st Sp) \<le> unat a"
    "unat a + 8 * (length args + 1) \<le> 2 ^ 64"
    "\<And>s1 s2. callee s1 = Ok s2 \<Longrightarrow> regs s2 (R 21) = regs s1 (R 21)"
  shows "\<exists>st1. callee_entry isa_arm64 [R 0, R 1, R 2, R 3, R 4, R 5, R 6, R 7] (R 8) 4 0 0 [] orig args (put_words a (orig # args) st) st1 \<and>
    (\<forall>st2. callee st1 = Ok st2 \<longrightarrow>
      (\<exists>st'. CALL_FN_W_arm64 (vg_exec isa_arm64 (valgrind_hooks isa_arm64 f nr callee)) orig args a st =
          Ok (regs st2 (R 0), st') \<and> cells st' = cells st2 \<and> regs st' Sp = regs st Sp))"
  using arm64.call [of args "[]" st a callee orig f nr] assms by (simp add: CALL_FN_as_pre slots_def CALL_FN_W_asm64 [OF assms(1)]) blast

theorem CALL_FN_W_arm64_convention_witness:
  "\<exists>st'. CALL_FN_W_arm64 (vg_exec isa_arm64 (valgrind_hooks isa_arm64 (\<lambda>_. 0) \<lparr>nraddr = 0, r2 = 0\<rparr> add_arm64)) 7 [30, 12] 0x1000 sample_arm64 =
     Ok (42, st') \<and> regs st' Sp = 0x1000"
proof -
  have "add_arm64 s1 = Ok s2 \<Longrightarrow> regs s2 (R 21) = regs s1 (R 21)" for s1 s2
    by (auto simp: add_arm64_def)
  from CALL_FN_W_arm64_convention [of "[30, 12]" sample_arm64 "0x1000" add_arm64 7 "\<lambda>_. 0" "\<lparr>nraddr = 0, r2 = 0\<rparr>"] this
  obtain st1 where entry: "callee_entry isa_arm64 [R 0, R 1, R 2, R 3, R 4, R 5, R 6, R 7] (R 8) 4 0 0 [] 7 [30, 12] (put_words 0x1000 [7, 30, 12] sample_arm64) st1"
    and ret: "\<And>st2. add_arm64 st1 = Ok st2 \<Longrightarrow>
      \<exists>st'. CALL_FN_W_arm64 (vg_exec isa_arm64 (valgrind_hooks isa_arm64 (\<lambda>_. 0) \<lparr>nraddr = 0, r2 = 0\<rparr> add_arm64)) 7 [30, 12] 0x1000 sample_arm64 =
          Ok (regs st2 (R 0), st') \<and> cells st' = cells st2 \<and> regs st' Sp = regs sample_arm64 Sp"
    by (auto simp: sample_arm64_def)
  from entry have "add_arm64 st1 = Ok (set_reg (R 0) 42 st1)"
    by (simp add: add_arm64_def callee_entry_def all_less_two offset_def)
  from ret [OF this] show ?thesis by (auto simp: sample_arm64_def numeral_2_eq_2)
qed

end
