(* ===== verification/Vg_CallPpc.thy ===== *)
theory Vg_CallPpc
  imports Vg_CallDefs Vg_Platforms
begin

text \<open>
  The macros \<^verbatim>\<open>CALL_FN_W_*\<close> of \<^verbatim>\<open>valgrind.h\<close> for ppc32 and ppc64 (both byte orders), transcribed instruction by instruction.
\<close>

section \<open>The macros for ppc32\<close>

definition VALGRIND_ALIGN_STACK_ppc32 :: "gp_reg instr list" where
  "VALGRIND_ALIGN_STACK_ppc32 = [Mov (G 28) (G 1), Rotl_mask (G 1) (G 1) 0 0 27]"

definition VALGRIND_RESTORE_STACK_ppc32 :: "gp_reg instr list" where
  "VALGRIND_RESTORE_STACK_ppc32 = [Mov (G 1) (G 28)]"

definition asm_v_ppc32 :: "gp_reg instr list" where
  "asm_v_ppc32 =
     VALGRIND_ALIGN_STACK_ppc32 @
     [Mov (G 11) (Op 1), Ldr (G 11) (G 11) 0] @
     VALGRIND_BRANCH_AND_LINK_TO_NOREDIR_R11_ppc32 @
     VALGRIND_RESTORE_STACK_ppc32 @
     [Mov (Op 0) (G 3)]"

definition asm_W_ppc32 :: "gp_reg instr list" where
  "asm_W_ppc32 =
     VALGRIND_ALIGN_STACK_ppc32 @
     [Mov (G 11) (Op 1), Ldr (G 3) (G 11) 4, Ldr (G 11) (G 11) 0] @
     VALGRIND_BRANCH_AND_LINK_TO_NOREDIR_R11_ppc32 @
     VALGRIND_RESTORE_STACK_ppc32 @
     [Mov (Op 0) (G 3)]"

definition asm_WW_ppc32 :: "gp_reg instr list" where
  "asm_WW_ppc32 =
     VALGRIND_ALIGN_STACK_ppc32 @
     [Mov (G 11) (Op 1), Ldr (G 3) (G 11) 4, Ldr (G 4) (G 11) 8, Ldr (G 11) (G 11) 0] @
     VALGRIND_BRANCH_AND_LINK_TO_NOREDIR_R11_ppc32 @
     VALGRIND_RESTORE_STACK_ppc32 @
     [Mov (Op 0) (G 3)]"

definition asm_WWW_ppc32 :: "gp_reg instr list" where
  "asm_WWW_ppc32 =
     VALGRIND_ALIGN_STACK_ppc32 @
     [Mov (G 11) (Op 1), Ldr (G 3) (G 11) 4, Ldr (G 4) (G 11) 8, Ldr (G 5) (G 11) 12,
      Ldr (G 11) (G 11) 0] @
     VALGRIND_BRANCH_AND_LINK_TO_NOREDIR_R11_ppc32 @
     VALGRIND_RESTORE_STACK_ppc32 @
     [Mov (Op 0) (G 3)]"

definition asm_WWWW_ppc32 :: "gp_reg instr list" where
  "asm_WWWW_ppc32 =
     VALGRIND_ALIGN_STACK_ppc32 @
     [Mov (G 11) (Op 1), Ldr (G 3) (G 11) 4, Ldr (G 4) (G 11) 8, Ldr (G 5) (G 11) 12,
      Ldr (G 6) (G 11) 16, Ldr (G 11) (G 11) 0] @
     VALGRIND_BRANCH_AND_LINK_TO_NOREDIR_R11_ppc32 @
     VALGRIND_RESTORE_STACK_ppc32 @
     [Mov (Op 0) (G 3)]"

definition asm_5W_ppc32 :: "gp_reg instr list" where
  "asm_5W_ppc32 =
     VALGRIND_ALIGN_STACK_ppc32 @
     [Mov (G 11) (Op 1), Ldr (G 3) (G 11) 4, Ldr (G 4) (G 11) 8, Ldr (G 5) (G 11) 12,
      Ldr (G 6) (G 11) 16, Ldr (G 7) (G 11) 20, Ldr (G 11) (G 11) 0] @
     VALGRIND_BRANCH_AND_LINK_TO_NOREDIR_R11_ppc32 @
     VALGRIND_RESTORE_STACK_ppc32 @
     [Mov (Op 0) (G 3)]"

definition asm_6W_ppc32 :: "gp_reg instr list" where
  "asm_6W_ppc32 =
     VALGRIND_ALIGN_STACK_ppc32 @
     [Mov (G 11) (Op 1), Ldr (G 3) (G 11) 4, Ldr (G 4) (G 11) 8, Ldr (G 5) (G 11) 12,
      Ldr (G 6) (G 11) 16, Ldr (G 7) (G 11) 20, Ldr (G 8) (G 11) 24, Ldr (G 11) (G 11) 0] @
     VALGRIND_BRANCH_AND_LINK_TO_NOREDIR_R11_ppc32 @
     VALGRIND_RESTORE_STACK_ppc32 @
     [Mov (Op 0) (G 3)]"

definition asm_7W_ppc32 :: "gp_reg instr list" where
  "asm_7W_ppc32 =
     VALGRIND_ALIGN_STACK_ppc32 @
     [Mov (G 11) (Op 1), Ldr (G 3) (G 11) 4, Ldr (G 4) (G 11) 8, Ldr (G 5) (G 11) 12,
      Ldr (G 6) (G 11) 16, Ldr (G 7) (G 11) 20, Ldr (G 8) (G 11) 24, Ldr (G 9) (G 11) 28,
      Ldr (G 11) (G 11) 0] @
     VALGRIND_BRANCH_AND_LINK_TO_NOREDIR_R11_ppc32 @
     VALGRIND_RESTORE_STACK_ppc32 @
     [Mov (Op 0) (G 3)]"

definition asm_8W_ppc32 :: "gp_reg instr list" where
  "asm_8W_ppc32 =
     VALGRIND_ALIGN_STACK_ppc32 @
     [Mov (G 11) (Op 1), Ldr (G 3) (G 11) 4, Ldr (G 4) (G 11) 8, Ldr (G 5) (G 11) 12,
      Ldr (G 6) (G 11) 16, Ldr (G 7) (G 11) 20, Ldr (G 8) (G 11) 24, Ldr (G 9) (G 11) 28,
      Ldr (G 10) (G 11) 32, Ldr (G 11) (G 11) 0] @
     VALGRIND_BRANCH_AND_LINK_TO_NOREDIR_R11_ppc32 @
     VALGRIND_RESTORE_STACK_ppc32 @
     [Mov (Op 0) (G 3)]"

definition asm_9W_ppc32 :: "gp_reg instr list" where
  "asm_9W_ppc32 =
     VALGRIND_ALIGN_STACK_ppc32 @
     [Mov (G 11) (Op 1), Sub_imm (G 1) 16, Ldr (G 3) (G 11) 36, Str (G 3) (G 1) 8, Ldr (G 3) (G 11) 4,
      Ldr (G 4) (G 11) 8, Ldr (G 5) (G 11) 12, Ldr (G 6) (G 11) 16, Ldr (G 7) (G 11) 20,
      Ldr (G 8) (G 11) 24, Ldr (G 9) (G 11) 28, Ldr (G 10) (G 11) 32, Ldr (G 11) (G 11) 0] @
     VALGRIND_BRANCH_AND_LINK_TO_NOREDIR_R11_ppc32 @
     VALGRIND_RESTORE_STACK_ppc32 @
     [Mov (Op 0) (G 3)]"

definition asm_10W_ppc32 :: "gp_reg instr list" where
  "asm_10W_ppc32 =
     VALGRIND_ALIGN_STACK_ppc32 @
     [Mov (G 11) (Op 1), Sub_imm (G 1) 16, Ldr (G 3) (G 11) 40, Str (G 3) (G 1) 12,
      Ldr (G 3) (G 11) 36, Str (G 3) (G 1) 8, Ldr (G 3) (G 11) 4, Ldr (G 4) (G 11) 8,
      Ldr (G 5) (G 11) 12, Ldr (G 6) (G 11) 16, Ldr (G 7) (G 11) 20, Ldr (G 8) (G 11) 24,
      Ldr (G 9) (G 11) 28, Ldr (G 10) (G 11) 32, Ldr (G 11) (G 11) 0] @
     VALGRIND_BRANCH_AND_LINK_TO_NOREDIR_R11_ppc32 @
     VALGRIND_RESTORE_STACK_ppc32 @
     [Mov (Op 0) (G 3)]"

definition asm_11W_ppc32 :: "gp_reg instr list" where
  "asm_11W_ppc32 =
     VALGRIND_ALIGN_STACK_ppc32 @
     [Mov (G 11) (Op 1), Sub_imm (G 1) 32, Ldr (G 3) (G 11) 44, Str (G 3) (G 1) 16,
      Ldr (G 3) (G 11) 40, Str (G 3) (G 1) 12, Ldr (G 3) (G 11) 36, Str (G 3) (G 1) 8,
      Ldr (G 3) (G 11) 4, Ldr (G 4) (G 11) 8, Ldr (G 5) (G 11) 12, Ldr (G 6) (G 11) 16,
      Ldr (G 7) (G 11) 20, Ldr (G 8) (G 11) 24, Ldr (G 9) (G 11) 28, Ldr (G 10) (G 11) 32,
      Ldr (G 11) (G 11) 0] @
     VALGRIND_BRANCH_AND_LINK_TO_NOREDIR_R11_ppc32 @
     VALGRIND_RESTORE_STACK_ppc32 @
     [Mov (Op 0) (G 3)]"

definition asm_12W_ppc32 :: "gp_reg instr list" where
  "asm_12W_ppc32 =
     VALGRIND_ALIGN_STACK_ppc32 @
     [Mov (G 11) (Op 1), Sub_imm (G 1) 32, Ldr (G 3) (G 11) 48, Str (G 3) (G 1) 20,
      Ldr (G 3) (G 11) 44, Str (G 3) (G 1) 16, Ldr (G 3) (G 11) 40, Str (G 3) (G 1) 12,
      Ldr (G 3) (G 11) 36, Str (G 3) (G 1) 8, Ldr (G 3) (G 11) 4, Ldr (G 4) (G 11) 8,
      Ldr (G 5) (G 11) 12, Ldr (G 6) (G 11) 16, Ldr (G 7) (G 11) 20, Ldr (G 8) (G 11) 24,
      Ldr (G 9) (G 11) 28, Ldr (G 10) (G 11) 32, Ldr (G 11) (G 11) 0] @
     VALGRIND_BRANCH_AND_LINK_TO_NOREDIR_R11_ppc32 @
     VALGRIND_RESTORE_STACK_ppc32 @
     [Mov (Op 0) (G 3)]"

text \<open>The assembly for \<open>n\<close> arguments.\<close>

definition asm_ppc32 :: "nat \<Rightarrow> gp_reg instr list" where
  "asm_ppc32 n =
     [asm_v_ppc32, asm_W_ppc32, asm_WW_ppc32, asm_WWW_ppc32, asm_WWWW_ppc32,
      asm_5W_ppc32, asm_6W_ppc32, asm_7W_ppc32, asm_8W_ppc32, asm_9W_ppc32,
      asm_10W_ppc32, asm_11W_ppc32, asm_12W_ppc32] ! n"

lemmas asm_ppc32_defs =
  asm_v_ppc32_def asm_W_ppc32_def asm_WW_ppc32_def asm_WWW_ppc32_def asm_WWWW_ppc32_def
  asm_5W_ppc32_def asm_6W_ppc32_def asm_7W_ppc32_def asm_8W_ppc32_def asm_9W_ppc32_def
  asm_10W_ppc32_def asm_11W_ppc32_def asm_12W_ppc32_def

definition CALL_FN_W_v_ppc32 :: "(gp_reg, 32) executor \<Rightarrow> 32 word \<Rightarrow> (gp_reg, 32) macro" where
  "CALL_FN_W_v_ppc32 run orig =
     CALL_FN run asm_v_ppc32 (Op 1) (Op 0) orig []"

definition CALL_FN_W_W_ppc32 :: "(gp_reg, 32) executor \<Rightarrow> 32 word \<Rightarrow> 32 word \<Rightarrow> (gp_reg, 32) macro" where
  "CALL_FN_W_W_ppc32 run orig arg1 =
     CALL_FN run asm_W_ppc32 (Op 1) (Op 0) orig [arg1]"

definition CALL_FN_W_WW_ppc32 :: "(gp_reg, 32) executor \<Rightarrow> 32 word \<Rightarrow> 32 word \<Rightarrow>
   32 word \<Rightarrow> (gp_reg, 32) macro" where
  "CALL_FN_W_WW_ppc32 run orig arg1 arg2 =
     CALL_FN run asm_WW_ppc32 (Op 1) (Op 0) orig [arg1, arg2]"

definition CALL_FN_W_WWW_ppc32 :: "(gp_reg, 32) executor \<Rightarrow> 32 word \<Rightarrow> 32 word \<Rightarrow>
   32 word \<Rightarrow> 32 word \<Rightarrow> (gp_reg, 32) macro" where
  "CALL_FN_W_WWW_ppc32 run orig arg1 arg2 arg3 =
     CALL_FN run asm_WWW_ppc32 (Op 1) (Op 0) orig [arg1, arg2, arg3]"

definition CALL_FN_W_WWWW_ppc32 :: "(gp_reg, 32) executor \<Rightarrow> 32 word \<Rightarrow> 32 word \<Rightarrow>
   32 word \<Rightarrow> 32 word \<Rightarrow> 32 word \<Rightarrow> (gp_reg, 32) macro" where
  "CALL_FN_W_WWWW_ppc32 run orig arg1 arg2 arg3 arg4 =
     CALL_FN run asm_WWWW_ppc32 (Op 1) (Op 0) orig [arg1, arg2, arg3, arg4]"

definition CALL_FN_W_5W_ppc32 :: "(gp_reg, 32) executor \<Rightarrow> 32 word \<Rightarrow> 32 word \<Rightarrow>
   32 word \<Rightarrow> 32 word \<Rightarrow> 32 word \<Rightarrow> 32 word \<Rightarrow> (gp_reg, 32) macro" where
  "CALL_FN_W_5W_ppc32 run orig arg1 arg2 arg3 arg4 arg5 =
     CALL_FN run asm_5W_ppc32 (Op 1) (Op 0) orig [arg1, arg2, arg3, arg4, arg5]"

definition CALL_FN_W_6W_ppc32 :: "(gp_reg, 32) executor \<Rightarrow> 32 word \<Rightarrow> 32 word \<Rightarrow>
   32 word \<Rightarrow> 32 word \<Rightarrow> 32 word \<Rightarrow> 32 word \<Rightarrow> 32 word \<Rightarrow> (gp_reg, 32) macro" where
  "CALL_FN_W_6W_ppc32 run orig arg1 arg2 arg3 arg4 arg5 arg6 =
     CALL_FN run asm_6W_ppc32 (Op 1) (Op 0) orig [arg1, arg2, arg3, arg4, arg5, arg6]"

definition CALL_FN_W_7W_ppc32 :: "(gp_reg, 32) executor \<Rightarrow> 32 word \<Rightarrow> 32 word \<Rightarrow>
   32 word \<Rightarrow> 32 word \<Rightarrow> 32 word \<Rightarrow> 32 word \<Rightarrow> 32 word \<Rightarrow> 32 word \<Rightarrow> (gp_reg, 32) macro" where
  "CALL_FN_W_7W_ppc32 run orig arg1 arg2 arg3 arg4 arg5 arg6 arg7 =
     CALL_FN run asm_7W_ppc32 (Op 1) (Op 0) orig [arg1, arg2, arg3, arg4, arg5, arg6, arg7]"

definition CALL_FN_W_8W_ppc32 :: "(gp_reg, 32) executor \<Rightarrow> 32 word \<Rightarrow> 32 word \<Rightarrow>
   32 word \<Rightarrow> 32 word \<Rightarrow> 32 word \<Rightarrow> 32 word \<Rightarrow> 32 word \<Rightarrow> 32 word \<Rightarrow> 32 word \<Rightarrow> (gp_reg, 32) macro" where
  "CALL_FN_W_8W_ppc32 run orig arg1 arg2 arg3 arg4 arg5 arg6 arg7 arg8 =
     CALL_FN run asm_8W_ppc32 (Op 1) (Op 0) orig [arg1, arg2, arg3, arg4, arg5, arg6, arg7, arg8]"

definition CALL_FN_W_9W_ppc32 :: "(gp_reg, 32) executor \<Rightarrow> 32 word \<Rightarrow> 32 word \<Rightarrow>
   32 word \<Rightarrow> 32 word \<Rightarrow> 32 word \<Rightarrow> 32 word \<Rightarrow> 32 word \<Rightarrow> 32 word \<Rightarrow> 32 word \<Rightarrow> 32 word \<Rightarrow> (gp_reg, 32) macro" where
  "CALL_FN_W_9W_ppc32 run orig arg1 arg2 arg3 arg4 arg5 arg6 arg7 arg8 arg9 =
     CALL_FN run asm_9W_ppc32 (Op 1) (Op 0) orig
       [arg1, arg2, arg3, arg4, arg5, arg6, arg7, arg8, arg9]"

definition CALL_FN_W_10W_ppc32 :: "(gp_reg, 32) executor \<Rightarrow> 32 word \<Rightarrow> 32 word \<Rightarrow>
   32 word \<Rightarrow> 32 word \<Rightarrow> 32 word \<Rightarrow> 32 word \<Rightarrow> 32 word \<Rightarrow> 32 word \<Rightarrow> 32 word \<Rightarrow> 32 word \<Rightarrow> 32 word \<Rightarrow> (gp_reg, 32) macro" where
  "CALL_FN_W_10W_ppc32 run orig arg1 arg2 arg3 arg4 arg5 arg6 arg7 arg8 arg9 arg10 =
     CALL_FN run asm_10W_ppc32 (Op 1) (Op 0) orig
       [arg1, arg2, arg3, arg4, arg5, arg6, arg7, arg8, arg9, arg10]"

definition CALL_FN_W_11W_ppc32 :: "(gp_reg, 32) executor \<Rightarrow> 32 word \<Rightarrow> 32 word \<Rightarrow>
   32 word \<Rightarrow> 32 word \<Rightarrow> 32 word \<Rightarrow> 32 word \<Rightarrow> 32 word \<Rightarrow> 32 word \<Rightarrow> 32 word \<Rightarrow> 32 word \<Rightarrow> 32 word \<Rightarrow> 32 word \<Rightarrow> (gp_reg, 32) macro" where
  "CALL_FN_W_11W_ppc32 run orig arg1 arg2 arg3 arg4 arg5 arg6 arg7 arg8 arg9 arg10 arg11 =
     CALL_FN run asm_11W_ppc32 (Op 1) (Op 0) orig
       [arg1, arg2, arg3, arg4, arg5, arg6, arg7, arg8, arg9, arg10, arg11]"

definition CALL_FN_W_12W_ppc32 :: "(gp_reg, 32) executor \<Rightarrow> 32 word \<Rightarrow> 32 word \<Rightarrow>
   32 word \<Rightarrow> 32 word \<Rightarrow> 32 word \<Rightarrow> 32 word \<Rightarrow> 32 word \<Rightarrow> 32 word \<Rightarrow> 32 word \<Rightarrow> 32 word \<Rightarrow> 32 word \<Rightarrow> 32 word \<Rightarrow> 32 word \<Rightarrow> (gp_reg, 32) macro" where
  "CALL_FN_W_12W_ppc32 run orig arg1 arg2 arg3 arg4 arg5 arg6 arg7 arg8 arg9 arg10 arg11 arg12 =
     CALL_FN run asm_12W_ppc32 (Op 1) (Op 0) orig
       [arg1, arg2, arg3, arg4, arg5, arg6, arg7, arg8, arg9, arg10, arg11, arg12]"

text \<open>All of them, by the list of arguments.\<close>

fun CALL_FN_W_ppc32 ::
  "(gp_reg, 32) executor \<Rightarrow> 32 word \<Rightarrow> 32 word list \<Rightarrow> (gp_reg, 32) macro" where
  "CALL_FN_W_ppc32 run orig [] = CALL_FN_W_v_ppc32 run orig"
| "CALL_FN_W_ppc32 run orig [a] = CALL_FN_W_W_ppc32 run orig a"
| "CALL_FN_W_ppc32 run orig [a, b] = CALL_FN_W_WW_ppc32 run orig a b"
| "CALL_FN_W_ppc32 run orig [a, b, c] = CALL_FN_W_WWW_ppc32 run orig a b c"
| "CALL_FN_W_ppc32 run orig [a, b, c, d] = CALL_FN_W_WWWW_ppc32 run orig a b c d"
| "CALL_FN_W_ppc32 run orig [a, b, c, d, e] = CALL_FN_W_5W_ppc32 run orig a b c d e"
| "CALL_FN_W_ppc32 run orig [a, b, c, d, e, f] = CALL_FN_W_6W_ppc32 run orig a b c d e f"
| "CALL_FN_W_ppc32 run orig [a, b, c, d, e, f, g] = CALL_FN_W_7W_ppc32 run orig a b c d e f g"
| "CALL_FN_W_ppc32 run orig [a, b, c, d, e, f, g, h] = CALL_FN_W_8W_ppc32 run orig a b c d e f g h"
| "CALL_FN_W_ppc32 run orig [a, b, c, d, e, f, g, h, i] = CALL_FN_W_9W_ppc32 run orig a b c d e f g h i"
| "CALL_FN_W_ppc32 run orig [a, b, c, d, e, f, g, h, i, j] = CALL_FN_W_10W_ppc32 run orig a b c d e f g h i j"
| "CALL_FN_W_ppc32 run orig [a, b, c, d, e, f, g, h, i, j, k] = CALL_FN_W_11W_ppc32 run orig a b c d e f g h i j k"
| "CALL_FN_W_ppc32 run orig [a, b, c, d, e, f, g, h, i, j, k, l] = CALL_FN_W_12W_ppc32 run orig a b c d e f g h i j k l"
| "CALL_FN_W_ppc32 run orig _ = (\<lambda>_ _. Err Undefined)"

lemmas CALL_FN_ppc32_defs =
  CALL_FN_W_v_ppc32_def CALL_FN_W_W_ppc32_def CALL_FN_W_WW_ppc32_def CALL_FN_W_WWW_ppc32_def CALL_FN_W_WWWW_ppc32_def
  CALL_FN_W_5W_ppc32_def CALL_FN_W_6W_ppc32_def CALL_FN_W_7W_ppc32_def CALL_FN_W_8W_ppc32_def CALL_FN_W_9W_ppc32_def
  CALL_FN_W_10W_ppc32_def CALL_FN_W_11W_ppc32_def CALL_FN_W_12W_ppc32_def

text \<open>
  On ppc64 the array has two more entries before the address of the function: the first is left for the
  pointer to the table of contents of the caller, the second is that of the function. \<open>a\<close> is the
  address of the entry with the address of the function, which the assembly gets.
\<close>

definition CALL_FN_toc ::
  "('r, 'w::len) executor \<Rightarrow> 'r instr list \<Rightarrow> 'r \<Rightarrow> 'r \<Rightarrow> 'w orig_fn \<Rightarrow> 'w word list \<Rightarrow> 'w word \<Rightarrow>
   ('r, 'w) cpu \<Rightarrow> ('w word \<times> ('r, 'w) cpu) outcome" where
  "CALL_FN_toc run asm arg res orig args a st =
     bind_o (run asm (set_reg arg a (put_words (a - offset 1) (r2 orig # nraddr orig # args) st))) (\<lambda>st'.
     Ok (regs st' res, st'))"

section \<open>The macros for ppc64be\<close>

definition VALGRIND_ALIGN_STACK_ppc64be :: "gp_reg instr list" where
  "VALGRIND_ALIGN_STACK_ppc64be = [Mov (G 28) (G 1), Rotl_mask (G 1) (G 1) 0 0 59]"

definition VALGRIND_RESTORE_STACK_ppc64be :: "gp_reg instr list" where
  "VALGRIND_RESTORE_STACK_ppc64be = [Mov (G 1) (G 28)]"

definition asm_v_ppc64be :: "gp_reg instr list" where
  "asm_v_ppc64be =
     VALGRIND_ALIGN_STACK_ppc64be @
     [Mov (G 11) (Op 1), Str (G 2) (G 11) (- 16), Ldr (G 2) (G 11) (- 8), Ldr (G 11) (G 11) 0] @
     VALGRIND_BRANCH_AND_LINK_TO_NOREDIR_R11_ppc64be @
     [Mov (G 11) (Op 1), Mov (Op 0) (G 3), Ldr (G 2) (G 11) (- 16)] @
     VALGRIND_RESTORE_STACK_ppc64be"

definition asm_W_ppc64be :: "gp_reg instr list" where
  "asm_W_ppc64be =
     VALGRIND_ALIGN_STACK_ppc64be @
     [Mov (G 11) (Op 1), Str (G 2) (G 11) (- 16), Ldr (G 2) (G 11) (- 8), Ldr (G 3) (G 11) 8,
      Ldr (G 11) (G 11) 0] @
     VALGRIND_BRANCH_AND_LINK_TO_NOREDIR_R11_ppc64be @
     [Mov (G 11) (Op 1), Mov (Op 0) (G 3), Ldr (G 2) (G 11) (- 16)] @
     VALGRIND_RESTORE_STACK_ppc64be"

definition asm_WW_ppc64be :: "gp_reg instr list" where
  "asm_WW_ppc64be =
     VALGRIND_ALIGN_STACK_ppc64be @
     [Mov (G 11) (Op 1), Str (G 2) (G 11) (- 16), Ldr (G 2) (G 11) (- 8), Ldr (G 3) (G 11) 8,
      Ldr (G 4) (G 11) 16, Ldr (G 11) (G 11) 0] @
     VALGRIND_BRANCH_AND_LINK_TO_NOREDIR_R11_ppc64be @
     [Mov (G 11) (Op 1), Mov (Op 0) (G 3), Ldr (G 2) (G 11) (- 16)] @
     VALGRIND_RESTORE_STACK_ppc64be"

definition asm_WWW_ppc64be :: "gp_reg instr list" where
  "asm_WWW_ppc64be =
     VALGRIND_ALIGN_STACK_ppc64be @
     [Mov (G 11) (Op 1), Str (G 2) (G 11) (- 16), Ldr (G 2) (G 11) (- 8), Ldr (G 3) (G 11) 8,
      Ldr (G 4) (G 11) 16, Ldr (G 5) (G 11) 24, Ldr (G 11) (G 11) 0] @
     VALGRIND_BRANCH_AND_LINK_TO_NOREDIR_R11_ppc64be @
     [Mov (G 11) (Op 1), Mov (Op 0) (G 3), Ldr (G 2) (G 11) (- 16)] @
     VALGRIND_RESTORE_STACK_ppc64be"

definition asm_WWWW_ppc64be :: "gp_reg instr list" where
  "asm_WWWW_ppc64be =
     VALGRIND_ALIGN_STACK_ppc64be @
     [Mov (G 11) (Op 1), Str (G 2) (G 11) (- 16), Ldr (G 2) (G 11) (- 8), Ldr (G 3) (G 11) 8,
      Ldr (G 4) (G 11) 16, Ldr (G 5) (G 11) 24, Ldr (G 6) (G 11) 32, Ldr (G 11) (G 11) 0] @
     VALGRIND_BRANCH_AND_LINK_TO_NOREDIR_R11_ppc64be @
     [Mov (G 11) (Op 1), Mov (Op 0) (G 3), Ldr (G 2) (G 11) (- 16)] @
     VALGRIND_RESTORE_STACK_ppc64be"

definition asm_5W_ppc64be :: "gp_reg instr list" where
  "asm_5W_ppc64be =
     VALGRIND_ALIGN_STACK_ppc64be @
     [Mov (G 11) (Op 1), Str (G 2) (G 11) (- 16), Ldr (G 2) (G 11) (- 8), Ldr (G 3) (G 11) 8,
      Ldr (G 4) (G 11) 16, Ldr (G 5) (G 11) 24, Ldr (G 6) (G 11) 32, Ldr (G 7) (G 11) 40,
      Ldr (G 11) (G 11) 0] @
     VALGRIND_BRANCH_AND_LINK_TO_NOREDIR_R11_ppc64be @
     [Mov (G 11) (Op 1), Mov (Op 0) (G 3), Ldr (G 2) (G 11) (- 16)] @
     VALGRIND_RESTORE_STACK_ppc64be"

definition asm_6W_ppc64be :: "gp_reg instr list" where
  "asm_6W_ppc64be =
     VALGRIND_ALIGN_STACK_ppc64be @
     [Mov (G 11) (Op 1), Str (G 2) (G 11) (- 16), Ldr (G 2) (G 11) (- 8), Ldr (G 3) (G 11) 8,
      Ldr (G 4) (G 11) 16, Ldr (G 5) (G 11) 24, Ldr (G 6) (G 11) 32, Ldr (G 7) (G 11) 40,
      Ldr (G 8) (G 11) 48, Ldr (G 11) (G 11) 0] @
     VALGRIND_BRANCH_AND_LINK_TO_NOREDIR_R11_ppc64be @
     [Mov (G 11) (Op 1), Mov (Op 0) (G 3), Ldr (G 2) (G 11) (- 16)] @
     VALGRIND_RESTORE_STACK_ppc64be"

definition asm_7W_ppc64be :: "gp_reg instr list" where
  "asm_7W_ppc64be =
     VALGRIND_ALIGN_STACK_ppc64be @
     [Mov (G 11) (Op 1), Str (G 2) (G 11) (- 16), Ldr (G 2) (G 11) (- 8), Ldr (G 3) (G 11) 8,
      Ldr (G 4) (G 11) 16, Ldr (G 5) (G 11) 24, Ldr (G 6) (G 11) 32, Ldr (G 7) (G 11) 40,
      Ldr (G 8) (G 11) 48, Ldr (G 9) (G 11) 56, Ldr (G 11) (G 11) 0] @
     VALGRIND_BRANCH_AND_LINK_TO_NOREDIR_R11_ppc64be @
     [Mov (G 11) (Op 1), Mov (Op 0) (G 3), Ldr (G 2) (G 11) (- 16)] @
     VALGRIND_RESTORE_STACK_ppc64be"

definition asm_8W_ppc64be :: "gp_reg instr list" where
  "asm_8W_ppc64be =
     VALGRIND_ALIGN_STACK_ppc64be @
     [Mov (G 11) (Op 1), Str (G 2) (G 11) (- 16), Ldr (G 2) (G 11) (- 8), Ldr (G 3) (G 11) 8,
      Ldr (G 4) (G 11) 16, Ldr (G 5) (G 11) 24, Ldr (G 6) (G 11) 32, Ldr (G 7) (G 11) 40,
      Ldr (G 8) (G 11) 48, Ldr (G 9) (G 11) 56, Ldr (G 10) (G 11) 64, Ldr (G 11) (G 11) 0] @
     VALGRIND_BRANCH_AND_LINK_TO_NOREDIR_R11_ppc64be @
     [Mov (G 11) (Op 1), Mov (Op 0) (G 3), Ldr (G 2) (G 11) (- 16)] @
     VALGRIND_RESTORE_STACK_ppc64be"

definition asm_9W_ppc64be :: "gp_reg instr list" where
  "asm_9W_ppc64be =
     VALGRIND_ALIGN_STACK_ppc64be @
     [Mov (G 11) (Op 1), Str (G 2) (G 11) (- 16), Ldr (G 2) (G 11) (- 8), Sub_imm (G 1) 128,
      Ldr (G 3) (G 11) 72, Str (G 3) (G 1) 112, Ldr (G 3) (G 11) 8, Ldr (G 4) (G 11) 16,
      Ldr (G 5) (G 11) 24, Ldr (G 6) (G 11) 32, Ldr (G 7) (G 11) 40, Ldr (G 8) (G 11) 48,
      Ldr (G 9) (G 11) 56, Ldr (G 10) (G 11) 64, Ldr (G 11) (G 11) 0] @
     VALGRIND_BRANCH_AND_LINK_TO_NOREDIR_R11_ppc64be @
     [Mov (G 11) (Op 1), Mov (Op 0) (G 3), Ldr (G 2) (G 11) (- 16)] @
     VALGRIND_RESTORE_STACK_ppc64be"

definition asm_10W_ppc64be :: "gp_reg instr list" where
  "asm_10W_ppc64be =
     VALGRIND_ALIGN_STACK_ppc64be @
     [Mov (G 11) (Op 1), Str (G 2) (G 11) (- 16), Ldr (G 2) (G 11) (- 8), Sub_imm (G 1) 128,
      Ldr (G 3) (G 11) 80, Str (G 3) (G 1) 120, Ldr (G 3) (G 11) 72, Str (G 3) (G 1) 112,
      Ldr (G 3) (G 11) 8, Ldr (G 4) (G 11) 16, Ldr (G 5) (G 11) 24, Ldr (G 6) (G 11) 32,
      Ldr (G 7) (G 11) 40, Ldr (G 8) (G 11) 48, Ldr (G 9) (G 11) 56, Ldr (G 10) (G 11) 64,
      Ldr (G 11) (G 11) 0] @
     VALGRIND_BRANCH_AND_LINK_TO_NOREDIR_R11_ppc64be @
     [Mov (G 11) (Op 1), Mov (Op 0) (G 3), Ldr (G 2) (G 11) (- 16)] @
     VALGRIND_RESTORE_STACK_ppc64be"

definition asm_11W_ppc64be :: "gp_reg instr list" where
  "asm_11W_ppc64be =
     VALGRIND_ALIGN_STACK_ppc64be @
     [Mov (G 11) (Op 1), Str (G 2) (G 11) (- 16), Ldr (G 2) (G 11) (- 8), Sub_imm (G 1) 144,
      Ldr (G 3) (G 11) 88, Str (G 3) (G 1) 128, Ldr (G 3) (G 11) 80, Str (G 3) (G 1) 120,
      Ldr (G 3) (G 11) 72, Str (G 3) (G 1) 112, Ldr (G 3) (G 11) 8, Ldr (G 4) (G 11) 16,
      Ldr (G 5) (G 11) 24, Ldr (G 6) (G 11) 32, Ldr (G 7) (G 11) 40, Ldr (G 8) (G 11) 48,
      Ldr (G 9) (G 11) 56, Ldr (G 10) (G 11) 64, Ldr (G 11) (G 11) 0] @
     VALGRIND_BRANCH_AND_LINK_TO_NOREDIR_R11_ppc64be @
     [Mov (G 11) (Op 1), Mov (Op 0) (G 3), Ldr (G 2) (G 11) (- 16)] @
     VALGRIND_RESTORE_STACK_ppc64be"

definition asm_12W_ppc64be :: "gp_reg instr list" where
  "asm_12W_ppc64be =
     VALGRIND_ALIGN_STACK_ppc64be @
     [Mov (G 11) (Op 1), Str (G 2) (G 11) (- 16), Ldr (G 2) (G 11) (- 8), Sub_imm (G 1) 144,
      Ldr (G 3) (G 11) 96, Str (G 3) (G 1) 136, Ldr (G 3) (G 11) 88, Str (G 3) (G 1) 128,
      Ldr (G 3) (G 11) 80, Str (G 3) (G 1) 120, Ldr (G 3) (G 11) 72, Str (G 3) (G 1) 112,
      Ldr (G 3) (G 11) 8, Ldr (G 4) (G 11) 16, Ldr (G 5) (G 11) 24, Ldr (G 6) (G 11) 32,
      Ldr (G 7) (G 11) 40, Ldr (G 8) (G 11) 48, Ldr (G 9) (G 11) 56, Ldr (G 10) (G 11) 64,
      Ldr (G 11) (G 11) 0] @
     VALGRIND_BRANCH_AND_LINK_TO_NOREDIR_R11_ppc64be @
     [Mov (G 11) (Op 1), Mov (Op 0) (G 3), Ldr (G 2) (G 11) (- 16)] @
     VALGRIND_RESTORE_STACK_ppc64be"

text \<open>The assembly for \<open>n\<close> arguments.\<close>

definition asm_ppc64be :: "nat \<Rightarrow> gp_reg instr list" where
  "asm_ppc64be n =
     [asm_v_ppc64be, asm_W_ppc64be, asm_WW_ppc64be, asm_WWW_ppc64be, asm_WWWW_ppc64be,
      asm_5W_ppc64be, asm_6W_ppc64be, asm_7W_ppc64be, asm_8W_ppc64be, asm_9W_ppc64be,
      asm_10W_ppc64be, asm_11W_ppc64be, asm_12W_ppc64be] ! n"

lemmas asm_ppc64be_defs =
  asm_v_ppc64be_def asm_W_ppc64be_def asm_WW_ppc64be_def asm_WWW_ppc64be_def asm_WWWW_ppc64be_def
  asm_5W_ppc64be_def asm_6W_ppc64be_def asm_7W_ppc64be_def asm_8W_ppc64be_def asm_9W_ppc64be_def
  asm_10W_ppc64be_def asm_11W_ppc64be_def asm_12W_ppc64be_def

definition CALL_FN_W_v_ppc64be :: "(gp_reg, 64) executor \<Rightarrow> 64 orig_fn \<Rightarrow> (gp_reg, 64) macro" where
  "CALL_FN_W_v_ppc64be run orig =
     CALL_FN_toc run asm_v_ppc64be (Op 1) (Op 0) orig []"

definition CALL_FN_W_W_ppc64be :: "(gp_reg, 64) executor \<Rightarrow> 64 orig_fn \<Rightarrow> 64 word \<Rightarrow> (gp_reg, 64) macro" where
  "CALL_FN_W_W_ppc64be run orig arg1 =
     CALL_FN_toc run asm_W_ppc64be (Op 1) (Op 0) orig [arg1]"

definition CALL_FN_W_WW_ppc64be :: "(gp_reg, 64) executor \<Rightarrow> 64 orig_fn \<Rightarrow> 64 word \<Rightarrow>
   64 word \<Rightarrow> (gp_reg, 64) macro" where
  "CALL_FN_W_WW_ppc64be run orig arg1 arg2 =
     CALL_FN_toc run asm_WW_ppc64be (Op 1) (Op 0) orig [arg1, arg2]"

definition CALL_FN_W_WWW_ppc64be :: "(gp_reg, 64) executor \<Rightarrow> 64 orig_fn \<Rightarrow> 64 word \<Rightarrow>
   64 word \<Rightarrow> 64 word \<Rightarrow> (gp_reg, 64) macro" where
  "CALL_FN_W_WWW_ppc64be run orig arg1 arg2 arg3 =
     CALL_FN_toc run asm_WWW_ppc64be (Op 1) (Op 0) orig [arg1, arg2, arg3]"

definition CALL_FN_W_WWWW_ppc64be :: "(gp_reg, 64) executor \<Rightarrow> 64 orig_fn \<Rightarrow> 64 word \<Rightarrow>
   64 word \<Rightarrow> 64 word \<Rightarrow> 64 word \<Rightarrow> (gp_reg, 64) macro" where
  "CALL_FN_W_WWWW_ppc64be run orig arg1 arg2 arg3 arg4 =
     CALL_FN_toc run asm_WWWW_ppc64be (Op 1) (Op 0) orig [arg1, arg2, arg3, arg4]"

definition CALL_FN_W_5W_ppc64be :: "(gp_reg, 64) executor \<Rightarrow> 64 orig_fn \<Rightarrow> 64 word \<Rightarrow>
   64 word \<Rightarrow> 64 word \<Rightarrow> 64 word \<Rightarrow> 64 word \<Rightarrow> (gp_reg, 64) macro" where
  "CALL_FN_W_5W_ppc64be run orig arg1 arg2 arg3 arg4 arg5 =
     CALL_FN_toc run asm_5W_ppc64be (Op 1) (Op 0) orig [arg1, arg2, arg3, arg4, arg5]"

definition CALL_FN_W_6W_ppc64be :: "(gp_reg, 64) executor \<Rightarrow> 64 orig_fn \<Rightarrow> 64 word \<Rightarrow>
   64 word \<Rightarrow> 64 word \<Rightarrow> 64 word \<Rightarrow> 64 word \<Rightarrow> 64 word \<Rightarrow> (gp_reg, 64) macro" where
  "CALL_FN_W_6W_ppc64be run orig arg1 arg2 arg3 arg4 arg5 arg6 =
     CALL_FN_toc run asm_6W_ppc64be (Op 1) (Op 0) orig [arg1, arg2, arg3, arg4, arg5, arg6]"

definition CALL_FN_W_7W_ppc64be :: "(gp_reg, 64) executor \<Rightarrow> 64 orig_fn \<Rightarrow> 64 word \<Rightarrow>
   64 word \<Rightarrow> 64 word \<Rightarrow> 64 word \<Rightarrow> 64 word \<Rightarrow> 64 word \<Rightarrow> 64 word \<Rightarrow> (gp_reg, 64) macro" where
  "CALL_FN_W_7W_ppc64be run orig arg1 arg2 arg3 arg4 arg5 arg6 arg7 =
     CALL_FN_toc run asm_7W_ppc64be (Op 1) (Op 0) orig [arg1, arg2, arg3, arg4, arg5, arg6, arg7]"

definition CALL_FN_W_8W_ppc64be :: "(gp_reg, 64) executor \<Rightarrow> 64 orig_fn \<Rightarrow> 64 word \<Rightarrow>
   64 word \<Rightarrow> 64 word \<Rightarrow> 64 word \<Rightarrow> 64 word \<Rightarrow> 64 word \<Rightarrow> 64 word \<Rightarrow> 64 word \<Rightarrow> (gp_reg, 64) macro" where
  "CALL_FN_W_8W_ppc64be run orig arg1 arg2 arg3 arg4 arg5 arg6 arg7 arg8 =
     CALL_FN_toc run asm_8W_ppc64be (Op 1) (Op 0) orig
       [arg1, arg2, arg3, arg4, arg5, arg6, arg7, arg8]"

definition CALL_FN_W_9W_ppc64be :: "(gp_reg, 64) executor \<Rightarrow> 64 orig_fn \<Rightarrow> 64 word \<Rightarrow>
   64 word \<Rightarrow> 64 word \<Rightarrow> 64 word \<Rightarrow> 64 word \<Rightarrow> 64 word \<Rightarrow> 64 word \<Rightarrow> 64 word \<Rightarrow> 64 word \<Rightarrow> (gp_reg, 64) macro" where
  "CALL_FN_W_9W_ppc64be run orig arg1 arg2 arg3 arg4 arg5 arg6 arg7 arg8 arg9 =
     CALL_FN_toc run asm_9W_ppc64be (Op 1) (Op 0) orig
       [arg1, arg2, arg3, arg4, arg5, arg6, arg7, arg8, arg9]"

definition CALL_FN_W_10W_ppc64be :: "(gp_reg, 64) executor \<Rightarrow> 64 orig_fn \<Rightarrow> 64 word \<Rightarrow>
   64 word \<Rightarrow> 64 word \<Rightarrow> 64 word \<Rightarrow> 64 word \<Rightarrow> 64 word \<Rightarrow> 64 word \<Rightarrow> 64 word \<Rightarrow> 64 word \<Rightarrow> 64 word \<Rightarrow> (gp_reg, 64) macro" where
  "CALL_FN_W_10W_ppc64be run orig arg1 arg2 arg3 arg4 arg5 arg6 arg7 arg8 arg9 arg10 =
     CALL_FN_toc run asm_10W_ppc64be (Op 1) (Op 0) orig
       [arg1, arg2, arg3, arg4, arg5, arg6, arg7, arg8, arg9, arg10]"

definition CALL_FN_W_11W_ppc64be :: "(gp_reg, 64) executor \<Rightarrow> 64 orig_fn \<Rightarrow> 64 word \<Rightarrow>
   64 word \<Rightarrow> 64 word \<Rightarrow> 64 word \<Rightarrow> 64 word \<Rightarrow> 64 word \<Rightarrow> 64 word \<Rightarrow> 64 word \<Rightarrow> 64 word \<Rightarrow> 64 word \<Rightarrow> 64 word \<Rightarrow> (gp_reg, 64) macro" where
  "CALL_FN_W_11W_ppc64be run orig arg1 arg2 arg3 arg4 arg5 arg6 arg7 arg8 arg9 arg10 arg11 =
     CALL_FN_toc run asm_11W_ppc64be (Op 1) (Op 0) orig
       [arg1, arg2, arg3, arg4, arg5, arg6, arg7, arg8, arg9, arg10, arg11]"

definition CALL_FN_W_12W_ppc64be :: "(gp_reg, 64) executor \<Rightarrow> 64 orig_fn \<Rightarrow> 64 word \<Rightarrow>
   64 word \<Rightarrow> 64 word \<Rightarrow> 64 word \<Rightarrow> 64 word \<Rightarrow> 64 word \<Rightarrow> 64 word \<Rightarrow> 64 word \<Rightarrow> 64 word \<Rightarrow> 64 word \<Rightarrow> 64 word \<Rightarrow> 64 word \<Rightarrow> (gp_reg, 64) macro" where
  "CALL_FN_W_12W_ppc64be run orig arg1 arg2 arg3 arg4 arg5 arg6 arg7 arg8 arg9 arg10 arg11 arg12 =
     CALL_FN_toc run asm_12W_ppc64be (Op 1) (Op 0) orig
       [arg1, arg2, arg3, arg4, arg5, arg6, arg7, arg8, arg9, arg10, arg11, arg12]"

text \<open>All of them, by the list of arguments.\<close>

fun CALL_FN_W_ppc64be ::
  "(gp_reg, 64) executor \<Rightarrow> 64 orig_fn \<Rightarrow> 64 word list \<Rightarrow> (gp_reg, 64) macro" where
  "CALL_FN_W_ppc64be run orig [] = CALL_FN_W_v_ppc64be run orig"
| "CALL_FN_W_ppc64be run orig [a] = CALL_FN_W_W_ppc64be run orig a"
| "CALL_FN_W_ppc64be run orig [a, b] = CALL_FN_W_WW_ppc64be run orig a b"
| "CALL_FN_W_ppc64be run orig [a, b, c] = CALL_FN_W_WWW_ppc64be run orig a b c"
| "CALL_FN_W_ppc64be run orig [a, b, c, d] = CALL_FN_W_WWWW_ppc64be run orig a b c d"
| "CALL_FN_W_ppc64be run orig [a, b, c, d, e] = CALL_FN_W_5W_ppc64be run orig a b c d e"
| "CALL_FN_W_ppc64be run orig [a, b, c, d, e, f] = CALL_FN_W_6W_ppc64be run orig a b c d e f"
| "CALL_FN_W_ppc64be run orig [a, b, c, d, e, f, g] = CALL_FN_W_7W_ppc64be run orig a b c d e f g"
| "CALL_FN_W_ppc64be run orig [a, b, c, d, e, f, g, h] = CALL_FN_W_8W_ppc64be run orig a b c d e f g h"
| "CALL_FN_W_ppc64be run orig [a, b, c, d, e, f, g, h, i] = CALL_FN_W_9W_ppc64be run orig a b c d e f g h i"
| "CALL_FN_W_ppc64be run orig [a, b, c, d, e, f, g, h, i, j] = CALL_FN_W_10W_ppc64be run orig a b c d e f g h i j"
| "CALL_FN_W_ppc64be run orig [a, b, c, d, e, f, g, h, i, j, k] = CALL_FN_W_11W_ppc64be run orig a b c d e f g h i j k"
| "CALL_FN_W_ppc64be run orig [a, b, c, d, e, f, g, h, i, j, k, l] = CALL_FN_W_12W_ppc64be run orig a b c d e f g h i j k l"
| "CALL_FN_W_ppc64be run orig _ = (\<lambda>_ _. Err Undefined)"

lemmas CALL_FN_ppc64be_defs =
  CALL_FN_W_v_ppc64be_def CALL_FN_W_W_ppc64be_def CALL_FN_W_WW_ppc64be_def CALL_FN_W_WWW_ppc64be_def CALL_FN_W_WWWW_ppc64be_def
  CALL_FN_W_5W_ppc64be_def CALL_FN_W_6W_ppc64be_def CALL_FN_W_7W_ppc64be_def CALL_FN_W_8W_ppc64be_def CALL_FN_W_9W_ppc64be_def
  CALL_FN_W_10W_ppc64be_def CALL_FN_W_11W_ppc64be_def CALL_FN_W_12W_ppc64be_def

section \<open>The macros for ppc64le\<close>

definition VALGRIND_ALIGN_STACK_ppc64le :: "gp_reg instr list" where
  "VALGRIND_ALIGN_STACK_ppc64le = [Mov (G 28) (G 1), Rotl_mask (G 1) (G 1) 0 0 59]"

definition VALGRIND_RESTORE_STACK_ppc64le :: "gp_reg instr list" where
  "VALGRIND_RESTORE_STACK_ppc64le = [Mov (G 1) (G 28)]"

definition asm_v_ppc64le :: "gp_reg instr list" where
  "asm_v_ppc64le =
     VALGRIND_ALIGN_STACK_ppc64le @
     [Mov (G 12) (Op 1), Str (G 2) (G 12) (- 16), Ldr (G 2) (G 12) (- 8), Ldr (G 12) (G 12) 0] @
     VALGRIND_BRANCH_AND_LINK_TO_NOREDIR_R12_ppc64le @
     [Mov (G 12) (Op 1), Mov (Op 0) (G 3), Ldr (G 2) (G 12) (- 16)] @
     VALGRIND_RESTORE_STACK_ppc64le"

definition asm_W_ppc64le :: "gp_reg instr list" where
  "asm_W_ppc64le =
     VALGRIND_ALIGN_STACK_ppc64le @
     [Mov (G 12) (Op 1), Str (G 2) (G 12) (- 16), Ldr (G 2) (G 12) (- 8), Ldr (G 3) (G 12) 8,
      Ldr (G 12) (G 12) 0] @
     VALGRIND_BRANCH_AND_LINK_TO_NOREDIR_R12_ppc64le @
     [Mov (G 12) (Op 1), Mov (Op 0) (G 3), Ldr (G 2) (G 12) (- 16)] @
     VALGRIND_RESTORE_STACK_ppc64le"

definition asm_WW_ppc64le :: "gp_reg instr list" where
  "asm_WW_ppc64le =
     VALGRIND_ALIGN_STACK_ppc64le @
     [Mov (G 12) (Op 1), Str (G 2) (G 12) (- 16), Ldr (G 2) (G 12) (- 8), Ldr (G 3) (G 12) 8,
      Ldr (G 4) (G 12) 16, Ldr (G 12) (G 12) 0] @
     VALGRIND_BRANCH_AND_LINK_TO_NOREDIR_R12_ppc64le @
     [Mov (G 12) (Op 1), Mov (Op 0) (G 3), Ldr (G 2) (G 12) (- 16)] @
     VALGRIND_RESTORE_STACK_ppc64le"

definition asm_WWW_ppc64le :: "gp_reg instr list" where
  "asm_WWW_ppc64le =
     VALGRIND_ALIGN_STACK_ppc64le @
     [Mov (G 12) (Op 1), Str (G 2) (G 12) (- 16), Ldr (G 2) (G 12) (- 8), Ldr (G 3) (G 12) 8,
      Ldr (G 4) (G 12) 16, Ldr (G 5) (G 12) 24, Ldr (G 12) (G 12) 0] @
     VALGRIND_BRANCH_AND_LINK_TO_NOREDIR_R12_ppc64le @
     [Mov (G 12) (Op 1), Mov (Op 0) (G 3), Ldr (G 2) (G 12) (- 16)] @
     VALGRIND_RESTORE_STACK_ppc64le"

definition asm_WWWW_ppc64le :: "gp_reg instr list" where
  "asm_WWWW_ppc64le =
     VALGRIND_ALIGN_STACK_ppc64le @
     [Mov (G 12) (Op 1), Str (G 2) (G 12) (- 16), Ldr (G 2) (G 12) (- 8), Ldr (G 3) (G 12) 8,
      Ldr (G 4) (G 12) 16, Ldr (G 5) (G 12) 24, Ldr (G 6) (G 12) 32, Ldr (G 12) (G 12) 0] @
     VALGRIND_BRANCH_AND_LINK_TO_NOREDIR_R12_ppc64le @
     [Mov (G 12) (Op 1), Mov (Op 0) (G 3), Ldr (G 2) (G 12) (- 16)] @
     VALGRIND_RESTORE_STACK_ppc64le"

definition asm_5W_ppc64le :: "gp_reg instr list" where
  "asm_5W_ppc64le =
     VALGRIND_ALIGN_STACK_ppc64le @
     [Mov (G 12) (Op 1), Str (G 2) (G 12) (- 16), Ldr (G 2) (G 12) (- 8), Ldr (G 3) (G 12) 8,
      Ldr (G 4) (G 12) 16, Ldr (G 5) (G 12) 24, Ldr (G 6) (G 12) 32, Ldr (G 7) (G 12) 40,
      Ldr (G 12) (G 12) 0] @
     VALGRIND_BRANCH_AND_LINK_TO_NOREDIR_R12_ppc64le @
     [Mov (G 12) (Op 1), Mov (Op 0) (G 3), Ldr (G 2) (G 12) (- 16)] @
     VALGRIND_RESTORE_STACK_ppc64le"

definition asm_6W_ppc64le :: "gp_reg instr list" where
  "asm_6W_ppc64le =
     VALGRIND_ALIGN_STACK_ppc64le @
     [Mov (G 12) (Op 1), Str (G 2) (G 12) (- 16), Ldr (G 2) (G 12) (- 8), Ldr (G 3) (G 12) 8,
      Ldr (G 4) (G 12) 16, Ldr (G 5) (G 12) 24, Ldr (G 6) (G 12) 32, Ldr (G 7) (G 12) 40,
      Ldr (G 8) (G 12) 48, Ldr (G 12) (G 12) 0] @
     VALGRIND_BRANCH_AND_LINK_TO_NOREDIR_R12_ppc64le @
     [Mov (G 12) (Op 1), Mov (Op 0) (G 3), Ldr (G 2) (G 12) (- 16)] @
     VALGRIND_RESTORE_STACK_ppc64le"

definition asm_7W_ppc64le :: "gp_reg instr list" where
  "asm_7W_ppc64le =
     VALGRIND_ALIGN_STACK_ppc64le @
     [Mov (G 12) (Op 1), Str (G 2) (G 12) (- 16), Ldr (G 2) (G 12) (- 8), Ldr (G 3) (G 12) 8,
      Ldr (G 4) (G 12) 16, Ldr (G 5) (G 12) 24, Ldr (G 6) (G 12) 32, Ldr (G 7) (G 12) 40,
      Ldr (G 8) (G 12) 48, Ldr (G 9) (G 12) 56, Ldr (G 12) (G 12) 0] @
     VALGRIND_BRANCH_AND_LINK_TO_NOREDIR_R12_ppc64le @
     [Mov (G 12) (Op 1), Mov (Op 0) (G 3), Ldr (G 2) (G 12) (- 16)] @
     VALGRIND_RESTORE_STACK_ppc64le"

definition asm_8W_ppc64le :: "gp_reg instr list" where
  "asm_8W_ppc64le =
     VALGRIND_ALIGN_STACK_ppc64le @
     [Mov (G 12) (Op 1), Str (G 2) (G 12) (- 16), Ldr (G 2) (G 12) (- 8), Ldr (G 3) (G 12) 8,
      Ldr (G 4) (G 12) 16, Ldr (G 5) (G 12) 24, Ldr (G 6) (G 12) 32, Ldr (G 7) (G 12) 40,
      Ldr (G 8) (G 12) 48, Ldr (G 9) (G 12) 56, Ldr (G 10) (G 12) 64, Ldr (G 12) (G 12) 0] @
     VALGRIND_BRANCH_AND_LINK_TO_NOREDIR_R12_ppc64le @
     [Mov (G 12) (Op 1), Mov (Op 0) (G 3), Ldr (G 2) (G 12) (- 16)] @
     VALGRIND_RESTORE_STACK_ppc64le"

definition asm_9W_ppc64le :: "gp_reg instr list" where
  "asm_9W_ppc64le =
     VALGRIND_ALIGN_STACK_ppc64le @
     [Mov (G 12) (Op 1), Str (G 2) (G 12) (- 16), Ldr (G 2) (G 12) (- 8), Sub_imm (G 1) 128,
      Ldr (G 3) (G 12) 72, Str (G 3) (G 1) 96, Ldr (G 3) (G 12) 8, Ldr (G 4) (G 12) 16,
      Ldr (G 5) (G 12) 24, Ldr (G 6) (G 12) 32, Ldr (G 7) (G 12) 40, Ldr (G 8) (G 12) 48,
      Ldr (G 9) (G 12) 56, Ldr (G 10) (G 12) 64, Ldr (G 12) (G 12) 0] @
     VALGRIND_BRANCH_AND_LINK_TO_NOREDIR_R12_ppc64le @
     [Mov (G 12) (Op 1), Mov (Op 0) (G 3), Ldr (G 2) (G 12) (- 16)] @
     VALGRIND_RESTORE_STACK_ppc64le"

definition asm_10W_ppc64le :: "gp_reg instr list" where
  "asm_10W_ppc64le =
     VALGRIND_ALIGN_STACK_ppc64le @
     [Mov (G 12) (Op 1), Str (G 2) (G 12) (- 16), Ldr (G 2) (G 12) (- 8), Sub_imm (G 1) 128,
      Ldr (G 3) (G 12) 80, Str (G 3) (G 1) 104, Ldr (G 3) (G 12) 72, Str (G 3) (G 1) 96,
      Ldr (G 3) (G 12) 8, Ldr (G 4) (G 12) 16, Ldr (G 5) (G 12) 24, Ldr (G 6) (G 12) 32,
      Ldr (G 7) (G 12) 40, Ldr (G 8) (G 12) 48, Ldr (G 9) (G 12) 56, Ldr (G 10) (G 12) 64,
      Ldr (G 12) (G 12) 0] @
     VALGRIND_BRANCH_AND_LINK_TO_NOREDIR_R12_ppc64le @
     [Mov (G 12) (Op 1), Mov (Op 0) (G 3), Ldr (G 2) (G 12) (- 16)] @
     VALGRIND_RESTORE_STACK_ppc64le"

definition asm_11W_ppc64le :: "gp_reg instr list" where
  "asm_11W_ppc64le =
     VALGRIND_ALIGN_STACK_ppc64le @
     [Mov (G 12) (Op 1), Str (G 2) (G 12) (- 16), Ldr (G 2) (G 12) (- 8), Sub_imm (G 1) 144,
      Ldr (G 3) (G 12) 88, Str (G 3) (G 1) 112, Ldr (G 3) (G 12) 80, Str (G 3) (G 1) 104,
      Ldr (G 3) (G 12) 72, Str (G 3) (G 1) 96, Ldr (G 3) (G 12) 8, Ldr (G 4) (G 12) 16,
      Ldr (G 5) (G 12) 24, Ldr (G 6) (G 12) 32, Ldr (G 7) (G 12) 40, Ldr (G 8) (G 12) 48,
      Ldr (G 9) (G 12) 56, Ldr (G 10) (G 12) 64, Ldr (G 12) (G 12) 0] @
     VALGRIND_BRANCH_AND_LINK_TO_NOREDIR_R12_ppc64le @
     [Mov (G 12) (Op 1), Mov (Op 0) (G 3), Ldr (G 2) (G 12) (- 16)] @
     VALGRIND_RESTORE_STACK_ppc64le"

definition asm_12W_ppc64le :: "gp_reg instr list" where
  "asm_12W_ppc64le =
     VALGRIND_ALIGN_STACK_ppc64le @
     [Mov (G 12) (Op 1), Str (G 2) (G 12) (- 16), Ldr (G 2) (G 12) (- 8), Sub_imm (G 1) 144,
      Ldr (G 3) (G 12) 96, Str (G 3) (G 1) 120, Ldr (G 3) (G 12) 88, Str (G 3) (G 1) 112,
      Ldr (G 3) (G 12) 80, Str (G 3) (G 1) 104, Ldr (G 3) (G 12) 72, Str (G 3) (G 1) 96,
      Ldr (G 3) (G 12) 8, Ldr (G 4) (G 12) 16, Ldr (G 5) (G 12) 24, Ldr (G 6) (G 12) 32,
      Ldr (G 7) (G 12) 40, Ldr (G 8) (G 12) 48, Ldr (G 9) (G 12) 56, Ldr (G 10) (G 12) 64,
      Ldr (G 12) (G 12) 0] @
     VALGRIND_BRANCH_AND_LINK_TO_NOREDIR_R12_ppc64le @
     [Mov (G 12) (Op 1), Mov (Op 0) (G 3), Ldr (G 2) (G 12) (- 16)] @
     VALGRIND_RESTORE_STACK_ppc64le"

text \<open>The assembly for \<open>n\<close> arguments.\<close>

definition asm_ppc64le :: "nat \<Rightarrow> gp_reg instr list" where
  "asm_ppc64le n =
     [asm_v_ppc64le, asm_W_ppc64le, asm_WW_ppc64le, asm_WWW_ppc64le, asm_WWWW_ppc64le,
      asm_5W_ppc64le, asm_6W_ppc64le, asm_7W_ppc64le, asm_8W_ppc64le, asm_9W_ppc64le,
      asm_10W_ppc64le, asm_11W_ppc64le, asm_12W_ppc64le] ! n"

lemmas asm_ppc64le_defs =
  asm_v_ppc64le_def asm_W_ppc64le_def asm_WW_ppc64le_def asm_WWW_ppc64le_def asm_WWWW_ppc64le_def
  asm_5W_ppc64le_def asm_6W_ppc64le_def asm_7W_ppc64le_def asm_8W_ppc64le_def asm_9W_ppc64le_def
  asm_10W_ppc64le_def asm_11W_ppc64le_def asm_12W_ppc64le_def

definition CALL_FN_W_v_ppc64le :: "(gp_reg, 64) executor \<Rightarrow> 64 orig_fn \<Rightarrow> (gp_reg, 64) macro" where
  "CALL_FN_W_v_ppc64le run orig =
     CALL_FN_toc run asm_v_ppc64le (Op 1) (Op 0) orig []"

definition CALL_FN_W_W_ppc64le :: "(gp_reg, 64) executor \<Rightarrow> 64 orig_fn \<Rightarrow> 64 word \<Rightarrow> (gp_reg, 64) macro" where
  "CALL_FN_W_W_ppc64le run orig arg1 =
     CALL_FN_toc run asm_W_ppc64le (Op 1) (Op 0) orig [arg1]"

definition CALL_FN_W_WW_ppc64le :: "(gp_reg, 64) executor \<Rightarrow> 64 orig_fn \<Rightarrow> 64 word \<Rightarrow>
   64 word \<Rightarrow> (gp_reg, 64) macro" where
  "CALL_FN_W_WW_ppc64le run orig arg1 arg2 =
     CALL_FN_toc run asm_WW_ppc64le (Op 1) (Op 0) orig [arg1, arg2]"

definition CALL_FN_W_WWW_ppc64le :: "(gp_reg, 64) executor \<Rightarrow> 64 orig_fn \<Rightarrow> 64 word \<Rightarrow>
   64 word \<Rightarrow> 64 word \<Rightarrow> (gp_reg, 64) macro" where
  "CALL_FN_W_WWW_ppc64le run orig arg1 arg2 arg3 =
     CALL_FN_toc run asm_WWW_ppc64le (Op 1) (Op 0) orig [arg1, arg2, arg3]"

definition CALL_FN_W_WWWW_ppc64le :: "(gp_reg, 64) executor \<Rightarrow> 64 orig_fn \<Rightarrow> 64 word \<Rightarrow>
   64 word \<Rightarrow> 64 word \<Rightarrow> 64 word \<Rightarrow> (gp_reg, 64) macro" where
  "CALL_FN_W_WWWW_ppc64le run orig arg1 arg2 arg3 arg4 =
     CALL_FN_toc run asm_WWWW_ppc64le (Op 1) (Op 0) orig [arg1, arg2, arg3, arg4]"

definition CALL_FN_W_5W_ppc64le :: "(gp_reg, 64) executor \<Rightarrow> 64 orig_fn \<Rightarrow> 64 word \<Rightarrow>
   64 word \<Rightarrow> 64 word \<Rightarrow> 64 word \<Rightarrow> 64 word \<Rightarrow> (gp_reg, 64) macro" where
  "CALL_FN_W_5W_ppc64le run orig arg1 arg2 arg3 arg4 arg5 =
     CALL_FN_toc run asm_5W_ppc64le (Op 1) (Op 0) orig [arg1, arg2, arg3, arg4, arg5]"

definition CALL_FN_W_6W_ppc64le :: "(gp_reg, 64) executor \<Rightarrow> 64 orig_fn \<Rightarrow> 64 word \<Rightarrow>
   64 word \<Rightarrow> 64 word \<Rightarrow> 64 word \<Rightarrow> 64 word \<Rightarrow> 64 word \<Rightarrow> (gp_reg, 64) macro" where
  "CALL_FN_W_6W_ppc64le run orig arg1 arg2 arg3 arg4 arg5 arg6 =
     CALL_FN_toc run asm_6W_ppc64le (Op 1) (Op 0) orig [arg1, arg2, arg3, arg4, arg5, arg6]"

definition CALL_FN_W_7W_ppc64le :: "(gp_reg, 64) executor \<Rightarrow> 64 orig_fn \<Rightarrow> 64 word \<Rightarrow>
   64 word \<Rightarrow> 64 word \<Rightarrow> 64 word \<Rightarrow> 64 word \<Rightarrow> 64 word \<Rightarrow> 64 word \<Rightarrow> (gp_reg, 64) macro" where
  "CALL_FN_W_7W_ppc64le run orig arg1 arg2 arg3 arg4 arg5 arg6 arg7 =
     CALL_FN_toc run asm_7W_ppc64le (Op 1) (Op 0) orig [arg1, arg2, arg3, arg4, arg5, arg6, arg7]"

definition CALL_FN_W_8W_ppc64le :: "(gp_reg, 64) executor \<Rightarrow> 64 orig_fn \<Rightarrow> 64 word \<Rightarrow>
   64 word \<Rightarrow> 64 word \<Rightarrow> 64 word \<Rightarrow> 64 word \<Rightarrow> 64 word \<Rightarrow> 64 word \<Rightarrow> 64 word \<Rightarrow> (gp_reg, 64) macro" where
  "CALL_FN_W_8W_ppc64le run orig arg1 arg2 arg3 arg4 arg5 arg6 arg7 arg8 =
     CALL_FN_toc run asm_8W_ppc64le (Op 1) (Op 0) orig
       [arg1, arg2, arg3, arg4, arg5, arg6, arg7, arg8]"

definition CALL_FN_W_9W_ppc64le :: "(gp_reg, 64) executor \<Rightarrow> 64 orig_fn \<Rightarrow> 64 word \<Rightarrow>
   64 word \<Rightarrow> 64 word \<Rightarrow> 64 word \<Rightarrow> 64 word \<Rightarrow> 64 word \<Rightarrow> 64 word \<Rightarrow> 64 word \<Rightarrow> 64 word \<Rightarrow> (gp_reg, 64) macro" where
  "CALL_FN_W_9W_ppc64le run orig arg1 arg2 arg3 arg4 arg5 arg6 arg7 arg8 arg9 =
     CALL_FN_toc run asm_9W_ppc64le (Op 1) (Op 0) orig
       [arg1, arg2, arg3, arg4, arg5, arg6, arg7, arg8, arg9]"

definition CALL_FN_W_10W_ppc64le :: "(gp_reg, 64) executor \<Rightarrow> 64 orig_fn \<Rightarrow> 64 word \<Rightarrow>
   64 word \<Rightarrow> 64 word \<Rightarrow> 64 word \<Rightarrow> 64 word \<Rightarrow> 64 word \<Rightarrow> 64 word \<Rightarrow> 64 word \<Rightarrow> 64 word \<Rightarrow> 64 word \<Rightarrow> (gp_reg, 64) macro" where
  "CALL_FN_W_10W_ppc64le run orig arg1 arg2 arg3 arg4 arg5 arg6 arg7 arg8 arg9 arg10 =
     CALL_FN_toc run asm_10W_ppc64le (Op 1) (Op 0) orig
       [arg1, arg2, arg3, arg4, arg5, arg6, arg7, arg8, arg9, arg10]"

definition CALL_FN_W_11W_ppc64le :: "(gp_reg, 64) executor \<Rightarrow> 64 orig_fn \<Rightarrow> 64 word \<Rightarrow>
   64 word \<Rightarrow> 64 word \<Rightarrow> 64 word \<Rightarrow> 64 word \<Rightarrow> 64 word \<Rightarrow> 64 word \<Rightarrow> 64 word \<Rightarrow> 64 word \<Rightarrow> 64 word \<Rightarrow> 64 word \<Rightarrow> (gp_reg, 64) macro" where
  "CALL_FN_W_11W_ppc64le run orig arg1 arg2 arg3 arg4 arg5 arg6 arg7 arg8 arg9 arg10 arg11 =
     CALL_FN_toc run asm_11W_ppc64le (Op 1) (Op 0) orig
       [arg1, arg2, arg3, arg4, arg5, arg6, arg7, arg8, arg9, arg10, arg11]"

definition CALL_FN_W_12W_ppc64le :: "(gp_reg, 64) executor \<Rightarrow> 64 orig_fn \<Rightarrow> 64 word \<Rightarrow>
   64 word \<Rightarrow> 64 word \<Rightarrow> 64 word \<Rightarrow> 64 word \<Rightarrow> 64 word \<Rightarrow> 64 word \<Rightarrow> 64 word \<Rightarrow> 64 word \<Rightarrow> 64 word \<Rightarrow> 64 word \<Rightarrow> 64 word \<Rightarrow> (gp_reg, 64) macro" where
  "CALL_FN_W_12W_ppc64le run orig arg1 arg2 arg3 arg4 arg5 arg6 arg7 arg8 arg9 arg10 arg11 arg12 =
     CALL_FN_toc run asm_12W_ppc64le (Op 1) (Op 0) orig
       [arg1, arg2, arg3, arg4, arg5, arg6, arg7, arg8, arg9, arg10, arg11, arg12]"

text \<open>All of them, by the list of arguments.\<close>

fun CALL_FN_W_ppc64le ::
  "(gp_reg, 64) executor \<Rightarrow> 64 orig_fn \<Rightarrow> 64 word list \<Rightarrow> (gp_reg, 64) macro" where
  "CALL_FN_W_ppc64le run orig [] = CALL_FN_W_v_ppc64le run orig"
| "CALL_FN_W_ppc64le run orig [a] = CALL_FN_W_W_ppc64le run orig a"
| "CALL_FN_W_ppc64le run orig [a, b] = CALL_FN_W_WW_ppc64le run orig a b"
| "CALL_FN_W_ppc64le run orig [a, b, c] = CALL_FN_W_WWW_ppc64le run orig a b c"
| "CALL_FN_W_ppc64le run orig [a, b, c, d] = CALL_FN_W_WWWW_ppc64le run orig a b c d"
| "CALL_FN_W_ppc64le run orig [a, b, c, d, e] = CALL_FN_W_5W_ppc64le run orig a b c d e"
| "CALL_FN_W_ppc64le run orig [a, b, c, d, e, f] = CALL_FN_W_6W_ppc64le run orig a b c d e f"
| "CALL_FN_W_ppc64le run orig [a, b, c, d, e, f, g] = CALL_FN_W_7W_ppc64le run orig a b c d e f g"
| "CALL_FN_W_ppc64le run orig [a, b, c, d, e, f, g, h] = CALL_FN_W_8W_ppc64le run orig a b c d e f g h"
| "CALL_FN_W_ppc64le run orig [a, b, c, d, e, f, g, h, i] = CALL_FN_W_9W_ppc64le run orig a b c d e f g h i"
| "CALL_FN_W_ppc64le run orig [a, b, c, d, e, f, g, h, i, j] = CALL_FN_W_10W_ppc64le run orig a b c d e f g h i j"
| "CALL_FN_W_ppc64le run orig [a, b, c, d, e, f, g, h, i, j, k] = CALL_FN_W_11W_ppc64le run orig a b c d e f g h i j k"
| "CALL_FN_W_ppc64le run orig [a, b, c, d, e, f, g, h, i, j, k, l] = CALL_FN_W_12W_ppc64le run orig a b c d e f g h i j k l"
| "CALL_FN_W_ppc64le run orig _ = (\<lambda>_ _. Err Undefined)"

lemmas CALL_FN_ppc64le_defs =
  CALL_FN_W_v_ppc64le_def CALL_FN_W_W_ppc64le_def CALL_FN_W_WW_ppc64le_def CALL_FN_W_WWW_ppc64le_def CALL_FN_W_WWWW_ppc64le_def
  CALL_FN_W_5W_ppc64le_def CALL_FN_W_6W_ppc64le_def CALL_FN_W_7W_ppc64le_def CALL_FN_W_8W_ppc64le_def CALL_FN_W_9W_ppc64le_def
  CALL_FN_W_10W_ppc64le_def CALL_FN_W_11W_ppc64le_def CALL_FN_W_12W_ppc64le_def

end
