(* ===== verification/Vg_ConvPpc.thy ===== *)
theory Vg_ConvPpc
  imports Vg_Conv Vg_CallPpc
begin

text \<open>
  The \<^verbatim>\<open>CALL_FN_W_*\<close> macros of ppc32 and ppc64 follow their calling conventions: interpretations of the
  locale \<open>call_macros\<close> and the property.
\<close>

section \<open>The macros\<close>

lemmas ppc32_defs =
  asm_ppc32_def asm_ppc32_defs VALGRIND_ALIGN_STACK_ppc32_def VALGRIND_RESTORE_STACK_ppc32_def
  VALGRIND_BRANCH_AND_LINK_TO_NOREDIR_R11_ppc32_def SPECIAL_INSTRUCTION_PREAMBLE_ppc32_def middle_def final_def

lemmas ppc64be_defs =
  asm_ppc64be_def asm_ppc64be_defs VALGRIND_ALIGN_STACK_ppc64be_def VALGRIND_RESTORE_STACK_ppc64be_def
  VALGRIND_BRANCH_AND_LINK_TO_NOREDIR_R11_ppc64be_def SPECIAL_INSTRUCTION_PREAMBLE_ppc64be_def middle_def final_def

lemmas ppc64le_defs =
  asm_ppc64le_def asm_ppc64le_defs VALGRIND_ALIGN_STACK_ppc64le_def VALGRIND_RESTORE_STACK_ppc64le_def
  VALGRIND_BRANCH_AND_LINK_TO_NOREDIR_R12_ppc64le_def SPECIAL_INSTRUCTION_PREAMBLE_ppc64le_def middle_def final_def

interpretation ppc32: call_macros isa_ppc32 "asm_ppc32" "VALGRIND_ALIGN_STACK_ppc32" "\<lambda>n. middle 2 7 (asm_ppc32 n)"
  "Orr (G 3) (G 3) (G 3)" "\<lambda>n. VALGRIND_RESTORE_STACK_ppc32 @ [Mov (Op 0) (G 3)]" "[G 3, G 4, G 5, G 6, G 7, G 8, G 9, G 10]" "G 11" "[]" "\<lambda>_. Op 1" "G 3" "Op 0"
  "\<lambda>n. [(G 1, Reg (G 28) 0)]" "\<lambda>_. G 28" True 4 0 2 8 0 0 "TYPE(32)"
proof unfold_locales
  show "asm_ppc32 n = VALGRIND_ALIGN_STACK_ppc32 @ (middle 2 7 (asm_ppc32 n)) @ preamble isa_ppc32 @ Orr (G 3) (G 3) (G 3) # (VALGRIND_RESTORE_STACK_ppc32 @ [Mov (Op 0) (G 3)])" if "n \<le> 12" for n
    by (rule upto_12 [OF that]) (simp_all add: ppc32_defs platform_preambles)
  show "hd (preamble isa_ppc32) \<notin> set (middle 2 7 (asm_ppc32 n)) \<union> set (VALGRIND_RESTORE_STACK_ppc32 @ [Mov (Op 0) (G 3)])" if "n \<le> 12" for n
    by (rule upto_12 [OF that]) (simp_all add: ppc32_defs platform_preambles)
  show "case abs_seq (stack_reg isa_ppc32) 0 8 0 (0 + 0) a (middle 2 7 (asm_ppc32 (length args)))
        (r, [], replicate 0 None @ map Some (pre @ orig # args)) of
      None \<Rightarrow> False
    | Some x \<Rightarrow> ready [G 3, G 4, G 5, G 6, G 7, G 8, G 9, G 10] (G 11) [] 4 2 8 ([(G 1, Reg (G 28) 0)]) pre orig args (r \<circ> (\<lambda>_. G 28)) x"
    if len: "length args \<le> 12" and np: "length pre = 0" and arg: "r (Op 1) = a" for args pre :: "32 word list" and r a orig
  proof -
    have pre: "pre = []" using np by simp
    have "r (Op 1) = a \<longrightarrow> ?thesis"
      unfolding pre by (rule args_cases [OF len]) (simp_all add: ppc32_defs ready_def reserved_words offset_def, presburger+)
    then show ?thesis using arg by blast
  qed
qed (auto simp: platform_isa_defs ppc32_defs elem_def offset_def align_down_same fetch_def ppc_mask_align)

interpretation ppc64be: call_macros isa_ppc64be "asm_ppc64be" "VALGRIND_ALIGN_STACK_ppc64be" "\<lambda>n. middle 2 9 (asm_ppc64be n)"
  "Orr (G 3) (G 3) (G 3)" "\<lambda>n. [Mov (G 11) (Op 1), Mov (Op 0) (G 3), Ldr (G 2) (G 11) (- 16)] @ VALGRIND_RESTORE_STACK_ppc64be" "[G 3, G 4, G 5, G 6, G 7, G 8, G 9, G 10]" "G 11" "[G 2]" "\<lambda>_. Op 1" "G 3" "Op 0"
  "\<lambda>n. [(G 1, Reg (G 28) 0), (G 2, Array 0), (Op 1, Reg (Op 1) 0)]" "id(G 1 := G 28)" True 4 0 14 18 1 1 "TYPE(64)"
proof unfold_locales
  show "asm_ppc64be n = VALGRIND_ALIGN_STACK_ppc64be @ (middle 2 9 (asm_ppc64be n)) @ preamble isa_ppc64be @ Orr (G 3) (G 3) (G 3) # ([Mov (G 11) (Op 1), Mov (Op 0) (G 3), Ldr (G 2) (G 11) (- 16)] @ VALGRIND_RESTORE_STACK_ppc64be)" if "n \<le> 12" for n
    by (rule upto_12 [OF that]) (simp_all add: ppc64be_defs platform_preambles)
  show "hd (preamble isa_ppc64be) \<notin> set (middle 2 9 (asm_ppc64be n)) \<union> set ([Mov (G 11) (Op 1), Mov (Op 0) (G 3), Ldr (G 2) (G 11) (- 16)] @ VALGRIND_RESTORE_STACK_ppc64be)" if "n \<le> 12" for n
    by (rule upto_12 [OF that]) (simp_all add: ppc64be_defs platform_preambles)
  show "case abs_seq (stack_reg isa_ppc64be) 0 18 1 (1 + 1) a (middle 2 9 (asm_ppc64be (length args)))
        (r, [], replicate 1 None @ map Some (pre @ orig # args)) of
      None \<Rightarrow> False
    | Some x \<Rightarrow> ready [G 3, G 4, G 5, G 6, G 7, G 8, G 9, G 10] (G 11) [G 2] 4 14 18 ([(G 1, Reg (G 28) 0), (G 2, Array 0), (Op 1, Reg (Op 1) 0)]) pre orig args (r \<circ> (id(G 1 := G 28))) x"
    if len: "length args \<le> 12" and np: "length pre = 1" and arg: "r (Op 1) = a" for args pre :: "64 word list" and r a orig
  proof -
    obtain t where pre: "pre = [t]" using np by (auto simp: length_Suc_conv)
    show ?thesis unfolding pre
      by (rule args_cases [OF len]) (simp_all add: arg [unfolded One_nat_def] ppc64be_defs ready_def reserved_words)
  qed
qed (auto simp: platform_isa_defs ppc64be_defs elem_def offset_def align_down_same fetch_def ppc_mask_align)

interpretation ppc64le: call_macros isa_ppc64le "asm_ppc64le" "VALGRIND_ALIGN_STACK_ppc64le" "\<lambda>n. middle 2 9 (asm_ppc64le n)"
  "Orr (G 3) (G 3) (G 3)" "\<lambda>n. [Mov (G 12) (Op 1), Mov (Op 0) (G 3), Ldr (G 2) (G 12) (- 16)] @ VALGRIND_RESTORE_STACK_ppc64le" "[G 3, G 4, G 5, G 6, G 7, G 8, G 9, G 10]" "G 12" "[G 2]" "\<lambda>_. Op 1" "G 3" "Op 0"
  "\<lambda>n. [(G 1, Reg (G 28) 0), (G 2, Array 0), (Op 1, Reg (Op 1) 0)]" "id(G 1 := G 28)" True 4 0 12 18 1 1 "TYPE(64)"
proof unfold_locales
  show "asm_ppc64le n = VALGRIND_ALIGN_STACK_ppc64le @ (middle 2 9 (asm_ppc64le n)) @ preamble isa_ppc64le @ Orr (G 3) (G 3) (G 3) # ([Mov (G 12) (Op 1), Mov (Op 0) (G 3), Ldr (G 2) (G 12) (- 16)] @ VALGRIND_RESTORE_STACK_ppc64le)" if "n \<le> 12" for n
    by (rule upto_12 [OF that]) (simp_all add: ppc64le_defs platform_preambles)
  show "hd (preamble isa_ppc64le) \<notin> set (middle 2 9 (asm_ppc64le n)) \<union> set ([Mov (G 12) (Op 1), Mov (Op 0) (G 3), Ldr (G 2) (G 12) (- 16)] @ VALGRIND_RESTORE_STACK_ppc64le)" if "n \<le> 12" for n
    by (rule upto_12 [OF that]) (simp_all add: ppc64le_defs platform_preambles)
  show "case abs_seq (stack_reg isa_ppc64le) 0 18 1 (1 + 1) a (middle 2 9 (asm_ppc64le (length args)))
        (r, [], replicate 1 None @ map Some (pre @ orig # args)) of
      None \<Rightarrow> False
    | Some x \<Rightarrow> ready [G 3, G 4, G 5, G 6, G 7, G 8, G 9, G 10] (G 12) [G 2] 4 12 18 ([(G 1, Reg (G 28) 0), (G 2, Array 0), (Op 1, Reg (Op 1) 0)]) pre orig args (r \<circ> (id(G 1 := G 28))) x"
    if len: "length args \<le> 12" and np: "length pre = 1" and arg: "r (Op 1) = a" for args pre :: "64 word list" and r a orig
  proof -
    obtain t where pre: "pre = [t]" using np by (auto simp: length_Suc_conv)
    show ?thesis unfolding pre
      by (rule args_cases [OF len]) (simp_all add: arg [unfolded One_nat_def] ppc64le_defs ready_def reserved_words)
  qed
qed (auto simp: platform_isa_defs ppc64le_defs elem_def offset_def align_down_same fetch_def ppc_mask_align)

section \<open>The conventions\<close>

text \<open>The macros execute their assembly.\<close>

lemma CALL_FN_toc_as_pre:
  "CALL_FN_toc run asm arg res orig args = CALL_FN_pre run asm arg res [r2 orig] (nraddr orig) args"
  by (simp add: fun_eq_iff CALL_FN_toc_def CALL_FN_pre_def)

lemma CALL_FN_W_asm_ppc32:
  assumes "length args \<le> 12"
  shows "CALL_FN_W_ppc32 run orig args = CALL_FN_pre run (asm_ppc32 (length args)) (Op 1) (Op 0) [] orig args"
  by (rule args_cases [OF assms]) (simp_all add: CALL_FN_ppc32_defs asm_ppc32_def CALL_FN_as_pre)

lemma CALL_FN_W_asm_ppc64:
  assumes "length args \<le> 12"
  shows "CALL_FN_W_ppc64be run orig args =
      CALL_FN_pre run (asm_ppc64be (length args)) (Op 1) (Op 0) [r2 orig] (nraddr orig) args"
    "CALL_FN_W_ppc64le run orig args =
      CALL_FN_pre run (asm_ppc64le (length args)) (Op 1) (Op 0) [r2 orig] (nraddr orig) args"
  by (rule args_cases [OF assms],
      simp_all add: CALL_FN_ppc64be_defs asm_ppc64be_def CALL_FN_ppc64le_defs asm_ppc64le_def CALL_FN_toc_as_pre)+

text \<open>The two byte orders of ppc64.\<close>

definition isa_ppc64 :: "bool \<Rightarrow> gp_reg isa" where
  "isa_ppc64 le = (if le then isa_ppc64le else isa_ppc64be)"

definition CALL_FN_W_ppc64 :: "bool \<Rightarrow> (gp_reg, 64) executor \<Rightarrow> 64 orig_fn \<Rightarrow> 64 word list \<Rightarrow> (gp_reg, 64) macro" where
  "CALL_FN_W_ppc64 le = (if le then CALL_FN_W_ppc64le else CALL_FN_W_ppc64be)"

text \<open>
  On ppc32 the first eight arguments are in r3 to r10, the others on the stack from the third word on.
\<close>

theorem CALL_FN_W_ppc32_convention:
  fixes st :: "(gp_reg, 32) cpu"
  assumes "length args \<le> 12" "48 \<le> unat (regs st (G 1))" "unat (regs st (G 1)) \<le> unat a"
    "unat a + 4 * (length args + 1) \<le> 2 ^ 32"
    "\<And>s1 s2. callee s1 = Ok s2 \<Longrightarrow> regs s2 (G 28) = regs s1 (G 28)"
  shows "\<exists>st1. callee_entry isa_ppc32 [G 3, G 4, G 5, G 6, G 7, G 8, G 9, G 10] (G 11) 4 0 2 [] orig args
      (put_words a (orig # args) st) st1 \<and>
    (\<forall>st2. callee st1 = Ok st2 \<longrightarrow>
      (\<exists>st'. CALL_FN_W_ppc32 (vg_exec isa_ppc32 (valgrind_hooks isa_ppc32 f nr callee)) orig args a st =
          Ok (regs st2 (G 3), st') \<and> cells st' = cells st2 \<and> regs st' (G 1) = regs st (G 1)))"
  using ppc32.call [of args "[]" st a callee orig f nr] assms
  by (simp add: slots_def CALL_FN_W_asm_ppc32 [OF assms(1)]) blast

text \<open>
  C31: The macros for 0 to 12 arguments on ppc64, in both byte orders: the called function finds its address in r11
  (big endian) or r12 (little endian), the pointer to its table of contents in r2, the first eight arguments in
  r3 to r10 and the others in the parameter area of the stack frame, on a stack aligned to 16
  bytes and with the memory of the caller intact except for the first word of the array. When it returns, having
  kept its callee-saved registers and that word, the macro yields its result and the caller has its stack pointer
  and its own pointer to the table of contents back.
\<close>

theorem CALL_FN_W_ppc64_convention:
  fixes st :: "(gp_reg, 64) cpu"
  assumes len: "length args \<le> 12" and room: "160 \<le> unat (regs st (G 1))"
    and arr: "unat (regs st (G 1)) + 16 \<le> unat a" "unat a + 8 * (length args + 1) \<le> 2 ^ 64"
    and callee: "\<And>s1 s2. callee s1 = Ok s2 \<Longrightarrow>
      regs s2 (G 28) = regs s1 (G 28) \<and> regs s2 (Op 1) = regs s1 (Op 1) \<and> cells s2 (a - 16) = cells s1 (a - 16)"
  shows "\<exists>st1. callee_entry (isa_ppc64 le) [G 3, G 4, G 5, G 6, G 7, G 8, G 9, G 10] (G (if le then 12 else 11)) 4 0
      (if le then 12 else 14) [a - 16] (nraddr orig) args (put_words (a - 8) (r2 orig # nraddr orig # args) st) st1 \<and>
    regs st1 (G 2) = r2 orig \<and>
    (\<forall>st2. callee st1 = Ok st2 \<longrightarrow>
      (\<exists>st'. CALL_FN_W_ppc64 le (vg_exec (isa_ppc64 le) (valgrind_hooks (isa_ppc64 le) f nr callee)) orig args a st =
          Ok (regs st2 (G 3), st') \<and> cells st' = cells st2 \<and>
        regs st' (G 1) = regs st (G 1) \<and> regs st' (G 2) = regs st (G 2)))"
proof -
  have el: "elem 2 a 0 = a - 16" "elem (Suc (Suc 0)) a 0 = a - 16" "(offset (Suc 0) :: 64 word) = 8"
    by (simp_all add: elem_def offset_def)
  have c: "list_all (\<lambda>(x, p). place_val b 2 a s2 p = place_val b 2 a s1 p)
      [(G 1, Reg (G 28) 0), (G 2, Array 0), (Op 1, Reg (Op 1) 0)]" if "callee s1 = Ok s2" for s1 s2 b
    using callee [OF that] by (simp add: el)
  show ?thesis
  proof (cases le)
    case True
    from ppc64le.call [of args "[r2 orig]" st a callee "nraddr orig" f nr] len room arr c show ?thesis
      by (simp add: True slots_def el CALL_FN_W_asm_ppc64 [OF len] isa_ppc64_def CALL_FN_W_ppc64_def del: put_words.simps) blast
  next
    case False
    from ppc64be.call [of args "[r2 orig]" st a callee "nraddr orig" f nr] len room arr c show ?thesis
      by (simp add: False slots_def el CALL_FN_W_asm_ppc64 [OF len] isa_ppc64_def CALL_FN_W_ppc64_def del: put_words.simps) blast
  qed
qed

text \<open>A function that adds its two arguments, and a sample state.\<close>

definition add_ppc :: "(gp_reg, 64) cpu \<Rightarrow> (gp_reg, 64) cpu outcome" where
  "add_ppc s = Ok (set_reg (G 3) (regs s (G 3) + regs s (G 4)) s)"

definition sample_ppc :: "(gp_reg, 64) cpu" where
  "sample_ppc = \<lparr>regs = (\<lambda>_. 0)(G 1 := 0x1000, G 2 := 5), cells = (\<lambda>_. None)\<rparr>"

theorem CALL_FN_W_ppc64_convention_witness:
  "\<exists>st'. CALL_FN_W_ppc64 True (vg_exec isa_ppc64le (valgrind_hooks isa_ppc64le (\<lambda>_. 0) \<lparr>nraddr = 0, r2 = 0\<rparr> add_ppc))
      \<lparr>nraddr = 7, r2 = 3\<rparr> [30, 12] 0x2000 sample_ppc = Ok (42, st') \<and> regs st' (G 1) = 0x1000 \<and> regs st' (G 2) = 5"
proof -
  have "add_ppc s1 = Ok s2 \<Longrightarrow> regs s2 (G 28) = regs s1 (G 28) \<and> regs s2 (Op 1) = regs s1 (Op 1) \<and>
      cells s2 (0x2000 - 16) = cells s1 (0x2000 - 16)" for s1 s2
    by (auto simp: add_ppc_def)
  from CALL_FN_W_ppc64_convention [of "[30, 12]" sample_ppc "0x2000" add_ppc True "\<lparr>nraddr = 7, r2 = 3\<rparr>" "\<lambda>_. 0"
      "\<lparr>nraddr = 0, r2 = 0\<rparr>"] this
  obtain st1 where entry: "callee_entry isa_ppc64le [G 3, G 4, G 5, G 6, G 7, G 8, G 9, G 10] (G 12) 4 0 12 [0x1FF0] 7 [30, 12]
      (put_words 0x1FF8 [3, 7, 30, 12] sample_ppc) st1"
    and ret: "\<And>st2. add_ppc st1 = Ok st2 \<Longrightarrow>
      \<exists>st'. CALL_FN_W_ppc64 True (vg_exec isa_ppc64le (valgrind_hooks isa_ppc64le (\<lambda>_. 0) \<lparr>nraddr = 0, r2 = 0\<rparr> add_ppc))
          \<lparr>nraddr = 7, r2 = 3\<rparr> [30, 12] 0x2000 sample_ppc = Ok (regs st2 (G 3), st') \<and> cells st' = cells st2 \<and>
        regs st' (G 1) = regs sample_ppc (G 1) \<and> regs st' (G 2) = regs sample_ppc (G 2)"
    by (auto simp: sample_ppc_def isa_ppc64_def simp del: put_words.simps)
  from entry have "add_ppc st1 = Ok (set_reg (G 3) 42 st1)"
    by (simp add: add_ppc_def callee_entry_def)
  from ret [OF this] show ?thesis by (auto simp: sample_ppc_def)
qed

end
