(* ===== verification/Vg_CallRest.thy ===== *)
theory Vg_CallRest
  imports Vg_CallDefs Vg_Platforms
begin

text \<open>
  The macros \<^verbatim>\<open>CALL_FN_W_*\<close> of \<^verbatim>\<open>valgrind.h\<close> for s390x, mips32 and mips64, transcribed instruction by instruction.

  On s390x the register of the result is a parameter: the compiler chooses it, and it need not be apart
  from register 11, which the prologue changes without telling the compiler.
\<close>

section \<open>The macros for s390x\<close>

definition VALGRIND_CFI_PROLOGUE_s390x :: "gp_reg instr list" where
  "VALGRIND_CFI_PROLOGUE_s390x = [Directive, Mov (G 1) (Op 1), Mov (G 7) (G 11), Mov (G 11) (Op 2), Directive]"

definition VALGRIND_CFI_EPILOGUE_s390x :: "gp_reg instr list" where
  "VALGRIND_CFI_EPILOGUE_s390x = [Mov (G 11) (G 7), Directive]"

definition asm_v_s390x :: "gp_reg \<Rightarrow> gp_reg instr list" where
  "asm_v_s390x res =
     VALGRIND_CFI_PROLOGUE_s390x @
     [Sub_imm (G 15) 160, Ldr (G 1) (G 1) 0] @
     VALGRIND_CALL_NOREDIR_R1_s390x @
     [Mov res (G 2), Add_imm (G 15) 160] @
     VALGRIND_CFI_EPILOGUE_s390x"

definition asm_W_s390x :: "gp_reg \<Rightarrow> gp_reg instr list" where
  "asm_W_s390x res =
     VALGRIND_CFI_PROLOGUE_s390x @
     [Sub_imm (G 15) 160, Ldr (G 2) (G 1) 8, Ldr (G 1) (G 1) 0] @
     VALGRIND_CALL_NOREDIR_R1_s390x @
     [Mov res (G 2), Add_imm (G 15) 160] @
     VALGRIND_CFI_EPILOGUE_s390x"

definition asm_WW_s390x :: "gp_reg \<Rightarrow> gp_reg instr list" where
  "asm_WW_s390x res =
     VALGRIND_CFI_PROLOGUE_s390x @
     [Sub_imm (G 15) 160, Ldr (G 2) (G 1) 8, Ldr (G 3) (G 1) 16, Ldr (G 1) (G 1) 0] @
     VALGRIND_CALL_NOREDIR_R1_s390x @
     [Mov res (G 2), Add_imm (G 15) 160] @
     VALGRIND_CFI_EPILOGUE_s390x"

definition asm_WWW_s390x :: "gp_reg \<Rightarrow> gp_reg instr list" where
  "asm_WWW_s390x res =
     VALGRIND_CFI_PROLOGUE_s390x @
     [Sub_imm (G 15) 160, Ldr (G 2) (G 1) 8, Ldr (G 3) (G 1) 16, Ldr (G 4) (G 1) 24,
      Ldr (G 1) (G 1) 0] @
     VALGRIND_CALL_NOREDIR_R1_s390x @
     [Mov res (G 2), Add_imm (G 15) 160] @
     VALGRIND_CFI_EPILOGUE_s390x"

definition asm_WWWW_s390x :: "gp_reg \<Rightarrow> gp_reg instr list" where
  "asm_WWWW_s390x res =
     VALGRIND_CFI_PROLOGUE_s390x @
     [Sub_imm (G 15) 160, Ldr (G 2) (G 1) 8, Ldr (G 3) (G 1) 16, Ldr (G 4) (G 1) 24,
      Ldr (G 5) (G 1) 32, Ldr (G 1) (G 1) 0] @
     VALGRIND_CALL_NOREDIR_R1_s390x @
     [Mov res (G 2), Add_imm (G 15) 160] @
     VALGRIND_CFI_EPILOGUE_s390x"

definition asm_5W_s390x :: "gp_reg \<Rightarrow> gp_reg instr list" where
  "asm_5W_s390x res =
     VALGRIND_CFI_PROLOGUE_s390x @
     [Sub_imm (G 15) 160, Ldr (G 2) (G 1) 8, Ldr (G 3) (G 1) 16, Ldr (G 4) (G 1) 24,
      Ldr (G 5) (G 1) 32, Ldr (G 6) (G 1) 40, Ldr (G 1) (G 1) 0] @
     VALGRIND_CALL_NOREDIR_R1_s390x @
     [Mov res (G 2), Add_imm (G 15) 160] @
     VALGRIND_CFI_EPILOGUE_s390x"

definition asm_6W_s390x :: "gp_reg \<Rightarrow> gp_reg instr list" where
  "asm_6W_s390x res =
     VALGRIND_CFI_PROLOGUE_s390x @
     [Sub_imm (G 15) 168, Ldr (G 2) (G 1) 8, Ldr (G 3) (G 1) 16, Ldr (G 4) (G 1) 24,
      Ldr (G 5) (G 1) 32, Ldr (G 6) (G 1) 40, Mvc (G 15) 160 (G 1) 48, Ldr (G 1) (G 1) 0] @
     VALGRIND_CALL_NOREDIR_R1_s390x @
     [Mov res (G 2), Add_imm (G 15) 168] @
     VALGRIND_CFI_EPILOGUE_s390x"

definition asm_7W_s390x :: "gp_reg \<Rightarrow> gp_reg instr list" where
  "asm_7W_s390x res =
     VALGRIND_CFI_PROLOGUE_s390x @
     [Sub_imm (G 15) 176, Ldr (G 2) (G 1) 8, Ldr (G 3) (G 1) 16, Ldr (G 4) (G 1) 24,
      Ldr (G 5) (G 1) 32, Ldr (G 6) (G 1) 40, Mvc (G 15) 160 (G 1) 48, Mvc (G 15) 168 (G 1) 56,
      Ldr (G 1) (G 1) 0] @
     VALGRIND_CALL_NOREDIR_R1_s390x @
     [Mov res (G 2), Add_imm (G 15) 176] @
     VALGRIND_CFI_EPILOGUE_s390x"

definition asm_8W_s390x :: "gp_reg \<Rightarrow> gp_reg instr list" where
  "asm_8W_s390x res =
     VALGRIND_CFI_PROLOGUE_s390x @
     [Sub_imm (G 15) 184, Ldr (G 2) (G 1) 8, Ldr (G 3) (G 1) 16, Ldr (G 4) (G 1) 24,
      Ldr (G 5) (G 1) 32, Ldr (G 6) (G 1) 40, Mvc (G 15) 160 (G 1) 48, Mvc (G 15) 168 (G 1) 56,
      Mvc (G 15) 176 (G 1) 64, Ldr (G 1) (G 1) 0] @
     VALGRIND_CALL_NOREDIR_R1_s390x @
     [Mov res (G 2), Add_imm (G 15) 184] @
     VALGRIND_CFI_EPILOGUE_s390x"

definition asm_9W_s390x :: "gp_reg \<Rightarrow> gp_reg instr list" where
  "asm_9W_s390x res =
     VALGRIND_CFI_PROLOGUE_s390x @
     [Sub_imm (G 15) 192, Ldr (G 2) (G 1) 8, Ldr (G 3) (G 1) 16, Ldr (G 4) (G 1) 24,
      Ldr (G 5) (G 1) 32, Ldr (G 6) (G 1) 40, Mvc (G 15) 160 (G 1) 48, Mvc (G 15) 168 (G 1) 56,
      Mvc (G 15) 176 (G 1) 64, Mvc (G 15) 184 (G 1) 72, Ldr (G 1) (G 1) 0] @
     VALGRIND_CALL_NOREDIR_R1_s390x @
     [Mov res (G 2), Add_imm (G 15) 192] @
     VALGRIND_CFI_EPILOGUE_s390x"

definition asm_10W_s390x :: "gp_reg \<Rightarrow> gp_reg instr list" where
  "asm_10W_s390x res =
     VALGRIND_CFI_PROLOGUE_s390x @
     [Sub_imm (G 15) 200, Ldr (G 2) (G 1) 8, Ldr (G 3) (G 1) 16, Ldr (G 4) (G 1) 24,
      Ldr (G 5) (G 1) 32, Ldr (G 6) (G 1) 40, Mvc (G 15) 160 (G 1) 48, Mvc (G 15) 168 (G 1) 56,
      Mvc (G 15) 176 (G 1) 64, Mvc (G 15) 184 (G 1) 72, Mvc (G 15) 192 (G 1) 80, Ldr (G 1) (G 1) 0] @
     VALGRIND_CALL_NOREDIR_R1_s390x @
     [Mov res (G 2), Add_imm (G 15) 200] @
     VALGRIND_CFI_EPILOGUE_s390x"

definition asm_11W_s390x :: "gp_reg \<Rightarrow> gp_reg instr list" where
  "asm_11W_s390x res =
     VALGRIND_CFI_PROLOGUE_s390x @
     [Sub_imm (G 15) 208, Ldr (G 2) (G 1) 8, Ldr (G 3) (G 1) 16, Ldr (G 4) (G 1) 24,
      Ldr (G 5) (G 1) 32, Ldr (G 6) (G 1) 40, Mvc (G 15) 160 (G 1) 48, Mvc (G 15) 168 (G 1) 56,
      Mvc (G 15) 176 (G 1) 64, Mvc (G 15) 184 (G 1) 72, Mvc (G 15) 192 (G 1) 80,
      Mvc (G 15) 200 (G 1) 88, Ldr (G 1) (G 1) 0] @
     VALGRIND_CALL_NOREDIR_R1_s390x @
     [Mov res (G 2), Add_imm (G 15) 208] @
     VALGRIND_CFI_EPILOGUE_s390x"

definition asm_12W_s390x :: "gp_reg \<Rightarrow> gp_reg instr list" where
  "asm_12W_s390x res =
     VALGRIND_CFI_PROLOGUE_s390x @
     [Sub_imm (G 15) 216, Ldr (G 2) (G 1) 8, Ldr (G 3) (G 1) 16, Ldr (G 4) (G 1) 24,
      Ldr (G 5) (G 1) 32, Ldr (G 6) (G 1) 40, Mvc (G 15) 160 (G 1) 48, Mvc (G 15) 168 (G 1) 56,
      Mvc (G 15) 176 (G 1) 64, Mvc (G 15) 184 (G 1) 72, Mvc (G 15) 192 (G 1) 80,
      Mvc (G 15) 200 (G 1) 88, Mvc (G 15) 208 (G 1) 96, Ldr (G 1) (G 1) 0] @
     VALGRIND_CALL_NOREDIR_R1_s390x @
     [Mov res (G 2), Add_imm (G 15) 216] @
     VALGRIND_CFI_EPILOGUE_s390x"

text \<open>The assembly for \<open>n\<close> arguments.\<close>

definition asm_s390x :: "gp_reg \<Rightarrow> nat \<Rightarrow> gp_reg instr list" where
  "asm_s390x res n =
     [asm_v_s390x res, asm_W_s390x res, asm_WW_s390x res, asm_WWW_s390x res, asm_WWWW_s390x res,
      asm_5W_s390x res, asm_6W_s390x res, asm_7W_s390x res, asm_8W_s390x res, asm_9W_s390x res,
      asm_10W_s390x res, asm_11W_s390x res, asm_12W_s390x res] ! n"

lemmas asm_s390x_defs =
  asm_v_s390x_def asm_W_s390x_def asm_WW_s390x_def asm_WWW_s390x_def asm_WWWW_s390x_def
  asm_5W_s390x_def asm_6W_s390x_def asm_7W_s390x_def asm_8W_s390x_def asm_9W_s390x_def
  asm_10W_s390x_def asm_11W_s390x_def asm_12W_s390x_def

definition CALL_FN_W_v_s390x :: "gp_reg \<Rightarrow> (gp_reg, 64) executor \<Rightarrow> 64 word \<Rightarrow> (gp_reg, 64) macro" where
  "CALL_FN_W_v_s390x res run orig =
     CALL_FN run (asm_v_s390x res) (Op 1) res orig []"

definition CALL_FN_W_W_s390x :: "gp_reg \<Rightarrow> (gp_reg, 64) executor \<Rightarrow> 64 word \<Rightarrow>
   64 word \<Rightarrow> (gp_reg, 64) macro" where
  "CALL_FN_W_W_s390x res run orig arg1 =
     CALL_FN run (asm_W_s390x res) (Op 1) res orig [arg1]"

definition CALL_FN_W_WW_s390x :: "gp_reg \<Rightarrow> (gp_reg, 64) executor \<Rightarrow> 64 word \<Rightarrow>
   64 word \<Rightarrow> 64 word \<Rightarrow> (gp_reg, 64) macro" where
  "CALL_FN_W_WW_s390x res run orig arg1 arg2 =
     CALL_FN run (asm_WW_s390x res) (Op 1) res orig [arg1, arg2]"

definition CALL_FN_W_WWW_s390x :: "gp_reg \<Rightarrow> (gp_reg, 64) executor \<Rightarrow> 64 word \<Rightarrow>
   64 word \<Rightarrow> 64 word \<Rightarrow> 64 word \<Rightarrow> (gp_reg, 64) macro" where
  "CALL_FN_W_WWW_s390x res run orig arg1 arg2 arg3 =
     CALL_FN run (asm_WWW_s390x res) (Op 1) res orig [arg1, arg2, arg3]"

definition CALL_FN_W_WWWW_s390x :: "gp_reg \<Rightarrow> (gp_reg, 64) executor \<Rightarrow> 64 word \<Rightarrow>
   64 word \<Rightarrow> 64 word \<Rightarrow> 64 word \<Rightarrow> 64 word \<Rightarrow> (gp_reg, 64) macro" where
  "CALL_FN_W_WWWW_s390x res run orig arg1 arg2 arg3 arg4 =
     CALL_FN run (asm_WWWW_s390x res) (Op 1) res orig [arg1, arg2, arg3, arg4]"

definition CALL_FN_W_5W_s390x :: "gp_reg \<Rightarrow> (gp_reg, 64) executor \<Rightarrow> 64 word \<Rightarrow>
   64 word \<Rightarrow> 64 word \<Rightarrow> 64 word \<Rightarrow> 64 word \<Rightarrow> 64 word \<Rightarrow> (gp_reg, 64) macro" where
  "CALL_FN_W_5W_s390x res run orig arg1 arg2 arg3 arg4 arg5 =
     CALL_FN run (asm_5W_s390x res) (Op 1) res orig [arg1, arg2, arg3, arg4, arg5]"

definition CALL_FN_W_6W_s390x :: "gp_reg \<Rightarrow> (gp_reg, 64) executor \<Rightarrow> 64 word \<Rightarrow>
   64 word \<Rightarrow> 64 word \<Rightarrow> 64 word \<Rightarrow> 64 word \<Rightarrow> 64 word \<Rightarrow> 64 word \<Rightarrow> (gp_reg, 64) macro" where
  "CALL_FN_W_6W_s390x res run orig arg1 arg2 arg3 arg4 arg5 arg6 =
     CALL_FN run (asm_6W_s390x res) (Op 1) res orig [arg1, arg2, arg3, arg4, arg5, arg6]"

definition CALL_FN_W_7W_s390x :: "gp_reg \<Rightarrow> (gp_reg, 64) executor \<Rightarrow> 64 word \<Rightarrow>
   64 word \<Rightarrow> 64 word \<Rightarrow> 64 word \<Rightarrow> 64 word \<Rightarrow> 64 word \<Rightarrow> 64 word \<Rightarrow> 64 word \<Rightarrow> (gp_reg, 64) macro" where
  "CALL_FN_W_7W_s390x res run orig arg1 arg2 arg3 arg4 arg5 arg6 arg7 =
     CALL_FN run (asm_7W_s390x res) (Op 1) res orig [arg1, arg2, arg3, arg4, arg5, arg6, arg7]"

definition CALL_FN_W_8W_s390x :: "gp_reg \<Rightarrow> (gp_reg, 64) executor \<Rightarrow> 64 word \<Rightarrow>
   64 word \<Rightarrow> 64 word \<Rightarrow> 64 word \<Rightarrow> 64 word \<Rightarrow> 64 word \<Rightarrow> 64 word \<Rightarrow> 64 word \<Rightarrow> 64 word \<Rightarrow> (gp_reg, 64) macro" where
  "CALL_FN_W_8W_s390x res run orig arg1 arg2 arg3 arg4 arg5 arg6 arg7 arg8 =
     CALL_FN run (asm_8W_s390x res) (Op 1) res orig [arg1, arg2, arg3, arg4, arg5, arg6, arg7, arg8]"

definition CALL_FN_W_9W_s390x :: "gp_reg \<Rightarrow> (gp_reg, 64) executor \<Rightarrow> 64 word \<Rightarrow>
   64 word \<Rightarrow> 64 word \<Rightarrow> 64 word \<Rightarrow> 64 word \<Rightarrow> 64 word \<Rightarrow> 64 word \<Rightarrow> 64 word \<Rightarrow> 64 word \<Rightarrow> 64 word \<Rightarrow> (gp_reg, 64) macro" where
  "CALL_FN_W_9W_s390x res run orig arg1 arg2 arg3 arg4 arg5 arg6 arg7 arg8 arg9 =
     CALL_FN run (asm_9W_s390x res) (Op 1) res orig
       [arg1, arg2, arg3, arg4, arg5, arg6, arg7, arg8, arg9]"

definition CALL_FN_W_10W_s390x :: "gp_reg \<Rightarrow> (gp_reg, 64) executor \<Rightarrow> 64 word \<Rightarrow>
   64 word \<Rightarrow> 64 word \<Rightarrow> 64 word \<Rightarrow> 64 word \<Rightarrow> 64 word \<Rightarrow> 64 word \<Rightarrow> 64 word \<Rightarrow> 64 word \<Rightarrow> 64 word \<Rightarrow> 64 word \<Rightarrow> (gp_reg, 64) macro" where
  "CALL_FN_W_10W_s390x res run orig arg1 arg2 arg3 arg4 arg5 arg6 arg7 arg8 arg9 arg10 =
     CALL_FN run (asm_10W_s390x res) (Op 1) res orig
       [arg1, arg2, arg3, arg4, arg5, arg6, arg7, arg8, arg9, arg10]"

definition CALL_FN_W_11W_s390x :: "gp_reg \<Rightarrow> (gp_reg, 64) executor \<Rightarrow> 64 word \<Rightarrow>
   64 word \<Rightarrow> 64 word \<Rightarrow> 64 word \<Rightarrow> 64 word \<Rightarrow> 64 word \<Rightarrow> 64 word \<Rightarrow> 64 word \<Rightarrow> 64 word \<Rightarrow> 64 word \<Rightarrow> 64 word \<Rightarrow> 64 word \<Rightarrow> (gp_reg, 64) macro" where
  "CALL_FN_W_11W_s390x res run orig arg1 arg2 arg3 arg4 arg5 arg6 arg7 arg8 arg9 arg10 arg11 =
     CALL_FN run (asm_11W_s390x res) (Op 1) res orig
       [arg1, arg2, arg3, arg4, arg5, arg6, arg7, arg8, arg9, arg10, arg11]"

definition CALL_FN_W_12W_s390x :: "gp_reg \<Rightarrow> (gp_reg, 64) executor \<Rightarrow> 64 word \<Rightarrow>
   64 word \<Rightarrow> 64 word \<Rightarrow> 64 word \<Rightarrow> 64 word \<Rightarrow> 64 word \<Rightarrow> 64 word \<Rightarrow> 64 word \<Rightarrow> 64 word \<Rightarrow> 64 word \<Rightarrow> 64 word \<Rightarrow> 64 word \<Rightarrow> 64 word \<Rightarrow> (gp_reg, 64) macro" where
  "CALL_FN_W_12W_s390x res run orig arg1 arg2 arg3 arg4 arg5 arg6 arg7 arg8 arg9 arg10 arg11 arg12 =
     CALL_FN run (asm_12W_s390x res) (Op 1) res orig
       [arg1, arg2, arg3, arg4, arg5, arg6, arg7, arg8, arg9, arg10, arg11, arg12]"

text \<open>All of them, by the list of arguments.\<close>

fun CALL_FN_W_s390x ::
  "gp_reg \<Rightarrow> (gp_reg, 64) executor \<Rightarrow> 64 word \<Rightarrow> 64 word list \<Rightarrow> (gp_reg, 64) macro" where
  "CALL_FN_W_s390x res run orig [] = CALL_FN_W_v_s390x res run orig"
| "CALL_FN_W_s390x res run orig [a] = CALL_FN_W_W_s390x res run orig a"
| "CALL_FN_W_s390x res run orig [a, b] = CALL_FN_W_WW_s390x res run orig a b"
| "CALL_FN_W_s390x res run orig [a, b, c] = CALL_FN_W_WWW_s390x res run orig a b c"
| "CALL_FN_W_s390x res run orig [a, b, c, d] = CALL_FN_W_WWWW_s390x res run orig a b c d"
| "CALL_FN_W_s390x res run orig [a, b, c, d, e] = CALL_FN_W_5W_s390x res run orig a b c d e"
| "CALL_FN_W_s390x res run orig [a, b, c, d, e, f] = CALL_FN_W_6W_s390x res run orig a b c d e f"
| "CALL_FN_W_s390x res run orig [a, b, c, d, e, f, g] = CALL_FN_W_7W_s390x res run orig a b c d e f g"
| "CALL_FN_W_s390x res run orig [a, b, c, d, e, f, g, h] = CALL_FN_W_8W_s390x res run orig a b c d e f g h"
| "CALL_FN_W_s390x res run orig [a, b, c, d, e, f, g, h, i] = CALL_FN_W_9W_s390x res run orig a b c d e f g h i"
| "CALL_FN_W_s390x res run orig [a, b, c, d, e, f, g, h, i, j] = CALL_FN_W_10W_s390x res run orig a b c d e f g h i j"
| "CALL_FN_W_s390x res run orig [a, b, c, d, e, f, g, h, i, j, k] = CALL_FN_W_11W_s390x res run orig a b c d e f g h i j k"
| "CALL_FN_W_s390x res run orig [a, b, c, d, e, f, g, h, i, j, k, l] = CALL_FN_W_12W_s390x res run orig a b c d e f g h i j k l"
| "CALL_FN_W_s390x res run orig _ = (\<lambda>_ _. Err Undefined)"

lemmas CALL_FN_s390x_defs =
  CALL_FN_W_v_s390x_def CALL_FN_W_W_s390x_def CALL_FN_W_WW_s390x_def CALL_FN_W_WWW_s390x_def CALL_FN_W_WWWW_s390x_def
  CALL_FN_W_5W_s390x_def CALL_FN_W_6W_s390x_def CALL_FN_W_7W_s390x_def CALL_FN_W_8W_s390x_def CALL_FN_W_9W_s390x_def
  CALL_FN_W_10W_s390x_def CALL_FN_W_11W_s390x_def CALL_FN_W_12W_s390x_def

section \<open>The macros for mips32\<close>

definition asm_v_mips32 :: "gp_reg instr list" where
  "asm_v_mips32 =
     [Sub_imm (G 29) 8, Str (G 28) (G 29) 0, Str (G 31) (G 29) 4, Sub_imm (G 29) 16, Ldr (G 25) (Op 0) 0] @
     VALGRIND_CALL_NOREDIR_T9_mips32 @
     [Add_imm (G 29) 16, Ldr (G 28) (G 29) 0, Ldr (G 31) (G 29) 4, Add_imm (G 29) 8, Mov (Op 0) (G 2)]"

definition asm_W_mips32 :: "gp_reg instr list" where
  "asm_W_mips32 =
     [Sub_imm (G 29) 8, Str (G 28) (G 29) 0, Str (G 31) (G 29) 4, Sub_imm (G 29) 16, Ldr (G 4) (Op 0) 4,
      Ldr (G 25) (Op 0) 0] @
     VALGRIND_CALL_NOREDIR_T9_mips32 @
     [Add_imm (G 29) 16, Ldr (G 28) (G 29) 0, Ldr (G 31) (G 29) 4, Add_imm (G 29) 8, Mov (Op 0) (G 2)]"

definition asm_WW_mips32 :: "gp_reg instr list" where
  "asm_WW_mips32 =
     [Sub_imm (G 29) 8, Str (G 28) (G 29) 0, Str (G 31) (G 29) 4, Sub_imm (G 29) 16, Ldr (G 4) (Op 0) 4,
      Ldr (G 5) (Op 0) 8, Ldr (G 25) (Op 0) 0] @
     VALGRIND_CALL_NOREDIR_T9_mips32 @
     [Add_imm (G 29) 16, Ldr (G 28) (G 29) 0, Ldr (G 31) (G 29) 4, Add_imm (G 29) 8, Mov (Op 0) (G 2)]"

definition asm_WWW_mips32 :: "gp_reg instr list" where
  "asm_WWW_mips32 =
     [Sub_imm (G 29) 8, Str (G 28) (G 29) 0, Str (G 31) (G 29) 4, Sub_imm (G 29) 16, Ldr (G 4) (Op 0) 4,
      Ldr (G 5) (Op 0) 8, Ldr (G 6) (Op 0) 12, Ldr (G 25) (Op 0) 0] @
     VALGRIND_CALL_NOREDIR_T9_mips32 @
     [Add_imm (G 29) 16, Ldr (G 28) (G 29) 0, Ldr (G 31) (G 29) 4, Add_imm (G 29) 8, Mov (Op 0) (G 2)]"

definition asm_WWWW_mips32 :: "gp_reg instr list" where
  "asm_WWWW_mips32 =
     [Sub_imm (G 29) 8, Str (G 28) (G 29) 0, Str (G 31) (G 29) 4, Sub_imm (G 29) 16, Ldr (G 4) (Op 0) 4,
      Ldr (G 5) (Op 0) 8, Ldr (G 6) (Op 0) 12, Ldr (G 7) (Op 0) 16, Ldr (G 25) (Op 0) 0] @
     VALGRIND_CALL_NOREDIR_T9_mips32 @
     [Add_imm (G 29) 16, Ldr (G 28) (G 29) 0, Ldr (G 31) (G 29) 4, Add_imm (G 29) 8, Mov (Op 0) (G 2)]"

definition asm_5W_mips32 :: "gp_reg instr list" where
  "asm_5W_mips32 =
     [Sub_imm (G 29) 8, Str (G 28) (G 29) 0, Str (G 31) (G 29) 4, Ldr (G 4) (Op 0) 20, Sub_imm (G 29) 24,
      Str (G 4) (G 29) 16, Ldr (G 4) (Op 0) 4, Ldr (G 5) (Op 0) 8, Ldr (G 6) (Op 0) 12,
      Ldr (G 7) (Op 0) 16, Ldr (G 25) (Op 0) 0] @
     VALGRIND_CALL_NOREDIR_T9_mips32 @
     [Add_imm (G 29) 24, Ldr (G 28) (G 29) 0, Ldr (G 31) (G 29) 4, Add_imm (G 29) 8, Mov (Op 0) (G 2)]"

definition asm_6W_mips32 :: "gp_reg instr list" where
  "asm_6W_mips32 =
     [Sub_imm (G 29) 8, Str (G 28) (G 29) 0, Str (G 31) (G 29) 4, Ldr (G 4) (Op 0) 20, Sub_imm (G 29) 32,
      Str (G 4) (G 29) 16, Ldr (G 4) (Op 0) 24, Directive, Str (G 4) (G 29) 20, Ldr (G 4) (Op 0) 4,
      Ldr (G 5) (Op 0) 8, Ldr (G 6) (Op 0) 12, Ldr (G 7) (Op 0) 16, Ldr (G 25) (Op 0) 0] @
     VALGRIND_CALL_NOREDIR_T9_mips32 @
     [Add_imm (G 29) 32, Ldr (G 28) (G 29) 0, Ldr (G 31) (G 29) 4, Add_imm (G 29) 8, Mov (Op 0) (G 2)]"

definition asm_7W_mips32 :: "gp_reg instr list" where
  "asm_7W_mips32 =
     [Sub_imm (G 29) 8, Str (G 28) (G 29) 0, Str (G 31) (G 29) 4, Ldr (G 4) (Op 0) 20, Sub_imm (G 29) 32,
      Str (G 4) (G 29) 16, Ldr (G 4) (Op 0) 24, Str (G 4) (G 29) 20, Ldr (G 4) (Op 0) 28,
      Str (G 4) (G 29) 24, Ldr (G 4) (Op 0) 4, Ldr (G 5) (Op 0) 8, Ldr (G 6) (Op 0) 12,
      Ldr (G 7) (Op 0) 16, Ldr (G 25) (Op 0) 0] @
     VALGRIND_CALL_NOREDIR_T9_mips32 @
     [Add_imm (G 29) 32, Ldr (G 28) (G 29) 0, Ldr (G 31) (G 29) 4, Add_imm (G 29) 8, Mov (Op 0) (G 2)]"

definition asm_8W_mips32 :: "gp_reg instr list" where
  "asm_8W_mips32 =
     [Sub_imm (G 29) 8, Str (G 28) (G 29) 0, Str (G 31) (G 29) 4, Ldr (G 4) (Op 0) 20, Sub_imm (G 29) 40,
      Str (G 4) (G 29) 16, Ldr (G 4) (Op 0) 24, Str (G 4) (G 29) 20, Ldr (G 4) (Op 0) 28,
      Str (G 4) (G 29) 24, Ldr (G 4) (Op 0) 32, Str (G 4) (G 29) 28, Ldr (G 4) (Op 0) 4,
      Ldr (G 5) (Op 0) 8, Ldr (G 6) (Op 0) 12, Ldr (G 7) (Op 0) 16, Ldr (G 25) (Op 0) 0] @
     VALGRIND_CALL_NOREDIR_T9_mips32 @
     [Add_imm (G 29) 40, Ldr (G 28) (G 29) 0, Ldr (G 31) (G 29) 4, Add_imm (G 29) 8, Mov (Op 0) (G 2)]"

definition asm_9W_mips32 :: "gp_reg instr list" where
  "asm_9W_mips32 =
     [Sub_imm (G 29) 8, Str (G 28) (G 29) 0, Str (G 31) (G 29) 4, Ldr (G 4) (Op 0) 20, Sub_imm (G 29) 40,
      Str (G 4) (G 29) 16, Ldr (G 4) (Op 0) 24, Str (G 4) (G 29) 20, Ldr (G 4) (Op 0) 28,
      Str (G 4) (G 29) 24, Ldr (G 4) (Op 0) 32, Str (G 4) (G 29) 28, Ldr (G 4) (Op 0) 36,
      Str (G 4) (G 29) 32, Ldr (G 4) (Op 0) 4, Ldr (G 5) (Op 0) 8, Ldr (G 6) (Op 0) 12,
      Ldr (G 7) (Op 0) 16, Ldr (G 25) (Op 0) 0] @
     VALGRIND_CALL_NOREDIR_T9_mips32 @
     [Add_imm (G 29) 40, Ldr (G 28) (G 29) 0, Ldr (G 31) (G 29) 4, Add_imm (G 29) 8, Mov (Op 0) (G 2)]"

definition asm_10W_mips32 :: "gp_reg instr list" where
  "asm_10W_mips32 =
     [Sub_imm (G 29) 8, Str (G 28) (G 29) 0, Str (G 31) (G 29) 4, Ldr (G 4) (Op 0) 20, Sub_imm (G 29) 48,
      Str (G 4) (G 29) 16, Ldr (G 4) (Op 0) 24, Str (G 4) (G 29) 20, Ldr (G 4) (Op 0) 28,
      Str (G 4) (G 29) 24, Ldr (G 4) (Op 0) 32, Str (G 4) (G 29) 28, Ldr (G 4) (Op 0) 36,
      Str (G 4) (G 29) 32, Ldr (G 4) (Op 0) 40, Str (G 4) (G 29) 36, Ldr (G 4) (Op 0) 4,
      Ldr (G 5) (Op 0) 8, Ldr (G 6) (Op 0) 12, Ldr (G 7) (Op 0) 16, Ldr (G 25) (Op 0) 0] @
     VALGRIND_CALL_NOREDIR_T9_mips32 @
     [Add_imm (G 29) 48, Ldr (G 28) (G 29) 0, Ldr (G 31) (G 29) 4, Add_imm (G 29) 8, Mov (Op 0) (G 2)]"

definition asm_11W_mips32 :: "gp_reg instr list" where
  "asm_11W_mips32 =
     [Sub_imm (G 29) 8, Str (G 28) (G 29) 0, Str (G 31) (G 29) 4, Ldr (G 4) (Op 0) 20, Sub_imm (G 29) 48,
      Str (G 4) (G 29) 16, Ldr (G 4) (Op 0) 24, Str (G 4) (G 29) 20, Ldr (G 4) (Op 0) 28,
      Str (G 4) (G 29) 24, Ldr (G 4) (Op 0) 32, Str (G 4) (G 29) 28, Ldr (G 4) (Op 0) 36,
      Str (G 4) (G 29) 32, Ldr (G 4) (Op 0) 40, Str (G 4) (G 29) 36, Ldr (G 4) (Op 0) 44,
      Str (G 4) (G 29) 40, Ldr (G 4) (Op 0) 4, Ldr (G 5) (Op 0) 8, Ldr (G 6) (Op 0) 12,
      Ldr (G 7) (Op 0) 16, Ldr (G 25) (Op 0) 0] @
     VALGRIND_CALL_NOREDIR_T9_mips32 @
     [Add_imm (G 29) 48, Ldr (G 28) (G 29) 0, Ldr (G 31) (G 29) 4, Add_imm (G 29) 8, Mov (Op 0) (G 2)]"

definition asm_12W_mips32 :: "gp_reg instr list" where
  "asm_12W_mips32 =
     [Sub_imm (G 29) 8, Str (G 28) (G 29) 0, Str (G 31) (G 29) 4, Ldr (G 4) (Op 1) 20, Sub_imm (G 29) 56,
      Str (G 4) (G 29) 16, Ldr (G 4) (Op 1) 24, Str (G 4) (G 29) 20, Ldr (G 4) (Op 1) 28,
      Str (G 4) (G 29) 24, Ldr (G 4) (Op 1) 32, Str (G 4) (G 29) 28, Ldr (G 4) (Op 1) 36,
      Str (G 4) (G 29) 32, Ldr (G 4) (Op 1) 40, Str (G 4) (G 29) 36, Ldr (G 4) (Op 1) 44,
      Str (G 4) (G 29) 40, Ldr (G 4) (Op 1) 48, Str (G 4) (G 29) 44, Ldr (G 4) (Op 1) 4,
      Ldr (G 5) (Op 1) 8, Ldr (G 6) (Op 1) 12, Ldr (G 7) (Op 1) 16, Ldr (G 25) (Op 1) 0] @
     VALGRIND_CALL_NOREDIR_T9_mips32 @
     [Add_imm (G 29) 56, Ldr (G 28) (G 29) 0, Ldr (G 31) (G 29) 4, Add_imm (G 29) 8, Mov (Op 0) (G 2)]"

text \<open>The assembly for \<open>n\<close> arguments.\<close>

definition asm_mips32 :: "nat \<Rightarrow> gp_reg instr list" where
  "asm_mips32 n =
     [asm_v_mips32, asm_W_mips32, asm_WW_mips32, asm_WWW_mips32, asm_WWWW_mips32,
      asm_5W_mips32, asm_6W_mips32, asm_7W_mips32, asm_8W_mips32, asm_9W_mips32,
      asm_10W_mips32, asm_11W_mips32, asm_12W_mips32] ! n"

text \<open>The operand with the address of the array: that of the result where the constraint ties them.\<close>

definition array_operand_mips32 :: "nat \<Rightarrow> gp_reg" where
  "array_operand_mips32 n = (if n = 12 then Op 1 else Op 0)"

lemmas asm_mips32_defs =
  asm_v_mips32_def asm_W_mips32_def asm_WW_mips32_def asm_WWW_mips32_def asm_WWWW_mips32_def
  asm_5W_mips32_def asm_6W_mips32_def asm_7W_mips32_def asm_8W_mips32_def asm_9W_mips32_def
  asm_10W_mips32_def asm_11W_mips32_def asm_12W_mips32_def

definition CALL_FN_W_v_mips32 :: "(gp_reg, 32) executor \<Rightarrow> 32 word \<Rightarrow> (gp_reg, 32) macro" where
  "CALL_FN_W_v_mips32 run orig =
     CALL_FN run asm_v_mips32 (Op 0) (Op 0) orig []"

definition CALL_FN_W_W_mips32 :: "(gp_reg, 32) executor \<Rightarrow> 32 word \<Rightarrow> 32 word \<Rightarrow> (gp_reg, 32) macro" where
  "CALL_FN_W_W_mips32 run orig arg1 =
     CALL_FN run asm_W_mips32 (Op 0) (Op 0) orig [arg1]"

definition CALL_FN_W_WW_mips32 :: "(gp_reg, 32) executor \<Rightarrow> 32 word \<Rightarrow> 32 word \<Rightarrow>
   32 word \<Rightarrow> (gp_reg, 32) macro" where
  "CALL_FN_W_WW_mips32 run orig arg1 arg2 =
     CALL_FN run asm_WW_mips32 (Op 0) (Op 0) orig [arg1, arg2]"

definition CALL_FN_W_WWW_mips32 :: "(gp_reg, 32) executor \<Rightarrow> 32 word \<Rightarrow> 32 word \<Rightarrow>
   32 word \<Rightarrow> 32 word \<Rightarrow> (gp_reg, 32) macro" where
  "CALL_FN_W_WWW_mips32 run orig arg1 arg2 arg3 =
     CALL_FN run asm_WWW_mips32 (Op 0) (Op 0) orig [arg1, arg2, arg3]"

definition CALL_FN_W_WWWW_mips32 :: "(gp_reg, 32) executor \<Rightarrow> 32 word \<Rightarrow> 32 word \<Rightarrow>
   32 word \<Rightarrow> 32 word \<Rightarrow> 32 word \<Rightarrow> (gp_reg, 32) macro" where
  "CALL_FN_W_WWWW_mips32 run orig arg1 arg2 arg3 arg4 =
     CALL_FN run asm_WWWW_mips32 (Op 0) (Op 0) orig [arg1, arg2, arg3, arg4]"

definition CALL_FN_W_5W_mips32 :: "(gp_reg, 32) executor \<Rightarrow> 32 word \<Rightarrow> 32 word \<Rightarrow>
   32 word \<Rightarrow> 32 word \<Rightarrow> 32 word \<Rightarrow> 32 word \<Rightarrow> (gp_reg, 32) macro" where
  "CALL_FN_W_5W_mips32 run orig arg1 arg2 arg3 arg4 arg5 =
     CALL_FN run asm_5W_mips32 (Op 0) (Op 0) orig [arg1, arg2, arg3, arg4, arg5]"

definition CALL_FN_W_6W_mips32 :: "(gp_reg, 32) executor \<Rightarrow> 32 word \<Rightarrow> 32 word \<Rightarrow>
   32 word \<Rightarrow> 32 word \<Rightarrow> 32 word \<Rightarrow> 32 word \<Rightarrow> 32 word \<Rightarrow> (gp_reg, 32) macro" where
  "CALL_FN_W_6W_mips32 run orig arg1 arg2 arg3 arg4 arg5 arg6 =
     CALL_FN run asm_6W_mips32 (Op 0) (Op 0) orig [arg1, arg2, arg3, arg4, arg5, arg6]"

definition CALL_FN_W_7W_mips32 :: "(gp_reg, 32) executor \<Rightarrow> 32 word \<Rightarrow> 32 word \<Rightarrow>
   32 word \<Rightarrow> 32 word \<Rightarrow> 32 word \<Rightarrow> 32 word \<Rightarrow> 32 word \<Rightarrow> 32 word \<Rightarrow> (gp_reg, 32) macro" where
  "CALL_FN_W_7W_mips32 run orig arg1 arg2 arg3 arg4 arg5 arg6 arg7 =
     CALL_FN run asm_7W_mips32 (Op 0) (Op 0) orig [arg1, arg2, arg3, arg4, arg5, arg6, arg7]"

definition CALL_FN_W_8W_mips32 :: "(gp_reg, 32) executor \<Rightarrow> 32 word \<Rightarrow> 32 word \<Rightarrow>
   32 word \<Rightarrow> 32 word \<Rightarrow> 32 word \<Rightarrow> 32 word \<Rightarrow> 32 word \<Rightarrow> 32 word \<Rightarrow> 32 word \<Rightarrow> (gp_reg, 32) macro" where
  "CALL_FN_W_8W_mips32 run orig arg1 arg2 arg3 arg4 arg5 arg6 arg7 arg8 =
     CALL_FN run asm_8W_mips32 (Op 0) (Op 0) orig [arg1, arg2, arg3, arg4, arg5, arg6, arg7, arg8]"

definition CALL_FN_W_9W_mips32 :: "(gp_reg, 32) executor \<Rightarrow> 32 word \<Rightarrow> 32 word \<Rightarrow>
   32 word \<Rightarrow> 32 word \<Rightarrow> 32 word \<Rightarrow> 32 word \<Rightarrow> 32 word \<Rightarrow> 32 word \<Rightarrow> 32 word \<Rightarrow> 32 word \<Rightarrow> (gp_reg, 32) macro" where
  "CALL_FN_W_9W_mips32 run orig arg1 arg2 arg3 arg4 arg5 arg6 arg7 arg8 arg9 =
     CALL_FN run asm_9W_mips32 (Op 0) (Op 0) orig
       [arg1, arg2, arg3, arg4, arg5, arg6, arg7, arg8, arg9]"

definition CALL_FN_W_10W_mips32 :: "(gp_reg, 32) executor \<Rightarrow> 32 word \<Rightarrow> 32 word \<Rightarrow>
   32 word \<Rightarrow> 32 word \<Rightarrow> 32 word \<Rightarrow> 32 word \<Rightarrow> 32 word \<Rightarrow> 32 word \<Rightarrow> 32 word \<Rightarrow> 32 word \<Rightarrow> 32 word \<Rightarrow> (gp_reg, 32) macro" where
  "CALL_FN_W_10W_mips32 run orig arg1 arg2 arg3 arg4 arg5 arg6 arg7 arg8 arg9 arg10 =
     CALL_FN run asm_10W_mips32 (Op 0) (Op 0) orig
       [arg1, arg2, arg3, arg4, arg5, arg6, arg7, arg8, arg9, arg10]"

definition CALL_FN_W_11W_mips32 :: "(gp_reg, 32) executor \<Rightarrow> 32 word \<Rightarrow> 32 word \<Rightarrow>
   32 word \<Rightarrow> 32 word \<Rightarrow> 32 word \<Rightarrow> 32 word \<Rightarrow> 32 word \<Rightarrow> 32 word \<Rightarrow> 32 word \<Rightarrow> 32 word \<Rightarrow> 32 word \<Rightarrow> 32 word \<Rightarrow> (gp_reg, 32) macro" where
  "CALL_FN_W_11W_mips32 run orig arg1 arg2 arg3 arg4 arg5 arg6 arg7 arg8 arg9 arg10 arg11 =
     CALL_FN run asm_11W_mips32 (Op 0) (Op 0) orig
       [arg1, arg2, arg3, arg4, arg5, arg6, arg7, arg8, arg9, arg10, arg11]"

definition CALL_FN_W_12W_mips32 :: "(gp_reg, 32) executor \<Rightarrow> 32 word \<Rightarrow> 32 word \<Rightarrow>
   32 word \<Rightarrow> 32 word \<Rightarrow> 32 word \<Rightarrow> 32 word \<Rightarrow> 32 word \<Rightarrow> 32 word \<Rightarrow> 32 word \<Rightarrow> 32 word \<Rightarrow> 32 word \<Rightarrow> 32 word \<Rightarrow> 32 word \<Rightarrow> (gp_reg, 32) macro" where
  "CALL_FN_W_12W_mips32 run orig arg1 arg2 arg3 arg4 arg5 arg6 arg7 arg8 arg9 arg10 arg11 arg12 =
     CALL_FN run asm_12W_mips32 (Op 1) (Op 0) orig
       [arg1, arg2, arg3, arg4, arg5, arg6, arg7, arg8, arg9, arg10, arg11, arg12]"

text \<open>All of them, by the list of arguments.\<close>

fun CALL_FN_W_mips32 ::
  "(gp_reg, 32) executor \<Rightarrow> 32 word \<Rightarrow> 32 word list \<Rightarrow> (gp_reg, 32) macro" where
  "CALL_FN_W_mips32 run orig [] = CALL_FN_W_v_mips32 run orig"
| "CALL_FN_W_mips32 run orig [a] = CALL_FN_W_W_mips32 run orig a"
| "CALL_FN_W_mips32 run orig [a, b] = CALL_FN_W_WW_mips32 run orig a b"
| "CALL_FN_W_mips32 run orig [a, b, c] = CALL_FN_W_WWW_mips32 run orig a b c"
| "CALL_FN_W_mips32 run orig [a, b, c, d] = CALL_FN_W_WWWW_mips32 run orig a b c d"
| "CALL_FN_W_mips32 run orig [a, b, c, d, e] = CALL_FN_W_5W_mips32 run orig a b c d e"
| "CALL_FN_W_mips32 run orig [a, b, c, d, e, f] = CALL_FN_W_6W_mips32 run orig a b c d e f"
| "CALL_FN_W_mips32 run orig [a, b, c, d, e, f, g] = CALL_FN_W_7W_mips32 run orig a b c d e f g"
| "CALL_FN_W_mips32 run orig [a, b, c, d, e, f, g, h] = CALL_FN_W_8W_mips32 run orig a b c d e f g h"
| "CALL_FN_W_mips32 run orig [a, b, c, d, e, f, g, h, i] = CALL_FN_W_9W_mips32 run orig a b c d e f g h i"
| "CALL_FN_W_mips32 run orig [a, b, c, d, e, f, g, h, i, j] = CALL_FN_W_10W_mips32 run orig a b c d e f g h i j"
| "CALL_FN_W_mips32 run orig [a, b, c, d, e, f, g, h, i, j, k] = CALL_FN_W_11W_mips32 run orig a b c d e f g h i j k"
| "CALL_FN_W_mips32 run orig [a, b, c, d, e, f, g, h, i, j, k, l] = CALL_FN_W_12W_mips32 run orig a b c d e f g h i j k l"
| "CALL_FN_W_mips32 run orig _ = (\<lambda>_ _. Err Undefined)"

lemmas CALL_FN_mips32_defs =
  CALL_FN_W_v_mips32_def CALL_FN_W_W_mips32_def CALL_FN_W_WW_mips32_def CALL_FN_W_WWW_mips32_def CALL_FN_W_WWWW_mips32_def
  CALL_FN_W_5W_mips32_def CALL_FN_W_6W_mips32_def CALL_FN_W_7W_mips32_def CALL_FN_W_8W_mips32_def CALL_FN_W_9W_mips32_def
  CALL_FN_W_10W_mips32_def CALL_FN_W_11W_mips32_def CALL_FN_W_12W_mips32_def

text \<open>
  The cast to \<^verbatim>\<open>long\<close> and then to \<^verbatim>\<open>long long\<close>, both of 64 bits in the ABI that is modelled (n64).
\<close>

definition MIPS64_LONG2REG_CAST :: "64 word \<Rightarrow> 64 word" where
  "MIPS64_LONG2REG_CAST x = word_of_int (sint (word_of_int (sint x) :: 64 word))"

lemma long2reg [simp]: "MIPS64_LONG2REG_CAST x = x"
  by (simp add: MIPS64_LONG2REG_CAST_def)

section \<open>The macros for mips64\<close>

definition asm_v_mips64 :: "gp_reg instr list" where
  "asm_v_mips64 =
     [Ldr (G 25) (Op 0) 0] @
     VALGRIND_CALL_NOREDIR_T9_mips64 @
     [Mov (Op 0) (G 2)]"

definition asm_W_mips64 :: "gp_reg instr list" where
  "asm_W_mips64 =
     [Ldr (G 4) (Op 1) 8, Ldr (G 25) (Op 1) 0] @
     VALGRIND_CALL_NOREDIR_T9_mips64 @
     [Mov (Op 0) (G 2)]"

definition asm_WW_mips64 :: "gp_reg instr list" where
  "asm_WW_mips64 =
     [Ldr (G 4) (Op 1) 8, Ldr (G 5) (Op 1) 16, Ldr (G 25) (Op 1) 0] @
     VALGRIND_CALL_NOREDIR_T9_mips64 @
     [Mov (Op 0) (G 2)]"

definition asm_WWW_mips64 :: "gp_reg instr list" where
  "asm_WWW_mips64 =
     [Ldr (G 4) (Op 1) 8, Ldr (G 5) (Op 1) 16, Ldr (G 6) (Op 1) 24, Ldr (G 25) (Op 1) 0] @
     VALGRIND_CALL_NOREDIR_T9_mips64 @
     [Mov (Op 0) (G 2)]"

definition asm_WWWW_mips64 :: "gp_reg instr list" where
  "asm_WWWW_mips64 =
     [Ldr (G 4) (Op 1) 8, Ldr (G 5) (Op 1) 16, Ldr (G 6) (Op 1) 24, Ldr (G 7) (Op 1) 32,
      Ldr (G 25) (Op 1) 0] @
     VALGRIND_CALL_NOREDIR_T9_mips64 @
     [Mov (Op 0) (G 2)]"

definition asm_5W_mips64 :: "gp_reg instr list" where
  "asm_5W_mips64 =
     [Ldr (G 4) (Op 1) 8, Ldr (G 5) (Op 1) 16, Ldr (G 6) (Op 1) 24, Ldr (G 7) (Op 1) 32,
      Ldr (G 8) (Op 1) 40, Ldr (G 25) (Op 1) 0] @
     VALGRIND_CALL_NOREDIR_T9_mips64 @
     [Mov (Op 0) (G 2)]"

definition asm_6W_mips64 :: "gp_reg instr list" where
  "asm_6W_mips64 =
     [Ldr (G 4) (Op 1) 8, Ldr (G 5) (Op 1) 16, Ldr (G 6) (Op 1) 24, Ldr (G 7) (Op 1) 32,
      Ldr (G 8) (Op 1) 40, Ldr (G 9) (Op 1) 48, Ldr (G 25) (Op 1) 0] @
     VALGRIND_CALL_NOREDIR_T9_mips64 @
     [Mov (Op 0) (G 2)]"

definition asm_7W_mips64 :: "gp_reg instr list" where
  "asm_7W_mips64 =
     [Ldr (G 4) (Op 1) 8, Ldr (G 5) (Op 1) 16, Ldr (G 6) (Op 1) 24, Ldr (G 7) (Op 1) 32,
      Ldr (G 8) (Op 1) 40, Ldr (G 9) (Op 1) 48, Ldr (G 10) (Op 1) 56, Ldr (G 25) (Op 1) 0] @
     VALGRIND_CALL_NOREDIR_T9_mips64 @
     [Mov (Op 0) (G 2)]"

definition asm_8W_mips64 :: "gp_reg instr list" where
  "asm_8W_mips64 =
     [Ldr (G 4) (Op 1) 8, Ldr (G 5) (Op 1) 16, Ldr (G 6) (Op 1) 24, Ldr (G 7) (Op 1) 32,
      Ldr (G 8) (Op 1) 40, Ldr (G 9) (Op 1) 48, Ldr (G 10) (Op 1) 56, Ldr (G 11) (Op 1) 64,
      Ldr (G 25) (Op 1) 0] @
     VALGRIND_CALL_NOREDIR_T9_mips64 @
     [Mov (Op 0) (G 2)]"

definition asm_9W_mips64 :: "gp_reg instr list" where
  "asm_9W_mips64 =
     [Sub_imm (G 29) 8, Ldr (G 4) (Op 1) 72, Str (G 4) (G 29) 0, Ldr (G 4) (Op 1) 8, Ldr (G 5) (Op 1) 16,
      Ldr (G 6) (Op 1) 24, Ldr (G 7) (Op 1) 32, Ldr (G 8) (Op 1) 40, Ldr (G 9) (Op 1) 48,
      Ldr (G 10) (Op 1) 56, Ldr (G 11) (Op 1) 64, Ldr (G 25) (Op 1) 0] @
     VALGRIND_CALL_NOREDIR_T9_mips64 @
     [Add_imm (G 29) 8, Mov (Op 0) (G 2)]"

definition asm_10W_mips64 :: "gp_reg instr list" where
  "asm_10W_mips64 =
     [Sub_imm (G 29) 16, Ldr (G 4) (Op 1) 72, Str (G 4) (G 29) 0, Ldr (G 4) (Op 1) 80, Str (G 4) (G 29) 8,
      Ldr (G 4) (Op 1) 8, Ldr (G 5) (Op 1) 16, Ldr (G 6) (Op 1) 24, Ldr (G 7) (Op 1) 32,
      Ldr (G 8) (Op 1) 40, Ldr (G 9) (Op 1) 48, Ldr (G 10) (Op 1) 56, Ldr (G 11) (Op 1) 64,
      Ldr (G 25) (Op 1) 0] @
     VALGRIND_CALL_NOREDIR_T9_mips64 @
     [Add_imm (G 29) 16, Mov (Op 0) (G 2)]"

definition asm_11W_mips64 :: "gp_reg instr list" where
  "asm_11W_mips64 =
     [Sub_imm (G 29) 24, Ldr (G 4) (Op 1) 72, Str (G 4) (G 29) 0, Ldr (G 4) (Op 1) 80, Str (G 4) (G 29) 8,
      Ldr (G 4) (Op 1) 88, Str (G 4) (G 29) 16, Ldr (G 4) (Op 1) 8, Ldr (G 5) (Op 1) 16,
      Ldr (G 6) (Op 1) 24, Ldr (G 7) (Op 1) 32, Ldr (G 8) (Op 1) 40, Ldr (G 9) (Op 1) 48,
      Ldr (G 10) (Op 1) 56, Ldr (G 11) (Op 1) 64, Ldr (G 25) (Op 1) 0] @
     VALGRIND_CALL_NOREDIR_T9_mips64 @
     [Add_imm (G 29) 24, Mov (Op 0) (G 2)]"

definition asm_12W_mips64 :: "gp_reg instr list" where
  "asm_12W_mips64 =
     [Sub_imm (G 29) 32, Ldr (G 4) (Op 1) 72, Str (G 4) (G 29) 0, Ldr (G 4) (Op 1) 80, Str (G 4) (G 29) 8,
      Ldr (G 4) (Op 1) 88, Str (G 4) (G 29) 16, Ldr (G 4) (Op 1) 96, Str (G 4) (G 29) 24,
      Ldr (G 4) (Op 1) 8, Ldr (G 5) (Op 1) 16, Ldr (G 6) (Op 1) 24, Ldr (G 7) (Op 1) 32,
      Ldr (G 8) (Op 1) 40, Ldr (G 9) (Op 1) 48, Ldr (G 10) (Op 1) 56, Ldr (G 11) (Op 1) 64,
      Ldr (G 25) (Op 1) 0] @
     VALGRIND_CALL_NOREDIR_T9_mips64 @
     [Add_imm (G 29) 32, Mov (Op 0) (G 2)]"

text \<open>The assembly for \<open>n\<close> arguments.\<close>

definition asm_mips64 :: "nat \<Rightarrow> gp_reg instr list" where
  "asm_mips64 n =
     [asm_v_mips64, asm_W_mips64, asm_WW_mips64, asm_WWW_mips64, asm_WWWW_mips64,
      asm_5W_mips64, asm_6W_mips64, asm_7W_mips64, asm_8W_mips64, asm_9W_mips64,
      asm_10W_mips64, asm_11W_mips64, asm_12W_mips64] ! n"

text \<open>The operand with the address of the array: that of the result where the constraint ties them.\<close>

definition array_operand_mips64 :: "nat \<Rightarrow> gp_reg" where
  "array_operand_mips64 n = (if n = 0 then Op 0 else Op 1)"

lemmas asm_mips64_defs =
  asm_v_mips64_def asm_W_mips64_def asm_WW_mips64_def asm_WWW_mips64_def asm_WWWW_mips64_def
  asm_5W_mips64_def asm_6W_mips64_def asm_7W_mips64_def asm_8W_mips64_def asm_9W_mips64_def
  asm_10W_mips64_def asm_11W_mips64_def asm_12W_mips64_def

definition CALL_FN_W_v_mips64 :: "(gp_reg, 64) executor \<Rightarrow> 64 word \<Rightarrow> (gp_reg, 64) macro" where
  "CALL_FN_W_v_mips64 run orig =
     CALL_FN run asm_v_mips64 (Op 0) (Op 0) (MIPS64_LONG2REG_CAST orig) []"

definition CALL_FN_W_W_mips64 :: "(gp_reg, 64) executor \<Rightarrow> 64 word \<Rightarrow> 64 word \<Rightarrow> (gp_reg, 64) macro" where
  "CALL_FN_W_W_mips64 run orig arg1 =
     CALL_FN run asm_W_mips64 (Op 1) (Op 0) (MIPS64_LONG2REG_CAST orig) [MIPS64_LONG2REG_CAST arg1]"

definition CALL_FN_W_WW_mips64 :: "(gp_reg, 64) executor \<Rightarrow> 64 word \<Rightarrow> 64 word \<Rightarrow>
   64 word \<Rightarrow> (gp_reg, 64) macro" where
  "CALL_FN_W_WW_mips64 run orig arg1 arg2 =
     CALL_FN run asm_WW_mips64 (Op 1) (Op 0) orig
       [MIPS64_LONG2REG_CAST arg1, MIPS64_LONG2REG_CAST arg2]"

definition CALL_FN_W_WWW_mips64 :: "(gp_reg, 64) executor \<Rightarrow> 64 word \<Rightarrow> 64 word \<Rightarrow>
   64 word \<Rightarrow> 64 word \<Rightarrow> (gp_reg, 64) macro" where
  "CALL_FN_W_WWW_mips64 run orig arg1 arg2 arg3 =
     CALL_FN run asm_WWW_mips64 (Op 1) (Op 0) orig
       [MIPS64_LONG2REG_CAST arg1, MIPS64_LONG2REG_CAST arg2, MIPS64_LONG2REG_CAST arg3]"

definition CALL_FN_W_WWWW_mips64 :: "(gp_reg, 64) executor \<Rightarrow> 64 word \<Rightarrow> 64 word \<Rightarrow>
   64 word \<Rightarrow> 64 word \<Rightarrow> 64 word \<Rightarrow> (gp_reg, 64) macro" where
  "CALL_FN_W_WWWW_mips64 run orig arg1 arg2 arg3 arg4 =
     CALL_FN run asm_WWWW_mips64 (Op 1) (Op 0) (MIPS64_LONG2REG_CAST orig)
       [MIPS64_LONG2REG_CAST arg1, MIPS64_LONG2REG_CAST arg2, MIPS64_LONG2REG_CAST arg3,
        MIPS64_LONG2REG_CAST arg4]"

definition CALL_FN_W_5W_mips64 :: "(gp_reg, 64) executor \<Rightarrow> 64 word \<Rightarrow> 64 word \<Rightarrow>
   64 word \<Rightarrow> 64 word \<Rightarrow> 64 word \<Rightarrow> 64 word \<Rightarrow> (gp_reg, 64) macro" where
  "CALL_FN_W_5W_mips64 run orig arg1 arg2 arg3 arg4 arg5 =
     CALL_FN run asm_5W_mips64 (Op 1) (Op 0) (MIPS64_LONG2REG_CAST orig)
       [MIPS64_LONG2REG_CAST arg1, MIPS64_LONG2REG_CAST arg2, MIPS64_LONG2REG_CAST arg3,
        MIPS64_LONG2REG_CAST arg4, MIPS64_LONG2REG_CAST arg5]"

definition CALL_FN_W_6W_mips64 :: "(gp_reg, 64) executor \<Rightarrow> 64 word \<Rightarrow> 64 word \<Rightarrow>
   64 word \<Rightarrow> 64 word \<Rightarrow> 64 word \<Rightarrow> 64 word \<Rightarrow> 64 word \<Rightarrow> (gp_reg, 64) macro" where
  "CALL_FN_W_6W_mips64 run orig arg1 arg2 arg3 arg4 arg5 arg6 =
     CALL_FN run asm_6W_mips64 (Op 1) (Op 0) (MIPS64_LONG2REG_CAST orig)
       [MIPS64_LONG2REG_CAST arg1, MIPS64_LONG2REG_CAST arg2, MIPS64_LONG2REG_CAST arg3,
        MIPS64_LONG2REG_CAST arg4, MIPS64_LONG2REG_CAST arg5, MIPS64_LONG2REG_CAST arg6]"

definition CALL_FN_W_7W_mips64 :: "(gp_reg, 64) executor \<Rightarrow> 64 word \<Rightarrow> 64 word \<Rightarrow>
   64 word \<Rightarrow> 64 word \<Rightarrow> 64 word \<Rightarrow> 64 word \<Rightarrow> 64 word \<Rightarrow> 64 word \<Rightarrow> (gp_reg, 64) macro" where
  "CALL_FN_W_7W_mips64 run orig arg1 arg2 arg3 arg4 arg5 arg6 arg7 =
     CALL_FN run asm_7W_mips64 (Op 1) (Op 0) (MIPS64_LONG2REG_CAST orig)
       [MIPS64_LONG2REG_CAST arg1, MIPS64_LONG2REG_CAST arg2, MIPS64_LONG2REG_CAST arg3,
        MIPS64_LONG2REG_CAST arg4, MIPS64_LONG2REG_CAST arg5, MIPS64_LONG2REG_CAST arg6,
        MIPS64_LONG2REG_CAST arg7]"

definition CALL_FN_W_8W_mips64 :: "(gp_reg, 64) executor \<Rightarrow> 64 word \<Rightarrow> 64 word \<Rightarrow>
   64 word \<Rightarrow> 64 word \<Rightarrow> 64 word \<Rightarrow> 64 word \<Rightarrow> 64 word \<Rightarrow> 64 word \<Rightarrow> 64 word \<Rightarrow> (gp_reg, 64) macro" where
  "CALL_FN_W_8W_mips64 run orig arg1 arg2 arg3 arg4 arg5 arg6 arg7 arg8 =
     CALL_FN run asm_8W_mips64 (Op 1) (Op 0) (MIPS64_LONG2REG_CAST orig)
       [MIPS64_LONG2REG_CAST arg1, MIPS64_LONG2REG_CAST arg2, MIPS64_LONG2REG_CAST arg3,
        MIPS64_LONG2REG_CAST arg4, MIPS64_LONG2REG_CAST arg5, MIPS64_LONG2REG_CAST arg6,
        MIPS64_LONG2REG_CAST arg7, MIPS64_LONG2REG_CAST arg8]"

definition CALL_FN_W_9W_mips64 :: "(gp_reg, 64) executor \<Rightarrow> 64 word \<Rightarrow> 64 word \<Rightarrow>
   64 word \<Rightarrow> 64 word \<Rightarrow> 64 word \<Rightarrow> 64 word \<Rightarrow> 64 word \<Rightarrow> 64 word \<Rightarrow> 64 word \<Rightarrow> 64 word \<Rightarrow> (gp_reg, 64) macro" where
  "CALL_FN_W_9W_mips64 run orig arg1 arg2 arg3 arg4 arg5 arg6 arg7 arg8 arg9 =
     CALL_FN run asm_9W_mips64 (Op 1) (Op 0) (MIPS64_LONG2REG_CAST orig)
       [MIPS64_LONG2REG_CAST arg1, MIPS64_LONG2REG_CAST arg2, MIPS64_LONG2REG_CAST arg3,
        MIPS64_LONG2REG_CAST arg4, MIPS64_LONG2REG_CAST arg5, MIPS64_LONG2REG_CAST arg6,
        MIPS64_LONG2REG_CAST arg7, MIPS64_LONG2REG_CAST arg8, MIPS64_LONG2REG_CAST arg9]"

definition CALL_FN_W_10W_mips64 :: "(gp_reg, 64) executor \<Rightarrow> 64 word \<Rightarrow> 64 word \<Rightarrow>
   64 word \<Rightarrow> 64 word \<Rightarrow> 64 word \<Rightarrow> 64 word \<Rightarrow> 64 word \<Rightarrow> 64 word \<Rightarrow> 64 word \<Rightarrow> 64 word \<Rightarrow> 64 word \<Rightarrow> (gp_reg, 64) macro" where
  "CALL_FN_W_10W_mips64 run orig arg1 arg2 arg3 arg4 arg5 arg6 arg7 arg8 arg9 arg10 =
     CALL_FN run asm_10W_mips64 (Op 1) (Op 0) (MIPS64_LONG2REG_CAST orig)
       [MIPS64_LONG2REG_CAST arg1, MIPS64_LONG2REG_CAST arg2, MIPS64_LONG2REG_CAST arg3,
        MIPS64_LONG2REG_CAST arg4, MIPS64_LONG2REG_CAST arg5, MIPS64_LONG2REG_CAST arg6,
        MIPS64_LONG2REG_CAST arg7, MIPS64_LONG2REG_CAST arg8, MIPS64_LONG2REG_CAST arg9,
        MIPS64_LONG2REG_CAST arg10]"

definition CALL_FN_W_11W_mips64 :: "(gp_reg, 64) executor \<Rightarrow> 64 word \<Rightarrow> 64 word \<Rightarrow>
   64 word \<Rightarrow> 64 word \<Rightarrow> 64 word \<Rightarrow> 64 word \<Rightarrow> 64 word \<Rightarrow> 64 word \<Rightarrow> 64 word \<Rightarrow> 64 word \<Rightarrow> 64 word \<Rightarrow> 64 word \<Rightarrow> (gp_reg, 64) macro" where
  "CALL_FN_W_11W_mips64 run orig arg1 arg2 arg3 arg4 arg5 arg6 arg7 arg8 arg9 arg10 arg11 =
     CALL_FN run asm_11W_mips64 (Op 1) (Op 0) (MIPS64_LONG2REG_CAST orig)
       [MIPS64_LONG2REG_CAST arg1, MIPS64_LONG2REG_CAST arg2, MIPS64_LONG2REG_CAST arg3,
        MIPS64_LONG2REG_CAST arg4, MIPS64_LONG2REG_CAST arg5, MIPS64_LONG2REG_CAST arg6,
        MIPS64_LONG2REG_CAST arg7, MIPS64_LONG2REG_CAST arg8, MIPS64_LONG2REG_CAST arg9,
        MIPS64_LONG2REG_CAST arg10, MIPS64_LONG2REG_CAST arg11]"

definition CALL_FN_W_12W_mips64 :: "(gp_reg, 64) executor \<Rightarrow> 64 word \<Rightarrow> 64 word \<Rightarrow>
   64 word \<Rightarrow> 64 word \<Rightarrow> 64 word \<Rightarrow> 64 word \<Rightarrow> 64 word \<Rightarrow> 64 word \<Rightarrow> 64 word \<Rightarrow> 64 word \<Rightarrow> 64 word \<Rightarrow> 64 word \<Rightarrow> 64 word \<Rightarrow> (gp_reg, 64) macro" where
  "CALL_FN_W_12W_mips64 run orig arg1 arg2 arg3 arg4 arg5 arg6 arg7 arg8 arg9 arg10 arg11 arg12 =
     CALL_FN run asm_12W_mips64 (Op 1) (Op 0) (MIPS64_LONG2REG_CAST orig)
       [MIPS64_LONG2REG_CAST arg1, MIPS64_LONG2REG_CAST arg2, MIPS64_LONG2REG_CAST arg3,
        MIPS64_LONG2REG_CAST arg4, MIPS64_LONG2REG_CAST arg5, MIPS64_LONG2REG_CAST arg6,
        MIPS64_LONG2REG_CAST arg7, MIPS64_LONG2REG_CAST arg8, MIPS64_LONG2REG_CAST arg9,
        MIPS64_LONG2REG_CAST arg10, MIPS64_LONG2REG_CAST arg11, MIPS64_LONG2REG_CAST arg12]"

text \<open>All of them, by the list of arguments.\<close>

fun CALL_FN_W_mips64 ::
  "(gp_reg, 64) executor \<Rightarrow> 64 word \<Rightarrow> 64 word list \<Rightarrow> (gp_reg, 64) macro" where
  "CALL_FN_W_mips64 run orig [] = CALL_FN_W_v_mips64 run orig"
| "CALL_FN_W_mips64 run orig [a] = CALL_FN_W_W_mips64 run orig a"
| "CALL_FN_W_mips64 run orig [a, b] = CALL_FN_W_WW_mips64 run orig a b"
| "CALL_FN_W_mips64 run orig [a, b, c] = CALL_FN_W_WWW_mips64 run orig a b c"
| "CALL_FN_W_mips64 run orig [a, b, c, d] = CALL_FN_W_WWWW_mips64 run orig a b c d"
| "CALL_FN_W_mips64 run orig [a, b, c, d, e] = CALL_FN_W_5W_mips64 run orig a b c d e"
| "CALL_FN_W_mips64 run orig [a, b, c, d, e, f] = CALL_FN_W_6W_mips64 run orig a b c d e f"
| "CALL_FN_W_mips64 run orig [a, b, c, d, e, f, g] = CALL_FN_W_7W_mips64 run orig a b c d e f g"
| "CALL_FN_W_mips64 run orig [a, b, c, d, e, f, g, h] = CALL_FN_W_8W_mips64 run orig a b c d e f g h"
| "CALL_FN_W_mips64 run orig [a, b, c, d, e, f, g, h, i] = CALL_FN_W_9W_mips64 run orig a b c d e f g h i"
| "CALL_FN_W_mips64 run orig [a, b, c, d, e, f, g, h, i, j] = CALL_FN_W_10W_mips64 run orig a b c d e f g h i j"
| "CALL_FN_W_mips64 run orig [a, b, c, d, e, f, g, h, i, j, k] = CALL_FN_W_11W_mips64 run orig a b c d e f g h i j k"
| "CALL_FN_W_mips64 run orig [a, b, c, d, e, f, g, h, i, j, k, l] = CALL_FN_W_12W_mips64 run orig a b c d e f g h i j k l"
| "CALL_FN_W_mips64 run orig _ = (\<lambda>_ _. Err Undefined)"

lemmas CALL_FN_mips64_defs =
  CALL_FN_W_v_mips64_def CALL_FN_W_W_mips64_def CALL_FN_W_WW_mips64_def CALL_FN_W_WWW_mips64_def CALL_FN_W_WWWW_mips64_def
  CALL_FN_W_5W_mips64_def CALL_FN_W_6W_mips64_def CALL_FN_W_7W_mips64_def CALL_FN_W_8W_mips64_def CALL_FN_W_9W_mips64_def
  CALL_FN_W_10W_mips64_def CALL_FN_W_11W_mips64_def CALL_FN_W_12W_mips64_def

end
