(* ===== verification/Vg_ConvRest.thy ===== *)
theory Vg_ConvRest
  imports Vg_Conv Vg_CallRest
begin

text \<open>
  The \<^verbatim>\<open>CALL_FN_W_*\<close> macros of s390x, mips32 and mips64: interpretations of the locale \<open>call_macros\<close>, the
  properties, and where the macros fall short of the conventions.
\<close>

section \<open>The macros\<close>

lemmas s390x_defs =
  asm_s390x_def asm_s390x_defs VALGRIND_CFI_PROLOGUE_s390x_def VALGRIND_CFI_EPILOGUE_s390x_def
  VALGRIND_CALL_NOREDIR_R1_s390x_def SPECIAL_INSTRUCTION_PREAMBLE_s390x_def middle_def final_def

lemmas mips32_defs =
  asm_mips32_def asm_mips32_defs array_operand_mips32_def
  VALGRIND_CALL_NOREDIR_T9_mips32_def SPECIAL_INSTRUCTION_PREAMBLE_mips32_def middle_def final_def

lemmas mips64_defs =
  asm_mips64_def asm_mips64_defs array_operand_mips64_def
  VALGRIND_CALL_NOREDIR_T9_mips64_def SPECIAL_INSTRUCTION_PREAMBLE_mips64_def middle_def final_def

text \<open>The words by which the macros of mips32 move the stack pointer.\<close>

definition mips32_frame :: "nat \<Rightarrow> nat" where
  "mips32_frame n = (if n \<le> 4 then 6 else 2 * (n div 2) + 4)"

interpretation s390x: call_macros isa_s390x "asm_s390x (Op 0)" "[]" "\<lambda>n. middle 0 9 (asm_s390x (Op 0) n)"
  "Lr (G 4) (G 4)" "\<lambda>n. final 4 (asm_s390x (Op 0) n)" "[G 2, G 3, G 4, G 5, G 6]" "G 1" "[]" "\<lambda>_. Op 1" "G 2" "Op 0"
  "\<lambda>n. [(G 15, Reg (G 15) (20 + (n - 5))), (G 11, Reg (G 7) 0)]" "id" False 3 0 20 27 0 0 "TYPE(64)"
proof unfold_locales
  show "asm_s390x (Op 0) n = [] @ (middle 0 9 (asm_s390x (Op 0) n)) @ preamble isa_s390x @ Lr (G 4) (G 4) # (final 4 (asm_s390x (Op 0) n))" if "n \<le> 12" for n
    by (rule upto_12 [OF that]) (simp_all add: s390x_defs platform_preambles)
  show "hd (preamble isa_s390x) \<notin> set (middle 0 9 (asm_s390x (Op 0) n)) \<union> set (final 4 (asm_s390x (Op 0) n))" if "n \<le> 12" for n
    by (rule upto_12 [OF that]) (simp_all add: s390x_defs platform_preambles)
  show "case abs_seq (stack_reg isa_s390x) 0 27 0 (0 + 0) a (middle 0 9 (asm_s390x (Op 0) (length args)))
        (r, [], replicate 0 None @ map Some (pre @ orig # args)) of
      None \<Rightarrow> False
    | Some x \<Rightarrow> ready [G 2, G 3, G 4, G 5, G 6] (G 1) [] 3 20 27 ([(G 15, Reg (G 15) (20 + (length args - 5))), (G 11, Reg (G 7) 0)]) pre orig args (r \<circ> (id)) x"
    if len: "length args \<le> 12" and np: "length pre = 0" and arg: "r (Op 1) = a" for args pre :: "64 word list" and r a orig
  proof -
    have pre: "pre = []" using np by simp
    have "r (Op 1) = a \<longrightarrow> ?thesis"
      unfolding pre by (rule args_cases [OF len]) (simp_all add: s390x_defs ready_def reserved_words offset_def)
    then show ?thesis using arg by blast
  qed
  show "\<exists>st'. exec_seq (stack_reg isa_s390x) (final 4 (asm_s390x (Op 0) n)) st = Ok (st' :: (gp_reg, 64) cpu) \<and> cells st' = cells st \<and>
      regs st' (Op 0) = regs st (G 2) \<and> list_all (\<lambda>(x, p). regs st' x = v x) [(G 15, Reg (G 15) (20 + (n - 5))), (G 11, Reg (G 7) 0)]"
    if len: "n \<le> 12" and "v (Op 1) = a" and val: "list_all (\<lambda>(x, p). place_val (v (stack_reg isa_s390x)) (0 + 0) a st p = Some (v x)) [(G 15, Reg (G 15) (20 + (n - 5))), (G 11, Reg (G 7) 0)]" for n v a st
  proof -
    have "list_all (\<lambda>(x, p). place_val (v (stack_reg isa_s390x)) (0 + 0) a st p = Some (v x)) [(G 15, Reg (G 15) (20 + (n - 5))), (G 11, Reg (G 7) 0)] \<longrightarrow> ?thesis"
      by (rule upto_12 [OF len]) (auto simp: s390x_defs offset_def algebra_simps)
    then show ?thesis using val by blast
  qed
qed (auto simp: platform_isa_defs s390x_defs elem_def offset_def align_down_same fetch_def ppc_mask_align)

interpretation mips32: call_macros isa_mips32 "asm_mips32" "[]" "\<lambda>n. middle 0 10 (asm_mips32 n)"
  "Orr (G 15) (G 15) (G 15)" "\<lambda>n. final 5 (asm_mips32 n)" "[G 4, G 5, G 6, G 7]" "G 25" "[]" "array_operand_mips32" "G 2" "Op 0"
  "\<lambda>n. [(G 29, Reg (G 29) (mips32_frame n)), (G 28, Stack 2), (G 31, Stack 1)]" "id" False 3 0 4 16 0 0 "TYPE(32)"
proof unfold_locales
  show "asm_mips32 n = [] @ (middle 0 10 (asm_mips32 n)) @ preamble isa_mips32 @ Orr (G 15) (G 15) (G 15) # (final 5 (asm_mips32 n))" if "n \<le> 12" for n
    by (rule upto_12 [OF that]) (simp_all add: mips32_defs mips32_frame_def platform_preambles)
  show "hd (preamble isa_mips32) \<notin> set (middle 0 10 (asm_mips32 n)) \<union> set (final 5 (asm_mips32 n))" if "n \<le> 12" for n
    by (rule upto_12 [OF that]) (simp_all add: mips32_defs mips32_frame_def platform_preambles)
  show "case abs_seq (stack_reg isa_mips32) 0 16 0 (0 + 0) a (middle 0 10 (asm_mips32 (length args)))
        (r, [], replicate 0 None @ map Some (pre @ orig # args)) of
      None \<Rightarrow> False
    | Some x \<Rightarrow> ready [G 4, G 5, G 6, G 7] (G 25) [] 3 4 16 ([(G 29, Reg (G 29) (mips32_frame (length args))), (G 28, Stack 2), (G 31, Stack 1)]) pre orig args (r \<circ> (id)) x"
    if len: "length args \<le> 12" and np: "length pre = 0" and arg: "r (array_operand_mips32 (length args)) = a" for args pre :: "32 word list" and r a orig
  proof -
    have pre: "pre = []" using np by simp
    have "r (array_operand_mips32 (length args)) = a \<longrightarrow> ?thesis"
      unfolding pre by (rule args_cases [OF len]) (simp_all add: mips32_defs mips32_frame_def ready_def reserved_words offset_def)
    then show ?thesis using arg by blast
  qed
  show "\<exists>st'. exec_seq (stack_reg isa_mips32) (final 5 (asm_mips32 n)) st = Ok (st' :: (gp_reg, 32) cpu) \<and> cells st' = cells st \<and>
      regs st' (Op 0) = regs st (G 2) \<and> list_all (\<lambda>(x, p). regs st' x = v x) [(G 29, Reg (G 29) (mips32_frame n)), (G 28, Stack 2), (G 31, Stack 1)]"
    if len: "n \<le> 12" and "v (array_operand_mips32 n) = a" and val: "list_all (\<lambda>(x, p). place_val (v (stack_reg isa_mips32)) (0 + 0) a st p = Some (v x)) [(G 29, Reg (G 29) (mips32_frame n)), (G 28, Stack 2), (G 31, Stack 1)]" for n v a st
  proof -
    have "regs st (G 29) = v (G 29) - offset (mips32_frame n) \<longrightarrow> cells st (v (G 29) - 8) = Some (v (G 28)) \<longrightarrow>
        cells st (v (G 29) - 4) = Some (v (G 31)) \<longrightarrow> ?thesis"
      by (rule upto_12 [OF len]) (simp_all add: mips32_defs mips32_frame_def offset_def fetch_def)
    moreover have "regs st (G 29) = v (G 29) - offset (mips32_frame n)" using val by (auto simp: algebra_simps)
    ultimately show ?thesis using val by (auto simp: offset_def)
  qed
qed (auto simp: platform_isa_defs mips32_defs mips32_frame_def elem_def offset_def align_down_same fetch_def ppc_mask_align)

interpretation mips64: call_macros isa_mips64 "asm_mips64" "[]" "\<lambda>n. middle 0 (if n \<le> 8 then 6 else 7) (asm_mips64 n)"
  "Orr (G 15) (G 15) (G 15)" "\<lambda>n. final (if n \<le> 8 then 1 else 2) (asm_mips64 n)" "[G 4, G 5, G 6, G 7, G 8, G 9, G 10, G 11]" "G 25" "[]" "array_operand_mips64" "G 2" "Op 0"
  "\<lambda>n. [(G 29, Reg (G 29) (n - 8))]" "id" False 3 0 0 4 0 0 "TYPE(64)"
proof unfold_locales
  show "asm_mips64 n = [] @ (middle 0 (if n \<le> 8 then 6 else 7) (asm_mips64 n)) @ preamble isa_mips64 @ Orr (G 15) (G 15) (G 15) # (final (if n \<le> 8 then 1 else 2) (asm_mips64 n))" if "n \<le> 12" for n
    by (rule upto_12 [OF that]) (simp_all add: mips64_defs platform_preambles)
  show "hd (preamble isa_mips64) \<notin> set (middle 0 (if n \<le> 8 then 6 else 7) (asm_mips64 n)) \<union> set (final (if n \<le> 8 then 1 else 2) (asm_mips64 n))" if "n \<le> 12" for n
    by (rule upto_12 [OF that]) (simp_all add: mips64_defs platform_preambles)
  show "case abs_seq (stack_reg isa_mips64) 0 4 0 (0 + 0) a (middle 0 (if length args \<le> 8 then 6 else 7) (asm_mips64 (length args)))
        (r, [], replicate 0 None @ map Some (pre @ orig # args)) of
      None \<Rightarrow> False
    | Some x \<Rightarrow> ready [G 4, G 5, G 6, G 7, G 8, G 9, G 10, G 11] (G 25) [] 3 0 4 ([(G 29, Reg (G 29) (length args - 8))]) pre orig args (r \<circ> (id)) x"
    if len: "length args \<le> 12" and np: "length pre = 0" and arg: "r (array_operand_mips64 (length args)) = a" for args pre :: "64 word list" and r a orig
  proof -
    have pre: "pre = []" using np by simp
    have "r (array_operand_mips64 (length args)) = a \<longrightarrow> ?thesis"
      unfolding pre by (rule args_cases [OF len]) (simp_all add: mips64_defs ready_def reserved_words offset_def)
    then show ?thesis using arg by blast
  qed
  show "\<exists>st'. exec_seq (stack_reg isa_mips64) (final (if n \<le> 8 then 1 else 2) (asm_mips64 n)) st = Ok (st' :: (gp_reg, 64) cpu) \<and> cells st' = cells st \<and>
      regs st' (Op 0) = regs st (G 2) \<and> list_all (\<lambda>(x, p). regs st' x = v x) [(G 29, Reg (G 29) (n - 8))]"
    if len: "n \<le> 12" and "v (array_operand_mips64 n) = a" and val: "list_all (\<lambda>(x, p). place_val (v (stack_reg isa_mips64)) (0 + 0) a st p = Some (v x)) [(G 29, Reg (G 29) (n - 8))]" for n v a st
  proof -
    have "list_all (\<lambda>(x, p). place_val (v (stack_reg isa_mips64)) (0 + 0) a st p = Some (v x)) [(G 29, Reg (G 29) (n - 8))] \<longrightarrow> ?thesis"
      by (rule upto_12 [OF len]) (auto simp: mips64_defs offset_def algebra_simps)
    then show ?thesis using val by blast
  qed
qed (auto simp: platform_isa_defs mips64_defs elem_def offset_def align_down_same fetch_def ppc_mask_align)

text \<open>The macros of s390x again, with register 11 for the result.\<close>

interpretation s390x_r11: call_macros isa_s390x "asm_s390x (G 11)" "[]" "\<lambda>n. middle 0 9 (asm_s390x (G 11) n)"
  "Lr (G 4) (G 4)" "\<lambda>n. final 4 (asm_s390x (G 11) n)" "[G 2, G 3, G 4, G 5, G 6]" "G 1" "[]" "\<lambda>_. Op 1" "G 7" "G 11"
  "\<lambda>n. [(G 15, Reg (G 15) (20 + (n - 5))), (G 11, Reg (G 7) 0)]" "id" False 3 0 20 27 0 0 "TYPE(64)"
proof unfold_locales
  have same: "middle 0 9 (asm_s390x (G 11) n) = middle 0 9 (asm_s390x (Op 0) n)" if "n \<le> 12" for n
    by (rule upto_12 [OF that]) (simp_all add: s390x_defs)
  show "asm_s390x (G 11) n = [] @ (middle 0 9 (asm_s390x (G 11) n)) @ preamble isa_s390x @ Lr (G 4) (G 4) #
      (final 4 (asm_s390x (G 11) n))" if "n \<le> 12" for n
    by (rule upto_12 [OF that]) (simp_all add: s390x_defs platform_preambles)
  show "hd (preamble isa_s390x) \<notin> set (middle 0 9 (asm_s390x (G 11) n)) \<union> set (final 4 (asm_s390x (G 11) n))"
    if "n \<le> 12" for n
    by (rule upto_12 [OF that]) (simp_all add: s390x_defs platform_preambles)
  show "case abs_seq (stack_reg isa_s390x) 0 27 0 (0 + 0) a (middle 0 9 (asm_s390x (G 11) (length args)))
        (r, [], replicate 0 None @ map Some (pre @ orig # args)) of
      None \<Rightarrow> False
    | Some x \<Rightarrow> ready [G 2, G 3, G 4, G 5, G 6] (G 1) [] 3 20 27
        [(G 15, Reg (G 15) (20 + (length args - 5))), (G 11, Reg (G 7) 0)] pre orig args (r \<circ> id) x"
    if "length args \<le> 12" "length pre = 0" "r (Op 1) = a" for args pre :: "64 word list" and r a orig
    using s390x.body_ok [where r = r and a = a, OF that] by (simp add: same [OF that(1)])
  show "\<exists>st'. exec_seq (stack_reg isa_s390x) (final 4 (asm_s390x (G 11) n)) st = Ok (st' :: (gp_reg, 64) cpu) \<and> cells st' = cells st \<and>
      regs st' (G 11) = regs st (G 7) \<and> list_all (\<lambda>(x, p). regs st' x = v x) [(G 15, Reg (G 15) (20 + (n - 5))), (G 11, Reg (G 7) 0)]"
    if len: "n \<le> 12" and "v (Op 1) = a" and val: "list_all (\<lambda>(x, p). place_val (v (stack_reg isa_s390x)) (0 + 0) a st p = Some (v x))
      [(G 15, Reg (G 15) (20 + (n - 5))), (G 11, Reg (G 7) 0)]" for n v a st
  proof -
    have "list_all (\<lambda>(x, p). place_val (v (stack_reg isa_s390x)) (0 + 0) a st p = Some (v x))
        [(G 15, Reg (G 15) (20 + (n - 5))), (G 11, Reg (G 7) 0)] \<longrightarrow> ?thesis"
      by (rule upto_12 [OF len]) (auto simp: s390x_defs offset_def algebra_simps)
    then show ?thesis using val by blast
  qed
qed (auto simp: platform_isa_defs s390x_defs elem_def offset_def align_down_same fetch_def ppc_mask_align)

section \<open>The conventions\<close>

text \<open>The macros execute their assembly.\<close>

lemma CALL_FN_W_asm_s390x:
  assumes "length args \<le> 12"
  shows "CALL_FN_W_s390x res run orig args = CALL_FN_pre run (asm_s390x res (length args)) (Op 1) res [] orig args"
  by (rule args_cases [OF assms]) (simp_all add: CALL_FN_s390x_defs asm_s390x_def CALL_FN_as_pre)

lemma CALL_FN_W_asm_mips:
  assumes "length args \<le> 12"
  shows "CALL_FN_W_mips32 run orig args =
      CALL_FN_pre run (asm_mips32 (length args)) (array_operand_mips32 (length args)) (Op 0) [] orig args"
  by (rule args_cases [OF assms]) (simp_all add: CALL_FN_mips32_defs asm_mips32_def CALL_FN_as_pre array_operand_mips32_def)

lemma CALL_FN_W_asm_mips64:
  assumes "length args \<le> 12"
  shows "CALL_FN_W_mips64 run orig args =
      CALL_FN_pre run (asm_mips64 (length args)) (array_operand_mips64 (length args)) (Op 0) [] orig args"
  by (rule args_cases [OF assms]) (simp_all add: CALL_FN_mips64_defs asm_mips64_def CALL_FN_as_pre array_operand_mips64_def)

lemma operand_not_gpr [simp]: "array_operand_mips32 n \<noteq> G m" "array_operand_mips64 n \<noteq> G m"
  "G m \<noteq> array_operand_mips32 n" "G m \<noteq> array_operand_mips64 n"
  by (simp_all add: array_operand_mips32_def array_operand_mips64_def)

text \<open>
  C32: The macros for 0 to 12 arguments on s390x, when the compiler takes another register than r11 for the result: the
  called function finds its address in r1, the first five arguments in r2 to r6 and the others above the register save area
  of 160 bytes, on a stack aligned to 8 bytes (as the caller has it) and with the memory of the caller intact. When it
  returns, having kept r7 and the stack pointer, the macro yields its result and the caller has its stack pointer and r11
  back.
\<close>

theorem CALL_FN_W_s390x_convention:
  fixes st :: "(gp_reg, 64) cpu"
  assumes "length args \<le> 12" "8 dvd unat (regs st (G 15))" "224 \<le> unat (regs st (G 15))" "unat (regs st (G 15)) \<le> unat a"
    "unat a + 8 * (length args + 1) \<le> 2 ^ 64"
    "\<And>s1 s2. callee s1 = Ok s2 \<Longrightarrow> regs s2 (G 7) = regs s1 (G 7) \<and> regs s2 (G 15) = regs s1 (G 15)"
  shows "\<exists>st1. callee_entry isa_s390x [G 2, G 3, G 4, G 5, G 6] (G 1) 3 0 20 [] orig args (put_words a (orig # args) st) st1 \<and>
    (\<forall>st2. callee st1 = Ok st2 \<longrightarrow>
      (\<exists>st'. CALL_FN_W_s390x (Op 0) (vg_exec isa_s390x (valgrind_hooks isa_s390x f nr callee)) orig args a st =
          Ok (regs st2 (G 2), st') \<and> cells st' = cells st2 \<and>
        regs st' (G 15) = regs st (G 15) \<and> regs st' (G 11) = regs st (G 11)))"
  using s390x.call [of args "[]" st a callee orig f nr] assms
  by (simp add: slots_def CALL_FN_W_asm_s390x [OF assms(1)] del: put_words.simps) blast

text \<open>A function that adds its two arguments, and a sample state.\<close>

definition add_s390x :: "(gp_reg, 64) cpu \<Rightarrow> (gp_reg, 64) cpu outcome" where
  "add_s390x s = Ok (set_reg (G 2) (regs s (G 2) + regs s (G 3)) s)"

definition sample_s390x :: "(gp_reg, 64) cpu" where
  "sample_s390x = \<lparr>regs = (\<lambda>_. 0)(G 15 := 0x1000, G 11 := 5), cells = (\<lambda>_. None)\<rparr>"

abbreviation run_s390x :: "(gp_reg, 64) executor" where
  "run_s390x \<equiv> vg_exec isa_s390x (valgrind_hooks isa_s390x (\<lambda>_. 0) \<lparr>nraddr = 0, r2 = 0\<rparr> add_s390x)"

theorem CALL_FN_W_s390x_convention_witness:
  "\<exists>st'. CALL_FN_W_s390x (Op 0) run_s390x 7 [30, 12] 0x2000 sample_s390x = Ok (42, st') \<and>
     regs st' (G 15) = 0x1000 \<and> regs st' (G 11) = 5"
proof -
  have "add_s390x s1 = Ok s2 \<Longrightarrow> regs s2 (G 7) = regs s1 (G 7) \<and> regs s2 (G 15) = regs s1 (G 15)" for s1 s2
    by (auto simp: add_s390x_def)
  from CALL_FN_W_s390x_convention [of "[30, 12]" sample_s390x "0x2000" add_s390x 7 "\<lambda>_. 0" "\<lparr>nraddr = 0, r2 = 0\<rparr>"] this
  obtain st1 where entry: "callee_entry isa_s390x [G 2, G 3, G 4, G 5, G 6] (G 1) 3 0 20 [] 7 [30, 12]
      (put_words 0x2000 [7, 30, 12] sample_s390x) st1"
    and ret: "\<And>st2. add_s390x st1 = Ok st2 \<Longrightarrow>
      \<exists>st'. CALL_FN_W_s390x (Op 0) run_s390x 7 [30, 12] 0x2000 sample_s390x = Ok (regs st2 (G 2), st') \<and>
        cells st' = cells st2 \<and> regs st' (G 15) = regs sample_s390x (G 15) \<and> regs st' (G 11) = regs sample_s390x (G 11)"
    by (auto simp: sample_s390x_def simp del: put_words.simps)
  from entry have "add_s390x st1 = Ok (set_reg (G 2) 42 st1)"
    by (simp add: add_s390x_def callee_entry_def)
  from ret [OF this] show ?thesis by (auto simp: sample_s390x_def)
qed

text \<open>
  C33: Register 11 is changed by the prologue and restored by the epilogue, but it is not in the list of changed registers. When the
  compiler takes it for the result, the epilogue overwrites the result: the macro yields what r11 held before the call,
  whatever the called function returns.
\<close>

theorem CALL_FN_W_s390x_loses_result:
  fixes st :: "(gp_reg, 64) cpu"
  assumes "length args \<le> 12" "8 dvd unat (regs st (G 15))" "224 \<le> unat (regs st (G 15))" "unat (regs st (G 15)) \<le> unat a"
    "unat a + 8 * (length args + 1) \<le> 2 ^ 64"
    "\<And>s1 s2. callee s1 = Ok s2 \<Longrightarrow> regs s2 (G 7) = regs s1 (G 7) \<and> regs s2 (G 15) = regs s1 (G 15)"
  shows "\<exists>st1. callee_entry isa_s390x [G 2, G 3, G 4, G 5, G 6] (G 1) 3 0 20 [] orig args (put_words a (orig # args) st) st1 \<and>
    (\<forall>st2. callee st1 = Ok st2 \<longrightarrow>
      (\<exists>st'. CALL_FN_W_s390x (G 11) (vg_exec isa_s390x (valgrind_hooks isa_s390x f nr callee)) orig args a st =
          Ok (regs st (G 11), st')))"
proof -
  let ?run = "vg_exec isa_s390x (valgrind_hooks isa_s390x f nr callee)"
  have off: "(offset 0 :: 64 word) = 0" by (simp add: offset_def)
  have "\<exists>st1. callee_entry isa_s390x [G 2, G 3, G 4, G 5, G 6] (G 1) 3 0 20 [] orig args (put_words a (orig # args) st) st1 \<and>
      regs st1 (G 7) = regs st (G 11) \<and>
      (\<forall>st2. callee st1 = Ok st2 \<longrightarrow> (\<exists>st'. CALL_FN_W_s390x (G 11) ?run orig args a st = Ok (regs st1 (G 7), st')))"
    using s390x_r11.call [of args "[]" st a callee orig f nr] assms
    by (simp add: slots_def off CALL_FN_W_asm_s390x [OF assms(1)] del: put_words.simps) blast
  then show ?thesis by (elim ex_forward conjE) (simp del: put_words.simps)
qed

theorem CALL_FN_W_s390x_loses_result_witness:
  "\<exists>st'. CALL_FN_W_s390x (G 11) run_s390x 7 [30, 12] 0x2000 sample_s390x = Ok (5, st')"
proof -
  have "add_s390x s1 = Ok s2 \<Longrightarrow> regs s2 (G 7) = regs s1 (G 7) \<and> regs s2 (G 15) = regs s1 (G 15)" for s1 s2
    by (auto simp: add_s390x_def)
  moreover have "\<exists>s2. add_s390x s1 = Ok s2" for s1 by (simp add: add_s390x_def)
  ultimately show ?thesis
    using CALL_FN_W_s390x_loses_result [of "[30, 12]" sample_s390x "0x2000" add_s390x 7 "\<lambda>_. 0" "\<lparr>nraddr = 0, r2 = 0\<rparr>"]
    by (auto simp: sample_s390x_def simp del: put_words.simps)
qed

text \<open>
  On mips32 the first four arguments are in registers 4 to 7, the others on the stack above room for these four; the macros
  save registers 28 and 31 on the stack.
\<close>

theorem CALL_FN_W_mips32_convention:
  fixes st :: "(gp_reg, 32) cpu"
  assumes "length args \<le> 12" "8 dvd unat (regs st (G 29))" "72 \<le> unat (regs st (G 29))" "unat (regs st (G 29)) \<le> unat a"
    "unat a + 4 * (length args + 1) \<le> 2 ^ 32"
    "\<And>s1 s2. callee s1 = Ok s2 \<Longrightarrow> regs s2 (G 29) = regs s1 (G 29) \<and>
      cells s2 (regs st (G 29) - 8) = cells s1 (regs st (G 29) - 8) \<and>
      cells s2 (regs st (G 29) - 4) = cells s1 (regs st (G 29) - 4)"
  shows "\<exists>st1. callee_entry isa_mips32 [G 4, G 5, G 6, G 7] (G 25) 3 0 4 [] orig args (put_words a (orig # args) st) st1 \<and>
    (\<forall>st2. callee st1 = Ok st2 \<longrightarrow>
      (\<exists>st'. CALL_FN_W_mips32 (vg_exec isa_mips32 (valgrind_hooks isa_mips32 f nr callee)) orig args a st =
          Ok (regs st2 (G 2), st') \<and> cells st' = cells st2 \<and> regs st' (G 29) = regs st (G 29) \<and>
        regs st' (G 28) = regs st (G 28) \<and> regs st' (G 31) = regs st (G 31)))"
proof -
  have el: "(offset 2 :: 32 word) = 8" "(offset (Suc 0) :: 32 word) = 4" by (simp_all add: offset_def)
  have c: "list_all (\<lambda>(x, p). place_val (regs st (G 29)) 0 a s2 p = place_val (regs st (G 29)) 0 a s1 p)
      [(G 29, Reg (G 29) (mips32_frame n)), (G 28, Stack 2), (G 31, Stack 1)]" if "callee s1 = Ok s2" for s1 s2 n
    using assms(6) [OF that] by (simp add: el)
  from mips32.call [of args "[]" st a callee orig f nr] assms(1-5) c show ?thesis
    by (simp add: slots_def CALL_FN_W_asm_mips [OF assms(1)] del: put_words.simps) blast
qed

text \<open>
  C34: The macros for 0 to 12 arguments on mips64: the called function finds its address in register 25, the first eight arguments in
  registers 4 to 11 and the others on the stack from the stack pointer up, with the memory of the caller intact. The stack
  pointer is that of the caller minus one word for each argument on the stack, so it is aligned to 8 bytes, but for 9 and
  11 arguments not to the 16 bytes of the ABI. When the function returns, having kept the stack
  pointer, the macro yields its result and the caller has its stack pointer back.
\<close>

theorem CALL_FN_W_mips64_convention:
  fixes st :: "(gp_reg, 64) cpu"
  assumes len: "length args \<le> 12" and aligned: "16 dvd unat (regs st (G 29))" and room: "40 \<le> unat (regs st (G 29))"
    and arr: "unat (regs st (G 29)) \<le> unat a" "unat a + 8 * (length args + 1) \<le> 2 ^ 64"
    and callee: "\<And>s1 s2. callee s1 = Ok s2 \<Longrightarrow> regs s2 (G 29) = regs s1 (G 29)"
  shows "\<exists>st1. callee_entry isa_mips64 [G 4, G 5, G 6, G 7, G 8, G 9, G 10, G 11] (G 25) 3 0 0 [] orig args
      (put_words a (orig # args) st) st1 \<and>
    (16 dvd unat (regs st1 (G 29)) \<longleftrightarrow> length args \<notin> {9, 11}) \<and>
    (\<forall>st2. callee st1 = Ok st2 \<longrightarrow>
      (\<exists>st'. CALL_FN_W_mips64 (vg_exec isa_mips64 (valgrind_hooks isa_mips64 f nr callee)) orig args a st =
          Ok (regs st2 (G 2), st') \<and> cells st' = cells st2 \<and> regs st' (G 29) = regs st (G 29)))"
proof -
  have "8 dvd unat (regs st (G 29))" using aligned by presburger
  with mips64.call [of args "[]" st a callee orig f nr] assms obtain st1 where
    st1: "callee_entry isa_mips64 [G 4, G 5, G 6, G 7, G 8, G 9, G 10, G 11] (G 25) 3 0 0 [] orig args (put_words a (orig # args) st) st1"
    "regs st1 (G 29) + offset (length args - 8) = regs st (G 29)"
    "\<forall>st2. callee st1 = Ok st2 \<longrightarrow>
      (\<exists>st'. CALL_FN_W_mips64 (vg_exec isa_mips64 (valgrind_hooks isa_mips64 f nr callee)) orig args a st =
          Ok (regs st2 (G 2), st') \<and> cells st' = cells st2 \<and> regs st' (G 29) = regs st (G 29))"
    by (simp add: slots_def CALL_FN_W_asm_mips64 [OF assms(1)] del: put_words.simps) blast
  from st1(2) have "regs st1 (G 29) = regs st (G 29) - offset (length args - 8)" by (simp add: algebra_simps)
  moreover have "word_bytes TYPE(64) * (length args - 8) \<le> unat (regs st (G 29))" using len room by simp
  ultimately have sp: "unat (regs st1 (G 29)) = unat (regs st (G 29)) - 8 * (length args - 8)"
    by (simp add: unat_below)
  have "16 dvd unat (regs st1 (G 29)) \<longleftrightarrow> length args \<notin> {9, 11}"
    unfolding sp using aligned room by (rule_tac upto_12 [OF len]) (simp_all, presburger+)
  with st1 show ?thesis by blast
qed

text \<open>A function of nine arguments that subtracts the last one, which is on the stack, from the first.\<close>

definition diff_mips64 :: "(gp_reg, 64) cpu \<Rightarrow> (gp_reg, 64) cpu outcome" where
  "diff_mips64 s = bind_o (fetch (regs s (G 29)) s) (\<lambda>v. Ok (set_reg (G 2) (regs s (G 4) - v) s))"

definition sample_mips64 :: "(gp_reg, 64) cpu" where
  "sample_mips64 = \<lparr>regs = (\<lambda>_. 0)(G 29 := 0x1000), cells = (\<lambda>_. None)\<rparr>"

abbreviation run_mips64 :: "(gp_reg, 64) executor" where
  "run_mips64 \<equiv> vg_exec isa_mips64 (valgrind_hooks isa_mips64 (\<lambda>_. 0) \<lparr>nraddr = 0, r2 = 0\<rparr> diff_mips64)"

theorem CALL_FN_W_mips64_convention_witness:
  "\<exists>st'. CALL_FN_W_mips64 run_mips64 7 [50, 2, 3, 4, 5, 6, 7, 8, 9] 0x2000 sample_mips64 = Ok (41, st') \<and>
     regs st' (G 29) = 0x1000"
proof -
  let ?args = "[50, 2, 3, 4, 5, 6, 7, 8, 9] :: 64 word list"
  have "diff_mips64 s1 = Ok s2 \<Longrightarrow> regs s2 (G 29) = regs s1 (G 29)" for s1 s2
    by (auto simp: diff_mips64_def fetch_def split: option.splits)
  from CALL_FN_W_mips64_convention [of ?args sample_mips64 "0x2000" diff_mips64 7 "\<lambda>_. 0" "\<lparr>nraddr = 0, r2 = 0\<rparr>"] this
  obtain st1 where entry: "callee_entry isa_mips64 [G 4, G 5, G 6, G 7, G 8, G 9, G 10, G 11] (G 25) 3 0 0 [] 7 ?args
      (put_words 0x2000 (7 # ?args) sample_mips64) st1"
    and ret: "\<And>st2. diff_mips64 st1 = Ok st2 \<Longrightarrow>
      \<exists>st'. CALL_FN_W_mips64 run_mips64 7 ?args 0x2000 sample_mips64 = Ok (regs st2 (G 2), st') \<and>
        cells st' = cells st2 \<and> regs st' (G 29) = regs sample_mips64 (G 29)"
    by (auto simp: sample_mips64_def simp del: put_words.simps)
  from entry have "diff_mips64 st1 = Ok (set_reg (G 2) 41 st1)"
    by (simp add: diff_mips64_def callee_entry_def fetch_def)
  from ret [OF this] show ?thesis by (auto simp: sample_mips64_def)
qed

end
